(* ===== verification/Prelude.thy ===== *)
theory Prelude
  imports Complex_Main "HOL-Library.AList" "HOL-Library.Multiset"
begin

text \<open>
  What the components share: the pieces of the JavaScript standard library the source uses
  (keyed maps and sets in insertion order, nullish coalescing, decimal rendering, the stable
  array sort by a comparator), the generic lemmas about them, and two interfaces stated as
  locales: a comparator that is a total preorder, and a state machine with an invariant.

  JavaScript numbers that carry money, ratios and durations are exact rationals (\<open>rat\<close>):
  IEEE rounding, infinities and not-a-number are outside the model, and where the source tests
  for them the definition says so.
\<close>

section \<open>Fact collections\<close>

named_theorems jsmap \<open>lookup, key and sum laws of insertion-ordered maps\<close>
named_theorems ops \<open>unfolding equations of the operations of a component\<close>

section \<open>Nullish values\<close>

text \<open>The operator \<open>a ?? d\<close>: the default stands in for null and undefined only.\<close>

definition nullish :: "'a option \<Rightarrow> 'a \<Rightarrow> 'a" where
  "nullish a d = (case a of None \<Rightarrow> d | Some x \<Rightarrow> x)"

lemma nullish_simps [simp]:
  "nullish None d = d"
  "nullish (Some x) d = x"
  by (simp_all add: nullish_def)

text \<open>The operator \<open>a ?? b\<close> where \<open>b\<close> may be missing too.\<close>

definition or_else :: "'a option \<Rightarrow> 'a option \<Rightarrow> 'a option" where
  "or_else a b = (case a of None \<Rightarrow> b | Some x \<Rightarrow> Some x)"

lemma or_else_simps [simp]:
  "or_else None b = b"
  "or_else (Some x) b = Some x"
  by (simp_all add: or_else_def)

section \<open>Keyed maps in insertion order\<close>

text \<open>
  A JavaScript \<open>Map\<close> iterates in insertion order, \<open>set\<close> keeps the position of a
  key it already has, and \<open>delete\<close> of a missing key does nothing. An association list
  with the library's \<open>update\<close> and \<open>delete\<close> does exactly this. A \<open>Set\<close> is a
  list without repetitions.
\<close>

type_synonym ('k, 'v) jsmap = "('k \<times> 'v) list"

abbreviation jget :: "('k, 'v) jsmap \<Rightarrow> 'k \<Rightarrow> 'v option" where
  "jget m k \<equiv> map_of m k"

abbreviation jset :: "'k \<Rightarrow> 'v \<Rightarrow> ('k, 'v) jsmap \<Rightarrow> ('k, 'v) jsmap" where
  "jset k v m \<equiv> AList.update k v m"

abbreviation jdelete :: "'k \<Rightarrow> ('k, 'v) jsmap \<Rightarrow> ('k, 'v) jsmap" where
  "jdelete k m \<equiv> AList.delete k m"

abbreviation jvalues :: "('k, 'v) jsmap \<Rightarrow> 'v list" where
  "jvalues m \<equiv> map snd m"

definition keyed :: "('k, 'v) jsmap \<Rightarrow> bool" where
  "keyed m \<longleftrightarrow> distinct (map fst m)"

definition sadd :: "'a \<Rightarrow> 'a list \<Rightarrow> 'a list" where
  "sadd x xs = (if x \<in> set xs then xs else xs @ [x])"

definition sdelete :: "'a \<Rightarrow> 'a list \<Rightarrow> 'a list" where
  "sdelete x xs = filter (\<lambda>y. y \<noteq> x) xs"

lemma set_sadd [simp]: "set (sadd x xs) = insert x (set xs)"
  by (auto simp: sadd_def)

lemma distinct_sadd [simp]: "distinct (sadd x xs) = distinct xs"
  by (auto simp: sadd_def)

lemma set_sdelete [simp]: "set (sdelete x xs) = set xs - {x}"
  by (auto simp: sdelete_def)

lemma distinct_sdelete [simp]: "distinct xs \<Longrightarrow> distinct (sdelete x xs)"
  by (simp add: sdelete_def)

lemma sdelete_id [simp]: "x \<notin> set xs \<Longrightarrow> sdelete x xs = xs"
  by (induction xs) (auto simp: sdelete_def)

lemma keyed_Nil [simp]: "keyed []"
  by (simp add: keyed_def)

lemma jget_jset [jsmap, simp]: "jget (jset k v m) k' = (if k' = k then Some v else jget m k')"
  by (simp add: update_conv')

lemma jget_jdelete [jsmap, simp]: "jget (jdelete k m) k' = (if k' = k then None else jget m k')"
  by (simp add: delete_conv')

lemma keyed_jset [jsmap, simp]: "keyed m \<Longrightarrow> keyed (jset k v m)"
  by (simp add: keyed_def distinct_update)

lemma keyed_jdelete [jsmap, simp]: "keyed m \<Longrightarrow> keyed (jdelete k m)"
  by (simp add: keyed_def distinct_delete)

lemma jdelete_missing: "jget m k = None \<Longrightarrow> jdelete k m = m"
  by (induction m) (auto split: if_splits)

lemma jset_new: "k \<notin> fst ` set m \<Longrightarrow> jset k v m = m @ [(k, v)]"
  by (induction m) auto

text \<open>Sums over the values of a map, when one entry is written or removed.\<close>

definition jsum :: "('v \<Rightarrow> rat) \<Rightarrow> ('k, 'v) jsmap \<Rightarrow> rat" where
  "jsum f m = sum_list (map (\<lambda>p. f (snd p)) m)"

lemma jsum_simps [simp]:
  "jsum f [] = 0"
  "jsum f (p # m) = f (snd p) + jsum f m"
  by (simp_all add: jsum_def)

lemma jsum_jset [jsmap]:
  "keyed m \<Longrightarrow> jsum f (jset k v m) =
     jsum f m - (case jget m k of None \<Rightarrow> 0 | Some w \<Rightarrow> f w) + f v"
  by (induction m) (auto simp: keyed_def)

lemma jsum_jdelete [jsmap]:
  "keyed m \<Longrightarrow> jsum f (jdelete k m) =
     jsum f m - (case jget m k of None \<Rightarrow> 0 | Some w \<Rightarrow> f w)"
proof (induction m)
  case Nil
  show ?case by simp
next
  case (Cons p m)
  have km: "keyed m" and nk: "fst p \<notin> fst ` set m"
    using Cons.prems by (auto simp: keyed_def)
  show ?case
  proof (cases "fst p = k")
    case True
    then have "jget m k = None" using nk by (auto simp: map_of_eq_None_iff)
    then show ?thesis using True by (cases p) (simp add: jdelete_missing)
  next
    case False
    then show ?thesis using Cons.IH [OF km] by (cases p) simp
  qed
qed

lemma jsum_nonneg:
  "(\<And>k v. (k, v) \<in> set m \<Longrightarrow> 0 \<le> f v) \<Longrightarrow> 0 \<le> jsum f m"
  by (induction m) force+

lemma keyed_in_set_iff: "keyed m \<Longrightarrow> (k, v) \<in> set m \<longleftrightarrow> jget m k = Some v"
  by (simp add: keyed_def)

section \<open>Rendering numbers\<close>

text \<open>Decimal digits of a natural number, as template strings print integers.\<close>

fun show_nat :: "nat \<Rightarrow> string" where
  "show_nat n =
     (if n < 10 then [char_of (48 + n)] else show_nat (n div 10) @ [char_of (48 + n mod 10)])"

declare show_nat.simps [simp del]

lemma show_nat_digit [simp]: "n < 10 \<Longrightarrow> show_nat n = [char_of (48 + n)]"
  by (subst show_nat.simps) simp

lemma show_nat_step: "10 \<le> n \<Longrightarrow> show_nat n = show_nat (n div 10) @ [char_of (48 + n mod 10)]"
  by (subst show_nat.simps) simp

lemma show_nat_nonempty [simp]: "show_nat n \<noteq> []"
  by (subst show_nat.simps) simp

definition show_int :: "int \<Rightarrow> string" where
  "show_int i = (if i < 0 then ''-'' @ show_nat (nat (- i)) else show_nat (nat i))"

definition show_bool :: "bool \<Rightarrow> string" where
  "show_bool b = (if b then ''true'' else ''false'')"

text \<open>
  \<open>Number.prototype.toFixed(d)\<close>: the nearest multiple of \<open>10^-d\<close>, the larger one
  on a tie, with the sign of the value in front.
\<close>

definition fixed_units :: "nat \<Rightarrow> rat \<Rightarrow> nat" where
  "fixed_units d x = nat \<lfloor>x * 10 ^ d + 1 / 2\<rfloor>"

definition pad_left :: "nat \<Rightarrow> string \<Rightarrow> string" where
  "pad_left n s = replicate (n - length s) CHR ''0'' @ s"

definition to_fixed_nonneg :: "nat \<Rightarrow> rat \<Rightarrow> string" where
  "to_fixed_nonneg d x =
     (let n = fixed_units d x
      in if d = 0 then show_nat n
         else show_nat (n div 10 ^ d) @ ''.'' @ pad_left d (show_nat (n mod 10 ^ d)))"

definition to_fixed :: "nat \<Rightarrow> rat \<Rightarrow> string" where
  "to_fixed d x = (if x < 0 then ''-'' @ to_fixed_nonneg d (- x) else to_fixed_nonneg d x)"

fun join :: "string \<Rightarrow> string list \<Rightarrow> string" where
  "join sep [] = []"
| "join sep [s] = s"
| "join sep (s # ss) = s @ sep @ join sep ss"

end
