(* ===== verification/Machine.thy ===== *)
theory Machine
  imports Prelude
begin

text \<open>
  Components with state: the states a step relation reaches from its initial states, and the
  interface under which an invariant of one step becomes an invariant of every reachable state.
  The ledger and the lease protocol interpret it.
\<close>

inductive reachable :: "('s \<Rightarrow> bool) \<Rightarrow> ('s \<Rightarrow> 's \<Rightarrow> bool) \<Rightarrow> 's \<Rightarrow> bool"
  for init :: "'s \<Rightarrow> bool" and step :: "'s \<Rightarrow> 's \<Rightarrow> bool" where
  initial: "init s \<Longrightarrow> reachable init step s"
| further: "reachable init step s \<Longrightarrow> step s t \<Longrightarrow> reachable init step t"

inductive steps :: "('s \<Rightarrow> 's \<Rightarrow> bool) \<Rightarrow> 's \<Rightarrow> 's \<Rightarrow> bool"
  for step :: "'s \<Rightarrow> 's \<Rightarrow> bool" where
  none: "steps step s s"
| more: "steps step s t \<Longrightarrow> step t u \<Longrightarrow> steps step s u"

lemma reachable_mono:
  assumes "reachable init step s" and "\<And>s t. step s t \<Longrightarrow> step' s t"
  shows "reachable init step' s"
  using assms(1) by (induction rule: reachable.induct) (auto intro: reachable.intros assms(2))

locale machine =
  fixes init :: "'s \<Rightarrow> bool"
    and step :: "'s \<Rightarrow> 's \<Rightarrow> bool"
    and inv :: "'s \<Rightarrow> bool"
  assumes init_inv: "init s \<Longrightarrow> inv s"
    and step_inv: "inv s \<Longrightarrow> step s t \<Longrightarrow> inv t"
begin

lemma reachable_inv: "reachable init step s \<Longrightarrow> inv s"
  by (induction rule: reachable.induct) (auto intro: init_inv step_inv)

lemma steps_inv: "steps step s t \<Longrightarrow> inv s \<Longrightarrow> inv t"
  by (induction rule: steps.induct) (auto intro: step_inv)

end

text \<open>A quantity that every step keeps related to its former value stays related along runs.\<close>

locale monotone_machine = machine +
  fixes rel :: "'b \<Rightarrow> 'b \<Rightarrow> bool" and obs :: "'a \<Rightarrow> 'b"
  assumes rel_refl: "rel b b"
    and rel_trans: "rel b c \<Longrightarrow> rel c d \<Longrightarrow> rel b d"
    and step_rel: "inv s \<Longrightarrow> step s t \<Longrightarrow> rel (obs s) (obs t)"
begin

lemma steps_rel: "steps step s t \<Longrightarrow> inv s \<Longrightarrow> rel (obs s) (obs t)"
proof (induction rule: steps.induct)
  case (none s)
  show ?case by (rule rel_refl)
next
  case (more s t u)
  have "inv t" using more by (auto intro: steps_inv)
  then show ?case using more by (blast intro: rel_trans step_rel)
qed

end

end
