(* ===== verification/Budget_Schema.thy ===== *)
theory Budget_Schema
  imports Prelude
begin

text \<open>
  The typed data of the budget layer (\<open>packages/schema/src/budget.ts\<close>,
  \<open>processing.ts\<close>, \<open>auth.ts\<close>, \<open>primitives.ts\<close>) and the validation the schemas
  run where the code calls \<open>parse\<close>. A property that may be absent is an option; one that
  may be absent or null is an option of an option.
\<close>

section \<open>Vocabulary\<close>

datatype cost_knowledge = Exact | Estimated | UnknownCost

datatype billing_knowledge = ProvenZero | SubscriptionEntitlement | Metered | UnknownBilling

datatype credential_route = VendorNative | ManagedApiKey | LocalRoute

datatype auth_verification = VerPassed | VerFailed | VerNotRun

datatype intent =
  IntPlan | IntSpec | IntImplement | IntCreateFromScratch | IntRepair | IntReview | IntVerify
| IntSynthesize | IntExplain | IntAudit

datatype signal_quality = SqExact | SqNative | SqObserved | SqManual | SqUnknown

datatype quota_request_kind = TextRequest | ImageRequest

datatype routing_goal = GoalAuto | GoalQuality | GoalEconomy

datatype paid_fallback = FallbackNever | FallbackWhenUnavailable | FallbackWithinCap

datatype auth_mode = LocalSession | ApiKey

text \<open>Certainty is ordered from the best evidence to none.\<close>

instantiation cost_knowledge :: linorder
begin
fun knowledge_rank :: "cost_knowledge \<Rightarrow> nat" where
  "knowledge_rank Exact = 0"
| "knowledge_rank Estimated = 1"
| "knowledge_rank UnknownCost = 2"
definition less_eq_cost_knowledge :: "cost_knowledge \<Rightarrow> cost_knowledge \<Rightarrow> bool" where
  "less_eq_cost_knowledge a b \<longleftrightarrow> knowledge_rank a \<le> knowledge_rank b"
definition less_cost_knowledge :: "cost_knowledge \<Rightarrow> cost_knowledge \<Rightarrow> bool" where
  "less_cost_knowledge a b \<longleftrightarrow> knowledge_rank a < knowledge_rank b"
instance
proof
  fix a b c :: cost_knowledge
  show "a < b \<longleftrightarrow> a \<le> b \<and> \<not> b \<le> a"
    by (auto simp: less_eq_cost_knowledge_def less_cost_knowledge_def)
  show "a \<le> a" by (simp add: less_eq_cost_knowledge_def)
  show "a \<le> b \<Longrightarrow> b \<le> c \<Longrightarrow> a \<le> c" by (simp add: less_eq_cost_knowledge_def)
  show "a \<le> b \<Longrightarrow> b \<le> a \<Longrightarrow> a = b"
    by (cases a; cases b) (simp_all add: less_eq_cost_knowledge_def)
  show "a \<le> b \<or> b \<le> a" by (auto simp: less_eq_cost_knowledge_def)
qed
end

lemma max_cost_knowledge [simp]:
  "max Exact k = k" "max k Exact = k"
  "max UnknownCost k = UnknownCost" "max k UnknownCost = UnknownCost"
  "max Estimated Estimated = Estimated"
  by (cases k; simp add: max_def less_eq_cost_knowledge_def)+

lemma max_eq_UnknownCost [simp]:
  "max a b = UnknownCost \<longleftrightarrow> a = UnknownCost \<or> b = UnknownCost"
  by (cases a; cases b) (simp_all add: max_def less_eq_cost_knowledge_def)

section \<open>Cost evidence and its validation\<close>

datatype processing_kind =
  PkIncluded | PkPaidCredits | PkCash | PkValuation | PkUnknown

record processing_cost_basis =
  pcb_nativeMode :: "string option"
  pcb_kind :: processing_kind
  pcb_source :: string
  pcb_debit_unobserved :: bool

datatype processing_preference = PpStandard | PpFast | PpEconomy

datatype processing_observed = PoStandard | PoFast | PoEconomy | PoMixed | PoUnknown

record processing_receipt =
  pr_requested :: "processing_preference option"
  pr_submitted :: "processing_preference option"
  pr_submittedNative :: "string option"
  pr_observed :: processing_observed
  pr_observedNative :: "string list"
  pr_reason :: "string option"
  pr_source :: string

datatype usage_cost_kind = UkCash | UkValuation | UkUnknown

record usage_cost_basis =
  ucb_kind :: usage_cost_kind
  ucb_source :: string

record cost_evidence =
  ce_processing :: "processing_cost_basis option"
  ce_knowledge :: cost_knowledge
  ce_billing :: billing_knowledge
  ce_source :: string
  ce_provenance :: "string list"
  ce_estimatedUsd :: "rat option"

datatype paid_budget = Unlimited | Finite rat

definition valid_paid_budget :: "paid_budget \<Rightarrow> bool" where
  "valid_paid_budget b = (case b of Unlimited \<Rightarrow> True | Finite m \<Rightarrow> 0 \<le> m)"

text \<open>
  White space of the regular expression class \<open>\s\<close> within ASCII; strings are their
  UTF-8 bytes.
\<close>

definition is_space :: "char \<Rightarrow> bool" where
  "is_space c \<longleftrightarrow> of_char c \<in> {9, 10, 11, 12, 13, 32 :: nat}"

definition valid_id :: "string \<Rightarrow> bool" where
  "valid_id s \<longleftrightarrow> s \<noteq> []"

definition non_blank :: "string \<Rightarrow> bool" where
  "non_blank s \<longleftrightarrow> s \<noteq> [] \<and> (\<exists>c \<in> set s. \<not> is_space c)"

definition valid_processing_cost_basis :: "processing_cost_basis \<Rightarrow> bool" where
  "valid_processing_cost_basis b \<longleftrightarrow>
     (case pcb_nativeMode b of None \<Rightarrow> True | Some m \<Rightarrow> non_blank m) \<and> non_blank (pcb_source b)"

definition valid_cost_evidence :: "cost_evidence \<Rightarrow> bool" where
  "valid_cost_evidence c \<longleftrightarrow>
     (case ce_processing c of None \<Rightarrow> True | Some b \<Rightarrow> valid_processing_cost_basis b) \<and>
     ce_source c \<noteq> [] \<and>
     ce_provenance c \<noteq> [] \<and> (\<forall>p \<in> set (ce_provenance c). p \<noteq> []) \<and>
     (case ce_estimatedUsd c of None \<Rightarrow> True | Some e \<Rightarrow> 0 \<le> e)"

section \<open>Leases and observations\<close>

datatype lease_state = Reserved | Settled | Cancelled

record budget_lease =
  bl_lease_id :: string
  bl_task_id :: string
  bl_attempt_id :: "string option"
  bl_intent :: intent
  bl_harness_id :: string
  bl_model_hint :: "string option"
  bl_cost :: cost_evidence
  bl_reason :: "string list"
  bl_created_at :: string
  bl_state :: lease_state

definition valid_lease :: "budget_lease \<Rightarrow> bool" where
  "valid_lease l \<longleftrightarrow>
     valid_id (bl_lease_id l) \<and> valid_id (bl_task_id l) \<and>
     (case bl_attempt_id l of None \<Rightarrow> True | Some a \<Rightarrow> valid_id a) \<and>
     valid_id (bl_harness_id l) \<and> valid_cost_evidence (bl_cost l)"

datatype observation_kind = ObsSpend | ObsRateLimited | ObsQuotaConstraint | ObsCooldown

record budget_observation =
  bo_harness_id :: string
  bo_credential_route :: "credential_route option"
  bo_subject_id :: "string option option"
  bo_ts :: string
  bo_quality :: signal_quality
  bo_kind :: observation_kind
  bo_usd :: "rat option"
  bo_constraint_id :: "string option"
  bo_applies_to_request_kinds :: "quota_request_kind list option"
  bo_applies_to_models :: "string list option option"
  bo_applies_to_model_prefixes :: "string list option"
  bo_applies_to_unspecified_model :: "bool option"
  bo_used_ratio :: "rat option option"
  bo_window_seconds :: "rat option option"
  bo_resets_at :: "string option option"
  bo_cooldown_until :: "string option option"
  bo_detail :: "string option"

section \<open>Routing records\<close>

datatype route_ranking_reason =
  SubscriptionEntitlementFirst | LowestIncrementalCash | QualityTierReason
| ExpiringQuotaSlack | AllIncrementalCashUnknown | DelegateEffectiveFirst
| ExplicitPrimary | DeclaredOrder

record route_ranking_entry =
  rre_harness_id :: string
  rre_billing_knowledge :: billing_knowledge
  rre_incremental_cost_usd :: "rat option"
  rre_eligible :: bool

record route_ranking_rationale =
  rrr_goal :: routing_goal
  rrr_paid_fallback :: paid_fallback
  rrr_order :: "string list"
  rrr_dropped :: "string list"
  rrr_reason :: route_ranking_reason
  rrr_entries :: "route_ranking_entry list"

record quality_tier_route =
  qtr_harness :: string
  qtr_model :: string
  qtr_effort :: string

type_synonym quality_tier = "quality_tier_route list"
type_synonym quality_tier_set = "(intent, quality_tier list) jsmap"

end
