(* ===== verification/Quota.thy ===== *)
theory Quota
  imports Json Budget_Schema
begin

text \<open>
  Subscription quota evidence: \<open>packages/schema/src/quota.ts\<close>,
  \<open>quota-request-kind.ts\<close>, \<open>quota-availability.ts\<close>, \<open>quota-scope.ts\<close> and
  \<open>packages/budget/src/quota-model-scope.ts\<close>. \<open>Date.parse\<close> is the argument
  \<open>dp\<close> (\<open>None\<close> for not-a-number): every statement holds for every date parser.
\<close>

section \<open>Sources and their traits\<close>

datatype quota_source =
  CodexAppServer | CodexRollout | ClaudeStatusline | ClaudeApiRetry | ClaudeOauthUsage
| AgyCommandUsage | CursorRateLimit | GrokRateLimit | ClaudeRateLimitEvent
| CodexAppServerEvent | CodexImageResponse

fun quota_source_name :: "quota_source \<Rightarrow> string" where
  "quota_source_name CodexAppServer = ''codex_app_server''"
| "quota_source_name CodexRollout = ''codex_rollout''"
| "quota_source_name ClaudeStatusline = ''claude_statusline''"
| "quota_source_name ClaudeApiRetry = ''claude_api_retry''"
| "quota_source_name ClaudeOauthUsage = ''claude_oauth_usage''"
| "quota_source_name AgyCommandUsage = ''agy_command_usage''"
| "quota_source_name CursorRateLimit = ''cursor_rate_limit''"
| "quota_source_name GrokRateLimit = ''grok_rate_limit''"
| "quota_source_name ClaudeRateLimitEvent = ''claude_rate_limit_event''"
| "quota_source_name CodexAppServerEvent = ''codex_app_server_event''"
| "quota_source_name CodexImageResponse = ''codex_image_response''"

definition all_quota_sources :: "quota_source list" where
  "all_quota_sources =
     [CodexAppServer, CodexRollout, ClaudeStatusline, ClaudeApiRetry, ClaudeOauthUsage,
      AgyCommandUsage, CursorRateLimit, GrokRateLimit, ClaudeRateLimitEvent,
      CodexAppServerEvent, CodexImageResponse]"

datatype snapshot_mode = FullMode | WindowMode

record quota_source_traits =
  qst_snapshotMode :: snapshot_mode
  qst_vendorAuthenticated :: bool
  qst_refreshDemandHarness :: "string option"
  qst_producedByRefresher :: bool

fun quotaSourceTraits :: "quota_source \<Rightarrow> quota_source_traits" where
  "quotaSourceTraits CodexAppServer = \<lparr>qst_snapshotMode = FullMode, qst_vendorAuthenticated = True,
     qst_refreshDemandHarness = Some ''codex'', qst_producedByRefresher = True\<rparr>"
| "quotaSourceTraits CodexRollout = \<lparr>qst_snapshotMode = FullMode, qst_vendorAuthenticated = False,
     qst_refreshDemandHarness = None, qst_producedByRefresher = False\<rparr>"
| "quotaSourceTraits ClaudeStatusline = \<lparr>qst_snapshotMode = FullMode, qst_vendorAuthenticated = False,
     qst_refreshDemandHarness = None, qst_producedByRefresher = True\<rparr>"
| "quotaSourceTraits ClaudeApiRetry = \<lparr>qst_snapshotMode = FullMode, qst_vendorAuthenticated = False,
     qst_refreshDemandHarness = None, qst_producedByRefresher = False\<rparr>"
| "quotaSourceTraits ClaudeOauthUsage = \<lparr>qst_snapshotMode = FullMode, qst_vendorAuthenticated = True,
     qst_refreshDemandHarness = Some ''claude'', qst_producedByRefresher = True\<rparr>"
| "quotaSourceTraits AgyCommandUsage = \<lparr>qst_snapshotMode = FullMode, qst_vendorAuthenticated = True,
     qst_refreshDemandHarness = Some ''agy'', qst_producedByRefresher = True\<rparr>"
| "quotaSourceTraits CursorRateLimit = \<lparr>qst_snapshotMode = FullMode, qst_vendorAuthenticated = False,
     qst_refreshDemandHarness = None, qst_producedByRefresher = False\<rparr>"
| "quotaSourceTraits GrokRateLimit = \<lparr>qst_snapshotMode = FullMode, qst_vendorAuthenticated = False,
     qst_refreshDemandHarness = None, qst_producedByRefresher = False\<rparr>"
| "quotaSourceTraits ClaudeRateLimitEvent = \<lparr>qst_snapshotMode = WindowMode, qst_vendorAuthenticated = False,
     qst_refreshDemandHarness = None, qst_producedByRefresher = False\<rparr>"
| "quotaSourceTraits CodexAppServerEvent = \<lparr>qst_snapshotMode = WindowMode, qst_vendorAuthenticated = False,
     qst_refreshDemandHarness = None, qst_producedByRefresher = False\<rparr>"
| "quotaSourceTraits CodexImageResponse = \<lparr>qst_snapshotMode = WindowMode, qst_vendorAuthenticated = False,
     qst_refreshDemandHarness = None, qst_producedByRefresher = False\<rparr>"

definition reactive_cooldown_source :: "(string, quota_source) jsmap" where
  "reactive_cooldown_source =
     [(''codex'', CodexRollout), (''claude'', ClaudeApiRetry),
      (''cursor'', CursorRateLimit), (''grok'', GrokRateLimit)]"

definition legacyV320QuotaSource :: "quota_source \<Rightarrow> quota_source" where
  "legacyV320QuotaSource s =
     (if s = CursorRateLimit \<or> s = GrokRateLimit then ClaudeApiRetry else s)"

definition quotaRefreshDemandHarnesses :: "string list" where
  "quotaRefreshDemandHarnesses =
     sorted_set (List.map_filter (\<lambda>s. qst_refreshDemandHarness (quotaSourceTraits s)) all_quota_sources)"

definition quotaSourcesProducedByRefreshers :: "quota_source list" where
  "quotaSourcesProducedByRefreshers =
     filter (\<lambda>s. qst_producedByRefresher (quotaSourceTraits s)) all_quota_sources"

section \<open>Windows and snapshots\<close>

datatype quota_freshness = FreshQ | StaleQ | UnknownQ

record quota_subject =
  qs_harness :: string
  qs_credential_route :: credential_route
  qs_plan_label :: "string option"
  qs_subject_id :: "string option"

record quota_constraint =
  qc_id :: string
  qc_label :: string
  qc_applies_to_models :: "string list option option"
  qc_applies_to_model_prefixes :: "string list option"
  qc_applies_to_unspecified_model :: "bool option"
  qc_applies_to_request_kinds :: "quota_request_kind list option"
  qc_used_ratio :: "rat option"
  qc_window_seconds :: "rat option"
  qc_resets_at :: "string option"
  qc_cooldown_until :: "string option"

record quota_snapshot =
  qn_subject :: quota_subject
  qn_constraints :: "quota_constraint list"
  qn_source :: quota_source
  qn_observed_at :: string
  qn_freshness :: quota_freshness

text \<open>The scope list where the code tests \<open>== null\<close>: undefined and null alike.\<close>

definition flat :: "'a option option \<Rightarrow> 'a option" where
  "flat x = (case x of None \<Rightarrow> None | Some y \<Rightarrow> y)"

lemma flat_simps [simp]: "flat None = None" "flat (Some y) = y"
  by (simp_all add: flat_def)

definition quotaConstraintAppliesToRequestKind ::
  "quota_request_kind list option \<Rightarrow> quota_request_kind \<Rightarrow> bool" where
  "quotaConstraintAppliesToRequestKind kinds k =
     (case kinds of None \<Rightarrow> True | Some ks \<Rightarrow> k \<in> set ks)"

definition quotaModelPrefixMatches :: "string list option \<Rightarrow> string \<Rightarrow> bool" where
  "quotaModelPrefixMatches prefixes model =
     (case prefixes of None \<Rightarrow> False
      | Some ps \<Rightarrow> \<exists>p \<in> set ps. p \<noteq> [] \<and> starts_with model p)"

text \<open>
  The admission predicate. The model argument is undefined (\<open>None\<close>), null
  (\<open>Some None\<close>) or a name.
\<close>

definition quotaConstraintAppliesToModel ::
  "string list option \<Rightarrow> string list option \<Rightarrow> bool option \<Rightarrow> string option option \<Rightarrow> bool" where
  "quotaConstraintAppliesToModel scoped prefixes unspecified model =
     (if (scoped = None \<and> nullish prefixes [] = []) \<or> model = None then True
      else case model of
        None \<Rightarrow> True
      | Some None \<Rightarrow> unspecified = Some True
      | Some (Some m) \<Rightarrow>
          (case scoped of None \<Rightarrow> False | Some ms \<Rightarrow> m \<in> set ms) \<or> quotaModelPrefixMatches prefixes m)"

section \<open>Identities\<close>

fun request_kind_name :: "quota_request_kind \<Rightarrow> string" where
  "request_kind_name TextRequest = ''text''"
| "request_kind_name ImageRequest = ''image''"

fun credential_route_name :: "credential_route \<Rightarrow> string" where
  "credential_route_name VendorNative = ''vendor_native''"
| "credential_route_name ManagedApiKey = ''managed_api_key''"
| "credential_route_name LocalRoute = ''local''"

definition quota_constraint_fields :: "quota_constraint \<Rightarrow> json list" where
  "quota_constraint_fields c =
     [JStr (qc_id c),
      (case qc_window_seconds c of None \<Rightarrow> JNull | Some w \<Rightarrow> JNum w),
      (case flat (qc_applies_to_models c) of None \<Rightarrow> JNull
       | Some ms \<Rightarrow> JArr (map JStr (sorted_set ms))),
      JBool (qc_applies_to_unspecified_model c = Some True)]
     @ (case qc_applies_to_model_prefixes c of None \<Rightarrow> []
        | Some ps \<Rightarrow> if ps = [] then [] else [JArr (map JStr (sorted_set ps))])
     @ (case qc_applies_to_request_kinds c of None \<Rightarrow> []
        | Some ks \<Rightarrow> [JObj [(''requestKinds'', JArr (map JStr (sorted_set (map request_kind_name ks))))]])"

definition quotaConstraintIdentity :: "(rat \<Rightarrow> string) \<Rightarrow> quota_constraint \<Rightarrow> string" where
  "quotaConstraintIdentity num c = json_stringify num (JArr (quota_constraint_fields c))"

text \<open>The separator of the identity's parts is the NUL character.\<close>

definition nul_sep :: string where
  "nul_sep = [char_of (0 :: nat)]"

definition quotaSnapshotIdentity :: "(rat \<Rightarrow> string) \<Rightarrow> quota_snapshot \<Rightarrow> string option" where
  "quotaSnapshotIdentity num s =
     (let base = join nul_sep
        [qs_harness (qn_subject s), credential_route_name (qs_credential_route (qn_subject s)),
         nullish (qs_subject_id (qn_subject s)) '''', quota_source_name (qn_source s)]
      in if qst_snapshotMode (quotaSourceTraits (qn_source s)) = FullMode then Some base
         else case qn_constraints s of
           [c] \<Rightarrow> Some (base @ nul_sep @ quotaConstraintIdentity num c)
         | _ \<Rightarrow> None)"

end
