(* ===== verification/Usage_Evidence.thy ===== *)
theory Usage_Evidence
  imports Machine Quota
begin

text \<open>
  \<open>packages/budget/src/usage-evidence.ts\<close>: what the usage events of one attempt say
  about cash, subscription valuation and unpriced work. The tracker is a record and its methods
  are functions on it; the auth mode \<open>null\<close> is \<open>None\<close>. Amounts are rationals, so
  the finiteness test of the source is the sign test alone.
\<close>

section \<open>Events\<close>

record usage_report =
  us_cost_usd :: "rat option"
  us_estimated :: bool
  us_cost_basis :: "usage_cost_basis option"

record rate_limit_signal =
  rl_constraint_id :: "string option"
  rl_applies_to_request_kinds :: "quota_request_kind list option"
  rl_applies_to_models :: "string list option option"
  rl_applies_to_model_prefixes :: "string list option"
  rl_resets_at :: "string option"
  rl_retry_delay_ms :: "int option"

text \<open>
  The parts of a harness event that the budget layer and the attempt accounting read. The two
  payload fields are those of an authentication switch.
\<close>

datatype harness_event_type =
  EvStarted | EvThinking | EvMessage | EvToolCall | EvToolResult | EvInteractionRequested
| EvFileChange | EvPatchProduced | EvUsage | EvError | EvStatus | EvContext | EvCompleted

record harness_event =
  he_type :: harness_event_type
  he_auth_switched :: bool
  he_to_auth_mode :: "string option"
  he_usage :: "usage_report option"
  he_quota :: "quota_constraint list option"
  he_rate_limit :: "rate_limit_signal option"
  he_credential_route :: "credential_route option"
  he_credential_profile_id :: "string option"
  he_error :: "string option"
  he_processing :: "processing_receipt option"
  he_processing_cost_basis :: "processing_cost_basis option"

record usage_cost_totals =
  ut_cashUsd :: rat
  ut_valuationUsd :: rat
  ut_unknownUsd :: rat
  ut_cashEstimated :: bool
  ut_valuationEstimated :: bool

record observed_amounts =
  oa_cash :: bool
  oa_valuation :: bool
  oa_unknown :: bool

definition anyUsageAmountObserved :: "observed_amounts option \<Rightarrow> bool" where
  "anyUsageAmountObserved obs =
     (case obs of None \<Rightarrow> False | Some o' \<Rightarrow> oa_cash o' \<or> oa_valuation o' \<or> oa_unknown o')"

definition reportedUsageCostUsd :: "harness_event \<Rightarrow> rat option" where
  "reportedUsageCostUsd e =
     (case he_usage e of None \<Rightarrow> None
      | Some u \<Rightarrow> (case us_cost_usd u of None \<Rightarrow> None
                 | Some usd \<Rightarrow> if 0 \<le> usd then Some usd else None))"

section \<open>The meaning of an amount\<close>

definition billing_open :: "processing_cost_basis option \<Rightarrow> bool" where
  "billing_open billing = (case billing of None \<Rightarrow> True | Some b \<Rightarrow> pcb_kind b = PkUnknown)"

definition ordinaryIncluded ::
  "auth_mode option \<Rightarrow> processing_receipt option \<Rightarrow> processing_cost_basis option \<Rightarrow> bool" where
  "ordinaryIncluded route processing billing =
     (if route \<noteq> Some LocalSession then False
      else if (case billing of None \<Rightarrow> False | Some b \<Rightarrow> pcb_kind b = PkIncluded) then True
      else if (case processing of None \<Rightarrow> False
               | Some p \<Rightarrow> pr_reason p = Some ''processing_control_unavailable'') \<and>
              billing_open billing then True
      else if (case processing of None \<Rightarrow> False
               | Some p \<Rightarrow>
                   (pr_submitted p = Some PpStandard \<and> pr_observed p \<noteq> PoFast \<and> pr_observed p \<noteq> PoMixed) \<or>
                   (pr_requested p = None \<and> pr_submitted p = None \<and>
                    pr_reason p \<noteq> Some ''native_explicit'' \<and>
                    \<not> (case pr_reason p of None \<Rightarrow> False
                       | Some r \<Rightarrow> starts_with r ''paid_processing_''))) \<and>
              billing_open billing then True
      else processing = None \<and> billing = None)"

definition usageAmountKind ::
  "auth_mode option \<Rightarrow> usage_cost_basis option \<Rightarrow> processing_receipt option \<Rightarrow>
   processing_cost_basis option \<Rightarrow> usage_cost_kind" where
  "usageAmountKind route amount processing billing =
     (case amount of
        Some a \<Rightarrow> ucb_kind a
      | None \<Rightarrow>
          if route = Some ApiKey then UkCash
          else if ordinaryIncluded route processing billing then UkValuation else UkUnknown)"

definition allowanceDebitUnobserved ::
  "auth_mode option \<Rightarrow> processing_receipt option \<Rightarrow> processing_cost_basis option \<Rightarrow> bool" where
  "allowanceDebitUnobserved route processing billing \<longleftrightarrow>
     (case billing of None \<Rightarrow> False | Some b \<Rightarrow> pcb_debit_unobserved b) \<and>
     ordinaryIncluded route processing billing"

definition reportedCashKnowledge :: "cost_knowledge \<Rightarrow> bool \<Rightarrow> cost_knowledge" where
  "reportedCashKnowledge controllable unobserved = (if unobserved then UnknownCost else controllable)"

section \<open>The tracker\<close>

record usage_tracker =
  tk_totals :: usage_cost_totals
  tk_unknownPaidUsd :: rat
  tk_lastAmountKind :: "usage_cost_kind option"
  tk_processing :: "processing_receipt option"
  tk_billing :: "processing_cost_basis option"
  tk_active :: bool
  tk_activeSawEvent :: bool
  tk_activePaid :: bool
  tk_activeCashReceipt :: bool
  tk_activeAllowance :: bool
  tk_intervalKey :: "string option"
  tk_sawRoute :: bool
  tk_sawCashReceipt :: bool
  tk_sawUnknownUsage :: bool
  tk_sawValuation :: bool
  tk_unresolvedPaid :: bool
  tk_unknownPaidAmount :: bool
  tk_allowanceUnobserved :: bool

definition zero_totals :: usage_cost_totals where
  "zero_totals = \<lparr>ut_cashUsd = 0, ut_valuationUsd = 0, ut_unknownUsd = 0,
     ut_cashEstimated = False, ut_valuationEstimated = False\<rparr>"

definition new_tracker :: "usage_cost_totals option \<Rightarrow> usage_tracker" where
  "new_tracker totals = \<lparr>tk_totals = nullish totals zero_totals, tk_unknownPaidUsd = 0,
     tk_lastAmountKind = None, tk_processing = None, tk_billing = None, tk_active = False,
     tk_activeSawEvent = False, tk_activePaid = False, tk_activeCashReceipt = False,
     tk_activeAllowance = False, tk_intervalKey = None, tk_sawRoute = False,
     tk_sawCashReceipt = False, tk_sawUnknownUsage = False, tk_sawValuation = False,
     tk_unresolvedPaid = False, tk_unknownPaidAmount = False, tk_allowanceUnobserved = False\<rparr>"

definition finishAttempt :: "usage_tracker \<Rightarrow> usage_tracker" where
  "finishAttempt t =
     t\<lparr>tk_unresolvedPaid := (tk_unresolvedPaid t \<or>
          (tk_activeSawEvent t \<and>
           (tk_intervalKey t = None \<or> (tk_activePaid t \<and> \<not> tk_activeCashReceipt t)))),
       tk_allowanceUnobserved := (tk_allowanceUnobserved t \<or>
          (tk_activeSawEvent t \<and> tk_activeAllowance t \<and> \<not> tk_activeCashReceipt t)),
       tk_active := False\<rparr>"

definition startAttempt ::
  "processing_receipt option \<Rightarrow> processing_cost_basis option \<Rightarrow> usage_tracker \<Rightarrow> usage_tracker" where
  "startAttempt processing billing t =
     (let t1 = (if tk_active t then finishAttempt t else t)
      in t1\<lparr>tk_active := True, tk_activeSawEvent := False, tk_activePaid := False,
            tk_activeCashReceipt := False, tk_activeAllowance := False, tk_intervalKey := None,
            tk_processing := processing, tk_billing := billing\<rparr>)"

fun auth_mode_name :: "auth_mode \<Rightarrow> string" where
  "auth_mode_name LocalSession = ''local_session''"
| "auth_mode_name ApiKey = ''api_key''"

fun processing_kind_name :: "processing_kind \<Rightarrow> string" where
  "processing_kind_name PkIncluded = ''included''"
| "processing_kind_name PkPaidCredits = ''paid_credits''"
| "processing_kind_name PkCash = ''cash''"
| "processing_kind_name PkValuation = ''valuation''"
| "processing_kind_name PkUnknown = ''unknown''"

definition interval_key ::
  "auth_mode \<Rightarrow> processing_receipt option \<Rightarrow> processing_cost_basis option \<Rightarrow> string" where
  "interval_key route processing billing =
     auth_mode_name route @ '':'' @
     (case billing of Some b \<Rightarrow> processing_kind_name (pcb_kind b)
      | None \<Rightarrow> if processing \<noteq> None then ''unknown'' else ''legacy'') @ '':'' @
     (case billing of None \<Rightarrow> '''' | Some b \<Rightarrow> if pcb_debit_unobserved b then ''unobserved'' else '''')"

definition observeEvent ::
  "auth_mode option \<Rightarrow> processing_receipt option \<Rightarrow> processing_cost_basis option \<Rightarrow>
   usage_tracker \<Rightarrow> usage_tracker" where
  "observeEvent route processing billing t =
     (let t1 = t\<lparr>tk_processing := or_else processing (tk_processing t),
                 tk_billing := or_else billing (tk_billing t)\<rparr>
      in if \<not> tk_active t1 then t1
         else let t2 = t1\<lparr>tk_activeSawEvent := True,
                          tk_sawRoute := (tk_sawRoute t1 \<or> route \<noteq> None)\<rparr>
         in case route of
              None \<Rightarrow> t2
            | Some r \<Rightarrow>
                let key = interval_key r (tk_processing t2) (tk_billing t2);
                    t3 = (if tk_intervalKey t2 \<noteq> None \<and> tk_intervalKey t2 \<noteq> Some key
                          then t2\<lparr>tk_unresolvedPaid := (tk_unresolvedPaid t2 \<or>
                                     (tk_activePaid t2 \<and> \<not> tk_activeCashReceipt t2)),
                                  tk_allowanceUnobserved := (tk_allowanceUnobserved t2 \<or>
                                     (tk_activeAllowance t2 \<and> \<not> tk_activeCashReceipt t2)),
                                  tk_activePaid := False, tk_activeCashReceipt := False,
                                  tk_activeAllowance := False\<rparr>
                          else t2)
                in t3\<lparr>tk_intervalKey := Some key,
                      tk_activePaid := (tk_activePaid t3 \<or>
                        \<not> ordinaryIncluded route (tk_processing t3) (tk_billing t3)),
                      tk_activeAllowance := (tk_activeAllowance t3 \<or>
                        allowanceDebitUnobserved route (tk_processing t3) (tk_billing t3))\<rparr>)"

definition observeUsage ::
  "auth_mode option \<Rightarrow> rat \<Rightarrow> bool \<Rightarrow> harness_event option \<Rightarrow> usage_tracker \<Rightarrow> usage_tracker" where
  "observeUsage route usd estimated ev t =
     (if usd < 0 then t
      else
        let processing = or_else (Option.bind ev he_processing) (tk_processing t);
            billing = or_else (Option.bind ev he_processing_cost_basis) (tk_billing t);
            kind = usageAmountKind route
                     (Option.bind (Option.bind ev he_usage) us_cost_basis) processing billing;
            t1 = t\<lparr>tk_lastAmountKind := Some kind\<rparr>;
            tot = tk_totals t1
        in case kind of
             UkCash \<Rightarrow>
               t1\<lparr>tk_sawCashReceipt := True, tk_activeCashReceipt := True,
                  tk_totals := tot\<lparr>ut_cashUsd := ut_cashUsd tot + usd,
                                   ut_cashEstimated := (ut_cashEstimated tot \<or> estimated)\<rparr>\<rparr>
           | UkValuation \<Rightarrow>
               t1\<lparr>tk_sawValuation := True,
                  tk_totals := tot\<lparr>ut_valuationUsd := ut_valuationUsd tot + usd,
                                   ut_valuationEstimated := (ut_valuationEstimated tot \<or> estimated)\<rparr>\<rparr>
           | UkUnknown \<Rightarrow>
               let paid = \<not> ordinaryIncluded route processing billing
               in t1\<lparr>tk_sawUnknownUsage := True,
                     tk_unknownPaidAmount := (tk_unknownPaidAmount t1 \<or> paid),
                     tk_unknownPaidUsd := tk_unknownPaidUsd t1 + (if paid then usd else 0),
                     tk_totals := tot\<lparr>ut_unknownUsd := ut_unknownUsd tot + usd\<rparr>\<rparr>)"

record usage_snapshot =
  sn_cashKnowledge :: cost_knowledge
  sn_valuationKnowledge :: cost_knowledge
  sn_allowanceDebitUnobserved :: bool
  sn_observedAmounts :: observed_amounts

definition snapshot :: "usage_tracker \<Rightarrow> usage_snapshot" where
  "snapshot t =
     (let cashUnknown = tk_unknownPaidAmount t \<or> tk_unresolvedPaid t \<or>
            (tk_activeSawEvent t \<and> tk_activePaid t \<and> \<not> tk_activeCashReceipt t) \<or> \<not> tk_sawRoute t
      in \<lparr>sn_cashKnowledge =
            (if cashUnknown then UnknownCost
             else if ut_cashEstimated (tk_totals t) then Estimated else Exact),
          sn_valuationKnowledge =
            (if tk_sawUnknownUsage t \<or> \<not> tk_sawValuation t then UnknownCost
             else if ut_valuationEstimated (tk_totals t) then Estimated else Exact),
          sn_allowanceDebitUnobserved =
            (tk_allowanceUnobserved t \<or>
             (tk_activeSawEvent t \<and> tk_activeAllowance t \<and> \<not> tk_activeCashReceipt t)),
          sn_observedAmounts =
            \<lparr>oa_cash = tk_sawCashReceipt t, oa_valuation = tk_sawValuation t,
             oa_unknown = tk_sawUnknownUsage t\<rparr>\<rparr>)"

end
