(* ===== verification/Settlements.thy ===== *)
theory Settlements
  imports Usage_Evidence
begin

text \<open>
  \<open>packages/budget/src/settlements.ts\<close> and \<open>cost-evidence.ts\<close>: the settlement the
  ledger books for an attempt, a reviewer or an unpriced operation, and the cost evidence a
  route carries before it runs. Merging certainties is an interface of its own: the worst
  certainty wins, however the parts are ordered.
\<close>

section \<open>Merging certainties\<close>

locale certainty_merge =
  fixes merge :: "'k::linorder \<Rightarrow> 'k \<Rightarrow> 'k"
  assumes merge_max: "merge a b = max a b"
begin

lemma merge_assoc: "merge (merge a b) c = merge a (merge b c)"
  by (simp add: merge_max max.assoc)

lemma merge_commute: "merge a b = merge b a"
  by (simp add: merge_max max.commute)

lemma merge_idem: "merge a a = a"
  by (simp add: merge_max)

lemma fold_merge_Max: "fold merge xs a = Max (insert a (set xs))"
proof (induction xs arbitrary: a)
  case Nil
  show ?case by simp
next
  case (Cons x xs)
  have "Max (insert a (insert x (set xs))) = max x (Max (insert a (set xs)))"
    by (subst insert_commute) (rule Max_insert, simp_all)
  moreover have "Max (insert (max x a) (set xs)) = max x (Max (insert a (set xs)))"
    by (cases "set xs = {}") (simp_all add: max.assoc)
  moreover have "fold merge (x # xs) a = Max (insert (max x a) (set xs))"
    using Cons.IH [of "max x a"] by (simp add: merge_max [of x a])
  ultimately show ?case by simp
qed

lemma fold_merge_order:
  "set xs = set ys \<Longrightarrow> fold merge xs a = fold merge ys a"
  by (simp add: fold_merge_Max)

lemma fold_merge_bound: "x \<in> insert a (set xs) \<Longrightarrow> x \<le> fold merge xs a"
  by (simp add: fold_merge_Max)

end

definition mergeKnowledgeList :: "cost_knowledge list \<Rightarrow> cost_knowledge" where
  "mergeKnowledgeList values' =
     (if UnknownCost \<in> set values' then UnknownCost
      else if Estimated \<in> set values' then Estimated else Exact)"

lemma mergeKnowledgeList_max [simp]:
  "mergeKnowledgeList [] = Exact"
  "mergeKnowledgeList (k # ks) = max k (mergeKnowledgeList ks)"
  by (cases k; simp add: mergeKnowledgeList_def)+

definition merge2 :: "cost_knowledge \<Rightarrow> cost_knowledge \<Rightarrow> cost_knowledge" where
  "merge2 a b = mergeKnowledgeList [a, b]"

interpretation settlement_merge: certainty_merge merge2
  by unfold_locales (simp add: merge2_def)

lemma mergeKnowledgeList_fold: "mergeKnowledgeList ks = fold merge2 ks Exact"
proof -
  have "fold merge2 ks a = max a (mergeKnowledgeList ks)" for a
    by (induction ks arbitrary: a) (simp_all add: merge2_def ac_simps)
  then show ?thesis by simp
qed

section \<open>Settlements\<close>

record budget_settlement =
  bs_knowledge :: cost_knowledge
  bs_cashKnowledge :: "cost_knowledge option"
  bs_valuationKnowledge :: "cost_knowledge option"
  bs_allowanceDebitUnobserved :: bool
  bs_source :: string
  bs_provenance :: "string list"
  bs_cashUsd :: "rat option"
  bs_valuationUsd :: "rat option"

definition measuredKnowledge :: "bool \<Rightarrow> cost_knowledge" where
  "measuredKnowledge estimated = (if estimated then Estimated else Exact)"

definition isSubscriptionValuation :: "auth_mode option \<Rightarrow> bool" where
  "isSubscriptionValuation mode \<longleftrightarrow> mode = Some LocalSession"

definition usageCostSettlement ::
  "rat \<Rightarrow> bool \<Rightarrow> string \<Rightarrow> string list \<Rightarrow> budget_settlement" where
  "usageCostSettlement cashUsd estimated source provenance =
     (if 0 < cashUsd
      then \<lparr>bs_knowledge = measuredKnowledge estimated,
            bs_cashKnowledge = Some (measuredKnowledge estimated),
            bs_valuationKnowledge = None, bs_allowanceDebitUnobserved = False,
            bs_source = source, bs_provenance = provenance,
            bs_cashUsd = Some cashUsd, bs_valuationUsd = None\<rparr>
      else \<lparr>bs_knowledge = UnknownCost, bs_cashKnowledge = None, bs_valuationKnowledge = None,
            bs_allowanceDebitUnobserved = False, bs_source = source @ ''-missing'',
            bs_provenance = provenance, bs_cashUsd = None, bs_valuationUsd = None\<rparr>)"

record reported_components =
  rc_valuationUsd :: rat
  rc_valuation :: bool
  rc_unknown :: bool
  rc_any :: bool

definition reportedComponents ::
  "rat \<Rightarrow> rat \<Rightarrow> rat \<Rightarrow> observed_amounts option \<Rightarrow> reported_components" where
  "reportedComponents cashUsd valuationUsd0 unknownUsd seen =
     (let valuationUsd = max 0 valuationUsd0;
          valuation = 0 < valuationUsd \<or> (case seen of None \<Rightarrow> False | Some s \<Rightarrow> oa_valuation s);
          unknown = 0 < unknownUsd \<or> (case seen of None \<Rightarrow> False | Some s \<Rightarrow> oa_unknown s)
      in \<lparr>rc_valuationUsd = valuationUsd, rc_valuation = valuation, rc_unknown = unknown,
          rc_any = (0 < cashUsd \<or> (case seen of None \<Rightarrow> False | Some s \<Rightarrow> oa_cash s) \<or>
                    valuation \<or> unknown)\<rparr>)"

definition reviewUsageCostSettlement ::
  "rat \<Rightarrow> rat \<Rightarrow> cost_knowledge \<Rightarrow> cost_knowledge \<Rightarrow> bool \<Rightarrow> observed_amounts option \<Rightarrow>
   string list \<Rightarrow> rat \<Rightarrow> budget_settlement" where
  "reviewUsageCostSettlement cashUsd valuationUsd cash valuation unobserved seen provenance unknownUsd =
     (let reported = reportedComponents cashUsd valuationUsd unknownUsd seen;
          more = rc_valuation reported \<or> rc_unknown reported;
          aggregate = mergeKnowledgeList (cash # (if more then [valuation] else []))
      in \<lparr>bs_knowledge = (if rc_unknown reported then UnknownCost else aggregate),
          bs_cashKnowledge = Some cash,
          bs_valuationKnowledge =
            (if more then Some (if rc_unknown reported then UnknownCost else valuation) else None),
          bs_allowanceDebitUnobserved = unobserved,
          bs_source = (if rc_any reported then ''review-usage'' else ''review-usage-missing''),
          bs_provenance = provenance,
          bs_cashUsd = Some (max 0 cashUsd),
          bs_valuationUsd = (if rc_valuation reported then Some (rc_valuationUsd reported) else None)\<rparr>)"

text \<open>The split of one attempt by route; absent flags are false.\<close>

record usage_split =
  sp_cashUsd :: rat
  sp_valuationUsd :: rat
  sp_unknownUsd :: rat
  sp_cashEstimated :: bool
  sp_valuationEstimated :: bool
  sp_cashKnowledge :: "cost_knowledge option"
  sp_valuationKnowledge :: "cost_knowledge option"
  sp_allowanceDebitUnobserved :: bool
  sp_observedAmounts :: "observed_amounts option"

definition attempt_split_settlement ::
  "usage_split \<Rightarrow> string \<Rightarrow> string \<Rightarrow> budget_settlement option" where
  "attempt_split_settlement split attemptId harnessId =
     (let reported = reportedComponents (sp_cashUsd split) (sp_valuationUsd split)
            (sp_unknownUsd split) (sp_observedAmounts split);
          componentEvidence = sp_cashKnowledge split \<noteq> None \<or> sp_valuationKnowledge split \<noteq> None;
          more = rc_valuation reported \<or> rc_unknown reported;
          cash = nullish (sp_cashKnowledge split)
            (if rc_unknown reported then UnknownCost else measuredKnowledge (sp_cashEstimated split));
          valuation = (if rc_unknown reported then UnknownCost
            else nullish (sp_valuationKnowledge split) (measuredKnowledge (sp_valuationEstimated split)))
      in if rc_any reported \<or> componentEvidence
         then Some \<lparr>bs_knowledge = mergeKnowledgeList (cash # (if more then [valuation] else [])),
            bs_cashKnowledge = Some cash,
            bs_valuationKnowledge = (if more then Some valuation else None),
            bs_allowanceDebitUnobserved = sp_allowanceDebitUnobserved split,
            bs_source = (if rc_any reported then ''harness-usage-by-route''
                         else ''harness-route-usage-missing''),
            bs_provenance = [''attempt:'' @ attemptId, ''harness:'' @ harnessId,
                             ''route:stream-evidence''],
            bs_cashUsd = Some (sp_cashUsd split),
            bs_valuationUsd = (if rc_valuation reported then Some (rc_valuationUsd reported) else None)\<rparr>
         else None)"

definition attemptUsageCostSettlement ::
  "rat \<Rightarrow> bool \<Rightarrow> string \<Rightarrow> string \<Rightarrow> auth_mode option \<Rightarrow> usage_split option \<Rightarrow> budget_settlement" where
  "attemptUsageCostSettlement totalUsd estimated attemptId harnessId mode split =
     (case Option.bind split (\<lambda>s. attempt_split_settlement s attemptId harnessId) of
        Some st \<Rightarrow> st
      | None \<Rightarrow>
          if isSubscriptionValuation mode
          then \<lparr>bs_knowledge = measuredKnowledge estimated, bs_cashKnowledge = Some Exact,
                bs_valuationKnowledge =
                  (if 0 < totalUsd then Some (measuredKnowledge estimated) else None),
                bs_allowanceDebitUnobserved = False,
                bs_source = ''harness-token-valuation'',
                bs_provenance = [''attempt:'' @ attemptId, ''harness:'' @ harnessId,
                                 ''route:vendor_native''],
                bs_cashUsd = None,
                bs_valuationUsd = (if 0 < totalUsd then Some totalUsd else None)\<rparr>
          else usageCostSettlement totalUsd estimated ''harness-usage''
                 ([''attempt:'' @ attemptId, ''harness:'' @ harnessId] @
                  (case mode of None \<Rightarrow> [] | Some m \<Rightarrow> [''route:'' @ auth_mode_name m])))"

definition unknownCostSettlement :: "string \<Rightarrow> rat option \<Rightarrow> budget_settlement" where
  "unknownCostSettlement source cashUsd =
     \<lparr>bs_knowledge = UnknownCost, bs_cashKnowledge = None, bs_valuationKnowledge = None,
      bs_allowanceDebitUnobserved = False, bs_source = source,
      bs_provenance = [''orchestrator:'' @ source], bs_cashUsd = cashUsd, bs_valuationUsd = None\<rparr>"

section \<open>Cost evidence before a run\<close>

definition unknown_cost :: cost_evidence where
  "unknown_cost = \<lparr>ce_processing = None, ce_knowledge = UnknownCost, ce_billing = UnknownBilling,
     ce_source = ''route_preflight'', ce_provenance = [''route:billing-unknown''],
     ce_estimatedUsd = None\<rparr>"

text \<open>\<open>CostEvidence.parse\<close>: the value itself, or \<open>None\<close> for a validation error.\<close>

definition parse_cost :: "cost_evidence \<Rightarrow> cost_evidence option" where
  "parse_cost c = (if valid_cost_evidence c then Some c else None)"

definition routeCostEvidence ::
  "billing_knowledge option \<Rightarrow> cost_knowledge option \<Rightarrow> string \<Rightarrow> string list \<Rightarrow> rat option \<Rightarrow>
   cost_evidence option" where
  "routeCostEvidence billing knowledge source provenance estimatedUsd =
     parse_cost \<lparr>ce_processing = None, ce_knowledge = nullish knowledge UnknownCost,
       ce_billing = nullish billing UnknownBilling, ce_source = source,
       ce_provenance = provenance, ce_estimatedUsd = estimatedUsd\<rparr>"

fun billing_name :: "billing_knowledge \<Rightarrow> string" where
  "billing_name ProvenZero = ''proven_zero''"
| "billing_name SubscriptionEntitlement = ''subscription_entitlement''"
| "billing_name Metered = ''metered''"
| "billing_name UnknownBilling = ''unknown''"

definition attemptCostEvidence ::
  "string \<Rightarrow> string \<Rightarrow> rat option \<Rightarrow> billing_knowledge \<Rightarrow> cost_evidence option \<Rightarrow> cost_evidence option" where
  "attemptCostEvidence harnessId attemptId estimatedUsd billing processingCost =
     (case processingCost of
        Some pc \<Rightarrow>
          parse_cost (pc\<lparr>ce_estimatedUsd := or_else (ce_estimatedUsd pc) estimatedUsd,
            ce_knowledge := (if ce_knowledge pc = UnknownCost \<and> estimatedUsd \<noteq> None then Estimated
                             else ce_knowledge pc),
            ce_provenance := ce_provenance pc @ [''attempt:'' @ attemptId]\<rparr>)
      | None \<Rightarrow>
          routeCostEvidence (Some billing)
            (Some (if estimatedUsd = None then UnknownCost else Estimated)) ''route-preflight''
            [''harness:'' @ harnessId, ''attempt:'' @ attemptId, ''billing:'' @ billing_name billing]
            estimatedUsd)"

end
