(* ===== verification/Shared_Finance.thy ===== *)
theory Shared_Finance
  imports Settlements
begin

text \<open>
  \<open>packages/budget/src/shared-financial-state.ts\<close>: the finances one run family shares.
  Registered callbacks are modelled by the calls they receive: \<open>sf_disclosed\<close> lists, in
  order, the cumulative figures disclosed to the root (\<open>None\<close>) and to a task
  (\<open>Some task\<close>).
\<close>

record circuit_thresholds =
  ct_soft :: rat
  ct_downgrade :: rat
  ct_hard :: rat

definition default_thresholds :: circuit_thresholds where
  "default_thresholds = \<lparr>ct_soft = 75 / 100, ct_downgrade = 9 / 10, ct_hard = 1\<rparr>"

text \<open>The arguments of one callback call.\<close>

record cash_disclosure =
  cd_cashSpendUsd :: rat
  cd_valuationUsd :: rat
  cd_cashEstimated :: bool
  cd_valuationKnowledge :: cost_knowledge
  cd_cashKnowledge :: cost_knowledge
  cd_controllableCashKnowledge :: cost_knowledge

record cash_certainty =
  cc_reported :: "cost_knowledge option"
  cc_controllable :: "cost_knowledge option"

record task_totals =
  tt_cashUsd :: rat
  tt_valuationUsd :: rat
  tt_cashEstimated :: bool
  tt_cashKnowledge :: "cost_knowledge option"
  tt_controllableCashKnowledge :: "cost_knowledge option"
  tt_valuationKnowledge :: "cost_knowledge option"

record hold =
  h_reservedUsd :: rat
  h_observedUsd :: rat

record shared_finance =
  sf_budget :: paid_budget
  sf_thresholds :: circuit_thresholds
  sf_leases :: "(string, budget_lease) jsmap"
  sf_holds :: "(string, hold) jsmap"
  sf_unknownPaidInFlight :: "string list"
  sf_physicalDispatchStarted :: "string list"
  sf_totalsByTask :: "(string, task_totals) jsmap"
  sf_cashUsd :: rat
  sf_valuationUsd :: rat
  sf_cashEstimated :: bool
  sf_cashKnowledge :: "cost_knowledge option"
  sf_controllableCashKnowledge :: "cost_knowledge option"
  sf_valuationKnowledge :: "cost_knowledge option"
  sf_overshot :: bool
  sf_unverifiable :: bool
  sf_rootOnCashSettled :: bool
  sf_disclosed :: "(string option \<times> cash_disclosure) list"

definition newSharedFinancialState ::
  "paid_budget \<Rightarrow> circuit_thresholds \<Rightarrow> bool \<Rightarrow> shared_finance" where
  "newSharedFinancialState budget thresholds callback =
     \<lparr>sf_budget = budget, sf_thresholds = thresholds, sf_leases = [], sf_holds = [],
      sf_unknownPaidInFlight = [], sf_physicalDispatchStarted = [], sf_totalsByTask = [],
      sf_cashUsd = 0, sf_valuationUsd = 0, sf_cashEstimated = False, sf_cashKnowledge = None,
      sf_controllableCashKnowledge = None, sf_valuationKnowledge = None, sf_overshot = False,
      sf_unverifiable = False, sf_rootOnCashSettled = callback, sf_disclosed = []\<rparr>"

definition mergeKnowledge :: "cost_knowledge option \<Rightarrow> cost_knowledge \<Rightarrow> cost_knowledge" where
  "mergeKnowledge current incoming =
     (case current of
        None \<Rightarrow> incoming
      | Some c \<Rightarrow>
          if c = UnknownCost \<or> incoming = UnknownCost then UnknownCost
          else if c = Estimated \<or> incoming = Estimated then Estimated
          else Exact)"

lemma mergeKnowledge_simps [simp]:
  "mergeKnowledge None k = k"
  "mergeKnowledge (Some c) k = max c k"
  by (simp add: mergeKnowledge_def) (cases c; cases k; simp add: mergeKnowledge_def)

definition merge_shared :: "cost_knowledge \<Rightarrow> cost_knowledge \<Rightarrow> cost_knowledge" where
  "merge_shared a b = mergeKnowledge (Some a) b"

interpretation shared_merge: certainty_merge merge_shared
  by unfold_locales (simp add: merge_shared_def)

definition zero_task_totals :: task_totals where
  "zero_task_totals = \<lparr>tt_cashUsd = 0, tt_valuationUsd = 0, tt_cashEstimated = False,
     tt_cashKnowledge = None, tt_controllableCashKnowledge = None, tt_valuationKnowledge = None\<rparr>"

text \<open>
  \<open>taskFinancialTotals\<close> creates the totals of a task on first use and returns the shared
  object; here it returns the totals and the state that holds them.
\<close>

definition taskFinancialTotals :: "shared_finance \<Rightarrow> string \<Rightarrow> task_totals \<times> shared_finance" where
  "taskFinancialTotals f taskId =
     (case jget (sf_totalsByTask f) taskId of
        Some t \<Rightarrow> (t, f)
      | None \<Rightarrow>
          (zero_task_totals,
           f\<lparr>sf_totalsByTask := jset taskId zero_task_totals (sf_totalsByTask f)\<rparr>))"

definition settled_totals ::
  "task_totals \<Rightarrow> rat \<Rightarrow> rat \<Rightarrow> cost_knowledge \<Rightarrow> cost_knowledge option \<Rightarrow> cost_knowledge \<Rightarrow> task_totals" where
  "settled_totals t cashUsd valuationUsd cash valuation controllable =
     (let known = mergeKnowledge (tt_cashKnowledge t) cash
      in t\<lparr>tt_cashUsd := tt_cashUsd t + cashUsd,
           tt_valuationUsd := tt_valuationUsd t + valuationUsd,
           tt_cashKnowledge := Some known,
           tt_controllableCashKnowledge :=
             Some (mergeKnowledge (tt_controllableCashKnowledge t) controllable),
           tt_cashEstimated := (known \<noteq> Exact),
           tt_valuationKnowledge :=
             (case valuation of None \<Rightarrow> tt_valuationKnowledge t
              | Some v \<Rightarrow> Some (mergeKnowledge (tt_valuationKnowledge t) v))\<rparr>)"

definition root_disclosure :: "shared_finance \<Rightarrow> cash_disclosure" where
  "root_disclosure f =
     \<lparr>cd_cashSpendUsd = sf_cashUsd f, cd_valuationUsd = sf_valuationUsd f,
      cd_cashEstimated = sf_cashEstimated f,
      cd_valuationKnowledge = nullish (sf_valuationKnowledge f) UnknownCost,
      cd_cashKnowledge = nullish (sf_cashKnowledge f) UnknownCost,
      cd_controllableCashKnowledge = nullish (sf_controllableCashKnowledge f) UnknownCost\<rparr>"

definition task_disclosure :: "task_totals \<Rightarrow> cash_disclosure" where
  "task_disclosure t =
     \<lparr>cd_cashSpendUsd = tt_cashUsd t, cd_valuationUsd = tt_valuationUsd t,
      cd_cashEstimated = tt_cashEstimated t,
      cd_valuationKnowledge = nullish (tt_valuationKnowledge t) UnknownCost,
      cd_cashKnowledge = nullish (tt_cashKnowledge t) UnknownCost,
      cd_controllableCashKnowledge = nullish (tt_controllableCashKnowledge t) UnknownCost\<rparr>"

text \<open>The totals object belongs to the task \<open>taskId\<close>: both are written.\<close>

definition recordSharedSettlement ::
  "shared_finance \<Rightarrow> string \<Rightarrow> task_totals \<Rightarrow> rat \<Rightarrow> rat \<Rightarrow> cost_knowledge \<Rightarrow> cost_knowledge option \<Rightarrow>
   cost_knowledge \<Rightarrow> task_totals \<times> shared_finance" where
  "recordSharedSettlement f taskId totals cashUsd valuationUsd cash valuation controllable =
     (let t = settled_totals totals cashUsd valuationUsd cash valuation controllable;
          known = mergeKnowledge (sf_cashKnowledge f) cash;
          f1 = f\<lparr>sf_totalsByTask := jset taskId t (sf_totalsByTask f),
                 sf_cashUsd := sf_cashUsd f + cashUsd,
                 sf_valuationUsd := sf_valuationUsd f + valuationUsd,
                 sf_cashKnowledge := Some known,
                 sf_controllableCashKnowledge :=
                   Some (mergeKnowledge (sf_controllableCashKnowledge f) controllable),
                 sf_cashEstimated := (known \<noteq> Exact),
                 sf_valuationKnowledge :=
                   (case valuation of None \<Rightarrow> sf_valuationKnowledge f
                    | Some v \<Rightarrow> Some (mergeKnowledge (sf_valuationKnowledge f) v))\<rparr>
      in (t, if sf_rootOnCashSettled f1
             then f1\<lparr>sf_disclosed := sf_disclosed f1 @ [(None, root_disclosure f1)]\<rparr>
             else f1))"

definition settlementIsEstimated :: "shared_finance \<Rightarrow> string option \<Rightarrow> bool" where
  "settlementIsEstimated f scope =
     (case scope of None \<Rightarrow> sf_cashEstimated f
      | Some t \<Rightarrow> (case jget (sf_totalsByTask f) t of None \<Rightarrow> False | Some tot \<Rightarrow> tt_cashEstimated tot))"

definition settlementValuationKnowledge :: "shared_finance \<Rightarrow> string option \<Rightarrow> cost_knowledge" where
  "settlementValuationKnowledge f scope =
     (case scope of None \<Rightarrow> nullish (sf_valuationKnowledge f) UnknownCost
      | Some t \<Rightarrow>
          nullish (Option.bind (jget (sf_totalsByTask f) t) tt_valuationKnowledge) UnknownCost)"

end
