(* ===== verification/Ledger.thy ===== *)
theory Ledger
  imports Shared_Finance
begin

text \<open>
  The financial half of \<open>BudgetLedger\<close> (\<open>packages/budget/src/ledger.ts\<close>): admission of
  work against the cap, holds, settlement and release. A view (root or one task) is a record;
  the shared finances are passed and returned. Fresh lease ids and creation times, which the
  source draws from \<open>newId\<close> and \<open>nowIso\<close>, are arguments; an exception is a value of
  \<open>ledger_error\<close> and leaves the finances as they were.
\<close>

datatype circuit_tier = TierOk | TierSoft | TierDowngrade | TierHard

datatype budget_terminal = BudgetExhausted | BudgetOvershoot | CostUnverifiable

datatype ledger_error =
  EmptyTaskScope | ScopeReleased | ScopeViolation string string | UnknownLease string
| ClosedLease | ZodError

datatype denial = HardCap | EstimateHeadroom | FiniteZero | UnknownPaidInFlight

record reserve_input =
  ri_taskId :: string
  ri_attemptId :: "string option"
  ri_intent :: intent
  ri_harnessId :: string
  ri_modelHint :: "string option"
  ri_reason :: "string list"
  ri_cost :: "cost_evidence option"

record reserve_result =
  rr_granted :: bool
  rr_tier :: circuit_tier
  rr_lease :: "budget_lease option"
  rr_reason :: "string option"
  rr_denied :: "denial option"

record ledger_view =
  lv_taskScope :: "string option"
  lv_localCallback :: bool
  lv_released :: bool
  lv_promptCounts :: "(string, nat) jsmap"

definition root_view :: ledger_view where
  "root_view = \<lparr>lv_taskScope = None, lv_localCallback = False, lv_released = False,
     lv_promptCounts = []\<rparr>"

text \<open>White space trimmed, as the scope test does.\<close>

definition scopedToTask :: "string \<Rightarrow> bool \<Rightarrow> ledger_error + ledger_view" where
  "scopedToTask taskId callback =
     (if trim taskId = [] then Inl EmptyTaskScope
      else Inr \<lparr>lv_taskScope = Some taskId, lv_localCallback = callback, lv_released = False,
                lv_promptCounts = []\<rparr>)"

section \<open>Headroom\<close>

definition hold_amount :: "hold \<Rightarrow> rat" where
  "hold_amount h = max (h_reservedUsd h) (h_observedUsd h)"

definition outstandingHolds :: "shared_finance \<Rightarrow> rat" where
  "outstandingHolds f = jsum hold_amount (sf_holds f)"

definition cap :: "shared_finance \<Rightarrow> rat option" where
  "cap f = (case sf_budget f of Unlimited \<Rightarrow> None | Finite m \<Rightarrow> Some m)"

definition tier :: "shared_finance \<Rightarrow> circuit_tier" where
  "tier f =
     (case cap f of
        None \<Rightarrow> TierOk
      | Some c \<Rightarrow>
          if sf_overshot f then TierHard
          else if c = 0 then (if 0 < sf_cashUsd f \<or> 0 < outstandingHolds f then TierHard else TierOk)
          else
            let ratio = (sf_cashUsd f + outstandingHolds f) / c
            in if ct_hard (sf_thresholds f) \<le> ratio then TierHard
               else if ct_downgrade (sf_thresholds f) \<le> ratio then TierDowngrade
               else if ct_soft (sf_thresholds f) \<le> ratio then TierSoft
               else TierOk)"

definition remainingUsd :: "shared_finance \<Rightarrow> rat option" where
  "remainingUsd f =
     (case cap f of None \<Rightarrow> None
      | Some c \<Rightarrow> Some (max 0 (c - sf_cashUsd f - outstandingHolds f)))"

definition zero_cash :: "cost_evidence \<Rightarrow> bool" where
  "zero_cash c \<longleftrightarrow> ce_billing c = ProvenZero \<or> ce_billing c = SubscriptionEntitlement"

definition denied :: "circuit_tier \<Rightarrow> denial \<Rightarrow> string \<Rightarrow> reserve_result" where
  "denied t d reason = \<lparr>rr_granted = False, rr_tier = t, rr_lease = None,
     rr_reason = Some reason, rr_denied = Some d\<rparr>"

definition granted :: "circuit_tier \<Rightarrow> budget_lease \<Rightarrow> reserve_result" where
  "granted t l = \<lparr>rr_granted = True, rr_tier = t, rr_lease = Some l, rr_reason = None,
     rr_denied = None\<rparr>"

text \<open>The estimate a reservation must fit, and the room it has: the own hold counts as free.\<close>

definition required_estimate :: "cost_evidence \<Rightarrow> rat option \<Rightarrow> rat" where
  "required_estimate cost requiredHold =
     (case requiredHold of Some r \<Rightarrow> r
      | None \<Rightarrow> if zero_cash cost then 0 else nullish (ce_estimatedUsd cost) 0)"

definition headroom :: "shared_finance \<Rightarrow> string option \<Rightarrow> rat option" where
  "headroom f own =
     (case remainingUsd f of None \<Rightarrow> None
      | Some r \<Rightarrow>
          Some (r + (case Option.bind own (jget (sf_holds f)) of
                       None \<Rightarrow> 0 | Some h \<Rightarrow> hold_amount h)))"

definition reservationDenial ::
  "shared_finance \<Rightarrow> cost_evidence \<Rightarrow> string option \<Rightarrow> rat option \<Rightarrow> reserve_result option" where
  "reservationDenial f cost own requiredHold =
     (let zero = zero_cash cost;
          unknownPaid = (\<not> zero \<and> ce_knowledge cost = UnknownCost);
          estimate = required_estimate cost requiredHold
      in if cap f = Some 0 \<and> \<not> zero
         then Some (denied TierHard FiniteZero
                ''finite(0) admits only proven-zero or subscription-entitlement work'')
         else if tier f = TierHard \<and> \<not> zero
         then Some (denied TierHard HardCap ''budget exhausted'')
         else if (case cap f of None \<Rightarrow> False | Some c \<Rightarrow> 0 < c) \<and> unknownPaid \<and>
                 (\<exists>i \<in> set (sf_unknownPaidInFlight f). Some i \<noteq> own)
         then Some (denied (tier f) UnknownPaidInFlight
                ''one unknown-cost paid unit is already in flight'')
         else case headroom f own of
             None \<Rightarrow> None
           | Some room \<Rightarrow>
               if \<not> zero \<and> 0 < estimate \<and> room \<le> estimate
               then Some (denied (tier f) EstimateHeadroom
                      (''insufficient headroom for estimated cost ('' @ to_fixed 2 estimate @
                       '' USD >= '' @ to_fixed 2 room @ '' USD remaining)''))
               else None)"

section \<open>Scope checks\<close>

definition assertTaskScope :: "ledger_view \<Rightarrow> string \<Rightarrow> ledger_error option" where
  "assertTaskScope v taskId =
     (if lv_released v then Some ScopeReleased
      else case lv_taskScope v of
          None \<Rightarrow> None
        | Some s \<Rightarrow> if taskId \<noteq> s then Some (ScopeViolation s taskId) else None)"

definition leaseForMutation ::
  "ledger_view \<Rightarrow> shared_finance \<Rightarrow> string \<Rightarrow> bool \<Rightarrow> ledger_error + budget_lease option" where
  "leaseForMutation v f leaseId required =
     (case jget (sf_leases f) leaseId of
        None \<Rightarrow> if required then Inl (UnknownLease leaseId) else Inr None
      | Some l \<Rightarrow>
          (case assertTaskScope v (bl_task_id l) of
             Some e \<Rightarrow> Inl e
           | None \<Rightarrow> Inr (Some l)))"

section \<open>Operations\<close>

definition markPhysicalDispatchStarted :: "shared_finance \<Rightarrow> string \<Rightarrow> shared_finance" where
  "markPhysicalDispatchStarted f leaseId =
     (case jget (sf_leases f) leaseId of
        None \<Rightarrow> f
      | Some l \<Rightarrow>
          if \<not> zero_cash (bl_cost l)
          then f\<lparr>sf_physicalDispatchStarted := sadd leaseId (sf_physicalDispatchStarted f)\<rparr>
          else f)"

definition new_lease :: "string \<Rightarrow> string \<Rightarrow> reserve_input \<Rightarrow> cost_evidence \<Rightarrow> budget_lease" where
  "new_lease leaseId now i cost =
     \<lparr>bl_lease_id = leaseId, bl_task_id = ri_taskId i, bl_attempt_id = ri_attemptId i,
      bl_intent = ri_intent i, bl_harness_id = ri_harnessId i, bl_model_hint = ri_modelHint i,
      bl_cost = cost, bl_reason = ri_reason i, bl_created_at = now, bl_state = Reserved\<rparr>"

definition admit ::
  "shared_finance \<Rightarrow> string \<Rightarrow> budget_lease \<Rightarrow> cost_evidence \<Rightarrow> shared_finance" where
  "admit f leaseId lease cost =
     (let estimate = required_estimate cost None;
          unknownPaid = (\<not> zero_cash cost \<and> ce_knowledge cost = UnknownCost)
      in f\<lparr>sf_leases := jset leaseId lease (sf_leases f),
           sf_holds := (if 0 < estimate
                        then jset leaseId \<lparr>h_reservedUsd = estimate, h_observedUsd = 0\<rparr> (sf_holds f)
                        else sf_holds f),
           sf_unknownPaidInFlight :=
             (if unknownPaid \<and> cap f \<noteq> None
              then sadd leaseId (sf_unknownPaidInFlight f) else sf_unknownPaidInFlight f)\<rparr>)"

definition reserve ::
  "ledger_view \<Rightarrow> shared_finance \<Rightarrow> string \<Rightarrow> string \<Rightarrow> reserve_input \<Rightarrow>
   ledger_error + (reserve_result \<times> shared_finance)" where
  "reserve v f leaseId now i =
     (case assertTaskScope v (ri_taskId i) of
        Some e \<Rightarrow> Inl e
      | None \<Rightarrow>
          (case parse_cost (nullish (ri_cost i) unknown_cost) of
             None \<Rightarrow> Inl ZodError
           | Some cost \<Rightarrow>
               (case reservationDenial f cost None None of
                  Some d \<Rightarrow> Inr (d, f)
                | None \<Rightarrow>
                    let lease = new_lease leaseId now i cost
                    in if \<not> valid_lease lease then Inl ZodError
                       else let f' = admit f leaseId lease cost
                            in Inr (granted (tier f') lease, f'))))"

definition repriced_hold :: "shared_finance \<Rightarrow> string \<Rightarrow> cost_evidence \<Rightarrow> hold" where
  "repriced_hold f leaseId cost =
     (let previous = nullish (jget (sf_holds f) leaseId) \<lparr>h_reservedUsd = 0, h_observedUsd = 0\<rparr>
      in previous\<lparr>h_reservedUsd := max (h_reservedUsd previous)
           (h_observedUsd previous + (if zero_cash cost then 0 else nullish (ce_estimatedUsd cost) 0))\<rparr>)"

definition reprice_admit ::
  "shared_finance \<Rightarrow> string \<Rightarrow> budget_lease \<Rightarrow> cost_evidence \<Rightarrow> shared_finance" where
  "reprice_admit f leaseId lease cost =
     (let h = repriced_hold f leaseId cost
      in f\<lparr>sf_leases := jset leaseId (lease\<lparr>bl_cost := cost\<rparr>) (sf_leases f),
           sf_holds := (if 0 < h_reservedUsd h then jset leaseId h (sf_holds f) else sf_holds f),
           sf_unknownPaidInFlight :=
             (if \<not> zero_cash cost \<and> ce_knowledge cost = UnknownCost \<and> cap f \<noteq> None
              then sadd leaseId (sf_unknownPaidInFlight f)
              else if zero_cash cost \<and> leaseId \<notin> set (sf_physicalDispatchStarted f)
              then sdelete leaseId (sf_unknownPaidInFlight f)
              else sf_unknownPaidInFlight f)\<rparr>)"

definition repriceReservedLease ::
  "ledger_view \<Rightarrow> shared_finance \<Rightarrow> string \<Rightarrow> cost_evidence \<Rightarrow>
   ledger_error + (reserve_result \<times> shared_finance)" where
  "repriceReservedLease v f leaseId evidence =
     (case leaseForMutation v f leaseId True of
        Inl e \<Rightarrow> Inl e
      | Inr None \<Rightarrow> Inl (UnknownLease leaseId)
      | Inr (Some lease) \<Rightarrow>
          if bl_state lease \<noteq> Reserved then Inl ClosedLease
          else (case parse_cost evidence of
              None \<Rightarrow> Inl ZodError
            | Some cost \<Rightarrow>
                (case reservationDenial f cost (Some leaseId)
                        (Some (h_reservedUsd (repriced_hold f leaseId cost))) of
                   Some d \<Rightarrow> Inr (d, f)
                 | None \<Rightarrow>
                     let f' = reprice_admit f leaseId lease cost
                     in Inr (granted (tier f') (lease\<lparr>bl_cost := cost\<rparr>), f'))))"

definition updateHold ::
  "ledger_view \<Rightarrow> shared_finance \<Rightarrow> string \<Rightarrow> rat \<Rightarrow> ledger_error + shared_finance" where
  "updateHold v f leaseId streamedCashUsd =
     (case leaseForMutation v f leaseId False of
        Inl e \<Rightarrow> Inl e
      | Inr None \<Rightarrow> Inr f
      | Inr (Some lease) \<Rightarrow>
          if bl_state lease \<noteq> Reserved then Inr f
          else
            let current = nullish (jget (sf_holds f) leaseId) \<lparr>h_reservedUsd = 0, h_observedUsd = 0\<rparr>
            in if h_observedUsd current < streamedCashUsd
               then Inr (f\<lparr>sf_holds := jset leaseId (current\<lparr>h_observedUsd := streamedCashUsd\<rparr>) (sf_holds f)\<rparr>)
               else Inr f)"

text \<open>Everything the ledger keeps in flight for one lease.\<close>

definition drop_in_flight :: "shared_finance \<Rightarrow> string \<Rightarrow> shared_finance" where
  "drop_in_flight f leaseId =
     f\<lparr>sf_holds := jdelete leaseId (sf_holds f),
       sf_unknownPaidInFlight := sdelete leaseId (sf_unknownPaidInFlight f),
       sf_physicalDispatchStarted := sdelete leaseId (sf_physicalDispatchStarted f)\<rparr>"

definition set_lease_state :: "shared_finance \<Rightarrow> string \<Rightarrow> budget_lease \<Rightarrow> lease_state \<Rightarrow> shared_finance" where
  "set_lease_state f leaseId lease st =
     f\<lparr>sf_leases := jset leaseId (lease\<lparr>bl_state := st\<rparr>) (sf_leases f)\<rparr>"

text \<open>The amounts and certainties a settlement books for a lease.\<close>

record booking =
  bk_cashUsd :: rat
  bk_valuationUsd :: rat
  bk_reported :: cost_knowledge
  bk_valuation :: "cost_knowledge option"
  bk_controllable :: cost_knowledge

definition settlement_booking :: "bool \<Rightarrow> budget_lease \<Rightarrow> budget_settlement \<Rightarrow> booking" where
  "settlement_booking previousPaidUnresolved lease s =
     (let reservedZeroCash = \<not> previousPaidUnresolved \<and> zero_cash (bl_cost lease);
          settledCashComponent = bs_cashKnowledge s \<noteq> None \<and> bs_cashUsd s \<noteq> None;
          zeroCash = reservedZeroCash \<and> \<not> settledCashComponent;
          cashKnowledge = (if zeroCash then Exact else nullish (bs_cashKnowledge s) (bs_knowledge s));
          valuationReported = bs_valuationUsd s \<noteq> None \<or> bs_valuationKnowledge s \<noteq> None \<or>
            (zeroCash \<and> bs_cashUsd s \<noteq> None)
      in \<lparr>bk_cashUsd = (if zeroCash then 0 else max 0 (nullish (bs_cashUsd s) 0)),
          bk_valuationUsd = max 0 (nullish (bs_valuationUsd s)
            (if zeroCash then nullish (bs_cashUsd s) 0 else 0)),
          bk_reported = reportedCashKnowledge cashKnowledge (bs_allowanceDebitUnobserved s),
          bk_valuation = (if valuationReported
            then Some (nullish (bs_valuationKnowledge s) (bs_knowledge s)) else None),
          bk_controllable = cashKnowledge\<rparr>)"

definition cap_verdict :: "shared_finance \<Rightarrow> cost_knowledge \<Rightarrow> shared_finance" where
  "cap_verdict f controllable =
     (case sf_budget f of
        Unlimited \<Rightarrow> f
      | Finite m \<Rightarrow>
          f\<lparr>sf_unverifiable := (sf_unverifiable f \<or> controllable = UnknownCost),
            sf_overshot := (sf_overshot f \<or> m < sf_cashUsd f)\<rparr>)"

definition settle_reserved ::
  "ledger_view \<Rightarrow> shared_finance \<Rightarrow> string \<Rightarrow> budget_lease \<Rightarrow> budget_settlement \<Rightarrow> shared_finance" where
  "settle_reserved v f leaseId lease s =
     (let b = settlement_booking (leaseId \<in> set (sf_unknownPaidInFlight f)) lease s;
          f1 = drop_in_flight (set_lease_state f leaseId lease Settled) leaseId;
          (totals, f2) = taskFinancialTotals f1 (bl_task_id lease);
          (totals', f3) = recordSharedSettlement f2 (bl_task_id lease) totals (bk_cashUsd b)
             (bk_valuationUsd b) (bk_reported b) (bk_valuation b) (bk_controllable b);
          f4 = cap_verdict f3 (bk_controllable b)
      in if lv_localCallback v
         then f4\<lparr>sf_disclosed := sf_disclosed f4 @ [(lv_taskScope v, task_disclosure totals')]\<rparr>
         else f4)"

definition settle ::
  "ledger_view \<Rightarrow> shared_finance \<Rightarrow> string \<Rightarrow> budget_settlement \<Rightarrow> ledger_error + shared_finance" where
  "settle v f leaseId s =
     (case leaseForMutation v f leaseId True of
        Inl e \<Rightarrow> Inl e
      | Inr None \<Rightarrow> Inl (UnknownLease leaseId)
      | Inr (Some lease) \<Rightarrow>
          if bl_state lease \<noteq> Reserved then Inr f
          else Inr (settle_reserved v f leaseId lease s))"

definition cancel ::
  "ledger_view \<Rightarrow> shared_finance \<Rightarrow> string \<Rightarrow> ledger_error + shared_finance" where
  "cancel v f leaseId =
     (case leaseForMutation v f leaseId False of
        Inl e \<Rightarrow> Inl e
      | Inr lease \<Rightarrow>
          Inr (drop_in_flight
                 (case lease of None \<Rightarrow> f
                  | Some l \<Rightarrow> if bl_state l = Reserved then set_lease_state f leaseId l Cancelled else f)
                 leaseId))"

text \<open>The loop over the leases; a cancellation error would stop it.\<close>

fun cancel_owned ::
  "ledger_view \<Rightarrow> string \<Rightarrow> (string \<times> budget_lease) list \<Rightarrow> shared_finance \<Rightarrow>
   ledger_error + shared_finance" where
  "cancel_owned v scope [] f = Inr f"
| "cancel_owned v scope ((leaseId, lease) # rest) f =
     (if bl_task_id lease = scope \<and> bl_state lease = Reserved
      then (case cancel v f leaseId of
              Inl e \<Rightarrow> Inl e
            | Inr f' \<Rightarrow> cancel_owned v scope rest f')
      else cancel_owned v scope rest f)"

definition releaseTask ::
  "ledger_view \<Rightarrow> shared_finance \<Rightarrow> ledger_error + (ledger_view \<times> shared_finance)" where
  "releaseTask v f =
     (case lv_taskScope v of
        None \<Rightarrow> Inr (v, f)
      | Some scope \<Rightarrow>
          if lv_released v then Inr (v, f)
          else (case cancel_owned v scope (sf_leases f) f of
                  Inl e \<Rightarrow> Inl e
                | Inr f' \<Rightarrow> Inr (v\<lparr>lv_released := True\<rparr>, f')))"

section \<open>Reading the finances\<close>

definition spend :: "ledger_view \<Rightarrow> shared_finance \<Rightarrow> rat" where
  "spend v f =
     (case lv_taskScope v of None \<Rightarrow> sf_cashUsd f
      | Some t \<Rightarrow> nullish (map_option tt_cashUsd (jget (sf_totalsByTask f) t)) 0)"

definition cashKnowledge :: "ledger_view \<Rightarrow> shared_finance \<Rightarrow> cost_knowledge" where
  "cashKnowledge v f =
     nullish (case lv_taskScope v of None \<Rightarrow> sf_cashKnowledge f
              | Some t \<Rightarrow> Option.bind (jget (sf_totalsByTask f) t) tt_cashKnowledge) UnknownCost"

definition cashCertainty :: "ledger_view \<Rightarrow> shared_finance \<Rightarrow> cash_certainty" where
  "cashCertainty v f =
     (case lv_taskScope v of
        None \<Rightarrow> \<lparr>cc_reported = sf_cashKnowledge f, cc_controllable = sf_controllableCashKnowledge f\<rparr>
      | Some t \<Rightarrow>
          \<lparr>cc_reported = Option.bind (jget (sf_totalsByTask f) t) tt_cashKnowledge,
           cc_controllable = Option.bind (jget (sf_totalsByTask f) t) tt_controllableCashKnowledge\<rparr>)"

definition valuation :: "ledger_view \<Rightarrow> shared_finance \<Rightarrow> rat" where
  "valuation v f =
     (case lv_taskScope v of None \<Rightarrow> sf_valuationUsd f
      | Some t \<Rightarrow> nullish (map_option tt_valuationUsd (jget (sf_totalsByTask f) t)) 0)"

definition estimated :: "ledger_view \<Rightarrow> shared_finance \<Rightarrow> bool" where
  "estimated v f = settlementIsEstimated f (lv_taskScope v)"

definition valuationKnowledge :: "ledger_view \<Rightarrow> shared_finance \<Rightarrow> cost_knowledge" where
  "valuationKnowledge v f = settlementValuationKnowledge f (lv_taskScope v)"

definition terminal :: "shared_finance \<Rightarrow> budget_terminal option" where
  "terminal f =
     (if sf_overshot f then Some BudgetOvershoot
      else if sf_unverifiable f then Some CostUnverifiable
      else if tier f = TierHard then Some BudgetExhausted else None)"

fun budget_terminal_name :: "budget_terminal \<Rightarrow> string" where
  "budget_terminal_name BudgetExhausted = ''budget_exhausted''"
| "budget_terminal_name BudgetOvershoot = ''budget_overshoot''"
| "budget_terminal_name CostUnverifiable = ''cost_unverifiable''"

definition isBudgetTerminal :: "string option \<Rightarrow> bool" where
  "isBudgetTerminal reason \<longleftrightarrow>
     reason \<in> {Some ''budget_exhausted'', Some ''budget_overshoot'', Some ''cost_unverifiable''}"

section \<open>Prompt loops\<close>

text \<open>Runs of white space become one space; the hash \<open>sha\<close> is an argument.\<close>

fun collapse_space :: "bool \<Rightarrow> string \<Rightarrow> string" where
  "collapse_space inside [] = []"
| "collapse_space inside (c # s) =
     (if js_space c then (if inside then collapse_space True s else CHR '' '' # collapse_space True s)
      else c # collapse_space False s)"

definition promptFingerprint :: "(string \<Rightarrow> string) \<Rightarrow> string \<Rightarrow> string" where
  "promptFingerprint sha prompt = sha (to_lower (collapse_space False (trim prompt)))"

definition recordPrompt :: "ledger_view \<Rightarrow> string \<Rightarrow> nat \<times> ledger_view" where
  "recordPrompt v fingerprint =
     (let n = nullish (jget (lv_promptCounts v) fingerprint) 0 + 1
      in (n, v\<lparr>lv_promptCounts := jset fingerprint n (lv_promptCounts v)\<rparr>))"

definition isLoop :: "ledger_view \<Rightarrow> string \<Rightarrow> nat \<Rightarrow> bool" where
  "isLoop v fingerprint threshold \<longleftrightarrow>
     threshold \<le> nullish (jget (lv_promptCounts v) fingerprint) 0"

end
