(* ===== verification/Ledger_Inv.thy ===== *)
theory Ledger_Inv
  imports Ledger
begin

text \<open>
  The invariant of the shared finances and the steps that keep it. A step is one operation of
  any view, root or task, so the reachable states cover every interleaving of the views of a
  run family; the only assumption is that a new lease gets an id that is not in use.
\<close>

section \<open>The invariant\<close>

definition open_lease :: "shared_finance \<Rightarrow> string \<Rightarrow> bool" where
  "open_lease f i \<longleftrightarrow> (\<exists>l. jget (sf_leases f) i = Some l \<and> bl_state l = Reserved)"

definition inv_holds :: "shared_finance \<Rightarrow> bool" where
  "inv_holds f \<longleftrightarrow>
     keyed (sf_leases f) \<and> keyed (sf_holds f) \<and>
     (\<forall>i h. jget (sf_holds f) i = Some h \<longrightarrow>
        open_lease f i \<and> 0 \<le> h_reservedUsd h \<and> 0 \<le> h_observedUsd h)"

definition inv_unknown :: "shared_finance \<Rightarrow> bool" where
  "inv_unknown f \<longleftrightarrow>
     distinct (sf_unknownPaidInFlight f) \<and>
     (\<forall>i \<in> set (sf_unknownPaidInFlight f). open_lease f i) \<and>
     length (sf_unknownPaidInFlight f) \<le> 1 \<and>
     (sf_unknownPaidInFlight f \<noteq> [] \<longrightarrow> (\<exists>c. cap f = Some c \<and> 0 < c))"

definition inv_money :: "shared_finance \<Rightarrow> bool" where
  "inv_money f \<longleftrightarrow>
     keyed (sf_totalsByTask f) \<and>
     sf_cashUsd f = jsum tt_cashUsd (sf_totalsByTask f) \<and>
     sf_valuationUsd f = jsum tt_valuationUsd (sf_totalsByTask f) \<and>
     (\<forall>t x. jget (sf_totalsByTask f) t = Some x \<longrightarrow> 0 \<le> tt_cashUsd x \<and> 0 \<le> tt_valuationUsd x)"

definition inv_verdict :: "shared_finance \<Rightarrow> bool" where
  "inv_verdict f \<longleftrightarrow>
     valid_paid_budget (sf_budget f) \<and>
     (sf_overshot f \<longleftrightarrow> (\<exists>m. sf_budget f = Finite m \<and> m < sf_cashUsd f)) \<and>
     (sf_unverifiable f \<longleftrightarrow>
        (\<exists>m. sf_budget f = Finite m) \<and> sf_controllableCashKnowledge f = Some UnknownCost)"

definition ledger_inv :: "shared_finance \<Rightarrow> bool" where
  "ledger_inv f \<longleftrightarrow> inv_holds f \<and> inv_unknown f \<and> inv_money f \<and> inv_verdict f"

lemmas inv_defs = inv_holds_def inv_unknown_def inv_money_def inv_verdict_def

lemma inv_verdict_budget: "inv_verdict f \<Longrightarrow> valid_paid_budget (sf_budget f)"
  by (simp add: inv_verdict_def)

lemma ledger_inv_new:
  "valid_paid_budget b \<Longrightarrow> ledger_inv (newSharedFinancialState b t c)"
  by (auto simp: ledger_inv_def inv_defs newSharedFinancialState_def valid_paid_budget_def
      split: paid_budget.splits)

lemma inv_money_nonneg:
  "inv_money f \<Longrightarrow> 0 \<le> sf_cashUsd f \<and> 0 \<le> sf_valuationUsd f"
  by (auto simp: inv_money_def keyed_in_set_iff intro!: jsum_nonneg)

lemma inv_holds_nonneg: "inv_holds f \<Longrightarrow> 0 \<le> outstandingHolds f"
  by (auto simp: inv_holds_def outstandingHolds_def hold_amount_def keyed_in_set_iff le_max_iff_disj
      intro!: jsum_nonneg)

lemma remainingUsd_Some: "cap f = Some c \<Longrightarrow> \<exists>r. remainingUsd f = Some r \<and> 0 \<le> r"
  by (simp add: remainingUsd_def)

section \<open>Admission\<close>

lemma required_estimate_nonneg:
  "valid_cost_evidence c \<Longrightarrow> 0 \<le> required_estimate c None"
  by (cases "ce_estimatedUsd c") (auto simp: required_estimate_def valid_cost_evidence_def)

text \<open>What a missing denial tells about the state it was asked in.\<close>

lemma reservationDenial_None:
  assumes "reservationDenial f c own r = None" and "\<not> zero_cash c"
  shows "cap f \<noteq> Some 0" and "tier f \<noteq> TierHard"
    and "ce_knowledge c = UnknownCost \<Longrightarrow> cap f = Some x \<Longrightarrow> 0 < x \<Longrightarrow>
           i \<in> set (sf_unknownPaidInFlight f) \<Longrightarrow> Some i = own"
    and "0 < required_estimate c r \<Longrightarrow> headroom f own = Some room \<Longrightarrow>
           required_estimate c r < room"
  using assms
  by (auto simp: reservationDenial_def Let_def split: if_splits option.splits)

lemma open_lease_admit:
  "bl_state l = Reserved \<Longrightarrow> open_lease (admit f i l c) j \<longleftrightarrow> j = i \<or> open_lease f j"
  by (auto simp: open_lease_def admit_def Let_def)

lemma inv_holds_admit:
  assumes "inv_holds f" and "bl_state l = Reserved"
  shows "inv_holds (admit f i l c)"
  using assms
  by (auto simp: inv_holds_def open_lease_admit) (auto simp: admit_def Let_def split: if_splits)

lemma inv_unknown_admit:
  assumes inv: "inv_unknown f" and l: "bl_state l = Reserved" and b: "valid_paid_budget (sf_budget f)"
    and ok: "reservationDenial f c None r = None"
  shows "inv_unknown (admit f i l c)"
proof (cases "\<not> zero_cash c \<and> ce_knowledge c = UnknownCost \<and> cap f \<noteq> None")
  case True
  then obtain x where x: "cap f = Some x" by auto
  have "0 < x"
    using reservationDenial_None(1) [OF ok] True x b
    by (cases "sf_budget f") (auto simp: cap_def valid_paid_budget_def)
  then have "sf_unknownPaidInFlight f = []"
    using reservationDenial_None(3) [OF ok _ _ x] True by (cases "sf_unknownPaidInFlight f") auto
  then show ?thesis
    using True x \<open>0 < x\<close> l
    by (simp add: inv_unknown_def open_lease_def admit_def Let_def sadd_def cap_def)
next
  case False
  then have "sf_unknownPaidInFlight (admit f i l c) = sf_unknownPaidInFlight f"
    by (auto simp: admit_def Let_def)
  moreover have "cap (admit f i l c) = cap f"
    by (simp add: admit_def Let_def cap_def)
  ultimately show ?thesis
    using inv l by (auto simp: inv_unknown_def open_lease_admit)
qed

lemma inv_money_verdict_admit [simp]:
  "inv_money (admit f i l c) = inv_money f"
  "inv_verdict (admit f i l c) = inv_verdict f"
  by (simp_all add: inv_money_def inv_verdict_def admit_def Let_def)

lemma reserve_cases:
  assumes "reserve v f i now inp = Inr (r, f')"
  obtains (refused) "f' = f" "\<not> rr_granted r" "rr_denied r \<noteq> None"
  | (admitted) c where "c = nullish (ri_cost inp) unknown_cost" "valid_cost_evidence c"
      "assertTaskScope v (ri_taskId inp) = None"
      "reservationDenial f c None None = None" "f' = admit f i (new_lease i now inp c) c"
      "rr_granted r" "rr_lease r = Some (new_lease i now inp c)" "rr_tier r = tier f'"
proof -
  have den: "\<not> rr_granted d \<and> rr_denied d \<noteq> None"
    if "reservationDenial f c own x = Some d" for c own x d
    using that by (auto simp: reservationDenial_def denied_def Let_def split: if_splits option.splits)
  show thesis
    using assms den
    by (auto simp: reserve_def parse_cost_def Let_def granted_def
        split: option.splits if_splits intro: that)
qed

lemma bl_state_new_lease [simp]: "bl_state (new_lease i now inp c) = Reserved"
  by (simp add: new_lease_def)

lemma reserve_inv:
  assumes inv: "ledger_inv f" and "reserve v f i now inp = Inr (r, f')"
  shows "ledger_inv f'"
  using assms(2)
proof (cases rule: reserve_cases)
  case refused
  then show ?thesis using inv by simp
next
  case (admitted c)
  then show ?thesis
    using inv by (auto simp: ledger_inv_def
        intro!: inv_holds_admit inv_unknown_admit inv_verdict_budget)
qed

section \<open>Repricing and streaming\<close>

lemma open_lease_reprice:
  assumes "jget (sf_leases f) i = Some l"
  shows "open_lease (reprice_admit f i l c) j \<longleftrightarrow> open_lease f j"
  using assms by (auto simp: open_lease_def reprice_admit_def Let_def)

lemma repriced_hold_nonneg:
  assumes "inv_holds f" and "valid_cost_evidence c"
  shows "0 \<le> h_reservedUsd (repriced_hold f i c)" and "0 \<le> h_observedUsd (repriced_hold f i c)"
  using assms
  by (cases "jget (sf_holds f) i"; auto simp: repriced_hold_def Let_def inv_holds_def le_max_iff_disj)+

lemma inv_holds_reprice:
  assumes "inv_holds f" and "valid_cost_evidence c"
    and l: "jget (sf_leases f) i = Some l" "bl_state l = Reserved"
  shows "inv_holds (reprice_admit f i l c)"
proof -
  have "open_lease f i" using l by (simp add: open_lease_def)
  then show ?thesis
    using assms(1) repriced_hold_nonneg [OF assms(1,2)]
    by (auto simp: inv_holds_def open_lease_reprice [OF l(1)])
      (auto simp: reprice_admit_def Let_def split: if_splits)
qed

lemma inv_unknown_reprice:
  assumes inv: "inv_unknown f" and l: "jget (sf_leases f) i = Some l" "bl_state l = Reserved"
    and b: "valid_paid_budget (sf_budget f)" and ok: "reservationDenial f c (Some i) r = None"
  shows "inv_unknown (reprice_admit f i l c)"
proof -
  let ?u = "sf_unknownPaidInFlight f"
  have opn: "open_lease f i" using l by (simp add: open_lease_def)
  have cap: "cap (reprice_admit f i l c) = cap f"
    by (simp add: reprice_admit_def Let_def cap_def)
  show ?thesis
  proof (cases "\<not> zero_cash c \<and> ce_knowledge c = UnknownCost \<and> cap f \<noteq> None")
    case True
    then obtain x where x: "cap f = Some x" by auto
    have pos: "0 < x"
      using reservationDenial_None(1) [OF ok] True x b
      by (cases "sf_budget f") (auto simp: cap_def valid_paid_budget_def)
    have own: "j = i" if "j \<in> set ?u" for j
      using reservationDenial_None(3) [OF ok _ _ x pos that] True by simp
    have "?u = [] \<or> ?u = [i]"
      using inv own by (cases ?u; cases "tl ?u") (auto simp: inv_unknown_def)
    moreover have "sf_unknownPaidInFlight (reprice_admit f i l c) = sadd i ?u"
      using True by (auto simp: reprice_admit_def Let_def)
    ultimately show ?thesis
      using pos x opn cap by (auto simp: inv_unknown_def open_lease_reprice [OF l(1)] sadd_def)
  next
    case False
    then have "sf_unknownPaidInFlight (reprice_admit f i l c) = ?u \<or>
        sf_unknownPaidInFlight (reprice_admit f i l c) = sdelete i ?u"
      by (auto simp: reprice_admit_def Let_def)
    moreover have "length (sdelete i ?u) \<le> length ?u" by (simp add: sdelete_def)
    ultimately show ?thesis
      using inv cap by (auto simp: inv_unknown_def open_lease_reprice [OF l(1)])
  qed
qed

lemma inv_money_verdict_reprice [simp]:
  "inv_money (reprice_admit f i l c) = inv_money f"
  "inv_verdict (reprice_admit f i l c) = inv_verdict f"
  by (simp_all add: inv_money_def inv_verdict_def reprice_admit_def Let_def)

lemma leaseForMutation_Some:
  "leaseForMutation v f i req = Inr (Some l) \<longleftrightarrow>
     jget (sf_leases f) i = Some l \<and> assertTaskScope v (bl_task_id l) = None"
  by (auto simp: leaseForMutation_def split: option.splits)

lemma reprice_cases:
  assumes "repriceReservedLease v f i c = Inr (r, f')"
  obtains (refused) "f' = f" "\<not> rr_granted r" "rr_denied r \<noteq> None"
  | (admitted) l where "jget (sf_leases f) i = Some l" "bl_state l = Reserved"
      "assertTaskScope v (bl_task_id l) = None" "valid_cost_evidence c"
      "reservationDenial f c (Some i) (Some (h_reservedUsd (repriced_hold f i c))) = None"
      "f' = reprice_admit f i l c" "rr_granted r" "rr_lease r = Some (l\<lparr>bl_cost := c\<rparr>)"
proof -
  have den: "\<not> rr_granted d \<and> rr_denied d \<noteq> None"
    if "reservationDenial f c own x = Some d" for c own x d
    using that by (auto simp: reservationDenial_def denied_def Let_def split: if_splits option.splits)
  show thesis
    using assms den
    by (auto simp: repriceReservedLease_def parse_cost_def Let_def granted_def leaseForMutation_Some
        split: option.splits if_splits sum.splits intro: that)
qed

lemma reprice_inv:
  assumes inv: "ledger_inv f" and "repriceReservedLease v f i c = Inr (r, f')"
  shows "ledger_inv f'"
  using assms(2)
proof (cases rule: reprice_cases)
  case refused
  then show ?thesis using inv by simp
next
  case (admitted l)
  then show ?thesis
    using inv by (auto simp: ledger_inv_def
        intro!: inv_holds_reprice inv_unknown_reprice inv_verdict_budget)
qed

lemma updateHold_inv:
  assumes inv: "ledger_inv f" and step: "updateHold v f i x = Inr f'"
  shows "ledger_inv f'"
proof (cases "f' = f")
  case False
  let ?cur = "nullish (jget (sf_holds f) i) \<lparr>h_reservedUsd = 0, h_observedUsd = 0\<rparr>"
  obtain l where l: "jget (sf_leases f) i = Some l" "bl_state l = Reserved"
    and x: "h_observedUsd ?cur < x"
    and f': "f' = f\<lparr>sf_holds := jset i (?cur\<lparr>h_observedUsd := x\<rparr>) (sf_holds f)\<rparr>"
    using step False
    by (auto simp: updateHold_def leaseForMutation_Some Let_def
        split: sum.splits option.splits if_splits)
  have "0 \<le> h_reservedUsd ?cur" "0 \<le> h_observedUsd ?cur"
    using inv by (cases "jget (sf_holds f) i"; auto simp: ledger_inv_def inv_holds_def)+
  then show ?thesis
    using inv l x
    by (auto simp: f' ledger_inv_def inv_defs open_lease_def cap_def split: if_splits)
qed (use inv in simp)

section \<open>Leaving: cancellation, settlement, release\<close>

lemma drop_in_flight_fields [simp]:
  "sf_leases (drop_in_flight f i) = sf_leases f"
  "sf_holds (drop_in_flight f i) = jdelete i (sf_holds f)"
  "sf_unknownPaidInFlight (drop_in_flight f i) = sdelete i (sf_unknownPaidInFlight f)"
  "sf_budget (drop_in_flight f i) = sf_budget f"
  "sf_totalsByTask (drop_in_flight f i) = sf_totalsByTask f"
  "sf_cashUsd (drop_in_flight f i) = sf_cashUsd f"
  "sf_valuationUsd (drop_in_flight f i) = sf_valuationUsd f"
  "sf_overshot (drop_in_flight f i) = sf_overshot f"
  "sf_unverifiable (drop_in_flight f i) = sf_unverifiable f"
  "sf_controllableCashKnowledge (drop_in_flight f i) = sf_controllableCashKnowledge f"
  by (simp_all add: drop_in_flight_def)

lemma set_lease_state_fields [simp]:
  "sf_leases (set_lease_state f i l st) = jset i (l\<lparr>bl_state := st\<rparr>) (sf_leases f)"
  "sf_holds (set_lease_state f i l st) = sf_holds f"
  "sf_unknownPaidInFlight (set_lease_state f i l st) = sf_unknownPaidInFlight f"
  "sf_budget (set_lease_state f i l st) = sf_budget f"
  "sf_totalsByTask (set_lease_state f i l st) = sf_totalsByTask f"
  "sf_cashUsd (set_lease_state f i l st) = sf_cashUsd f"
  "sf_valuationUsd (set_lease_state f i l st) = sf_valuationUsd f"
  "sf_overshot (set_lease_state f i l st) = sf_overshot f"
  "sf_unverifiable (set_lease_state f i l st) = sf_unverifiable f"
  "sf_controllableCashKnowledge (set_lease_state f i l st) = sf_controllableCashKnowledge f"
  by (simp_all add: set_lease_state_def)

text \<open>
  Closing a lease: any states whose leases, holds and in-flight set are those of \<open>f\<close> with
  lease \<open>i\<close> closed keep the lease half of the invariant.
\<close>

lemma inv_leases_close:
  assumes "inv_holds f" and "inv_unknown f"
    and "sf_leases g = sf_leases f \<or> (\<exists>l. sf_leases g = jset i l (sf_leases f))"
    and "sf_holds g = jdelete i (sf_holds f)"
    and "sf_unknownPaidInFlight g = sdelete i (sf_unknownPaidInFlight f)"
    and "sf_budget g = sf_budget f"
  shows "inv_holds g \<and> inv_unknown g"
proof -
  have opn: "open_lease g j" if "open_lease f j" and "j \<noteq> i" for j
    using that assms(3) by (auto simp: open_lease_def)
  have len: "length (sdelete i (sf_unknownPaidInFlight f)) \<le> length (sf_unknownPaidInFlight f)"
    by (simp add: sdelete_def)
  have ne: "sf_unknownPaidInFlight f \<noteq> []" if "sdelete i (sf_unknownPaidInFlight f) \<noteq> []"
    using that by (auto simp: sdelete_def)
  have "inv_holds g"
    using assms(1,3,4) opn by (auto simp: inv_holds_def split: if_splits)
  moreover have "inv_unknown g"
    using assms(2,5,6) opn len ne by (auto simp: inv_unknown_def cap_def)
  ultimately show ?thesis by simp
qed

lemma cancel_shape:
  assumes "cancel v f i = Inr f'"
  shows "f' = drop_in_flight f i \<or>
    (\<exists>l. jget (sf_leases f) i = Some l \<and> bl_state l = Reserved \<and>
         f' = drop_in_flight (set_lease_state f i l Cancelled) i)"
  using assms
  by (auto simp: cancel_def leaseForMutation_Some split: sum.splits option.splits if_splits)

lemma cancel_inv:
  assumes inv: "ledger_inv f" and step: "cancel v f i = Inr f'"
  shows "ledger_inv f'"
proof -
  have "inv_holds f' \<and> inv_unknown f'"
    using cancel_shape [OF step] inv
    by (intro inv_leases_close [of f f' i]) (auto simp: ledger_inv_def)
  moreover have "inv_money f' \<and> inv_verdict f'"
    using cancel_shape [OF step] inv
    by (auto simp: ledger_inv_def inv_money_def inv_verdict_def)
  ultimately show ?thesis by (simp add: ledger_inv_def)
qed

lemma cancel_owned_inv:
  "ledger_inv f \<Longrightarrow> cancel_owned v s ls f = Inr f' \<Longrightarrow> ledger_inv f'"
  by (induction v s ls f rule: cancel_owned.induct)
    (auto split: if_splits sum.splits intro: cancel_inv)

lemma releaseTask_inv:
  "ledger_inv f \<Longrightarrow> releaseTask v f = Inr (v', f') \<Longrightarrow> ledger_inv f'"
  by (auto simp: releaseTask_def split: option.splits if_splits sum.splits intro: cancel_owned_inv)

lemma markPhysicalDispatchStarted_inv:
  "ledger_inv f \<Longrightarrow> ledger_inv (markPhysicalDispatchStarted f i)"
  by (auto simp: markPhysicalDispatchStarted_def ledger_inv_def inv_defs open_lease_def cap_def
      split: option.splits)

text \<open>The totals of a task before a settlement, zero when it has none.\<close>

definition totals_of :: "shared_finance \<Rightarrow> string \<Rightarrow> task_totals" where
  "totals_of f t = nullish (jget (sf_totalsByTask f) t) zero_task_totals"

definition booked_totals :: "shared_finance \<Rightarrow> string \<Rightarrow> booking \<Rightarrow> task_totals" where
  "booked_totals f t b =
     settled_totals (totals_of f t) (bk_cashUsd b) (bk_valuationUsd b) (bk_reported b)
       (bk_valuation b) (bk_controllable b)"

lemma jset_jset_same: "jset k v (jset k w m) = jset k v m"
  by (induction m) auto

lemma settle_reserved_fields:
  fixes v f i l s
  defines "g \<equiv> settle_reserved v f i l s"
    and "b \<equiv> settlement_booking (i \<in> set (sf_unknownPaidInFlight f)) l s"
  shows "sf_leases g = jset i (l\<lparr>bl_state := Settled\<rparr>) (sf_leases f)"
    and "sf_holds g = jdelete i (sf_holds f)"
    and "sf_unknownPaidInFlight g = sdelete i (sf_unknownPaidInFlight f)"
    and "sf_budget g = sf_budget f"
    and "sf_totalsByTask g =
           jset (bl_task_id l) (booked_totals f (bl_task_id l) b) (sf_totalsByTask f)"
    and "sf_cashUsd g = sf_cashUsd f + bk_cashUsd b"
    and "sf_valuationUsd g = sf_valuationUsd f + bk_valuationUsd b"
    and "sf_controllableCashKnowledge g =
           Some (mergeKnowledge (sf_controllableCashKnowledge f) (bk_controllable b))"
    and "sf_overshot g \<longleftrightarrow> sf_overshot f \<or> (\<exists>m. sf_budget f = Finite m \<and> m < sf_cashUsd f + bk_cashUsd b)"
    and "sf_unverifiable g \<longleftrightarrow>
           sf_unverifiable f \<or> ((\<exists>m. sf_budget f = Finite m) \<and> bk_controllable b = UnknownCost)"
  unfolding g_def b_def settle_reserved_def
  by (cases "jget (sf_totalsByTask f) (bl_task_id l)"; cases "sf_budget f";
      simp add: Let_def taskFinancialTotals_def recordSharedSettlement_def cap_verdict_def
        booked_totals_def totals_of_def jset_jset_same)+

lemma settlement_booking_nonneg:
  "0 \<le> bk_cashUsd (settlement_booking p l s)" "0 \<le> bk_valuationUsd (settlement_booking p l s)"
  by (simp_all add: settlement_booking_def Let_def)

lemma settled_totals_fields [simp]:
  "tt_cashUsd (settled_totals t c w k u m) = tt_cashUsd t + c"
  "tt_valuationUsd (settled_totals t c w k u m) = tt_valuationUsd t + w"
  by (simp_all add: settled_totals_def Let_def)

lemma inv_money_settle:
  assumes "inv_money f"
  shows "inv_money (settle_reserved v f i l s)"
proof -
  let ?b = "settlement_booking (i \<in> set (sf_unknownPaidInFlight f)) l s"
  have tot: "0 \<le> tt_cashUsd (totals_of f t) \<and> 0 \<le> tt_valuationUsd (totals_of f t)" for t
    using assms by (cases "jget (sf_totalsByTask f) t")
      (auto simp: totals_of_def inv_money_def zero_task_totals_def)
  have dflt: "(case jget (sf_totalsByTask f) t of None \<Rightarrow> 0 | Some x \<Rightarrow> tt_cashUsd x)
        = tt_cashUsd (totals_of f t)"
    "(case jget (sf_totalsByTask f) t of None \<Rightarrow> 0 | Some x \<Rightarrow> tt_valuationUsd x)
        = tt_valuationUsd (totals_of f t)" for t
    by (auto simp: totals_of_def zero_task_totals_def split: option.splits)
  show ?thesis
    using assms tot settlement_booking_nonneg [of "i \<in> set (sf_unknownPaidInFlight f)" l s]
    by (auto simp: inv_money_def settle_reserved_fields booked_totals_def jsum_jset dflt)
qed

lemma inv_verdict_settle:
  assumes "inv_verdict f" and "inv_money f"
  shows "inv_verdict (settle_reserved v f i l s)"
proof -
  let ?b = "settlement_booking (i \<in> set (sf_unknownPaidInFlight f)) l s"
  have "0 \<le> bk_cashUsd ?b" by (rule settlement_booking_nonneg)
  then show ?thesis
    using assms(1)
    by (cases "sf_controllableCashKnowledge f") (auto simp: inv_verdict_def settle_reserved_fields)
qed

lemma settle_cases:
  assumes "settle v f i s = Inr f'"
  obtains (closed) l where "jget (sf_leases f) i = Some l" "bl_state l \<noteq> Reserved" "f' = f"
  | (booked) l where "jget (sf_leases f) i = Some l" "bl_state l = Reserved"
      "assertTaskScope v (bl_task_id l) = None" "f' = settle_reserved v f i l s"
  using assms
  by (auto simp: settle_def leaseForMutation_Some split: sum.splits option.splits if_splits)

lemma settle_inv:
  assumes inv: "ledger_inv f" and "settle v f i s = Inr f'"
  shows "ledger_inv f'"
  using assms(2)
proof (cases rule: settle_cases)
  case (closed l)
  then show ?thesis using inv by simp
next
  case (booked l)
  have "inv_holds f' \<and> inv_unknown f'"
    using inv booked by (intro inv_leases_close [of f f' i]) (auto simp: ledger_inv_def settle_reserved_fields)
  then show ?thesis
    using inv booked by (simp add: ledger_inv_def inv_money_settle inv_verdict_settle)
qed

section \<open>The ledger as a state machine\<close>

text \<open>One operation through the view \<open>v\<close>.\<close>

inductive view_step :: "ledger_view \<Rightarrow> shared_finance \<Rightarrow> shared_finance \<Rightarrow> bool" where
  step_reserve: "reserve v f i now inp = Inr (r, f') \<Longrightarrow> jget (sf_leases f) i = None \<Longrightarrow> view_step v f f'"
| step_reprice: "repriceReservedLease v f i c = Inr (r, f') \<Longrightarrow> view_step v f f'"
| step_mark: "view_step v f (markPhysicalDispatchStarted f i)"
| step_update: "updateHold v f i x = Inr f' \<Longrightarrow> view_step v f f'"
| step_settle: "settle v f i s = Inr f' \<Longrightarrow> view_step v f f'"
| step_cancel: "cancel v f i = Inr f' \<Longrightarrow> view_step v f f'"
| step_release: "releaseTask v f = Inr (v', f') \<Longrightarrow> view_step v f f'"

definition ledger_step :: "shared_finance \<Rightarrow> shared_finance \<Rightarrow> bool" where
  "ledger_step f f' \<longleftrightarrow> (\<exists>v. view_step v f f')"

definition ledger_init :: "paid_budget \<Rightarrow> circuit_thresholds \<Rightarrow> shared_finance \<Rightarrow> bool" where
  "ledger_init b t f \<longleftrightarrow> valid_paid_budget b \<and> (\<exists>c. f = newSharedFinancialState b t c)"

lemma view_step_inv: "view_step v f f' \<Longrightarrow> ledger_inv f \<Longrightarrow> ledger_inv f'"
  by (induction rule: view_step.induct)
    (auto intro: reserve_inv reprice_inv markPhysicalDispatchStarted_inv updateHold_inv settle_inv
      cancel_inv releaseTask_inv)

section \<open>What only grows\<close>

text \<open>Settled cash, the two cap verdicts and the budget itself, related along a run.\<close>

definition grows :: "shared_finance \<Rightarrow> shared_finance \<Rightarrow> bool" where
  "grows f g \<longleftrightarrow>
     sf_budget g = sf_budget f \<and> sf_cashUsd f \<le> sf_cashUsd g \<and> sf_valuationUsd f \<le> sf_valuationUsd g \<and>
     (sf_overshot f \<longrightarrow> sf_overshot g) \<and> (sf_unverifiable f \<longrightarrow> sf_unverifiable g)"

lemma grows_refl [simp]: "grows f f"
  by (simp add: grows_def)

lemma grows_trans: "grows f g \<Longrightarrow> grows g h \<Longrightarrow> grows f h"
  by (auto simp: grows_def)

lemma grows_same_money:
  "sf_budget g = sf_budget f \<Longrightarrow> sf_cashUsd g = sf_cashUsd f \<Longrightarrow> sf_valuationUsd g = sf_valuationUsd f \<Longrightarrow>
   sf_overshot g = sf_overshot f \<Longrightarrow> sf_unverifiable g = sf_unverifiable f \<Longrightarrow> grows f g"
  by (simp add: grows_def)

lemma reserve_grows: "reserve v f i now inp = Inr (r, f') \<Longrightarrow> grows f f'"
  by (erule reserve_cases) (auto intro!: grows_same_money simp: admit_def Let_def)

lemma reprice_grows: "repriceReservedLease v f i c = Inr (r, f') \<Longrightarrow> grows f f'"
  by (erule reprice_cases) (auto intro!: grows_same_money simp: reprice_admit_def Let_def)

lemma updateHold_grows: "updateHold v f i x = Inr f' \<Longrightarrow> grows f f'"
  by (auto simp: updateHold_def Let_def grows_def split: sum.splits option.splits if_splits)

lemma settle_grows: "settle v f i s = Inr f' \<Longrightarrow> grows f f'"
  by (erule settle_cases) (auto simp: grows_def settle_reserved_fields settlement_booking_nonneg)

lemma cancel_grows: "cancel v f i = Inr f' \<Longrightarrow> grows f f'"
  by (drule cancel_shape) (auto simp: grows_def)

lemma cancel_owned_grows: "cancel_owned v s ls f = Inr f' \<Longrightarrow> grows f f'"
  by (induction v s ls f rule: cancel_owned.induct)
    (auto split: if_splits sum.splits intro: grows_trans cancel_grows)

lemma view_step_grows: "view_step v f f' \<Longrightarrow> grows f f'"
proof (induction rule: view_step.induct)
  case (step_mark v f i)
  show ?case
    by (auto simp: markPhysicalDispatchStarted_def grows_def split: option.splits)
next
  case (step_release v f v' f')
  then show ?case
    by (auto simp: releaseTask_def split: option.splits if_splits sum.splits intro: cancel_owned_grows)
qed (auto intro: reserve_grows reprice_grows updateHold_grows settle_grows cancel_grows)

interpretation ledger:
  monotone_machine "ledger_init b t" ledger_step ledger_inv grows "\<lambda>f. f"
proof
  show "ledger_inv f" if "ledger_init b t f" for f
    using that by (auto simp: ledger_init_def intro: ledger_inv_new)
  show "ledger_inv g" if "ledger_inv f" and "ledger_step f g" for f g
    using that by (auto simp: ledger_step_def intro: view_step_inv)
  show "grows f f" for f by simp
  show "grows f h" if "grows f g" and "grows g h" for f g h
    using that by (rule grows_trans)
  show "grows f g" if "ledger_inv f" and "ledger_step f g" for f g
    using that by (auto simp: ledger_step_def intro: view_step_grows)
qed

end
