(* ===== verification/Ledger_Props.thy ===== *)
theory Ledger_Props
  imports Ledger_Inv
begin

text \<open>
  The properties of the ledger: what is true of every state a run family can reach, what a grant
  and a settlement mean, and that one task's view cannot touch another task.
\<close>

section \<open>Facts about single operations\<close>

lemma outstandingHolds_admit_fresh:
  assumes "inv_holds f" and "jget (sf_leases f) i = None"
  shows "outstandingHolds (admit f i l c) = outstandingHolds f + max 0 (required_estimate c None)"
proof -
  have "jget (sf_holds f) i = None"
    using assms by (cases "jget (sf_holds f) i") (fastforce simp: inv_holds_def open_lease_def)+
  then show ?thesis
    using assms(1)
    by (auto simp: outstandingHolds_def admit_def Let_def jsum_jset inv_holds_def hold_amount_def)
qed

lemma sf_cash_admit [simp]: "sf_cashUsd (admit f i l c) = sf_cashUsd f"
  by (simp add: admit_def Let_def)

text \<open>Admission in closed form, with no hold of its own.\<close>

definition admissible :: "shared_finance \<Rightarrow> cost_evidence \<Rightarrow> bool" where
  "admissible f c \<longleftrightarrow>
     zero_cash c \<or>
     (case cap f of
        None \<Rightarrow> True
      | Some x \<Rightarrow>
          0 < x \<and> tier f \<noteq> TierHard \<and>
          (ce_knowledge c = UnknownCost \<longrightarrow> sf_unknownPaidInFlight f = []) \<and>
          (0 < required_estimate c None \<longrightarrow>
             sf_cashUsd f + outstandingHolds f + required_estimate c None < x))"

lemma reservationDenial_admissible:
  assumes "valid_paid_budget (sf_budget f)"
  shows "reservationDenial f c None None = None \<longleftrightarrow> admissible f c"
proof (cases "cap f")
  case None
  then show ?thesis
    by (auto simp: reservationDenial_def admissible_def Let_def headroom_def remainingUsd_def tier_def)
next
  case (Some x)
  have "0 \<le> x"
    using assms Some by (cases "sf_budget f") (auto simp: cap_def valid_paid_budget_def)
  then show ?thesis
    using Some
    by (auto simp: reservationDenial_def admissible_def Let_def headroom_def remainingUsd_def max_def
        split: if_splits)
qed

lemma assertTaskScope_None:
  "assertTaskScope v t = None \<longleftrightarrow> \<not> lv_released v \<and> (lv_taskScope v = None \<or> lv_taskScope v = Some t)"
  by (auto simp: assertTaskScope_def split: option.splits)

section \<open>Example values\<close>

definition ex_evidence :: "billing_knowledge \<Rightarrow> cost_knowledge \<Rightarrow> rat option \<Rightarrow> cost_evidence" where
  "ex_evidence b k e = \<lparr>ce_processing = None, ce_knowledge = k, ce_billing = b,
     ce_source = ''test'', ce_provenance = [''route:test''], ce_estimatedUsd = e\<rparr>"

definition ex_input :: "string \<Rightarrow> cost_evidence \<Rightarrow> reserve_input" where
  "ex_input task c = \<lparr>ri_taskId = task, ri_attemptId = None, ri_intent = IntImplement,
     ri_harnessId = ''codex'', ri_modelHint = None, ri_reason = [], ri_cost = Some c\<rparr>"

definition ex_start :: shared_finance where
  "ex_start = newSharedFinancialState (Finite 10) default_thresholds False"

text \<open>Task \<open>a\<close> holds 4 of 10 dollars.\<close>

definition ex_lease :: budget_lease where
  "ex_lease = new_lease ''l1'' ''t'' (ex_input ''a'' (ex_evidence Metered Estimated (Some 4)))
     (ex_evidence Metered Estimated (Some 4))"

definition ex_held :: shared_finance where
  "ex_held = admit ex_start ''l1'' ex_lease (ex_evidence Metered Estimated (Some 4))"

definition ex_view :: "string \<Rightarrow> ledger_view" where
  "ex_view t = \<lparr>lv_taskScope = Some t, lv_localCallback = False, lv_released = False,
     lv_promptCounts = []\<rparr>"

definition ex_settlement :: "rat \<Rightarrow> budget_settlement" where
  "ex_settlement x = usageCostSettlement x False ''harness-usage'' [''attempt:1'']"

lemmas ex_defs = ex_evidence_def ex_input_def ex_start_def ex_lease_def ex_held_def ex_view_def
  ex_settlement_def newSharedFinancialState_def default_thresholds_def root_view_def

lemmas ledger_eval = reserve_def settle_def cancel_def admit_def Let_def assertTaskScope_def
  parse_cost_def valid_cost_evidence_def valid_lease_def valid_id_def reservationDenial_def
  zero_cash_def cap_def tier_def outstandingHolds_def hold_amount_def headroom_def remainingUsd_def
  required_estimate_def new_lease_def granted_def denied_def leaseForMutation_def
  settle_reserved_def drop_in_flight_def set_lease_state_def taskFinancialTotals_def
  recordSharedSettlement_def cap_verdict_def settlement_booking_def usageCostSettlement_def
  measuredKnowledge_def settled_totals_def zero_task_totals_def reportedCashKnowledge_def
  sadd_def sdelete_def

lemma ex_reserve:
  "reserve root_view ex_start ''l1'' ''t'' (ex_input ''a'' (ex_evidence Metered Estimated (Some 4)))
     = Inr (granted TierOk ex_lease, ex_held)"
  by (simp add: ledger_eval ex_defs)

lemma ex_start_init: "ledger_init (Finite 10) default_thresholds ex_start"
  by (simp add: ledger_init_def ex_start_def valid_paid_budget_def exI [of _ False])

lemma ex_held_reachable: "reachable (ledger_init (Finite 10) default_thresholds) ledger_step ex_held"
proof (rule reachable.further)
  show "reachable (ledger_init (Finite 10) default_thresholds) ledger_step ex_start"
    by (rule reachable.initial) (rule ex_start_init)
  show "ledger_step ex_start ex_held"
    unfolding ledger_step_def
    by (rule exI, rule view_step.step_reserve [OF ex_reserve])
      (simp add: ex_start_def newSharedFinancialState_def)
qed

lemma ex_held_inv: "ledger_inv ex_held"
  by (rule ledger.reachable_inv [OF ex_held_reachable])

section \<open>Reachable states\<close>

text \<open>C1: In every state that any interleaving of root and task views can reach, only reserved
  leases have a hold or sit in the unknown-cost slot, at most one unknown-cost paid unit is in
  flight and only under a positive cap, the family's cash and valuation are the sums over its
  tasks, and the two cap verdicts say exactly that cash exceeded the cap and that some cap-governed
  cash stayed unknown.\<close>

theorem ledger_reachable_inv:
  assumes "reachable (ledger_init b t) ledger_step f"
  shows "(\<forall>i h. jget (sf_holds f) i = Some h \<longrightarrow>
            open_lease f i \<and> 0 \<le> h_reservedUsd h \<and> 0 \<le> h_observedUsd h) \<and>
    length (sf_unknownPaidInFlight f) \<le> 1 \<and>
    (\<forall>i \<in> set (sf_unknownPaidInFlight f). open_lease f i \<and> (\<exists>c. cap f = Some c \<and> 0 < c)) \<and>
    sf_cashUsd f = jsum tt_cashUsd (sf_totalsByTask f) \<and>
    sf_valuationUsd f = jsum tt_valuationUsd (sf_totalsByTask f) \<and>
    (sf_overshot f \<longleftrightarrow> (\<exists>m. sf_budget f = Finite m \<and> m < sf_cashUsd f)) \<and>
    (sf_unverifiable f \<longleftrightarrow>
       (\<exists>m. sf_budget f = Finite m) \<and> sf_controllableCashKnowledge f = Some UnknownCost)"
proof -
  have "ledger_inv f" using assms by (rule ledger.reachable_inv)
  then show ?thesis by (auto simp: ledger_inv_def inv_defs)
qed

theorem ledger_reachable_inv_witness:
  "jget (sf_holds ex_held) ''l1'' = Some \<lparr>h_reservedUsd = 4, h_observedUsd = 0\<rparr> \<and>
   open_lease ex_held ''l1'' \<and> \<not> sf_overshot ex_held"
proof -
  have h: "jget (sf_holds ex_held) ''l1'' = Some \<lparr>h_reservedUsd = 4, h_observedUsd = 0\<rparr>"
    and c: "sf_budget ex_held = Finite 10" "sf_cashUsd ex_held = 0"
    by (simp_all add: ex_defs ledger_eval)
  then show ?thesis using ledger_reachable_inv [OF ex_held_reachable] by auto
qed

text \<open>C6: Along any run of the ledger the budget never changes, settled cash and valuation never
  decrease, and neither of the two cap verdicts is ever taken back, whatever the other one says: a
  family terminal with \<open>budget_overshoot\<close> stays so for ever, one terminal with \<open>cost_unverifiable\<close> stays
  terminal and can only turn into \<open>budget_overshoot\<close>. The third reason, \<open>budget_exhausted\<close>, is no
  verdict but the current level of cash and holds; it ends when a hold is released and nothing is
  claimed of it.\<close>

theorem ledger_run_monotone:
  assumes "ledger_inv f" and "steps ledger_step f g"
  shows "sf_budget g = sf_budget f \<and> sf_cashUsd f \<le> sf_cashUsd g \<and>
         sf_valuationUsd f \<le> sf_valuationUsd g \<and>
         (sf_overshot f \<longrightarrow> sf_overshot g) \<and> (sf_unverifiable f \<longrightarrow> sf_unverifiable g) \<and>
         (terminal f = Some BudgetOvershoot \<longrightarrow> terminal g = Some BudgetOvershoot) \<and>
         (terminal f = Some CostUnverifiable \<longrightarrow>
            terminal g \<in> {Some BudgetOvershoot, Some CostUnverifiable})"
  using ledger.steps_rel [OF assms(2,1)]
  by (auto simp: grows_def terminal_def split: if_splits)

theorem ledger_run_monotone_witness:
  "sf_cashUsd ex_held \<le> sf_cashUsd (settle_reserved root_view ex_held ''l1'' ex_lease (ex_settlement 12)) \<and>
   terminal (settle_reserved root_view ex_held ''l1'' ex_lease (ex_settlement 12)) = Some BudgetOvershoot"
proof -
  have "settle root_view ex_held ''l1'' (ex_settlement 12)
      = Inr (settle_reserved root_view ex_held ''l1'' ex_lease (ex_settlement 12))"
    by (simp add: settle_def leaseForMutation_def assertTaskScope_def root_view_def ex_held_def
        admit_def Let_def ex_lease_def new_lease_def ex_start_def newSharedFinancialState_def)
  then have "steps ledger_step ex_held (settle_reserved root_view ex_held ''l1'' ex_lease (ex_settlement 12))"
    by (intro steps.more [OF steps.none]) (auto simp: ledger_step_def intro: view_step.step_settle)
  from ledger_run_monotone [OF ex_held_inv this] show ?thesis
    by (simp add: terminal_def) (simp add: ex_defs ledger_eval)
qed

section \<open>Admission\<close>

text \<open>C2: A reservation is granted exactly when the work is known to cost no cash, or the budget is
  unlimited, or the cap is positive and not exhausted, no other unknown-cost unit is in flight when
  this one's cost is unknown, and the estimate still fits strictly under the cap beside settled cash
  and outstanding holds. A denial changes nothing.\<close>

theorem reserve_granted_iff:
  assumes "valid_paid_budget (sf_budget f)" and "reserve v f i now inp = Inr (r, f')"
  shows "(rr_granted r \<longleftrightarrow> admissible f (nullish (ri_cost inp) unknown_cost)) \<and>
         (\<not> rr_granted r \<longrightarrow> f' = f \<and> rr_denied r \<noteq> None)"
proof -
  have den: "\<not> rr_granted d \<and> rr_denied d \<noteq> None"
    if "reservationDenial f c own x = Some d" for c own x d
    using that by (auto simp: reservationDenial_def denied_def Let_def split: if_splits option.splits)
  show ?thesis
    using assms(2) den
    by (auto simp: reserve_def parse_cost_def Let_def granted_def
        reservationDenial_admissible [OF assms(1), symmetric] split: option.splits if_splits)
qed

theorem reserve_granted_iff_witness:
  "rr_granted (granted TierOk ex_lease) \<and> admissible ex_start (ex_evidence Metered Estimated (Some 4))"
proof -
  have "valid_paid_budget (sf_budget ex_start)"
    by (simp add: ex_start_def newSharedFinancialState_def valid_paid_budget_def)
  from reserve_granted_iff [OF this ex_reserve] show ?thesis
    by (simp add: granted_def ex_input_def)
qed

text \<open>C21: Under a finite cap, a reservation of work that may cost cash is granted only while the cap
  is positive and the circuit is not hard, and with a positive estimate the settled cash and all
  holds, the new one included, stay strictly below the cap.\<close>

theorem reserve_within_cap:
  assumes inv: "ledger_inv f" and fresh: "jget (sf_leases f) i = None"
    and step: "reserve v f i now inp = Inr (r, f')" and ok: "rr_granted r"
    and paid: "\<not> zero_cash (nullish (ri_cost inp) unknown_cost)" and c: "cap f = Some c"
  shows "0 < c \<and> tier f \<noteq> TierHard \<and>
         (0 < required_estimate (nullish (ri_cost inp) unknown_cost) None \<longrightarrow>
            sf_cashUsd f' + outstandingHolds f' < c)"
proof -
  let ?c = "nullish (ri_cost inp) unknown_cost"
  have b: "valid_paid_budget (sf_budget f)" and h: "inv_holds f"
    using inv by (auto simp: ledger_inv_def inv_verdict_def)
  have f': "f' = admit f i (new_lease i now inp ?c) ?c" and a: "admissible f ?c"
    using step ok reserve_granted_iff [OF b step] by (auto elim!: reserve_cases)
  show ?thesis
    using a paid c outstandingHolds_admit_fresh [OF h fresh] by (auto simp: admissible_def f')
qed

theorem reserve_within_cap_witness:
  "(0::rat) < 10 \<and> tier ex_start \<noteq> TierHard \<and> sf_cashUsd ex_held + outstandingHolds ex_held < 10"
proof -
  have "ledger_inv ex_start"
    by (simp add: ex_start_def ledger_inv_new valid_paid_budget_def)
  moreover have "jget (sf_leases ex_start) ''l1'' = None" "cap ex_start = Some 10"
    by (simp_all add: ex_start_def newSharedFinancialState_def cap_def)
  ultimately show ?thesis
    using reserve_within_cap [OF _ _ ex_reserve]
    by (simp add: granted_def ex_input_def ex_evidence_def zero_cash_def required_estimate_def)
qed

text \<open>Work on a route proven to cost nothing, or entitled by a subscription, is admitted in every
  state of the ledger, also when the budget is exhausted or zero.\<close>

theorem reserve_zero_cash_admitted:
  assumes "assertTaskScope v (ri_taskId inp) = None" and "ri_cost inp = Some c"
    and "zero_cash c" and "valid_lease (new_lease i now inp c)"
  shows "\<exists>r f'. reserve v f i now inp = Inr (r, f') \<and> rr_granted r \<and>
           sf_holds f' = sf_holds f \<and> sf_unknownPaidInFlight f' = sf_unknownPaidInFlight f"
proof -
  have "valid_cost_evidence c" using assms(4) by (simp add: valid_lease_def new_lease_def)
  moreover have "reservationDenial f c None None = None"
    using assms(3) by (auto simp: reservationDenial_def Let_def split: option.splits)
  ultimately show ?thesis
    using assms by (auto simp: reserve_def parse_cost_def Let_def granted_def admit_def
        required_estimate_def)
qed

theorem reserve_zero_cash_admitted_witness:
  "\<exists>r f'. reserve root_view (newSharedFinancialState (Finite 0) default_thresholds False) ''l1'' ''t''
     (ex_input ''a'' (ex_evidence SubscriptionEntitlement UnknownCost None)) = Inr (r, f') \<and> rr_granted r"
  using reserve_zero_cash_admitted [of root_view
      "ex_input ''a'' (ex_evidence SubscriptionEntitlement UnknownCost None)"
      "ex_evidence SubscriptionEntitlement UnknownCost None" "''l1''" "''t''"
      "newSharedFinancialState (Finite 0) default_thresholds False"]
  by (auto simp: ex_input_def ex_evidence_def root_view_def assertTaskScope_def zero_cash_def
      valid_lease_def valid_id_def new_lease_def valid_cost_evidence_def)

section \<open>Settlement\<close>

text \<open>A lease is settled at most once: after a settlement every further settlement of the same
  lease, by any view allowed to act on it, leaves the finances as they are.\<close>

theorem settle_once:
  assumes "settle v f i s = Inr f'" and "jget (sf_leases f) i = Some l"
    and "assertTaskScope v' (bl_task_id l) = None"
  shows "settle v' f' i s' = Inr f'"
  using assms(1)
proof (cases rule: settle_cases)
  case (closed l')
  then show ?thesis
    using assms by (simp add: settle_def leaseForMutation_def)
next
  case (booked l')
  then have "jget (sf_leases f') i = Some (l\<lparr>bl_state := Settled\<rparr>)"
    using assms(2) by (simp add: settle_reserved_fields)
  then show ?thesis
    using assms(3) by (simp add: settle_def leaseForMutation_def)
qed

theorem settle_once_witness:
  "settle root_view (settle_reserved root_view ex_held ''l1'' ex_lease (ex_settlement 3)) ''l1'' (ex_settlement 5)
     = Inr (settle_reserved root_view ex_held ''l1'' ex_lease (ex_settlement 3))"
proof (rule settle_once)
  show l: "jget (sf_leases ex_held) ''l1'' = Some ex_lease"
    by (simp add: ex_held_def admit_def Let_def)
  show "assertTaskScope root_view (bl_task_id ex_lease) = None"
    by (simp add: assertTaskScope_def root_view_def)
  then show "settle root_view ex_held ''l1'' (ex_settlement 3)
      = Inr (settle_reserved root_view ex_held ''l1'' ex_lease (ex_settlement 3))"
    using l by (simp add: settle_def leaseForMutation_def ex_lease_def)
qed

text \<open>Cancelling a known lease books no money, frees its hold and its unknown-cost slot, and a
  settlement that arrives later is ignored: cancelled work is never charged.\<close>

theorem cancel_never_charged:
  assumes "cancel v f i = Inr f'" and "jget (sf_leases f) i = Some l"
    and "assertTaskScope v' (bl_task_id l) = None"
  shows "sf_cashUsd f' = sf_cashUsd f \<and> sf_totalsByTask f' = sf_totalsByTask f \<and>
         jget (sf_holds f') i = None \<and> i \<notin> set (sf_unknownPaidInFlight f') \<and>
         settle v' f' i s = Inr f'"
proof -
  have "\<exists>l'. jget (sf_leases f') i = Some l' \<and> bl_task_id l' = bl_task_id l \<and> bl_state l' \<noteq> Reserved"
    using assms(1,2)
    by (auto simp: cancel_def leaseForMutation_def split: option.splits if_splits)
  then show ?thesis
    using cancel_shape [OF assms(1)] assms(3)
    by (auto simp: settle_def leaseForMutation_def)
qed

theorem cancel_never_charged_witness:
  "\<exists>f'. cancel root_view ex_held ''l1'' = Inr f' \<and> sf_cashUsd f' = 0 \<and>
        settle root_view f' ''l1'' (ex_settlement 3) = Inr f'"
proof -
  have l: "jget (sf_leases ex_held) ''l1'' = Some ex_lease" and c: "sf_cashUsd ex_held = 0"
    by (simp_all add: ex_held_def admit_def Let_def ex_start_def newSharedFinancialState_def)
  have v: "assertTaskScope root_view (bl_task_id ex_lease) = None"
    by (simp add: assertTaskScope_def root_view_def)
  then obtain f' where f': "cancel root_view ex_held ''l1'' = Inr f'"
    using l by (simp add: cancel_def leaseForMutation_def)
  from cancel_never_charged [OF f' l v] show ?thesis using f' c by auto
qed



text \<open>A lease reserved on a zero-cash route that never entered the unknown-cost slot settles to
  zero cash with exact controllable certainty, and its reported amount becomes valuation, unless the
  settlement itself carries component evidence of cash (an in-attempt fallback to a paid route), in
  which case that cash is booked in full.\<close>

theorem zero_cash_settlement:
  assumes "zero_cash (bl_cost l)"
  shows "(bs_cashKnowledge s = None \<or> bs_cashUsd s = None \<longrightarrow>
           bk_cashUsd (settlement_booking False l s) = 0 \<and>
           bk_controllable (settlement_booking False l s) = Exact \<and>
           bk_valuationUsd (settlement_booking False l s) =
             max 0 (nullish (bs_valuationUsd s) (nullish (bs_cashUsd s) 0))) \<and>
         (\<forall>k x. bs_cashKnowledge s = Some k \<and> bs_cashUsd s = Some x \<longrightarrow>
           bk_cashUsd (settlement_booking False l s) = max 0 x \<and>
           bk_controllable (settlement_booking False l s) = k)"
  using assms by (auto simp: settlement_booking_def Let_def)

theorem zero_cash_settlement_witness:
  "bk_cashUsd (settlement_booking False (ex_lease\<lparr>bl_cost := ex_evidence SubscriptionEntitlement Exact None\<rparr>)
      (unknownCostSettlement ''probe'' (Some 2))) = 0 \<and>
   bk_cashUsd (settlement_booking False (ex_lease\<lparr>bl_cost := ex_evidence SubscriptionEntitlement Exact None\<rparr>)
      (ex_settlement 2)) = 2"
  using zero_cash_settlement [of "ex_lease\<lparr>bl_cost := ex_evidence SubscriptionEntitlement Exact None\<rparr>"
      "unknownCostSettlement ''probe'' (Some 2)"]
    zero_cash_settlement [of "ex_lease\<lparr>bl_cost := ex_evidence SubscriptionEntitlement Exact None\<rparr>"
      "ex_settlement 2"]
  by (simp add: zero_cash_def ex_evidence_def unknownCostSettlement_def ex_settlement_def
      usageCostSettlement_def measuredKnowledge_def)

section \<open>Tasks do not touch each other\<close>

text \<open>What a step must leave alone: lease, hold and unknown-cost slot of \<open>j\<close>, totals of
  every task but \<open>t\<close>.\<close>

definition untouched :: "string \<Rightarrow> string \<Rightarrow> shared_finance \<Rightarrow> shared_finance \<Rightarrow> bool" where
  "untouched t j f f' \<longleftrightarrow>
     jget (sf_leases f') j = jget (sf_leases f) j \<and> jget (sf_holds f') j = jget (sf_holds f) j \<and>
     (j \<in> set (sf_unknownPaidInFlight f') \<longleftrightarrow> j \<in> set (sf_unknownPaidInFlight f)) \<and>
     (\<forall>t'. t' \<noteq> t \<longrightarrow> jget (sf_totalsByTask f') t' = jget (sf_totalsByTask f) t')"

lemma untouched_refl [simp]: "untouched t j f f"
  by (simp add: untouched_def)

lemma untouched_trans: "untouched t j f g \<Longrightarrow> untouched t j g h \<Longrightarrow> untouched t j f h"
  by (auto simp: untouched_def)

lemma untouched_cancel:
  assumes "cancel v f i = Inr f'" and "lv_taskScope v = Some t"
    and "jget (sf_leases f) j = Some l" and "bl_task_id l \<noteq> t"
  shows "untouched t j f f'"
proof -
  have "i \<noteq> j"
    using assms by (auto simp: cancel_def leaseForMutation_def assertTaskScope_def
        split: option.splits if_splits)
  then show ?thesis
    using cancel_shape [OF assms(1)] by (auto simp: untouched_def)
qed

lemma untouched_cancel_owned:
  "cancel_owned v s ls f = Inr f' \<Longrightarrow> lv_taskScope v = Some t \<Longrightarrow>
   jget (sf_leases f) j = Some l \<Longrightarrow> bl_task_id l \<noteq> t \<Longrightarrow> untouched t j f f'"
proof (induction v s ls f arbitrary: l rule: cancel_owned.induct)
  case (1 v s f)
  then show ?case by simp
next
  case (2 v s i le rest f)
  show ?case
  proof (cases "bl_task_id le = s \<and> bl_state le = Reserved")
    case True
    then obtain f1 where f1: "cancel v f i = Inr f1" and rest: "cancel_owned v s rest f1 = Inr f'"
      using "2.prems"(1) by (auto split: sum.splits)
    have u: "untouched t j f f1"
      using f1 "2.prems"(2-4) by (rule untouched_cancel)
    then have "jget (sf_leases f1) j = Some l" using "2.prems"(3) by (simp add: untouched_def)
    then show ?thesis
      using "2.IH"(1) [OF True f1 rest "2.prems"(2)] "2.prems"(4) u by (blast intro: untouched_trans)
  next
    case False
    then have "cancel_owned v s rest f = Inr f'" using "2.prems"(1) by (auto split: if_splits)
    with False show ?thesis using "2.IH"(2) "2.prems"(2-4) by blast
  qed
qed

lemma untouched_step:
  "view_step v f f' \<Longrightarrow> lv_taskScope v = Some t \<Longrightarrow> jget (sf_leases f) j = Some l \<Longrightarrow>
   bl_task_id l \<noteq> t \<Longrightarrow> untouched t j f f'"
proof (induction rule: view_step.induct)
  case (step_reserve v f i now inp r f')
  then have "i \<noteq> j" by auto
  with step_reserve show ?case
    by (auto elim!: reserve_cases simp: untouched_def admit_def Let_def split: if_splits)
next
  case (step_reprice v f i c r f')
  then show ?case
    by (auto elim!: reprice_cases simp: untouched_def reprice_admit_def Let_def assertTaskScope_None
        split: if_splits)
next
  case (step_mark v f i)
  then show ?case
    by (auto simp: untouched_def markPhysicalDispatchStarted_def split: option.splits)
next
  case (step_update v f i x f')
  then show ?case
    by (auto simp: untouched_def updateHold_def leaseForMutation_Some Let_def assertTaskScope_None
        split: sum.splits option.splits if_splits)
next
  case (step_settle v f i s f')
  then show ?case
    by (auto elim!: settle_cases simp: untouched_def settle_reserved_fields assertTaskScope_None)
next
  case (step_cancel v f i f')
  then show ?case by (blast intro: untouched_cancel)
next
  case (step_release v f v' f')
  then show ?case
    by (auto simp: releaseTask_def split: if_splits sum.splits intro: untouched_cancel_owned)
qed

text \<open>No operation through one task's view changes a lease of another task, its hold or its
  unknown-cost slot, nor the totals of any other task.\<close>

theorem task_isolation:
  assumes "view_step v f f'" and "lv_taskScope v = Some t"
    and "jget (sf_leases f) j = Some l" and "bl_task_id l \<noteq> t"
  shows "jget (sf_leases f') j = Some l \<and> jget (sf_holds f') j = jget (sf_holds f) j \<and>
         (j \<in> set (sf_unknownPaidInFlight f') \<longleftrightarrow> j \<in> set (sf_unknownPaidInFlight f)) \<and>
         (\<forall>t'. t' \<noteq> t \<longrightarrow> jget (sf_totalsByTask f') t' = jget (sf_totalsByTask f) t')"
  using untouched_step [OF assms] assms(3) by (auto simp: untouched_def)

theorem task_isolation_witness:
  "\<exists>v' f'. releaseTask (ex_view ''b'') ex_held = Inr (v', f') \<and>
     jget (sf_leases f') ''l1'' = Some ex_lease"
proof -
  have l: "jget (sf_leases ex_held) ''l1'' = Some ex_lease" "bl_task_id ex_lease \<noteq> ''b''"
    by (simp_all add: ex_held_def admit_def Let_def ex_lease_def new_lease_def ex_input_def)
  obtain v' f' where r: "releaseTask (ex_view ''b'') ex_held = Inr (v', f')"
    by (simp add: releaseTask_def ex_view_def ex_held_def admit_def Let_def ex_lease_def new_lease_def
        ex_input_def ex_start_def newSharedFinancialState_def)
  from task_isolation [OF view_step.step_release [OF r] _ l] r show ?thesis
    by (auto simp: ex_view_def)
qed

section \<open>Releasing a task\<close>

lemma cancel_open:
  "cancel v f i = Inr f' \<Longrightarrow> jget (sf_leases f') j = Some l \<Longrightarrow> bl_state l = Reserved \<Longrightarrow>
   jget (sf_leases f) j = Some l \<and> j \<noteq> i"
  by (auto simp: cancel_def leaseForMutation_def split: option.splits if_splits)

lemma cancel_owned_open:
  "cancel_owned v s ls f = Inr f' \<Longrightarrow> jget (sf_leases f') j = Some l \<Longrightarrow> bl_state l = Reserved \<Longrightarrow>
   jget (sf_leases f) j = Some l \<and> (bl_task_id l = s \<longrightarrow> (j, l) \<notin> set ls)"
  by (induction v s ls f rule: cancel_owned.induct)
    (auto split: if_splits sum.splits dest: cancel_open)

lemma cancel_task_ids:
  "cancel v f i = Inr f' \<Longrightarrow>
   map_option bl_task_id (jget (sf_leases f') j) = map_option bl_task_id (jget (sf_leases f) j)"
  by (drule cancel_shape) auto

lemma cancel_owned_total:
  assumes "lv_taskScope v = Some s" and "\<not> lv_released v"
  shows "\<forall>p \<in> set ls. bl_task_id (snd p) = s \<longrightarrow>
           map_option bl_task_id (jget (sf_leases f) (fst p)) = Some s \<Longrightarrow>
         \<exists>f'. cancel_owned v s ls f = Inr f'"
proof (induction ls arbitrary: f)
  case Nil
  show ?case by simp
next
  case (Cons p ls)
  obtain i le where p: "p = (i, le)" by (cases p)
  show ?case
  proof (cases "bl_task_id le = s \<and> bl_state le = Reserved")
    case True
    then have "map_option bl_task_id (jget (sf_leases f) i) = Some s"
      using Cons.prems p by simp
    then obtain f1 where f1: "cancel v f i = Inr f1"
      using assms by (auto simp: cancel_def leaseForMutation_def assertTaskScope_def)
    have "\<exists>f'. cancel_owned v s ls f1 = Inr f'"
      by (rule Cons.IH) (use Cons.prems cancel_task_ids [OF f1] in auto)
    then show ?thesis using True f1 p by auto
  next
    case False
    then show ?thesis using Cons p by auto
  qed
qed

text \<open>Releasing a task's view always succeeds; afterwards no lease of the task is reserved, so
  nothing of it holds budget or the unknown-cost slot, no money was booked, and the view refuses every
  further reservation.\<close>

theorem release_task_complete:
  assumes "ledger_inv f" and "lv_taskScope v = Some t" and "\<not> lv_released v"
  shows "\<exists>v' f'. releaseTask v f = Inr (v', f') \<and>
           (\<forall>j l. jget (sf_leases f') j = Some l \<and> bl_task_id l = t \<longrightarrow>
              bl_state l \<noteq> Reserved \<and> jget (sf_holds f') j = None \<and>
              j \<notin> set (sf_unknownPaidInFlight f')) \<and>
           sf_cashUsd f' = sf_cashUsd f \<and>
           reserve v' f' i now inp = Inl ScopeReleased"
proof -
  have kl: "keyed (sf_leases f)" using assms(1) by (simp add: ledger_inv_def inv_holds_def)
  have "\<forall>p \<in> set (sf_leases f). bl_task_id (snd p) = t \<longrightarrow>
      map_option bl_task_id (jget (sf_leases f) (fst p)) = Some t"
    using kl by (auto simp: keyed_in_set_iff)
  then obtain f' where f': "cancel_owned v t (sf_leases f) f = Inr f'"
    using cancel_owned_total [OF assms(2,3)] by blast
  have closed: "bl_state l \<noteq> Reserved" if "jget (sf_leases f') j = Some l" "bl_task_id l = t" for j l
    using cancel_owned_open [OF f' that(1)] that(2) kl by (auto simp: keyed_in_set_iff)
  have inv: "ledger_inv f'" using f' assms(1) by (auto intro: cancel_owned_inv)
  have free: "jget (sf_holds f') j = None \<and> j \<notin> set (sf_unknownPaidInFlight f')"
    if "jget (sf_leases f') j = Some l" "bl_task_id l = t" for j l
    using inv closed [OF that] that(1)
    by (cases "jget (sf_holds f') j") (fastforce simp: ledger_inv_def inv_defs open_lease_def)+
  have cash: "cancel_owned v s ls g = Inr h \<Longrightarrow> sf_cashUsd h = sf_cashUsd g" for s ls g h
    by (induction v s ls g rule: cancel_owned.induct)
      (auto split: if_splits sum.splits dest!: cancel_shape)
  have "releaseTask v f = Inr (v\<lparr>lv_released := True\<rparr>, f')"
    using assms(2,3) f' by (simp add: releaseTask_def)
  moreover have "reserve (v\<lparr>lv_released := True\<rparr>) f' i now inp = Inl ScopeReleased"
    by (simp add: reserve_def assertTaskScope_def)
  ultimately show ?thesis using closed free cash [OF f'] by blast
qed

theorem release_task_complete_witness:
  "\<exists>v' f'. releaseTask (ex_view ''a'') ex_held = Inr (v', f') \<and>
     (\<forall>j l. jget (sf_leases f') j = Some l \<and> bl_task_id l = ''a'' \<longrightarrow> bl_state l \<noteq> Reserved) \<and>
     reserve v' f' ''l2'' ''t'' (ex_input ''a'' unknown_cost) = Inl ScopeReleased"
proof -
  have "lv_taskScope (ex_view ''a'') = Some ''a''" "\<not> lv_released (ex_view ''a'')"
    by (simp_all add: ex_view_def)
  from release_task_complete [OF ex_held_inv this, of "''l2''" "''t''" "ex_input ''a'' unknown_cost"]
  show ?thesis by blast
qed

section \<open>The circuit\<close>

text \<open>Under the default thresholds a ledger with no terminal reason and a positive cap has room
  left: settled cash and outstanding holds together are strictly below the cap, and so is the
  remaining amount it reports positive.\<close>

theorem open_circuit_has_room:
  assumes "terminal f = None" and "cap f = Some c" and "0 < c"
    and "sf_thresholds f = default_thresholds"
  shows "sf_cashUsd f + outstandingHolds f < c \<and>
         (\<exists>r. remainingUsd f = Some r \<and> 0 < r \<and> r = c - sf_cashUsd f - outstandingHolds f)"
proof -
  have "tier f \<noteq> TierHard" and "\<not> sf_overshot f"
    using assms(1) by (auto simp: terminal_def split: if_splits)
  then have "sf_cashUsd f + outstandingHolds f < c"
    using assms(2-4) by (auto simp: tier_def Let_def default_thresholds_def split: if_splits)
  then show ?thesis using assms(2) by (simp add: remainingUsd_def max_def)
qed

theorem open_circuit_has_room_witness:
  "sf_cashUsd ex_held + outstandingHolds ex_held < 10"
proof -
  have "terminal ex_held = None"
    by (simp add: terminal_def) (simp add: ex_defs ledger_eval)
  moreover have "cap ex_held = Some 10" "sf_thresholds ex_held = default_thresholds"
    by (simp_all add: ex_held_def admit_def Let_def cap_def ex_start_def newSharedFinancialState_def)
  ultimately show ?thesis using open_circuit_has_room [of ex_held 10] by simp
qed

end
