(* ===== verification/Quota_Availability.thy ===== *)
theory Quota_Availability
  imports Quota
begin

text \<open>
  The availability projection of one snapshot (\<open>quota-availability.ts\<close>) and the
  restoration of journaled snapshots into the current scope representation
  (\<open>quota-scope.ts\<close>).
\<close>

section \<open>Availability\<close>

definition futureMs :: "(string \<Rightarrow> int option) \<Rightarrow> string option \<Rightarrow> int \<Rightarrow> int option" where
  "futureMs dp ts now =
     (case truthy ts of None \<Rightarrow> None
      | Some s \<Rightarrow> (case dp s of None \<Rightarrow> None | Some t \<Rightarrow> if now < t then Some t else None))"

definition modelScopeMatches :: "string list option \<Rightarrow> string \<Rightarrow> bool" where
  "modelScopeMatches scope model =
     (case scope of None \<Rightarrow> True
      | Some aliases \<Rightarrow>
          if aliases = [] then True
          else (let target = to_lower (trim model) in
                \<exists>al \<in> set aliases.
                  (let candidate = to_lower (trim al) in
                   candidate \<noteq> [] \<and> target \<noteq> [] \<and>
                   (str_includes candidate target \<or> str_includes target candidate))))"

datatype quota_availability_state = Available | Exhausted | Cooldown

record scoped_exhaustion =
  se_constraint_id :: string
  se_applies_to_models :: "string list"
  se_applies_to_model_prefixes :: "string list option"
  se_resets_at :: "string option"

record quota_availability =
  qa_state :: quota_availability_state
  qa_blocking_constraints :: "string list"
  qa_resets_at :: "string option"
  qa_model_scoped_exhaustions :: "scoped_exhaustion list"

text \<open>What the loop over the windows carries.\<close>

record avail_acc =
  aa_blocking :: "string list"
  aa_exhaustions :: "scoped_exhaustion list"
  aa_sawExhausted :: bool
  aa_earliest :: "(string \<times> int) option"

text \<open>When one window releases: the later of its active conditions, none when only disclosed.\<close>

definition window_release ::
  "quota_constraint \<Rightarrow> bool \<Rightarrow> int option \<Rightarrow> int option \<Rightarrow> (string \<times> int) option" where
  "window_release c exhausted resetAt cooldownAt =
     (let reset = (nullish (qc_resets_at c) '''', nullish resetAt 0);
          cool = (nullish (qc_cooldown_until c) '''', nullish cooldownAt 0)
      in if \<not> exhausted \<and> cooldownAt = None then None
         else if exhausted \<and> cooldownAt \<noteq> None
           then (if snd cool \<le> snd reset then Some reset else Some cool)
         else if exhausted then Some reset else Some cool)"

definition window_scoped :: "quota_constraint \<Rightarrow> bool" where
  "window_scoped c \<longleftrightarrow>
     nullish (flat (qc_applies_to_models c)) [] \<noteq> [] \<or> nullish (qc_applies_to_model_prefixes c) [] \<noteq> []"

text \<open>Whether a scoped window is skipped for the requested model.\<close>

definition window_skipped :: "quota_constraint \<Rightarrow> string option \<Rightarrow> bool" where
  "window_skipped c model \<longleftrightarrow>
     window_scoped c \<and>
     (case model of
        None \<Rightarrow> qc_applies_to_unspecified_model c \<noteq> Some True
      | Some m \<Rightarrow>
          \<not> (quotaModelPrefixMatches (qc_applies_to_model_prefixes c) m \<or>
             (nullish (flat (qc_applies_to_models c)) [] \<noteq> [] \<and>
              modelScopeMatches (flat (qc_applies_to_models c)) m)))"

definition window_exhausted :: "(string \<Rightarrow> int option) \<Rightarrow> int \<Rightarrow> quota_constraint \<Rightarrow> bool" where
  "window_exhausted dp now c \<longleftrightarrow>
     (case qc_used_ratio c of None \<Rightarrow> False | Some u \<Rightarrow> 1 \<le> u) \<and> futureMs dp (qc_resets_at c) now \<noteq> None"

definition spent_unknown_reset :: "quota_constraint \<Rightarrow> bool" where
  "spent_unknown_reset c \<longleftrightarrow>
     (case qc_used_ratio c of None \<Rightarrow> False | Some u \<Rightarrow> 1 \<le> u) \<and> qc_resets_at c = None"

definition window_exhaustion :: "quota_constraint \<Rightarrow> (string \<times> int) option \<Rightarrow> scoped_exhaustion" where
  "window_exhaustion c release =
     \<lparr>se_constraint_id = qc_id c,
      se_applies_to_models = nullish (flat (qc_applies_to_models c)) [],
      se_applies_to_model_prefixes =
        (if nullish (qc_applies_to_model_prefixes c) [] = [] then None
         else qc_applies_to_model_prefixes c),
      se_resets_at = map_option fst release\<rparr>"

definition availability_window ::
  "(string \<Rightarrow> int option) \<Rightarrow> int \<Rightarrow> string option \<Rightarrow> quota_request_kind \<Rightarrow>
   quota_constraint \<Rightarrow> avail_acc \<Rightarrow> avail_acc" where
  "availability_window dp now model kind c acc =
     (let resetAt = futureMs dp (qc_resets_at c) now;
          cooldownAt = futureMs dp (qc_cooldown_until c) now;
          exhausted = window_exhausted dp now c;
          cooling = (cooldownAt \<noteq> None)
      in if \<not> quotaConstraintAppliesToRequestKind (qc_applies_to_request_kinds c) kind then acc
         else if \<not> exhausted \<and> \<not> cooling \<and> \<not> spent_unknown_reset c then acc
         else
           let release = window_release c exhausted resetAt cooldownAt;
               acc1 = (if window_scoped c
                       then acc\<lparr>aa_exhaustions := aa_exhaustions acc @ [window_exhaustion c release]\<rparr>
                       else acc)
           in case release of
                None \<Rightarrow> acc1
              | Some r \<Rightarrow>
                  if window_skipped c model then acc1
                  else acc1\<lparr>aa_blocking := aa_blocking acc1 @ [qc_id c],
                            aa_sawExhausted := (aa_sawExhausted acc1 \<or> exhausted),
                            aa_earliest :=
                              (case aa_earliest acc1 of
                                 None \<Rightarrow> Some r
                               | Some e \<Rightarrow> if snd r < snd e then Some r else Some e)\<rparr>)"

definition empty_avail :: avail_acc where
  "empty_avail = \<lparr>aa_blocking = [], aa_exhaustions = [], aa_sawExhausted = False, aa_earliest = None\<rparr>"

definition availability_scan ::
  "(string \<Rightarrow> int option) \<Rightarrow> int \<Rightarrow> string option \<Rightarrow> quota_request_kind \<Rightarrow>
   quota_constraint list \<Rightarrow> avail_acc" where
  "availability_scan dp now model kind cs =
     fold (availability_window dp now model kind) cs empty_avail"

text \<open>
  The result is parsed by the schema of the projection; for windows that satisfy their own
  schema that parse changes nothing.
\<close>

definition quotaSnapshotAvailability ::
  "(string \<Rightarrow> int option) \<Rightarrow> int \<Rightarrow> string option \<Rightarrow> quota_request_kind \<Rightarrow>
   quota_constraint list \<Rightarrow> quota_availability" where
  "quotaSnapshotAvailability dp now model kind cs =
     (let acc = availability_scan dp now model kind cs
      in \<lparr>qa_state = (if aa_blocking acc = [] then Available
                      else if aa_sawExhausted acc then Exhausted else Cooldown),
          qa_blocking_constraints = aa_blocking acc,
          qa_resets_at = map_option fst (aa_earliest acc),
          qa_model_scoped_exhaustions = aa_exhaustions acc\<rparr>)"

record control_quota_snapshot =
  cqs_snapshot :: quota_snapshot
  cqs_snapshot_id :: string
  cqs_availability :: quota_availability

text \<open>\<open>None\<close>: the identity of an incremental snapshot with other than one window raises.\<close>

fun withQuotaAvailability ::
  "(rat \<Rightarrow> string) \<Rightarrow> (string \<Rightarrow> int option) \<Rightarrow> int \<Rightarrow> string option \<Rightarrow> quota_request_kind \<Rightarrow>
   quota_snapshot list \<Rightarrow> control_quota_snapshot list option" where
  "withQuotaAvailability num dp now model kind [] = Some []"
| "withQuotaAvailability num dp now model kind (s # ss) =
     (case quotaSnapshotIdentity num s of
        None \<Rightarrow> None
      | Some i \<Rightarrow>
          map_option
            ((#) \<lparr>cqs_snapshot = s, cqs_snapshot_id = i,
                  cqs_availability = quotaSnapshotAvailability dp now model kind (qn_constraints s)\<rparr>)
            (withQuotaAvailability num dp now model kind ss))"

section \<open>Which windows block\<close>

text \<open>A window blocks when the loop records its id: the abstract reading of the loop body.\<close>

definition window_blocks ::
  "(string \<Rightarrow> int option) \<Rightarrow> int \<Rightarrow> string option \<Rightarrow> quota_request_kind \<Rightarrow> quota_constraint \<Rightarrow> bool" where
  "window_blocks dp now model kind c \<longleftrightarrow>
     quotaConstraintAppliesToRequestKind (qc_applies_to_request_kinds c) kind \<and>
     (window_exhausted dp now c \<or> futureMs dp (qc_cooldown_until c) now \<noteq> None) \<and>
     \<not> window_skipped c model"

lemma window_release_None:
  "window_release c e r k = None \<longleftrightarrow> \<not> e \<and> k = None"
  by (auto simp: window_release_def Let_def)

lemma availability_window_blocking_saw:
  "aa_blocking (availability_window dp now model kind c acc) =
     aa_blocking acc @ (if window_blocks dp now model kind c then [qc_id c] else []) \<and>
   aa_sawExhausted (availability_window dp now model kind c acc) =
     (aa_sawExhausted acc \<or> (window_blocks dp now model kind c \<and> window_exhausted dp now c))"
proof -
  let ?k = "futureMs dp (qc_cooldown_until c) now"
  let ?rel = "window_release c (window_exhausted dp now c) (futureMs dp (qc_resets_at c) now) ?k"
  show ?thesis
  proof (cases ?rel)
    case None
    then have "\<not> window_exhausted dp now c" and "?k = None"
      using window_release_None by blast+
    then show ?thesis
      using None by (simp add: availability_window_def window_blocks_def Let_def)
  next
    case (Some r)
    then have "window_exhausted dp now c \<or> ?k \<noteq> None"
      using window_release_None by (metis option.distinct(1))
    then show ?thesis
      using Some by (auto simp add: availability_window_def window_blocks_def Let_def)
  qed
qed

lemmas availability_window_blocking = availability_window_blocking_saw [THEN conjunct1]
  and availability_window_saw = availability_window_blocking_saw [THEN conjunct2]

lemma availability_fold_blocking:
  "aa_blocking (fold (availability_window dp now model kind) cs acc) =
     aa_blocking acc @ map qc_id (filter (window_blocks dp now model kind) cs)"
  by (induction cs arbitrary: acc) (simp_all add: availability_window_blocking)

lemma availability_fold_saw:
  "aa_sawExhausted (fold (availability_window dp now model kind) cs acc) =
     (aa_sawExhausted acc \<or> (\<exists>c \<in> set cs. window_blocks dp now model kind c \<and> window_exhausted dp now c))"
  by (induction cs arbitrary: acc) (auto simp: availability_window_saw)

lemma availability_blocking:
  "qa_blocking_constraints (quotaSnapshotAvailability dp now model kind cs) =
     map qc_id (filter (window_blocks dp now model kind) cs)"
  by (simp add: quotaSnapshotAvailability_def availability_scan_def Let_def
      availability_fold_blocking empty_avail_def)

lemma availability_available_iff:
  "qa_state (quotaSnapshotAvailability dp now model kind cs) = Available \<longleftrightarrow>
     (\<forall>c \<in> set cs. \<not> window_blocks dp now model kind c)"
  by (auto simp: quotaSnapshotAvailability_def availability_scan_def Let_def
      availability_fold_blocking empty_avail_def filter_empty_conv)

section \<open>The release instant\<close>

definition block_release ::
  "(string \<Rightarrow> int option) \<Rightarrow> int \<Rightarrow> quota_constraint \<Rightarrow> (string \<times> int) option" where
  "block_release dp now c =
     window_release c (window_exhausted dp now c)
       (futureMs dp (qc_resets_at c) now) (futureMs dp (qc_cooldown_until c) now)"

lemma block_release_Some:
  "window_blocks dp now model kind c \<Longrightarrow> \<exists>r. block_release dp now c = Some r"
  using window_release_None [of c "window_exhausted dp now c" "futureMs dp (qc_resets_at c) now"
      "futureMs dp (qc_cooldown_until c) now"]
  by (cases "block_release dp now c") (auto simp: block_release_def window_blocks_def)

lemma availability_window_earliest:
  "aa_earliest (availability_window dp now model kind c acc) =
     (if window_blocks dp now model kind c
      then (case (block_release dp now c, aa_earliest acc) of
              (None, e) \<Rightarrow> e
            | (Some r, None) \<Rightarrow> Some r
            | (Some r, Some e) \<Rightarrow> if snd r < snd e then Some r else Some e)
      else aa_earliest acc)"
proof -
  let ?k = "futureMs dp (qc_cooldown_until c) now"
  let ?rel = "window_release c (window_exhausted dp now c) (futureMs dp (qc_resets_at c) now) ?k"
  show ?thesis
  proof (cases ?rel)
    case None
    then have "\<not> window_exhausted dp now c" and "?k = None"
      using window_release_None by blast+
    then show ?thesis
      using None by (simp add: availability_window_def window_blocks_def Let_def)
  next
    case (Some r)
    then have "window_exhausted dp now c \<or> ?k \<noteq> None"
      using window_release_None by (metis option.distinct(1))
    then show ?thesis
      using Some
      by (auto simp add: availability_window_def window_blocks_def Let_def block_release_def
          split: option.split)
  qed
qed

lemma availability_fold_earliest:
  "(\<forall>c \<in> set cs. window_blocks dp now model kind c \<longrightarrow>
      (\<exists>i t u v. block_release dp now c = Some (i, t) \<and>
         aa_earliest (fold (availability_window dp now model kind) cs acc) = Some (u, v) \<and> v \<le> t)) \<and>
   (\<forall>u v. aa_earliest acc = Some (u, v) \<longrightarrow>
      (\<exists>u' v'. aa_earliest (fold (availability_window dp now model kind) cs acc) = Some (u', v') \<and> v' \<le> v)) \<and>
   (\<forall>r. aa_earliest (fold (availability_window dp now model kind) cs acc) = Some r \<longrightarrow>
      aa_earliest acc = Some r \<or>
      (\<exists>c \<in> set cs. window_blocks dp now model kind c \<and> block_release dp now c = Some r))"
proof (induction cs arbitrary: acc)
  case Nil
  show ?case by simp
next
  case (Cons c cs)
  let ?acc' = "availability_window dp now model kind c acc"
  show ?case
  proof (cases "window_blocks dp now model kind c")
    case False
    then show ?thesis
      using Cons.IH [of ?acc'] by (simp add: availability_window_earliest)
  next
    case True
    then obtain i t where r: "block_release dp now c = Some (i, t)"
      using block_release_Some by fastforce
    have "\<exists>u v. aa_earliest ?acc' = Some (u, v) \<and> v \<le> t \<and>
        (\<forall>u' v'. aa_earliest acc = Some (u', v') \<longrightarrow> v \<le> v') \<and>
        ((u, v) = (i, t) \<or> aa_earliest acc = Some (u, v))"
    proof (cases "aa_earliest acc")
      case None
      then show ?thesis using True r by (simp add: availability_window_earliest)
    next
      case (Some w)
      then show ?thesis
        using True r by (cases w; cases "t < snd w") (simp_all add: availability_window_earliest)
    qed
    then obtain u v where e: "aa_earliest ?acc' = Some (u, v)" and v: "v \<le> t"
      and old: "\<forall>u' v'. aa_earliest acc = Some (u', v') \<longrightarrow> v \<le> v'"
      and src: "(u, v) = (i, t) \<or> aa_earliest acc = Some (u, v)"
      by blast
    have IH: "\<exists>u' v'. aa_earliest (fold (availability_window dp now model kind) cs ?acc') = Some (u', v') \<and> v' \<le> v"
      using Cons.IH [of ?acc'] e by blast
    then show ?thesis
      using Cons.IH [of ?acc'] e v old src r True
      by (auto intro: order_trans)
  qed
qed

end
