(* ===== verification/Quota_Scope.thy ===== *)
theory Quota_Scope
  imports Quota_Availability
begin

text \<open>
  \<open>packages/schema/src/quota-scope.ts\<close>: journaled snapshots restored into the current
  scope representation, and the freshness of one window. The source compares windows by
  reference to see whether anything changed, so the restoration of one window says whether it
  kept, replaced or retired it.
\<close>

definition family_char :: "char \<Rightarrow> bool" where
  "family_char c \<longleftrightarrow> (let n = of_char c :: nat in (97 \<le> n \<and> n \<le> 122) \<or> (48 \<le> n \<and> n \<le> 57))"

definition family_head :: "char \<Rightarrow> bool" where
  "family_head c \<longleftrightarrow> (let n = of_char c :: nat in 97 \<le> n \<and> n \<le> 122)"

text \<open>The pattern \<open>/^[a-z][a-z0-9]*$/\<close>.\<close>

definition family_word :: "string \<Rightarrow> bool" where
  "family_word s = (case s of [] \<Rightarrow> False | c # cs \<Rightarrow> family_head c \<and> list_all family_char cs)"

definition claudeQuotaFamilyScope :: "string \<Rightarrow> (string list \<times> string list) option" where
  "claudeQuotaFamilyScope displayName =
     (let family = to_lower (trim displayName)
      in if family_word family
         then Some ([family], [''claude-'' @ family @ ''-''])
         else None)"

definition retiredClaudeAliasFamily :: "quota_constraint \<Rightarrow> string option" where
  "retiredClaudeAliasFamily c =
     (case flat (qc_applies_to_models c) of
        None \<Rightarrow> None
      | Some models \<Rightarrow>
          if ''best'' \<notin> set models \<or> nullish (qc_applies_to_model_prefixes c) [] \<noteq> [] then None
          else
            let named = filter (\<lambda>m. m \<noteq> ''best'') models;
                families = filter (\<lambda>m. \<not> starts_with m ''claude-'') named
            in case families of
                 [family] \<Rightarrow>
                   if family \<noteq> [] \<and>
                      (\<forall>m \<in> set named. m = family \<or> starts_with m (''claude-'' @ family @ ''-''))
                   then Some family else None
               | _ \<Rightarrow> None)"

definition claude_family_source :: "quota_source \<Rightarrow> bool" where
  "claude_family_source s \<longleftrightarrow> s \<in> {ClaudeOauthUsage, ClaudeRateLimitEvent, ClaudeApiRetry}"

datatype scope_result = Keep | Replace quota_constraint | Retire

definition currentConstraint :: "quota_source \<Rightarrow> quota_constraint \<Rightarrow> scope_result" where
  "currentConstraint source c =
     (let scoped = window_scoped c
      in if source = AgyCommandUsage then (if scoped then Keep else Retire)
         else if source = ClaudeOauthUsage \<and> qc_id c = ''weekly_scoped:scoped''
           then (if scoped then Keep else Retire)
         else case retiredClaudeAliasFamily c of
             None \<Rightarrow> Keep
           | Some family \<Rightarrow>
               (case claudeQuotaFamilyScope family of
                  None \<Rightarrow> Retire
                | Some (models, prefs) \<Rightarrow>
                    Replace (c\<lparr>qc_applies_to_models := Some (Some models),
                               qc_applies_to_model_prefixes := Some prefs\<rparr>)))"

definition apply_scope :: "quota_source \<Rightarrow> quota_constraint \<Rightarrow> quota_constraint list" where
  "apply_scope source c =
     (case currentConstraint source c of Keep \<Rightarrow> [c] | Replace c' \<Rightarrow> [c'] | Retire \<Rightarrow> [])"

definition withCurrentQuotaScopes :: "quota_snapshot \<Rightarrow> quota_snapshot option" where
  "withCurrentQuotaScopes s =
     (let source = qn_source s;
          relevant = (qs_harness (qn_subject s) = ''claude'' \<and> claude_family_source source) \<or>
                     (qs_harness (qn_subject s) = ''agy'' \<and> source = AgyCommandUsage);
          constraints = concat (map (apply_scope source) (qn_constraints s));
          unchanged = list_all (\<lambda>c. currentConstraint source c = Keep) (qn_constraints s)
      in if \<not> relevant then Some s
         else if unchanged then Some s
         else if constraints \<noteq> [] then Some (s\<lparr>qn_constraints := constraints\<rparr>)
         else if qst_snapshotMode (quotaSourceTraits source) = WindowMode then None
         else Some (s\<lparr>qn_constraints := constraints, qn_freshness := UnknownQ\<rparr>))"

definition quota_freshness_ttl_ms :: int where
  "quota_freshness_ttl_ms = 5 * 60000"

definition quotaWindowFreshness ::
  "(string \<Rightarrow> int option) \<Rightarrow> quota_freshness \<Rightarrow> string \<Rightarrow> string option \<Rightarrow> int \<Rightarrow> quota_freshness" where
  "quotaWindowFreshness dp freshness observed_at resets_at now =
     (if freshness \<noteq> FreshQ then freshness
      else case dp observed_at of
          None \<Rightarrow> StaleQ
        | Some observed \<Rightarrow>
            if quota_freshness_ttl_ms < now - observed then StaleQ
            else case (case truthy resets_at of None \<Rightarrow> None | Some r \<Rightarrow> dp r) of
                None \<Rightarrow> FreshQ
              | Some reset \<Rightarrow> if reset \<le> now then StaleQ else FreshQ)"

section \<open>Restoration changes only the scope and is done once\<close>

lemma window_scoped_update [simp]:
  "window_scoped (c\<lparr>qc_applies_to_models := Some (Some [f]), qc_applies_to_model_prefixes := Some [p]\<rparr>)"
  by (simp add: window_scoped_def)

lemma claudeQuotaFamilyScope_shape:
  "claudeQuotaFamilyScope f = Some (ms, ps) \<Longrightarrow> \<exists>g p. ms = [g] \<and> ps = [p]"
  by (auto simp: claudeQuotaFamilyScope_def Let_def split: if_splits)

lemma currentConstraint_Replace:
  assumes "currentConstraint s c = Replace c'"
  shows "currentConstraint s c' = Keep"
proof -
  have s: "s \<noteq> AgyCommandUsage" "\<not> (s = ClaudeOauthUsage \<and> qc_id c = ''weekly_scoped:scoped'')"
    using assms by (auto simp: currentConstraint_def Let_def split: if_splits option.splits)
  then obtain f ms ps where f: "claudeQuotaFamilyScope f = Some (ms, ps)"
    and c': "c' = c\<lparr>qc_applies_to_models := Some (Some ms), qc_applies_to_model_prefixes := Some ps\<rparr>"
    using assms by (auto simp: currentConstraint_def Let_def split: if_splits option.splits)
  obtain p where "ps = [p]" using claudeQuotaFamilyScope_shape [OF f] by blast
  then have "retiredClaudeAliasFamily c' = None"
    by (simp add: c' retiredClaudeAliasFamily_def)
  then show ?thesis using s c' by (simp add: currentConstraint_def Let_def)
qed

lemma apply_scope_Keep:
  "c' \<in> set (apply_scope s c) \<Longrightarrow> currentConstraint s c' = Keep"
  by (auto simp: apply_scope_def currentConstraint_Replace split: scope_result.splits)

lemma apply_scope_same_window:
  "c' \<in> set (apply_scope s c) \<Longrightarrow>
     qc_id c' = qc_id c \<and> qc_used_ratio c' = qc_used_ratio c \<and> qc_resets_at c' = qc_resets_at c \<and>
     qc_cooldown_until c' = qc_cooldown_until c \<and> qc_window_seconds c' = qc_window_seconds c"
  by (auto simp: apply_scope_def currentConstraint_def Let_def split: if_splits option.splits)

end
