(* ===== verification/Ledger_Quota.thy ===== *)
theory Ledger_Quota
  imports Ledger Quota_Scope
begin

text \<open>
  The quota half of \<open>BudgetLedger\<close>: live observations and durable snapshots of one view,
  the cooldown test and the pacing slack. The clock is the argument \<open>now\<close> and
  \<open>Date.parse\<close> the argument \<open>dp\<close>; the credential subject and the model are undefined
  (\<open>None\<close>), null (\<open>Some None\<close>) or a name.
\<close>

record quota_view =
  qv_observations :: "budget_observation list"
  qv_snapshots :: "(string, quota_snapshot) jsmap"

definition observe :: "quota_view \<Rightarrow> budget_observation \<Rightarrow> quota_view" where
  "observe q ob = q\<lparr>qv_observations := qv_observations q @ [ob]\<rparr>"

definition observeQuotaSnapshot ::
  "(rat \<Rightarrow> string) \<Rightarrow> quota_view \<Rightarrow> quota_snapshot \<Rightarrow> quota_view option" where
  "observeQuotaSnapshot num q s =
     map_option (\<lambda>i. q\<lparr>qv_snapshots := jset i s (qv_snapshots q)\<rparr>) (quotaSnapshotIdentity num s)"

definition observationsFor :: "quota_view \<Rightarrow> string \<Rightarrow> budget_observation list" where
  "observationsFor q harnessId = filter (\<lambda>ob. bo_harness_id ob = harnessId) (qv_observations q)"

definition snapshotsFor ::
  "quota_view \<Rightarrow> string \<Rightarrow> credential_route \<Rightarrow> string option option \<Rightarrow> quota_snapshot list" where
  "snapshotsFor q harnessId route subject =
     filter (\<lambda>s. qn_freshness s = FreshQ \<and> qs_harness (qn_subject s) = harnessId \<and>
                 qs_credential_route (qn_subject s) = route \<and>
                 (subject = None \<or> Some (qs_subject_id (qn_subject s)) = subject))
       (jvalues (qv_snapshots q))"

text \<open>The subject, route, operation and model test the two queries share.\<close>

definition observation_applies ::
  "credential_route option \<Rightarrow> string option option \<Rightarrow> string option option \<Rightarrow> budget_observation \<Rightarrow> bool" where
  "observation_applies route subject model ob \<longleftrightarrow>
     (subject = None \<or> Some (flat (bo_subject_id ob)) = subject) \<and>
     (route = None \<or> bo_credential_route ob = None \<or> bo_credential_route ob = route) \<and>
     quotaConstraintAppliesToRequestKind (bo_applies_to_request_kinds ob) TextRequest \<and>
     quotaConstraintAppliesToModel (flat (bo_applies_to_models ob)) (bo_applies_to_model_prefixes ob)
       (bo_applies_to_unspecified_model ob) model"

definition constraint_applies :: "string option option \<Rightarrow> quota_constraint \<Rightarrow> bool" where
  "constraint_applies model c \<longleftrightarrow>
     quotaConstraintAppliesToRequestKind (qc_applies_to_request_kinds c) TextRequest \<and>
     quotaConstraintAppliesToModel (flat (qc_applies_to_models c)) (qc_applies_to_model_prefixes c)
       (qc_applies_to_unspecified_model c) model"

text \<open>An instant that parses and is still ahead.\<close>

definition still_ahead :: "(string \<Rightarrow> int option) \<Rightarrow> int \<Rightarrow> string option \<Rightarrow> bool" where
  "still_ahead dp now s =
     (case truthy s of None \<Rightarrow> False
      | Some t \<Rightarrow> (case dp t of None \<Rightarrow> False | Some i \<Rightarrow> now < i))"

definition observation_cools ::
  "(string \<Rightarrow> int option) \<Rightarrow> credential_route option \<Rightarrow> string option option \<Rightarrow> int \<Rightarrow>
   string option option \<Rightarrow> budget_observation \<Rightarrow> bool" where
  "observation_cools dp route subject now model ob \<longleftrightarrow>
     observation_applies route subject model ob \<and> still_ahead dp now (flat (bo_cooldown_until ob))"

definition constraint_cools ::
  "(string \<Rightarrow> int option) \<Rightarrow> int \<Rightarrow> string option option \<Rightarrow> quota_constraint \<Rightarrow> bool" where
  "constraint_cools dp now model c \<longleftrightarrow>
     constraint_applies model c \<and>
     (still_ahead dp now (qc_cooldown_until c) \<or>
      (case qc_used_ratio c of None \<Rightarrow> False | Some u \<Rightarrow> 1 \<le> u) \<and> still_ahead dp now (qc_resets_at c))"

definition cooldownActive ::
  "(string \<Rightarrow> int option) \<Rightarrow> quota_view \<Rightarrow> string \<Rightarrow> credential_route option \<Rightarrow>
   string option option \<Rightarrow> int \<Rightarrow> string option option \<Rightarrow> bool" where
  "cooldownActive dp q harnessId route subject now model =
     (if \<exists>ob \<in> set (observationsFor q harnessId). observation_cools dp route subject now model ob
      then True
      else case route of
          None \<Rightarrow> False
        | Some r \<Rightarrow>
            \<exists>s \<in> set (snapshotsFor q harnessId r subject).
              \<exists>c \<in> set (qn_constraints s). constraint_cools dp now model c)"

section \<open>Pacing\<close>

fun route_key :: "credential_route option \<Rightarrow> string" where
  "route_key None = ''''"
| "route_key (Some r) = credential_route_name r"

definition latest_key :: "budget_observation \<Rightarrow> string" where
  "latest_key ob =
     join nul_sep [route_key (bo_credential_route ob), nullish (flat (bo_subject_id ob)) '''',
                   nullish (bo_constraint_id ob) '''']"

fun latest_windows ::
  "credential_route option \<Rightarrow> string option option \<Rightarrow> string option option \<Rightarrow>
   budget_observation list \<Rightarrow> (string, budget_observation) jsmap \<Rightarrow> (string, budget_observation) jsmap" where
  "latest_windows route subject model [] m = m"
| "latest_windows route subject model (ob # obs) m =
     (if bo_kind ob \<noteq> ObsQuotaConstraint \<or> truthy (bo_constraint_id ob) = None \<or>
         \<not> observation_applies route subject model ob
      then latest_windows route subject model obs m
      else latest_windows route subject model obs (jset (latest_key ob) ob m))"

definition window_slack ::
  "(string \<Rightarrow> int option) \<Rightarrow> int \<Rightarrow> rat option \<Rightarrow> rat option \<Rightarrow> string option \<Rightarrow> rat option" where
  "window_slack dp now used window resets =
     (case (used, window, truthy resets) of
        (Some u, Some w, Some r) \<Rightarrow>
          (case dp r of
             None \<Rightarrow> None
           | Some reset \<Rightarrow>
               if reset \<le> now then None
               else Some (1 - min 1 (max 0 (of_int (reset - now) / 1000 / w)) - u))
      | _ \<Rightarrow> None)"

definition bindingPaceSlack ::
  "(string \<Rightarrow> int option) \<Rightarrow> quota_view \<Rightarrow> string \<Rightarrow> credential_route option \<Rightarrow>
   string option option \<Rightarrow> int \<Rightarrow> string option option \<Rightarrow> rat option" where
  "bindingPaceSlack dp q harnessId route subject now model =
     (let live = jvalues (latest_windows route subject model (observationsFor q harnessId) []);
          slacks = List.map_filter
            (\<lambda>ob. window_slack dp now (flat (bo_used_ratio ob)) (flat (bo_window_seconds ob))
                    (flat (bo_resets_at ob))) live;
          durable = (case route of None \<Rightarrow> []
            | Some r \<Rightarrow>
                concat (map (\<lambda>s. List.map_filter
                    (\<lambda>c. if constraint_applies model c
                         then window_slack dp now (qc_used_ratio c) (qc_window_seconds c) (qc_resets_at c)
                         else None) (qn_constraints s))
                  (snapshotsFor q harnessId r subject)));
          all = slacks @ durable
      in if all = [] then None else Some (Min (set all)))"

end
