(* ===== verification/Ordering.thy ===== *)
theory Ordering
  imports Prelude
begin

text \<open>
  Array sorting by a comparator. \<open>Array.prototype.sort\<close> and \<open>toSorted\<close> are stable
  and, for a consistent comparator, their result is determined: \<open>js_sort\<close> computes it, and
  inside the locale \<open>comparator\<close> it is shown to be the only sorted and stable
  rearrangement. The components that sort (arbitration and routing) interpret the locale on
  their own comparison functions.
\<close>

fun sort_insert :: "('a \<Rightarrow> 'a \<Rightarrow> 'n::linordered_idom) \<Rightarrow> 'a \<Rightarrow> 'a list \<Rightarrow> 'a list" where
  "sort_insert cmp x [] = [x]"
| "sort_insert cmp x (y # ys) =
     (if cmp x y \<le> 0 then x # y # ys else y # sort_insert cmp x ys)"

fun js_sort :: "('a \<Rightarrow> 'a \<Rightarrow> 'n::linordered_idom) \<Rightarrow> 'a list \<Rightarrow> 'a list" where
  "js_sort cmp [] = []"
| "js_sort cmp (x # xs) = sort_insert cmp x (js_sort cmp xs)"

lemma mset_sort_insert [simp]: "mset (sort_insert cmp x xs) = add_mset x (mset xs)"
  by (induction xs) auto

lemma mset_js_sort [simp]: "mset (js_sort cmp xs) = mset xs"
  by (induction xs) auto

lemma set_js_sort [simp]: "set (js_sort cmp xs) = set xs"
  by (metis mset_js_sort set_mset_mset)

lemma length_js_sort [simp]: "length (js_sort cmp xs) = length xs"
  by (metis mset_js_sort size_mset)

lemma js_sort_eq_Nil_iff [simp]: "js_sort cmp xs = [] \<longleftrightarrow> xs = []"
  by (metis length_js_sort length_0_conv)

locale comparator =
  fixes cmp :: "'a \<Rightarrow> 'a \<Rightarrow> 'n::linordered_idom"
  assumes flip: "sgn (cmp y x) = - sgn (cmp x y)"
    and trans: "cmp x y \<le> 0 \<Longrightarrow> cmp y z \<le> 0 \<Longrightarrow> cmp x z \<le> 0"
begin

lemma self [simp]: "cmp x x = 0"
  using flip [of x x] by (simp add: sgn_if split: if_splits)

lemma flip_le: "cmp x y \<le> 0 \<longleftrightarrow> 0 \<le> cmp y x"
  using flip [of y x] by (auto simp: sgn_if split: if_splits)

lemma flip_eq: "cmp x y = 0 \<longleftrightarrow> cmp y x = 0"
  using flip_le [of x y] flip_le [of y x] by (auto intro: antisym)

lemma flip_less: "cmp x y < 0 \<longleftrightarrow> 0 < cmp y x"
  using flip_le [of y x] by (auto simp: not_le [symmetric])

lemma total: "\<not> cmp x y \<le> 0 \<Longrightarrow> cmp y x \<le> 0"
  using flip_le [of y x] by simp

lemma both_le: "cmp x y \<le> 0 \<Longrightarrow> cmp y x \<le> 0 \<Longrightarrow> cmp x y = 0"
  using flip_le [of x y] flip_le [of y x] by (auto intro: antisym)

lemma tie_trans: "cmp x y = 0 \<Longrightarrow> cmp y z = 0 \<Longrightarrow> cmp x z = 0"
  using trans [of x y z] trans [of z y x] flip_eq [of x y] flip_eq [of y z] both_le [of x z]
  by simp

lemma less_trans: "cmp x y < 0 \<Longrightarrow> cmp y z \<le> 0 \<Longrightarrow> cmp x z < 0"
  using trans [of x y z] trans [of y z x] flip_less [of x y] flip_eq [of x z]
  by (metis less_le not_le order_refl)

lemma sorted_sort_insert:
  "sorted_wrt (\<lambda>x y. cmp x y \<le> 0) ys \<Longrightarrow>
   sorted_wrt (\<lambda>x y. cmp x y \<le> 0) (sort_insert cmp x ys)"
proof (induction ys)
  case Nil
  then show ?case by simp
next
  case (Cons y ys)
  have set_ins: "set (sort_insert cmp x ys) = insert x (set ys)"
    by (metis mset_sort_insert set_mset_add_mset_insert set_mset_mset)
  show ?case
  proof (cases "cmp x y \<le> 0")
    case True
    then show ?thesis using Cons.prems by (auto intro: trans)
  next
    case False
    then show ?thesis using Cons by (auto simp: set_ins dest: total)
  qed
qed

lemma sorted_js_sort: "sorted_wrt (\<lambda>x y. cmp x y \<le> 0) (js_sort cmp xs)"
  by (induction xs) (auto intro: sorted_sort_insert)

lemma filter_sort_insert:
  "filter (\<lambda>y. cmp k y = 0) (sort_insert cmp x ys) = filter (\<lambda>y. cmp k y = 0) (x # ys)"
proof (induction ys)
  case Nil
  show ?case by simp
next
  case (Cons y ys)
  have "\<not> (cmp k x = 0 \<and> cmp k y = 0)" if "\<not> cmp x y \<le> 0"
    using that flip_eq [of k x] tie_trans [of x k y] by auto
  with Cons show ?case by auto
qed

lemma stable: "filter (\<lambda>y. cmp k y = 0) (js_sort cmp xs) = filter (\<lambda>y. cmp k y = 0) xs"
  by (induction xs) (simp_all add: filter_sort_insert)

lemma sorted_stable_unique:
  assumes "sorted_wrt (\<lambda>x y. cmp x y \<le> 0) xs" and "sorted_wrt (\<lambda>x y. cmp x y \<le> 0) ys"
    and "\<And>k. filter (\<lambda>y. cmp k y = 0) xs = filter (\<lambda>y. cmp k y = 0) ys"
  shows "xs = ys"
  using assms
proof (induction xs arbitrary: ys)
  case Nil
  show ?case
  proof (cases ys)
    case (Cons b bs)
    then show ?thesis using Nil.prems(3) [of b] by simp
  qed simp
next
  case (Cons a as)
  have "a \<in> set (filter (\<lambda>y. cmp a y = 0) ys)"
    by (subst Cons.prems(3) [symmetric]) simp
  then have ay: "a \<in> set ys" by simp
  then obtain b bs where ys: "ys = b # bs" by (cases ys) auto
  have "b \<in> set (filter (\<lambda>y. cmp b y = 0) (a # as))"
    by (subst Cons.prems(3)) (simp add: ys)
  then have "cmp a b \<le> 0" using Cons.prems(1) by (auto split: if_splits)
  moreover have "cmp b a \<le> 0" using Cons.prems(2) ay ys by auto
  ultimately have tie: "cmp a b = 0" by (rule both_le)
  have ab: "a = b" using Cons.prems(3) [of a] tie by (simp add: ys)
  have "as = bs"
  proof (rule Cons.IH)
    show "sorted_wrt (\<lambda>x y. cmp x y \<le> 0) as" using Cons.prems(1) by simp
    show "sorted_wrt (\<lambda>x y. cmp x y \<le> 0) bs" using Cons.prems(2) ys by simp
    show "filter (\<lambda>y. cmp k y = 0) as = filter (\<lambda>y. cmp k y = 0) bs" for k
      using Cons.prems(3) [of k] by (auto simp: ys ab split: if_splits)
  qed
  with ab ys show ?case by simp
qed

text \<open>The result of the sort is determined by the comparator: any stable algorithm agrees.\<close>

lemma js_sort_unique:
  assumes "sorted_wrt (\<lambda>x y. cmp x y \<le> 0) ys"
    and "\<And>k. filter (\<lambda>y. cmp k y = 0) ys = filter (\<lambda>y. cmp k y = 0) xs"
  shows "js_sort cmp xs = ys"
  by (rule sorted_stable_unique) (simp_all add: sorted_js_sort assms stable)

lemma js_sort_sorted_id: "sorted_wrt (\<lambda>x y. cmp x y \<le> 0) xs \<Longrightarrow> js_sort cmp xs = xs"
  by (rule js_sort_unique) simp_all

lemma head_least: "js_sort cmp xs = y # ys \<Longrightarrow> x \<in> set xs \<Longrightarrow> cmp y x \<le> 0"
  using sorted_js_sort [of xs] by (auto simp: set_js_sort [of cmp xs, symmetric] simp del: set_js_sort)

lemma head_first_of_ties:
  assumes "js_sort cmp xs = y # ys"
  shows "\<exists>rest. filter (\<lambda>x. cmp y x = 0) xs = y # rest"
  using stable [of y xs] by (auto simp: assms intro: sym)

text \<open>Where only equal elements tie, the order of the input does not matter.\<close>

lemma filter_ties_replicate:
  assumes "\<And>x y. x \<in> set xs \<Longrightarrow> y \<in> set xs \<Longrightarrow> cmp x y = 0 \<Longrightarrow> x = y"
    and "mset xs = mset ys"
  shows "filter (\<lambda>y. cmp k y = 0) xs = filter (\<lambda>y. cmp k y = 0) ys"
proof -
  let ?P = "\<lambda>y. cmp k y = 0"
  have m: "mset (filter ?P xs) = mset (filter ?P ys)" using assms(2) by simp
  show ?thesis
  proof (cases "filter ?P xs")
    case Nil
    then show ?thesis using m by simp
  next
    case (Cons a as)
    then have "a \<in> set (filter ?P xs)" by simp
    then have a: "a \<in> set xs" "cmp k a = 0" by simp_all
    have all: "\<forall>y \<in> set (filter ?P xs). y = a"
    proof
      fix y assume "y \<in> set (filter ?P xs)"
      then have "y \<in> set xs" "cmp k y = 0" by simp_all
      moreover have "cmp y a = 0"
        using tie_trans [of y k a] flip_eq [of k y] \<open>cmp k y = 0\<close> a(2) by simp
      ultimately show "y = a" using assms(1) a(1) by blast
    qed
    then have "\<forall>y \<in> set (filter ?P ys). y = a" using m by (metis set_mset_mset)
    then have "filter ?P ys = replicate (length (filter ?P ys)) a"
      by (simp add: replicate_length_same)
    moreover have "filter ?P xs = replicate (length (filter ?P xs)) a"
      using all by (simp add: replicate_length_same)
    moreover have "length (filter ?P xs) = length (filter ?P ys)" using m by (rule mset_eq_length)
    ultimately show ?thesis by simp
  qed
qed

lemma js_sort_permutation:
  assumes "\<And>x y. x \<in> set xs \<Longrightarrow> y \<in> set xs \<Longrightarrow> cmp x y = 0 \<Longrightarrow> x = y"
    and "mset xs = mset ys"
  shows "js_sort cmp xs = js_sort cmp ys"
proof (rule js_sort_unique)
  show "sorted_wrt (\<lambda>x y. cmp x y \<le> 0) (js_sort cmp ys)" by (rule sorted_js_sort)
  show "filter (\<lambda>y. cmp k y = 0) (js_sort cmp ys) = filter (\<lambda>y. cmp k y = 0) xs" for k
    unfolding stable by (rule filter_ties_replicate [OF assms, symmetric])
qed

lemma adjacent_ties_sorted:
  assumes "\<And>i. Suc i < length xs \<Longrightarrow> cmp (xs ! i) (xs ! Suc i) \<le> 0"
  shows "sorted_wrt (\<lambda>x y. cmp x y \<le> 0) xs"
  using assms
proof (induction xs)
  case (Cons x xs)
  have srt: "sorted_wrt (\<lambda>x y. cmp x y \<le> 0) xs"
  proof (rule Cons.IH)
    show "cmp (xs ! i) (xs ! Suc i) \<le> 0" if "Suc i < length xs" for i
      using Cons.prems [of "Suc i"] that by simp
  qed
  show ?case
  proof (cases xs)
    case (Cons z zs)
    have "cmp x z \<le> 0" using Cons.prems [of 0] Cons by simp
    then show ?thesis using srt Cons by (auto intro: trans)
  qed simp
qed simp

end

section \<open>Comparators by keys\<close>

text \<open>The shape of every comparison function of the source: the first key that differs decides.\<close>

definition key_cmp :: "('a \<Rightarrow> 'n::linordered_idom) \<Rightarrow> 'a \<Rightarrow> 'a \<Rightarrow> 'n" where
  "key_cmp f a b = f a - f b"

definition then_cmp ::
  "('a \<Rightarrow> 'a \<Rightarrow> 'n::linordered_idom) \<Rightarrow> ('a \<Rightarrow> 'a \<Rightarrow> 'n) \<Rightarrow> 'a \<Rightarrow> 'a \<Rightarrow> 'n" where
  "then_cmp c d a b = (if c a b \<noteq> 0 then c a b else d a b)"

lemma comparator_key: "comparator (key_cmp f)"
  by unfold_locales (auto simp: key_cmp_def sgn_if)

lemma comparator_then:
  assumes "comparator c" and "comparator d"
  shows "comparator (then_cmp c d)"
proof
  show "sgn (then_cmp c d y x) = - sgn (then_cmp c d x y)" for x y
    using comparator.flip [OF assms(1), of x y] comparator.flip [OF assms(2), of x y]
      comparator.flip_eq [OF assms(1), of x y]
    by (simp add: then_cmp_def)
next
  fix x y z
  assume xy: "then_cmp c d x y \<le> 0" and yz: "then_cmp c d y z \<le> 0"
  have cxy: "c x y \<le> 0" and cyz: "c y z \<le> 0"
    using xy yz by (auto simp: then_cmp_def split: if_splits)
  have cxz: "c x z \<le> 0" by (rule comparator.trans [OF assms(1) cxy cyz])
  show "then_cmp c d x z \<le> 0"
  proof (cases "c x z = 0")
    case False
    then show ?thesis using cxz by (simp add: then_cmp_def)
  next
    case True
    have "c z x \<le> 0" using True comparator.flip_eq [OF assms(1), of x z] by simp
    then have "c y x \<le> 0" and "c z y \<le> 0"
      using comparator.trans [OF assms(1)] cxy cyz by blast+
    then have "c x y = 0" and "c y z = 0"
      using comparator.both_le [OF assms(1)] cxy cyz by blast+
    then have "d x y \<le> 0" and "d y z \<le> 0" using xy yz by (simp_all add: then_cmp_def)
    then have "d x z \<le> 0" by (rule comparator.trans [OF assms(2)])
    then show ?thesis using True by (simp add: then_cmp_def)
  qed
qed

end
