(* ===== verification/Router.thy ===== *)
theory Router
  imports Ledger_Quota Ordering
begin

text \<open>
  \<open>packages/budget/src/router.ts\<close>: which routes are eligible, how they are ordered for each
  goal, and the typed rationale. A comparator's number is a rational; an infinite difference is
  given by its sign, the only thing the sort reads. The ledger's two queries are taken from the
  quota view in the context.
\<close>

record route_auth_evidence =
  rae_route :: "credential_route option"
  rae_verification :: auth_verification

definition billingKnowledgeForAuthRoute :: "route_auth_evidence \<Rightarrow> billing_knowledge" where
  "billingKnowledgeForAuthRoute e =
     (if rae_route e = Some ManagedApiKey then Metered
      else if rae_route e = Some VendorNative \<and> rae_verification e = VerPassed
        then SubscriptionEntitlement
      else UnknownBilling)"

record router_candidate =
  rk_costEvidence :: "cost_evidence option"
  rk_harnessId :: string
  rk_available :: bool
  rk_model :: "string option option"
  rk_effort :: "string option"
  rk_billingKnowledge :: "billing_knowledge option"
  rk_authRoute :: "route_auth_evidence option"
  rk_incrementalCostUsd :: "rat option"
  rk_credentialRoute :: "credential_route option"
  rk_credentialSubjectId :: "string option option"

record route_context =
  rx_goal :: routing_goal
  rx_paidFallback :: paid_fallback
  rx_intent :: intent
  rx_qualityTiers :: quality_tier_set
  rx_quota :: quota_view
  rx_now :: "int option"

datatype routing_error = RoutingPreflightError intent

definition tier_matches :: "router_candidate \<Rightarrow> quality_tier_route \<Rightarrow> bool" where
  "tier_matches c r \<longleftrightarrow>
     qtr_harness r = rk_harnessId c \<and> rk_model c = Some (Some (qtr_model r)) \<and>
     rk_effort c = Some (qtr_effort r)"

fun find_index :: "('a \<Rightarrow> bool) \<Rightarrow> 'a list \<Rightarrow> nat option" where
  "find_index p [] = None"
| "find_index p (x # xs) = (if p x then Some 0 else map_option Suc (find_index p xs))"

definition tierIndex :: "router_candidate \<Rightarrow> route_context \<Rightarrow> nat option" where
  "tierIndex c ctx =
     find_index (\<lambda>t. \<exists>r \<in> set t. tier_matches c r)
       (nullish (jget (rx_qualityTiers ctx) (rx_intent ctx)) [])"

definition effectiveBilling :: "router_candidate \<Rightarrow> billing_knowledge" where
  "effectiveBilling c =
     (case rk_costEvidence c of
        Some e \<Rightarrow> ce_billing e
      | None \<Rightarrow>
          (case rk_authRoute c of
             Some a \<Rightarrow> billingKnowledgeForAuthRoute a
           | None \<Rightarrow> nullish (rk_billingKnowledge c) UnknownBilling))"

definition processingBillingKnowledge ::
  "processing_cost_basis option \<Rightarrow> billing_knowledge \<Rightarrow> billing_knowledge" where
  "processingBillingKnowledge basis ordinary =
     (case basis of
        None \<Rightarrow> ordinary
      | Some b \<Rightarrow>
          (case pcb_kind b of
             PkIncluded \<Rightarrow> SubscriptionEntitlement
           | PkCash \<Rightarrow> Metered
           | PkPaidCredits \<Rightarrow> Metered
           | _ \<Rightarrow> UnknownBilling))"

definition isIncrementalPaid :: "router_candidate \<Rightarrow> bool" where
  "isIncrementalPaid c \<longleftrightarrow> effectiveBilling c \<notin> {ProvenZero, SubscriptionEntitlement}"

text \<open>The clock is read once per call when the caller pinned no instant.\<close>

definition pinInstant :: "int \<Rightarrow> route_context \<Rightarrow> route_context" where
  "pinInstant clock ctx = (if rx_now ctx = None then ctx\<lparr>rx_now := Some clock\<rparr> else ctx)"

definition pinned_now :: "route_context \<Rightarrow> int" where
  "pinned_now ctx = nullish (rx_now ctx) 0"

definition cooling :: "(string \<Rightarrow> int option) \<Rightarrow> router_candidate \<Rightarrow> route_context \<Rightarrow> bool" where
  "cooling dp c ctx =
     cooldownActive dp (rx_quota ctx) (rk_harnessId c) (rk_credentialRoute c)
       (rk_credentialSubjectId c) (pinned_now ctx) (rk_model c)"

definition eligible ::
  "(string \<Rightarrow> int option) \<Rightarrow> router_candidate list \<Rightarrow> route_context \<Rightarrow> router_candidate list" where
  "eligible dp candidates ctx =
     (let ready = filter (\<lambda>c. rk_available c \<and> \<not> cooling dp c ctx) candidates;
          free = filter (\<lambda>c. \<not> isIncrementalPaid c) ready
      in if rx_paidFallback ctx = FallbackNever then free
         else if rx_paidFallback ctx = FallbackWhenUnavailable \<and> free \<noteq> [] then free
         else ready)"

definition max_safe_integer :: int where
  "max_safe_integer = 9007199254740991"

definition tierValueOf :: "router_candidate \<Rightarrow> route_context \<Rightarrow> int" where
  "tierValueOf c ctx = (case tierIndex c ctx of None \<Rightarrow> max_safe_integer | Some i \<Rightarrow> int i)"

definition autoSlack ::
  "(string \<Rightarrow> int option) \<Rightarrow> router_candidate \<Rightarrow> route_context \<Rightarrow> rat option" where
  "autoSlack dp c ctx =
     bindingPaceSlack dp (rx_quota ctx) (rk_harnessId c) (rk_credentialRoute c)
       (rk_credentialSubjectId c) (pinned_now ctx) (rk_model c)"

datatype auto_rank_axis = AxisSlack | AxisTier

definition slack_order :: "rat option \<Rightarrow> rat option \<Rightarrow> rat" where
  "slack_order a b =
     (case (a, b) of
        (Some x, Some y) \<Rightarrow> y - x
      | (Some x, None) \<Rightarrow> -1
      | (None, Some y) \<Rightarrow> 1
      | (None, None) \<Rightarrow> 0)"

definition compareAutoTraced ::
  "(string \<Rightarrow> int option) \<Rightarrow> route_context \<Rightarrow> router_candidate \<Rightarrow> router_candidate \<Rightarrow>
   rat \<times> auto_rank_axis option" where
  "compareAutoTraced dp ctx a b =
     (let aSlack = autoSlack dp a ctx; bSlack = autoSlack dp b ctx
      in if aSlack \<noteq> None \<or> bSlack \<noteq> None
         then (let order = slack_order aSlack bSlack
               in (order, if order \<noteq> 0 then Some AxisSlack else None))
         else (let order = of_int (tierValueOf a ctx - tierValueOf b ctx)
               in (order, if order \<noteq> 0 then Some AxisTier else None)))"

definition compareAuto ::
  "(string \<Rightarrow> int option) \<Rightarrow> route_context \<Rightarrow> router_candidate \<Rightarrow> router_candidate \<Rightarrow> rat" where
  "compareAuto dp ctx a b = fst (compareAutoTraced dp ctx a b)"

definition compareQuality :: "route_context \<Rightarrow> router_candidate \<Rightarrow> router_candidate \<Rightarrow> rat" where
  "compareQuality ctx a b = of_int (tierValueOf a ctx - tierValueOf b ctx)"

text \<open>
  A missing cost is infinite: two infinities subtract to not-a-number, which is falsy like zero
  and falls through to the tiers.
\<close>

definition cost_order :: "rat option \<Rightarrow> rat option \<Rightarrow> rat" where
  "cost_order a b =
     (case (a, b) of
        (Some x, Some y) \<Rightarrow> x - y
      | (Some x, None) \<Rightarrow> -1
      | (None, Some y) \<Rightarrow> 1
      | (None, None) \<Rightarrow> 0)"

definition compareEconomy :: "route_context \<Rightarrow> router_candidate \<Rightarrow> router_candidate \<Rightarrow> rat" where
  "compareEconomy ctx a b =
     (let paid = (\<lambda>c. if isIncrementalPaid c then 1 else 0);
          paidOrder = paid a - paid b;
          cost = cost_order (rk_incrementalCostUsd a) (rk_incrementalCostUsd b)
      in if paidOrder \<noteq> 0 then paidOrder
         else if cost \<noteq> 0 then cost
         else of_int (tierValueOf a ctx - tierValueOf b ctx))"

fun goal_comparator ::
  "(string \<Rightarrow> int option) \<Rightarrow> route_context \<Rightarrow> routing_goal \<Rightarrow> router_candidate \<Rightarrow> router_candidate \<Rightarrow> rat" where
  "goal_comparator dp ctx GoalAuto = compareAuto dp ctx"
| "goal_comparator dp ctx GoalQuality = compareQuality ctx"
| "goal_comparator dp ctx GoalEconomy = compareEconomy ctx"

definition rankHarnesses ::
  "(string \<Rightarrow> int option) \<Rightarrow> int \<Rightarrow> router_candidate list \<Rightarrow> route_context \<Rightarrow>
   routing_error + router_candidate list" where
  "rankHarnesses dp clock candidates context' =
     (let ctx = pinInstant clock context'; routes = eligible dp candidates ctx
      in if rx_goal ctx = GoalQuality \<and> (\<forall>c \<in> set routes. tierIndex c ctx = None)
         then Inl (RoutingPreflightError (rx_intent ctx))
         else Inr (js_sort (goal_comparator dp ctx (rx_goal ctx)) routes))"

definition selectHarness ::
  "(string \<Rightarrow> int option) \<Rightarrow> int \<Rightarrow> router_candidate list \<Rightarrow> route_context \<Rightarrow>
   routing_error + router_candidate option" where
  "selectHarness dp clock candidates ctx =
     (case rankHarnesses dp clock candidates ctx of
        Inl e \<Rightarrow> Inl e
      | Inr [] \<Rightarrow> Inr None
      | Inr (c # _) \<Rightarrow> Inr (Some c))"

section \<open>The rationale\<close>

definition distinguishes :: "'b list \<Rightarrow> bool" where
  "distinguishes vs = (case vs of [] \<Rightarrow> False | v # rest \<Rightarrow> \<exists>w \<in> set rest. w \<noteq> v)"

definition tiersDistinguish :: "router_candidate list \<Rightarrow> route_context \<Rightarrow> bool" where
  "tiersDistinguish ranked ctx = distinguishes (map (\<lambda>c. tierValueOf c ctx) ranked)"

definition costsDistinguish :: "router_candidate list \<Rightarrow> bool" where
  "costsDistinguish ranked = distinguishes (map rk_incrementalCostUsd ranked)"

fun adjacent_axes ::
  "(string \<Rightarrow> int option) \<Rightarrow> route_context \<Rightarrow> router_candidate list \<Rightarrow> auto_rank_axis list" where
  "adjacent_axes dp ctx (a # b # rest) =
     (case snd (compareAutoTraced dp ctx a b) of
        None \<Rightarrow> adjacent_axes dp ctx (b # rest)
      | Some x \<Rightarrow> x # adjacent_axes dp ctx (b # rest))"
| "adjacent_axes dp ctx _ = []"

definition rankingReason ::
  "(string \<Rightarrow> int option) \<Rightarrow> route_context \<Rightarrow> router_candidate list \<Rightarrow> router_candidate list \<Rightarrow>
   route_ranking_reason" where
  "rankingReason dp ctx ranked candidates =
     (if rx_goal ctx = GoalQuality then QualityTierReason
      else if rx_goal ctx = GoalAuto then
        (let axes = set (adjacent_axes dp ctx ranked)
         in if AxisSlack \<in> axes then ExpiringQuotaSlack
            else if AxisTier \<in> axes then QualityTierReason
            else DeclaredOrder)
      else
        (let someEntitled = (\<exists>c \<in> set ranked. \<not> isIncrementalPaid c);
             anyPaidConsidered = (\<exists>c \<in> set candidates. isIncrementalPaid c)
         in if someEntitled \<and> anyPaidConsidered then SubscriptionEntitlementFirst
            else if costsDistinguish ranked then LowestIncrementalCash
            else if tiersDistinguish ranked ctx then QualityTierReason
            else if ranked \<noteq> [] \<and> (\<exists>c \<in> set ranked. rk_incrementalCostUsd c = None)
              then AllIncrementalCashUnknown
            else DeclaredOrder))"

definition explainRanking ::
  "(string \<Rightarrow> int option) \<Rightarrow> int \<Rightarrow> router_candidate list \<Rightarrow> route_context \<Rightarrow>
   routing_error + route_ranking_rationale" where
  "explainRanking dp clock candidates context' =
     (let ctx = pinInstant clock context'
      in case rankHarnesses dp clock candidates ctx of
           Inl e \<Rightarrow> Inl e
         | Inr ranked \<Rightarrow>
             let order = map rk_harnessId ranked
             in Inr \<lparr>rrr_goal = rx_goal ctx, rrr_paid_fallback = rx_paidFallback ctx,
                  rrr_order = order,
                  rrr_dropped = map rk_harnessId
                    (filter (\<lambda>c. rk_harnessId c \<notin> set order) candidates),
                  rrr_reason = rankingReason dp ctx ranked candidates,
                  rrr_entries = map (\<lambda>c.
                    \<lparr>rre_harness_id = rk_harnessId c, rre_billing_knowledge = effectiveBilling c,
                     rre_incremental_cost_usd = rk_incrementalCostUsd c,
                     rre_eligible = (rk_harnessId c \<in> set order)\<rparr>) candidates\<rparr>)"

end
