(* ===== verification/Router_Props.thy ===== *)
theory Router_Props
  imports Router
begin

text \<open>
  The comparison functions of the router are total preorders, so the locale \<open>comparator\<close>
  applies to each of them; the properties say what a ranking contains, in which order, and that
  the recorded reason agrees with it.
\<close>

section \<open>The comparators\<close>

interpretation auto_order: comparator "compareAuto dp ctx"
proof
  fix x y z
  show "sgn (compareAuto dp ctx y x) = - sgn (compareAuto dp ctx x y)"
    by (cases "autoSlack dp x ctx"; cases "autoSlack dp y ctx")
      (auto simp: compareAuto_def compareAutoTraced_def slack_order_def Let_def sgn_if)
  show "compareAuto dp ctx x y \<le> 0 \<Longrightarrow> compareAuto dp ctx y z \<le> 0 \<Longrightarrow> compareAuto dp ctx x z \<le> 0"
    by (cases "autoSlack dp x ctx"; cases "autoSlack dp y ctx"; cases "autoSlack dp z ctx")
      (auto simp: compareAuto_def compareAutoTraced_def slack_order_def Let_def)
qed

interpretation quality_order: comparator "compareQuality ctx"
  by unfold_locales (auto simp: compareQuality_def sgn_if)

interpretation economy_order: comparator "compareEconomy ctx"
proof
  fix x y z
  show "sgn (compareEconomy ctx y x) = - sgn (compareEconomy ctx x y)"
    by (cases "rk_incrementalCostUsd x"; cases "rk_incrementalCostUsd y")
      (auto simp: compareEconomy_def cost_order_def Let_def sgn_if)
  show "compareEconomy ctx x y \<le> 0 \<Longrightarrow> compareEconomy ctx y z \<le> 0 \<Longrightarrow> compareEconomy ctx x z \<le> 0"
    by (cases "rk_incrementalCostUsd x"; cases "rk_incrementalCostUsd y"; cases "rk_incrementalCostUsd z")
      (auto simp: compareEconomy_def cost_order_def Let_def split: if_splits)
qed

lemma goal_comparator_comparator: "comparator (goal_comparator dp ctx g)"
  by (cases g) (simp_all add: auto_order.comparator_axioms quality_order.comparator_axioms
      economy_order.comparator_axioms)

lemma rankHarnesses_Inr:
  "rankHarnesses dp clock cs ctx = Inr ranked \<Longrightarrow>
   ranked = js_sort (goal_comparator dp (pinInstant clock ctx) (rx_goal ctx))
              (eligible dp cs (pinInstant clock ctx))"
  by (auto simp: rankHarnesses_def Let_def pinInstant_def split: if_splits)

lemma pinInstant_fields [simp]:
  "rx_goal (pinInstant clock ctx) = rx_goal ctx"
  "rx_paidFallback (pinInstant clock ctx) = rx_paidFallback ctx"
  by (simp_all add: pinInstant_def)

lemma pinInstant_idem [simp]: "pinInstant c (pinInstant d ctx) = pinInstant d ctx"
  by (cases "rx_now ctx") (simp_all add: pinInstant_def)

lemma eligible_subset: "set (eligible dp cs ctx) \<subseteq> set cs"
  by (auto simp: eligible_def Let_def split: if_splits)

section \<open>Example pool\<close>

definition ex_route :: "string \<Rightarrow> bool \<Rightarrow> billing_knowledge \<Rightarrow> rat option \<Rightarrow> router_candidate" where
  "ex_route h a b cost = \<lparr>rk_costEvidence = None, rk_harnessId = h, rk_available = a,
     rk_model = Some None, rk_effort = None, rk_billingKnowledge = Some b, rk_authRoute = None,
     rk_incrementalCostUsd = cost, rk_credentialRoute = Some VendorNative,
     rk_credentialSubjectId = Some None\<rparr>"

definition ex_ctx :: "routing_goal \<Rightarrow> paid_fallback \<Rightarrow> route_context" where
  "ex_ctx g p = \<lparr>rx_goal = g, rx_paidFallback = p, rx_intent = IntImplement, rx_qualityTiers = [],
     rx_quota = \<lparr>qv_observations = [], qv_snapshots = []\<rparr>, rx_now = Some 0\<rparr>"

definition ex_pool :: "router_candidate list" where
  "ex_pool = [ex_route ''codex'' True Metered (Some 2), ex_route ''claude'' True SubscriptionEntitlement (Some 1),
     ex_route ''agy'' True SubscriptionEntitlement (Some 0)]"

lemmas ex_route_defs = ex_route_def ex_ctx_def ex_pool_def

lemmas router_eval = rankHarnesses_def pinInstant_def pinned_now_def eligible_def cooling_def
  cooldownActive_def observationsFor_def snapshotsFor_def isIncrementalPaid_def effectiveBilling_def
  compareEconomy_def cost_order_def tierValueOf_def tierIndex_def compareAuto_def compareAutoTraced_def
  autoSlack_def bindingPaceSlack_def slack_order_def Let_def

lemma ex_rank_economy:
  "rankHarnesses dp 0 ex_pool (ex_ctx GoalEconomy FallbackWithinCap) =
     Inr [ex_route ''agy'' True SubscriptionEntitlement (Some 0),
          ex_route ''claude'' True SubscriptionEntitlement (Some 1),
          ex_route ''codex'' True Metered (Some 2)]"
  by (simp add: router_eval ex_route_defs)

section \<open>Order\<close>

text \<open>C4: A ranking is the eligible pool sorted by the goal's comparator, stably: it is sorted, it is
  a rearrangement, routes the comparator ties keep their declared order, and it is the only list with
  these properties.\<close>

theorem rank_is_stable_sort:
  assumes "rankHarnesses dp clock cs ctx = Inr ranked"
    and "cmp = goal_comparator dp (pinInstant clock ctx) (rx_goal ctx)"
    and "pool = eligible dp cs (pinInstant clock ctx)"
  shows "sorted_wrt (\<lambda>x y. cmp x y \<le> 0) ranked \<and> mset ranked = mset pool \<and>
         (\<forall>k. filter (\<lambda>y. cmp k y = 0) ranked = filter (\<lambda>y. cmp k y = 0) pool) \<and>
         (\<forall>ys. sorted_wrt (\<lambda>x y. cmp x y \<le> 0) ys \<and>
               (\<forall>k. filter (\<lambda>y. cmp k y = 0) ys = filter (\<lambda>y. cmp k y = 0) pool) \<longrightarrow> ys = ranked)"
proof -
  have c: "comparator cmp" by (simp add: assms(2) goal_comparator_comparator)
  have r: "ranked = js_sort cmp pool" using rankHarnesses_Inr [OF assms(1)] assms(2,3) by simp
  show ?thesis
    using comparator.sorted_js_sort [OF c] comparator.stable [OF c] comparator.js_sort_unique [OF c]
    by (auto simp: r)
qed

theorem rank_is_stable_sort_witness:
  "mset [ex_route ''agy'' True SubscriptionEntitlement (Some 0),
         ex_route ''claude'' True SubscriptionEntitlement (Some 1),
         ex_route ''codex'' True Metered (Some 2)] =
   mset (eligible (\<lambda>_. None) ex_pool (pinInstant 0 (ex_ctx GoalEconomy FallbackWithinCap)))"
  using rank_is_stable_sort [OF ex_rank_economy refl refl, of "\<lambda>_. None"] by blast

text \<open>Only available routes that no cooldown applies to are ranked; with \<open>paid_fallback: never\<close>
  no route with incremental cost is, with \<open>when_unavailable\<close> none is while an entitled or free
  one is ready, and with \<open>allowed_within_cap\<close> every ready route is.\<close>

theorem rank_respects_policy:
  assumes "rankHarnesses dp clock cs ctx = Inr ranked"
  shows "(\<forall>c \<in> set ranked. c \<in> set cs \<and> rk_available c \<and> \<not> cooling dp c (pinInstant clock ctx)) \<and>
         (rx_paidFallback ctx = FallbackNever \<longrightarrow> (\<forall>c \<in> set ranked. \<not> isIncrementalPaid c)) \<and>
         (rx_paidFallback ctx = FallbackWhenUnavailable \<and>
            (\<exists>c \<in> set cs. rk_available c \<and> \<not> cooling dp c (pinInstant clock ctx) \<and> \<not> isIncrementalPaid c) \<longrightarrow>
            (\<forall>c \<in> set ranked. \<not> isIncrementalPaid c)) \<and>
         (rx_paidFallback ctx = FallbackWithinCap \<longrightarrow>
            set ranked = {c \<in> set cs. rk_available c \<and> \<not> cooling dp c (pinInstant clock ctx)})"
proof -
  have "set ranked = set (eligible dp cs (pinInstant clock ctx))"
    using rankHarnesses_Inr [OF assms] by simp
  then show ?thesis
    by (auto simp: eligible_def Let_def filter_empty_conv split: if_splits)
qed

theorem rank_respects_policy_witness:
  "\<not> cooling (\<lambda>_. None) (ex_route ''agy'' True SubscriptionEntitlement (Some 0))
       (pinInstant 0 (ex_ctx GoalEconomy FallbackWithinCap))"
  using rank_respects_policy [OF ex_rank_economy, of "\<lambda>_. None"] by simp

lemma sorted_partition:
  assumes "sorted_wrt P xs" and "\<And>x y. P x y \<Longrightarrow> p x \<Longrightarrow> p y"
  shows "xs = filter (\<lambda>x. \<not> p x) xs @ filter p xs"
  using assms(1)
proof (induction xs)
  case (Cons x xs)
  show ?case
  proof (cases "p x")
    case True
    then have "\<forall>y \<in> set xs. p y" using Cons.prems assms(2) by auto
    then show ?thesis using True by (simp add: filter_empty_conv)
  next
    case False
    then show ?thesis using Cons by simp
  qed
qed simp

text \<open>Economy routing puts every entitled or free route before every route with incremental cost,
  and a route whose cost is known before an equally paid route whose cost is unknown.\<close>

theorem economy_entitled_first:
  assumes "rankHarnesses dp clock cs ctx = Inr ranked" and "rx_goal ctx = GoalEconomy"
  shows "ranked = filter (\<lambda>c. \<not> isIncrementalPaid c) ranked @ filter isIncrementalPaid ranked \<and>
         (\<forall>i j. i < j \<and> j < length ranked \<and>
              isIncrementalPaid (ranked ! i) = isIncrementalPaid (ranked ! j) \<and>
              rk_incrementalCostUsd (ranked ! i) = None \<longrightarrow>
              rk_incrementalCostUsd (ranked ! j) = None)"
proof -
  let ?cmp = "compareEconomy (pinInstant clock ctx)"
  have s: "sorted_wrt (\<lambda>x y. ?cmp x y \<le> 0) ranked"
    using rankHarnesses_Inr [OF assms(1)] assms(2) economy_order.sorted_js_sort by simp
  have paid: "isIncrementalPaid y" if "?cmp x y \<le> 0" "isIncrementalPaid x" for x y
    using that by (auto simp: compareEconomy_def Let_def split: if_splits)
  have cost: "rk_incrementalCostUsd y = None"
    if "?cmp x y \<le> 0" "isIncrementalPaid x = isIncrementalPaid y" "rk_incrementalCostUsd x = None" for x y
    using that by (cases "rk_incrementalCostUsd y")
      (auto simp: compareEconomy_def cost_order_def Let_def split: if_splits)
  show ?thesis
  proof (intro conjI allI impI)
    show "ranked = filter (\<lambda>c. \<not> isIncrementalPaid c) ranked @ filter isIncrementalPaid ranked"
      using s paid by (rule sorted_partition)
  next
    fix i j
    assume ij: "i < j \<and> j < length ranked \<and>
      isIncrementalPaid (ranked ! i) = isIncrementalPaid (ranked ! j) \<and>
      rk_incrementalCostUsd (ranked ! i) = None"
    then have "?cmp (ranked ! i) (ranked ! j) \<le> 0"
      using s by (auto simp: sorted_wrt_iff_nth_less)
    then show "rk_incrementalCostUsd (ranked ! j) = None"
      using ij cost by blast
  qed
qed

theorem economy_entitled_first_witness:
  "\<exists>ranked. rankHarnesses (\<lambda>_. None) 0 ex_pool (ex_ctx GoalEconomy FallbackWithinCap) = Inr ranked \<and>
     ranked = filter (\<lambda>c. \<not> isIncrementalPaid c) ranked @ filter isIncrementalPaid ranked"
proof -
  have "rx_goal (ex_ctx GoalEconomy FallbackWithinCap) = GoalEconomy" by (simp add: ex_ctx_def)
  from economy_entitled_first [OF ex_rank_economy [of "\<lambda>_. None"] this] show ?thesis
    using ex_rank_economy [of "\<lambda>_. None"] by blast
qed

text \<open>The selected route is one the comparator puts before or level with every eligible route,
  and the first of its ties in declared order; nothing is selected only from an empty pool.\<close>

theorem select_is_best:
  assumes "selectHarness dp clock cs ctx = Inr sel"
    and "cmp = goal_comparator dp (pinInstant clock ctx) (rx_goal ctx)"
    and "pool = eligible dp cs (pinInstant clock ctx)"
  shows "(sel = None \<longleftrightarrow> pool = []) \<and>
         (\<forall>c. sel = Some c \<longrightarrow> c \<in> set pool \<and> (\<forall>x \<in> set pool. cmp c x \<le> 0) \<and>
              (\<exists>rest. filter (\<lambda>x. cmp c x = 0) pool = c # rest))"
proof -
  have c: "comparator cmp" by (simp add: assms(2) goal_comparator_comparator)
  obtain ranked where r: "rankHarnesses dp clock cs ctx = Inr ranked"
    and sel: "sel = (case ranked of [] \<Rightarrow> None | x # _ \<Rightarrow> Some x)"
    using assms(1) by (auto simp: selectHarness_def split: sum.splits list.splits)
  have s: "ranked = js_sort cmp pool" using rankHarnesses_Inr [OF r] assms(2,3) by simp
  show ?thesis
  proof (cases ranked)
    case Nil
    then show ?thesis using s sel js_sort_eq_Nil_iff [of cmp pool] by simp
  next
    case (Cons y ys)
    then have srt: "js_sort cmp pool = y # ys" using s by simp
    have "y \<in> set pool" using srt set_js_sort [of cmp pool] by auto
    then show ?thesis
      using Cons sel comparator.head_least [OF c srt] comparator.head_first_of_ties [OF c srt] by auto
  qed
qed

theorem select_is_best_witness:
  "selectHarness (\<lambda>_. None) 0 ex_pool (ex_ctx GoalEconomy FallbackWithinCap) =
     Inr (Some (ex_route ''agy'' True SubscriptionEntitlement (Some 0))) \<and>
   list_all (\<lambda>x. compareEconomy (pinInstant 0 (ex_ctx GoalEconomy FallbackWithinCap))
        (ex_route ''agy'' True SubscriptionEntitlement (Some 0)) x \<le> 0)
     (eligible (\<lambda>_. None) ex_pool (pinInstant 0 (ex_ctx GoalEconomy FallbackWithinCap)))"
proof -
  have s: "selectHarness (\<lambda>_. None) 0 ex_pool (ex_ctx GoalEconomy FallbackWithinCap) =
     Inr (Some (ex_route ''agy'' True SubscriptionEntitlement (Some 0)))"
    by (simp add: selectHarness_def ex_rank_economy)
  have g: "rx_goal (ex_ctx GoalEconomy FallbackWithinCap) = GoalEconomy" by (simp add: ex_ctx_def)
  show ?thesis using select_is_best [OF s refl refl] s by (simp add: g list_all_iff)
qed

section \<open>The reason tells the truth\<close>

lemma pairwise_same:
  "(\<forall>x \<in> set (a # xs). \<forall>y \<in> set (a # xs). f x = f y) \<longleftrightarrow> (\<forall>x \<in> set xs. f x = f a)"
  by simp (metis)

lemma adjacent_axes_slack:
  "AxisSlack \<in> set (adjacent_axes dp ctx xs) \<longleftrightarrow>
     (\<exists>a \<in> set xs. \<exists>b \<in> set xs. autoSlack dp a ctx \<noteq> autoSlack dp b ctx)"
proof (induction dp ctx xs rule: adjacent_axes.induct)
  case (1 dp ctx a b rest)
  have h: "snd (compareAutoTraced dp ctx a b) = Some AxisSlack \<longleftrightarrow> autoSlack dp a ctx \<noteq> autoSlack dp b ctx"
    by (cases "autoSlack dp a ctx"; cases "autoSlack dp b ctx")
      (auto simp: compareAutoTraced_def slack_order_def Let_def)
  have "AxisSlack \<notin> set (adjacent_axes dp ctx (a # b # rest)) \<longleftrightarrow>
      autoSlack dp a ctx = autoSlack dp b ctx \<and> AxisSlack \<notin> set (adjacent_axes dp ctx (b # rest))"
    using h by (cases "snd (compareAutoTraced dp ctx a b)") auto
  also have "\<dots> \<longleftrightarrow> autoSlack dp a ctx = autoSlack dp b ctx \<and>
      (\<forall>x \<in> set (b # rest). \<forall>y \<in> set (b # rest). autoSlack dp x ctx = autoSlack dp y ctx)"
    using "1.IH" by (cases "snd (compareAutoTraced dp ctx a b)") blast+
  also have "\<dots> \<longleftrightarrow> (\<forall>x \<in> set (b # rest). autoSlack dp x ctx = autoSlack dp a ctx)"
    unfolding pairwise_same by auto
  finally show ?case
    using pairwise_same [of a "b # rest" "\<lambda>x. autoSlack dp x ctx"] by blast
qed auto

lemma adjacent_axes_Nil:
  "adjacent_axes dp ctx xs = [] \<Longrightarrow> \<forall>a \<in> set xs. \<forall>b \<in> set xs. compareAuto dp ctx a b = 0"
proof (induction dp ctx xs rule: adjacent_axes.induct)
  case (1 dp ctx a b rest)
  have "snd (compareAutoTraced dp ctx a b) = None" and rest: "adjacent_axes dp ctx (b # rest) = []"
    using "1.prems" by (auto split: option.splits)
  then have ab: "compareAuto dp ctx a b = 0"
    by (auto simp: compareAuto_def compareAutoTraced_def Let_def split: if_splits)
  have all: "\<forall>x \<in> set (b # rest). \<forall>y \<in> set (b # rest). compareAuto dp ctx x y = 0"
    using "1.IH" \<open>snd (compareAutoTraced dp ctx a b) = None\<close> rest by auto
  have "compareAuto dp ctx a x = 0 \<and> compareAuto dp ctx x a = 0" if "x \<in> set (b # rest)" for x
    using ab all that auto_order.tie_trans auto_order.flip_eq by (metis list.set_intros(1))
  then show ?case using all by auto
qed auto

lemma axes_empty: "AxisSlack \<notin> set axes \<Longrightarrow> AxisTier \<notin> set axes \<Longrightarrow> axes = []"
  by (metis auto_rank_axis.exhaust list.set_intros(1) neq_Nil_conv)

lemma distinguishes_False: "\<not> distinguishes vs \<longleftrightarrow> (\<forall>v \<in> set vs. \<forall>w \<in> set vs. v = w)"
proof (cases vs)
  case (Cons v rest)
  then show ?thesis
    using pairwise_same [of v rest "\<lambda>x. x"] by (auto simp: distinguishes_def)
qed (simp add: distinguishes_def)

lemma distinguishes_map_eq:
  "\<not> distinguishes (map f xs) \<Longrightarrow> x \<in> set xs \<Longrightarrow> y \<in> set xs \<Longrightarrow> f x = f y"
  unfolding distinguishes_False set_map by blast

text \<open>When the rationale of an auto or economy ranking says nothing but the declared order decided,
  or that no cash could be compared, the ranking is the eligible pool in its declared order.\<close>

theorem declared_order_is_declared:
  assumes "rankHarnesses dp clock cs ctx = Inr ranked" and "rx_goal ctx \<noteq> GoalQuality"
    and "rankingReason dp (pinInstant clock ctx) ranked cs \<in> {DeclaredOrder, AllIncrementalCashUnknown}"
  shows "ranked = eligible dp cs (pinInstant clock ctx)"
proof -
  let ?ctx = "pinInstant clock ctx" and ?pool = "eligible dp cs (pinInstant clock ctx)"
  let ?cmp = "goal_comparator dp ?ctx (rx_goal ctx)"
  have c: "comparator ?cmp" by (rule goal_comparator_comparator)
  have r: "ranked = js_sort ?cmp ?pool" by (rule rankHarnesses_Inr [OF assms(1)])
  have st: "set ranked = set ?pool" using r by simp
  have "?cmp x y = 0" if "x \<in> set ranked" "y \<in> set ranked" for x y
  proof (cases "rx_goal ctx")
    case GoalAuto
    then have "adjacent_axes dp ?ctx ranked = []"
      using assms(3) axes_empty [of "adjacent_axes dp ?ctx ranked"]
      by (auto simp: rankingReason_def Let_def split: if_splits)
    then show ?thesis using adjacent_axes_Nil that GoalAuto by auto
  next
    case GoalEconomy
    have q: "\<not> ((\<exists>c \<in> set ranked. \<not> isIncrementalPaid c) \<and> (\<exists>c \<in> set cs. isIncrementalPaid c))"
      and d: "\<not> costsDistinguish ranked" "\<not> tiersDistinguish ranked ?ctx"
      using assms(3) GoalEconomy by (auto simp: rankingReason_def Let_def split: if_splits)
    have "x \<in> set cs" "y \<in> set cs" using that eligible_subset [of dp cs ?ctx] st by blast+
    then have p: "isIncrementalPaid x = isIncrementalPaid y" using q that by blast
    have "rk_incrementalCostUsd x = rk_incrementalCostUsd y" "tierValueOf x ?ctx = tierValueOf y ?ctx"
      using distinguishes_map_eq [OF d(1) [unfolded costsDistinguish_def] that]
        distinguishes_map_eq [OF d(2) [unfolded tiersDistinguish_def] that] by simp_all
    then show ?thesis
      using p GoalEconomy
      by (cases "rk_incrementalCostUsd y") (simp_all add: compareEconomy_def cost_order_def Let_def)
  qed (use assms(2) in simp)
  then have "sorted_wrt (\<lambda>x y. ?cmp x y \<le> 0) ?pool"
    using st by (auto simp: sorted_wrt_iff_nth_less)
  then show ?thesis using r comparator.js_sort_sorted_id [OF c] by simp
qed

theorem declared_order_is_declared_witness:
  "[ex_route ''b'' True Metered None, ex_route ''a'' True Metered None] =
   eligible (\<lambda>_. None) [ex_route ''b'' True Metered None, ex_route ''a'' True Metered None]
     (pinInstant 0 (ex_ctx GoalEconomy FallbackWithinCap))"
proof (rule declared_order_is_declared)
  show "rankHarnesses (\<lambda>_. None) 0 [ex_route ''b'' True Metered None, ex_route ''a'' True Metered None]
      (ex_ctx GoalEconomy FallbackWithinCap) =
    Inr [ex_route ''b'' True Metered None, ex_route ''a'' True Metered None]"
    by (simp add: router_eval ex_route_def ex_ctx_def)
qed (simp_all add: ex_route_def ex_ctx_def rankingReason_def Let_def isIncrementalPaid_def
    effectiveBilling_def costsDistinguish_def tiersDistinguish_def distinguishes_def
    tierValueOf_def tierIndex_def pinInstant_def)

text \<open>An auto ranking is explained by expiring quota exactly when two ranked routes have different
  pace slack, adjacent or not; the check of adjacent pairs misses nothing.\<close>

theorem expiring_quota_reason:
  assumes "rx_goal ctx = GoalAuto"
  shows "rankingReason dp ctx ranked cs = ExpiringQuotaSlack \<longleftrightarrow>
    (\<exists>a \<in> set ranked. \<exists>b \<in> set ranked. autoSlack dp a ctx \<noteq> autoSlack dp b ctx)"
  unfolding adjacent_axes_slack [symmetric] by (simp add: rankingReason_def assms Let_def)

theorem expiring_quota_reason_witness:
  "rankingReason (\<lambda>_. None) (ex_ctx GoalAuto FallbackWithinCap) ex_pool ex_pool \<noteq> ExpiringQuotaSlack"
proof -
  have "autoSlack (\<lambda>_. None) c (ex_ctx GoalAuto FallbackWithinCap) = None" for c
    by (cases "rk_credentialRoute c")
      (simp_all add: autoSlack_def ex_ctx_def bindingPaceSlack_def observationsFor_def
        snapshotsFor_def Let_def)
  moreover have "rx_goal (ex_ctx GoalAuto FallbackWithinCap) = GoalAuto" by (simp add: ex_ctx_def)
  ultimately show ?thesis using expiring_quota_reason by simp
qed

text \<open>An economy ranking that ranks an entitled route is explained by the subscription entitlement as
  soon as any paid candidate was passed in, even one that was unavailable, and even when the ranked
  routes contain no paid one.\<close>

theorem entitlement_reason_counts_unavailable:
  assumes "rx_goal ctx = GoalEconomy" and "c \<in> set ranked" and "\<not> isIncrementalPaid c"
    and "d \<in> set cs" and "isIncrementalPaid d" and "\<not> rk_available d"
  shows "rankingReason dp ctx ranked cs = SubscriptionEntitlementFirst"
  using assms by (auto simp: rankingReason_def)

theorem entitlement_reason_counts_unavailable_witness:
  "rankingReason (\<lambda>_. None) (ex_ctx GoalEconomy FallbackWithinCap)
     [ex_route ''claude'' True SubscriptionEntitlement (Some 1)]
     [ex_route ''claude'' True SubscriptionEntitlement (Some 1), ex_route ''codex'' False Metered None] =
   SubscriptionEntitlementFirst"
  by (rule entitlement_reason_counts_unavailable
      [of _ "ex_route ''claude'' True SubscriptionEntitlement (Some 1)" _ "ex_route ''codex'' False Metered None"])
    (simp_all add: ex_route_def ex_ctx_def isIncrementalPaid_def effectiveBilling_def)

text \<open>A rationale accounts for every candidate: the order lists the ranked routes, every candidate's
  harness is either in the order or dropped and never both, each candidate has one entry in the declared
  order, and an entry is marked eligible exactly when its harness is in the order.\<close>

theorem rationale_accounts_for_candidates:
  assumes "explainRanking dp clock cs ctx = Inr r"
  shows "rankHarnesses dp clock cs ctx = Inr (js_sort
           (goal_comparator dp (pinInstant clock ctx) (rx_goal ctx)) (eligible dp cs (pinInstant clock ctx))) \<and>
         rrr_order r = map rk_harnessId (js_sort
           (goal_comparator dp (pinInstant clock ctx) (rx_goal ctx)) (eligible dp cs (pinInstant clock ctx))) \<and>
         set (rrr_order r) \<inter> set (rrr_dropped r) = {} \<and>
         set (rrr_order r) \<union> set (rrr_dropped r) = rk_harnessId ` set cs \<and>
         map rre_harness_id (rrr_entries r) = map rk_harnessId cs \<and>
         map rre_eligible (rrr_entries r) = map (\<lambda>c. rk_harnessId c \<in> set (rrr_order r)) cs"
proof -
  obtain ranked where k: "rankHarnesses dp clock cs (pinInstant clock ctx) = Inr ranked"
    using assms by (auto simp: explainRanking_def Let_def split: sum.splits)
  have same: "rankHarnesses dp clock cs ctx = Inr ranked"
    using k by (simp add: rankHarnesses_def Let_def)
  have r: "ranked = js_sort (goal_comparator dp (pinInstant clock ctx) (rx_goal ctx))
      (eligible dp cs (pinInstant clock ctx))"
    by (rule rankHarnesses_Inr [OF same])
  have sub: "set ranked \<subseteq> set cs" using r eligible_subset by auto
  have e: "rrr_order r = map rk_harnessId ranked"
    "rrr_dropped r = map rk_harnessId (filter (\<lambda>c. rk_harnessId c \<notin> set (map rk_harnessId ranked)) cs)"
    "map rre_harness_id (rrr_entries r) = map rk_harnessId cs"
    "map rre_eligible (rrr_entries r) = map (\<lambda>c. rk_harnessId c \<in> set (map rk_harnessId ranked)) cs"
    using assms k by (auto simp: explainRanking_def Let_def)
  have "set (rrr_order r) \<inter> set (rrr_dropped r) = {}"
    and "set (rrr_order r) \<union> set (rrr_dropped r) = rk_harnessId ` set cs"
    unfolding e(1,2) using sub by (auto simp: image_iff)
  then show ?thesis using same r e(1,3,4) by simp
qed

theorem rationale_accounts_for_candidates_witness:
  "\<exists>r. explainRanking (\<lambda>_. None) 0 ex_pool (ex_ctx GoalEconomy FallbackNever) = Inr r \<and>
     set (rrr_order r) \<union> set (rrr_dropped r) = rk_harnessId ` set ex_pool"
proof -
  obtain r where r: "explainRanking (\<lambda>_. None) 0 ex_pool (ex_ctx GoalEconomy FallbackNever) = Inr r"
    by (simp add: explainRanking_def Let_def router_eval ex_route_defs)
  show ?thesis using rationale_accounts_for_candidates [OF r] r by auto
qed

end
