(* ===== verification/Observe.thy ===== *)
theory Observe
  imports Usage_Evidence
begin

text \<open>
  \<open>packages/budget/src/observe.ts\<close>: the budget observations of one harness event. The clock
  is an argument: \<open>ts i\<close> is the text of the \<open>i\<close>-th reading for a time stamp,
  \<open>clock\<close> the reading in milliseconds, and \<open>to_iso\<close> prints an instant.
\<close>

definition default_cooldown_ms :: int where
  "default_cooldown_ms = 5 * 60 * 1000"

text \<open>The fields no signal has set; the subject rides every observation.\<close>

definition blank_observation ::
  "string \<Rightarrow> harness_event \<Rightarrow> string \<Rightarrow> signal_quality \<Rightarrow> observation_kind \<Rightarrow> budget_observation" where
  "blank_observation harnessId e stamp quality kind =
     \<lparr>bo_harness_id = harnessId, bo_credential_route = he_credential_route e,
      bo_subject_id = Some (he_credential_profile_id e), bo_ts = stamp, bo_quality = quality,
      bo_kind = kind, bo_usd = None, bo_constraint_id = None, bo_applies_to_request_kinds = None,
      bo_applies_to_models = None, bo_applies_to_model_prefixes = None,
      bo_applies_to_unspecified_model = None, bo_used_ratio = None, bo_window_seconds = None,
      bo_resets_at = None, bo_cooldown_until = None, bo_detail = None\<rparr>"

definition spend_observation :: "string \<Rightarrow> harness_event \<Rightarrow> string \<Rightarrow> budget_observation option" where
  "spend_observation harnessId e stamp =
     (if he_type e = EvUsage then
        map_option (\<lambda>usd.
          (blank_observation harnessId e stamp
             (if (case he_usage e of None \<Rightarrow> False | Some u \<Rightarrow> us_estimated u) then SqObserved else SqExact)
             ObsSpend)\<lparr>bo_usd := Some usd\<rparr>) (reportedUsageCostUsd e)
      else None)"

definition constraint_observation ::
  "string \<Rightarrow> harness_event \<Rightarrow> string \<Rightarrow> quota_constraint \<Rightarrow> budget_observation" where
  "constraint_observation harnessId e stamp c =
     (blank_observation harnessId e stamp SqNative ObsQuotaConstraint)
       \<lparr>bo_constraint_id := Some (qc_id c),
        bo_applies_to_models := qc_applies_to_models c,
        bo_applies_to_model_prefixes := qc_applies_to_model_prefixes c,
        bo_applies_to_unspecified_model := qc_applies_to_unspecified_model c,
        bo_applies_to_request_kinds := qc_applies_to_request_kinds c,
        bo_used_ratio := Some (qc_used_ratio c), bo_window_seconds := Some (qc_window_seconds c),
        bo_resets_at := Some (qc_resets_at c), bo_cooldown_until := Some (qc_cooldown_until c)\<rparr>"

definition singleObservationFromEvent ::
  "(int \<Rightarrow> string) \<Rightarrow> int \<Rightarrow> string \<Rightarrow> harness_event \<Rightarrow> string \<Rightarrow> budget_observation option" where
  "singleObservationFromEvent to_iso clock harnessId e stamp =
     map_option (\<lambda>r.
       let delay = rl_retry_delay_ms r;
           wait = (case delay of None \<Rightarrow> default_cooldown_ms
                   | Some d \<Rightarrow> if 0 < d then d else default_cooldown_ms);
           cool = nullish (rl_resets_at r) (to_iso (clock + wait))
       in (blank_observation harnessId e stamp SqObserved ObsRateLimited)
            \<lparr>bo_constraint_id := truthy (rl_constraint_id r),
             bo_applies_to_models := rl_applies_to_models r,
             bo_applies_to_model_prefixes := rl_applies_to_model_prefixes r,
             bo_applies_to_request_kinds := rl_applies_to_request_kinds r,
             bo_resets_at := Some (rl_resets_at r), bo_cooldown_until := Some (Some cool),
             bo_detail := he_error e\<rparr>) (he_rate_limit e)"

definition option_list :: "'a option \<Rightarrow> 'a list" where
  "option_list x = (case x of None \<Rightarrow> [] | Some y \<Rightarrow> [y])"

definition observationsFromEvent ::
  "(int \<Rightarrow> string) \<Rightarrow> int \<Rightarrow> (nat \<Rightarrow> string) \<Rightarrow> string \<Rightarrow> harness_event \<Rightarrow> budget_observation list" where
  "observationsFromEvent to_iso clock ts harnessId e =
     (let out1 = option_list (spend_observation harnessId e (ts 0));
          quota = nullish (he_quota e) [];
          out2 = out1 @ map (\<lambda>(i, c). constraint_observation harnessId e (ts (length out1 + i)) c)
                   (enumerate 0 quota)
      in out2 @ option_list (singleObservationFromEvent to_iso clock harnessId e (ts (length out2))))"

end
