(* ===== verification/Quota_Props.thy ===== *)
theory Quota_Props
  imports Ledger_Quota Quota_Scope Observe
begin

text \<open>
  The properties of the quota evidence: the projection shown to a user and the admission test of
  the ledger compared window by window and snapshot by snapshot, the release instant, the
  restoration of journaled scopes, and the identities of windows.
\<close>

section \<open>Example windows\<close>

definition ex_window :: "string \<Rightarrow> string list option option \<Rightarrow> bool option \<Rightarrow> rat option \<Rightarrow>
    string option \<Rightarrow> string option \<Rightarrow> quota_constraint" where
  "ex_window i scope unspec used resets cool = \<lparr>qc_id = i, qc_label = i, qc_applies_to_models = scope,
     qc_applies_to_model_prefixes = None, qc_applies_to_unspecified_model = unspec,
     qc_applies_to_request_kinds = None, qc_used_ratio = used, qc_window_seconds = Some 18000,
     qc_resets_at = resets, qc_cooldown_until = cool\<rparr>"

definition ex_parse :: "string \<Rightarrow> int option" where
  "ex_parse s = (if s = ''t10'' then Some 10 else if s = ''t20'' then Some 20
     else if s = ''t30'' then Some 30 else None)"

definition ex_snapshot :: "quota_source \<Rightarrow> string \<Rightarrow> quota_constraint list \<Rightarrow> quota_snapshot" where
  "ex_snapshot src h cs = \<lparr>qn_subject = \<lparr>qs_harness = h, qs_credential_route = VendorNative,
     qs_plan_label = None, qs_subject_id = None\<rparr>, qn_constraints = cs, qn_source = src,
     qn_observed_at = ''t10'', qn_freshness = FreshQ\<rparr>"

lemmas ex_window_defs = ex_window_def ex_parse_def ex_snapshot_def

lemmas window_eval = window_blocks_def window_exhausted_def window_skipped_def window_scoped_def
  futureMs_def constraint_cools_def constraint_applies_def still_ahead_def
  quotaConstraintAppliesToRequestKind_def quotaConstraintAppliesToModel_def

section \<open>The projection and the router\<close>

lemma still_ahead_futureMs: "still_ahead dp now s \<longleftrightarrow> futureMs dp s now \<noteq> None"
  by (auto simp: still_ahead_def futureMs_def split: option.splits)

lemma constraint_cools_iff:
  "constraint_cools dp now model c \<longleftrightarrow>
     constraint_applies model c \<and> (window_exhausted dp now c \<or> futureMs dp (qc_cooldown_until c) now \<noteq> None)"
  by (auto simp: constraint_cools_def still_ahead_futureMs window_exhausted_def)

definition declares_empty_scope :: "quota_constraint \<Rightarrow> bool" where
  "declares_empty_scope c \<longleftrightarrow>
     flat (qc_applies_to_models c) = Some [] \<and> nullish (qc_applies_to_model_prefixes c) [] = []"

lemma skipped_bare:
  assumes "\<not> declares_empty_scope c"
  shows "\<not> window_skipped c None \<longleftrightarrow>
    quotaConstraintAppliesToModel (flat (qc_applies_to_models c)) (qc_applies_to_model_prefixes c)
      (qc_applies_to_unspecified_model c) (Some None)"
  using assms
  by (cases "flat (qc_applies_to_models c)")
    (auto simp: window_skipped_def window_scoped_def quotaConstraintAppliesToModel_def
      declares_empty_scope_def)

lemma window_bare_agrees:
  assumes "\<not> declares_empty_scope c"
  shows "window_blocks dp now None TextRequest c \<longleftrightarrow> constraint_cools dp now (Some None) c"
  using skipped_bare [OF assms]
  by (auto simp: window_blocks_def constraint_cools_iff constraint_applies_def)

text \<open>C19: For a run that names no model the projection and the ledger answer the same question: a route
  without process-local observations is cooling exactly when some fresh snapshot of that subject projects
  to a state other than available, provided no window declares an empty model list.\<close>

theorem projection_agrees_with_router:
  assumes "\<forall>s \<in> set (snapshotsFor q h r subject). \<forall>c \<in> set (qn_constraints s). \<not> declares_empty_scope c"
    and "observationsFor q h = []"
  shows "cooldownActive dp q h (Some r) subject now (Some None) \<longleftrightarrow>
    (\<exists>s \<in> set (snapshotsFor q h r subject).
       qa_state (quotaSnapshotAvailability dp now None TextRequest (qn_constraints s)) \<noteq> Available)"
  using assms by (auto simp: cooldownActive_def availability_available_iff window_bare_agrees)

definition ex_quota_view :: quota_view where
  "ex_quota_view = \<lparr>qv_observations = [], qv_snapshots =
     [(''k'', ex_snapshot AgyCommandUsage ''agy''
         [ex_window ''five'' (Some (Some [''gemini''])) (Some True) (Some 1) (Some ''t20'') None])]\<rparr>"

theorem projection_agrees_with_router_witness:
  "cooldownActive ex_parse ex_quota_view ''agy'' (Some VendorNative) None 15 (Some None)"
proof -
  let ?c = "ex_window ''five'' (Some (Some [''gemini''])) (Some True) (Some 1) (Some ''t20'') None"
  have s: "snapshotsFor ex_quota_view ''agy'' VendorNative None = [ex_snapshot AgyCommandUsage ''agy'' [?c]]"
    by (simp add: snapshotsFor_def ex_quota_view_def ex_snapshot_def)
  have "observationsFor ex_quota_view ''agy'' = []" by (simp add: observationsFor_def ex_quota_view_def)
  moreover have "\<not> declares_empty_scope ?c"
    by (simp add: declares_empty_scope_def ex_window_def)
  moreover have "window_blocks ex_parse 15 None TextRequest ?c"
    by (simp add: window_eval ex_window_def ex_parse_def)
  ultimately show ?thesis
    using projection_agrees_with_router [of ex_quota_view "''agy''" VendorNative None ex_parse 15]
    by (simp add: s availability_available_iff ex_snapshot_def)
qed

lemma includes_self: "m \<in> set ms \<Longrightarrow> trim m \<noteq> [] \<Longrightarrow> modelScopeMatches (Some ms) m"
  by (auto simp: modelScopeMatches_def to_lower_def Let_def)

text \<open>A window the ledger holds against a named model blocks that model in the projection too (the
  projection matches more loosely), so the projection never shows as available what the ledger refuses;
  the model's name must not be blank.\<close>

theorem projection_never_understates:
  assumes "constraint_cools dp now (Some (Some m)) c" and "trim m \<noteq> []" and "c \<in> set cs"
  shows "qc_id c \<in> set (qa_blocking_constraints (quotaSnapshotAvailability dp now (Some m) TextRequest cs)) \<and>
         qa_state (quotaSnapshotAvailability dp now (Some m) TextRequest cs) \<noteq> Available"
proof -
  have cool: "window_exhausted dp now c \<or> futureMs dp (qc_cooldown_until c) now \<noteq> None"
    and kind: "quotaConstraintAppliesToRequestKind (qc_applies_to_request_kinds c) TextRequest"
    and app: "quotaConstraintAppliesToModel (flat (qc_applies_to_models c)) (qc_applies_to_model_prefixes c)
      (qc_applies_to_unspecified_model c) (Some (Some m))"
    using assms(1) by (auto simp: constraint_cools_iff constraint_applies_def)
  have "\<not> window_skipped c (Some m)"
  proof (cases "flat (qc_applies_to_models c)")
    case None
    then show ?thesis
      using app
      by (auto simp: quotaConstraintAppliesToModel_def window_skipped_def window_scoped_def split: if_splits)
  next
    case (Some ms)
    then show ?thesis
      using app includes_self [OF _ assms(2)]
      by (auto simp: quotaConstraintAppliesToModel_def window_skipped_def window_scoped_def split: if_splits)
  qed
  then have "window_blocks dp now (Some m) TextRequest c"
    using cool kind by (simp add: window_blocks_def)
  then show ?thesis
    using assms(3) by (auto simp: availability_blocking availability_available_iff)
qed

theorem projection_never_understates_witness:
  "qa_state (quotaSnapshotAvailability ex_parse 15 (Some ''fable'') TextRequest
     [ex_window ''w'' (Some (Some [''opus'', ''fable''])) None (Some 1) (Some ''t20'') None]) \<noteq> Available"
proof -
  let ?c = "ex_window ''w'' (Some (Some [''opus'', ''fable''])) None (Some 1) (Some ''t20'') None"
  have "constraint_cools ex_parse 15 (Some (Some ''fable'')) ?c"
    by (simp add: window_eval ex_window_def ex_parse_def)
  moreover have "trim ''fable'' \<noteq> []" by (simp add: trim_def js_space_def of_char_def)
  ultimately show ?thesis using projection_never_understates [of ex_parse 15 "''fable''" ?c "[?c]"] by simp
qed

text \<open>The two readings part on a window whose model list is empty: the schema admits it and calls it a
  window of every model, the projection blocks every model with it, and the ledger holds it against no
  named model at all.\<close>

theorem empty_model_list_diverges:
  assumes "declares_empty_scope c" and "window_exhausted dp now c"
    and "quotaConstraintAppliesToRequestKind (qc_applies_to_request_kinds c) TextRequest"
  shows "window_blocks dp now (Some m) TextRequest c \<and> \<not> constraint_cools dp now (Some (Some m)) c"
proof -
  obtain ps where "qc_applies_to_model_prefixes c = None \<or> qc_applies_to_model_prefixes c = Some []"
    using assms(1) by (cases "qc_applies_to_model_prefixes c") (auto simp: declares_empty_scope_def)
  then show ?thesis
    using assms
    by (auto simp: window_blocks_def window_skipped_def window_scoped_def declares_empty_scope_def
        constraint_cools_iff constraint_applies_def quotaConstraintAppliesToModel_def
        quotaModelPrefixMatches_def)
qed

theorem empty_model_list_diverges_witness:
  "window_blocks ex_parse 15 (Some ''opus'') TextRequest
     (ex_window ''w'' (Some (Some [])) None (Some 1) (Some ''t20'') None) \<and>
   \<not> constraint_cools ex_parse 15 (Some (Some ''opus''))
     (ex_window ''w'' (Some (Some [])) None (Some 1) (Some ''t20'') None)"
  by (rule empty_model_list_diverges) (simp_all add: declares_empty_scope_def window_exhausted_def
      futureMs_def quotaConstraintAppliesToRequestKind_def ex_window_def ex_parse_def)

section \<open>The release instant\<close>

lemma futureMs_later:
  "now \<le> later \<Longrightarrow> futureMs dp s later = (case futureMs dp s now of None \<Rightarrow> None
     | Some t \<Rightarrow> if later < t then Some t else None)"
  by (auto simp: futureMs_def split: option.splits)

lemma futureMs_instant:
  "futureMs dp s now = Some t \<Longrightarrow> dp (nullish s '''') = Some t \<and> now < t"
  by (auto simp: futureMs_def truthy_def split: option.splits if_splits)

lemma release_instant:
  assumes "window_blocks dp now model kind c" and "block_release dp now c = Some (i, t)"
  shows "dp i = Some t \<and> now < t \<and>
    (\<forall>later. now \<le> later \<longrightarrow> (window_blocks dp later model kind c \<longleftrightarrow> later < t))"
proof -
  have b: "quotaConstraintAppliesToRequestKind (qc_applies_to_request_kinds c) kind"
    "\<not> window_skipped c model"
    using assms(1) by (auto simp: window_blocks_def)
  show ?thesis
  proof (cases "futureMs dp (qc_resets_at c) now"; cases "futureMs dp (qc_cooldown_until c) now")
    assume n: "futureMs dp (qc_resets_at c) now = None" "futureMs dp (qc_cooldown_until c) now = None"
    then show ?thesis using assms(1) by (simp add: window_blocks_def window_exhausted_def)
  next
    fix k assume n: "futureMs dp (qc_resets_at c) now = None" "futureMs dp (qc_cooldown_until c) now = Some k"
    have "i = nullish (qc_cooldown_until c) ''''" "t = k"
      using assms(2) n by (auto simp: block_release_def window_release_def window_exhausted_def)
    then show ?thesis
      using n b futureMs_instant [OF n(2)]
      by (auto simp: window_blocks_def window_exhausted_def futureMs_later)
  next
    fix r assume n: "futureMs dp (qc_resets_at c) now = Some r" "futureMs dp (qc_cooldown_until c) now = None"
    have e: "window_exhausted dp now c" using assms(1) n by (simp add: window_blocks_def)
    have "i = nullish (qc_resets_at c) ''''" "t = r"
      using assms(2) n e by (auto simp: block_release_def window_release_def)
    then show ?thesis
      using n b e futureMs_instant [OF n(1)]
      by (auto simp: window_blocks_def window_exhausted_def futureMs_later split: option.splits)
  next
    fix r k assume n: "futureMs dp (qc_resets_at c) now = Some r" "futureMs dp (qc_cooldown_until c) now = Some k"
    have "(i, t) = (if window_exhausted dp now c \<and> k \<le> r then (nullish (qc_resets_at c) '''', r)
      else (nullish (qc_cooldown_until c) '''', k))"
      using assms(2) n by (auto simp: block_release_def window_release_def Let_def split: if_splits)
    then show ?thesis
      using n b futureMs_instant [OF n(1)] futureMs_instant [OF n(2)]
      by (auto simp: window_blocks_def window_exhausted_def futureMs_later split: option.splits if_splits)
  qed
qed

text \<open>When a snapshot is not available, its reset instant is the first instant at which any of its
  blocking windows releases: it parses to a future time, until then exactly the same windows block, and
  at that time one of them no longer does.\<close>

theorem resets_at_is_first_release:
  assumes "qa_state (quotaSnapshotAvailability dp now model kind cs) \<noteq> Available"
  shows "\<exists>i t. qa_resets_at (quotaSnapshotAvailability dp now model kind cs) = Some i \<and>
    dp i = Some t \<and> now < t \<and>
    (\<forall>later. now \<le> later \<and> later < t \<longrightarrow>
       qa_blocking_constraints (quotaSnapshotAvailability dp later model kind cs) =
       qa_blocking_constraints (quotaSnapshotAvailability dp now model kind cs)) \<and>
    (\<exists>c \<in> set cs. window_blocks dp now model kind c \<and> \<not> window_blocks dp t model kind c)"
proof -
  let ?f = "aa_earliest (fold (availability_window dp now model kind) cs empty_avail)"
  note ea = availability_fold_earliest [of cs dp now model kind empty_avail]
  obtain c0 where "c0 \<in> set cs" "window_blocks dp now model kind c0"
    using assms availability_available_iff by blast
  then obtain i t where e: "?f = Some (i, t)" using ea by blast
  have src: "\<exists>c \<in> set cs. window_blocks dp now model kind c \<and> block_release dp now c = Some (i, t)"
    using ea e by (auto simp: empty_avail_def)
  then obtain c where c: "c \<in> set cs" "window_blocks dp now model kind c" "block_release dp now c = Some (i, t)"
    by blast
  have rel: "dp i = Some t" "now < t" "\<not> window_blocks dp t model kind c"
    using release_instant [OF c(2,3)] by auto
  have same: "window_blocks dp later model kind d = window_blocks dp now model kind d"
    if d: "d \<in> set cs" and l: "now \<le> later" "later < t" for d later
  proof (cases "window_blocks dp now model kind d")
    case True
    then obtain j u where "block_release dp now d = Some (j, u)" "t \<le> u"
      using ea d e by (metis Pair_inject option.inject)
    then show ?thesis using release_instant [OF True] l True by auto
  next
    case False
    then show ?thesis
      using l by (auto simp: window_blocks_def window_exhausted_def futureMs_later split: option.splits)
  qed
  have "qa_blocking_constraints (quotaSnapshotAvailability dp later model kind cs) =
      qa_blocking_constraints (quotaSnapshotAvailability dp now model kind cs)"
    if "now \<le> later" "later < t" for later
    unfolding availability_blocking
    by (intro arg_cong [where f = "map qc_id"] filter_cong refl) (rule same [OF _ that])
  moreover have "qa_resets_at (quotaSnapshotAvailability dp now model kind cs) = Some i"
    by (simp add: quotaSnapshotAvailability_def availability_scan_def Let_def e)
  ultimately show ?thesis using rel c(1,2) by fast
qed

theorem resets_at_is_first_release_witness:
  "\<exists>i t. qa_resets_at (quotaSnapshotAvailability ex_parse 5 None TextRequest
     [ex_window ''a'' None None (Some 1) (Some ''t20'') (Some ''t30''),
      ex_window ''b'' None None None None (Some ''t10'')]) = Some i \<and> ex_parse i = Some t \<and> 5 < t"
proof -
  have "qa_state (quotaSnapshotAvailability ex_parse 5 None TextRequest
     [ex_window ''a'' None None (Some 1) (Some ''t20'') (Some ''t30''),
      ex_window ''b'' None None None None (Some ''t10'')]) \<noteq> Available"
    by (simp add: availability_available_iff window_eval ex_window_def ex_parse_def)
  from resets_at_is_first_release [OF this] show ?thesis by blast
qed

section \<open>Restored scopes\<close>

lemma list_all_Keep_apply:
  "list_all (\<lambda>c. currentConstraint s c = Keep) cs \<Longrightarrow> concat (map (apply_scope s) cs) = cs"
  by (induction cs) (simp_all add: apply_scope_def)

lemma applied_all_Keep:
  "list_all (\<lambda>c. currentConstraint s c = Keep) (concat (map (apply_scope s) cs))"
  by (auto simp: list_all_iff dest: apply_scope_Keep)

lemma withCurrentQuotaScopes_fields:
  assumes "withCurrentQuotaScopes s = Some s'"
  shows "qn_subject s' = qn_subject s \<and> qn_source s' = qn_source s \<and>
    (s' = s \<or> qn_constraints s' = concat (map (apply_scope (qn_source s)) (qn_constraints s)))"
  using assms by (auto simp: withCurrentQuotaScopes_def Let_def split: if_splits)

text \<open>Restoring a journaled snapshot is done once: a restored snapshot restores to itself. It keeps
  the subject and the source, and every window it holds is one of the journaled windows with the same
  id, usage, length, reset and cooldown, so only scopes change.\<close>

theorem restore_scopes_once:
  assumes "withCurrentQuotaScopes s = Some s'"
  shows "withCurrentQuotaScopes s' = Some s' \<and> qn_subject s' = qn_subject s \<and> qn_source s' = qn_source s \<and>
    (\<forall>c' \<in> set (qn_constraints s'). \<exists>c \<in> set (qn_constraints s).
       qc_id c' = qc_id c \<and> qc_used_ratio c' = qc_used_ratio c \<and> qc_window_seconds c' = qc_window_seconds c \<and>
       qc_resets_at c' = qc_resets_at c \<and> qc_cooldown_until c' = qc_cooldown_until c)"
proof -
  have f: "qn_subject s' = qn_subject s" "qn_source s' = qn_source s"
    "s' = s \<or> qn_constraints s' = concat (map (apply_scope (qn_source s)) (qn_constraints s))"
    using withCurrentQuotaScopes_fields [OF assms] by auto
  have "withCurrentQuotaScopes s' = Some s'"
    using f(3)
  proof
    assume "s' = s" then show ?thesis using assms by simp
  next
    assume q: "qn_constraints s' = concat (map (apply_scope (qn_source s)) (qn_constraints s))"
    have "list_all (\<lambda>c. currentConstraint (qn_source s') c = Keep) (qn_constraints s')"
      unfolding f(2) q by (rule applied_all_Keep)
    then show ?thesis by (simp add: withCurrentQuotaScopes_def Let_def)
  qed
  moreover have "\<forall>c' \<in> set (qn_constraints s'). \<exists>c \<in> set (qn_constraints s).
       qc_id c' = qc_id c \<and> qc_used_ratio c' = qc_used_ratio c \<and> qc_window_seconds c' = qc_window_seconds c \<and>
       qc_resets_at c' = qc_resets_at c \<and> qc_cooldown_until c' = qc_cooldown_until c"
    using f(3)
  proof
    assume q: "qn_constraints s' = concat (map (apply_scope (qn_source s)) (qn_constraints s))"
    show ?thesis unfolding q using apply_scope_same_window by fastforce
  qed blast
  ultimately show ?thesis using f by blast
qed

definition ex_retired :: quota_constraint where
  "ex_retired = ex_window ''weekly'' (Some (Some [''best'', ''fable'', ''claude-fable-5''])) None (Some 1) (Some ''t20'') None"

lemma ex_retired_restored:
  "withCurrentQuotaScopes (ex_snapshot ClaudeOauthUsage ''claude'' [ex_retired]) =
     Some (ex_snapshot ClaudeOauthUsage ''claude''
       [ex_retired\<lparr>qc_applies_to_models := Some (Some [''fable'']),
                   qc_applies_to_model_prefixes := Some [''claude-fable-'']\<rparr>])"
  by code_simp

theorem restore_scopes_once_witness:
  "withCurrentQuotaScopes (ex_snapshot ClaudeOauthUsage ''claude''
       [ex_retired\<lparr>qc_applies_to_models := Some (Some [''fable'']),
                   qc_applies_to_model_prefixes := Some [''claude-fable-'']\<rparr>]) =
     Some (ex_snapshot ClaudeOauthUsage ''claude''
       [ex_retired\<lparr>qc_applies_to_models := Some (Some [''fable'']),
                   qc_applies_to_model_prefixes := Some [''claude-fable-'']\<rparr>])"
  using restore_scopes_once [OF ex_retired_restored] by (rule conjunct1)

section \<open>Window identity\<close>

definition same_scope_set :: "string list option \<Rightarrow> string list option \<Rightarrow> bool" where
  "same_scope_set a b \<longleftrightarrow> map_option set a = map_option set b"

text \<open>The identity of a window depends on what it measures, not on how its scope was listed or on the
  measured value: two windows with the same id, length and flag, whose model lists and prefixes hold the
  same names in any order and with any repetition, have the same identity whatever their label, usage,
  reset and cooldown; so do two snapshots of one subject and source that hold one such window each.\<close>

theorem window_identity_ignores_listing:
  assumes "qc_id c = qc_id d" and "qc_window_seconds c = qc_window_seconds d"
    and "same_scope_set (flat (qc_applies_to_models c)) (flat (qc_applies_to_models d))"
    and "same_scope_set (qc_applies_to_model_prefixes c) (qc_applies_to_model_prefixes d)"
    and "(qc_applies_to_unspecified_model c = Some True) = (qc_applies_to_unspecified_model d = Some True)"
    and "map_option set (qc_applies_to_request_kinds c) = map_option set (qc_applies_to_request_kinds d)"
  shows "quotaConstraintIdentity num c = quotaConstraintIdentity num d \<and>
    (\<forall>s. quotaSnapshotIdentity num (s\<lparr>qn_constraints := [c]\<rparr>) =
         quotaSnapshotIdentity num (s\<lparr>qn_constraints := [d]\<rparr>))"
proof -
  have kinds: "sorted_set (map request_kind_name x) = sorted_set (map request_kind_name y)"
    if "set x = set y" for x y
    by (rule sorted_set_cong) (simp add: that)
  have "(case flat (qc_applies_to_models c) of None \<Rightarrow> JNull | Some ms \<Rightarrow> JArr (map JStr (sorted_set ms))) =
      (case flat (qc_applies_to_models d) of None \<Rightarrow> JNull | Some ms \<Rightarrow> JArr (map JStr (sorted_set ms)))"
    using assms(3) by (cases "flat (qc_applies_to_models c)"; cases "flat (qc_applies_to_models d)")
      (auto simp: same_scope_set_def dest: sorted_set_cong)
  moreover have "(case qc_applies_to_model_prefixes c of None \<Rightarrow> []
        | Some ps \<Rightarrow> if ps = [] then [] else [JArr (map JStr (sorted_set ps))]) =
      (case qc_applies_to_model_prefixes d of None \<Rightarrow> []
        | Some ps \<Rightarrow> if ps = [] then [] else [JArr (map JStr (sorted_set ps))])"
    using assms(4)
    by (cases "qc_applies_to_model_prefixes c"; cases "qc_applies_to_model_prefixes d")
      (auto simp: same_scope_set_def dest: sorted_set_cong)
  moreover have "(case qc_applies_to_request_kinds c of None \<Rightarrow> []
        | Some ks \<Rightarrow> [JObj [(''requestKinds'', JArr (map JStr (sorted_set (map request_kind_name ks))))]]) =
      (case qc_applies_to_request_kinds d of None \<Rightarrow> []
        | Some ks \<Rightarrow> [JObj [(''requestKinds'', JArr (map JStr (sorted_set (map request_kind_name ks))))]])"
    using assms(6)
    by (cases "qc_applies_to_request_kinds c"; cases "qc_applies_to_request_kinds d")
      (auto dest: kinds)
  ultimately have "quota_constraint_fields c = quota_constraint_fields d"
    unfolding quota_constraint_fields_def assms(1,2,5) by argo
  then show ?thesis by (simp add: quotaConstraintIdentity_def quotaSnapshotIdentity_def Let_def)
qed

theorem window_identity_ignores_listing_witness:
  "quotaConstraintIdentity (\<lambda>_. ''1'') (ex_window ''w'' (Some (Some [''a'', ''b''])) None (Some 1) (Some ''t20'') None) =
   quotaConstraintIdentity (\<lambda>_. ''1'') (ex_window ''w'' (Some (Some [''b'', ''a'', ''b''])) None None None None)"
  by (rule window_identity_ignores_listing [THEN conjunct1])
    (auto simp: ex_window_def same_scope_set_def)

section \<open>Observed events\<close>

definition observe_all :: "budget_observation list \<Rightarrow> quota_view \<Rightarrow> quota_view" where
  "observe_all obs q = fold (\<lambda>ob q'. observe q' ob) obs q"

lemma observe_all_fields:
  "qv_observations (observe_all obs q) = qv_observations q @ obs \<and>
   qv_snapshots (observe_all obs q) = qv_snapshots q"
  unfolding observe_all_def by (induction obs arbitrary: q) (simp_all add: observe_def)

lemma observation_subject:
  "ob \<in> set (observationsFromEvent to_iso clock ts h e) \<Longrightarrow>
     bo_harness_id ob = h \<and> bo_subject_id ob = Some (he_credential_profile_id e)"
  by (auto simp: observationsFromEvent_def Let_def option_list_def spend_observation_def
      constraint_observation_def singleObservationFromEvent_def blank_observation_def split: option.splits if_splits)

lemma rate_limit_observed:
  "he_rate_limit e = Some r \<Longrightarrow>
     \<exists>stamp. the (singleObservationFromEvent to_iso clock h e stamp) \<in>
       set (observationsFromEvent to_iso clock ts h e)"
  by (auto simp: observationsFromEvent_def Let_def option_list_def singleObservationFromEvent_def)

lemma cooldownActive_observe_all:
  "cooldownActive dp (observe_all obs q) h route subject now model \<longleftrightarrow>
     cooldownActive dp q h route subject now model \<or>
     (\<exists>ob \<in> set obs. bo_harness_id ob = h \<and> observation_cools dp route subject now model ob)"
  using observe_all_fields [of obs q]
  by (auto simp: cooldownActive_def observationsFor_def snapshotsFor_def split: option.splits)

definition rate_limit_wait :: "rate_limit_signal \<Rightarrow> int" where
  "rate_limit_wait r = (case rl_retry_delay_ms r of None \<Rightarrow> default_cooldown_ms
     | Some d \<Rightarrow> if 0 < d then d else default_cooldown_ms)"

text \<open>A rate-limit event cools the account it names and no other: when it gives no reset and no scope,
  the harness is cooling for that account and every model until the suggested delay (five minutes without
  one) has passed, while the cooling of every other harness and every other account is what it was.\<close>

theorem rate_limit_cools_its_subject:
  assumes "he_rate_limit e = Some r" and "rl_resets_at r = None"
    and "flat (rl_applies_to_models r) = None" and "rl_applies_to_model_prefixes r = None"
    and "rl_applies_to_request_kinds r = None"
    and "dp (to_iso (clock + rate_limit_wait r)) = Some (clock + rate_limit_wait r)"
    and "to_iso (clock + rate_limit_wait r) \<noteq> []"
    and "now < clock + rate_limit_wait r"
    and "q' = observe_all (observationsFromEvent to_iso clock ts h e) q"
  shows "cooldownActive dp q' h (he_credential_route e) (Some (he_credential_profile_id e)) now model \<and>
    (\<forall>route subject. subject \<noteq> he_credential_profile_id e \<longrightarrow>
       cooldownActive dp q' h route (Some subject) now model = cooldownActive dp q h route (Some subject) now model) \<and>
    (\<forall>h2 route subject. h2 \<noteq> h \<longrightarrow>
       cooldownActive dp q' h2 route subject now model = cooldownActive dp q h2 route subject now model)"
proof -
  obtain stamp where ob: "the (singleObservationFromEvent to_iso clock h e stamp) \<in>
      set (observationsFromEvent to_iso clock ts h e)"
    using rate_limit_observed [OF assms(1)] by blast
  have "observation_cools dp (he_credential_route e) (Some (he_credential_profile_id e)) now model
      (the (singleObservationFromEvent to_iso clock h e stamp))"
    using assms(1-8)
    by (simp add: singleObservationFromEvent_def observation_cools_def observation_applies_def
        blank_observation_def Let_def rate_limit_wait_def [symmetric] still_ahead_def
        quotaConstraintAppliesToRequestKind_def quotaConstraintAppliesToModel_def)
  moreover have "\<not> observation_cools dp route (Some subject) now model ob"
    if "ob \<in> set (observationsFromEvent to_iso clock ts h e)" "subject \<noteq> he_credential_profile_id e"
    for ob route subject
    using observation_subject [OF that(1)] that(2)
    by (auto simp: observation_cools_def observation_applies_def)
  ultimately show ?thesis
    unfolding assms(9) cooldownActive_observe_all
    using ob observation_subject [of _ to_iso clock ts h e] by blast
qed

definition ex_limited :: harness_event where
  "ex_limited = \<lparr>he_type = EvError, he_auth_switched = False, he_to_auth_mode = None, he_usage = None,
     he_quota = None, he_rate_limit = Some \<lparr>rl_constraint_id = None, rl_applies_to_request_kinds = None,
       rl_applies_to_models = None, rl_applies_to_model_prefixes = None, rl_resets_at = None,
       rl_retry_delay_ms = None\<rparr>,
     he_credential_route = Some VendorNative, he_credential_profile_id = Some ''work'',
     he_error = None, he_processing = None, he_processing_cost_basis = None\<rparr>"

theorem rate_limit_cools_its_subject_witness:
  "cooldownActive (\<lambda>_. Some 300000) (observe_all (observationsFromEvent (\<lambda>_. ''t'') 0 (\<lambda>_. '''') ''codex''
     ex_limited) ex_quota_view) ''codex'' (Some VendorNative) (Some (Some ''work'')) 299999 (Some None)"
  using rate_limit_cools_its_subject [of ex_limited "the (he_rate_limit ex_limited)" "\<lambda>_. Some 300000"
      "\<lambda>_. ''t''" 0 299999 _ "\<lambda>_. ''''" "''codex''" ex_quota_view, OF _ _ _ _ _ _ _ _ refl]
  by (simp add: ex_limited_def rate_limit_wait_def default_cooldown_ms_def)

end
