(* ===== verification/Attempt_Usage.thy ===== *)
theory Attempt_Usage
  imports Ledger
begin

text \<open>
  \<open>packages/orchestrator/src/attemptUsageCost.ts\<close>: how the event stream of one attempt feeds
  the tracker and how the outcome reaches the ledger. The cost object of the source is a view of
  its tracker: its amounts are the tracker's totals and its certainties are read from the
  tracker's snapshot when they are asked for, so the tracker itself stands for it.
\<close>

text \<open>The cost object, as a settlement reads it.\<close>

definition attempt_usage_view :: "usage_tracker \<Rightarrow> usage_split" where
  "attempt_usage_view t =
     (let s = snapshot t
      in \<lparr>sp_cashUsd = ut_cashUsd (tk_totals t), sp_valuationUsd = ut_valuationUsd (tk_totals t),
          sp_unknownUsd = ut_unknownUsd (tk_totals t), sp_cashEstimated = ut_cashEstimated (tk_totals t),
          sp_valuationEstimated = ut_valuationEstimated (tk_totals t),
          sp_cashKnowledge = Some (sn_cashKnowledge s),
          sp_valuationKnowledge = Some (sn_valuationKnowledge s),
          sp_allowanceDebitUnobserved = sn_allowanceDebitUnobserved s,
          sp_observedAmounts = Some (sn_observedAmounts s)\<rparr>)"

definition newAttemptUsageCost :: usage_tracker where
  "newAttemptUsageCost = new_tracker (Some zero_totals)"

record usage_cost_summary =
  us_cashUsd :: rat
  us_valuationUsd :: rat
  us_unknownUsd :: rat
  us_cashKnowledge :: cost_knowledge
  us_valuationKnowledge :: cost_knowledge

definition attemptUsageCostSummary :: "usage_tracker \<Rightarrow> usage_cost_summary" where
  "attemptUsageCostSummary t =
     (let c = attempt_usage_view t
      in \<lparr>us_cashUsd = sp_cashUsd c, us_valuationUsd = sp_valuationUsd c, us_unknownUsd = sp_unknownUsd c,
          us_cashKnowledge = reportedCashKnowledge (nullish (sp_cashKnowledge c) UnknownCost)
            (sp_allowanceDebitUnobserved c),
          us_valuationKnowledge = nullish (sp_valuationKnowledge c) UnknownCost\<rparr>)"

definition attemptRoutingCostSample :: "rat \<Rightarrow> usage_tracker \<Rightarrow> rat option" where
  "attemptRoutingCostSample costUsd t =
     (let c = attempt_usage_view t;
          receipt = (case sp_observedAmounts c of None \<Rightarrow> False | Some a \<Rightarrow> oa_cash a) \<and> sp_cashUsd c = 0;
          total = reportedCashKnowledge (nullish (sp_cashKnowledge c) UnknownCost)
            (sp_allowanceDebitUnobserved c)
      in if 0 < costUsd then Some costUsd
         else if receipt \<and> total \<noteq> UnknownCost then Some 0 else None)"

definition route_mode :: "credential_route option \<Rightarrow> auth_mode option \<Rightarrow> auth_mode option" where
  "route_mode route dflt =
     (if route = Some VendorNative then Some LocalSession
      else if route = Some ManagedApiKey then Some ApiKey else dflt)"

definition observed_mode :: "harness_event \<Rightarrow> auth_mode option \<Rightarrow> auth_mode option" where
  "observed_mode e previous =
     (let m0 = (if he_type e = EvStarted then None else previous);
          m1 = route_mode (he_credential_route e) m0
      in if he_type e = EvMessage \<and> he_auth_switched e
         then (if he_to_auth_mode e = Some ''subscription'' then Some LocalSession
               else if he_to_auth_mode e = Some ''api_key'' then Some ApiKey else m1)
         else m1)"

definition observeAttemptUsageEvent ::
  "harness_event \<Rightarrow> usage_tracker \<times> auth_mode option \<Rightarrow> usage_tracker \<times> auth_mode option" where
  "observeAttemptUsageEvent e st =
     (let mode = observed_mode e (snd st);
          t1 = (if he_type e = EvStarted then startAttempt None None (fst st) else fst st);
          t2 = observeEvent mode (he_processing e) (he_processing_cost_basis e) t1;
          t3 = (case reportedUsageCostUsd e of
                  None \<Rightarrow> t2
                | Some usd \<Rightarrow>
                    observeUsage (route_mode (he_credential_route e) mode) usd
                      (case he_usage e of None \<Rightarrow> False | Some u \<Rightarrow> us_estimated u) (Some e) t2);
          t4 = (if he_type e = EvCompleted then finishAttempt t3 else t3)
      in (t4, mode))"

definition observe_stream :: "harness_event list \<Rightarrow> usage_tracker" where
  "observe_stream es = fst (fold observeAttemptUsageEvent es (newAttemptUsageCost, None))"

section \<open>Settling an attempt\<close>

definition settleGrantedAttemptLease ::
  "ledger_view \<Rightarrow> shared_finance \<Rightarrow> string \<Rightarrow> string \<Rightarrow> string \<Rightarrow> rat \<Rightarrow> bool \<Rightarrow> auth_mode option \<Rightarrow>
   usage_tracker option \<Rightarrow> string \<Rightarrow> ledger_error + shared_finance" where
  "settleGrantedAttemptLease v f leaseId attemptId harnessId costUsd costEstimated mode usage preSource =
     settle v f leaseId
       (case usage of
          Some t \<Rightarrow> attemptUsageCostSettlement costUsd costEstimated attemptId harnessId mode
                      (Some (attempt_usage_view t))
        | None \<Rightarrow> unknownCostSettlement preSource None)"

record attempt_failure_cost =
  af_totalUsd :: rat
  af_estimated :: bool
  af_settlement :: budget_settlement

text \<open>A thrown value: one that carries a cost, or another with the finite \<open>costUsd\<close> it may have.\<close>

datatype attempt_error = AttemptPostStreamError attempt_failure_cost | OtherError "rat option"

definition attemptFailureCost :: "attempt_error \<Rightarrow> string \<Rightarrow> rat option \<Rightarrow> attempt_failure_cost" where
  "attemptFailureCost err fallbackSource fallbackCashUsd =
     (case err of
        AttemptPostStreamError c \<Rightarrow> c
      | OtherError costUsd \<Rightarrow>
          let carried = (case costUsd of
                Some x \<Rightarrow> if 0 \<le> x then Some x else fallbackCashUsd
              | None \<Rightarrow> fallbackCashUsd)
          in \<lparr>af_totalUsd = nullish carried 0, af_estimated = (0 < nullish carried 0),
              af_settlement = unknownCostSettlement fallbackSource carried\<rparr>)"

end
