(* ===== verification/Usage_Props.thy ===== *)
theory Usage_Props
  imports Attempt_Usage
begin

text \<open>
  The tracker as a state machine: one step per method call, in any order. Its invariant ties each
  total to the flag that says it was observed; along a run amounts only grow and a doubt about
  cash, once raised at the end of an interval or an attempt, stays. The settlement properties
  say what reaches the ledger from there.
\<close>

section \<open>The step relation\<close>

inductive tracker_step :: "usage_tracker \<Rightarrow> usage_tracker \<Rightarrow> bool" where
  tracker_start: "tracker_step t (startAttempt p b t)"
| tracker_event: "tracker_step t (observeEvent r p b t)"
| tracker_usage: "tracker_step t (observeUsage r usd est ev t)"
| tracker_finish: "tracker_step t (finishAttempt t)"

definition tracker_init :: "usage_tracker \<Rightarrow> bool" where
  "tracker_init t \<longleftrightarrow> t = new_tracker None"

definition tracker_inv :: "usage_tracker \<Rightarrow> bool" where
  "tracker_inv t \<longleftrightarrow>
     0 \<le> ut_cashUsd (tk_totals t) \<and> 0 \<le> ut_valuationUsd (tk_totals t) \<and>
     0 \<le> tk_unknownPaidUsd t \<and> tk_unknownPaidUsd t \<le> ut_unknownUsd (tk_totals t) \<and>
     (tk_sawCashReceipt t \<or> ut_cashUsd (tk_totals t) = 0 \<and> \<not> ut_cashEstimated (tk_totals t)) \<and>
     (tk_sawValuation t \<or> ut_valuationUsd (tk_totals t) = 0 \<and> \<not> ut_valuationEstimated (tk_totals t)) \<and>
     (tk_sawUnknownUsage t \<or> ut_unknownUsd (tk_totals t) = 0) \<and>
     (tk_unknownPaidAmount t \<or> tk_unknownPaidUsd t = 0) \<and>
     (tk_activeCashReceipt t \<longrightarrow> tk_sawCashReceipt t)"

text \<open>What a later state keeps of an earlier one.\<close>

definition evidence_kept :: "usage_tracker \<Rightarrow> usage_tracker \<Rightarrow> bool" where
  "evidence_kept t u \<longleftrightarrow>
     ut_cashUsd (tk_totals t) \<le> ut_cashUsd (tk_totals u) \<and>
     ut_valuationUsd (tk_totals t) \<le> ut_valuationUsd (tk_totals u) \<and>
     ut_unknownUsd (tk_totals t) \<le> ut_unknownUsd (tk_totals u) \<and>
     tk_unknownPaidUsd t \<le> tk_unknownPaidUsd u \<and>
     (ut_cashEstimated (tk_totals t) \<longrightarrow> ut_cashEstimated (tk_totals u)) \<and>
     (ut_valuationEstimated (tk_totals t) \<longrightarrow> ut_valuationEstimated (tk_totals u)) \<and>
     (tk_unresolvedPaid t \<longrightarrow> tk_unresolvedPaid u) \<and>
     (tk_unknownPaidAmount t \<longrightarrow> tk_unknownPaidAmount u) \<and>
     (tk_allowanceUnobserved t \<longrightarrow> tk_allowanceUnobserved u) \<and>
     (tk_sawUnknownUsage t \<longrightarrow> tk_sawUnknownUsage u) \<and>
     (tk_sawCashReceipt t \<longrightarrow> tk_sawCashReceipt u) \<and>
     (tk_sawValuation t \<longrightarrow> tk_sawValuation u) \<and>
     (tk_sawRoute t \<longrightarrow> tk_sawRoute u)"

lemmas tracker_ops = startAttempt_def finishAttempt_def observeEvent_def observeUsage_def

lemma tracker_inv_new [simp]: "tracker_inv (new_tracker None)"
  by (simp add: tracker_inv_def new_tracker_def zero_totals_def)

lemma startAttempt_inv: "tracker_inv t \<Longrightarrow> tracker_inv (startAttempt p b t)"
  by (auto simp: startAttempt_def finishAttempt_def tracker_inv_def Let_def)

lemma finishAttempt_inv: "tracker_inv t \<Longrightarrow> tracker_inv (finishAttempt t)"
  by (auto simp: finishAttempt_def tracker_inv_def)

lemma observeEvent_inv: "tracker_inv t \<Longrightarrow> tracker_inv (observeEvent r p b t)"
  by (cases r) (auto simp: observeEvent_def tracker_inv_def Let_def)

lemma observeUsage_inv: "tracker_inv t \<Longrightarrow> tracker_inv (observeUsage r usd est ev t)"
  by (auto simp: observeUsage_def tracker_inv_def Let_def split: usage_cost_kind.split)

lemma evidence_kept_refl [simp]: "evidence_kept t t"
  by (simp add: evidence_kept_def)

lemma evidence_kept_trans: "evidence_kept t u \<Longrightarrow> evidence_kept u v \<Longrightarrow> evidence_kept t v"
  unfolding evidence_kept_def by (auto intro: order_trans)

lemma step_evidence_kept: "tracker_step t u \<Longrightarrow> evidence_kept t u"
proof (induction rule: tracker_step.induct)
  case (tracker_event t r p b)
  show ?case by (cases r) (auto simp: observeEvent_def evidence_kept_def Let_def)
next
  case (tracker_usage t r usd est ev)
  show ?case
    by (auto simp: observeUsage_def evidence_kept_def Let_def split: usage_cost_kind.split)
qed (auto simp: startAttempt_def finishAttempt_def evidence_kept_def Let_def)

interpretation tracker: monotone_machine tracker_init tracker_step tracker_inv evidence_kept "\<lambda>t. t"
proof
  show "tracker_inv t" if "tracker_init t" for t using that by (simp add: tracker_init_def)
  show "tracker_inv u" if "tracker_inv t" and "tracker_step t u" for t u
    using that(2,1) by (cases rule: tracker_step.cases)
      (auto intro: startAttempt_inv finishAttempt_inv observeEvent_inv observeUsage_inv)
  show "evidence_kept t t" for t by simp
  show "evidence_kept t v" if "evidence_kept t u" and "evidence_kept u v" for t u v
    using that by (rule evidence_kept_trans)
  show "evidence_kept t u" if "tracker_step t u" for t u using that by (rule step_evidence_kept)
qed

text \<open>Evidence is kept from any state on, not only from those the invariant describes.\<close>

lemma steps_evidence_kept: "steps tracker_step t u \<Longrightarrow> evidence_kept t u"
  by (induction rule: steps.induct) (auto intro: evidence_kept_trans step_evidence_kept)

section \<open>Amounts\<close>

datatype tracker_call =
  CallStart "processing_receipt option" "processing_cost_basis option"
| CallEvent "auth_mode option" "processing_receipt option" "processing_cost_basis option"
| CallUsage "auth_mode option" rat bool "harness_event option"
| CallFinish

fun run_call :: "tracker_call \<Rightarrow> usage_tracker \<Rightarrow> usage_tracker" where
  "run_call (CallStart p b) = startAttempt p b"
| "run_call (CallEvent r p b) = observeEvent r p b"
| "run_call (CallUsage r usd est ev) = observeUsage r usd est ev"
| "run_call CallFinish = finishAttempt"

fun reported_usd :: "tracker_call \<Rightarrow> rat" where
  "reported_usd (CallUsage r usd est ev) = max 0 usd"
| "reported_usd _ = 0"

definition total_reported :: "usage_tracker \<Rightarrow> rat" where
  "total_reported t =
     ut_cashUsd (tk_totals t) + ut_valuationUsd (tk_totals t) + ut_unknownUsd (tk_totals t)"

lemma run_call_step: "tracker_step t (run_call c t)"
  by (cases c) (auto intro: tracker_step.intros)

lemma run_calls_steps: "steps tracker_step t (fold run_call cs t)"
proof (induction cs rule: rev_induct)
  case (snoc c cs)
  then show ?case by (auto intro: steps.more run_call_step)
qed (simp add: steps.none)

lemma run_call_total: "total_reported (run_call c t) = total_reported t + reported_usd c"
proof (cases c)
  case (CallEvent r p b)
  then show ?thesis
    by (cases r) (auto simp: observeEvent_def total_reported_def Let_def)
next
  case (CallUsage r usd est ev)
  then show ?thesis
    by (auto simp: observeUsage_def total_reported_def Let_def max_def split: usage_cost_kind.split)
qed (auto simp: startAttempt_def finishAttempt_def total_reported_def Let_def)

text \<open>C22: Every amount a harness reports is counted once: after any sequence of calls on a new tracker the
  cash, valuation and unknown totals add up to the reported non-negative amounts, each total is zero
  unless its kind was observed, and the unknown paid part never exceeds the unknown total.\<close>

theorem usage_amounts_counted_once:
  "t = fold run_call cs (new_tracker None) \<Longrightarrow>
     total_reported t = (\<Sum>c\<leftarrow>cs. reported_usd c) \<and> tracker_inv t"
proof -
  assume t: "t = fold run_call cs (new_tracker None)"
  have "total_reported (fold run_call cs s) = total_reported s + (\<Sum>c\<leftarrow>cs. reported_usd c)" for s
    by (induction cs arbitrary: s) (simp_all add: run_call_total)
  moreover have "tracker_inv (fold run_call cs (new_tracker None))"
    by (rule tracker.steps_inv [OF run_calls_steps]) simp
  ultimately show ?thesis
    by (simp add: t total_reported_def new_tracker_def zero_totals_def)
qed

theorem usage_amounts_counted_once_witness:
  "total_reported (fold run_call [CallStart None None, CallUsage (Some ApiKey) 2 False None,
     CallUsage None 1 True None, CallUsage (Some LocalSession) 4 False None] (new_tracker None)) = 7"
  using usage_amounts_counted_once [OF refl, of "[CallStart None None, CallUsage (Some ApiKey) 2 False None,
     CallUsage None 1 True None, CallUsage (Some LocalSession) 4 False None]"]
  by simp

section \<open>Certainty\<close>

text \<open>C26: Cash certainty is never regained: when the running attempt leaves the cash unknown although its
  route was seen, then once that attempt is finished or the next one started no later call, a late cash
  receipt included, makes the cash known again.\<close>

theorem cash_doubt_is_permanent:
  assumes "sn_cashKnowledge (snapshot t) = UnknownCost" and "tk_sawRoute t" and "tk_active t"
    and "u = finishAttempt t \<or> u = startAttempt p b t" and "steps tracker_step u v"
  shows "sn_cashKnowledge (snapshot v) = UnknownCost"
proof -
  have "tk_unresolvedPaid u \<or> tk_unknownPaidAmount u"
    using assms(1-4)
    by (auto simp: snapshot_def finishAttempt_def startAttempt_def Let_def split: if_splits)
  moreover have "evidence_kept u v"
    using assms(5) by (rule steps_evidence_kept)
  ultimately show ?thesis by (auto simp: snapshot_def evidence_kept_def Let_def)
qed

definition ex_tracker :: usage_tracker where
  "ex_tracker = observeEvent (Some ApiKey) None None (startAttempt None None (new_tracker None))"

lemmas ex_tracker_eval = ex_tracker_def observeEvent_def startAttempt_def new_tracker_def
  finishAttempt_def snapshot_def ordinaryIncluded_def zero_totals_def Let_def

theorem cash_doubt_is_permanent_witness:
  "sn_cashKnowledge (snapshot (observeUsage (Some ApiKey) 3 False None (finishAttempt ex_tracker))) = UnknownCost"
  by (rule cash_doubt_is_permanent [of ex_tracker "finishAttempt ex_tracker"])
    (simp_all add: ex_tracker_eval, auto intro: steps.more steps.none tracker_usage)

lemma api_key_never_included: "\<not> ordinaryIncluded (Some ApiKey) p b"
  by (simp add: ordinaryIncluded_def)

definition owes_receipt :: "usage_tracker \<Rightarrow> bool" where
  "owes_receipt t \<longleftrightarrow> tk_active t \<and> tk_activeSawEvent t \<and> tk_sawRoute t \<and>
     (tk_unresolvedPaid t \<or> tk_unknownPaidAmount t \<or> (tk_activePaid t \<and> \<not> tk_activeCashReceipt t))"

fun keeps_owing :: "tracker_call \<Rightarrow> usage_tracker \<Rightarrow> bool" where
  "keeps_owing (CallStart p b) t = False"
| "keeps_owing (CallEvent r p b) t = True"
| "keeps_owing (CallUsage r usd est ev) t = (tk_lastAmountKind (observeUsage r usd est ev t) \<noteq> Some UkCash)"
| "keeps_owing CallFinish t = False"

fun run_owing :: "tracker_call list \<Rightarrow> usage_tracker \<Rightarrow> bool" where
  "run_owing [] t = True"
| "run_owing (c # cs) t = (keeps_owing c t \<and> run_owing cs (run_call c t))"

lemma owes_receipt_event: "owes_receipt t \<Longrightarrow> owes_receipt (observeEvent r p b t)"
  by (cases r) (auto simp: owes_receipt_def observeEvent_def Let_def)

lemma owes_receipt_usage:
  "owes_receipt t \<Longrightarrow> tk_lastAmountKind (observeUsage r usd est ev t) \<noteq> Some UkCash \<Longrightarrow>
     owes_receipt (observeUsage r usd est ev t)"
  by (auto simp: owes_receipt_def observeUsage_def Let_def split: usage_cost_kind.splits if_splits)

lemma owes_receipt_run: "owes_receipt t \<Longrightarrow> run_owing cs t \<Longrightarrow> owes_receipt (fold run_call cs t)"
proof (induction cs arbitrary: t)
  case (Cons c cs)
  then have "owes_receipt (run_call c t)"
    by (cases c) (auto intro: owes_receipt_event owes_receipt_usage)
  then show ?case using Cons by simp
qed simp

text \<open>A paid attempt without a receipt is unknown: when an attempt is started and observes an event on
  an API-key route, and nothing but events and amounts that are not cash follow before it finishes, the
  cash of the tracker is unknown from then on, whatever is called later.\<close>

theorem unreceipted_paid_attempt_unknown:
  assumes "u = observeEvent (Some ApiKey) p b (startAttempt p0 b0 t)" and "run_owing cs u"
    and "steps tracker_step (finishAttempt (fold run_call cs u)) v"
  shows "sn_cashKnowledge (snapshot v) = UnknownCost"
proof -
  have "owes_receipt u"
    by (simp add: assms(1) owes_receipt_def observeEvent_def startAttempt_def finishAttempt_def
        Let_def api_key_never_included)
  then have o: "owes_receipt (fold run_call cs u)" by (rule owes_receipt_run [OF _ assms(2)])
  then have "tk_unresolvedPaid (finishAttempt (fold run_call cs u)) \<or>
      tk_unknownPaidAmount (finishAttempt (fold run_call cs u))"
    by (auto simp: owes_receipt_def finishAttempt_def)
  moreover have "evidence_kept (finishAttempt (fold run_call cs u)) v"
    using assms(3) by (rule steps_evidence_kept)
  ultimately show ?thesis by (auto simp: snapshot_def evidence_kept_def Let_def)
qed

theorem unreceipted_paid_attempt_unknown_witness:
  "sn_cashKnowledge (snapshot (finishAttempt (observeEvent (Some LocalSession) None None ex_tracker))) = UnknownCost"
  by (rule unreceipted_paid_attempt_unknown [of _ None None None None "new_tracker None"
      "[CallEvent (Some LocalSession) None None]"])
    (simp_all add: ex_tracker_def, rule steps.none)

section \<open>Settlements\<close>

lemma mergeKnowledgeList_Max: "mergeKnowledgeList ks = Max (insert Exact (set ks))"
  by (simp add: mergeKnowledgeList_fold settlement_merge.fold_merge_Max)

lemma snapshot_saw [simp]:
  "oa_unknown (sn_observedAmounts (snapshot t)) = tk_sawUnknownUsage t"
  "oa_valuation (sn_observedAmounts (snapshot t)) = tk_sawValuation t"
  "oa_cash (sn_observedAmounts (snapshot t)) = tk_sawCashReceipt t"
  by (simp_all add: snapshot_def Let_def)

text \<open>What the tracker could not establish reaches the ledger as unknown: the settlement of an attempt
  books the cash total of its tracker with the cash certainty of its snapshot, is never more certain than
  that cash, and books unknown valuation and unknown total certainty when some reported amount had no
  known meaning.\<close>

theorem settlement_keeps_doubt:
  "st = attemptUsageCostSettlement usd est a h mode (Some (attempt_usage_view t)) \<Longrightarrow>
     bs_cashKnowledge st = Some (sn_cashKnowledge (snapshot t)) \<and>
     sn_cashKnowledge (snapshot t) \<le> bs_knowledge st \<and>
     bs_cashUsd st = Some (ut_cashUsd (tk_totals t)) \<and>
     (tk_sawUnknownUsage t \<longrightarrow> bs_valuationKnowledge st = Some UnknownCost \<and> bs_knowledge st = UnknownCost)"
  by (simp add: attemptUsageCostSettlement_def attempt_split_settlement_def attempt_usage_view_def
      Let_def reportedComponents_def)

theorem settlement_keeps_doubt_witness:
  "bs_cashKnowledge (attemptUsageCostSettlement 3 False ''a'' ''h'' (Some ApiKey)
     (Some (attempt_usage_view ex_tracker))) = Some UnknownCost"
  using settlement_keeps_doubt [OF refl, of 3 False "''a''" "''h''" "Some ApiKey" ex_tracker]
  by (simp add: ex_tracker_eval)

end
