(* ===== verification/Metrics.thy ===== *)
theory Metrics
  imports Quota
begin

text \<open>
  \<open>packages/budget/src/metrics.ts\<close>: the rolling cost and duration averages per harness. The
  file is its JSON value: \<open>None\<close> when it is missing, unreadable or not JSON. Reading a
  property of a JSON null raises, and the reader answers an exception with no metrics at all.
  The write is atomic in the source; a failed write keeps the old file and is not modelled.
\<close>

record harness_metric =
  hm_avg_cost_usd :: "rat option"
  hm_avg_duration_ms :: "rat option"
  hm_samples :: rat
  hm_last_auth_mode :: "auth_mode option"

type_synonym harness_metrics = "(string, harness_metric) jsmap"

definition ema_alpha :: rat where "ema_alpha = 3 / 10"
definition max_samples_counted :: rat where "max_samples_counted = 1000000"
definition cost_evidence_version :: rat where "cost_evidence_version = 1"

text \<open>Property access: \<open>None\<close> raises (null), an absent property is \<open>Some None\<close>.\<close>

fun json_prop :: "json \<Rightarrow> string \<Rightarrow> json option option" where
  "json_prop JNull k = None"
| "json_prop (JObj kvs) k = Some (map_of kvs k)"
| "json_prop _ k = Some None"

fun number_from :: "rat \<Rightarrow> bool \<Rightarrow> json option \<Rightarrow> rat option" where
  "number_from lo strict (Some (JNum x)) =
     (if (if strict then lo < x else lo \<le> x) then Some x else None)"
| "number_from lo strict _ = None"

fun mode_from :: "json option \<Rightarrow> auth_mode option" where
  "mode_from (Some (JStr s)) =
     (if s = ''local_session'' then Some LocalSession
      else if s = ''api_key'' then Some ApiKey else None)"
| "mode_from _ = None"

definition load_metric :: "json \<Rightarrow> harness_metric option" where
  "load_metric v =
     (case json_prop v ''cost_evidence_version'' of
        None \<Rightarrow> None
      | Some version \<Rightarrow>
          let field = (\<lambda>k. flat (json_prop v k))
          in Some \<lparr>hm_avg_cost_usd =
                 (if version = Some (JNum cost_evidence_version)
                  then number_from 0 False (field ''avg_cost_usd'') else None),
               hm_avg_duration_ms = number_from 0 False (field ''avg_duration_ms''),
               hm_samples = (case number_from 0 True (field ''samples'') of
                   None \<Rightarrow> 0 | Some n \<Rightarrow> min n max_samples_counted),
               hm_last_auth_mode = mode_from (field ''last_auth_mode'')\<rparr>)"

fun load_entries :: "(string \<times> json) list \<Rightarrow> harness_metrics \<Rightarrow> harness_metrics option" where
  "load_entries [] out = Some out"
| "load_entries ((k, v) # kvs) out =
     (case load_metric v of None \<Rightarrow> None | Some m \<Rightarrow> load_entries kvs (jset k m out))"

definition loadHarnessMetrics :: "json option \<Rightarrow> harness_metrics" where
  "loadHarnessMetrics file =
     (case file of
        Some (JObj kvs) \<Rightarrow> nullish (load_entries kvs []) []
      | _ \<Rightarrow> [])"

section \<open>Recording\<close>

text \<open>The cost of a sample: omitted, an explicit null, or a number.\<close>

datatype cost_sample = CostOmitted | CostNull | CostUsd rat

record metric_sample =
  ms_costUsd :: cost_sample
  ms_durationMs :: "rat option"
  ms_authMode :: "auth_mode option"

definition empty_metric :: harness_metric where
  "empty_metric = \<lparr>hm_avg_cost_usd = None, hm_avg_duration_ms = None, hm_samples = 0,
     hm_last_auth_mode = None\<rparr>"

definition ema :: "rat option \<Rightarrow> rat option \<Rightarrow> rat option" where
  "ema old new =
     (case new of
        None \<Rightarrow> old
      | Some x \<Rightarrow>
          if x < 0 then old
          else case old of None \<Rightarrow> Some x | Some o' \<Rightarrow> Some (o' * (1 - ema_alpha) + x * ema_alpha))"

fun cost_number :: "cost_sample \<Rightarrow> rat option" where
  "cost_number (CostUsd x) = Some x"
| "cost_number _ = None"

definition update_metric :: "metric_sample \<Rightarrow> harness_metric \<Rightarrow> harness_metric" where
  "update_metric sample prev =
     (let perf = (cost_number (ms_costUsd sample) \<noteq> None \<or> ms_durationMs sample \<noteq> None)
      in \<lparr>hm_avg_cost_usd =
            (if ms_costUsd sample = CostNull then None
             else ema (hm_avg_cost_usd prev) (cost_number (ms_costUsd sample))),
          hm_avg_duration_ms = ema (hm_avg_duration_ms prev) (ms_durationMs sample),
          hm_samples =
            (if perf then min (hm_samples prev + 1) max_samples_counted else hm_samples prev),
          hm_last_auth_mode = or_else (ms_authMode sample) (hm_last_auth_mode prev)\<rparr>)"

fun num_or_null :: "rat option \<Rightarrow> json" where
  "num_or_null None = JNull"
| "num_or_null (Some x) = JNum x"

fun mode_or_null :: "auth_mode option \<Rightarrow> json" where
  "mode_or_null None = JNull"
| "mode_or_null (Some LocalSession) = JStr ''local_session''"
| "mode_or_null (Some ApiKey) = JStr ''api_key''"

definition persist_metric :: "harness_metric \<Rightarrow> json" where
  "persist_metric m = JObj
     [(''avg_cost_usd'', num_or_null (hm_avg_cost_usd m)),
      (''avg_duration_ms'', num_or_null (hm_avg_duration_ms m)),
      (''samples'', JNum (hm_samples m)),
      (''last_auth_mode'', mode_or_null (hm_last_auth_mode m)),
      (''cost_evidence_version'', JNum cost_evidence_version)]"

definition persist_metrics :: "harness_metrics \<Rightarrow> json" where
  "persist_metrics all = JObj (map (\<lambda>(k, m). (k, persist_metric m)) all)"

definition recordHarnessMetric :: "string \<Rightarrow> metric_sample \<Rightarrow> json option \<Rightarrow> json option" where
  "recordHarnessMetric harnessId sample file =
     (let all = loadHarnessMetrics file;
          prev = nullish (jget all harnessId) empty_metric
      in Some (persist_metrics (jset harnessId (update_metric sample prev) all)))"

section \<open>What the file holds can be read back\<close>

definition metric_ok :: "harness_metric \<Rightarrow> bool" where
  "metric_ok m \<longleftrightarrow>
     (case hm_avg_cost_usd m of None \<Rightarrow> True | Some x \<Rightarrow> 0 \<le> x) \<and>
     (case hm_avg_duration_ms m of None \<Rightarrow> True | Some x \<Rightarrow> 0 \<le> x) \<and>
     0 \<le> hm_samples m \<and> hm_samples m \<le> max_samples_counted"

definition metrics_ok :: "harness_metrics \<Rightarrow> bool" where
  "metrics_ok all \<longleftrightarrow> distinct (map fst all) \<and> (\<forall>m \<in> set (jvalues all). metric_ok m)"

lemma load_metric_ok: "load_metric v = Some m \<Longrightarrow> metric_ok m"
proof -
  have n: "number_from lo b j = Some x \<Longrightarrow> lo \<le> x" for lo b j x
    by (induction lo b j rule: number_from.induct) (auto split: if_splits)
  assume "load_metric v = Some m"
  then show ?thesis
    by (auto simp: load_metric_def metric_ok_def Let_def max_samples_counted_def min_def
        split: option.splits if_splits dest: n)
qed

lemma jset_values: "x \<in> snd ` set (jset k v m) \<Longrightarrow> x = v \<or> x \<in> snd ` set m"
  by (induction m) (auto split: if_splits)

lemma metrics_ok_jset:
  assumes "metrics_ok out" and "metric_ok m"
  shows "metrics_ok (jset k m out)"
proof -
  have "metric_ok x" if "x \<in> snd ` set (jset k m out)" for x
    using jset_values [OF that] assms by (auto simp: metrics_ok_def)
  then show ?thesis using assms(1) by (simp add: metrics_ok_def distinct_update)
qed

lemma load_entries_ok:
  "load_entries kvs out = Some all \<Longrightarrow> metrics_ok out \<Longrightarrow> metrics_ok all"
proof (induction kvs out rule: load_entries.induct)
  case (2 k v kvs out)
  then obtain m where m: "load_metric v = Some m" "load_entries kvs (jset k m out) = Some all"
    by (auto split: option.splits)
  have "metrics_ok (jset k m out)"
    by (rule metrics_ok_jset [OF "2.prems"(2) load_metric_ok [OF m(1)]])
  then show ?case using "2.IH" m by blast
qed simp

lemma loadHarnessMetrics_ok: "metrics_ok (loadHarnessMetrics file)"
proof -
  have "metrics_ok []" by (simp add: metrics_ok_def)
  then have "metrics_ok (nullish (load_entries kvs []) [])" for kvs
    using load_entries_ok [of kvs "[]"] by (cases "load_entries kvs []") auto
  then show ?thesis
    unfolding loadHarnessMetrics_def using \<open>metrics_ok []\<close> by (auto split: option.split json.split)
qed

lemma load_persist_metric: "metric_ok m \<Longrightarrow> load_metric (persist_metric m) = Some m"
proof -
  have c: "number_from 0 False (Some (num_or_null x)) = x" if "case x of None \<Rightarrow> True | Some y \<Rightarrow> 0 \<le> y" for x
    using that by (cases x) auto
  have a: "mode_from (Some (mode_or_null x)) = x" for x
    by (induction x rule: mode_or_null.induct) simp_all
  have n: "(case number_from 0 True (Some (JNum x)) of None \<Rightarrow> 0 | Some n \<Rightarrow> min n max_samples_counted) = x"
    if "0 \<le> x" "x \<le> max_samples_counted" for x using that by auto
  assume "metric_ok m"
  then show ?thesis
    using c [of "hm_avg_cost_usd m"] c [of "hm_avg_duration_ms m"] a [of "hm_last_auth_mode m"] n [of "hm_samples m"]
    unfolding metric_ok_def load_metric_def persist_metric_def Let_def by simp
qed

lemma load_entries_persisted:
  "metrics_ok (out @ all) \<Longrightarrow>
     load_entries (map (\<lambda>(k, m). (k, persist_metric m)) all) out = Some (out @ all)"
proof (induction all arbitrary: out)
  case (Cons e all)
  obtain k m where e: "e = (k, m)" by (cases e)
  have "metric_ok m" "k \<notin> fst ` set out" using Cons.prems by (auto simp: metrics_ok_def e)
  then have "jset k m out = out @ [(k, m)]" by (simp add: jset_new)
  then show ?case
    using Cons.IH [of "out @ [(k, m)]"] Cons.prems \<open>metric_ok m\<close> by (simp add: e load_persist_metric)
qed simp

lemma load_persisted: "metrics_ok all \<Longrightarrow> loadHarnessMetrics (Some (persist_metrics all)) = all"
  using load_entries_persisted [of "[]" all] by (simp add: loadHarnessMetrics_def persist_metrics_def)

end
