(* ===== verification/Metrics_Props.thy ===== *)
theory Metrics_Props
  imports Metrics
begin

text \<open>
  The properties of the metrics file: what one recorded attempt changes, and what a sequence of
  them leaves in the averages.
\<close>

lemma update_metric_ok: "metric_ok m \<Longrightarrow> metric_ok (update_metric s m)"
proof -
  have e: "case ema old new of None \<Rightarrow> True | Some x \<Rightarrow> 0 \<le> x"
    if "case old of None \<Rightarrow> True | Some x \<Rightarrow> 0 \<le> x" for old new
    using that by (cases old; cases new) (auto simp: ema_def ema_alpha_def)
  assume "metric_ok m"
  then show ?thesis
    using e [of "hm_avg_cost_usd m" "cost_number (ms_costUsd s)"] e [of "hm_avg_duration_ms m" "ms_durationMs s"]
    by (auto simp: metric_ok_def update_metric_def Let_def max_samples_counted_def)
qed

lemma empty_metric_ok [simp]: "metric_ok empty_metric"
  by (simp add: metric_ok_def empty_metric_def max_samples_counted_def)

lemma stored_metric_ok: "metric_ok (nullish (jget (loadHarnessMetrics stored) h) empty_metric)"
proof (cases "jget (loadHarnessMetrics stored) h")
  case (Some m)
  then have "(h, m) \<in> set (loadHarnessMetrics stored)" by (rule map_of_SomeD)
  then show ?thesis using loadHarnessMetrics_ok [of stored] Some by (fastforce simp: metrics_ok_def)
qed simp

lemma load_record:
  "loadHarnessMetrics (recordHarnessMetric h s stored) =
     jset h (update_metric s (nullish (jget (loadHarnessMetrics stored) h) empty_metric))
       (loadHarnessMetrics stored)"
  unfolding recordHarnessMetric_def Let_def
  by (rule load_persisted, rule metrics_ok_jset [OF loadHarnessMetrics_ok], rule update_metric_ok,
      rule stored_metric_ok)

text \<open>Recording one attempt changes one harness only, and nothing is lost through the file: whatever the
  file held, corrupt or from an older version, reading it back after the write gives the metrics read
  before with this harness's entry updated.\<close>

theorem record_then_load:
  "loadHarnessMetrics (recordHarnessMetric h s stored) =
     jset h (update_metric s (nullish (jget (loadHarnessMetrics stored) h) empty_metric))
       (loadHarnessMetrics stored)"
  by (rule load_record)

section \<open>Sequences of attempts\<close>

definition record_all :: "(string \<times> metric_sample) list \<Rightarrow> json option \<Rightarrow> json option" where
  "record_all xs stored = fold (\<lambda>(h, s). recordHarnessMetric h s) xs stored"

definition samples_of :: "string \<Rightarrow> (string \<times> metric_sample) list \<Rightarrow> metric_sample list" where
  "samples_of h xs = map snd (filter (\<lambda>p. fst p = h) xs)"

lemma record_all_metric:
  "nullish (jget (loadHarnessMetrics (record_all xs stored)) h) empty_metric =
     fold update_metric (samples_of h xs) (nullish (jget (loadHarnessMetrics stored) h) empty_metric)"
proof (induction xs arbitrary: stored)
  case (Cons x xs)
  have "record_all (x # xs) stored = record_all xs (recordHarnessMetric (fst x) (snd x) stored)"
    by (simp add: record_all_def case_prod_beta)
  then show ?case
    using Cons.IH [of "recordHarnessMetric (fst x) (snd x) stored"]
    by (simp add: load_record samples_of_def)
qed (simp add: record_all_def samples_of_def)

definition cost_within :: "rat \<Rightarrow> rat \<Rightarrow> metric_sample \<Rightarrow> bool" where
  "cost_within lo hi s = (case cost_number (ms_costUsd s) of None \<Rightarrow> True
     | Some x \<Rightarrow> x < 0 \<or> lo \<le> x \<and> x \<le> hi)"

definition avg_within :: "rat \<Rightarrow> rat \<Rightarrow> rat option \<Rightarrow> bool" where
  "avg_within lo hi a = (case a of None \<Rightarrow> True | Some x \<Rightarrow> lo \<le> x \<and> x \<le> hi)"

lemma ema_between: "lo \<le> a \<Longrightarrow> lo \<le> b \<Longrightarrow> a \<le> hi \<Longrightarrow> b \<le> hi \<Longrightarrow>
    lo \<le> a * (1 - ema_alpha) + b * ema_alpha \<and> a * (1 - ema_alpha) + b * ema_alpha \<le> hi"
  for a b lo hi :: rat
  by (simp add: ema_alpha_def)

lemma update_metric_within:
  "avg_within lo hi (hm_avg_cost_usd m) \<Longrightarrow> cost_within lo hi s \<Longrightarrow>
     avg_within lo hi (hm_avg_cost_usd (update_metric s m))"
  using ema_between [of lo _ _ hi]
  by (cases "hm_avg_cost_usd m"; cases "cost_number (ms_costUsd s)")
    (auto simp: avg_within_def cost_within_def update_metric_def ema_def Let_def)

lemma fold_update_within:
  "avg_within lo hi (hm_avg_cost_usd m) \<Longrightarrow> (\<forall>s \<in> set ss. cost_within lo hi s) \<Longrightarrow>
     avg_within lo hi (hm_avg_cost_usd (fold update_metric ss m))"
  by (induction ss arbitrary: m) (auto intro: update_metric_within)

text \<open>The average never leaves the evidence: starting with no file, after any sequence of recorded
  attempts of any harnesses, the average cost of a harness lies between any bounds its own usable cost
  samples lie between, and it is empty right after an attempt recorded as unpriced.\<close>

theorem average_within_evidence:
  assumes "\<forall>s \<in> set (samples_of h xs). cost_within lo hi s"
  shows "avg_within lo hi (hm_avg_cost_usd
           (nullish (jget (loadHarnessMetrics (record_all xs None)) h) empty_metric)) \<and>
         (\<forall>s. ms_costUsd s = CostNull \<longrightarrow> hm_avg_cost_usd
           (nullish (jget (loadHarnessMetrics (record_all (xs @ [(h, s)]) None)) h) empty_metric) = None)"
proof -
  have "avg_within lo hi (hm_avg_cost_usd (nullish (jget (loadHarnessMetrics None) h) empty_metric))"
    by (simp add: loadHarnessMetrics_def avg_within_def empty_metric_def)
  then have "avg_within lo hi (hm_avg_cost_usd
      (nullish (jget (loadHarnessMetrics (record_all xs None)) h) empty_metric))"
    unfolding record_all_metric using assms by (rule fold_update_within)
  moreover have "hm_avg_cost_usd
      (nullish (jget (loadHarnessMetrics (record_all (xs @ [(h, s)]) None)) h) empty_metric) = None"
    if "ms_costUsd s = CostNull" for s
    unfolding record_all_metric using that by (simp add: samples_of_def update_metric_def Let_def)
  ultimately show ?thesis by blast
qed

theorem average_within_evidence_witness:
  "avg_within 1 3 (hm_avg_cost_usd (nullish (jget (loadHarnessMetrics (record_all
     [(''codex'', \<lparr>ms_costUsd = CostUsd 1, ms_durationMs = None, ms_authMode = None\<rparr>),
      (''claude'', \<lparr>ms_costUsd = CostUsd 9, ms_durationMs = None, ms_authMode = None\<rparr>),
      (''codex'', \<lparr>ms_costUsd = CostUsd 3, ms_durationMs = None, ms_authMode = None\<rparr>)] None))
     ''codex'') empty_metric))"
  by (rule average_within_evidence [THEN conjunct1]) (simp add: samples_of_def cost_within_def)

end
