(* ===== verification/Review_Schema.thy ===== *)
theory Review_Schema
  imports Json Budget_Schema
begin

text \<open>
  The evidence a decision is made of and the decision itself: \<open>packages/schema/src/gate.ts\<close>,
  \<open>review.ts\<close>, \<open>decision.ts\<close> and the work-state axis of \<open>work-report.ts\<close>.
  A field that a schema makes optional is an option; one that may be null as well is an option of
  an option.
\<close>

section \<open>Deterministic gates\<close>

datatype gate_status = GatePassed | GateFailed | GateTimedOut

record gate_result =
  gr_id :: string
  gr_command :: string
  gr_exit_code :: "int option"
  gr_status :: gate_status
  gr_duration_ms :: nat
  gr_required :: bool
  gr_stdout_tail :: "string option"
  gr_stderr_tail :: "string option"
  gr_output_truncated :: bool

section \<open>Review findings\<close>

datatype severity =
  SevBlock | SevFixFirst | SevWarn | SevNit | SevOutOfScope | SevInsufficientEvidence | SevNeedsHuman

datatype finding_category =
  CatCorrectness | CatRegression | CatSecurity | CatPerformance | CatMaintainability
| CatTestGap | CatSpecGap | CatDeploy | CatArchitecture | CatUx

datatype finding_status =
  FsProposed | FsAccepted | FsRebutted | FsFixed | FsAcceptedRisk | FsDuplicate | FsStale
| FsOutOfScope | FsInsufficientEvidence

record file_evidence =
  fe_path :: string
  fe_lines :: "string option"

record finding_evidence =
  fi_files :: "file_evidence list"
  fi_diff_hunks :: "string list"
  fi_commands :: "string list"
  fi_logs :: "string list"

datatype route_proof_status = ProofVerified | ProofAcceptedModelArg | ProofUnverified | ProofSameModelFallback

record finding_reviewer =
  fr_harness_id :: string
  fr_requested_model :: "string option"
  fr_requested_effort :: "string option"
  fr_credential_profile_id :: "string option option"
  fr_observed_credential_profile_id :: "string option option"
  fr_observed_model :: "string option"
  fr_route_proof_status :: route_proof_status

record review_finding =
  rf_id :: string
  rf_severity :: severity
  rf_category :: finding_category
  rf_claim :: string
  rf_linked_acceptance_criteria :: "string list"
  rf_evidence :: finding_evidence
  rf_proposed_fix :: "string option"
  rf_reviewer :: finding_reviewer
  rf_status :: finding_status
  rf_revalidation_note :: "string option"

definition isBlocking :: "review_finding \<Rightarrow> bool" where
  "isBlocking f =
     (if rf_status f \<noteq> FsAccepted then False
      else if rf_severity f = SevNeedsHuman then True
      else if rf_severity f \<noteq> SevBlock \<and> rf_severity f \<noteq> SevFixFirst then False
      else fi_files (rf_evidence f) \<noteq> [] \<or> fi_diff_hunks (rf_evidence f) \<noteq> [] \<or>
           fi_commands (rf_evidence f) \<noteq> [] \<or> fi_logs (rf_evidence f) \<noteq> [])"

section \<open>The work state\<close>

datatype work_status = WorkCompleted | WorkNeedsInput | WorkIncomplete | WorkUnverified

datatype work_report_source = SourceConstrained | SourceValidated | SourceAbsent

datatype required_input_kind =
  InputFile | InputContext | InputCredential | InputPermission | InputDecision | InputExternalDependency

record required_input =
  ri_kind :: required_input_kind
  ri_locator :: "string option"
  ri_description :: string

datatype unverified_reason =
  FooterMissing | FooterNotJson | FooterNotObject | ReportMissing | ReportMalformed
| ReportContradictory | LegacyOutputInvalid

record work_state =
  ws_state :: work_status
  ws_source :: work_report_source
  ws_required_inputs :: "required_input list option"
  ws_unverified_reason :: "unverified_reason option"

definition valid_work_state :: "work_state \<Rightarrow> bool" where
  "valid_work_state w =
     (case ws_required_inputs w of
        None \<Rightarrow> True
      | Some is \<Rightarrow> length is \<le> 16 \<and>
          list_all (\<lambda>i. length (ri_description i) \<le> 1024 \<and>
            (case ri_locator i of None \<Rightarrow> True | Some l \<Rightarrow> length l \<le> 512)) is)"

section \<open>The decision\<close>

datatype axis_winner = WinA | WinB | WinTie

record pairwise_comparison =
  pc_candidate_a :: string
  pc_candidate_b :: string
  pc_criteria :: "(string, axis_winner \<times> string) jsmap"

datatype checks_state = ChecksPassed | ChecksFailed | ChecksNotConfigured

datatype review_state = ReviewApproved | ReviewBlocked | ReviewNotRun

datatype run_reason =
  HarnessFailed | NoChanges | ReviewBlockedReason | ChecksFailedReason | BudgetExhaustedReason
| BudgetOvershootReason | CostUnverifiableReason | NotConverged | StuckNoProgress
| WallClockExceeded | UserCancelled | HostCancelled | OwnerTaskGone | CrashInterrupted
| WorkspaceUnavailable | CaptureRefused | InputRequired | WorkIncompleteReason
| ContextCapacityExhausted | TurnLimitReached | WorkReportContract

datatype lifecycle = LifeSucceeded | LifeFailed | LifeCancelled | LifeInterrupted

record run_outcome_facts =
  of_lifecycle :: lifecycle
  of_noChanges :: "bool option"
  of_checks :: checks_state
  of_review :: review_state
  of_review_requested :: "bool option"
  of_reason :: "run_reason option"
  of_work_state :: "work_state option"

definition reviewAllowsApply :: "review_state \<Rightarrow> bool option \<Rightarrow> bool" where
  "reviewAllowsApply review requested \<longleftrightarrow>
     review = ReviewApproved \<or> (review = ReviewNotRun \<and> requested = Some False)"

datatype apply_recommendation = RecApply | RecInspect | RecContinue | RecHumanReview

datatype verification_basis = BasisNone | BasisChecks | BasisReview | BasisBoth

record final_verify_record =
  fv_base_manifest_sha256 :: "string option"
  fv_attempted :: bool
  fv_base_sha :: "string option"
  fv_applied_cleanly :: "bool option"
  fv_gates_passed :: "bool option"
  fv_gates :: "(string \<times> string) list"
  fv_duration_ms :: "nat option"
  fv_reason :: "string option"

record scorecard_row =
  sr_attempt_id :: string
  sr_label :: string
  sr_axes :: "(string, string) jsmap"

record decisive_axis =
  da_key :: string
  da_winner_value :: string
  da_runner_up_value :: string

record budget_summary =
  bu_spend_usd :: "rat option"
  bu_estimated :: bool
  bu_cash_usd :: "rat option"
  bu_controllable_cash_usd :: "rat option option"
  bu_valuation_usd :: "rat option"
  bu_valuation_knowledge :: "cost_knowledge option"

record decision_record =
  dr_winner :: "string option"
  dr_facts :: run_outcome_facts
  dr_why_winner :: string
  dr_why_not_others :: "(string, string) jsmap"
  dr_ranking_policy_version :: nat
  dr_score_axes :: "string list"
  dr_ranking_scorecard :: "scorecard_row list"
  dr_decisive_axis :: "decisive_axis option"
  dr_accepted_risks :: "string list"
  dr_final_checks :: "string list"
  dr_evidence_facts :: "string list"
  dr_budget_summary :: budget_summary
  dr_apply_recommendation :: apply_recommendation
  dr_verification_basis :: verification_basis
  dr_final_verify :: "final_verify_record option"

text \<open>\<open>DecisionRecord.parse\<close> on a value of the right shape: itself, or \<open>None\<close> for a
  validation error.\<close>

definition valid_decision :: "decision_record \<Rightarrow> bool" where
  "valid_decision d \<longleftrightarrow>
     (case dr_winner d of None \<Rightarrow> True | Some w \<Rightarrow> valid_id w) \<and>
     (case of_work_state (dr_facts d) of None \<Rightarrow> True | Some w \<Rightarrow> valid_work_state w) \<and>
     0 < dr_ranking_policy_version d \<and>
     list_all (\<lambda>r. valid_id (sr_attempt_id r)) (dr_ranking_scorecard d)"

definition parse_decision :: "decision_record \<Rightarrow> decision_record option" where
  "parse_decision d = (if valid_decision d then Some d else None)"

end
