(* ===== verification/Arbitration.thy ===== *)
theory Arbitration
  imports Review_Schema Quota Ordering
begin

text \<open>
  \<open>packages/arbitration/src/arbitration.ts\<close>: the ranking of candidates by one list of axes
  and the decision record. Counts are integers and fractions rationals; how a cost prints is the
  argument \<open>num\<close>.
\<close>

section \<open>Evidence\<close>

record candidate_evidence =
  cv_attemptId :: string
  cv_label :: string
  cv_gates :: "gate_result list"
  cv_acceptanceCovered :: "string list"
  cv_acceptanceTotal :: int
  cv_findings :: "review_finding list"
  cv_testsPassed :: int
  cv_testsTotal :: int
  cv_finalReviewClean :: bool
  cv_reviewVerified :: "bool option"
  cv_toolWarningsCount :: "int option"
  cv_diffSize :: "int option"
  cv_diffBytes :: "int option"
  cv_costUsd :: "rat option"
  cv_workState :: "work_state option"

definition configuredGates :: "candidate_evidence \<Rightarrow> gate_result list" where
  "configuredGates c = filter (\<lambda>g. gr_id g \<noteq> ''harness'') (cv_gates c)"

definition configuredTestCounts :: "candidate_evidence \<Rightarrow> int \<times> int" where
  "configuredTestCounts c =
     (if \<not> (\<exists>g \<in> set (cv_gates c). gr_id g = ''harness'')
      then (cv_testsPassed c, cv_testsTotal c)
      else (int (length (filter (\<lambda>g. gr_status g = GatePassed) (configuredGates c))),
            int (length (configuredGates c))))"

definition all_passed :: "gate_result list \<Rightarrow> bool" where
  "all_passed gs = list_all (\<lambda>g. gr_status g = GatePassed) gs"

definition requiredGatesPassed :: "candidate_evidence \<Rightarrow> bool" where
  "requiredGatesPassed c =
     (let required = filter gr_required (cv_gates c)
      in if required = [] then True else all_passed required)"

definition acceptanceFraction :: "candidate_evidence \<Rightarrow> rat" where
  "acceptanceFraction c =
     (if 0 < cv_acceptanceTotal c
      then of_nat (length (cv_acceptanceCovered c)) / of_int (cv_acceptanceTotal c) else 0)"

definition percent :: "rat \<Rightarrow> string" where
  "percent x = to_fixed 0 (x * 100) @ ''%''"

definition acceptanceLabel :: "candidate_evidence \<Rightarrow> string" where
  "acceptanceLabel c =
     (if 0 < cv_acceptanceTotal c then percent (acceptanceFraction c) else ''n/a'')"

definition openBlockerCount :: "candidate_evidence \<Rightarrow> nat" where
  "openBlockerCount c = length (filter isBlocking (cv_findings c))"

definition effectiveTestFraction :: "candidate_evidence \<Rightarrow> rat" where
  "effectiveTestFraction c =
     (if 0 < cv_testsTotal c then of_int (cv_testsPassed c) / of_int (cv_testsTotal c) else 0)"

definition testEvidenceLabel :: "candidate_evidence \<Rightarrow> string" where
  "testEvidenceLabel c =
     (case configuredTestCounts c of
        (passed, n) \<Rightarrow>
          if n = 0 then ''n/a'' else percent (of_int passed / of_int n))"

definition rawTestAxisLabel :: "candidate_evidence \<Rightarrow> string" where
  "rawTestAxisLabel c =
     (if cv_testsTotal c = 0 then ''n/a'' else percent (effectiveTestFraction c))"

definition requiredGateLabel :: "candidate_evidence \<Rightarrow> string" where
  "requiredGateLabel c =
     (let required = filter gr_required (configuredGates c)
      in if required = [] then ''required gates n/a (none configured)''
         else if all_passed required then ''required gates passed'' else ''required gates FAILED'')"

section \<open>The axes\<close>

record ranking_axis =
  ra_key :: string
  ra_value :: "candidate_evidence \<Rightarrow> rat"
  ra_format :: "candidate_evidence \<Rightarrow> string"

definition flag_value :: "bool \<Rightarrow> rat" where
  "flag_value b = (if b then 1 else 0)"

definition required_gates_format :: "candidate_evidence \<Rightarrow> string" where
  "required_gates_format c =
     (if requiredGatesPassed c then requiredGateLabel c
      else if \<exists>g \<in> set (configuredGates c). gr_required g then ''required gates FAILED''
      else ''required gates FAILED (harness errored; none configured)'')"

definition axes :: "(rat \<Rightarrow> string) \<Rightarrow> ranking_axis list" where
  "axes num =
     [\<lparr>ra_key = ''required_gates'', ra_value = \<lambda>c. flag_value (requiredGatesPassed c),
       ra_format = required_gates_format\<rparr>,
      \<lparr>ra_key = ''acceptance_coverage'', ra_value = acceptanceFraction, ra_format = acceptanceLabel\<rparr>,
      \<lparr>ra_key = ''blockers'', ra_value = \<lambda>c. - of_nat (openBlockerCount c),
       ra_format = \<lambda>c. show_nat (openBlockerCount c)\<rparr>,
      \<lparr>ra_key = ''tests'', ra_value = effectiveTestFraction, ra_format = rawTestAxisLabel\<rparr>,
      \<lparr>ra_key = ''clean_review'', ra_value = \<lambda>c. flag_value (cv_finalReviewClean c),
       ra_format = \<lambda>c. show_bool (cv_finalReviewClean c)\<rparr>,
      \<lparr>ra_key = ''tool_warnings'', ra_value = \<lambda>c. - of_int (nullish (cv_toolWarningsCount c) 0),
       ra_format = \<lambda>c. show_int (nullish (cv_toolWarningsCount c) 0)\<rparr>,
      \<lparr>ra_key = ''diff_size'', ra_value = \<lambda>c. - of_int (nullish (cv_diffSize c) 0),
       ra_format = \<lambda>c. show_int (nullish (cv_diffSize c) 0)\<rparr>,
      \<lparr>ra_key = ''cost'', ra_value = \<lambda>c. - nullish (cv_costUsd c) 0,
       ra_format = \<lambda>c. case cv_costUsd c of None \<Rightarrow> ''unknown'' | Some x \<Rightarrow> num x\<rparr>]"

definition scoreAxisKeys :: "string list" where
  "scoreAxisKeys = map ra_key (axes (\<lambda>_. ''''))"

text \<open>The values of the axes do not depend on how a number prints.\<close>

definition scoreTuple :: "candidate_evidence \<Rightarrow> rat list" where
  "scoreTuple c = map (\<lambda>x. ra_value x c) (axes (\<lambda>_. ''''))"

fun decisive_in :: "ranking_axis list \<Rightarrow> candidate_evidence \<Rightarrow> candidate_evidence \<Rightarrow> decisive_axis option" where
  "decisive_in [] w r = None"
| "decisive_in (x # xs) w r =
     (if ra_value x w \<noteq> ra_value x r
      then Some \<lparr>da_key = ra_key x, da_winner_value = ra_format x w, da_runner_up_value = ra_format x r\<rparr>
      else decisive_in xs w r)"

definition decisiveAxis ::
  "(rat \<Rightarrow> string) \<Rightarrow> candidate_evidence \<Rightarrow> candidate_evidence \<Rightarrow> decisive_axis option" where
  "decisiveAxis num w r = decisive_in (axes num) w r"

text \<open>Lexicographic comparison, best first; a missing component counts as zero.\<close>

fun compareTuples :: "rat list \<Rightarrow> rat list \<Rightarrow> int" where
  "compareTuples [] [] = 0"
| "compareTuples (x # xs) (y # ys) =
     (if x \<noteq> y then (if y < x then -1 else 1) else compareTuples xs ys)"
| "compareTuples (x # xs) [] = (if x \<noteq> 0 then (if 0 < x then -1 else 1) else compareTuples xs [])"
| "compareTuples [] (y # ys) = (if 0 \<noteq> y then (if y < 0 then -1 else 1) else compareTuples [] ys)"

definition compareCandidates :: "candidate_evidence \<Rightarrow> candidate_evidence \<Rightarrow> int" where
  "compareCandidates a b = compareTuples (scoreTuple a) (scoreTuple b)"

record candidate_summary =
  cs_gatesPassed :: bool
  cs_blockers :: nat
  cs_acceptance :: rat
  cs_testFraction :: rat
  cs_clean :: bool

definition candidateSummary :: "candidate_evidence \<Rightarrow> candidate_summary" where
  "candidateSummary c =
     \<lparr>cs_gatesPassed = requiredGatesPassed c, cs_blockers = openBlockerCount c,
      cs_acceptance = acceptanceFraction c, cs_testFraction = effectiveTestFraction c,
      cs_clean = cv_finalReviewClean c\<rparr>"

definition pairwise_axis ::
  "candidate_evidence \<Rightarrow> candidate_evidence \<Rightarrow> ranking_axis \<Rightarrow> axis_winner \<times> string" where
  "pairwise_axis a b x =
     ((if ra_value x a = ra_value x b then WinTie else if ra_value x b < ra_value x a then WinA else WinB),
      cv_label a @ '': '' @ ra_format x a @ '' vs '' @ cv_label b @ '': '' @ ra_format x b)"

definition pairwise ::
  "(rat \<Rightarrow> string) \<Rightarrow> candidate_evidence \<Rightarrow> candidate_evidence \<Rightarrow> pairwise_comparison" where
  "pairwise num a b =
     \<lparr>pc_candidate_a = cv_label a, pc_candidate_b = cv_label b,
      pc_criteria = map (\<lambda>x. (ra_key x, pairwise_axis a b x)) (axes num)\<rparr>"

fun all_pairs :: "(rat \<Rightarrow> string) \<Rightarrow> candidate_evidence list \<Rightarrow> pairwise_comparison list" where
  "all_pairs num [] = []"
| "all_pairs num (a # rest) = map (pairwise num a) rest @ all_pairs num rest"

section \<open>The verdict on the winner\<close>

record arbitration_opts =
  ao_reviewRequested :: "bool option"
  ao_spendUsd :: "rat option option"
  ao_estimatedSpend :: "bool option"
  ao_cashUsd :: "rat option option"
  ao_controllableCashUsd :: "rat option option"
  ao_valuationUsd :: "rat option option"
  ao_valuationKnowledge :: "cost_knowledge option"

definition hasDiff :: "candidate_evidence \<Rightarrow> bool" where
  "hasDiff w = (0 < nullish (or_else (cv_diffBytes w) (cv_diffSize w)) 0)"

definition harnessFailed :: "candidate_evidence \<Rightarrow> bool" where
  "harnessFailed w = (\<exists>g \<in> set (cv_gates w). gr_id g = ''harness'' \<and> gr_status g = GateFailed)"

definition checksConfigured :: "candidate_evidence \<Rightarrow> bool" where
  "checksConfigured w = (0 < snd (configuredTestCounts w) \<or> configuredGates w \<noteq> [])"

definition checksPassed :: "candidate_evidence \<Rightarrow> bool" where
  "checksPassed w =
     (let counts = configuredTestCounts w;
          cfgRequired = filter gr_required (configuredGates w);
          cfgRequiredOk = (if cfgRequired = [] then True else all_passed cfgRequired)
      in checksConfigured w \<and> cfgRequiredOk \<and> (snd counts = 0 \<or> fst counts = snd counts))"

definition checks_of :: "candidate_evidence \<Rightarrow> checks_state" where
  "checks_of w =
     (if checksConfigured w then (if checksPassed w then ChecksPassed else ChecksFailed)
      else ChecksNotConfigured)"

definition reviewRan :: "candidate_evidence \<Rightarrow> bool" where
  "reviewRan w = (cv_reviewVerified w = Some True)"

definition review_of :: "candidate_evidence \<Rightarrow> review_state" where
  "review_of w =
     (if 0 < openBlockerCount w then ReviewBlocked
      else if reviewRan w then (if cv_finalReviewClean w then ReviewApproved else ReviewBlocked)
      else ReviewNotRun)"

definition lifecycle_of :: "candidate_evidence \<Rightarrow> lifecycle" where
  "lifecycle_of w = (if harnessFailed w then LifeFailed else LifeSucceeded)"

definition workVeto :: "candidate_evidence \<Rightarrow> bool" where
  "workVeto w =
     (lifecycle_of w = LifeSucceeded \<and>
      (case cv_workState w of
         None \<Rightarrow> False
       | Some s \<Rightarrow> ws_state s = WorkNeedsInput \<or> ws_state s = WorkIncomplete))"

definition reason_of :: "candidate_evidence \<Rightarrow> run_reason option" where
  "reason_of w =
     (if harnessFailed w then Some HarnessFailed
      else if review_of w = ReviewBlocked then Some ReviewBlockedReason
      else if checks_of w = ChecksFailed then Some ChecksFailedReason
      else if workVeto w
        then (if map_option ws_state (cv_workState w) = Some WorkNeedsInput then Some InputRequired
              else Some WorkIncompleteReason)
      else if \<not> hasDiff w then Some NoChanges
      else None)"

definition facts_of :: "arbitration_opts \<Rightarrow> candidate_evidence \<Rightarrow> run_outcome_facts" where
  "facts_of opts w =
     \<lparr>of_lifecycle = lifecycle_of w, of_noChanges = Some (\<not> hasDiff w), of_checks = checks_of w,
      of_review = review_of w, of_review_requested = ao_reviewRequested opts,
      of_reason = reason_of w, of_work_state = cv_workState w\<rparr>"

definition gateVerified :: "candidate_evidence \<Rightarrow> bool" where
  "gateVerified w =
     ((0 < cv_testsTotal w \<and> cv_testsPassed w = cv_testsTotal w) \<or>
      (\<exists>g \<in> set (configuredGates w). gr_required g \<and> gr_status g = GatePassed))"

definition applyable :: "arbitration_opts \<Rightarrow> candidate_evidence \<Rightarrow> bool" where
  "applyable opts w =
     (lifecycle_of w = LifeSucceeded \<and> reviewAllowsApply (review_of w) (ao_reviewRequested opts) \<and>
      checks_of w \<noteq> ChecksFailed \<and> \<not> workVeto w)"

definition verificationBasis :: "arbitration_opts \<Rightarrow> candidate_evidence \<Rightarrow> verification_basis" where
  "verificationBasis opts w =
     (if \<not> applyable opts w then BasisNone
      else if review_of w = ReviewApproved then (if gateVerified w then BasisBoth else BasisReview)
      else if gateVerified w then BasisChecks else BasisNone)"

definition applyRecommendation :: "arbitration_opts \<Rightarrow> candidate_evidence \<Rightarrow> apply_recommendation" where
  "applyRecommendation opts w =
     (let noChanges = \<not> hasDiff w; review = review_of w; checks = checks_of w
      in if applyable opts w then (if noChanges then RecInspect else RecApply)
         else if noChanges \<and> review \<noteq> ReviewBlocked \<and> checks \<noteq> ChecksFailed then RecInspect
         else if review = ReviewBlocked \<or> checks = ChecksFailed \<or> review = ReviewNotRun
           then RecHumanReview
         else RecContinue)"

section \<open>The explanations\<close>

definition loss_reasons :: "candidate_evidence \<Rightarrow> candidate_evidence \<Rightarrow> string list" where
  "loss_reasons w c =
     (if \<not> requiredGatesPassed c then [''required gates not all passing''] else []) @
     (if 0 < openBlockerCount c then [show_nat (openBlockerCount c) @ '' open blocker(s)''] else []) @
     (if acceptanceFraction c < acceptanceFraction w
      then [''lower gates-derived criteria coverage''] else []) @
     (if effectiveTestFraction c < effectiveTestFraction w then [''weaker test evidence''] else []) @
     (if \<not> cv_finalReviewClean c then [''no clean final review''] else [])"

definition why_lost :: "(rat \<Rightarrow> string) \<Rightarrow> candidate_evidence \<Rightarrow> candidate_evidence \<Rightarrow> string" where
  "why_lost num w c =
     (let reasons = loss_reasons w c
      in if reasons = []
         then (case decisiveAxis num w c of
                 Some d \<Rightarrow> ''lost on '' @ da_key d @ '': '' @ da_runner_up_value d @ '' vs winner '' @
                   da_winner_value d
               | None \<Rightarrow> ''exact tie on every ranking axis; winner chosen by route order'')
         else join ''; '' reasons)"

fun why_not_others :: "(rat \<Rightarrow> string) \<Rightarrow> candidate_evidence \<Rightarrow> candidate_evidence list \<Rightarrow>
    (string, string) jsmap \<Rightarrow> (string, string) jsmap" where
  "why_not_others num w [] m = m"
| "why_not_others num w (c # cs) m = why_not_others num w cs (jset (cv_label c) (why_lost num w c) m)"

definition scorecard_of :: "(rat \<Rightarrow> string) \<Rightarrow> candidate_evidence \<Rightarrow> scorecard_row" where
  "scorecard_of num c =
     \<lparr>sr_attempt_id = cv_attemptId c, sr_label = cv_label c,
      sr_axes = map (\<lambda>x. (ra_key x, ra_format x c)) (axes num)\<rparr>"

definition why_winner ::
  "candidate_evidence \<Rightarrow> decisive_axis option \<Rightarrow> bool \<Rightarrow> string" where
  "why_winner w decisive hasRunnerUp =
     cv_label w @ '': gates='' @ requiredGateLabel w @ '', gates_coverage='' @ acceptanceLabel w @
     '', blockers='' @ show_nat (openBlockerCount w) @ '', tests='' @ testEvidenceLabel w @
     '', cleanReview='' @ show_bool (cv_finalReviewClean w) @
     (case decisive of
        Some d \<Rightarrow> ''; decisive_axis='' @ da_key d @ '' ('' @ da_winner_value d @ '' vs '' @
          da_runner_up_value d @ '')''
      | None \<Rightarrow> if hasRunnerUp then ''; exact tie on every ranking axis, winner chosen by route order''
                else [])"

fun checks_name :: "checks_state \<Rightarrow> string" where
  "checks_name ChecksPassed = ''passed''"
| "checks_name ChecksFailed = ''failed''"
| "checks_name ChecksNotConfigured = ''not_configured''"

fun review_name :: "review_state \<Rightarrow> string" where
  "review_name ReviewApproved = ''approved''"
| "review_name ReviewBlocked = ''blocked''"
| "review_name ReviewNotRun = ''not_run''"

definition final_checks ::
  "arbitration_opts \<Rightarrow> candidate_evidence \<Rightarrow> candidate_evidence option \<Rightarrow> string list" where
  "final_checks opts w runnerUp =
     [requiredGateLabel w,
      if ao_reviewRequested opts = Some False then ''model review not requested''
      else ''final cross-family review '' @ (if cv_finalReviewClean w then ''clean'' else ''not clean'')] @
     (case runnerUp of
        None \<Rightarrow> []
      | Some r \<Rightarrow>
          if compareTuples (scoreTuple w) (scoreTuple r) = 0
          then [''tie: winner chosen by route order (no distinguishing evidence vs '' @ cv_label r @ '')'']
          else [])"

definition evidence_facts :: "candidate_evidence \<Rightarrow> string list" where
  "evidence_facts w =
     [''diff '' @ (if hasDiff w then ''non-empty'' else ''empty''),
      ''checks '' @ checks_name (checks_of w),
      ''review '' @ review_name (review_of w) @ (if reviewRan w then '' (verified)'' else []),
      ''blockers '' @ show_nat (openBlockerCount w)]"

definition budget_summary_of :: "arbitration_opts \<Rightarrow> candidate_evidence \<Rightarrow> budget_summary" where
  "budget_summary_of opts w =
     \<lparr>bu_spend_usd = (case ao_spendUsd opts of Some s \<Rightarrow> s | None \<Rightarrow> cv_costUsd w),
      bu_estimated = nullish (ao_estimatedSpend opts) False,
      bu_cash_usd = flat (ao_cashUsd opts),
      bu_controllable_cash_usd = ao_controllableCashUsd opts,
      bu_valuation_usd = flat (ao_valuationUsd opts),
      bu_valuation_knowledge = ao_valuationKnowledge opts\<rparr>"

section \<open>Arbitration\<close>

record arbitration_result =
  ar_ranking :: "candidate_evidence list"
  ar_decision :: decision_record
  ar_pairwise :: "pairwise_comparison list"

definition no_candidates_decision :: "arbitration_opts \<Rightarrow> decision_record" where
  "no_candidates_decision opts =
     \<lparr>dr_winner = None,
      dr_facts = \<lparr>of_lifecycle = LifeFailed, of_noChanges = Some True, of_checks = ChecksNotConfigured,
        of_review = ReviewNotRun, of_review_requested = ao_reviewRequested opts,
        of_reason = Some HarnessFailed, of_work_state = None\<rparr>,
      dr_why_winner = ''no candidates'', dr_why_not_others = [], dr_ranking_policy_version = 1,
      dr_score_axes = [], dr_ranking_scorecard = [], dr_decisive_axis = None, dr_accepted_risks = [],
      dr_final_checks = [], dr_evidence_facts = [''no candidates were produced''],
      dr_budget_summary = \<lparr>bu_spend_usd = None, bu_estimated = False, bu_cash_usd = None,
        bu_controllable_cash_usd = None, bu_valuation_usd = None, bu_valuation_knowledge = None\<rparr>,
      dr_apply_recommendation = RecContinue, dr_verification_basis = BasisNone,
      dr_final_verify = None\<rparr>"

definition winner_decision ::
  "(rat \<Rightarrow> string) \<Rightarrow> arbitration_opts \<Rightarrow> candidate_evidence \<Rightarrow> candidate_evidence list \<Rightarrow> decision_record" where
  "winner_decision num opts w others =
     (let runnerUp = (case others of [] \<Rightarrow> None | r # _ \<Rightarrow> Some r);
          decisive = Option.bind runnerUp (decisiveAxis num w)
      in \<lparr>dr_winner = Some (cv_attemptId w), dr_facts = facts_of opts w,
          dr_why_winner = why_winner w decisive (runnerUp \<noteq> None),
          dr_why_not_others = why_not_others num w others [], dr_ranking_policy_version = 1,
          dr_score_axes = scoreAxisKeys, dr_ranking_scorecard = map (scorecard_of num) (w # others),
          dr_decisive_axis = decisive,
          dr_accepted_risks = map rf_claim (filter (\<lambda>f. rf_status f = FsAcceptedRisk) (cv_findings w)),
          dr_final_checks = final_checks opts w runnerUp, dr_evidence_facts = evidence_facts w,
          dr_budget_summary = budget_summary_of opts w,
          dr_apply_recommendation = applyRecommendation opts w,
          dr_verification_basis = verificationBasis opts w, dr_final_verify = None\<rparr>)"

text \<open>\<open>None\<close>: the decision fails its own schema and the parse raises.\<close>

definition arbitrate ::
  "(rat \<Rightarrow> string) \<Rightarrow> candidate_evidence list \<Rightarrow> arbitration_opts \<Rightarrow> arbitration_result option" where
  "arbitrate num candidates opts =
     (case js_sort compareCandidates candidates of
        [] \<Rightarrow> map_option (\<lambda>d. \<lparr>ar_ranking = [], ar_decision = d, ar_pairwise = []\<rparr>)
               (parse_decision (no_candidates_decision opts))
      | w # others \<Rightarrow>
          map_option (\<lambda>d. \<lparr>ar_ranking = w # others, ar_decision = d,
                           ar_pairwise = all_pairs num (w # others)\<rparr>)
            (parse_decision (winner_decision num opts w others)))"

end
