(* ===== verification/Candidate_Evidence.thy ===== *)
theory Candidate_Evidence
  imports Arbitration
begin

text \<open>
  Where the evidence of a candidate comes from: \<open>toCandidateEvidence\<close> of
  \<open>packages/orchestrator/src/candidateEvidence.ts\<close> and the gate verdict
  \<open>gatesPassed\<close> of \<open>packages/review/src/gates.ts\<close>. The parts of a run it does not
  read are left out; \<open>cr_patchViewUnavailable\<close> is present when the patch view could not be
  rendered and then holds its estimated size, if one is known; \<open>entries\<close> holds the size of a file after the change, \<open>None\<close>
  when the entry is no file.
\<close>

definition gatesPassed :: "gate_result list \<Rightarrow> bool" where
  "gatesPassed gates = list_all (\<lambda>g. gr_status g = GatePassed) (filter gr_required gates)"

record captured_files =
  cf_changedPaths :: "string list"
  cf_entries :: "(string \<times> int option) list"

record candidate_run =
  cr_attemptId :: string
  cr_label :: string
  cr_gates :: "gate_result list"
  cr_errored :: bool
  cr_outcomeToolWarnings :: "int option"
  cr_toolWarnings :: int
  cr_files :: "captured_files option"
  cr_patchViewUnavailable :: "int option option"
  cr_inventoryChangedFiles :: "int option"
  cr_diff :: string
  cr_cost :: rat
  cr_workState :: "work_state option"

definition harness_gate :: gate_result where
  "harness_gate = \<lparr>gr_id = ''harness'', gr_command = ''harness'', gr_exit_code = Some 1,
     gr_status = GateFailed, gr_duration_ms = 0, gr_required = True, gr_stdout_tail = None,
     gr_stderr_tail = None, gr_output_truncated = False\<rparr>"

text \<open>\<open>diff.split("\n").length\<close>: one more than the number of line feeds.\<close>

definition line_feed :: char where
  "line_feed = char_of (10 :: nat)"

definition split_lines :: "string \<Rightarrow> nat" where
  "split_lines s = length (filter (\<lambda>c. c = line_feed) s) + 1"

definition diff_size_of :: "candidate_run \<Rightarrow> int" where
  "diff_size_of run =
     (case cr_files run of
        Some f \<Rightarrow> int (length (cf_changedPaths f))
      | None \<Rightarrow>
          if cr_patchViewUnavailable run \<noteq> None then nullish (cr_inventoryChangedFiles run) 1
          else int (split_lines (cr_diff run)))"

definition diff_bytes_of :: "candidate_run \<Rightarrow> int" where
  "diff_bytes_of run =
     (case cr_files run of
        Some f \<Rightarrow>
          sum_list (map (\<lambda>(p, size). case size of Some n \<Rightarrow> max 1 n | None \<Rightarrow> 1)
            (filter (\<lambda>(p, size). p \<in> set (cf_changedPaths f)) (cf_entries f)))
      | None \<Rightarrow> nullish (flat (cr_patchViewUnavailable run)) (int (length (cr_diff run))))"

definition toCandidateEvidence ::
  "candidate_run \<Rightarrow> review_finding list \<Rightarrow> bool \<Rightarrow> bool \<Rightarrow> candidate_evidence" where
  "toCandidateEvidence run findings finalReviewClean reviewVerified =
     \<lparr>cv_attemptId = cr_attemptId run, cv_label = cr_label run,
      cv_gates = (if cr_errored run then cr_gates run @ [harness_gate] else cr_gates run),
      cv_acceptanceCovered = [], cv_acceptanceTotal = 0, cv_findings = findings,
      cv_testsPassed = int (length (filter (\<lambda>g. gr_status g = GatePassed) (cr_gates run))),
      cv_testsTotal = int (length (cr_gates run)),
      cv_finalReviewClean = finalReviewClean, cv_reviewVerified = Some reviewVerified,
      cv_toolWarningsCount = Some (nullish (cr_outcomeToolWarnings run) (cr_toolWarnings run)),
      cv_diffSize = Some (diff_size_of run), cv_diffBytes = Some (diff_bytes_of run),
      cv_costUsd = Some (cr_cost run), cv_workState = cr_workState run\<rparr>"

end
