(* ===== verification/Arbitration_Props.thy ===== *)
theory Arbitration_Props
  imports Candidate_Evidence
begin

text \<open>
  The properties of arbitration: the ranking is determined by the axes, what the record says
  about the ranking agrees with it, and a recommendation to apply has the evidence it claims.
\<close>

section \<open>The comparison is a total preorder\<close>

lemma length_scoreTuple [simp]: "length (scoreTuple c) = 8"
  by (simp add: scoreTuple_def axes_def)

lemma compareTuples_flip: "length xs = length ys \<Longrightarrow> compareTuples ys xs = - compareTuples xs ys"
  by (induction xs ys rule: list_induct2) auto

lemma compareTuples_trans:
  "length xs = length ys \<Longrightarrow> length ys = length zs \<Longrightarrow>
     compareTuples xs ys \<le> 0 \<Longrightarrow> compareTuples ys zs \<le> 0 \<Longrightarrow> compareTuples xs zs \<le> 0"
  by (induction xs ys zs rule: list_induct3) (auto split: if_splits)

lemma compareTuples_self [simp]: "compareTuples xs xs = 0"
  by (induction xs) simp_all

lemma compareTuples_zero: "length xs = length ys \<Longrightarrow> compareTuples xs ys = 0 \<longleftrightarrow> xs = ys"
  by (induction xs ys rule: list_induct2) auto

interpretation score_order: comparator compareCandidates
proof
  fix x y z
  show "sgn (compareCandidates y x) = - sgn (compareCandidates x y)"
    using compareTuples_flip [of "scoreTuple x" "scoreTuple y"] by (simp add: compareCandidates_def)
  show "compareCandidates x y \<le> 0 \<Longrightarrow> compareCandidates y z \<le> 0 \<Longrightarrow> compareCandidates x z \<le> 0"
    unfolding compareCandidates_def by (rule compareTuples_trans) simp_all
qed

lemma tie_same_tuple: "compareCandidates a b = 0 \<longleftrightarrow> scoreTuple a = scoreTuple b"
  by (simp add: compareCandidates_def compareTuples_zero)

section \<open>The axes explain the comparison\<close>

text \<open>The score of a candidate does not depend on how a cost prints.\<close>

lemma scoreTuple_axes: "scoreTuple c = map (\<lambda>x. ra_value x c) (axes num)"
  by (simp add: scoreTuple_def axes_def)

lemma scoreAxisKeys_axes: "map ra_key (axes num) = scoreAxisKeys"
  by (simp add: scoreAxisKeys_def axes_def)

lemma decisive_in_None:
  "decisive_in xs w r = None \<longleftrightarrow>
     compareTuples (map (\<lambda>x. ra_value x w) xs) (map (\<lambda>x. ra_value x r) xs) = 0"
  by (induction xs) auto

lemma decisive_in_Some:
  "decisive_in xs w r = Some d \<Longrightarrow>
     compareTuples (map (\<lambda>x. ra_value x w) xs) (map (\<lambda>x. ra_value x r) xs) \<le> 0 \<Longrightarrow>
     \<exists>before x after. xs = before @ x # after \<and> (\<forall>y \<in> set before. ra_value y w = ra_value y r) \<and>
       ra_value x r < ra_value x w \<and> da_key d = ra_key x \<and>
       da_winner_value d = ra_format x w \<and> da_runner_up_value d = ra_format x r"
proof (induction xs)
  case (Cons x xs)
  show ?case
  proof (cases "ra_value x w = ra_value x r")
    case True
    then obtain before y after where "xs = before @ y # after" "\<forall>z \<in> set before. ra_value z w = ra_value z r"
      "ra_value y r < ra_value y w" "da_key d = ra_key y" "da_winner_value d = ra_format y w"
      "da_runner_up_value d = ra_format y r"
      using Cons by auto
    then show ?thesis using True by (intro exI [of _ "x # before"] exI [of _ y] exI [of _ after]) simp
  next
    case False
    then have "ra_value x r < ra_value x w" using Cons.prems(2) by (auto split: if_splits)
    then show ?thesis
      using False Cons.prems(1) by (intro exI [of _ "[]"] exI [of _ x] exI [of _ xs]) auto
  qed
qed simp

lemma decisiveAxis_None: "decisiveAxis num w r = None \<longleftrightarrow> compareCandidates w r = 0"
  by (simp add: decisiveAxis_def decisive_in_None compareCandidates_def scoreTuple_axes [of _ num])

lemma arbitrate_shape:
  "arbitrate num cs opts = Some res \<Longrightarrow> cs \<noteq> [] \<Longrightarrow>
     \<exists>w others. js_sort compareCandidates cs = w # others \<and> ar_ranking res = w # others \<and>
       ar_decision res = winner_decision num opts w others \<and> ar_pairwise res = all_pairs num (w # others)"
  by (cases "js_sort compareCandidates cs") (auto simp: arbitrate_def parse_decision_def split: if_splits)

section \<open>Example candidates\<close>

definition ex_gate :: "string \<Rightarrow> gate_status \<Rightarrow> bool \<Rightarrow> gate_result" where
  "ex_gate i s req = \<lparr>gr_id = i, gr_command = i, gr_exit_code = None, gr_status = s,
     gr_duration_ms = 1, gr_required = req, gr_stdout_tail = None, gr_stderr_tail = None,
     gr_output_truncated = False\<rparr>"

definition ex_run :: "string \<Rightarrow> gate_result list \<Rightarrow> bool \<Rightarrow> rat \<Rightarrow> candidate_run" where
  "ex_run i gs err cost = \<lparr>cr_attemptId = i, cr_label = i, cr_gates = gs, cr_errored = err,
     cr_outcomeToolWarnings = None, cr_toolWarnings = 0, cr_files = None,
     cr_patchViewUnavailable = None, cr_inventoryChangedFiles = None, cr_diff = ''x'',
     cr_cost = cost, cr_workState = None\<rparr>"

definition ex_candidate :: "string \<Rightarrow> rat \<Rightarrow> candidate_evidence" where
  "ex_candidate i cost = toCandidateEvidence (ex_run i [ex_gate ''test'' GatePassed True] False cost) [] True True"

definition ex_opts :: arbitration_opts where
  "ex_opts = \<lparr>ao_reviewRequested = None, ao_spendUsd = None, ao_estimatedSpend = None,
     ao_cashUsd = None, ao_controllableCashUsd = None, ao_valuationUsd = None,
     ao_valuationKnowledge = None\<rparr>"

definition ex_pair :: "candidate_evidence list" where
  "ex_pair = [ex_candidate ''a'' 3, ex_candidate ''b'' 1]"

lemmas ex_evidence_defs = ex_gate_def ex_run_def ex_candidate_def ex_opts_def toCandidateEvidence_def
  harness_gate_def

lemma ex_ranking: "js_sort compareCandidates ex_pair = [ex_candidate ''b'' 1, ex_candidate ''a'' 3]"
  by (simp add: ex_pair_def compareCandidates_def scoreTuple_def axes_def ex_evidence_defs
      requiredGatesPassed_def all_passed_def acceptanceFraction_def openBlockerCount_def
      effectiveTestFraction_def flag_value_def diff_size_of_def split_lines_def line_feed_def Let_def)

lemma ex_valid: "valid_decision (winner_decision num ex_opts (ex_candidate ''b'' 1) [ex_candidate ''a'' 3])"
  by (simp add: valid_decision_def winner_decision_def valid_id_def facts_of_def scorecard_of_def
      ex_evidence_defs Let_def)

lemma ex_arbitrate: "\<exists>res. arbitrate num ex_pair ex_opts = Some res \<and>
    ar_ranking res = [ex_candidate ''b'' 1, ex_candidate ''a'' 3]"
  by (simp add: arbitrate_def ex_ranking parse_decision_def ex_valid)

section \<open>The ranking\<close>

text \<open>C20: The ranking is the candidates sorted by their score tuples, best first: nothing is added or lost,
  candidates with equal tuples keep their input order, the winner is the first one, and the scorecard
  lists exactly the ranked candidates in that order with every axis.\<close>

theorem arbitration_ranking:
  assumes "arbitrate num cs opts = Some res"
  shows "sorted_wrt (\<lambda>a b. compareCandidates a b \<le> 0) (ar_ranking res) \<and>
    mset (ar_ranking res) = mset cs \<and>
    (\<forall>k. filter (\<lambda>c. scoreTuple c = k) (ar_ranking res) = filter (\<lambda>c. scoreTuple c = k) cs) \<and>
    dr_winner (ar_decision res) = (case ar_ranking res of [] \<Rightarrow> None | w # _ \<Rightarrow> Some (cv_attemptId w)) \<and>
    map sr_attempt_id (dr_ranking_scorecard (ar_decision res)) = map cv_attemptId (ar_ranking res) \<and>
    (\<forall>row \<in> set (dr_ranking_scorecard (ar_decision res)). map fst (sr_axes row) = scoreAxisKeys)"
proof -
  have r: "ar_ranking res = js_sort compareCandidates cs"
    using assms by (auto simp: arbitrate_def split: list.splits)
  have k: "filter (\<lambda>c. scoreTuple c = k) (ar_ranking res) = filter (\<lambda>c. scoreTuple c = k) cs" for k
  proof (cases "\<exists>c \<in> set cs. scoreTuple c = k")
    case True
    then obtain c where "scoreTuple c = k" by blast
    then have "(\<lambda>y. scoreTuple y = k) = (\<lambda>y. compareCandidates c y = 0)"
      by (auto simp: tie_same_tuple)
    then show ?thesis using score_order.stable [of c cs] by (simp add: r)
  next
    case False
    then have "filter (\<lambda>c. scoreTuple c = k) xs = []" if "set xs = set cs" for xs
      using that by (auto simp: filter_empty_conv)
    then show ?thesis by (simp add: r)
  qed
  have d: "dr_winner (ar_decision res) = (case ar_ranking res of [] \<Rightarrow> None | w # _ \<Rightarrow> Some (cv_attemptId w)) \<and>
      dr_ranking_scorecard (ar_decision res) = map (scorecard_of num) (ar_ranking res)"
    using assms by (auto simp: arbitrate_def parse_decision_def no_candidates_decision_def
        winner_decision_def Let_def split: list.splits if_splits)
  show ?thesis
    using r k d score_order.sorted_js_sort [of cs]
    by (auto simp: scorecard_of_def scoreAxisKeys_axes [of num, symmetric])
qed

theorem arbitration_ranking_witness:
  "\<exists>res. arbitrate (\<lambda>_. ''1'') ex_pair ex_opts = Some res \<and> mset (ar_ranking res) = mset ex_pair \<and>
     dr_winner (ar_decision res) = Some ''b''"
proof -
  obtain res where res: "arbitrate (\<lambda>_. ''1'') ex_pair ex_opts = Some res"
    "ar_ranking res = [ex_candidate ''b'' 1, ex_candidate ''a'' 3]"
    using ex_arbitrate by blast
  show ?thesis using arbitration_ranking [OF res(1)] res by (auto simp: ex_evidence_defs)
qed

text \<open>The record names the axis that decided: with a runner-up it is empty exactly when the two scores are
  equal, and then the tie is disclosed among the final checks; otherwise it is the first axis on which
  they differ, the winner is better there, and the two values shown are those candidates' values.\<close>

theorem decisive_axis_is_first_difference:
  assumes "arbitrate num cs opts = Some res" and "ar_ranking res = w # r # rest"
  shows "(dr_decisive_axis (ar_decision res) = None \<longleftrightarrow> scoreTuple w = scoreTuple r) \<and>
    (length (dr_final_checks (ar_decision res)) = 3 \<longleftrightarrow> scoreTuple w = scoreTuple r) \<and>
    (\<forall>d. dr_decisive_axis (ar_decision res) = Some d \<longrightarrow>
      (\<exists>before x after. axes num = before @ x # after \<and>
         (\<forall>y \<in> set before. ra_value y w = ra_value y r) \<and> ra_value x r < ra_value x w \<and>
         da_key d = ra_key x \<and> da_winner_value d = ra_format x w \<and> da_runner_up_value d = ra_format x r))"
proof -
  have "cs \<noteq> []" using assms by (auto simp: arbitrate_def split: if_splits)
  then have s: "js_sort compareCandidates cs = w # r # rest"
    and d: "ar_decision res = winner_decision num opts w (r # rest)"
    using arbitrate_shape [OF assms(1)] assms(2) by auto
  have le: "compareCandidates w r \<le> 0" using score_order.sorted_js_sort [of cs] s by simp
  have da: "dr_decisive_axis (ar_decision res) = decisiveAxis num w r"
    by (simp add: d winner_decision_def Let_def)
  have fc: "length (dr_final_checks (ar_decision res)) = 3 \<longleftrightarrow> compareCandidates w r = 0"
    by (simp add: d winner_decision_def Let_def final_checks_def compareCandidates_def)
  have "\<exists>before x after. axes num = before @ x # after \<and>
      (\<forall>y \<in> set before. ra_value y w = ra_value y r) \<and> ra_value x r < ra_value x w \<and>
      da_key d = ra_key x \<and> da_winner_value d = ra_format x w \<and> da_runner_up_value d = ra_format x r"
    if "decisiveAxis num w r = Some d" for d
    using decisive_in_Some [of "axes num" w r d] that le
    by (simp add: decisiveAxis_def compareCandidates_def scoreTuple_axes [of _ num])
  then show ?thesis using decisiveAxis_None [of num w r] tie_same_tuple [of w r] da fc by simp
qed

theorem decisive_axis_is_first_difference_witness:
  "\<exists>res d. arbitrate (\<lambda>_. ''1'') ex_pair ex_opts = Some res \<and> dr_decisive_axis (ar_decision res) = Some d \<and>
     length (dr_final_checks (ar_decision res)) \<noteq> 3"
proof -
  obtain res where res: "arbitrate (\<lambda>_. ''1'') ex_pair ex_opts = Some res"
    "ar_ranking res = [ex_candidate ''b'' 1, ex_candidate ''a'' 3]"
    using ex_arbitrate by blast
  have "scoreTuple (ex_candidate ''b'' 1) \<noteq> scoreTuple (ex_candidate ''a'' 3)"
    by (simp add: scoreTuple_def axes_def ex_evidence_defs)
  then show ?thesis using decisive_axis_is_first_difference [OF res] res by auto
qed

section \<open>The pairwise record\<close>

fun first_decided :: "(string \<times> (axis_winner \<times> string)) list \<Rightarrow> axis_winner option" where
  "first_decided [] = None"
| "first_decided ((k, w, why) # rest) = (if w = WinTie then first_decided rest else Some w)"

lemma first_decided_compare:
  "first_decided (map (\<lambda>x. (ra_key x, pairwise_axis a b x)) xs) =
     (let n = compareTuples (map (\<lambda>x. ra_value x a) xs) (map (\<lambda>x. ra_value x b) xs)
      in if n = 0 then None else if n < 0 then Some WinA else Some WinB)"
  by (induction xs) (auto simp: pairwise_axis_def Let_def)

lemma all_pairs_member:
  "i < j \<Longrightarrow> j < length xs \<Longrightarrow> pairwise num (xs ! i) (xs ! j) \<in> set (all_pairs num xs)"
proof (induction xs arbitrary: i j)
  case (Cons x xs)
  obtain j' where j: "j = Suc j'" "j' < length xs" using Cons.prems by (cases j) auto
  show ?case
  proof (cases i)
    case 0
    then show ?thesis using j by simp
  next
    case (Suc i')
    then show ?thesis using Cons.IH [of i' j'] Cons.prems j by simp
  qed
qed simp

lemma length_all_pairs: "2 * length (all_pairs num xs) = length xs * (length xs - 1)"
proof (induction xs)
  case (Cons x xs)
  then show ?case by (cases xs) (simp_all add: algebra_simps)
qed simp

text \<open>The pairwise record agrees with the ranking: it holds one comparison for every pair, each lists all
  the axes in their order, and where the comparison of a higher-ranked candidate with a lower one is
  decided, its first decided axis names the higher-ranked one; no axis is decided exactly on a tie.\<close>

theorem pairwise_agrees_with_ranking:
  assumes "arbitrate num cs opts = Some res" and "i < j" and "j < length (ar_ranking res)"
    and "p = pairwise num (ar_ranking res ! i) (ar_ranking res ! j)"
  shows "p \<in> set (ar_pairwise res) \<and>
    2 * length (ar_pairwise res) = length (ar_ranking res) * (length (ar_ranking res) - 1) \<and>
    map fst (pc_criteria p) = scoreAxisKeys \<and>
    first_decided (pc_criteria p) =
      (if scoreTuple (ar_ranking res ! i) = scoreTuple (ar_ranking res ! j) then None else Some WinA)"
proof -
  have "cs \<noteq> []" using assms(1,3) by (auto simp: arbitrate_def split: if_splits)
  then have s: "js_sort compareCandidates cs = ar_ranking res"
    and pw: "ar_pairwise res = all_pairs num (ar_ranking res)"
    using arbitrate_shape [OF assms(1)] by auto
  have le: "compareCandidates (ar_ranking res ! i) (ar_ranking res ! j) \<le> 0"
    using score_order.sorted_js_sort [of cs] assms(2,3) unfolding s by (rule sorted_wrt_nth_less)
  have "first_decided (pc_criteria p) =
      (let n = compareCandidates (ar_ranking res ! i) (ar_ranking res ! j)
       in if n = 0 then None else if n < 0 then Some WinA else Some WinB)"
    by (simp add: assms(4) pairwise_def first_decided_compare compareCandidates_def scoreTuple_axes [of _ num])
  then have "first_decided (pc_criteria p) =
      (if scoreTuple (ar_ranking res ! i) = scoreTuple (ar_ranking res ! j) then None else Some WinA)"
    using le by (simp add: Let_def tie_same_tuple)
  then show ?thesis
    using all_pairs_member [OF assms(2,3)] length_all_pairs [of num "ar_ranking res"]
    by (simp add: assms(4) pw pairwise_def comp_def scoreAxisKeys_axes)
qed

theorem pairwise_agrees_with_ranking_witness:
  "\<exists>res. arbitrate (\<lambda>_. ''1'') ex_pair ex_opts = Some res \<and> length (ar_pairwise res) = 1"
proof -
  obtain res where res: "arbitrate (\<lambda>_. ''1'') ex_pair ex_opts = Some res"
    "ar_ranking res = [ex_candidate ''b'' 1, ex_candidate ''a'' 3]"
    using ex_arbitrate by blast
  show ?thesis using pairwise_agrees_with_ranking [OF res(1) _ _ refl, of 0 1] res by auto
qed

section \<open>The recommendation\<close>


lemma ex_pair_decision:
  "arbitrate num ex_pair ex_opts = Some res \<Longrightarrow>
     ar_decision res = winner_decision num ex_opts (ex_candidate ''b'' 1) [ex_candidate ''a'' 3]"
  by (simp add: arbitrate_def ex_ranking parse_decision_def ex_valid) (auto simp: ex_ranking)

lemmas verdict_defs = facts_of_def reason_of_def harnessFailed_def review_of_def checks_of_def
  checksConfigured_def checksPassed_def configuredTestCounts_def configuredGates_def all_passed_def
  workVeto_def lifecycle_of_def hasDiff_def reviewRan_def openBlockerCount_def gateVerified_def


text \<open>The recorded basis of verification is true: it is empty unless the work is applicable; it names the
  review only when a verified review was clean and nothing blocks; it names deterministic checks only
  when all counted tests passed or a required configured gate did; and applicable work of empty basis is
  work whose review was declined and that no check verified.\<close>

theorem verification_basis_is_true:
  assumes "arbitrate num cs opts = Some res" and "ar_ranking res = w # others"
    and "b = dr_verification_basis (ar_decision res)"
  shows "(b \<noteq> BasisNone \<longrightarrow> applyable opts w) \<and>
    (b \<in> {BasisReview, BasisBoth} \<longrightarrow> reviewRan w \<and> cv_finalReviewClean w \<and> openBlockerCount w = 0) \<and>
    (b \<in> {BasisChecks, BasisBoth} \<longrightarrow>
      (0 < cv_testsTotal w \<and> cv_testsPassed w = cv_testsTotal w) \<or>
      (\<exists>g \<in> set (cv_gates w). gr_required g \<and> gr_status g = GatePassed \<and> gr_id g \<noteq> ''harness'')) \<and>
    (b = BasisNone \<and> applyable opts w \<longrightarrow> ao_reviewRequested opts = Some False \<and> \<not> gateVerified w)"
proof -
  have "cs \<noteq> []" using assms by (auto simp: arbitrate_def split: if_splits)
  then have "ar_decision res = winner_decision num opts w others"
    using arbitrate_shape [OF assms(1)] assms(2) by auto
  then have b: "b = verificationBasis opts w" by (simp add: assms(3) winner_decision_def Let_def)
  have g: "gateVerified w \<longleftrightarrow> (0 < cv_testsTotal w \<and> cv_testsPassed w = cv_testsTotal w) \<or>
      (\<exists>g \<in> set (cv_gates w). gr_required g \<and> gr_status g = GatePassed \<and> gr_id g \<noteq> ''harness'')"
    by (auto simp: gateVerified_def configuredGates_def)
  have v: "review_of w = ReviewApproved \<Longrightarrow> reviewRan w \<and> cv_finalReviewClean w \<and> openBlockerCount w = 0"
    by (simp add: review_of_def split: if_splits)
  have a: "applyable opts w \<Longrightarrow> review_of w = ReviewApproved \<or> ao_reviewRequested opts = Some False"
    by (auto simp: applyable_def reviewAllowsApply_def)
  show ?thesis unfolding g [symmetric] b verificationBasis_def using v a by auto
qed

theorem verification_basis_is_true_witness:
  "\<exists>res. arbitrate (\<lambda>_. ''1'') ex_pair ex_opts = Some res \<and>
     dr_verification_basis (ar_decision res) = BasisBoth \<and> applyable ex_opts (ex_candidate ''b'' 1)"
proof -
  obtain res where res: "arbitrate (\<lambda>_. ''1'') ex_pair ex_opts = Some res"
    "ar_ranking res = [ex_candidate ''b'' 1, ex_candidate ''a'' 3]"
    using ex_arbitrate by blast
  have "dr_verification_basis (ar_decision res) = BasisBoth"
    by (simp add: ex_pair_decision [OF res(1)] winner_decision_def Let_def verificationBasis_def
        applyable_def reviewAllowsApply_def verdict_defs ex_evidence_defs)
  then show ?thesis using verification_basis_is_true [OF res refl] res(1) by auto
qed

section \<open>A run's gates and its verdict\<close>

lemma filter_no_harness:
  "\<forall>g \<in> set gs. gr_id g \<noteq> ''harness'' \<Longrightarrow> filter (\<lambda>g. gr_id g \<noteq> ''harness'') gs = gs"
  by (simp add: filter_id_conv)

lemma required_axis_first:
  "scoreTuple c = flag_value (requiredGatesPassed c) # tl (scoreTuple c)"
  by (simp add: scoreTuple_def axes_def)

lemma compare_required:
  assumes "requiredGatesPassed d" and "\<not> requiredGatesPassed e"
  shows "compareCandidates d e < 0"
  unfolding compareCandidates_def
  by (subst required_axis_first [of d], subst required_axis_first [of e]) (simp add: assms flag_value_def)

text \<open>A harness error counts as process evidence and nothing else: an errored run has the same checks
  axis, test label and gate label as the same run without the error, yet its lifecycle is failed, that
  is its reason, it is never applicable, and every candidate whose required gates passed outranks it.\<close>

theorem harness_error_is_process_evidence:
  assumes "\<forall>g \<in> set (cr_gates run). gr_id g \<noteq> ''harness''"
    and "e = toCandidateEvidence (run\<lparr>cr_errored := True\<rparr>) fs clean ver"
    and "h = toCandidateEvidence (run\<lparr>cr_errored := False\<rparr>) fs clean ver"
  shows "checks_of e = checks_of h \<and> testEvidenceLabel e = testEvidenceLabel h \<and>
    requiredGateLabel e = requiredGateLabel h \<and> lifecycle_of e = LifeFailed \<and>
    reason_of e = Some HarnessFailed \<and> \<not> applyable opts e \<and>
    (\<forall>d. requiredGatesPassed d \<longrightarrow> compareCandidates d e < 0)"
proof -
  have gates: "cv_gates e = cr_gates run @ [harness_gate]" "cv_gates h = cr_gates run"
    by (simp_all add: assms(2,3) toCandidateEvidence_def)
  have cfg: "configuredGates e = cr_gates run" "configuredGates h = cr_gates run"
    using filter_no_harness [OF assms(1)]
    by (simp_all add: configuredGates_def gates harness_gate_def)
  have "\<not> (\<exists>g \<in> set (cv_gates h). gr_id g = ''harness'')" "\<exists>g \<in> set (cv_gates e). gr_id g = ''harness''"
    using assms(1) by (auto simp: gates harness_gate_def)
  moreover have "cv_testsPassed h = int (length (filter (\<lambda>g. gr_status g = GatePassed) (cr_gates run)))"
    "cv_testsTotal h = int (length (cr_gates run))"
    by (simp_all add: assms(3) toCandidateEvidence_def)
  ultimately have counts: "configuredTestCounts e = configuredTestCounts h"
    unfolding configuredTestCounts_def cfg by auto
  have failed: "harnessFailed e" by (simp add: harnessFailed_def gates harness_gate_def)
  have "\<not> requiredGatesPassed e"
    by (simp add: requiredGatesPassed_def gates harness_gate_def all_passed_def)
  then show ?thesis
    using failed compare_required
    by (simp add: checks_of_def checksConfigured_def checksPassed_def testEvidenceLabel_def
        requiredGateLabel_def cfg counts lifecycle_of_def reason_of_def applyable_def)
qed

theorem harness_error_is_process_evidence_witness:
  "compareCandidates (ex_candidate ''a'' 3)
     (toCandidateEvidence ((ex_run ''b'' [] False 0)\<lparr>cr_errored := True\<rparr>) [] True True) < 0"
proof -
  have "requiredGatesPassed (ex_candidate ''a'' 3)"
    by (simp add: requiredGatesPassed_def ex_evidence_defs all_passed_def)
  moreover have "\<forall>g \<in> set (cr_gates (ex_run ''b'' [] False 0)). gr_id g \<noteq> ''harness''"
    by (simp add: ex_run_def)
  ultimately show ?thesis using harness_error_is_process_evidence [OF _ refl refl] by blast
qed

text \<open>An advisory check is not advisory for the decision: when every required gate of a run passed, so
  that the run itself counts as passing, but an advisory gate did not, the decision still has its checks
  failed, never finds the work applicable and asks for a human review.\<close>

theorem advisory_failure_fails_checks:
  assumes "\<forall>g \<in> set (cr_gates run). gr_id g \<noteq> ''harness''" and "\<not> cr_errored run"
    and "gatesPassed (cr_gates run)"
    and "g \<in> set (cr_gates run)" and "\<not> gr_required g" and "gr_status g \<noteq> GatePassed"
    and "c = toCandidateEvidence run fs clean ver"
  shows "requiredGatesPassed c \<and> checks_of c = ChecksFailed \<and> \<not> applyable opts c \<and>
    applyRecommendation opts c = RecHumanReview"
proof -
  have gates: "cv_gates c = cr_gates run" by (simp add: assms(2,7) toCandidateEvidence_def)
  have cfg: "configuredGates c = cr_gates run"
    using filter_no_harness [OF assms(1)] by (simp add: configuredGates_def gates)
  have counts: "configuredTestCounts c =
      (int (length (filter (\<lambda>g. gr_status g = GatePassed) (cr_gates run))), int (length (cr_gates run)))"
    using assms(1) unfolding configuredTestCounts_def gates
    by (auto simp: assms(7) toCandidateEvidence_def assms(2))
  have "length (filter (\<lambda>g. gr_status g = GatePassed) (cr_gates run)) < length (cr_gates run)"
    using assms(4,6) by (intro length_filter_less) auto
  then have "checks_of c = ChecksFailed"
    using assms(4) by (auto simp: checks_of_def checksConfigured_def checksPassed_def cfg counts Let_def)
  then show ?thesis
    using assms(3)
    by (simp add: applyable_def applyRecommendation_def Let_def requiredGatesPassed_def gates
        gatesPassed_def all_passed_def)
qed

theorem advisory_failure_fails_checks_witness:
  "checks_of (toCandidateEvidence (ex_run ''a'' [ex_gate ''test'' GatePassed True, ex_gate ''lint'' GateFailed False]
     False 1) [] True True) = ChecksFailed"
  by (rule advisory_failure_fails_checks [of _ "ex_gate ''lint'' GateFailed False", OF _ _ _ _ _ _ refl,
        THEN conjunct2, THEN conjunct1])
    (simp_all add: ex_run_def ex_gate_def gatesPassed_def)

end
