(* ===== verification/Text_Ops.thy ===== *)
theory Text_Ops
  imports Json
begin

text \<open>
  The rest of the JavaScript string methods the source calls (\<open>split\<close>, \<open>endsWith\<close>,
  \<open>indexOf\<close>, \<open>slice\<close>), and the decoding of bytes to text
  (\<open>Buffer.toString("utf8")\<close>), which replaces every ill-formed part by U+FFFD. Strings are
  byte lists in UTF-8, as in the theory of JSON text.
\<close>

lemma truthy_Some_iff: "truthy s = Some t \<longleftrightarrow> s = Some t \<and> t \<noteq> []"
  by (auto simp: truthy_def split: option.splits)

section \<open>Splitting and joining\<close>

fun split_on :: "char \<Rightarrow> string \<Rightarrow> string list" where
  "split_on d [] = [[]]"
| "split_on d (c # s) =
     (if c = d then [] # split_on d s
      else (case split_on d s of [] \<Rightarrow> [[c]] | p # ps \<Rightarrow> (c # p) # ps))"

lemma split_on_ne [simp]: "split_on d s \<noteq> []"
  by (induction s) (auto split: list.splits)

lemma split_on_free: "d \<notin> set s \<Longrightarrow> split_on d s = [s]"
  by (induction s) auto

lemma split_on_append: "d \<notin> set a \<Longrightarrow> split_on d (a @ d # s) = a # split_on d s"
  by (induction a) auto

lemma split_on_trailing: "split_on d (s @ [d]) = split_on d s @ [[]]"
proof (induction s)
  case Nil
  show ?case by simp
next
  case (Cons c s)
  obtain q qs where "split_on d s = q # qs"
    using split_on_ne by (cases "split_on d s") auto
  then show ?case using Cons.IH by simp
qed

lemma split_on_no_delim: "p \<in> set (split_on d s) \<Longrightarrow> d \<notin> set p"
proof (induction s arbitrary: p)
  case Nil
  then show ?case by simp
next
  case (Cons c s)
  show ?case
  proof (cases "split_on d s")
    case Nil
    then show ?thesis by simp
  next
    case (Cons q qs)
    then show ?thesis using Cons.prems Cons.IH by (auto split: if_splits)
  qed
qed

lemma join_Cons: "ps \<noteq> [] \<Longrightarrow> join sep (p # ps) = p @ sep @ join sep ps"
  by (cases ps) simp_all

lemma split_join:
  assumes "ps \<noteq> []" and "\<And>p. p \<in> set ps \<Longrightarrow> d \<notin> set p"
  shows "split_on d (join [d] ps) = ps"
  using assms
proof (induction ps)
  case Nil
  then show ?case by simp
next
  case (Cons p ps)
  show ?case
  proof (cases "ps = []")
    case True
    then show ?thesis using Cons.prems by (simp add: split_on_free)
  next
    case False
    have "split_on d (join [d] (p # ps)) = p # split_on d (join [d] ps)"
      using Cons.prems False by (simp add: join_Cons split_on_append)
    then show ?thesis using Cons.IH Cons.prems False by simp
  qed
qed

lemma join_split: "join [d] (split_on d s) = s"
proof (induction s)
  case Nil
  show ?case by simp
next
  case (Cons c s)
  obtain q qs where q: "split_on d s = q # qs"
    using split_on_ne by (cases "split_on d s") auto
  show ?case using Cons.IH q by (cases "c = d"; cases qs) auto
qed

section \<open>Prefixes, suffixes and positions\<close>

definition ends_with :: "string \<Rightarrow> string \<Rightarrow> bool" where
  "ends_with s p \<longleftrightarrow> starts_with (rev s) (rev p)"

lemma starts_with_iff: "starts_with s p \<longleftrightarrow> (\<exists>r. s = p @ r)"
  by (metis append_eq_conv_conj append_take_drop_id starts_with_def)

lemma starts_with_Cons [simp]:
  "starts_with (c # s) (d # p) \<longleftrightarrow> c = d \<and> starts_with s p"
  by (auto simp: starts_with_def)

lemma starts_with_Nil [simp]: "starts_with s []" "starts_with [] p \<longleftrightarrow> p = []"
  by (auto simp: starts_with_def)

lemma ends_with_append [simp]: "ends_with (s @ p) p"
  by (simp add: ends_with_def)

text \<open>\<open>s.indexOf(p)\<close>: the first position of \<open>p\<close>, or none.\<close>

fun str_index :: "string \<Rightarrow> string \<Rightarrow> nat option" where
  "str_index [] p = (if p = [] then Some 0 else None)"
| "str_index (c # s) p =
     (if starts_with (c # s) p then Some 0 else map_option Suc (str_index s p))"

text \<open>\<open>s.slice(n)\<close> after a literal prefix, and a prefix taken off when it is there.\<close>

definition after :: "string \<Rightarrow> string \<Rightarrow> string" where
  "after p s = drop (length p) s"

lemma after_append [simp]: "after p (p @ s) = s"
  by (simp add: after_def)

definition stripPrefix :: "string \<Rightarrow> string \<Rightarrow> string" where
  "stripPrefix s p = (if starts_with s p then after p s else s)"

lemma stripPrefix_append [simp]: "stripPrefix (p @ s) p = s"
  by (simp add: stripPrefix_def)

text \<open>Repetitions dropped in order of first occurrence, as \<open>[...new Set(xs)]\<close>.\<close>

definition unique :: "'a list \<Rightarrow> 'a list" where
  "unique xs = fold sadd xs []"

lemma fold_sadd_set: "set (fold sadd xs ys) = set ys \<union> set xs"
  by (induction xs arbitrary: ys) auto

lemma set_unique [simp]: "set (unique xs) = set xs"
  by (simp add: unique_def fold_sadd_set)

lemma fold_sadd_distinct: "distinct (fold sadd xs ys) = distinct ys"
  by (induction xs arbitrary: ys) auto

lemma distinct_unique [simp]: "distinct (unique xs)"
  by (simp add: unique_def fold_sadd_distinct)

lemma unique_Nil [simp]: "unique [] = []"
  by (simp add: unique_def)

lemma unique_eq_Nil [simp]: "unique xs = [] \<longleftrightarrow> xs = []"
  by (metis set_empty set_unique)

section \<open>UTF-8\<close>

text \<open>The bytes that may follow a leading byte, in order; none for a byte that leads nothing.\<close>

definition utf8_tail :: "nat \<Rightarrow> (nat \<times> nat) list option" where
  "utf8_tail b =
     (if b < 128 then Some []
      else if 194 \<le> b \<and> b \<le> 223 then Some [(128, 191)]
      else if b = 224 then Some [(160, 191), (128, 191)]
      else if b = 237 then Some [(128, 159), (128, 191)]
      else if 225 \<le> b \<and> b \<le> 239 then Some [(128, 191), (128, 191)]
      else if b = 240 then Some [(144, 191), (128, 191), (128, 191)]
      else if 241 \<le> b \<and> b \<le> 243 then Some [(128, 191), (128, 191), (128, 191)]
      else if b = 244 then Some [(128, 143), (128, 191), (128, 191)]
      else None)"

fun utf8_matched :: "(nat \<times> nat) list \<Rightarrow> string \<Rightarrow> nat" where
  "utf8_matched ((lo, hi) # rs) (c # s) =
     (if lo \<le> of_char c \<and> (of_char c :: nat) \<le> hi then Suc (utf8_matched rs s) else 0)"
| "utf8_matched _ _ = 0"

definition replacement :: string where
  "replacement = [CHR 0xEF, CHR 0xBF, CHR 0xBD]"

function utf8_text :: "string \<Rightarrow> string" where
  "utf8_text [] = []"
| "utf8_text (c # s) =
     (case utf8_tail (of_char c) of
        None \<Rightarrow> replacement @ utf8_text s
      | Some rs \<Rightarrow>
          let n = utf8_matched rs s in
          if n = length rs then c # take n s @ utf8_text (drop n s)
          else replacement @ utf8_text (drop n s))"
  by pat_completeness auto
termination by (relation "measure length") auto

text \<open>Text that is well formed, in particular ASCII text, is decoded to itself.\<close>

function utf8_ok :: "string \<Rightarrow> bool" where
  "utf8_ok [] = True"
| "utf8_ok (c # s) =
     (case utf8_tail (of_char c) of
        None \<Rightarrow> False
      | Some rs \<Rightarrow> utf8_matched rs s = length rs \<and> utf8_ok (drop (length rs) s))"
  by pat_completeness auto
termination by (relation "measure length") auto

lemma utf8_text_ok: "utf8_ok s \<Longrightarrow> utf8_text s = s"
proof (induction s rule: utf8_text.induct)
  case 1
  show ?case by simp
next
  case (2 c s)
  then obtain rs where rs: "utf8_tail (of_char c) = Some rs" "utf8_matched rs s = length rs"
    "utf8_ok (drop (length rs) s)" by (auto split: option.splits)
  have "utf8_text (drop (length rs) s) = drop (length rs) s"
    using 2(2) [OF rs(1) refl] rs(2,3) by simp
  then show ?case using rs by simp
qed

end
