(* ===== verification/Paths.thy ===== *)
theory Paths
  imports Text_Ops
begin

text \<open>
  The part of \<open>node:path\<close> (POSIX) the path policies call: \<open>isAbsolute\<close>,
  \<open>resolve\<close>, \<open>normalize\<close>, \<open>join\<close>, \<open>relative\<close>, \<open>dirname\<close> and
  \<open>extname\<close>. The working directory of the process is an argument (\<open>cwd\<close>).
\<close>

abbreviation slash :: char where "slash \<equiv> CHR ''/''"

definition isAbsolute :: "string \<Rightarrow> bool" where
  "isAbsolute p \<longleftrightarrow> starts_with p ''/''"

text \<open>\<open>normalizeString\<close>: empty and \<open>.\<close> segments vanish, \<open>..\<close> takes back one
  segment, and stays only where the path may climb above its start.\<close>

definition norm_step :: "bool \<Rightarrow> string list \<Rightarrow> string \<Rightarrow> string list" where
  "norm_step climb acc seg =
     (if seg = [] \<or> seg = ''.'' then acc
      else if seg = ''..'' then
        (if acc \<noteq> [] \<and> last acc \<noteq> ''..'' then butlast acc
         else if climb then acc @ [''..''] else acc)
      else acc @ [seg])"

definition norm_segs :: "bool \<Rightarrow> string list \<Rightarrow> string list" where
  "norm_segs climb segs = foldl (norm_step climb) [] segs"

definition normalize :: "string \<Rightarrow> string" where
  "normalize p =
     (if p = [] then ''.''
      else let body = join ''/'' (norm_segs (\<not> isAbsolute p) (split_on slash p));
               trailing = ends_with p ''/'' in
        if isAbsolute p then
          (if body = [] then ''/'' else ''/'' @ body @ (if trailing then ''/'' else []))
        else if body = [] then (if trailing then ''./'' else ''.'')
        else body @ (if trailing then ''/'' else []))"

definition path_join :: "string list \<Rightarrow> string" where
  "path_join ps =
     (let qs = filter (\<lambda>p. p \<noteq> []) ps in if qs = [] then ''.'' else normalize (join ''/'' qs))"

text \<open>\<open>resolve\<close> reads its arguments from the right until the path is absolute; the working
  directory stands in front of all of them.\<close>

fun resolve_text :: "string list \<Rightarrow> string \<Rightarrow> string" where
  "resolve_text [] acc = acc"
| "resolve_text (p # ps) acc =
     (if p = [] then resolve_text ps acc
      else if isAbsolute p then p @ ''/'' @ acc
      else resolve_text ps (p @ ''/'' @ acc))"

definition resolve_segs :: "string \<Rightarrow> string list \<Rightarrow> string list" where
  "resolve_segs cwd ps = norm_segs False (split_on slash (resolve_text (rev ps @ [cwd]) []))"

definition resolve :: "string \<Rightarrow> string list \<Rightarrow> string" where
  "resolve cwd ps = ''/'' @ join ''/'' (resolve_segs cwd ps)"

text \<open>The path from one absolute path to another: up out of what they do not share, then down.\<close>

fun strip_common :: "'a list \<Rightarrow> 'a list \<Rightarrow> 'a list \<times> 'a list" where
  "strip_common (x # xs) (y # ys) =
     (if x = y then strip_common xs ys else (x # xs, y # ys))"
| "strip_common xs ys = (xs, ys)"

definition rel_segs :: "string list \<Rightarrow> string list \<Rightarrow> string list" where
  "rel_segs f t =
     (case strip_common f t of (ups, downs) \<Rightarrow> replicate (length ups) ''..'' @ downs)"

definition relative :: "string \<Rightarrow> string \<Rightarrow> string \<Rightarrow> string" where
  "relative cwd f t = join ''/'' (rel_segs (resolve_segs cwd [f]) (resolve_segs cwd [t]))"

definition dirname :: "string \<Rightarrow> string" where
  "dirname p =
     (if p = [] then ''.''
      else let r = dropWhile (\<lambda>c. c \<noteq> slash) (dropWhile (\<lambda>c. c = slash) (rev (tl p))) in
        if r = [] then (if isAbsolute p then ''/'' else ''.'')
        else if tl r = [] \<and> isAbsolute p then ''//''
        else hd p # rev (tl r))"

text \<open>\<open>extname\<close> of a name without slashes: from its last dot, unless that is its first
  character or the name is \<open>..\<close>.\<close>

definition extname :: "string \<Rightarrow> string" where
  "extname s =
     (let e = takeWhile (\<lambda>c. c \<noteq> CHR ''.'') (rev s); k = length s - length e in
      if s = ''..'' \<or> k \<le> 1 then [] else drop (k - 1) s)"

section \<open>Clean segments\<close>

definition clean_seg :: "string \<Rightarrow> bool" where
  "clean_seg s \<longleftrightarrow> s \<noteq> [] \<and> s \<noteq> ''.'' \<and> s \<noteq> ''..'' \<and> slash \<notin> set s"

lemma norm_step_clean:
  "list_all clean_seg acc \<Longrightarrow> slash \<notin> set seg \<Longrightarrow> list_all clean_seg (norm_step False acc seg)"
  by (auto simp: norm_step_def clean_seg_def list_all_iff dest: in_set_butlastD)

lemma norm_segs_clean_gen:
  "list_all clean_seg acc \<Longrightarrow> (\<And>s. s \<in> set segs \<Longrightarrow> slash \<notin> set s) \<Longrightarrow>
   list_all clean_seg (foldl (norm_step False) acc segs)"
  by (induction segs arbitrary: acc) (auto intro: norm_step_clean)

lemma resolve_segs_clean: "list_all clean_seg (resolve_segs cwd ps)"
  unfolding resolve_segs_def norm_segs_def
  by (rule norm_segs_clean_gen) (auto dest: split_on_no_delim)

text \<open>A clean path is left alone, so resolving what was resolved changes nothing.\<close>

lemma norm_segs_id_gen:
  "list_all clean_seg segs \<Longrightarrow> foldl (norm_step climb) acc segs = acc @ segs"
  by (induction segs arbitrary: acc) (auto simp: norm_step_def clean_seg_def)

lemma norm_segs_id: "list_all clean_seg segs \<Longrightarrow> norm_segs climb segs = segs"
  by (simp add: norm_segs_def norm_segs_id_gen)

lemma norm_segs_prefix:
  "list_all clean_seg a \<Longrightarrow> norm_segs climb (a @ b) = foldl (norm_step climb) a b"
  by (simp add: norm_segs_def norm_segs_id_gen)

lemma norm_step_skip [simp]: "norm_step climb acc [] = acc"
  by (simp add: norm_step_def)

lemma norm_segs_Nil [simp]: "norm_segs climb ([] # segs) = norm_segs climb segs"
  by (simp add: norm_segs_def)

lemma clean_no_slash: "list_all clean_seg segs \<Longrightarrow> s \<in> set segs \<Longrightarrow> slash \<notin> set s"
  by (auto simp: list_all_iff clean_seg_def)

lemma foldl_norm_trailing:
  "foldl (norm_step climb) acc (split_on slash (s @ ''/'')) =
   foldl (norm_step climb) acc (split_on slash s)"
  by (simp add: split_on_trailing)

lemma resolve_resolved:
  "resolve_segs cwd [resolve cwd' ps] = resolve_segs cwd' ps"
proof -
  let ?S = "resolve_segs cwd' ps"
  have "resolve_segs cwd [resolve cwd' ps] =
      norm_segs False (split_on slash ((''/'' @ join ''/'' ?S) @ ''/''))"
    by (simp add: resolve_segs_def [of cwd] resolve_def isAbsolute_def)
  also have "\<dots> = norm_segs False (split_on slash (''/'' @ join ''/'' ?S))"
    unfolding norm_segs_def by (rule foldl_norm_trailing)
  also have "\<dots> = norm_segs False (split_on slash (join ''/'' ?S))" by simp
  also have "\<dots> = ?S"
  proof (cases "?S = []")
    case True
    then show ?thesis by (simp add: norm_segs_def)
  next
    case False
    then have "split_on slash (join ''/'' ?S) = ?S"
      using split_join [of ?S slash] clean_no_slash [OF resolve_segs_clean] by simp
    then show ?thesis by (simp add: norm_segs_id resolve_segs_clean)
  qed
  finally show ?thesis .
qed

section \<open>Inside and outside\<close>

lemma strip_common_spec:
  "strip_common f t = (ups, downs) \<Longrightarrow>
     \<exists>c. f = c @ ups \<and> t = c @ downs \<and> (ups = [] \<or> downs = [] \<or> hd ups \<noteq> hd downs)"
proof (induction f t rule: strip_common.induct)
  case (1 x xs y ys)
  show ?case
  proof (cases "x = y")
    case True
    then obtain c where c: "xs = c @ ups" "ys = c @ downs" "ups = [] \<or> downs = [] \<or> hd ups \<noteq> hd downs"
      using 1 by auto
    then show ?thesis using True by (intro exI [of _ "x # c"]) simp
  next
    case False
    then show ?thesis using 1 by auto
  qed
qed auto

lemma strip_common_append [simp]: "strip_common f (f @ t) = ([], t)"
  by (induction f) (cases t; auto)+

text \<open>The first segment of the relative path tells inside from outside: it is missing for the root
  itself, \<open>..\<close> outside, and the first segment below the root inside.\<close>

lemma rel_segs_inside: "rel_segs f (f @ t) = t"
  by (simp add: rel_segs_def)

lemma rel_segs_cases:
  assumes "list_all clean_seg t"
  obtains (same) "t = f" "rel_segs f t = []"
  | (inside) s r where "t = f @ s # r" "rel_segs f t = s # r" "clean_seg s"
  | (outside) r where "\<not> (\<exists>u. t = f @ u)" "rel_segs f t = ''..'' # r"
proof -
  obtain ups downs where sc: "strip_common f t = (ups, downs)" by fastforce
  from strip_common_spec [OF sc] obtain c where c: "f = c @ ups" "t = c @ downs"
    "ups = [] \<or> downs = [] \<or> hd ups \<noteq> hd downs" by blast
  have r: "rel_segs f t = replicate (length ups) ''..'' @ downs" by (simp add: rel_segs_def sc)
  show ?thesis
  proof (cases ups)
    case Nil
    show ?thesis
    proof (cases downs)
      case Nil
      then show ?thesis using c r \<open>ups = []\<close> same by simp
    next
      case (Cons s d)
      then show ?thesis using c r \<open>ups = []\<close> assms inside by simp
    qed
  next
    case (Cons u us)
    have "\<not> (\<exists>v. t = f @ v)"
      using c Cons by (cases downs) auto
    moreover have "rel_segs f t = ''..'' # (replicate (length us) ''..'' @ downs)"
      using r Cons by simp
    ultimately show ?thesis by (rule outside)
  qed
qed

lemma join_slash_Nil: "list_all (\<lambda>s. s \<noteq> []) ss \<Longrightarrow> join ''/'' ss = [] \<longleftrightarrow> ss = []"
  by (cases ss rule: join.cases [of "(''/'', ss)" for ss, simplified]) (auto simp: join_Cons)

lemma join_slash_prefix: "\<exists>r. join ''/'' (s # ss) = s @ r"
  by (cases ss) auto

lemma starts_with_join_dots:
  assumes "s \<noteq> []" and "slash \<notin> set s"
  shows "starts_with (join ''/'' (s # ss)) ''..'' \<longleftrightarrow> starts_with s ''..''"
proof (cases ss)
  case Nil
  then show ?thesis by simp
next
  case (Cons t ts)
  show ?thesis using assms Cons by (cases s; cases "tl s") (auto simp: starts_with_def)
qed

lemma isAbsolute_join:
  assumes "s \<noteq> []" and "slash \<notin> set s"
  shows "\<not> isAbsolute (join ''/'' (s # ss))"
  using assms by (cases ss; cases s) (auto simp: isAbsolute_def)

lemma join_slash_ne [simp]: "s \<noteq> [] \<Longrightarrow> join ''/'' (s # ss) \<noteq> []"
  by (cases ss) auto

end
