(* ===== verification/Glob.thy ===== *)
theory Glob
  imports Text_Ops
begin

text \<open>
  The include and exclude globs of \<open>packages/context/src/glob.ts\<close>: a glob is translated to an
  anchored regular expression, here the list of its parts, and \<open>gmatch\<close> is the test of that
  expression (\<open>RegExp.test\<close>) by trying every way a repetition can be taken. JavaScript
  matches UTF-16 units: a wildcard takes one unit, which is one character of up to three bytes, or
  half of a four-byte one.
\<close>

datatype glob_part = GDirs | GAll | GSeg | GOne | GLit char

text \<open>\<open>GDirs\<close> is \<open>(?:.*/)?\<close>, \<open>GAll\<close> is \<open>.*\<close>, \<open>GSeg\<close> is
  \<open>[^/]*\<close>, \<open>GOne\<close> is \<open>[^/]\<close>.\<close>

fun globToRegExp :: "string \<Rightarrow> glob_part list" where
  "globToRegExp [] = []"
| "globToRegExp (c # s) =
     (if c = CHR ''*'' then
        (if starts_with s ''*/'' then GDirs # globToRegExp (drop 2 s)
         else if starts_with s ''*'' then GAll # globToRegExp (drop 1 s)
         else GSeg # globToRegExp s)
      else if c = CHR ''?'' then GOne # globToRegExp s
      else GLit c # globToRegExp s)"

text \<open>What is left of the first unit after its first byte.\<close>

definition unit_tail :: "char \<Rightarrow> nat" where
  "unit_tail c =
     (let b = of_char c :: nat in
      if b < 128 then 0 else if b < 224 then 1 else if b < 240 then 2 else 1)"

text \<open>The dot does not match a line terminator: LF, CR, U+2028 and U+2029.\<close>

definition line_break_at :: "string \<Rightarrow> bool" where
  "line_break_at s \<longleftrightarrow>
     starts_with s [CHR 0x0A] \<or> starts_with s [CHR 0x0D] \<or>
     starts_with s [CHR 0xE2, CHR 0x80, CHR 0xA8] \<or>
     starts_with s [CHR 0xE2, CHR 0x80, CHR 0xA9]"

fun part_weight :: "glob_part \<Rightarrow> nat" where
  "part_weight GDirs = 3"
| "part_weight _ = 1"

function gmatch :: "glob_part list \<Rightarrow> string \<Rightarrow> bool" where
  "gmatch [] s = (s = [])"
| "gmatch (GLit d # ts) s = (case s of [] \<Rightarrow> False | c # r \<Rightarrow> c = d \<and> gmatch ts r)"
| "gmatch (GOne # ts) s =
     (case s of [] \<Rightarrow> False | c # r \<Rightarrow> c \<noteq> CHR ''/'' \<and> gmatch ts (drop (unit_tail c) r))"
| "gmatch (GSeg # ts) s =
     (gmatch ts s \<or>
      (case s of [] \<Rightarrow> False
       | c # r \<Rightarrow> c \<noteq> CHR ''/'' \<and> gmatch (GSeg # ts) (drop (unit_tail c) r)))"
| "gmatch (GAll # ts) s =
     (gmatch ts s \<or>
      (case s of [] \<Rightarrow> False
       | c # r \<Rightarrow> \<not> line_break_at s \<and> gmatch (GAll # ts) (drop (unit_tail c) r)))"
| "gmatch (GDirs # ts) s = (gmatch ts s \<or> gmatch (GAll # GLit CHR ''/'' # ts) s)"
  by pat_completeness auto
termination
  by (relation "measures [\<lambda>(ts, s). sum_list (map part_weight ts), \<lambda>(ts, s). length s]") auto

definition matchAny :: "string \<Rightarrow> string list \<Rightarrow> bool" where
  "matchAny path patterns \<longleftrightarrow> list_ex (\<lambda>p. gmatch (globToRegExp p) path) patterns"

section \<open>What the wildcards match\<close>

text \<open>Plain text: ASCII without line terminators.\<close>

definition plain_char :: "char \<Rightarrow> bool" where
  "plain_char c \<longleftrightarrow> (let b = of_char c :: nat in b < 128 \<and> b \<noteq> 10 \<and> b \<noteq> 13)"

lemma plain_unit [simp]: "plain_char c \<Longrightarrow> unit_tail c = 0"
  by (simp add: plain_char_def unit_tail_def Let_def)

lemma plain_no_break:
  assumes "plain_char c"
  shows "\<not> line_break_at (c # s)"
proof -
  have "of_char c \<noteq> (10 :: nat)" "of_char c \<noteq> (13 :: nat)" "of_char c \<noteq> (226 :: nat)"
    using assms by (auto simp: plain_char_def Let_def)
  then have "c \<noteq> CHR 0x0A" "c \<noteq> CHR 0x0D" "c \<noteq> CHR 0xE2"
    by auto
  then show ?thesis by (simp add: line_break_at_def)
qed

lemma gmatch_GAll: "list_all plain_char u \<Longrightarrow> gmatch ts v \<Longrightarrow> gmatch (GAll # ts) (u @ v)"
  by (induction u) (auto simp: plain_no_break)

lemma gmatch_GSeg:
  "list_all plain_char u \<Longrightarrow> CHR ''/'' \<notin> set u \<Longrightarrow> gmatch ts v \<Longrightarrow> gmatch (GSeg # ts) (u @ v)"
  by (induction u) auto

lemma gmatch_GSeg_iff:
  "list_all plain_char s \<Longrightarrow>
   gmatch (GSeg # ts) s \<longleftrightarrow> (\<exists>u v. s = u @ v \<and> CHR ''/'' \<notin> set u \<and> gmatch ts v)"
proof (induction s)
  case Nil
  then show ?case by simp
next
  case (Cons c s)
  show ?case
  proof
    assume "gmatch (GSeg # ts) (c # s)"
    then consider "gmatch ts (c # s)" | "c \<noteq> CHR ''/''" "gmatch (GSeg # ts) s"
      using Cons.prems by auto
    then show "\<exists>u v. c # s = u @ v \<and> CHR ''/'' \<notin> set u \<and> gmatch ts v"
    proof cases
      case 1
      then show ?thesis by (metis append_Nil empty_iff list.set(1))
    next
      case 2
      then obtain u v where "s = u @ v" "CHR ''/'' \<notin> set u" "gmatch ts v"
        using Cons.IH Cons.prems by auto
      then show ?thesis using 2 by (intro exI [of _ "c # u"] exI [of _ v]) simp
    qed
  next
    assume "\<exists>u v. c # s = u @ v \<and> CHR ''/'' \<notin> set u \<and> gmatch ts v"
    then obtain u v where uv: "c # s = u @ v" "CHR ''/'' \<notin> set u" "gmatch ts v" by blast
    moreover have "list_all plain_char u" using uv(1) Cons.prems by (metis list_all_append)
    ultimately show "gmatch (GSeg # ts) (c # s)" using gmatch_GSeg by metis
  qed
qed

lemma gmatch_lits: "gmatch (map GLit l @ ts) s \<longleftrightarrow> (\<exists>v. s = l @ v \<and> gmatch ts v)"
  by (induction l arbitrary: s) (auto split: list.splits)

lemma gmatch_GDirs_root: "gmatch ts s \<Longrightarrow> gmatch (GDirs # ts) s"
  by simp

lemma gmatch_GDirs_below:
  "list_all plain_char u \<Longrightarrow> gmatch ts v \<Longrightarrow> gmatch (GDirs # ts) (u @ CHR ''/'' # v)"
  using gmatch_GAll [of u "GLit CHR ''/'' # ts" "CHR ''/'' # v"] by simp

text \<open>A pattern without wildcards is a name: it matches itself and nothing else.\<close>

lemma globToRegExp_plain:
  "CHR ''*'' \<notin> set p \<Longrightarrow> CHR ''?'' \<notin> set p \<Longrightarrow> globToRegExp p = map GLit p"
  by (induction p) auto

lemma gmatch_plain:
  assumes "CHR ''*'' \<notin> set p" and "CHR ''?'' \<notin> set p"
  shows "gmatch (globToRegExp p) s \<longleftrightarrow> s = p"
  using gmatch_lits [of p "[]" s] by (simp add: globToRegExp_plain [OF assms])

text \<open>The pattern \<open>**/name/**\<close> matches every path that has the directory on its way.\<close>

lemma globToRegExp_dirs:
  assumes "CHR ''*'' \<notin> set p" and "CHR ''?'' \<notin> set p"
  shows "globToRegExp (''**/'' @ p @ ''/**'') = GDirs # map GLit p @ [GLit CHR ''/'', GAll]"
proof -
  have "globToRegExp (p @ q) = map GLit p @ globToRegExp q" for q
    using assms by (induction p) auto
  then show ?thesis by simp
qed

lemma gmatch_directory:
  assumes "CHR ''*'' \<notin> set p" and "CHR ''?'' \<notin> set p"
    and "list_all plain_char u" and "list_all plain_char v"
  shows "gmatch (globToRegExp (''**/'' @ p @ ''/**'')) (p @ ''/'' @ v)"
    and "gmatch (globToRegExp (''**/'' @ p @ ''/**'')) (u @ ''/'' @ p @ ''/'' @ v)"
proof -
  have all: "gmatch [GAll] v" using gmatch_GAll [OF assms(4), of "[]" "[]"] by simp
  then have base: "gmatch (map GLit p @ [GLit CHR ''/'', GAll]) (p @ ''/'' @ v)"
    by (auto simp: gmatch_lits)
  show "gmatch (globToRegExp (''**/'' @ p @ ''/**'')) (p @ ''/'' @ v)"
    unfolding globToRegExp_dirs [OF assms(1,2)] by (rule gmatch_GDirs_root [OF base])
  show "gmatch (globToRegExp (''**/'' @ p @ ''/**'')) (u @ ''/'' @ p @ ''/'' @ v)"
    unfolding globToRegExp_dirs [OF assms(1,2)]
    using gmatch_GDirs_below [OF assms(3) base] by simp
qed

end
