(* ===== verification/Policy.thy ===== *)
theory Policy
  imports Paths Glob
begin

text \<open>
  The path policies: confinement of writes to the workspace and the human-approval globs
  (\<open>packages/policy/src/policy.ts\<close>), the risk of a diff (\<open>risk.ts\<close>), and the
  credential-shaped paths and symbolic links of \<open>packages/util/src/sensitive-resource.ts\<close>
  (its content signatures are not modelled).
\<close>

section \<open>Confinement to the workspace\<close>

record path_guard_result =
  pg_allowed :: bool
  pg_reason :: "string option"

definition pathGuard :: "string \<Rightarrow> string \<Rightarrow> string \<Rightarrow> path_guard_result" where
  "pathGuard cwd workspaceRoot targetPath =
     (let root = resolve cwd [workspaceRoot];
          target = (if isAbsolute targetPath then resolve cwd [targetPath]
                    else resolve cwd [root, targetPath]);
          rel = relative cwd root target in
      if rel = [] \<or> starts_with rel ''..'' \<or> isAbsolute rel then
        \<lparr>pg_allowed = False,
         pg_reason = Some (''write to '' @ [CHR 0x27] @ targetPath @ [CHR 0x27] @
           '' resolves outside workspace '' @ [CHR 0x27] @ workspaceRoot @ [CHR 0x27])\<rparr>
      else \<lparr>pg_allowed = True, pg_reason = None\<rparr>)"

section \<open>Paths that need a human\<close>

definition DEFAULT_REQUIRE_HUMAN_PATHS :: "string list" where
  "DEFAULT_REQUIRE_HUMAN_PATHS =
     [''**/auth/**'', ''**/payment*/**'', ''**/billing/**'', ''**/migrations/**'',
      ''**/secrets/**'', ''**/.github/workflows/**'']"

record require_human_result =
  rh_required :: bool
  rh_reasons :: "string list"
  rh_matchedPaths :: "string list"

fun human_loop :: "string list \<Rightarrow> string list \<Rightarrow> string list \<Rightarrow> string list \<Rightarrow> string list \<times> string list" where
  "human_loop patterns [] reasons matched = (reasons, matched)"
| "human_loop patterns (p # ps) reasons matched =
     (if matchAny p patterns
      then human_loop patterns ps (reasons @ [''change to '' @ p @ '' requires human approval''])
             (matched @ [p])
      else human_loop patterns ps reasons matched)"

definition requireHuman :: "string list \<Rightarrow> string list option \<Rightarrow> require_human_result" where
  "requireHuman changedPaths patterns =
     (case human_loop (nullish patterns DEFAULT_REQUIRE_HUMAN_PATHS) changedPaths [] [] of
        (reasons, matched) \<Rightarrow>
          \<lparr>rh_required = reasons \<noteq> [], rh_reasons = reasons, rh_matchedPaths = matched\<rparr>)"

section \<open>Credential-shaped paths\<close>

datatype sensitive_class =
  CredentialFile | CredentialStore | EnvironmentFile | PrivateKey | SecretContainer

record path_decision =
  pd_sensitive :: bool
  pd_class :: "sensitive_class option"
  pd_matchedPart :: "string option"
  pd_reason :: "string option"

definition sensitivePath :: "sensitive_class \<Rightarrow> string \<Rightarrow> string \<Rightarrow> path_decision" where
  "sensitivePath pathClass matchedPart reason =
     \<lparr>pd_sensitive = True, pd_class = Some pathClass, pd_matchedPart = Some matchedPart,
      pd_reason = Some reason\<rparr>"

definition ALLOW_PATH :: path_decision where
  "ALLOW_PATH = \<lparr>pd_sensitive = False, pd_class = None, pd_matchedPart = None, pd_reason = None\<rparr>"

definition SAFE_ENV_TEMPLATE_BASENAMES :: "string list" where
  "SAFE_ENV_TEMPLATE_BASENAMES = [''.env.example'', ''.env.sample'', ''.env.template'']"

definition CREDENTIAL_STORE_PARTS :: "string list" where
  "CREDENTIAL_STORE_PARTS =
     [''.anthropic'', ''.aws'', ''.azure'', ''.claude'', ''.codex'', ''.cursor'', ''.docker'',
      ''.gcloud'', ''.gemini'', ''.grok'', ''.gnupg'', ''.kube'', ''.openai'', ''.ssh'']"

definition CREDENTIAL_FILE_BASENAMES :: "string list" where
  "CREDENTIAL_FILE_BASENAMES =
     [''antigravity-oauth-token'', ''login.keychain-db'', ''.git-credentials'', ''.netrc'',
      ''.npmrc'', ''.pypirc'', ''application_default_credentials.json'']"

definition PRIVATE_KEY_EXTENSIONS :: "string list" where
  "PRIVATE_KEY_EXTENSIONS = [''.jks'', ''.key'', ''.keystore'', ''.p12'', ''.pem'', ''.pfx'']"

text \<open>The test of the expressions that end in \<open>(?:[._-].*)?\<close> or \<open>(?:[._-].+)?\<close>
  on what follows the literal start; the dot stops at a line terminator.\<close>

fun no_line_break :: "string \<Rightarrow> bool" where
  "no_line_break [] = True"
| "no_line_break (c # s) = (\<not> line_break_at (c # s) \<and> no_line_break s)"

definition suffix_group :: "nat \<Rightarrow> string \<Rightarrow> bool" where
  "suffix_group least s =
     (case s of [] \<Rightarrow> True
      | c # r \<Rightarrow> c \<in> set ''._-'' \<and> least \<le> length r \<and> no_line_break r)"

definition private_key_basename :: "string \<Rightarrow> bool" where
  "private_key_basename s =
     list_ex (\<lambda>p. starts_with s p \<and> suffix_group 1 (after p s))
       [''id_dsa'', ''id_ecdsa'', ''id_ed25519'', ''id_rsa'']"

definition credential_file_basename :: "string \<Rightarrow> bool" where
  "credential_file_basename s \<longleftrightarrow>
     (starts_with s ''credentials'' \<and> suffix_group 0 (after ''credentials'' s)) \<or>
     (starts_with s ''service-account'' \<and> ends_with (after ''service-account'' s) ''.json'' \<and>
      suffix_group 0
        (let r = after ''service-account'' s in take (length r - length ''.json'') r))"

definition normalizedPathParts :: "string \<Rightarrow> string list" where
  "normalizedPathParts path =
     filter (\<lambda>p. p \<noteq> [] \<and> p \<noteq> ''.'')
       (split_on slash (map (\<lambda>c. if c = CHR 0x5C then slash else c) path))"

text \<open>One component of the path, with the one before it and the one after it.\<close>

definition classify_part ::
    "string option \<Rightarrow> string \<Rightarrow> string option \<Rightarrow> path_decision option" where
  "classify_part prev part nxt =
     (let lower = to_lower part; low_nxt = map_option to_lower nxt;
          both = part @ ''/'' @ nullish nxt [] in
      if lower \<in> set CREDENTIAL_STORE_PARTS then
        Some (sensitivePath CredentialStore part (''credential-store path component: '' @ part))
      else if lower = ''.config'' \<and> low_nxt = Some ''gcloud'' then
        Some (sensitivePath CredentialStore both (''credential-store path component: '' @ both))
      else if lower = ''library'' \<and> low_nxt = Some ''keychains'' then
        Some (sensitivePath CredentialStore both (''credential-store path component: '' @ both))
      else if lower = ''secrets'' \<and> map_option to_lower prev \<noteq> Some ''packages'' then
        Some (sensitivePath SecretContainer part (''secret-container path component: '' @ part))
      else if lower = ''.env'' \<or> lower = ''.envrc'' \<or> starts_with lower ''.envrc.'' \<or>
              (starts_with lower ''.env.'' \<and> lower \<notin> set SAFE_ENV_TEMPLATE_BASENAMES) then
        Some (sensitivePath EnvironmentFile part (''environment secret file: '' @ part))
      else if lower \<in> set CREDENTIAL_FILE_BASENAMES \<or> credential_file_basename lower then
        Some (sensitivePath CredentialFile part (''credential file: '' @ part))
      else if \<not> ends_with lower ''.pub'' \<and> private_key_basename lower then
        Some (sensitivePath PrivateKey part (''private-key basename: '' @ part))
      else if extname lower \<in> set PRIVATE_KEY_EXTENSIONS then
        Some (sensitivePath PrivateKey part (''private-key/container extension: '' @ extname lower))
      else if lower = ''.claudexor'' then
        (case low_nxt of
           None \<Rightarrow> None
         | Some r \<Rightarrow>
             if r \<in> set [''auth'', ''home'', ''homes'', ''secrets''] then
               Some (sensitivePath CredentialStore both (''Claudexor credential/runtime path: '' @ both))
             else None)
      else None)"

fun classify_parts :: "string option \<Rightarrow> string list \<Rightarrow> path_decision" where
  "classify_parts prev [] = ALLOW_PATH"
| "classify_parts prev (part # rest) =
     (case classify_part prev part (case rest of [] \<Rightarrow> None | n # _ \<Rightarrow> Some n) of
        Some d \<Rightarrow> d
      | None \<Rightarrow> classify_parts (Some part) rest)"

definition classifyPath :: "string \<Rightarrow> path_decision" where
  "classifyPath path = classify_parts None (normalizedPathParts path)"

section \<open>Symbolic links\<close>

datatype target_kind = TargetDirectory | TargetFile | TargetOther | TargetUnknown

datatype symlink_deny =
  DenyAbsoluteTarget | DenyExcludedTarget | DenyInvalidSource | DenyRelocationEscape
| DenyTargetKind | DenyTargetOutsideRoot | DenyUnresolvedTarget

record symlink_input =
  sy_sourceRoot :: string
  sy_canonicalSourceRoot :: string
  sy_sourcePath :: string
  sy_linkTarget :: string
  sy_resolvedTargetPath :: "string option"
  sy_targetKind :: target_kind
  sy_allowedTargetKinds :: "target_kind list"
  sy_excludedRoots :: "string list option"
  sy_relocationRoot :: "string option"

record symlink_decision =
  sd_allowed :: bool
  sd_reason :: "symlink_deny option"
  sd_detail :: "string option"

definition denySymlink :: "symlink_deny \<Rightarrow> string \<Rightarrow> symlink_decision" where
  "denySymlink reason detail = \<lparr>sd_allowed = False, sd_reason = Some reason, sd_detail = Some detail\<rparr>"

definition allowSymlink :: symlink_decision where
  "allowSymlink = \<lparr>sd_allowed = True, sd_reason = None, sd_detail = None\<rparr>"

text \<open>\<open>split(/[\\/]+/)[0]\<close>: what stands before the first run of separators.\<close>

definition first_part :: "string \<Rightarrow> string" where
  "first_part p = takeWhile (\<lambda>c. c \<noteq> slash \<and> c \<noteq> CHR 0x5C) p"

definition escapesRelativeRoot :: "string \<Rightarrow> bool" where
  "escapesRelativeRoot path \<longleftrightarrow>
     isAbsolute path \<or> normalize path = ''..'' \<or> first_part (normalize path) = ''..''"

definition isSameOrInside :: "string \<Rightarrow> string \<Rightarrow> string \<Rightarrow> bool" where
  "isSameOrInside cwd parent target =
     (let rel = relative cwd (resolve cwd [parent]) (resolve cwd [target]) in
      rel = [] \<or> (first_part rel \<noteq> ''..'' \<and> \<not> isAbsolute rel))"

definition assessRelocation ::
    "string \<Rightarrow> symlink_input \<Rightarrow> string \<Rightarrow> string \<Rightarrow> string list \<Rightarrow> symlink_decision" where
  "assessRelocation cwd inp sourceRoot sourcePath excludedRoots =
     (if isAbsolute (sy_linkTarget inp) then
        (if truthy (sy_relocationRoot inp) \<noteq> None
         then denySymlink DenyAbsoluteTarget ''absolute symlink targets are not relocatable''
         else allowSymlink)
      else case truthy (sy_relocationRoot inp) of
        None \<Rightarrow> allowSymlink
      | Some reloc \<Rightarrow>
          let relocationRoot = resolve cwd [reloc];
              parentRel = relative cwd sourceRoot (dirname sourcePath) in
          if escapesRelativeRoot parentRel then
            denySymlink DenyInvalidSource ''symlink source parent is outside the allowed root''
          else
            let targetRel = normalize (path_join [parentRel, sy_linkTarget inp]) in
            if escapesRelativeRoot targetRel then
              denySymlink DenyRelocationEscape ''symlink escapes when relocated''
            else
              let relocated = resolve cwd [relocationRoot, targetRel] in
              if \<not> isSameOrInside cwd relocationRoot relocated then
                denySymlink DenyRelocationEscape ''symlink escapes the relocation root''
              else if list_ex (\<lambda>r. isSameOrInside cwd r relocated) excludedRoots then
                denySymlink DenyExcludedTarget ''relocated symlink resolves into an excluded root''
              else allowSymlink)"

definition show_target_kind :: "target_kind \<Rightarrow> string" where
  "show_target_kind k =
     (case k of TargetDirectory \<Rightarrow> ''directory'' | TargetFile \<Rightarrow> ''file''
      | TargetOther \<Rightarrow> ''other'' | TargetUnknown \<Rightarrow> ''unknown'')"

definition assessSymlink :: "string \<Rightarrow> symlink_input \<Rightarrow> symlink_decision" where
  "assessSymlink cwd inp =
     (let sourceRoot = resolve cwd [sy_sourceRoot inp];
          canonicalRoot = resolve cwd [sy_canonicalSourceRoot inp];
          sourcePath = resolve cwd [sy_sourcePath inp];
          excludedRoots = map (\<lambda>p. resolve cwd [p]) (nullish (sy_excludedRoots inp) []) in
      if \<not> isSameOrInside cwd sourceRoot sourcePath then
        denySymlink DenyInvalidSource ''symlink source is outside the allowed root''
      else case truthy (sy_resolvedTargetPath inp) of
        None \<Rightarrow> denySymlink DenyUnresolvedTarget ''symlink target cannot be resolved''
      | Some target \<Rightarrow>
          if sy_targetKind inp \<notin> set (sy_allowedTargetKinds inp) then
            denySymlink DenyTargetKind
              (''symlink target kind is not allowed: '' @ show_target_kind (sy_targetKind inp))
          else
            let resolvedTarget = resolve cwd [target] in
            if \<not> isSameOrInside cwd canonicalRoot resolvedTarget then
              denySymlink DenyTargetOutsideRoot ''symlink resolves outside the allowed root''
            else if list_ex (\<lambda>r. isSameOrInside cwd r resolvedTarget) excludedRoots then
              denySymlink DenyExcludedTarget ''symlink resolves into an excluded root''
            else assessRelocation cwd inp sourceRoot sourcePath excludedRoots)"

section \<open>Risk of a diff\<close>

datatype risk_level = RiskLow | RiskMedium | RiskHigh | RiskCritical

record diff_meta =
  dm_changedPaths :: "string list"
  dm_fileCount :: "nat option"
  dm_additions :: "nat option"
  dm_deletions :: "nat option"
  dm_protectedPaths :: "string list option"

record risk_assessment =
  ra_level :: risk_level
  ra_reasons :: "string list"
  ra_matchedPaths :: "string list"

definition CRITICAL_PATTERNS :: "string list" where
  "CRITICAL_PATTERNS = [''**/deploy/**/prod*'', ''**/terraform/**'', ''**/.github/workflows/release*'']"

definition HIGH_PATTERNS :: "string list" where
  "HIGH_PATTERNS =
     [''**/auth/**'', ''**/payment*/**'', ''**/billing/**'', ''**/security/**'',
      ''**/migrations/**'', ''**/*migration*'', ''**/crypto/**'', ''**/.github/workflows/**'',
      ''**/Dockerfile'', ''**/k8s/**'', ''**/charts/**'']"

definition DEP_PATTERNS :: "string list" where
  "DEP_PATTERNS =
     [''**/package.json'', ''package.json'', ''**/pnpm-lock.yaml'', ''pnpm-lock.yaml'',
      ''**/requirements*.txt'', ''**/Cargo.toml'', ''**/go.mod'']"

definition LARGE_DIFF_FILES :: nat where "LARGE_DIFF_FILES = 20"
definition LARGE_DIFF_LINES :: nat where "LARGE_DIFF_LINES = 500"

definition diff_size :: "nat \<Rightarrow> nat \<Rightarrow> string" where
  "diff_size files churn = ''('' @ show_nat files @ '' files, '' @ show_nat churn @ '' lines)''"

definition classifyRisk :: "diff_meta \<Rightarrow> risk_assessment" where
  "classifyRisk meta =
     (let paths = dm_changedPaths meta;
          fileCount = nullish (dm_fileCount meta) (length paths);
          churn = nullish (dm_additions meta) 0 + nullish (dm_deletions meta) 0;
          protectedHit = filter (\<lambda>p. matchAny p (nullish (dm_protectedPaths meta) [])) paths;
          reasons = (if protectedHit = [] then []
                     else [''touches protected paths: '' @ join '', '' (take 3 protectedHit)]);
          sensitiveHit = filter (\<lambda>p. pd_sensitive (classifyPath p)) paths;
          domainCriticalHit = filter (\<lambda>p. matchAny p CRITICAL_PATTERNS) paths;
          criticalHit = unique (sensitiveHit @ domainCriticalHit) in
      if criticalHit \<noteq> [] \<or> protectedHit \<noteq> [] then
        \<lparr>ra_level = RiskCritical,
         ra_reasons =
           (if sensitiveHit \<noteq> [] then ''sensitive resource paths: '' @ join '', '' (take 3 sensitiveHit)
            else if criticalHit \<noteq> [] then ''critical paths: '' @ join '', '' (take 3 criticalHit)
            else ''protected-path change'') # reasons,
         ra_matchedPaths = unique (criticalHit @ protectedHit)\<rparr>
      else
        let highHit = filter (\<lambda>p. matchAny p HIGH_PATTERNS) paths in
        if highHit \<noteq> [] then
          \<lparr>ra_level = RiskHigh,
           ra_reasons = (''high-risk paths: '' @ join '', '' (take 3 highHit)) # reasons,
           ra_matchedPaths = highHit\<rparr>
        else
          let depHit = filter (\<lambda>p. matchAny p DEP_PATTERNS) paths;
              large = LARGE_DIFF_FILES \<le> fileCount \<or> LARGE_DIFF_LINES \<le> churn;
              noted = reasons @
                (if depHit = [] then []
                 else [''dependency/manifest change: '' @ join '', '' (take 2 depHit)]) @
                (if large then [''large diff '' @ diff_size fileCount churn] else []) in
          if depHit \<noteq> [] \<and> large then
            \<lparr>ra_level = RiskHigh, ra_reasons = noted, ra_matchedPaths = depHit\<rparr>
          else if depHit \<noteq> [] \<or> large then
            \<lparr>ra_level = RiskMedium, ra_reasons = noted, ra_matchedPaths = depHit\<rparr>
          else if fileCount = 0 then
            \<lparr>ra_level = RiskLow, ra_reasons = [''no file changes''], ra_matchedPaths = []\<rparr>
          else if fileCount \<le> 2 \<and> churn \<le> 50 then
            \<lparr>ra_level = RiskLow, ra_reasons = noted @ [''small change '' @ diff_size fileCount churn],
             ra_matchedPaths = []\<rparr>
          else
            \<lparr>ra_level = RiskMedium, ra_reasons = noted @ [''normal change '' @ diff_size fileCount churn],
             ra_matchedPaths = []\<rparr>)"

record review_depth =
  rv_reviewers :: nat
  rv_crossFamily :: bool
  rv_humanApproval :: bool

definition reviewDepthForRisk :: "risk_level \<Rightarrow> review_depth" where
  "reviewDepthForRisk level =
     (case level of
        RiskLow \<Rightarrow> \<lparr>rv_reviewers = 1, rv_crossFamily = False, rv_humanApproval = False\<rparr>
      | RiskMedium \<Rightarrow> \<lparr>rv_reviewers = 1, rv_crossFamily = False, rv_humanApproval = False\<rparr>
      | RiskHigh \<Rightarrow> \<lparr>rv_reviewers = 2, rv_crossFamily = True, rv_humanApproval = False\<rparr>
      | RiskCritical \<Rightarrow> \<lparr>rv_reviewers = 2, rv_crossFamily = True, rv_humanApproval = True\<rparr>)"

end
