(* ===== verification/Policy_Props.thy ===== *)
theory Policy_Props
  imports Policy
begin

text \<open>
  What the path policies promise: writes stay below the workspace root, symbolic links stay inside
  after relocation, the human gate names exactly what matched, and the risk of a diff never falls
  when the diff grows.
\<close>

section \<open>Confinement\<close>

lemma relative_resolved:
  "relative cwd (resolve c1 ps) (resolve c2 qs) =
   join ''/'' (rel_segs (resolve_segs c1 ps) (resolve_segs c2 qs))"
  by (simp add: relative_def resolve_resolved)

text \<open>The test \<open>pathGuard\<close> makes on the relative path, on segments.\<close>

lemma guard_test:
  assumes "list_all clean_seg t"
  shows "(let rel = join ''/'' (rel_segs f t) in rel = [] \<or> starts_with rel ''..'' \<or> isAbsolute rel)
    \<longleftrightarrow> \<not> (\<exists>s r. t = f @ s # r \<and> \<not> starts_with s ''..'')"
  using assms
proof (cases rule: rel_segs_cases [of t f])
  case same
  then show ?thesis by simp
next
  case (inside s r)
  then have s: "s \<noteq> []" "slash \<notin> set s" by (auto simp: clean_seg_def)
  show ?thesis
    using inside s starts_with_join_dots [OF s, of r] isAbsolute_join [OF s, of r]
    by (auto simp: Let_def simp del: join.simps)
next
  case (outside r)
  have "starts_with (join ''/'' (''..'' # r)) ''..''"
    using starts_with_join_dots [of "''..''" r] by (simp del: join.simps)
  then show ?thesis using outside by (auto simp: Let_def simp del: join.simps)
qed

definition guard_target :: "string \<Rightarrow> string \<Rightarrow> string \<Rightarrow> string list" where
  "guard_target cwd workspaceRoot targetPath =
     (if isAbsolute targetPath then resolve_segs cwd [targetPath]
      else resolve_segs cwd [resolve cwd [workspaceRoot], targetPath])"

text \<open>A write is allowed exactly when its target, with every \<open>.\<close> and \<open>..\<close>
  resolved, lies strictly below the resolved workspace root and the first name below the root does
  not itself begin with two dots (which is refused although it may be an ordinary name).\<close>

theorem write_allowed_iff_inside:
  "pg_allowed (pathGuard cwd workspaceRoot targetPath) \<longleftrightarrow>
     (\<exists>name rest. guard_target cwd workspaceRoot targetPath =
        resolve_segs cwd [workspaceRoot] @ name # rest \<and> \<not> starts_with name ''..'')"
proof -
  let ?t = "guard_target cwd workspaceRoot targetPath"
  have clean: "list_all clean_seg ?t"
    by (simp add: guard_target_def resolve_segs_clean)
  have target: "relative cwd (resolve cwd [workspaceRoot])
      (if isAbsolute targetPath then resolve cwd [targetPath]
       else resolve cwd [resolve cwd [workspaceRoot], targetPath]) =
      join ''/'' (rel_segs (resolve_segs cwd [workspaceRoot]) ?t)"
    by (simp add: relative_resolved guard_target_def)
  show ?thesis
    unfolding pathGuard_def Let_def target
    using guard_test [OF clean, of "resolve_segs cwd [workspaceRoot]"]
    by (simp add: Let_def)
qed

section \<open>Symbolic links\<close>

lemma first_part_join:
  assumes "slash \<notin> set s"
  shows "first_part (join ''/'' (s # r)) = first_part s"
proof (cases r)
  case Nil
  then show ?thesis by simp
next
  case (Cons q qs)
  have "takeWhile (\<lambda>c. c \<noteq> slash \<and> c \<noteq> CHR 0x5C) (s @ slash # x) =
      takeWhile (\<lambda>c. c \<noteq> slash \<and> c \<noteq> CHR 0x5C) s" for x
    using assms by (induction s) auto
  then show ?thesis using Cons by (simp add: first_part_def)
qed

text \<open>Inside on segments: the root itself, or below it by a name that is not read as \<open>..\<close>;
  the split at back slashes also reads a POSIX name such as \<open>..\\x\<close> so.\<close>

lemma same_or_inside_iff:
  "isSameOrInside cwd parent target \<longleftrightarrow>
     (let P = resolve_segs cwd [parent]; T = resolve_segs cwd [target] in
      T = P \<or> (\<exists>s r. T = P @ s # r \<and> first_part s \<noteq> ''..''))"
proof -
  let ?P = "resolve_segs cwd [parent]" and ?T = "resolve_segs cwd [target]"
  have rel: "isSameOrInside cwd parent target \<longleftrightarrow>
      (let rel = join ''/'' (rel_segs ?P ?T) in
       rel = [] \<or> (first_part rel \<noteq> ''..'' \<and> \<not> isAbsolute rel))"
    by (simp add: isSameOrInside_def relative_resolved)
  have clean: "list_all clean_seg ?T" by (rule resolve_segs_clean)
  show ?thesis
    using clean
  proof (cases rule: rel_segs_cases [of ?T ?P])
    case same
    then show ?thesis by (simp add: rel)
  next
    case (inside s r)
    then have s: "s \<noteq> []" "slash \<notin> set s" by (auto simp: clean_seg_def)
    show ?thesis
      using inside s first_part_join [OF s(2), of r] isAbsolute_join [OF s, of r]
      by (auto simp: rel Let_def simp del: join.simps)
  next
    case (outside r)
    have "first_part (join ''/'' (''..'' # r)) = ''..''"
      using first_part_join [of "''..''" r] by (simp add: first_part_def del: join.simps)
    moreover have "join ''/'' (''..'' # r) \<noteq> []" by (rule join_slash_ne) simp
    ultimately show ?thesis using outside by (auto simp: rel Let_def simp del: join.simps)
  qed
qed

lemma same_or_insideD:
  "isSameOrInside cwd parent target \<Longrightarrow> \<exists>u. resolve_segs cwd [target] = resolve_segs cwd [parent] @ u"
  by (auto simp: same_or_inside_iff Let_def)

definition below :: "string list \<Rightarrow> string list \<Rightarrow> bool" where
  "below base path \<longleftrightarrow> (\<exists>u. path = base @ u)"

text \<open>The place a relocated link points to.\<close>

definition relocated_segs :: "string \<Rightarrow> symlink_input \<Rightarrow> string \<Rightarrow> string list" where
  "relocated_segs cwd inp reloc =
     resolve_segs cwd [resolve cwd [reloc],
       normalize (path_join
         [relative cwd (resolve cwd [sy_sourceRoot inp])
            (dirname (resolve cwd [sy_sourcePath inp])), sy_linkTarget inp])]"

lemma relocation_safe:
  assumes "sd_allowed (assessRelocation cwd inp (resolve cwd [sy_sourceRoot inp])
      (resolve cwd [sy_sourcePath inp]) excluded)"
    and "sy_relocationRoot inp = Some reloc" and "reloc \<noteq> []"
  shows "\<not> isAbsolute (sy_linkTarget inp)"
    and "below (resolve_segs cwd [reloc]) (relocated_segs cwd inp reloc)"
proof -
  show "\<not> isAbsolute (sy_linkTarget inp)"
    using assms by (auto simp: assessRelocation_def denySymlink_def split: if_splits)
  have "isSameOrInside cwd (resolve cwd [reloc]) (resolve cwd [resolve cwd [reloc],
      normalize (path_join [relative cwd (resolve cwd [sy_sourceRoot inp])
            (dirname (resolve cwd [sy_sourcePath inp])), sy_linkTarget inp])])"
    using assms by (auto simp: assessRelocation_def denySymlink_def Let_def split: if_splits)
  from same_or_insideD [OF this]
  show "below (resolve_segs cwd [reloc]) (relocated_segs cwd inp reloc)"
    by (auto simp: below_def relocated_segs_def resolve_resolved)
qed

text \<open>A symbolic link that is allowed into a copy has its source below the source root, a
  target of an allowed kind that resolves below the canonical root and into no excluded root, and,
  when the copy is relocated, a relative target that stays below the new root.\<close>

theorem allowed_symlink_is_contained:
  assumes "sd_allowed (assessSymlink cwd inp)"
  shows "\<exists>target. sy_resolvedTargetPath inp = Some target \<and>
    sy_targetKind inp \<in> set (sy_allowedTargetKinds inp) \<and>
    below (resolve_segs cwd [sy_sourceRoot inp]) (resolve_segs cwd [sy_sourcePath inp]) \<and>
    below (resolve_segs cwd [sy_canonicalSourceRoot inp]) (resolve_segs cwd [target]) \<and>
    list_all (\<lambda>x. resolve_segs cwd [target] \<noteq> resolve_segs cwd [x])
      (nullish (sy_excludedRoots inp) []) \<and>
    (case sy_relocationRoot inp of
       None \<Rightarrow> True
     | Some reloc \<Rightarrow> reloc = [] \<or>
         (\<not> isAbsolute (sy_linkTarget inp) \<and>
          below (resolve_segs cwd [reloc]) (relocated_segs cwd inp reloc)))"
proof -
  obtain target where t: "truthy (sy_resolvedTargetPath inp) = Some target"
    using assms by (auto simp: assessSymlink_def denySymlink_def Let_def split: if_splits option.splits)
  then have target: "sy_resolvedTargetPath inp = Some target"
    by (cases "sy_resolvedTargetPath inp") (auto split: if_splits)
  have checks: "isSameOrInside cwd (resolve cwd [sy_sourceRoot inp]) (resolve cwd [sy_sourcePath inp])"
    "sy_targetKind inp \<in> set (sy_allowedTargetKinds inp)"
    "isSameOrInside cwd (resolve cwd [sy_canonicalSourceRoot inp]) (resolve cwd [target])"
    "\<not> list_ex (\<lambda>r. isSameOrInside cwd r (resolve cwd [target]))
       (map (\<lambda>p. resolve cwd [p]) (nullish (sy_excludedRoots inp) []))"
    "sd_allowed (assessRelocation cwd inp (resolve cwd [sy_sourceRoot inp])
      (resolve cwd [sy_sourcePath inp]) (map (\<lambda>p. resolve cwd [p]) (nullish (sy_excludedRoots inp) [])))"
    using assms t by (auto simp: assessSymlink_def denySymlink_def Let_def split: if_splits)
  have excl: "list_all (\<lambda>x. resolve_segs cwd [target] \<noteq> resolve_segs cwd [x])
      (nullish (sy_excludedRoots inp) [])"
    using checks(4) by (auto simp: list_ex_iff list_all_iff same_or_inside_iff resolve_resolved Let_def)
  show ?thesis
    using target checks(2) same_or_insideD [OF checks(1)] same_or_insideD [OF checks(3)] excl
      relocation_safe [OF checks(5)]
    by (auto simp: below_def resolve_resolved split: option.splits)
qed

text \<open>A relocated link that is accepted, and one that climbs out of the copy.\<close>

definition example_link :: "string \<Rightarrow> symlink_input" where
  "example_link target =
     \<lparr>sy_sourceRoot = ''/s'', sy_canonicalSourceRoot = ''/s'', sy_sourcePath = ''/s/d/l'',
      sy_linkTarget = target, sy_resolvedTargetPath = Some ''/s/f'', sy_targetKind = TargetFile,
      sy_allowedTargetKinds = [TargetFile], sy_excludedRoots = Some [''/s/.git''],
      sy_relocationRoot = Some ''/copy''\<rparr>"

lemma example_link_allowed: "sd_allowed (assessSymlink ''/'' (example_link ''../f''))"
  by code_simp

theorem allowed_symlink_is_contained_witness:
  "sd_allowed (assessSymlink ''/'' (example_link ''../f'')) \<and>
   sd_reason (assessSymlink ''/'' (example_link ''../../f'')) = Some DenyRelocationEscape \<and>
   below [''s''] (resolve_segs ''/'' [sy_sourcePath (example_link ''../f'')])"
proof (intro conjI)
  show "sd_allowed (assessSymlink ''/'' (example_link ''../f''))" by (rule example_link_allowed)
  show "sd_reason (assessSymlink ''/'' (example_link ''../../f'')) = Some DenyRelocationEscape"
    by code_simp
  have "resolve_segs ''/'' [''/s''] = [''s'']" by code_simp
  then show "below [''s''] (resolve_segs ''/'' [sy_sourcePath (example_link ''../f'')])"
    using allowed_symlink_is_contained [OF example_link_allowed] by (auto simp: example_link_def)
qed

text \<open>The split at back slashes reads a POSIX name that starts with two dots and a back slash as
  a step up, so a target below an excluded root by such a name is not excluded.\<close>

definition odd_link :: symlink_input where
  "odd_link =
     \<lparr>sy_sourceRoot = ''/s'', sy_canonicalSourceRoot = ''/s'', sy_sourcePath = ''/s/l'',
      sy_linkTarget = ''p/..'' @ [CHR 0x5C] @ ''x'',
      sy_resolvedTargetPath = Some (''/s/p/..'' @ [CHR 0x5C] @ ''x''), sy_targetKind = TargetFile,
      sy_allowedTargetKinds = [TargetFile], sy_excludedRoots = Some [''/s/p''],
      sy_relocationRoot = None\<rparr>"

lemma odd_link_not_excluded:
  "sd_allowed (assessSymlink ''/'' odd_link) \<and>
   below (resolve_segs ''/'' [''/s/p''])
     (resolve_segs ''/'' [''/s/p/..'' @ [CHR 0x5C] @ ''x''])"
proof
  show "sd_allowed (assessSymlink ''/'' odd_link)" by code_simp
  have "resolve_segs ''/'' [''/s/p/..'' @ [CHR 0x5C] @ ''x''] =
      resolve_segs ''/'' [''/s/p''] @ [''..'' @ [CHR 0x5C] @ ''x'']"
    by code_simp
  then show "below (resolve_segs ''/'' [''/s/p'']) (resolve_segs ''/'' [''/s/p/..'' @ [CHR 0x5C] @ ''x''])"
    unfolding below_def by blast
qed

section \<open>The human gate\<close>

lemma human_loop_filter:
  "human_loop patterns ps reasons matched =
     (reasons @ map (\<lambda>p. ''change to '' @ p @ '' requires human approval'')
        (filter (\<lambda>p. matchAny p patterns) ps),
      matched @ filter (\<lambda>p. matchAny p patterns) ps)"
  by (induction ps arbitrary: reasons matched) auto

lemma requireHuman_spec:
  "requireHuman ps patterns =
     (let hits = filter (\<lambda>p. matchAny p (nullish patterns DEFAULT_REQUIRE_HUMAN_PATHS)) ps in
      \<lparr>rh_required = hits \<noteq> [],
       rh_reasons = map (\<lambda>p. ''change to '' @ p @ '' requires human approval'') hits,
       rh_matchedPaths = hits\<rparr>)"
  by (simp add: requireHuman_def human_loop_filter Let_def)

section \<open>Risk\<close>

fun risk_rank :: "risk_level \<Rightarrow> nat" where
  "risk_rank RiskLow = 0"
| "risk_rank RiskMedium = 1"
| "risk_rank RiskHigh = 2"
| "risk_rank RiskCritical = 3"

lemma risk_rank_inj: "risk_rank a = risk_rank b \<longleftrightarrow> a = b"
  by (cases a; cases b) simp_all

instantiation risk_level :: linorder
begin

definition less_eq_risk_level :: "risk_level \<Rightarrow> risk_level \<Rightarrow> bool" where
  "less_eq_risk_level a b \<longleftrightarrow> risk_rank a \<le> risk_rank b"

definition less_risk_level :: "risk_level \<Rightarrow> risk_level \<Rightarrow> bool" where
  "less_risk_level a b \<longleftrightarrow> risk_rank a < risk_rank b"

instance
  by standard (auto simp: less_eq_risk_level_def less_risk_level_def risk_rank_inj)

end

definition files_of :: "diff_meta \<Rightarrow> nat" where
  "files_of m = nullish (dm_fileCount m) (length (dm_changedPaths m))"

definition churn_of :: "diff_meta \<Rightarrow> nat" where
  "churn_of m = nullish (dm_additions m) 0 + nullish (dm_deletions m) 0"

definition touches :: "diff_meta \<Rightarrow> string list \<Rightarrow> bool" where
  "touches m patterns \<longleftrightarrow> (\<exists>p \<in> set (dm_changedPaths m). matchAny p patterns)"

definition touches_critical :: "diff_meta \<Rightarrow> bool" where
  "touches_critical m \<longleftrightarrow>
     (\<exists>p \<in> set (dm_changedPaths m). pd_sensitive (classifyPath p)) \<or> touches m CRITICAL_PATTERNS \<or>
     touches m (nullish (dm_protectedPaths m) [])"

definition is_large :: "diff_meta \<Rightarrow> bool" where
  "is_large m \<longleftrightarrow> LARGE_DIFF_FILES \<le> files_of m \<or> LARGE_DIFF_LINES \<le> churn_of m"

lemma filter_hit: "filter P xs \<noteq> [] \<longleftrightarrow> (\<exists>x \<in> set xs. P x)"
  by (induction xs) auto

lemma filter_hit_match: "filter (\<lambda>p. matchAny p pats) (dm_changedPaths m) \<noteq> [] \<longleftrightarrow> touches m pats"
  by (simp add: filter_hit touches_def)

lemma critical_hits:
  "(unique (filter (\<lambda>p. pd_sensitive (classifyPath p)) (dm_changedPaths m) @
      filter (\<lambda>p. matchAny p CRITICAL_PATTERNS) (dm_changedPaths m)) \<noteq> [] \<or>
    filter (\<lambda>p. matchAny p (nullish (dm_protectedPaths m) [])) (dm_changedPaths m) \<noteq> []) \<longleftrightarrow>
   touches_critical m"
  unfolding touches_critical_def touches_def unique_eq_Nil append_is_Nil_conv filter_hit [symmetric]
  by blast

text \<open>The level, read off the four tests and the size.\<close>

lemma risk_level_eq:
  "ra_level (classifyRisk m) =
     (if touches_critical m then RiskCritical
      else if touches m HIGH_PATTERNS \<or> (touches m DEP_PATTERNS \<and> is_large m) then RiskHigh
      else if touches m DEP_PATTERNS \<or> is_large m then RiskMedium
      else if files_of m = 0 \<or> (files_of m \<le> 2 \<and> churn_of m \<le> 50) then RiskLow
      else RiskMedium)"
  unfolding classifyRisk_def Let_def
  unfolding critical_hits
  unfolding filter_hit_match files_of_def [symmetric] churn_of_def [symmetric]
    is_large_def [symmetric]
  by auto

lemma touches_mono:
  "set (dm_changedPaths a) \<subseteq> set (dm_changedPaths b) \<Longrightarrow> set p \<subseteq> set q \<Longrightarrow> touches a p \<Longrightarrow> touches b q"
  by (fastforce simp: touches_def matchAny_def list_ex_iff)

text \<open>The risk of a diff never falls when the diff grows: more paths, files, lines or protected
  globs give the same level or a higher one.\<close>

theorem risk_is_monotone:
  assumes paths: "set (dm_changedPaths a) \<subseteq> set (dm_changedPaths b)"
    and files: "files_of a \<le> files_of b" and churn: "churn_of a \<le> churn_of b"
    and prot: "set (nullish (dm_protectedPaths a) []) \<subseteq> set (nullish (dm_protectedPaths b) [])"
  shows "ra_level (classifyRisk a) \<le> ra_level (classifyRisk b)"
proof -
  have crit: "touches_critical a \<Longrightarrow> touches_critical b"
    using paths touches_mono [OF paths prot] touches_mono [OF paths subset_refl, of CRITICAL_PATTERNS]
    unfolding touches_critical_def by blast
  have high: "touches a HIGH_PATTERNS \<Longrightarrow> touches b HIGH_PATTERNS"
    and dep: "touches a DEP_PATTERNS \<Longrightarrow> touches b DEP_PATTERNS"
    by (rule touches_mono [OF paths subset_refl], assumption)+
  have large: "is_large a \<Longrightarrow> is_large b"
    using files churn unfolding is_large_def by linarith
  define sa where "sa \<longleftrightarrow> files_of a = 0 \<or> (files_of a \<le> 2 \<and> churn_of a \<le> 50)"
  define sb where "sb \<longleftrightarrow> files_of b = 0 \<or> (files_of b \<le> 2 \<and> churn_of b \<le> 50)"
  have small: "sb \<Longrightarrow> sa" unfolding sa_def sb_def using files churn by linarith
  show ?thesis
    unfolding risk_level_eq less_eq_risk_level_def sa_def [symmetric] sb_def [symmetric]
    using crit high dep large small by auto
qed

definition small_diff :: diff_meta where
  "small_diff = \<lparr>dm_changedPaths = [''src/a.ts''], dm_fileCount = Some 1, dm_additions = Some 3,
     dm_deletions = None, dm_protectedPaths = None\<rparr>"

definition grown_diff :: diff_meta where
  "grown_diff = small_diff\<lparr>dm_changedPaths := [''src/a.ts'', ''src/auth/b.ts''], dm_fileCount := Some 2\<rparr>"

lemmas classify_eval =
  classifyPath_def normalizedPathParts_def classify_part_def to_lower_def lower_char_def
  CREDENTIAL_STORE_PARTS_def SAFE_ENV_TEMPLATE_BASENAMES_def CREDENTIAL_FILE_BASENAMES_def
  PRIVATE_KEY_EXTENSIONS_def credential_file_basename_def private_key_basename_def
  suffix_group_def ends_with_def extname_def ALLOW_PATH_def sensitivePath_def

lemmas glob_eval =
  matchAny_def unit_tail_def line_break_at_def CRITICAL_PATTERNS_def HIGH_PATTERNS_def DEP_PATTERNS_def

lemma small_diff_low: "ra_level (classifyRisk small_diff) = RiskLow"
  by (simp add: risk_level_eq touches_critical_def touches_def is_large_def files_of_def churn_of_def
      small_diff_def classify_eval glob_eval LARGE_DIFF_FILES_def LARGE_DIFF_LINES_def)

lemma grown_diff_high: "ra_level (classifyRisk grown_diff) = RiskHigh"
  by (simp add: risk_level_eq touches_critical_def touches_def is_large_def files_of_def churn_of_def
      small_diff_def grown_diff_def classify_eval glob_eval)

theorem risk_is_monotone_witness:
  "ra_level (classifyRisk small_diff) = RiskLow \<and> ra_level (classifyRisk grown_diff) = RiskHigh \<and>
   ra_level (classifyRisk small_diff) \<le> ra_level (classifyRisk grown_diff)"
proof (intro conjI)
  show "ra_level (classifyRisk small_diff) = RiskLow" by (rule small_diff_low)
  show "ra_level (classifyRisk grown_diff) = RiskHigh" by (rule grown_diff_high)
  show "ra_level (classifyRisk small_diff) \<le> ra_level (classifyRisk grown_diff)"
    by (rule risk_is_monotone) (simp_all add: small_diff_def grown_diff_def files_of_def churn_of_def)
qed

section \<open>Credential-shaped paths\<close>

lemma classify_parts_store:
  "part \<in> set parts \<Longrightarrow> to_lower part \<in> set CREDENTIAL_STORE_PARTS \<Longrightarrow>
   pd_sensitive (classify_parts prev parts)"
proof (induction prev parts rule: classify_parts.induct)
  case (1 prev)
  then show ?case by simp
next
  case (2 prev q rest)
  show ?case
  proof (cases "classify_part prev q (case rest of [] \<Rightarrow> None | n # _ \<Rightarrow> Some n)")
    case None
    then have "part \<noteq> q" using 2 by (auto simp: classify_part_def Let_def)
    then show ?thesis using None 2 by simp
  next
    case (Some d)
    then have "pd_sensitive d"
      by (auto simp: classify_part_def sensitivePath_def Let_def split: if_splits option.splits)
    then show ?thesis using Some by simp
  qed
qed

text \<open>A diff that touches a credential store anywhere in a path is critical, names that path
  as its evidence, and asks for two reviewers of different families and a human.\<close>

theorem credential_store_is_critical:
  assumes "path \<in> set (dm_changedPaths m)" and "part \<in> set (normalizedPathParts path)"
    and "to_lower part \<in> set CREDENTIAL_STORE_PARTS"
  shows "ra_level (classifyRisk m) = RiskCritical \<and> path \<in> set (ra_matchedPaths (classifyRisk m)) \<and>
    reviewDepthForRisk (ra_level (classifyRisk m)) =
      \<lparr>rv_reviewers = 2, rv_crossFamily = True, rv_humanApproval = True\<rparr>"
proof -
  have s: "pd_sensitive (classifyPath path)"
    unfolding classifyPath_def using assms(2,3) by (rule classify_parts_store)
  then have hit: "path \<in> set (filter (\<lambda>p. pd_sensitive (classifyPath p)) (dm_changedPaths m))"
    using assms(1) by simp
  have crit: "touches_critical m" using s assms(1) by (auto simp: touches_critical_def)
  then have "ra_level (classifyRisk m) = RiskCritical" by (simp add: risk_level_eq)
  moreover have "path \<in> set (ra_matchedPaths (classifyRisk m))"
    unfolding classifyRisk_def Let_def unfolding critical_hits using crit s assms(1) by simp
  ultimately show ?thesis by (simp add: reviewDepthForRisk_def)
qed

theorem credential_store_is_critical_witness:
  "ra_level (classifyRisk (small_diff\<lparr>dm_changedPaths := [''app/.AWS/credentials'']\<rparr>)) = RiskCritical"
proof -
  let ?m = "small_diff\<lparr>dm_changedPaths := [''app/.AWS/credentials'']\<rparr>"
  have "''.AWS'' \<in> set (normalizedPathParts ''app/.AWS/credentials'')"
    by (simp add: normalizedPathParts_def)
  moreover have "to_lower ''.AWS'' \<in> set CREDENTIAL_STORE_PARTS"
    by code_simp
  ultimately show ?thesis
    using credential_store_is_critical [of "''app/.AWS/credentials''" ?m "''.AWS''"] by simp
qed

end
