(* ===== verification/Diff.thy ===== *)
theory Diff
  imports Text_Ops
begin

text \<open>
  The unified-diff header parser of \<open>packages/core/src/diff.ts\<close>: unquoting of git paths, the
  line scanner with its two document modes (git-anchored and plain), and the path summary the
  policies read. The scanner is a fold over the lines whose state holds the variables of
  \<open>parseUnifiedDiff\<close>; a plain file header consumes two lines.
\<close>

section \<open>Git paths\<close>

abbreviation backslash :: char where "backslash \<equiv> CHR 0x5C"
abbreviation dquote :: char where "dquote \<equiv> CHR 0x22"

definition octal :: "char \<Rightarrow> bool" where
  "octal c \<longleftrightarrow> (let b = of_char c :: nat in 48 \<le> b \<and> b \<le> 55)"

definition octal_value :: "string \<Rightarrow> nat" where
  "octal_value ds = foldl (\<lambda>n c. 8 * n + (of_char c - 48)) 0 ds"

definition simple_escape :: "char \<Rightarrow> char option" where
  "simple_escape c =
     map_of [(CHR ''n'', CHR 0x0A), (CHR ''t'', CHR 0x09),
       (CHR ''r'', CHR 0x0D), (dquote, dquote), (backslash, backslash),
       (CHR ''a'', CHR 0x07), (CHR ''b'', CHR 0x08),
       (CHR ''f'', CHR 0x0C), (CHR ''v'', CHR 0x0B)] c"

text \<open>
  The loop over the quoted text. It reads UTF-16 units and encodes each on its own, so a character
  outside the basic plane, four bytes long, comes out as two replacement characters. A backslash
  before a character without an escape is dropped.
\<close>

function unescape :: "string \<Rightarrow> string" where
  "unescape [] = []"
| "unescape (c # s) =
     (if c \<noteq> backslash then
        (if 240 \<le> (of_char c :: nat) then replacement @ replacement @ unescape (drop 3 s)
         else c # unescape s)
      else case s of
        [] \<Rightarrow> []
      | d # t \<Rightarrow>
          if octal d then
            (let ds = d # takeWhile octal (take 2 t)
             in char_of (octal_value ds) # unescape (drop (length ds - 1) t))
          else case simple_escape d of
              Some e \<Rightarrow> e # unescape t
            | None \<Rightarrow> unescape s)"
  by pat_completeness auto
termination by (relation "measure length") auto

definition cUnquoteGitPath :: "string \<Rightarrow> string" where
  "cUnquoteGitPath raw =
     (let t = trim raw in
      if \<not> starts_with t [dquote] \<or> \<not> ends_with t [dquote] \<or> length t < 2 then t
      else utf8_text (unescape (butlast (tl t))))"

text \<open>How far the closing quote stands behind the opening one; a backslash hides the next
  character.\<close>

fun quote_end :: "string \<Rightarrow> nat" where
  "quote_end [] = 0"
| "quote_end (c # s) =
     (if c = backslash then (case s of [] \<Rightarrow> 2 | _ # t \<Rightarrow> Suc (Suc (quote_end t)))
      else if c = dquote then 0 else Suc (quote_end s))"

text \<open>The two path tokens of a \<open>diff --git\<close> line; the number says how many are missing.\<close>

fun header_tokens :: "nat \<Rightarrow> string \<Rightarrow> string list" where
  "header_tokens 0 s = []"
| "header_tokens (Suc n) s =
     (case dropWhile (\<lambda>c. c = CHR '' '') s of
        [] \<Rightarrow> []
      | c # t \<Rightarrow>
          (let r = c # t in
           if c = dquote then
             cUnquoteGitPath (take (quote_end t + 2) r) # header_tokens n (drop (quote_end t + 2) r)
           else if Suc n = 2 then
             (case str_index r '' b/'' of
                None \<Rightarrow> takeWhile (\<lambda>x. x \<noteq> CHR '' '') r #
                  header_tokens n (dropWhile (\<lambda>x. x \<noteq> CHR '' '') r)
              | Some b \<Rightarrow> take b r # header_tokens n (drop (Suc b) r))
           else [trim r]))"

definition splitHeaderPaths :: "string \<Rightarrow> (string \<times> string) option" where
  "splitHeaderPaths rest =
     (case header_tokens 2 rest of
        [a, b] \<Rightarrow> if a \<noteq> [] \<and> b \<noteq> [] then Some (a, b) else None
      | _ \<Rightarrow> None)"

text \<open>A plain header path ends at the tab of the GNU timestamp.\<close>

definition plainHeaderPath :: "string \<Rightarrow> string" where
  "plainHeaderPath raw = cUnquoteGitPath (takeWhile (\<lambda>c. c \<noteq> CHR 0x09) raw)"

section \<open>The scanner\<close>

record diff_file_entry =
  de_oldPath :: "string option"
  de_newPath :: "string option"
  de_added :: bool
  de_deleted :: bool
  de_renamed :: bool
  de_binary :: bool
  de_binaryStub :: bool

record diff_state =
  df_files :: "diff_file_entry list"
  df_current :: "diff_file_entry option"
  df_plainDoc :: "bool option"
  df_inHunk :: bool
  df_sawGitPayload :: bool
  df_sawBinaryStub :: bool
  df_additions :: nat
  df_deletions :: nat
  df_hunks :: nat

definition diff_init :: diff_state where
  "diff_init = \<lparr>df_files = [], df_current = None, df_plainDoc = None, df_inHunk = False,
     df_sawGitPayload = False, df_sawBinaryStub = False, df_additions = 0, df_deletions = 0,
     df_hunks = 0\<rparr>"

definition flush :: "diff_state \<Rightarrow> diff_state" where
  "flush st =
     (case df_current st of
        None \<Rightarrow> st
      | Some e \<Rightarrow>
          st\<lparr>df_files := df_files st @
               [if de_binary e then e\<lparr>de_binaryStub := df_sawBinaryStub st \<and> \<not> df_sawGitPayload st\<rparr>
                else e],
             df_current := None, df_sawGitPayload := False, df_sawBinaryStub := False\<rparr>)"

definition headerWitness :: "string \<Rightarrow> bool" where
  "headerWitness l \<longleftrightarrow> CHR 0x09 \<in> set l \<or> trim (drop 4 l) = ''/dev/null''"

text \<open>The structural triple at the head of the lines that are left.\<close>

definition plainFileHeaderAt :: "string list \<Rightarrow> bool \<Rightarrow> bool" where
  "plainFileHeaderAt ls midHunk =
     (case ls of
        a # b # c # _ \<Rightarrow>
          starts_with a ''--- '' \<and> starts_with b ''+++ '' \<and> starts_with c ''@@'' \<and>
          (midHunk \<longrightarrow> headerWitness a \<and> headerWitness b)
      | _ \<Rightarrow> False)"

definition git_header :: "diff_state \<Rightarrow> string \<Rightarrow> diff_state" where
  "git_header st line =
     (let s1 = (if df_plainDoc st = None then st\<lparr>df_plainDoc := Some False\<rparr> else st);
          paths = splitHeaderPaths (after ''diff --git '' line) in
      (flush s1)\<lparr>df_inHunk := False,
        df_current := Some \<lparr>
          de_oldPath = map_option (\<lambda>p. stripPrefix (fst p) ''a/'') paths,
          de_newPath = map_option (\<lambda>p. stripPrefix (snd p) ''b/'') paths,
          de_added = False, de_deleted = False, de_renamed = False, de_binary = False,
          de_binaryStub = False\<rparr>\<rparr>)"

definition is_binary_stub :: "string \<Rightarrow> bool" where
  "is_binary_stub line \<longleftrightarrow> starts_with line ''Binary files '' \<and> ends_with line '' differ''"

definition decide_plain :: "diff_state \<Rightarrow> string \<Rightarrow> diff_state" where
  "decide_plain st line =
     (if df_plainDoc st = None \<and> df_current st = None \<and>
         (starts_with line ''diff '' \<or> is_binary_stub line)
      then st\<lparr>df_plainDoc := Some True\<rparr> else st)"

definition side_path :: "string \<Rightarrow> string \<Rightarrow> string option" where
  "side_path raw prefix = (if raw = ''/dev/null'' then None else Some (stripPrefix raw prefix))"

definition plain_header :: "diff_state \<Rightarrow> string \<Rightarrow> string \<Rightarrow> diff_state" where
  "plain_header st oldLine newLine =
     (let oldRaw = plainHeaderPath (drop 4 oldLine); newRaw = plainHeaderPath (drop 4 newLine) in
      (flush (st\<lparr>df_plainDoc := Some True\<rparr>))\<lparr>df_inHunk := False,
        df_current := Some \<lparr>
          de_oldPath = side_path oldRaw ''a/'', de_newPath = side_path newRaw ''b/'',
          de_added = (oldRaw = ''/dev/null''), de_deleted = (newRaw = ''/dev/null''),
          de_renamed = False, de_binary = False, de_binaryStub = False\<rparr>\<rparr>)"

text \<open>\<open>slice("Binary files ".length, -" differ".length)\<close>.\<close>

definition stub_body :: "string \<Rightarrow> string" where
  "stub_body line = drop 13 (take (length line - 7) line)"

definition plain_stub :: "diff_state \<Rightarrow> string \<Rightarrow> diff_state" where
  "plain_stub st line =
     (let s1 = (flush st)\<lparr>df_inHunk := False\<rparr>; body = stub_body line;
          sep = str_index body '' and '' in
      s1\<lparr>df_files := df_files s1 @
        [\<lparr>de_oldPath = map_option (\<lambda>k. stripPrefix (take k body) ''a/'') sep,
          de_newPath = map_option (\<lambda>k. stripPrefix (drop (k + 5) body) ''b/'') sep,
          de_added = False, de_deleted = False, de_renamed = False, de_binary = True,
          de_binaryStub = True\<rparr>]\<rparr>)"

text \<open>A line in header position.\<close>

definition header_line :: "diff_state \<Rightarrow> diff_file_entry \<Rightarrow> string \<Rightarrow> diff_state" where
  "header_line st e line =
     (if starts_with line ''new file mode '' then st\<lparr>df_current := Some (e\<lparr>de_added := True\<rparr>)\<rparr>
      else if starts_with line ''deleted file mode '' then
        st\<lparr>df_current := Some (e\<lparr>de_deleted := True\<rparr>)\<rparr>
      else if starts_with line ''rename from '' then
        st\<lparr>df_current := Some (e\<lparr>de_renamed := True,
          de_oldPath := Some (cUnquoteGitPath (after ''rename from '' line))\<rparr>)\<rparr>
      else if starts_with line ''rename to '' then
        st\<lparr>df_current := Some (e\<lparr>de_renamed := True,
          de_newPath := Some (cUnquoteGitPath (after ''rename to '' line))\<rparr>)\<rparr>
      else if starts_with line ''--- '' then
        (let raw = cUnquoteGitPath (drop 4 line) in
         if raw = ''/dev/null'' then st\<lparr>df_current := Some (e\<lparr>de_added := True, de_oldPath := None\<rparr>)\<rparr>
         else st\<lparr>df_current := Some (e\<lparr>de_oldPath := Some (stripPrefix raw ''a/'')\<rparr>)\<rparr>)
      else if starts_with line ''+++ '' then
        (let raw = cUnquoteGitPath (drop 4 line) in
         if raw = ''/dev/null'' then st\<lparr>df_current := Some (e\<lparr>de_deleted := True, de_newPath := None\<rparr>)\<rparr>
         else st\<lparr>df_current := Some (e\<lparr>de_newPath := Some (stripPrefix raw ''b/'')\<rparr>)\<rparr>)
      else if starts_with line ''GIT binary patch'' then
        st\<lparr>df_current := Some (e\<lparr>de_binary := True\<rparr>), df_sawGitPayload := True\<rparr>
      else if is_binary_stub line then
        st\<lparr>df_current := Some (e\<lparr>de_binary := True\<rparr>), df_sawBinaryStub := True\<rparr>
      else st)"

definition hunk_line :: "diff_state \<Rightarrow> string \<Rightarrow> diff_state" where
  "hunk_line st line =
     (if starts_with line ''+'' then st\<lparr>df_additions := Suc (df_additions st)\<rparr>
      else if starts_with line ''-'' then st\<lparr>df_deletions := Suc (df_deletions st)\<rparr>
      else st)"

text \<open>One line that opens no file of its own.\<close>

definition plain_line :: "diff_state \<Rightarrow> string \<Rightarrow> diff_state" where
  "plain_line st line =
     (if df_plainDoc st = Some True \<and> is_binary_stub line then plain_stub st line
      else if df_plainDoc st = Some True \<and> starts_with line ''diff '' then
        (flush st)\<lparr>df_inHunk := False\<rparr>
      else if starts_with line ''@@'' then st\<lparr>df_inHunk := True, df_hunks := Suc (df_hunks st)\<rparr>
      else if df_inHunk st then hunk_line st line
      else case df_current st of None \<Rightarrow> st | Some e \<Rightarrow> header_line st e line)"

definition plain_boundary :: "diff_state \<Rightarrow> string list \<Rightarrow> bool" where
  "plain_boundary st ls \<longleftrightarrow>
     df_plainDoc st \<noteq> Some False \<and>
     (df_current st = None \<or> (df_plainDoc st = Some True \<and> df_inHunk st)) \<and>
     plainFileHeaderAt ls (df_plainDoc st = Some True \<and> df_inHunk st)"

function diff_lines :: "diff_state \<Rightarrow> string list \<Rightarrow> diff_state" where
  "diff_lines st [] = st"
| "diff_lines st (line # rest) =
     (if starts_with line ''diff --git '' then diff_lines (git_header st line) rest
      else
        let s1 = decide_plain st line in
        if plain_boundary s1 (line # rest) then
          diff_lines (plain_header s1 line (hd rest)) (tl rest)
        else diff_lines (plain_line s1 line) rest)"
  by pat_completeness auto
termination by (relation "measure (\<lambda>(st, ls). length ls)") (auto simp: less_Suc_eq_le)

record unified_diff_summary =
  ud_files :: "diff_file_entry list"
  ud_additions :: nat
  ud_deletions :: nat
  ud_hunks :: nat

definition parseUnifiedDiff :: "string \<Rightarrow> unified_diff_summary" where
  "parseUnifiedDiff diff =
     (let st = flush (diff_lines diff_init (split_on CHR 0x0A diff)) in
      \<lparr>ud_files = df_files st, ud_additions = df_additions st, ud_deletions = df_deletions st,
       ud_hunks = df_hunks st\<rparr>)"

section \<open>The paths a diff touches\<close>

record diff_path_summary =
  dp_paths :: "string list"
  dp_addedPaths :: "string list"
  dp_modifiedPaths :: "string list"
  dp_existingPaths :: "string list"
  dp_touchedPaths :: "string list"
  dp_additions :: nat
  dp_deletions :: nat

definition file_path :: "diff_file_entry \<Rightarrow> string option" where
  "file_path f = truthy (or_else (de_newPath f) (de_oldPath f))"

text \<open>The four lists after the loop: all paths, added, modified, existing.\<close>

fun path_lists ::
    "diff_file_entry list \<Rightarrow> string list \<Rightarrow> string list \<Rightarrow> string list \<Rightarrow> string list \<Rightarrow>
     string list \<times> string list \<times> string list \<times> string list" where
  "path_lists [] ps as ms es = (ps, as, ms, es)"
| "path_lists (f # fs) ps as ms es =
     (case file_path f of
        None \<Rightarrow> path_lists fs ps as ms es
      | Some p \<Rightarrow>
          if de_added f then path_lists fs (ps @ [p]) (as @ [p]) ms es
          else path_lists fs (ps @ [p]) as (ms @ [p])
                 (es @ (case truthy (de_oldPath f) of None \<Rightarrow> [] | Some q \<Rightarrow> [q]) @ [p]))"

definition summarizeDiffPaths :: "string \<Rightarrow> diff_path_summary" where
  "summarizeDiffPaths diff =
     (let parsed = parseUnifiedDiff diff in
      case path_lists (ud_files parsed) [] [] [] [] of (ps, as, ms, es) \<Rightarrow>
        \<lparr>dp_paths = ps, dp_addedPaths = as, dp_modifiedPaths = ms, dp_existingPaths = unique es,
         dp_touchedPaths = unique (ps @ unique es),
         dp_additions = ud_additions parsed, dp_deletions = ud_deletions parsed\<rparr>)"

end
