(* ===== verification/Diff_Props.thy ===== *)
theory Diff_Props
  imports Diff Policy_Props
begin

text \<open>
  What the diff parser promises: paths quoted by git are read back, the content of a hunk cannot
  pose as structure, the diffs git writes are read back entry by entry, and the touched set that the
  policies match is complete.
\<close>

section \<open>Quoted paths\<close>

text \<open>
  How git writes a path (\<open>quote_c_style\<close> under the default \<open>core.quotePath\<close>): a quote, a
  backslash, a control byte or a byte outside ASCII makes it quote the whole name, with a letter for the control
  bytes that have one and three octal digits for the others.
\<close>

definition octal_digit :: "nat \<Rightarrow> char" where
  "octal_digit n = char_of (48 + n)"

definition git_letter :: "char \<Rightarrow> char option" where
  "git_letter c =
     map_of [(CHR 0x07, CHR ''a''), (CHR 0x08, CHR ''b''), (CHR 0x09, CHR ''t''),
       (CHR 0x0A, CHR ''n''), (CHR 0x0B, CHR ''v''), (CHR 0x0C, CHR ''f''),
       (CHR 0x0D, CHR ''r''), (dquote, dquote), (backslash, backslash)] c"

definition needs_quote :: "char \<Rightarrow> bool" where
  "needs_quote c \<longleftrightarrow>
     (let b = of_char c :: nat in b < 32 \<or> 127 \<le> b \<or> c = dquote \<or> c = backslash)"

definition git_quote_char :: "char \<Rightarrow> string" where
  "git_quote_char c =
     (let b = of_char c :: nat in
      if \<not> needs_quote c then [c]
      else case git_letter c of
          Some l \<Rightarrow> [backslash, l]
        | None \<Rightarrow>
            [backslash, octal_digit (b div 64), octal_digit (b div 8 mod 8), octal_digit (b mod 8)])"

definition git_quote :: "string \<Rightarrow> string" where
  "git_quote s = [dquote] @ concat (map git_quote_char s) @ [dquote]"

text \<open>A name behind its prefix, which the quotes include.\<close>

definition git_name :: "string \<Rightarrow> string \<Rightarrow> string" where
  "git_name prefix p =
     (if list_ex needs_quote p then git_quote (prefix @ p) else prefix @ p)"

lemma octal_digit_octal [simp]: "n < 8 \<Longrightarrow> octal (octal_digit n)"
  by (simp add: octal_def octal_digit_def of_char_of)

lemma octal_digit_value: "n < 8 \<Longrightarrow> (of_char (octal_digit n) :: nat) = 48 + n"
  by (simp add: octal_digit_def of_char_of)

lemma unescape_octal:
  assumes "a < 8" and "b < 8" and "c < 8"
  shows "unescape ([backslash, octal_digit a, octal_digit b, octal_digit c] @ s) =
    char_of (64 * a + 8 * b + c) # unescape s"
  using assms by (simp add: octal_value_def octal_digit_value algebra_simps)

lemma octal_parts: "(b :: nat) = 64 * (b div 64) + 8 * (b div 8 mod 8) + b mod 8"
proof -
  have "b = 8 * (b div 8) + b mod 8" by simp
  moreover have "b div 8 = 8 * (b div 8 div 8) + b div 8 mod 8" by simp
  moreover have "b div 8 div 8 = b div 64" by (simp flip: div_mult2_eq)
  ultimately show ?thesis by linarith
qed

lemma git_letter_unescape:
  assumes "git_letter c = Some l"
  shows "\<not> octal l \<and> simple_escape l = Some c"
  using assms
  by (auto simp: git_letter_def octal_def simple_escape_def split: if_splits)

lemma unescape_letter:
  "\<not> octal l \<Longrightarrow> simple_escape l = Some c \<Longrightarrow> unescape (backslash # l # s) = c # unescape s"
  by simp

lemma unescape_quote_char: "unescape (git_quote_char c @ s) = c # unescape s"
proof -
  let ?b = "of_char c :: nat"
  have lt: "?b < 256" using nat_of_char_less_256 [of c] by simp
  consider "\<not> needs_quote c" | l where "needs_quote c" "git_letter c = Some l"
    | "needs_quote c" "git_letter c = None" by fastforce
  then show ?thesis
  proof cases
    case 1
    then show ?thesis by (simp add: git_quote_char_def needs_quote_def Let_def)
  next
    case (2 l)
    then have "git_quote_char c @ s = backslash # l # s" by (simp add: git_quote_char_def Let_def)
    then show ?thesis using git_letter_unescape [OF 2(2)] unescape_letter by metis
  next
    case 3
    have "unescape (git_quote_char c @ s) = char_of (64 * (?b div 64) + 8 * (?b div 8 mod 8) + ?b mod 8) # unescape s"
    proof -
      have "?b < 8 * 64" by (rule order.strict_trans [OF lt]) simp
      then have "?b div 64 < 8" "?b div 8 mod 8 < 8" "?b mod 8 < 8"
        by (simp_all add: less_mult_imp_div_less)
      from unescape_octal [OF this, of s] show ?thesis
        using 3 by (simp add: git_quote_char_def Let_def del: unescape.simps)
    qed
    also have "64 * (?b div 64) + 8 * (?b div 8 mod 8) + ?b mod 8 = ?b"
      using octal_parts [of ?b] by simp
    finally show ?thesis by simp
  qed
qed

lemma unescape_quoted: "unescape (concat (map git_quote_char s)) = s"
  by (induction s) (simp_all add: unescape_quote_char del: unescape.simps(2))

lemma trim_quoted: "trim ([dquote] @ s @ [dquote]) = [dquote] @ s @ [dquote]"
  by (simp add: trim_def js_space_def)

text \<open>A path that git quotes, with octal escapes for every byte outside printable ASCII, is read
  back byte for byte when it is well-formed UTF-8.\<close>

theorem git_path_roundtrip:
  assumes "utf8_ok path"
  shows "cUnquoteGitPath (git_quote path) = path"
proof -
  let ?q = "concat (map git_quote_char path)"
  have t: "trim (git_quote path) = [dquote] @ ?q @ [dquote]"
    unfolding git_quote_def by (rule trim_quoted)
  have "cUnquoteGitPath (git_quote path) = utf8_text (unescape (butlast (?q @ [dquote])))"
    unfolding cUnquoteGitPath_def t by (simp add: Let_def ends_with_def)
  then show ?thesis using utf8_text_ok [OF assms] by (simp add: unescape_quoted)
qed

theorem git_path_roundtrip_witness:
  "cUnquoteGitPath (git_quote (''caf'' @ [CHR 0xC3, CHR 0xA9] @ '' menu'')) =
     ''caf'' @ [CHR 0xC3, CHR 0xA9] @ '' menu''"
  by (rule git_path_roundtrip) (simp add: utf8_tail_def)

text \<open>A character outside the basic plane that stands unescaped inside the quotes is lost: each half
  of its surrogate pair is encoded on its own.\<close>

lemma astral_path_is_garbled:
  "cUnquoteGitPath ([dquote, CHR 0xF0, CHR 0x9F, CHR 0x98, CHR 0x80, dquote]) = replacement @ replacement"
  by (simp add: cUnquoteGitPath_def trim_def js_space_def ends_with_def Let_def replacement_def utf8_tail_def)

section \<open>Git-anchored documents\<close>

text \<open>In a git-anchored document every line is read on its own: the plain-mode lookahead is off.\<close>

definition git_line :: "diff_state \<Rightarrow> string \<Rightarrow> diff_state" where
  "git_line st line =
     (if starts_with line ''diff --git '' then git_header st line else plain_line st line)"

lemma flush_mode [simp]: "df_plainDoc (flush st) = df_plainDoc st"
  by (simp add: flush_def split: option.splits)

lemma git_line_mode:
  "df_plainDoc st = Some False \<Longrightarrow> df_plainDoc (git_line st line) = Some False"
  by (simp add: git_line_def git_header_def plain_line_def hunk_line_def header_line_def Let_def
      split: option.splits)

lemma git_mode_lines:
  "df_plainDoc st = Some False \<Longrightarrow>
   diff_lines st (ls @ rs) = diff_lines (foldl git_line st ls) rs \<and>
   df_plainDoc (foldl git_line st ls) = Some False"
proof (induction ls arbitrary: st)
  case Nil
  then show ?case by simp
next
  case (Cons l ls)
  have step: "diff_lines st (l # ls @ rs) = diff_lines (git_line st l) (ls @ rs)"
    using Cons.prems by (simp add: git_line_def decide_plain_def plain_boundary_def Let_def)
  show ?case
    using Cons.IH [OF git_line_mode [OF Cons.prems]] step by simp
qed

text \<open>The lines a hunk may contain: context, added, removed, and the marker of a missing newline.\<close>

definition hunk_text :: "string \<Rightarrow> bool" where
  "hunk_text l \<longleftrightarrow> (case l of [] \<Rightarrow> False | c # _ \<Rightarrow> c \<in> set ('' +-'' @ [backslash]))"

definition added :: "string list \<Rightarrow> nat" where
  "added ls = length (filter (\<lambda>l. starts_with l ''+'') ls)"

definition removed :: "string list \<Rightarrow> nat" where
  "removed ls = length (filter (\<lambda>l. starts_with l ''-'') ls)"

lemma hunk_text_line:
  assumes "df_plainDoc st = Some False" and "df_inHunk st" and "hunk_text l"
  shows "git_line st l = hunk_line st l"
proof -
  obtain c r where l: "l = c # r" and c: "c \<in> set ('' +-'' @ [backslash])"
    using assms(3) by (auto simp: hunk_text_def split: list.splits)
  then have "\<not> starts_with l ''diff --git ''" "\<not> starts_with l ''@@''" by auto
  then show ?thesis using assms by (simp add: git_line_def plain_line_def)
qed

lemma hunk_text_lines:
  "df_plainDoc st = Some False \<Longrightarrow> df_inHunk st \<Longrightarrow> list_all hunk_text ls \<Longrightarrow>
   foldl git_line st ls =
     st\<lparr>df_additions := df_additions st + added ls, df_deletions := df_deletions st + removed ls\<rparr>"
proof (induction ls arbitrary: st)
  case Nil
  then show ?case by (simp add: added_def removed_def)
next
  case (Cons l ls)
  have h: "git_line st l = hunk_line st l" using Cons.prems by (simp add: hunk_text_line)
  have keep: "df_plainDoc (hunk_line st l) = Some False" "df_inHunk (hunk_line st l)"
    using Cons.prems by (simp_all add: hunk_line_def)
  obtain c r where l: "l = c # r" and c: "c \<in> set ('' +-'' @ [backslash])"
    using Cons.prems by (auto simp: hunk_text_def split: list.splits)
  show ?case
    using Cons.IH [OF keep] Cons.prems h c
    by (auto simp: l hunk_line_def added_def removed_def)
qed

text \<open>Once a git-anchored diff is inside a hunk, the content lines of the hunk, whatever they
  say, only move the counters of added and removed lines: no file is opened, renamed or closed.\<close>

theorem hunk_content_is_inert:
  assumes "df_plainDoc st = Some False" and "df_inHunk st" and "list_all hunk_text body"
  shows "diff_lines st (body @ rest) =
    diff_lines (st\<lparr>df_additions := df_additions st + added body,
                   df_deletions := df_deletions st + removed body\<rparr>) rest"
  using git_mode_lines [OF assms(1), of body rest] hunk_text_lines [OF assms] by simp

definition in_hunk_state :: diff_state where
  "in_hunk_state = diff_init\<lparr>df_plainDoc := Some False, df_inHunk := True\<rparr>"

theorem hunk_content_is_inert_witness:
  "df_files (diff_lines in_hunk_state
      [''--- a/secrets/key'', ''+++ b/secrets/key'', ''-rename from x'']) = []"
  using hunk_content_is_inert [of in_hunk_state
      "[''--- a/secrets/key'', ''+++ b/secrets/key'', ''-rename from x'']" "[]"]
  by (simp add: in_hunk_state_def diff_init_def hunk_text_def)

section \<open>The diffs git writes\<close>

text \<open>
  The patch format of \<open>git diff\<close> (documented under ``Generating patch text with -p''), as the program
  asks for it: two-way, with the prefixes \<open>a/\<close> and \<open>b/\<close> and the default
  \<open>core.quotePath\<close>. A change of a file has its extended header lines: modes, similarity and names of a
  rename, object identifiers. What follows is text hunks below the two side lines, a
  binary stub, a binary payload, or nothing (an empty file, a mode, an exact rename).
\<close>

datatype change =
  Modify string | Add string string | Delete string string | Rename string string string

type_synonym hunk = "string \<times> string list"

datatype content = Unchanged | TextHunks "hunk list" | BinaryStub | BinaryPatch "string list"

record file_diff =
  fd_change :: change
  fd_modes :: "(string \<times> string) option"
  fd_index :: "string option"
  fd_content :: content

fun sides :: "change \<Rightarrow> string \<times> string" where
  "sides (Modify p) = (p, p)"
| "sides (Add m p) = (p, p)"
| "sides (Delete m p) = (p, p)"
| "sides (Rename s q p) = (q, p)"

definition header_of :: "string \<Rightarrow> string \<Rightarrow> string" where
  "header_of q p = ''diff --git '' @ git_name ''a/'' q @ '' '' @ git_name ''b/'' p"

fun mode_lines :: "(string \<times> string) option \<Rightarrow> string list" where
  "mode_lines None = []"
| "mode_lines (Some (m, n)) = [''old mode '' @ m, ''new mode '' @ n]"

fun index_lines :: "string option \<Rightarrow> string list" where
  "index_lines None = []"
| "index_lines (Some x) = [''index '' @ x]"

fun change_lines :: "(string \<times> string) option \<Rightarrow> change \<Rightarrow> string list" where
  "change_lines ms (Modify p) = mode_lines ms"
| "change_lines ms (Add m p) = [''new file mode '' @ m]"
| "change_lines ms (Delete m p) = [''deleted file mode '' @ m]"
| "change_lines ms (Rename s q p) =
     mode_lines ms @
     [''similarity index '' @ s, ''rename from '' @ git_name [] q, ''rename to '' @ git_name [] p]"

fun old_label :: "change \<Rightarrow> string" where
  "old_label (Add m p) = ''/dev/null''"
| "old_label (Modify p) = git_name ''a/'' p"
| "old_label (Delete m p) = git_name ''a/'' p"
| "old_label (Rename s q p) = git_name ''a/'' q"

fun new_label :: "change \<Rightarrow> string" where
  "new_label (Delete m p) = ''/dev/null''"
| "new_label (Modify p) = git_name ''b/'' p"
| "new_label (Add m p) = git_name ''b/'' p"
| "new_label (Rename s q p) = git_name ''b/'' p"

text \<open>A side line whose label holds a space ends in a tab.\<close>

definition label_tab :: "string \<Rightarrow> string" where
  "label_tab l = (if CHR '' '' \<in> set l then l @ [CHR 0x09] else l)"

definition hunk_lines :: "hunk \<Rightarrow> string list" where
  "hunk_lines h = fst h # snd h"

fun content_lines :: "change \<Rightarrow> content \<Rightarrow> string list" where
  "content_lines c Unchanged = []"
| "content_lines c (TextHunks hs) =
     [''--- '' @ label_tab (old_label c), ''+++ '' @ label_tab (new_label c)] @
     concat (map hunk_lines hs)"
| "content_lines c BinaryStub =
     [''Binary files '' @ old_label c @ '' and '' @ new_label c @ '' differ'']"
| "content_lines c (BinaryPatch payload) = ''GIT binary patch'' # payload"

definition file_header :: "file_diff \<Rightarrow> string" where
  "file_header f = header_of (fst (sides (fd_change f))) (snd (sides (fd_change f)))"

definition meta_part :: "file_diff \<Rightarrow> string list" where
  "meta_part f = change_lines (fd_modes f) (fd_change f) @ index_lines (fd_index f)"

definition file_lines :: "file_diff \<Rightarrow> string list" where
  "file_lines f = file_header f # meta_part f @ content_lines (fd_change f) (fd_content f)"

definition render_diff :: "file_diff list \<Rightarrow> string" where
  "render_diff fs = join [CHR 0x0A] (concat (map file_lines fs) @ [[]])"

text \<open>
  What a diff says of a file: a side is absent only where a side line names \<open>/dev/null\<close>, so the
  entry of an added or deleted file without hunks carries its path on both sides.
\<close>

definition has_hunks :: "content \<Rightarrow> bool" where
  "has_hunks k \<longleftrightarrow> (case k of TextHunks hs \<Rightarrow> True | _ \<Rightarrow> False)"

definition is_binary :: "content \<Rightarrow> bool" where
  "is_binary k \<longleftrightarrow> (case k of BinaryStub \<Rightarrow> True | BinaryPatch b \<Rightarrow> True | _ \<Rightarrow> False)"

definition is_stub :: "content \<Rightarrow> bool" where
  "is_stub k \<longleftrightarrow> (case k of BinaryStub \<Rightarrow> True | _ \<Rightarrow> False)"

fun is_add :: "change \<Rightarrow> bool" where
  "is_add (Add m p) = True"
| "is_add c = False"

fun is_delete :: "change \<Rightarrow> bool" where
  "is_delete (Delete m p) = True"
| "is_delete c = False"

fun is_rename :: "change \<Rightarrow> bool" where
  "is_rename (Rename s q p) = True"
| "is_rename c = False"

definition file_entry :: "file_diff \<Rightarrow> diff_file_entry" where
  "file_entry f =
     (let c = fd_change f; k = fd_content f in
      \<lparr>de_oldPath = (if is_add c \<and> has_hunks k then None else Some (fst (sides c))),
       de_newPath = (if is_delete c \<and> has_hunks k then None else Some (snd (sides c))),
       de_added = is_add c, de_deleted = is_delete c, de_renamed = is_rename c,
       de_binary = is_binary k, de_binaryStub = is_stub k\<rparr>)"

definition file_hunks :: "file_diff \<Rightarrow> hunk list" where
  "file_hunks f = (case fd_content f of TextHunks hs \<Rightarrow> hs | _ \<Rightarrow> [])"

definition file_added :: "file_diff \<Rightarrow> nat" where
  "file_added f = sum_list (map (\<lambda>h. added (snd h)) (file_hunks f))"

definition file_removed :: "file_diff \<Rightarrow> nat" where
  "file_removed f = sum_list (map (\<lambda>h. removed (snd h)) (file_hunks f))"

text \<open>
  The paths the parser reads back. A name is text in UTF-8. A name that git does not quote must
  not end in a space, which the parser trims; one that is renamed must not begin with one either;
  and where only the \<open>diff --git\<close> line carries the name, it must not contain \<open>b/\<close> behind a space, where
  the parser splits that line. A quoted name has none of these conditions.
\<close>

definition quoted :: "string \<Rightarrow> bool" where
  "quoted p \<longleftrightarrow> list_ex needs_quote p"

definition readable :: "string \<Rightarrow> bool" where
  "readable p \<longleftrightarrow> p \<noteq> [] \<and> utf8_ok p \<and> (quoted p \<or> last p \<noteq> CHR '' '')"

definition readable_change :: "change \<Rightarrow> content \<Rightarrow> bool" where
  "readable_change c k \<longleftrightarrow>
     (let (q, p) = sides c in
      readable q \<and> readable p \<and>
      (if is_rename c
       then (quoted q \<or> hd q \<noteq> CHR '' '') \<and> (quoted p \<or> hd p \<noteq> CHR '' '')
       else has_hunks k \<or> quoted p \<or> str_index p '' b/'' = None))"

definition one_line :: "string \<Rightarrow> bool" where
  "one_line l \<longleftrightarrow> CHR 0x0A \<notin> set l"

definition wf_hunk :: "hunk \<Rightarrow> bool" where
  "wf_hunk h \<longleftrightarrow> starts_with (fst h) ''@@'' \<and> list_all hunk_text (snd h) \<and>
     list_all one_line (hunk_lines h)"

text \<open>A line of a binary payload: the kind and size of a part, base 85 behind a letter, or nothing.\<close>

definition payload_line :: "string \<Rightarrow> bool" where
  "payload_line l \<longleftrightarrow> one_line l \<and>
     (l = [] \<or> starts_with l ''literal '' \<or> starts_with l ''delta '' \<or>
      (CHR '' '' \<notin> set l \<and> hd l \<noteq> CHR ''@''))"

fun wf_content :: "content \<Rightarrow> bool" where
  "wf_content (TextHunks hs) = list_all wf_hunk hs"
| "wf_content (BinaryPatch payload) = list_all payload_line payload"
| "wf_content Unchanged = True"
| "wf_content BinaryStub = True"

fun change_words :: "change \<Rightarrow> string list" where
  "change_words (Modify p) = []"
| "change_words (Add m p) = [m]"
| "change_words (Delete m p) = [m]"
| "change_words (Rename s q p) = [s]"

definition wf_file_diff :: "file_diff \<Rightarrow> bool" where
  "wf_file_diff f \<longleftrightarrow>
     readable_change (fd_change f) (fd_content f) \<and> wf_content (fd_content f) \<and>
     list_all one_line (change_words (fd_change f)) \<and>
     (\<forall>m n. fd_modes f = Some (m, n) \<longrightarrow> one_line m \<and> one_line n) \<and>
     (\<forall>x. fd_index f = Some x \<longrightarrow> one_line x)"

subsection \<open>Names are read back\<close>

lemma trim_id: "s \<noteq> [] \<Longrightarrow> \<not> js_space (hd s) \<Longrightarrow> \<not> js_space (last s) \<Longrightarrow> trim s = s"
proof -
  assume s: "s \<noteq> []" "\<not> js_space (hd s)" "\<not> js_space (last s)"
  have "dropWhile js_space s = s" using s by (cases s) auto
  moreover have "dropWhile js_space (rev s) = rev s" using s by (cases s rule: rev_cases) auto
  ultimately show "trim s = s" by (simp add: trim_def)
qed

lemma unquote_bare:
  "s \<noteq> [] \<Longrightarrow> \<not> js_space (hd s) \<Longrightarrow> \<not> js_space (last s) \<Longrightarrow> hd s \<noteq> dquote \<Longrightarrow> cUnquoteGitPath s = s"
  by (cases s) (simp_all add: cUnquoteGitPath_def trim_id Let_def)

lemma trim_tab: "trim (s @ [CHR 0x09]) = trim s"
proof -
  have t: "js_space (CHR 0x09)" by (simp add: js_space_def)
  show ?thesis
  proof (cases "\<exists>c \<in> set s. \<not> js_space c")
    case True
    then obtain c where "c \<in> set s" "\<not> js_space c" by blast
    from dropWhile_append1 [of c s js_space, OF this] t show ?thesis by (simp add: trim_def)
  next
    case False
    then have "dropWhile js_space s = []" "dropWhile js_space (s @ [CHR 0x09]) = []"
      using t by (auto simp: dropWhile_eq_Nil_conv)
    then show ?thesis by (simp only: trim_def rev.simps dropWhile.simps)
  qed
qed

lemma unquote_tab: "cUnquoteGitPath (label_tab l) = cUnquoteGitPath l"
proof -
  have "trim (label_tab l) = trim l" by (simp add: label_tab_def trim_tab)
  then show ?thesis by (simp only: cUnquoteGitPath_def)
qed

lemma bare_bytes:
  assumes "\<not> quoted p" and "c \<in> set p"
  shows "32 \<le> (of_char c :: nat)" "(of_char c :: nat) < 127" "c \<noteq> dquote" "c \<noteq> backslash"
    "js_space c \<longleftrightarrow> c = CHR '' ''"
proof -
  have "\<not> needs_quote c" using assms by (auto simp: quoted_def list_ex_iff)
  then show *: "32 \<le> (of_char c :: nat)" "(of_char c :: nat) < 127" "c \<noteq> dquote" "c \<noteq> backslash"
    by (auto simp: needs_quote_def Let_def)
  have "(of_char c :: nat) = 32 \<longleftrightarrow> c = CHR '' ''"
    using of_char_eq_iff [of c "CHR '' ''", where ?'a = nat] by simp
  with *(1) show "js_space c \<longleftrightarrow> c = CHR '' ''" by (auto simp: js_space_def)
qed

text \<open>The prefixes of the patch format, and none for the names of a rename.\<close>

definition git_prefix :: "string \<Rightarrow> string \<Rightarrow> bool" where
  "git_prefix prefix p \<longleftrightarrow>
     prefix \<in> {''a/'', ''b/''} \<or> (prefix = [] \<and> (quoted p \<or> hd p \<noteq> CHR '' ''))"

lemma utf8_prefix: "utf8_ok p \<Longrightarrow> prefix \<in> {''a/'', ''b/'', []} \<Longrightarrow> utf8_ok (prefix @ p)"
  by (auto simp: utf8_tail_def)

lemma unquote_name:
  assumes "readable p" and "git_prefix prefix p"
  shows "cUnquoteGitPath (git_name prefix p) = prefix @ p"
proof (cases "quoted p")
  case True
  have "utf8_ok (prefix @ p)" using assms by (intro utf8_prefix) (auto simp: readable_def git_prefix_def)
  from git_path_roundtrip [OF this] True show ?thesis by (simp add: git_name_def quoted_def)
next
  case False
  have p: "p \<noteq> []" "last p \<noteq> CHR '' ''" using assms(1) False by (auto simp: readable_def)
  have last: "\<not> js_space (last p)" using bare_bytes(5) [OF False last_in_set [OF p(1)]] p(2) by simp
  have first: "\<not> js_space (hd (prefix @ p))" "hd (prefix @ p) \<noteq> dquote"
    using assms(2) False p bare_bytes(3,5) [OF False hd_in_set [OF p(1)]]
    by (auto simp: git_prefix_def js_space_def)
  show ?thesis
    using unquote_bare [of "prefix @ p"] False p last first
    by (simp add: git_name_def quoted_def)
qed

lemma char_div_mod: "of_char c div 64 = (of_char c div 64 :: nat) mod 8"
proof -
  have "(of_char c :: nat) < 8 * 64" by (rule order.strict_trans [OF nat_of_char_less_256]) simp
  then have "(of_char c :: nat) div 64 < 8" by (rule less_mult_imp_div_less)
  then show ?thesis by simp
qed

lemma quote_char_no_newline: "CHR 0x0A \<notin> set (git_quote_char c)"
proof -
  have o: "CHR 0x0A \<noteq> octal_digit (b mod 8)" for b
  proof
    assume "CHR 0x0A = octal_digit (b mod 8)"
    from arg_cong [OF this, of "of_char :: char \<Rightarrow> nat"] show False
      using octal_digit_value [of "b mod 8"] by simp
  qed
  have d: "of_char c div 64 = (of_char c div 64 :: nat) mod 8" by (rule char_div_mod)
  show ?thesis
  proof (cases "git_letter c")
    case None
    then have "c \<noteq> CHR 0x0A" by (auto simp: git_letter_def)
    moreover have "CHR 0x0A \<noteq> octal_digit (of_char c div 64)" by (subst d) (rule o)
    ultimately show ?thesis using None o [of "of_char c div 8"] o [of "of_char c"]
      by (simp add: git_quote_char_def Let_def)
  next
    case (Some l)
    then have "l \<noteq> CHR 0x0A" by (auto simp: git_letter_def split: if_splits)
    moreover have "c \<noteq> CHR 0x0A" if "\<not> needs_quote c" using that by (auto simp: needs_quote_def)
    ultimately show ?thesis using Some by (auto simp: git_quote_char_def Let_def)
  qed
qed

lemma name_one_line: "one_line prefix \<Longrightarrow> one_line (git_name prefix p)"
proof -
  assume a: "one_line prefix"
  have "one_line (git_quote s)" for s
    using quote_char_no_newline by (auto simp: one_line_def git_quote_def)
  moreover have "one_line p" if "\<not> quoted p"
    using bare_bytes(1) [OF that, of "CHR 0x0A"] by (auto simp: one_line_def)
  ultimately show ?thesis using a by (auto simp: git_name_def quoted_def one_line_def)
qed

subsection \<open>The header line of a file\<close>

text \<open>The closing quote of a quoted name is found.\<close>

lemma quote_end_char: "quote_end (git_quote_char c @ s) = length (git_quote_char c) + quote_end s"
proof -
  have o: "octal_digit (b mod 8) \<noteq> backslash \<and> octal_digit (b mod 8) \<noteq> dquote" for b
    using octal_digit_value [of "b mod 8"] by auto
  have d: "of_char c div 64 = (of_char c div 64 :: nat) mod 8" by (rule char_div_mod)
  consider "\<not> needs_quote c" | l where "needs_quote c" "git_letter c = Some l"
    | "needs_quote c" "git_letter c = None" by fastforce
  then show ?thesis
  proof cases
    case 1
    then show ?thesis by (auto simp: git_quote_char_def needs_quote_def Let_def)
  next
    case 2
    then show ?thesis by (simp add: git_quote_char_def Let_def)
  next
    case 3
    then show ?thesis using o o [of "of_char c div 64"] d
      by (simp add: git_quote_char_def Let_def)
  qed
qed

lemma quote_end_quoted:
  "quote_end (concat (map git_quote_char s) @ dquote # r) = length (concat (map git_quote_char s))"
  by (induction s) (simp_all add: quote_end_char)

lemma quoted_token:
  "header_tokens (Suc n) (git_quote s @ r) = cUnquoteGitPath (git_quote s) # header_tokens n r"
  by (simp add: git_quote_def quote_end_quoted)

lemma space_tokens: "header_tokens n (CHR '' '' # r) = header_tokens n r"
  by (cases n) simp_all

text \<open>The first \<open> b/\<close> of the line is the boundary when the name contains none.\<close>

lemma str_index_boundary:
  "str_index p '' b/'' = None \<Longrightarrow> str_index (p @ '' b/'' @ r) '' b/'' = Some (length p)"
proof (induction p)
  case Nil
  then show ?case by simp
next
  case (Cons c p)
  have ih: "str_index (p @ '' b/'' @ r) '' b/'' = Some (length p)" using Cons by (auto split: if_splits)
  have "\<not> starts_with (c # p) '' b/''" using Cons.prems by (auto split: if_splits)
  then have "\<not> starts_with ((c # p) @ '' b/'' @ r) '' b/''"
    by (cases p; cases "tl p") (auto simp: starts_with_def split: if_splits)
  with ih show ?case by simp
qed

lemma header_paths:
  assumes "readable p" and "quoted p \<or> str_index p '' b/'' = None"
  shows "splitHeaderPaths (git_name ''a/'' p @ '' '' @ git_name ''b/'' p) = Some (''a/'' @ p, ''b/'' @ p)"
proof (cases "quoted p")
  case True
  then have q: "git_name prefix p = git_quote (prefix @ p)" for prefix by (simp add: git_name_def quoted_def)
  have u: "cUnquoteGitPath (git_quote (''a/'' @ p)) = ''a/'' @ p"
      "cUnquoteGitPath (git_quote (''b/'' @ p)) = ''b/'' @ p"
    using unquote_name [OF assms(1), of "''a/''"] unquote_name [OF assms(1), of "''b/''"] q
    by (simp_all add: git_prefix_def)
  have "header_tokens 2 (git_quote (''a/'' @ p) @ '' '' @ git_quote (''b/'' @ p)) =
      [''a/'' @ p, ''b/'' @ p]"
    using quoted_token [of 1 "''a/'' @ p"] quoted_token [of 0 "''b/'' @ p" "[]"] u
    by (simp add: numeral_2_eq_2 space_tokens del: header_tokens.simps(2))
  then show ?thesis by (simp add: splitHeaderPaths_def q)
next
  case False
  then have n: "git_name prefix p = prefix @ p" for prefix by (simp add: git_name_def quoted_def)
  have p: "p \<noteq> []" "last p \<noteq> CHR '' ''" using assms(1) False by (auto simp: readable_def)
  have last: "\<not> js_space (last p)" using bare_bytes(5) [OF False last_in_set [OF p(1)]] p(2) by simp
  have t: "trim (''b/'' @ p) = ''b/'' @ p" using p last by (intro trim_id) (simp_all add: js_space_def)
  have i: "str_index (''a/'' @ p @ '' b/'' @ p) '' b/'' = Some (Suc (Suc (length p)))"
    using str_index_boundary [of p p] assms(2) False by simp
  have "header_tokens 2 (''a/'' @ p @ '' b/'' @ p) = [''a/'' @ p, ''b/'' @ p]"
    using i t by (simp add: numeral_2_eq_2)
  then show ?thesis by (simp add: splitHeaderPaths_def n)
qed

subsection \<open>The states of the scanner\<close>

definition git_state ::
    "diff_file_entry list \<Rightarrow> diff_file_entry option \<Rightarrow> bool \<Rightarrow> bool \<Rightarrow> bool \<Rightarrow> nat \<Rightarrow> nat \<Rightarrow> nat \<Rightarrow> diff_state" where
  "git_state fs cur ih gp bs a d h = \<lparr>df_files = fs, df_current = cur, df_plainDoc = Some False,
     df_inHunk = ih, df_sawGitPayload = gp, df_sawBinaryStub = bs, df_additions = a,
     df_deletions = d, df_hunks = h\<rparr>"

text \<open>A state between two files: the open entry, when it is closed, is the entry of its file.\<close>

definition closes :: "diff_state \<Rightarrow> diff_file_entry list \<Rightarrow> nat \<Rightarrow> nat \<Rightarrow> nat \<Rightarrow> bool" where
  "closes st fs a d h \<longleftrightarrow> (\<exists>ih. flush st = git_state fs None ih False False a d h)"

definition opened :: "string \<Rightarrow> string \<Rightarrow> diff_file_entry" where
  "opened q p =
     (let paths = splitHeaderPaths (git_name ''a/'' q @ '' '' @ git_name ''b/'' p) in
      \<lparr>de_oldPath = map_option (\<lambda>x. stripPrefix (fst x) ''a/'') paths,
       de_newPath = map_option (\<lambda>x. stripPrefix (snd x) ''b/'') paths,
       de_added = False, de_deleted = False, de_renamed = False, de_binary = False,
       de_binaryStub = False\<rparr>)"

lemma closes_mode: "closes st fs a d h \<Longrightarrow> df_plainDoc st = Some False"
  unfolding closes_def git_state_def by (metis diff_state.select_convs(3) flush_mode)

lemma header_step:
  assumes "closes st fs a d h"
  shows "git_line st (header_of q p) =
    git_state fs (Some (opened q p)) False False False a d h"
proof -
  obtain ih where f: "flush st = git_state fs None ih False False a d h"
    using assms by (auto simp: closes_def)
  have "git_line st (header_of q p) = git_header st (header_of q p)"
    by (simp add: git_line_def header_of_def)
  also have "\<dots> = (flush st)\<lparr>df_inHunk := False, df_current := Some (opened q p)\<rparr>"
    using closes_mode [OF assms] by (simp add: git_header_def header_of_def opened_def after_def Let_def)
  finally show ?thesis by (simp add: f git_state_def)
qed

text \<open>The position of header lines, where only the entry and the binary marks move.\<close>

definition head_state ::
    "diff_file_entry list \<Rightarrow> nat \<Rightarrow> nat \<Rightarrow> nat \<Rightarrow> bool \<Rightarrow> bool \<Rightarrow> diff_file_entry \<Rightarrow> diff_state" where
  "head_state fs a d h gp bs e = git_state fs (Some e) False gp bs a d h"

lemma meta_step:
  assumes "\<not> starts_with l ''diff --git ''" and "\<not> starts_with l ''@@''"
  shows "git_line (head_state fs a d h gp bs e) l = header_line (head_state fs a d h gp bs e) e l"
  using assms by (simp add: git_line_def plain_line_def head_state_def git_state_def)

lemma meta_silent:
  "git_line (head_state fs a d h gp bs e) (''old mode '' @ x) = head_state fs a d h gp bs e"
  "git_line (head_state fs a d h gp bs e) (''new mode '' @ x) = head_state fs a d h gp bs e"
  "git_line (head_state fs a d h gp bs e) (''similarity index '' @ x) = head_state fs a d h gp bs e"
  "git_line (head_state fs a d h gp bs e) (''index '' @ x) = head_state fs a d h gp bs e"
  by (simp_all add: meta_step header_line_def is_binary_stub_def)

lemma meta_flags:
  "git_line (head_state fs a d h gp bs e) (''new file mode '' @ x) =
     head_state fs a d h gp bs (e\<lparr>de_added := True\<rparr>)"
  "git_line (head_state fs a d h gp bs e) (''deleted file mode '' @ x) =
     head_state fs a d h gp bs (e\<lparr>de_deleted := True\<rparr>)"
  by (simp_all add: meta_step header_line_def) (simp_all add: head_state_def git_state_def)

lemma mode_step: "foldl git_line (head_state fs a d h gp bs e) (mode_lines ms) = head_state fs a d h gp bs e"
  by (cases ms) (auto simp only: mode_lines.simps foldl_Nil foldl_Cons meta_silent)

lemma index_step: "foldl git_line (head_state fs a d h gp bs e) (index_lines i) = head_state fs a d h gp bs e"
  by (cases i) (auto simp only: index_lines.simps foldl_Nil foldl_Cons meta_silent)

lemma rename_step:
  assumes "readable p" and "quoted p \<or> hd p \<noteq> CHR '' ''"
  shows
    "git_line (head_state fs a d h gp bs e) (''rename from '' @ git_name [] p) =
       head_state fs a d h gp bs (e\<lparr>de_renamed := True, de_oldPath := Some p\<rparr>)"
    "git_line (head_state fs a d h gp bs e) (''rename to '' @ git_name [] p) =
       head_state fs a d h gp bs (e\<lparr>de_renamed := True, de_newPath := Some p\<rparr>)"
  using unquote_name [of p "[]"] assms
  by (simp_all add: meta_step header_line_def after_def git_prefix_def)
    (simp_all add: head_state_def git_state_def)

lemma side_step:
  assumes "readable p"
  shows
    "git_line (head_state fs a d h gp bs e) (''--- '' @ label_tab (git_name ''a/'' p)) =
       head_state fs a d h gp bs (e\<lparr>de_oldPath := Some p\<rparr>)"
    "git_line (head_state fs a d h gp bs e) (''+++ '' @ label_tab (git_name ''b/'' p)) =
       head_state fs a d h gp bs (e\<lparr>de_newPath := Some p\<rparr>)"
  using unquote_name [OF assms, of "''a/''"] unquote_name [OF assms, of "''b/''"]
  by (simp_all add: meta_step header_line_def git_prefix_def unquote_tab stripPrefix_def after_def Let_def)
    (simp_all add: head_state_def git_state_def)

lemma dev_null_step:
  "git_line (head_state fs a d h gp bs e) (''--- '' @ label_tab ''/dev/null'') =
     head_state fs a d h gp bs (e\<lparr>de_added := True, de_oldPath := None\<rparr>)"
  "git_line (head_state fs a d h gp bs e) (''+++ '' @ label_tab ''/dev/null'') =
     head_state fs a d h gp bs (e\<lparr>de_deleted := True, de_newPath := None\<rparr>)"
  using unquote_bare [of "''/dev/null''"]
  by (simp_all add: meta_step header_line_def js_space_def unquote_tab Let_def)
    (simp_all add: head_state_def git_state_def)

subsection \<open>One file\<close>

fun meta_entry :: "change \<Rightarrow> diff_file_entry \<Rightarrow> diff_file_entry" where
  "meta_entry (Modify p) e = e"
| "meta_entry (Add m p) e = e\<lparr>de_added := True\<rparr>"
| "meta_entry (Delete m p) e = e\<lparr>de_deleted := True\<rparr>"
| "meta_entry (Rename s q p) e = e\<lparr>de_renamed := True, de_oldPath := Some q, de_newPath := Some p\<rparr>"

lemma change_step:
  assumes "readable_change c k"
  shows "foldl git_line (head_state fs a d h gp bs e) (change_lines ms c) =
    head_state fs a d h gp bs (meta_entry c e)"
proof (cases c)
  case (Rename s q p)
  then have r: "readable q" "quoted q \<or> hd q \<noteq> CHR '' ''" "readable p" "quoted p \<or> hd p \<noteq> CHR '' ''"
    using assms by (simp_all add: readable_change_def)
  show ?thesis
    unfolding Rename change_lines.simps foldl_append foldl_Cons foldl_Nil mode_step meta_silent
      rename_step(1) [OF r(1,2)] rename_step(2) [OF r(3,4)] meta_entry.simps
    by (cases e) simp
qed (simp_all only: change_lines.simps foldl_Nil foldl_Cons mode_step meta_flags meta_entry.simps)

fun side_entry :: "change \<Rightarrow> diff_file_entry \<Rightarrow> diff_file_entry" where
  "side_entry (Modify p) e = e\<lparr>de_oldPath := Some p, de_newPath := Some p\<rparr>"
| "side_entry (Add m p) e = e\<lparr>de_added := True, de_oldPath := None, de_newPath := Some p\<rparr>"
| "side_entry (Delete m p) e = e\<lparr>de_oldPath := Some p, de_deleted := True, de_newPath := None\<rparr>"
| "side_entry (Rename s q p) e = e\<lparr>de_oldPath := Some q, de_newPath := Some p\<rparr>"

lemma sides_step:
  assumes "readable_change c k"
  shows "foldl git_line (head_state fs a d h gp bs e)
      [''--- '' @ label_tab (old_label c), ''+++ '' @ label_tab (new_label c)] =
    head_state fs a d h gp bs (side_entry c e)"
proof -
  have "list_all readable [fst (sides c), snd (sides c)]"
    using assms by (simp add: readable_change_def split_beta Let_def)
  then show ?thesis
    by (cases c) (simp_all only: list.pred_inject sides.simps fst_conv snd_conv simp_thms foldl_Nil
        foldl_Cons old_label.simps new_label.simps side_step dev_null_step side_entry.simps)
qed

lemma hunk_step:
  assumes "wf_hunk hk"
  shows "foldl git_line (git_state fs cur ih gp bs a d h) (hunk_lines hk) =
    git_state fs cur True gp bs (a + added (snd hk)) (d + removed (snd hk)) (Suc h)"
proof -
  obtain r where r: "fst hk = ''@@'' @ r" using assms by (auto simp: wf_hunk_def starts_with_iff)
  have first: "git_line (git_state fs cur ih gp bs a d h) (fst hk) = git_state fs cur True gp bs a d (Suc h)"
    by (simp add: git_line_def plain_line_def git_state_def r)
  show ?thesis
    using hunk_text_lines [of "git_state fs cur True gp bs a d (Suc h)" "snd hk"] assms
    by (simp add: hunk_lines_def first wf_hunk_def) (simp add: git_state_def)
qed

lemma hunks_step:
  "list_all wf_hunk hs \<Longrightarrow>
   foldl git_line (git_state fs cur ih gp bs a d h) (concat (map hunk_lines hs)) =
     git_state fs cur (ih \<or> hs \<noteq> []) gp bs (a + sum_list (map (\<lambda>h. added (snd h)) hs))
       (d + sum_list (map (\<lambda>h. removed (snd h)) hs)) (h + length hs)"
  by (induction hs arbitrary: ih a d h) (simp_all add: hunk_step add.assoc)

lemma stub_step:
  "git_line (head_state fs a d h gp bs e) (''Binary files '' @ x @ '' and '' @ y @ '' differ'') =
     head_state fs a d h gp True (e\<lparr>de_binary := True\<rparr>)"
proof -
  have "ends_with ((''Binary files '' @ x @ '' and '' @ y) @ '' differ'') '' differ''"
    by (rule ends_with_append)
  then have "is_binary_stub (''Binary files '' @ x @ '' and '' @ y @ '' differ'')"
    by (simp add: is_binary_stub_def)
  then show ?thesis
    by (simp add: meta_step header_line_def) (simp add: head_state_def git_state_def)
qed

lemma payload_head:
  "git_line (head_state fs a d h gp bs e) ''GIT binary patch'' =
     head_state fs a d h True bs (e\<lparr>de_binary := True\<rparr>)"
  by (simp add: meta_step header_line_def) (simp add: head_state_def git_state_def)

lemma spaced_prefix: "CHR '' '' \<notin> set l \<Longrightarrow> CHR '' '' \<in> set p \<Longrightarrow> \<not> starts_with l p"
  by (auto simp: starts_with_iff)

lemma payload_silent:
  assumes "payload_line l"
  shows "git_line (head_state fs a d h gp bs e) l = head_state fs a d h gp bs e"
proof -
  consider "l = []" | r where "l = ''literal '' @ r" | r where "l = ''delta '' @ r"
    | "CHR '' '' \<notin> set l" "l \<noteq> []" "hd l \<noteq> CHR ''@''"
    using assms by (auto simp: payload_line_def starts_with_iff)
  then show ?thesis
  proof cases
    case 4
    then have "\<not> starts_with l ''@@''" by (cases l) auto
    with 4(1) show ?thesis
      by (simp add: meta_step header_line_def is_binary_stub_def spaced_prefix)
  qed (simp_all add: meta_step header_line_def is_binary_stub_def)
qed

lemma payload_step:
  "list_all payload_line ls \<Longrightarrow>
     foldl git_line (head_state fs a d h gp bs e) ls = head_state fs a d h gp bs e"
  by (induction ls) (simp_all add: payload_silent)

lemma flush_open:
  "flush (git_state fs (Some e) ih gp bs a d h) =
     git_state (fs @ [if de_binary e then e\<lparr>de_binaryStub := bs \<and> \<not> gp\<rparr> else e]) None ih False False a d h"
  by (simp add: flush_def git_state_def)

text \<open>The entry the header lines leave.\<close>

lemma header_entry:
  assumes "readable_change c k" and "\<not> has_hunks k"
  shows "meta_entry c (opened (fst (sides c)) (snd (sides c))) =
    \<lparr>de_oldPath = Some (fst (sides c)), de_newPath = Some (snd (sides c)),
     de_added = is_add c, de_deleted = is_delete c, de_renamed = is_rename c,
     de_binary = False, de_binaryStub = False\<rparr>"
proof (cases "is_rename c")
  case True
  then show ?thesis by (cases c) (simp_all add: opened_def Let_def)
next
  case False
  then obtain p where p: "sides c = (p, p)" by (cases c) auto
  with False assms have "splitHeaderPaths (git_name ''a/'' p @ '' '' @ git_name ''b/'' p) =
      Some (''a/'' @ p, ''b/'' @ p)"
    by (intro header_paths) (auto simp: readable_change_def)
  then have "opened p p = \<lparr>de_oldPath = Some p, de_newPath = Some p, de_added = False,
      de_deleted = False, de_renamed = False, de_binary = False, de_binaryStub = False\<rparr>"
    unfolding opened_def Let_def by (simp add: stripPrefix_def after_def)
  then show ?thesis using False p by (cases c) auto
qed

lemma sides_entry:
  "side_entry c (meta_entry c (opened q p)) =
    \<lparr>de_oldPath = (if is_add c then None else Some (fst (sides c))),
     de_newPath = (if is_delete c then None else Some (snd (sides c))),
     de_added = is_add c, de_deleted = is_delete c, de_renamed = is_rename c,
     de_binary = False, de_binaryStub = False\<rparr>"
  by (cases c) (simp_all add: opened_def Let_def)

lemma file_step:
  assumes "closes st fs a d h" and "wf_file_diff f"
  shows "closes (foldl git_line st (file_lines f)) (fs @ [file_entry f])
    (a + file_added f) (d + file_removed f) (h + length (file_hunks f))"
proof -
  let ?c = "fd_change f" and ?k = "fd_content f"
  let ?e = "meta_entry ?c (opened (fst (sides ?c)) (snd (sides ?c)))"
  have ok: "readable_change ?c ?k" "wf_content ?k" using assms(2) by (simp_all add: wf_file_diff_def)
  have meta: "foldl git_line st (file_lines f) =
      foldl git_line (head_state fs a d h False False ?e) (content_lines ?c ?k)"
    unfolding file_lines_def file_header_def meta_part_def foldl_Cons foldl_append
      header_step [OF assms(1)] head_state_def [symmetric] change_step [OF ok(1)] index_step by (rule refl)
  show ?thesis
  proof (cases ?k)
    case Unchanged
    then have e: "?e = file_entry f" "file_hunks f = []"
      using header_entry [OF ok(1)]
      by (simp_all add: has_hunks_def file_entry_def file_hunks_def is_binary_def is_stub_def Let_def)
    have "\<not> de_binary (file_entry f)" by (simp add: file_entry_def Unchanged is_binary_def Let_def)
    then show ?thesis
      unfolding meta e(1) unfolding Unchanged content_lines.simps foldl_Nil closes_def head_state_def flush_open
      by (auto simp: file_added_def file_removed_def e(2))
  next
    case (TextHunks hs)
    have e: "side_entry ?c ?e = file_entry f"
      unfolding sides_entry by (simp add: TextHunks has_hunks_def file_entry_def is_binary_def is_stub_def Let_def)
    have w: "list_all wf_hunk hs" using ok(2) TextHunks by simp
    have "\<not> de_binary (file_entry f)" by (simp add: file_entry_def TextHunks is_binary_def Let_def)
    then show ?thesis
      unfolding meta unfolding TextHunks content_lines.simps foldl_append sides_step [OF ok(1)] e
      unfolding head_state_def hunks_step [OF w] closes_def flush_open
      by (auto simp: file_added_def file_removed_def file_hunks_def TextHunks)
  next
    case BinaryStub
    then have e: "?e\<lparr>de_binary := True, de_binaryStub := True\<rparr> = file_entry f" "file_hunks f = []"
      using header_entry [OF ok(1)]
      by (simp_all add: has_hunks_def file_entry_def file_hunks_def is_binary_def is_stub_def Let_def)
    show ?thesis
      unfolding meta unfolding BinaryStub content_lines.simps foldl_Cons foldl_Nil stub_step
      unfolding closes_def head_state_def flush_open
      using e by (auto simp: file_added_def file_removed_def)
  next
    case (BinaryPatch ls)
    then have e: "?e\<lparr>de_binary := True, de_binaryStub := False\<rparr> = file_entry f" "file_hunks f = []"
      using header_entry [OF ok(1)]
      by (simp_all add: has_hunks_def file_entry_def file_hunks_def is_binary_def is_stub_def Let_def)
    have w: "list_all payload_line ls" using ok(2) BinaryPatch by simp
    show ?thesis
      unfolding meta unfolding BinaryPatch content_lines.simps foldl_Cons payload_head payload_step [OF w]
      unfolding closes_def head_state_def flush_open
      using e by (auto simp: file_added_def file_removed_def)
  qed
qed

lemma files_step:
  "closes st fs a d h \<Longrightarrow> list_all wf_file_diff gs \<Longrightarrow>
   closes (foldl git_line st (concat (map file_lines gs))) (fs @ map file_entry gs)
     (a + sum_list (map file_added gs)) (d + sum_list (map file_removed gs))
     (h + sum_list (map (\<lambda>f. length (file_hunks f)) gs))"
proof (induction gs arbitrary: st fs a d h)
  case Nil
  then show ?case by simp
next
  case (Cons f gs)
  have f: "wf_file_diff f" and gs: "list_all wf_file_diff gs" using Cons.prems(2) by simp_all
  from Cons.IH [OF file_step [OF Cons.prems(1) f] gs] show ?case by (simp add: add.assoc)
qed

subsection \<open>The document\<close>

lemma file_lines_one_line:
  assumes "wf_file_diff f" and "l \<in> set (file_lines f)"
  shows "one_line l"
proof -
  have join: "one_line (x @ y)" if "one_line x" "one_line y" for x y
    using that by (simp add: one_line_def)
  have lit: "one_line ''a/''" "one_line ''b/''" "one_line []" "one_line ''/dev/null''"
    by (simp_all add: one_line_def)
  have labels: "one_line (old_label c)" "one_line (new_label c)" for c
    by (cases c; simp add: lit name_one_line)+
  have tab: "one_line (label_tab x)" if "one_line x" for x
    using that by (simp add: label_tab_def one_line_def)
  have hd: "one_line (file_header f)"
    unfolding file_header_def header_of_def
    using name_one_line [OF lit(1)] name_one_line [OF lit(2)] by (simp add: one_line_def)
  have modes: "one_line x" if "x \<in> set (mode_lines (fd_modes f))" for x
    using that assms(1) by (cases "fd_modes f") (auto simp: wf_file_diff_def one_line_def)
  have index: "one_line x" if "x \<in> set (index_lines (fd_index f))" for x
    using that assms(1) by (cases "fd_index f") (auto simp: wf_file_diff_def one_line_def)
  have words: "list_all one_line (change_words (fd_change f))" using assms(1) by (simp add: wf_file_diff_def)
  have meta: "one_line x" if "x \<in> set (change_lines (fd_modes f) (fd_change f))" for x
    using that modes words name_one_line [OF lit(3)]
    by (cases "fd_change f") (auto simp: one_line_def)
  have content: "one_line x" if "x \<in> set (content_lines (fd_change f) (fd_content f))" for x
  proof (cases "fd_content f")
    case (TextHunks hs)
    have "one_line y" if "y \<in> set (concat (map hunk_lines hs))" for y
      using that assms(1) TextHunks by (auto simp: wf_file_diff_def wf_hunk_def list_all_iff)
    with that TextHunks tab [OF labels(1)] tab [OF labels(2)] show ?thesis
      by (auto simp: one_line_def)
  next
    case BinaryStub
    with that labels [of "fd_change f"] show ?thesis by (auto simp: one_line_def)
  next
    case (BinaryPatch ls)
    with that assms(1) show ?thesis
      by (auto simp: wf_file_diff_def list_all_iff payload_line_def one_line_def)
  qed (use that in simp)
  show ?thesis
    using assms(2) hd meta content index by (auto simp: file_lines_def meta_part_def)
qed

lemma first_git_line:
  "starts_with (file_header f) ''diff --git '' \<and>
     git_header diff_init (file_header f) =
       git_line (git_state [] None False False False 0 0 0) (file_header f)"
  by (simp add: file_header_def header_of_def git_line_def git_header_def diff_init_def
      git_state_def flush_def Let_def)

lemma parse_rendered_lines:
  assumes "gs \<noteq> []"
  shows "diff_lines diff_init (concat (map file_lines gs) @ [[]]) =
    foldl git_line (git_state [] None False False False 0 0 0) (concat (map file_lines gs) @ [[]])"
proof -
  obtain f gs' where gs: "gs = f # gs'" using assms by (cases gs) auto
  obtain ls where ls: "file_lines f = file_header f # ls" by (simp add: file_lines_def)
  have mode: "df_plainDoc (git_line (git_state [] None False False False 0 0 0) (file_header f)) = Some False"
    by (rule git_line_mode) (simp add: git_state_def)
  show ?thesis
    using git_mode_lines [OF mode, of "ls @ concat (map file_lines gs') @ [[]]" "[]"] first_git_line [of f]
    by (simp add: gs ls)
qed

lemma blank_line: "df_plainDoc st = Some False \<Longrightarrow> git_line st [] = st"
  by (simp add: git_line_def plain_line_def is_binary_stub_def hunk_line_def header_line_def
      split: option.splits)

lemma git_diff_structure:
  assumes "list_all wf_file_diff gs"
  shows "parseUnifiedDiff (render_diff gs) =
    \<lparr>ud_files = map file_entry gs,
     ud_additions = sum_list (map file_added gs), ud_deletions = sum_list (map file_removed gs),
     ud_hunks = sum_list (map (\<lambda>f. length (file_hunks f)) gs)\<rparr>"
proof (cases "gs = []")
  case True
  show ?thesis
    by (simp add: True render_diff_def parseUnifiedDiff_def decide_plain_def plain_boundary_def
        plain_line_def plainFileHeaderAt_def is_binary_stub_def diff_init_def flush_def Let_def)
next
  case False
  let ?ls = "concat (map file_lines gs) @ [[]]"
  let ?init = "git_state [] None False False False 0 0 0"
  have split: "split_on CHR 0x0A (render_diff gs) = ?ls"
    unfolding render_diff_def using assms file_lines_one_line
    by (intro split_join) (auto simp: list_all_iff one_line_def)
  define st where "st = foldl git_line ?init (concat (map file_lines gs))"
  have "closes ?init [] 0 0 0" by (auto simp: closes_def git_state_def flush_def)
  from files_step [OF this assms] have cl: "closes st (map file_entry gs)
      (sum_list (map file_added gs)) (sum_list (map file_removed gs))
      (sum_list (map (\<lambda>f. length (file_hunks f)) gs))"
    by (simp add: st_def)
  have "diff_lines diff_init ?ls = st"
    using parse_rendered_lines [OF False] blank_line [OF closes_mode [OF cl]] by (simp add: st_def)
  with cl show ?thesis
    by (auto simp: parseUnifiedDiff_def split closes_def git_state_def Let_def)
qed





text \<open>
  The three excluded kinds of names. An empty file (or a mode, or a binary change) below
  a directory \<open>auth b\<close>: the \<open>diff --git\<close> line is split inside the name, and no name that is reported
  is the one that changed. A name that ends in a space loses it, as does a renamed name that begins with one.
\<close>

lemma boundary_in_name_is_misread:
  "map de_newPath (ud_files (parseUnifiedDiff (render_diff
     [\<lparr>fd_change = Add ''100644'' ''auth b/key'', fd_modes = None, fd_index = Some ''0..e'',
       fd_content = Unchanged\<rparr>]))) = [Some ''key b/auth b/key'']"
  by code_simp

lemma trailing_space_is_lost:
  "map de_newPath (ud_files (parseUnifiedDiff (render_diff
     [\<lparr>fd_change = Modify ''key '', fd_modes = None, fd_index = None,
       fd_content = TextHunks []\<rparr>]))) = [Some ''key'']"
  by code_simp

lemma leading_space_is_lost:
  "map de_newPath (ud_files (parseUnifiedDiff (render_diff
     [\<lparr>fd_change = Rename ''100%'' ''a'' '' key'', fd_modes = None, fd_index = None,
       fd_content = Unchanged\<rparr>]))) = [Some ''key'']"
  by code_simp

section \<open>What the policies see\<close>

definition touched_by :: "diff_file_entry \<Rightarrow> string set" where
  "touched_by f =
     (case file_path f of
        None \<Rightarrow> {}
      | Some p \<Rightarrow> insert p (if de_added f then {} else set_option (truthy (de_oldPath f))))"

lemma path_lists_touched:
  "path_lists fs ps as ms es = (ps', as', ms', es') \<Longrightarrow>
   set ps' \<union> set es' = set ps \<union> set es \<union> (\<Union>f \<in> set fs. touched_by f)"
proof (induction fs arbitrary: ps as ms es)
  case Nil
  then show ?case by simp
next
  case (Cons f fs)
  show ?case
  proof (cases "file_path f")
    case None
    then show ?thesis using Cons by (simp add: touched_by_def)
  next
    case (Some p)
    then show ?thesis using Cons.prems
      by (auto simp: touched_by_def dest!: Cons.IH split: if_splits option.splits)
  qed
qed

lemma touched_paths:
  "set (dp_touchedPaths (summarizeDiffPaths d)) =
     (\<Union>f \<in> set (ud_files (parseUnifiedDiff d)). touched_by f)"
proof -
  obtain ps as ms es where l: "path_lists (ud_files (parseUnifiedDiff d)) [] [] [] [] = (ps, as, ms, es)"
    by (metis prod_cases4)
  show ?thesis
    using path_lists_touched [OF l] by (simp add: summarizeDiffPaths_def l Let_def)
qed

lemma change_touched:
  assumes "wf_file_diff f"
  shows "touched_by (file_entry f) =
    {fst (sides (fd_change f)), snd (sides (fd_change f))}"
proof -
  have "fst (sides (fd_change f)) \<noteq> []" "snd (sides (fd_change f)) \<noteq> []"
    using assms by (auto simp: wf_file_diff_def readable_change_def readable_def split_beta Let_def)
  then show ?thesis
    by (cases "fd_change f") (auto simp: touched_by_def file_path_def file_entry_def Let_def)
qed

lemma git_touched:
  assumes "list_all wf_file_diff gs"
  shows "set (dp_touchedPaths (summarizeDiffPaths (render_diff gs))) =
    (\<Union>f \<in> set gs. {fst (sides (fd_change f)), snd (sides (fd_change f))})"
proof -
  have "set (dp_touchedPaths (summarizeDiffPaths (render_diff gs))) =
      (\<Union>f \<in> set gs. touched_by (file_entry f))"
    by (simp add: touched_paths git_diff_structure [OF assms])
  also have "\<dots> = (\<Union>f \<in> set gs. {fst (sides (fd_change f)), snd (sides (fd_change f))})"
    using assms change_touched by (intro SUP_cong refl) (auto simp: list_all_iff)
  finally show ?thesis .
qed

text \<open>C38: No file of a git patch escapes the path policies, whether git quotes its name or not: for every
  file that git writes as modified, added, deleted or renamed, with or without content, and on either side
  of a rename, a glob that matches the name makes the human gate require approval with that name as
  evidence, and a protected glob makes the risk critical. The patches are those of the round trip
  above, so the three kinds of unquoted names excluded there are excluded here.
\<close>

theorem every_changed_path_is_governed:
  assumes "list_all wf_file_diff gs" and "f \<in> set gs"
    and "path = fst (sides (fd_change f)) \<or> path = snd (sides (fd_change f))"
    and "matchAny path patterns"
  shows "rh_required (requireHuman (dp_touchedPaths (summarizeDiffPaths (render_diff gs))) (Some patterns)) \<and>
    path \<in> set (rh_matchedPaths
      (requireHuman (dp_touchedPaths (summarizeDiffPaths (render_diff gs))) (Some patterns))) \<and>
    ra_level (classifyRisk
      \<lparr>dm_changedPaths = dp_touchedPaths (summarizeDiffPaths (render_diff gs)), dm_fileCount = n,
       dm_additions = a, dm_deletions = d, dm_protectedPaths = Some patterns\<rparr>) = RiskCritical"
proof -
  have t: "path \<in> set (dp_touchedPaths (summarizeDiffPaths (render_diff gs)))"
    using assms by (auto simp: git_touched)
  then have "filter (\<lambda>p. matchAny p patterns)
      (dp_touchedPaths (summarizeDiffPaths (render_diff gs))) \<noteq> []"
    using assms(4) by (auto simp: filter_hit)
  then show ?thesis
    using t assms(4) by (auto simp: requireHuman_spec risk_level_eq touches_critical_def touches_def Let_def)
qed

text \<open>A directory whose name git quotes.\<close>

definition ex_quoted_patch :: "file_diff list" where
  "ex_quoted_patch =
     [\<lparr>fd_change = Rename ''100%'' ([CHR 0xC3, CHR 0xA9] @ ''/key.ts'') ''x.ts'', fd_modes = None,
       fd_index = None, fd_content = Unchanged\<rparr>]"

theorem every_changed_path_is_governed_witness:
  "rh_required (requireHuman (dp_touchedPaths (summarizeDiffPaths (render_diff ex_quoted_patch)))
     (Some [[CHR 0xC3, CHR 0xA9] @ ''/*'']))"
proof -
  let ?p = "[CHR 0xC3, CHR 0xA9] @ ''/key.ts''"
  have m: "matchAny ?p [[CHR 0xC3, CHR 0xA9] @ ''/*'']"
    by (simp add: matchAny_def unit_tail_def)
  have w: "list_all wf_file_diff ex_quoted_patch"
    by (simp add: ex_quoted_patch_def wf_file_diff_def readable_change_def readable_def quoted_def
        needs_quote_def one_line_def utf8_tail_def Let_def)
  have f: "hd ex_quoted_patch \<in> set ex_quoted_patch" by (simp add: ex_quoted_patch_def)
  have p: "?p = fst (sides (fd_change (hd ex_quoted_patch))) \<or>
      ?p = snd (sides (fd_change (hd ex_quoted_patch)))"
    by (simp add: ex_quoted_patch_def)
  from every_changed_path_is_governed [OF w f p m] show ?thesis by simp
qed

end
