(* ===== verification/Delivery_Schema.thy ===== *)
theory Delivery_Schema
  imports Review_Schema Text_Ops
begin

text \<open>
  What a run delivers: the work product (\<open>packages/schema/src/workproduct.ts\<close>), the manifest
  of a copied directory result (\<open>files-manifest.ts\<close>) with its cross-field rules, the
  object-backed git result (\<open>git-result.ts\<close>), the apply state (\<open>control.ts\<close>) and the
  apply verdict (\<open>apply-eligibility.ts\<close>).
\<close>

datatype work_product_kind = WpPatch | WpNewRepo | WpReport | WpFiles

record work_product =
  wp_id :: string
  wp_kind :: work_product_kind
  wp_source_task_id :: string
  wp_producer_attempt_id :: "string option"
  wp_files :: "(string, string) jsmap"
  wp_meta :: "(string, json) jsmap"

section \<open>The manifest of a copied result\<close>

datatype file_state =
  FileState string nat nat "string option"  \<comment> \<open>sha256, size, mode, artifact path\<close>
| DirectoryState nat
| SymlinkState string

datatype file_preimage = PreState file_state | PreAbsent | PreUnknown

record file_change =
  fc_path :: string
  fc_before :: file_preimage
  fc_after :: "file_state option"

datatype isolation = IsoLive | IsoEnvelope

record files_manifest =
  fm_sourceRoot :: string
  fm_executionRoot :: string
  fm_isolation :: isolation
  fm_scopePaths :: "string list"
  fm_complete :: bool
  fm_entries :: "file_change list"

definition is_letter :: "char \<Rightarrow> bool" where
  "is_letter c \<longleftrightarrow> (let b = of_char c :: nat in (65 \<le> b \<and> b \<le> 90) \<or> (97 \<le> b \<and> b \<le> 122))"

definition drive_prefix :: "string \<Rightarrow> bool" where
  "drive_prefix s = (case s of a # b # _ \<Rightarrow> is_letter a \<and> b = CHR '':'' | _ \<Rightarrow> False)"

definition valid_scope_path :: "string \<Rightarrow> bool" where
  "valid_scope_path v \<longleftrightarrow>
     v \<noteq> [] \<and>
     (v = ''.'' \<or>
      (\<not> starts_with v ''/'' \<and> CHR 0x5C \<notin> set v \<and> CHR 0x00 \<notin> set v \<and> \<not> drive_prefix v \<and>
       list_all (\<lambda>p. p \<noteq> [] \<and> p \<noteq> ''.'' \<and> p \<noteq> ''..'') (split_on CHR ''/'' v)))"

definition valid_file_path :: "string \<Rightarrow> bool" where
  "valid_file_path v \<longleftrightarrow> valid_scope_path v \<and> v \<noteq> ''.''"

datatype manifest_issue = DuplicatePath nat | OutputWithoutArtifact nat | BaselineWithoutArtifact nat

fun without_artifact :: "file_state \<Rightarrow> bool" where
  "without_artifact (FileState _ _ _ artifact) = (truthy artifact = None)"
| "without_artifact _ = False"

text \<open>\<open>superRefine\<close>: the issues in the order they are added.\<close>

fun manifest_issues ::
    "isolation \<Rightarrow> nat \<Rightarrow> string list \<Rightarrow> file_change list \<Rightarrow> manifest_issue list" where
  "manifest_issues isol i seen [] = []"
| "manifest_issues isol i seen (e # es) =
     (if fc_path e \<in> set seen then [DuplicatePath i] else []) @
     (case fc_after e of
        Some s \<Rightarrow> if without_artifact s then [OutputWithoutArtifact i] else []
      | None \<Rightarrow> []) @
     (case fc_before e of
        PreState s \<Rightarrow> if isol = IsoEnvelope \<and> without_artifact s then [BaselineWithoutArtifact i] else []
      | _ \<Rightarrow> []) @
     manifest_issues isol (Suc i) (sadd (fc_path e) seen) es"

definition valid_manifest :: "files_manifest \<Rightarrow> bool" where
  "valid_manifest m \<longleftrightarrow>
     fm_sourceRoot m \<noteq> [] \<and> fm_executionRoot m \<noteq> [] \<and>
     list_all valid_scope_path (fm_scopePaths m) \<and>
     list_all (\<lambda>e. valid_file_path (fc_path e)) (fm_entries m) \<and>
     manifest_issues (fm_isolation m) 0 [] (fm_entries m) = []"

section \<open>Git results and the apply verdict\<close>

datatype object_format = Sha1 | Sha256

record git_object_result =
  go_object_format :: object_format
  go_base_tree :: string
  go_candidate_tree :: string
  go_base_commit :: "string option"
  go_store_boundary_commit :: "string option"
  go_digest :: string

datatype run_apply_state =
  NotApplied | Applied | AppliedReviewBlocked | Reverted | Discarded

record apply_eligibility =
  ae_eligible :: bool
  ae_state :: "string option"
  ae_reason :: "string option"
  ae_requiredAction :: "string option"

end
