(* ===== verification/Apply_Gate.thy ===== *)
theory Apply_Gate
  imports Delivery_Schema Policy Diff
begin

text \<open>
  The apply gate of \<open>packages/delivery/src/gate.ts\<close>: whether the change of a run may be
  applied to a repository now, and the verdict surfaces show. Hashing (\<open>sha256\<close>) and the file
  system's \<open>realpathSync\<close>, which may fail, are arguments, as is the working directory.
\<close>

record operator_decision =
  od_action :: string
  od_patch_sha256 :: "string option"
  od_manifest_sha256 :: "string option"

record gate_input =
  gi_state :: "string option"
  gi_decision :: "decision_record option"
  gi_workProduct :: "work_product option"
  gi_patch :: string
  gi_gitResult :: "git_object_result option"
  gi_filesManifest :: "files_manifest option"
  gi_manifestSha256 :: "string option"
  gi_originalRepoRoot :: "string option"
  gi_targetRepoRoot :: string
  gi_operatorDecision :: "operator_decision option"
  gi_finalVerify :: "final_verify_record option option"
  gi_deferFinalVerify :: bool
  gi_applyState :: "run_apply_state option"
  gi_workState :: "work_state option"
  gi_exactPatchUnavailable :: bool

definition em_dash :: string where
  "em_dash = [CHR 0xE2, CHR 0x80, CHR 0x94]"

definition EXACT_PATCH_UNAVAILABLE_MESSAGE :: string where
  "EXACT_PATCH_UNAVAILABLE_MESSAGE =
     ''This change can't be applied from Claudexor: its saved patch copy hides secret-like strings and the exact patch bytes are unavailable (patch_exact_bytes_unavailable). The project files were not touched.''"

definition show_lifecycle :: "lifecycle \<Rightarrow> string" where
  "show_lifecycle l =
     (case l of LifeSucceeded \<Rightarrow> ''succeeded'' | LifeFailed \<Rightarrow> ''failed''
      | LifeCancelled \<Rightarrow> ''cancelled'' | LifeInterrupted \<Rightarrow> ''interrupted'')"

definition applyHint :: "decision_record option \<Rightarrow> string" where
  "applyHint decision =
     (let rerun = ''Re-run until the change finishes successfully.'' in
      case decision of
        None \<Rightarrow> rerun
      | Some d \<Rightarrow>
          let f = dr_facts d; ws = map_option ws_state (of_work_state f) in
          if of_lifecycle f = LifeSucceeded \<and> ws = Some WorkNeedsInput then
            ''Provide the input the run reported it needs, then re-run.''
          else if of_lifecycle f = LifeSucceeded \<and> ws = Some WorkIncomplete then
            ''Re-run until the run reports the work is complete.''
          else if of_review f = ReviewBlocked \<or> of_checks f = ChecksFailed then
            ''Accept the risk to apply it anyway (`claudexor decision <run> --accept-risk`).''
          else if of_review f = ReviewNotRun \<and> of_review_requested f = Some False then
            ''Inspect the patch and retry the final check before applying.''
          else if of_review f = ReviewNotRun \<or> of_checks f = ChecksNotConfigured then
            ''Add a test check or get a clean cross-family review, then re-run. (Accepting the risk only unblocks a change that was reviewed and blocked.)''
          else if of_noChanges f = Some True then
            ''This run made no changes, so there is nothing to apply.''
          else rerun)"

text \<open>The veto of a model that reported its own work as unfinished.\<close>

definition workStateVetoOf :: "gate_input \<Rightarrow> work_status option" where
  "workStateVetoOf inp =
     (case gi_decision inp of
        None \<Rightarrow> None
      | Some d \<Rightarrow>
          if of_lifecycle (dr_facts d) \<noteq> LifeSucceeded then None
          else case gi_workState inp of
              None \<Rightarrow> None
            | Some w \<Rightarrow>
                if ws_state w = WorkNeedsInput \<or> ws_state w = WorkIncomplete then Some (ws_state w)
                else None)"

definition isNeedsDecision :: "decision_record option \<Rightarrow> bool" where
  "isNeedsDecision decision =
     (case decision of
        None \<Rightarrow> False
      | Some d \<Rightarrow> of_review (dr_facts d) = ReviewBlocked \<or> of_checks (dr_facts d) = ChecksFailed)"

definition resultIdentity :: "(string \<Rightarrow> string) \<Rightarrow> gate_input \<Rightarrow> string" where
  "resultIdentity sha256 inp =
     nullish (map_option go_digest (gi_gitResult inp)) (sha256 (gi_patch inp))"

definition is_files :: "gate_input \<Rightarrow> bool" where
  "is_files inp = (map_option wp_kind (gi_workProduct inp) = Some WpFiles)"

definition hasValidRiskOverride :: "(string \<Rightarrow> string) \<Rightarrow> gate_input \<Rightarrow> bool" where
  "hasValidRiskOverride sha256 inp \<longleftrightarrow>
     isNeedsDecision (gi_decision inp) \<and>
     (case gi_operatorDecision inp of
        None \<Rightarrow> False
      | Some d \<Rightarrow>
          (od_action d = ''accept_risk'' \<or> od_action d = ''override_needs_human'') \<and>
          (if is_files inp
           then od_manifest_sha256 d \<noteq> None \<and> od_manifest_sha256 d = gi_manifestSha256 inp
           else od_patch_sha256 d = Some (resultIdentity sha256 inp)))"

definition verify_attempted :: "final_verify_record option \<Rightarrow> bool" where
  "verify_attempted fv = (case fv of None \<Rightarrow> False | Some r \<Rightarrow> fv_attempted r)"

definition isOverrideVerifyPending :: "(string \<Rightarrow> string) \<Rightarrow> gate_input \<Rightarrow> bool" where
  "isOverrideVerifyPending sha256 inp =
     (if gi_finalVerify inp \<noteq> None then False
      else if verify_attempted (case gi_decision inp of None \<Rightarrow> None | Some d \<Rightarrow> dr_final_verify d)
      then False
      else hasValidRiskOverride sha256 inp)"

text \<open>The verifier result that counts: a fresh one, or the one saved with the decision.\<close>

definition effective_verify :: "gate_input \<Rightarrow> decision_record \<Rightarrow> final_verify_record option" where
  "effective_verify inp d =
     (case gi_finalVerify inp of Some fv \<Rightarrow> fv | None \<Rightarrow> dr_final_verify d)"

definition verify_gate ::
    "(string \<Rightarrow> string) \<Rightarrow> gate_input \<Rightarrow> decision_record \<Rightarrow> bool \<Rightarrow> string option" where
  "verify_gate sha256 inp d override =
     (let fv = effective_verify inp d;
          deferred = gi_deferFinalVerify inp \<and> gi_finalVerify inp = None \<and> fv = None in
      if \<not> verify_attempted fv \<and> \<not> deferred \<and> \<not> isOverrideVerifyPending sha256 inp then
        Some ''This change needs a fresh final check before it can be applied.''
      else case fv of
        None \<Rightarrow> None
      | Some r \<Rightarrow>
          if \<not> fv_attempted r then None
          else if fv_applied_cleanly r = Some False then
            Some (''This change no longer applies onto a fresh copy of the code ('' @
              nullish (fv_reason r) ''conflict'' @ ''). Re-run the task.'')
          else if fv_applied_cleanly r = None \<and> \<not> override then
            Some (''We couldn't confirm this change applies onto a fresh copy ('' @
              nullish (fv_reason r) ''verification error'' @
              ''). Accept the risk to apply anyway, or re-run.'')
          else if fv_gates_passed r = Some False \<and> \<not> override then
            Some ''The checks failed when re-run on a fresh copy of the code. Accept the risk to apply anyway, or fix and re-run.''
          else None)"

text \<open>The recorded digest, when it is a string that is not empty.\<close>

definition json_text :: "json option \<Rightarrow> string option" where
  "json_text j = (case j of Some (JStr s) \<Rightarrow> Some s | _ \<Rightarrow> None)"

definition json_field :: "json option \<Rightarrow> string \<Rightarrow> json option" where
  "json_field j k = (case j of Some (JObj kvs) \<Rightarrow> map_of (rev kvs) k | _ \<Rightarrow> None)"

definition show_wp_kind :: "work_product_kind \<Rightarrow> string" where
  "show_wp_kind k =
     (case k of WpPatch \<Rightarrow> ''patch'' | WpNewRepo \<Rightarrow> ''new_repo'' | WpReport \<Rightarrow> ''report''
      | WpFiles \<Rightarrow> ''files'')"

definition integrity_gate :: "(string \<Rightarrow> string) \<Rightarrow> gate_input \<Rightarrow> work_product \<Rightarrow> string option" where
  "integrity_gate sha256 inp w =
     (let files = (wp_kind w = WpFiles);
          objectResult = (if files then None else gi_gitResult inp);
          recorded = json_text
            (if objectResult \<noteq> None then json_field (jget (wp_meta w) ''git_result'') ''digest''
             else jget (wp_meta w) (if files then ''manifest_sha256'' else ''patch_sha256''));
          viewDigest = json_text (jget (wp_meta w) ''patch_sha256'') in
      if files \<and> \<not> (case gi_filesManifest inp of None \<Rightarrow> False
                      | Some m \<Rightarrow> fm_isolation m = IsoEnvelope \<and> fm_complete m) then
        Some ''only a complete copied files result can be applied''
      else if \<not> files \<and> wp_kind w \<noteq> WpPatch then
        Some (''work product kind '' @ show_wp_kind (wp_kind w) @ '' is not applyable as a patch'')
      else if \<not> files \<and> gi_exactPatchUnavailable inp then Some EXACT_PATCH_UNAVAILABLE_MESSAGE
      else if truthy recorded = None then
        Some (if files then ''work product manifest hash is required before apply''
              else ''work product patch hash is required before apply'')
      else if recorded \<noteq> (if files then gi_manifestSha256 inp else Some (resultIdentity sha256 inp)) then
        Some (if files then ''manifest hash does not match the recorded work product''
              else ''patch artifact hash does not match the recorded work product'')
      else if objectResult \<noteq> None \<and> viewDigest \<noteq> None \<and> gi_patch inp \<noteq> [] \<and>
              viewDigest \<noteq> Some (sha256 (gi_patch inp)) then
        Some ''patch artifact hash does not match the recorded work product''
      else None)"

definition project_gate :: "(string \<Rightarrow> string option) \<Rightarrow> gate_input \<Rightarrow> string option" where
  "project_gate realpath inp =
     (case truthy (gi_originalRepoRoot inp) of
        None \<Rightarrow> Some ''run original project is unknown; refusing apply''
      | Some original \<Rightarrow>
          (case (realpath original, realpath (gi_targetRepoRoot inp)) of
             (Some a, Some b) \<Rightarrow>
               if a \<noteq> b
               then Some ''target repo does not match the run's original project; refusing apply''
               else None
           | _ \<Rightarrow> Some ''run original project cannot be verified; refusing apply''))"

text \<open>The paths of both sides of every file of the patch.\<close>

definition entry_paths :: "diff_file_entry \<Rightarrow> string list" where
  "entry_paths f =
     (case truthy (de_oldPath f) of None \<Rightarrow> [] | Some p \<Rightarrow> [p]) @
     (case truthy (de_newPath f) of None \<Rightarrow> [] | Some p \<Rightarrow> [p])"

definition patchPaths :: "string \<Rightarrow> string list" where
  "patchPaths patch = unique (concat (map entry_paths (ud_files (parseUnifiedDiff patch))))"

fun confinement_gate :: "string \<Rightarrow> string \<Rightarrow> string list \<Rightarrow> string option" where
  "confinement_gate cwd target [] = None"
| "confinement_gate cwd target (p # ps) =
     (let guard = pathGuard cwd target p in
      if \<not> pg_allowed guard then
        Some (''patch path escapes the target repo: '' @ nullish (pg_reason guard) ''undefined'')
      else confinement_gate cwd target ps)"

definition decision_applyable :: "decision_record \<Rightarrow> bool" where
  "decision_applyable d \<longleftrightarrow>
     of_lifecycle (dr_facts d) = LifeSucceeded \<and>
     reviewAllowsApply (of_review (dr_facts d)) (of_review_requested (dr_facts d)) \<and>
     of_checks (dr_facts d) \<noteq> ChecksFailed"

definition validateApplyGate ::
    "(string \<Rightarrow> string) \<Rightarrow> (string \<Rightarrow> string option) \<Rightarrow> string \<Rightarrow> gate_input \<Rightarrow> string option" where
  "validateApplyGate sha256 realpath cwd inp =
     (let override = hasValidRiskOverride sha256 inp in
      if gi_applyState inp = Some Discarded then Some ''This result was discarded.''
      else if truthy (gi_state inp) \<noteq> None \<and> gi_state inp \<noteq> Some ''succeeded'' \<and> \<not> override then
        Some (''This change can't be applied yet '' @ em_dash @ '' the run is still '' @
          nullish (gi_state inp) [] @ ''. '' @ applyHint (gi_decision inp))
      else case gi_decision inp of
        None \<Rightarrow> Some ''A completed run is required before this change can be applied.''
      | Some d \<Rightarrow>
          if workStateVetoOf inp = Some WorkNeedsInput then
            Some (''This change can't be applied '' @ em_dash @ '' the run reported it needs more input to finish. Provide the missing input and re-run.'')
          else if workStateVetoOf inp = Some WorkIncomplete then
            Some (''This change can't be applied '' @ em_dash @ '' the run reported the work is incomplete. Re-run until it finishes.'')
          else if \<not> decision_applyable d \<and> \<not> override then
            Some (''This change isn't ready to apply yet. '' @ applyHint (gi_decision inp))
          else case verify_gate sha256 inp d override of
            Some e \<Rightarrow> Some e
          | None \<Rightarrow>
              (case gi_workProduct inp of
                 None \<Rightarrow> Some ''work product is required before apply''
               | Some w \<Rightarrow>
                   (case integrity_gate sha256 inp w of
                      Some e \<Rightarrow> Some e
                    | None \<Rightarrow>
                        (case project_gate realpath inp of
                           Some e \<Rightarrow> Some e
                         | None \<Rightarrow>
                             if wp_kind w = WpFiles then None
                             else confinement_gate cwd (gi_targetRepoRoot inp)
                                    (patchPaths (gi_patch inp))))))"

section \<open>The verdict\<close>

definition show_work_status :: "work_status \<Rightarrow> string" where
  "show_work_status s =
     (case s of WorkCompleted \<Rightarrow> ''completed'' | WorkNeedsInput \<Rightarrow> ''needs_input''
      | WorkIncomplete \<Rightarrow> ''incomplete'' | WorkUnverified \<Rightarrow> ''unverified'')"

definition eligibility_state :: "gate_input \<Rightarrow> string option" where
  "eligibility_state inp =
     (case workStateVetoOf inp of
        Some w \<Rightarrow> Some (show_work_status w)
      | None \<Rightarrow>
          (case gi_decision inp of
             None \<Rightarrow> gi_state inp
           | Some d \<Rightarrow>
               let f = dr_facts d in
               Some (if of_review f = ReviewBlocked \<or> of_checks f = ChecksFailed then ''needs_review''
                     else if of_review f = ReviewNotRun \<or> of_checks f = ChecksNotConfigured
                     then ''not_verified''
                     else if of_noChanges f = Some True then ''no_changes''
                     else ''ok'')))"

definition terminal_verdict :: "run_apply_state option \<Rightarrow> apply_eligibility option" where
  "terminal_verdict s =
     (let no = (\<lambda>state reason. Some \<lparr>ae_eligible = False, ae_state = Some state,
                  ae_reason = Some reason, ae_requiredAction = None\<rparr>) in
      case s of
        Some Discarded \<Rightarrow> no ''discarded'' ''This result was discarded.''
      | Some Applied \<Rightarrow> no ''already_applied'' ''This change is already applied.''
      | Some AppliedReviewBlocked \<Rightarrow> no ''already_applied'' ''This change is already applied.''
      | Some Reverted \<Rightarrow> no ''reverted'' ''This change was reverted.''
      | _ \<Rightarrow> None)"

definition deriveApplyEligibility ::
    "(string \<Rightarrow> string) \<Rightarrow> (string \<Rightarrow> string option) \<Rightarrow> string \<Rightarrow> gate_input \<Rightarrow> apply_eligibility" where
  "deriveApplyEligibility sha256 realpath cwd inp =
     (case terminal_verdict (gi_applyState inp) of
        Some v \<Rightarrow> v
      | None \<Rightarrow>
          (case validateApplyGate sha256 realpath cwd inp of
             None \<Rightarrow>
               if isOverrideVerifyPending sha256 inp then
                 \<lparr>ae_eligible = True, ae_state = Some ''verify_pending'', ae_reason = None,
                  ae_requiredAction = None\<rparr>
               else
                 \<lparr>ae_eligible = True, ae_state = eligibility_state inp, ae_reason = None,
                  ae_requiredAction = None\<rparr>
           | Some reason \<Rightarrow>
               \<lparr>ae_eligible = False, ae_state = eligibility_state inp, ae_reason = Some reason,
                ae_requiredAction = Some (applyHint (gi_decision inp))\<rparr>))"

end
