(* ===== verification/Delivery_Props.thy ===== *)
theory Delivery_Props
  imports Apply_Gate Diff_Props
begin

text \<open>
  What the apply gate promises: what passes is earned, bound to its digest and confined to the
  project of the run; what an operator may not override; and the verdict surfaces show is the gate's.
\<close>

section \<open>What passes\<close>

lemma confinement_gate_iff:
  "confinement_gate cwd target ps = None \<longleftrightarrow> list_all (\<lambda>p. pg_allowed (pathGuard cwd target p)) ps"
  by (induction ps) (simp_all add: Let_def)

definition result_bound :: "(string \<Rightarrow> string) \<Rightarrow> gate_input \<Rightarrow> work_product \<Rightarrow> bool" where
  "result_bound sha256 inp w \<longleftrightarrow>
     (case wp_kind w of
        WpFiles \<Rightarrow>
          (\<exists>digest. json_text (jget (wp_meta w) ''manifest_sha256'') = Some digest \<and> digest \<noteq> [] \<and>
             gi_manifestSha256 inp = Some digest) \<and>
          (\<exists>m. gi_filesManifest inp = Some m \<and> fm_isolation m = IsoEnvelope \<and> fm_complete m)
      | WpPatch \<Rightarrow>
          \<not> gi_exactPatchUnavailable inp \<and>
          (case gi_gitResult inp of
             Some g \<Rightarrow> json_text (json_field (jget (wp_meta w) ''git_result'') ''digest'') = Some (go_digest g)
           | None \<Rightarrow> json_text (jget (wp_meta w) ''patch_sha256'') = Some (sha256 (gi_patch inp)))
      | _ \<Rightarrow> False)"

lemma integrity_gate_bound:
  assumes "integrity_gate sha256 inp w = None"
  shows "result_bound sha256 inp w"
proof (cases "wp_kind w = WpFiles")
  case True
  then show ?thesis
    using assms by (auto simp: integrity_gate_def result_bound_def truthy_Some_iff Let_def
        split: if_splits option.splits)
next
  case False
  then have "wp_kind w = WpPatch"
    using assms by (auto simp: integrity_gate_def Let_def split: if_splits)
  then show ?thesis
    using assms
    by (auto simp: integrity_gate_def result_bound_def resultIdentity_def Let_def
        split: if_splits option.splits)
qed

definition same_project :: "(string \<Rightarrow> string option) \<Rightarrow> gate_input \<Rightarrow> bool" where
  "same_project realpath inp \<longleftrightarrow>
     (\<exists>original real. gi_originalRepoRoot inp = Some original \<and> realpath original = Some real \<and>
        realpath (gi_targetRepoRoot inp) = Some real)"

lemma project_gate_same: "project_gate realpath inp = None \<Longrightarrow> same_project realpath inp"
  by (auto simp: project_gate_def same_project_def truthy_def split: option.splits if_splits)

text \<open>
  The verifier's word, in terms of its record: \<open>accepted\<close> is whether the operator accepted the
  risk. A verifier that did not run is excused only by a deferral or by that acceptance, and never when a
  fresh result was handed in.
\<close>

definition verifier_ok :: "gate_input \<Rightarrow> decision_record \<Rightarrow> bool \<Rightarrow> bool" where
  "verifier_ok inp d accepted \<longleftrightarrow>
     (case (case gi_finalVerify inp of Some fresh \<Rightarrow> fresh | None \<Rightarrow> dr_final_verify d) of
        None \<Rightarrow> gi_finalVerify inp = None \<and> (gi_deferFinalVerify inp \<or> accepted)
      | Some r \<Rightarrow>
          if fv_attempted r
          then fv_applied_cleanly r = Some True \<and> fv_gates_passed r \<noteq> Some False \<or>
            accepted \<and> fv_applied_cleanly r \<noteq> Some False
          else gi_finalVerify inp = None \<and> accepted)"

lemma verify_gate_ok:
  "verify_gate sha256 inp d (hasValidRiskOverride sha256 inp) = None \<Longrightarrow>
     verifier_ok inp d (hasValidRiskOverride sha256 inp)"
  by (auto simp: verify_gate_def verifier_ok_def effective_verify_def verify_attempted_def
      isOverrideVerifyPending_def Let_def split: if_splits option.splits)

text \<open>The operator accepted the risk of a blocked or failed run, for the result at hand.\<close>

definition risk_accepted :: "(string \<Rightarrow> string) \<Rightarrow> gate_input \<Rightarrow> decision_record \<Rightarrow> work_product \<Rightarrow> bool" where
  "risk_accepted sha256 inp d w \<longleftrightarrow>
     (of_review (dr_facts d) = ReviewBlocked \<or> of_checks (dr_facts d) = ChecksFailed) \<and>
     (\<exists>od. gi_operatorDecision inp = Some od \<and>
        od_action od \<in> {''accept_risk'', ''override_needs_human''} \<and>
        (if wp_kind w = WpFiles
         then od_manifest_sha256 od \<noteq> None \<and> od_manifest_sha256 od = gi_manifestSha256 inp
         else od_patch_sha256 od =
           Some (case gi_gitResult inp of Some g \<Rightarrow> go_digest g | None \<Rightarrow> sha256 (gi_patch inp))))"

lemma risk_accepted_override:
  assumes "gi_decision inp = Some d" and "gi_workProduct inp = Some w"
  shows "hasValidRiskOverride sha256 inp = risk_accepted sha256 inp d w"
proof -
  have "resultIdentity sha256 inp =
      (case gi_gitResult inp of Some g \<Rightarrow> go_digest g | None \<Rightarrow> sha256 (gi_patch inp))"
    by (simp add: resultIdentity_def split: option.splits)
  then show ?thesis
    using assms by (auto simp: hasValidRiskOverride_def risk_accepted_def isNeedsDecision_def
        is_files_def split: option.splits)
qed

text \<open>A path whose target, with every \<open>.\<close> and \<open>..\<close> resolved, lies strictly below the root.\<close>

definition stays_below :: "string \<Rightarrow> string \<Rightarrow> string \<Rightarrow> bool" where
  "stays_below cwd base p \<longleftrightarrow>
     (\<exists>name rest. guard_target cwd base p = resolve_segs cwd [base] @ name # rest)"

lemma gate_stages:
  assumes "validateApplyGate sha256 realpath cwd inp = None"
  obtains d w where "gi_decision inp = Some d" "gi_workProduct inp = Some w"
    "gi_applyState inp \<noteq> Some Discarded" "workStateVetoOf inp = None"
    "decision_applyable d \<or> hasValidRiskOverride sha256 inp"
    "gi_state inp \<in> {None, Some [], Some ''succeeded''} \<or> hasValidRiskOverride sha256 inp"
    "verify_gate sha256 inp d (hasValidRiskOverride sha256 inp) = None"
    "integrity_gate sha256 inp w = None" "project_gate realpath inp = None"
    "wp_kind w = WpFiles \<or> confinement_gate cwd (gi_targetRepoRoot inp) (patchPaths (gi_patch inp)) = None"
proof -
  have veto: "workStateVetoOf inp \<in> {None, Some WorkNeedsInput, Some WorkIncomplete}"
    by (auto simp: workStateVetoOf_def split: option.splits)
  have state: "truthy (gi_state inp) = None \<Longrightarrow> gi_state inp \<in> {None, Some []}"
    by (auto simp: truthy_def split: option.splits if_splits)
  show ?thesis
    using assms veto that
    by (auto simp: validateApplyGate_def Let_def dest!: state split: if_splits option.splits)
qed

text \<open>The model reported its work as unfinished.\<close>

definition reported_unfinished :: "gate_input \<Rightarrow> bool" where
  "reported_unfinished inp \<longleftrightarrow>
     map_option ws_state (gi_workState inp) \<in> {Some WorkNeedsInput, Some WorkIncomplete}"

lemma veto_iff:
  assumes "gi_decision inp = Some d"
  shows "workStateVetoOf inp = None \<longleftrightarrow>
    of_lifecycle (dr_facts d) \<noteq> LifeSucceeded \<or> \<not> reported_unfinished inp"
  using assms by (auto simp: workStateVetoOf_def reported_unfinished_def split: option.splits)

text \<open>C36: When the apply gate passes, the change is earned. The result was not discarded, and the run has a
  decision and a work product. Either the run succeeded on its own: its lifecycle is succeeded, its
  review approved it or was not asked for, its checks did not fail, and the model did not report the
  work as unfinished; or its review blocked it or its checks failed, and an operator accepted that risk
  for the digest of this very result. Such an acceptance does not lift the model's report on a
  run whose lifecycle succeeded; on a run whose lifecycle did not, the report is not consulted. A run
  state other than succeeded needs the acceptance too. No verifier proved a conflict, and without the
  acceptance the verifier applied the change cleanly and its gates did not fail, or its check is deferred.
  The recorded digest is the one of the result at hand (a copied result must be complete), the
  target is the run's original project, and unless the result is a copy of files, which has no patch,
  every path the patch parser reads stays strictly below it.
\<close>

theorem passing_gate_is_earned:
  assumes "validateApplyGate sha256 realpath cwd inp = None"
  shows "\<exists>d w. gi_decision inp = Some d \<and> gi_workProduct inp = Some w \<and>
    gi_applyState inp \<noteq> Some Discarded \<and>
    ((of_lifecycle (dr_facts d) = LifeSucceeded \<and>
      (of_review (dr_facts d) = ReviewApproved \<or>
       of_review (dr_facts d) = ReviewNotRun \<and> of_review_requested (dr_facts d) = Some False) \<and>
      of_checks (dr_facts d) \<noteq> ChecksFailed) \<or>
     risk_accepted sha256 inp d w) \<and>
    (of_lifecycle (dr_facts d) \<noteq> LifeSucceeded \<or> \<not> reported_unfinished inp) \<and>
    (gi_state inp \<in> {None, Some [], Some ''succeeded''} \<or> risk_accepted sha256 inp d w) \<and>
    verifier_ok inp d (risk_accepted sha256 inp d w) \<and>
    result_bound sha256 inp w \<and> same_project realpath inp \<and>
    (wp_kind w = WpFiles \<or>
     list_all (stays_below cwd (gi_targetRepoRoot inp)) (patchPaths (gi_patch inp)))"
  using assms
proof (rule gate_stages)
  fix d w
  assume d: "gi_decision inp = Some d" and w: "gi_workProduct inp = Some w"
    and stages: "gi_applyState inp \<noteq> Some Discarded" "workStateVetoOf inp = None"
    "decision_applyable d \<or> hasValidRiskOverride sha256 inp"
    "gi_state inp \<in> {None, Some [], Some ''succeeded''} \<or> hasValidRiskOverride sha256 inp"
    "verify_gate sha256 inp d (hasValidRiskOverride sha256 inp) = None"
    "integrity_gate sha256 inp w = None" "project_gate realpath inp = None"
    "wp_kind w = WpFiles \<or> confinement_gate cwd (gi_targetRepoRoot inp) (patchPaths (gi_patch inp)) = None"
  note accepted = risk_accepted_override [OF d w, of sha256]
  have below: "wp_kind w = WpFiles \<or>
      list_all (stays_below cwd (gi_targetRepoRoot inp)) (patchPaths (gi_patch inp))"
    using stages(8)
    by (auto simp: confinement_gate_iff write_allowed_iff_inside stays_below_def list_all_iff)
  show ?thesis
    using stages(1,3,4) verify_gate_ok [OF stages(5)] integrity_gate_bound [OF stages(6)]
      project_gate_same [OF stages(7)] below iffD1 [OF veto_iff [OF d] stages(2)] d w
    unfolding accepted decision_applyable_def reviewAllowsApply_def by blast
qed

section \<open>An example run\<close>

definition example_decision :: decision_record where
  "example_decision =
     \<lparr>dr_winner = Some ''a'',
      dr_facts = \<lparr>of_lifecycle = LifeSucceeded, of_noChanges = None, of_checks = ChecksPassed,
        of_review = ReviewApproved, of_review_requested = None, of_reason = None,
        of_work_state = None\<rparr>,
      dr_why_winner = [], dr_why_not_others = [], dr_ranking_policy_version = 1, dr_score_axes = [],
      dr_ranking_scorecard = [], dr_decisive_axis = None, dr_accepted_risks = [],
      dr_final_checks = [], dr_evidence_facts = [],
      dr_budget_summary = \<lparr>bu_spend_usd = None, bu_estimated = False, bu_cash_usd = None,
        bu_controllable_cash_usd = None, bu_valuation_usd = None, bu_valuation_knowledge = None\<rparr>,
      dr_apply_recommendation = RecApply, dr_verification_basis = BasisBoth,
      dr_final_verify = Some \<lparr>fv_base_manifest_sha256 = None, fv_attempted = True,
        fv_base_sha = None, fv_applied_cleanly = Some True, fv_gates_passed = Some True,
        fv_gates = [], fv_duration_ms = None, fv_reason = None\<rparr>\<rparr>"

definition example_input :: gate_input where
  "example_input =
     \<lparr>gi_state = Some ''succeeded'', gi_decision = Some example_decision,
      gi_workProduct = Some \<lparr>wp_id = ''w'', wp_kind = WpPatch, wp_source_task_id = ''t'',
        wp_producer_attempt_id = None, wp_files = [], wp_meta = [(''patch_sha256'', JStr ''h'')]\<rparr>,
      gi_patch = [], gi_gitResult = None, gi_filesManifest = None, gi_manifestSha256 = None,
      gi_originalRepoRoot = Some ''/r'', gi_targetRepoRoot = ''/r'', gi_operatorDecision = None,
      gi_finalVerify = None, gi_deferFinalVerify = False, gi_applyState = None, gi_workState = None,
      gi_exactPatchUnavailable = False\<rparr>"

lemma empty_patch_paths: "patchPaths [] = []"
  by (simp add: patchPaths_def parseUnifiedDiff_def decide_plain_def plain_boundary_def
      plain_line_def plainFileHeaderAt_def is_binary_stub_def diff_init_def flush_def Let_def)

lemmas gate_eval =
  validateApplyGate_def verify_gate_def integrity_gate_def project_gate_def decision_applyable_def
  reviewAllowsApply_def hasValidRiskOverride_def isNeedsDecision_def workStateVetoOf_def
  effective_verify_def verify_attempted_def resultIdentity_def json_text_def is_files_def
  example_decision_def empty_patch_paths

lemma example_passes: "validateApplyGate (\<lambda>_. ''h'') Some ''/'' example_input = None"
  by (simp add: gate_eval example_input_def)

theorem passing_gate_is_earned_witness:
  "validateApplyGate (\<lambda>_. ''h'') Some ''/'' example_input = None \<and>
   same_project Some example_input"
  using passing_gate_is_earned [OF example_passes] example_passes by blast

section \<open>What no override reaches\<close>

lemma workStateVeto_override [simp]:
  "workStateVetoOf (inp\<lparr>gi_operatorDecision := od\<rparr>) = workStateVetoOf inp"
  by (simp add: workStateVetoOf_def split: option.splits)

lemma effective_verify_override [simp]:
  "effective_verify (inp\<lparr>gi_operatorDecision := od\<rparr>) d = effective_verify inp d"
  by (simp add: effective_verify_def)

text \<open>A verifier that ran and proved that the patch does not apply.\<close>

definition proven_conflict :: "gate_input \<Rightarrow> bool" where
  "proven_conflict inp \<longleftrightarrow>
     (case gi_decision inp of
        None \<Rightarrow> False
      | Some d \<Rightarrow>
          (case effective_verify inp d of
             None \<Rightarrow> False
           | Some r \<Rightarrow> fv_attempted r \<and> fv_applied_cleanly r = Some False))"

text \<open>Whatever the operator decides, a change is refused when the model itself reported that the
  work is unfinished, and when the verifier proved that the patch does not apply.\<close>

theorem override_has_limits:
  assumes "workStateVetoOf inp \<noteq> None \<or> proven_conflict inp"
  shows "validateApplyGate sha256 realpath cwd (inp\<lparr>gi_operatorDecision := od\<rparr>) \<noteq> None"
proof
  assume "validateApplyGate sha256 realpath cwd (inp\<lparr>gi_operatorDecision := od\<rparr>) = None"
  then show False
  proof (rule gate_stages)
    fix d w
    assume d: "gi_decision (inp\<lparr>gi_operatorDecision := od\<rparr>) = Some d"
      and veto: "workStateVetoOf (inp\<lparr>gi_operatorDecision := od\<rparr>) = None"
      and verify: "verify_gate sha256 (inp\<lparr>gi_operatorDecision := od\<rparr>) d
        (hasValidRiskOverride sha256 (inp\<lparr>gi_operatorDecision := od\<rparr>)) = None"
    show False
      using assms d veto verify_gate_ok [OF verify]
      by (auto simp: proven_conflict_def verifier_ok_def effective_verify_def split: option.splits)
  qed
qed

text \<open>The example run with a block in its review, and the operator's acceptance of its risk.\<close>

definition blocked_input :: gate_input where
  "blocked_input =
     example_input\<lparr>gi_decision := Some (example_decision\<lparr>dr_facts :=
         (dr_facts example_decision)\<lparr>of_review := ReviewBlocked\<rparr>\<rparr>),
       gi_operatorDecision := Some \<lparr>od_action = ''accept_risk'', od_patch_sha256 = Some ''h'',
         od_manifest_sha256 = None\<rparr>\<rparr>"

definition conflict_input :: gate_input where
  "conflict_input =
     blocked_input\<lparr>gi_finalVerify := Some (Some
       \<lparr>fv_base_manifest_sha256 = None, fv_attempted = True, fv_base_sha = None,
        fv_applied_cleanly = Some False, fv_gates_passed = None, fv_gates = [],
        fv_duration_ms = None, fv_reason = None\<rparr>)\<rparr>"

lemma blocked_override: "hasValidRiskOverride (\<lambda>_. ''h'') blocked_input"
  and blocked_passes: "validateApplyGate (\<lambda>_. ''h'') Some ''/'' blocked_input = None"
  by (simp_all add: gate_eval example_input_def blocked_input_def)

theorem override_has_limits_witness:
  "validateApplyGate (\<lambda>_. ''h'') Some ''/''
     (conflict_input\<lparr>gi_operatorDecision := gi_operatorDecision blocked_input\<rparr>) \<noteq> None"
proof (rule override_has_limits)
  show "workStateVetoOf conflict_input \<noteq> None \<or> proven_conflict conflict_input"
    by (simp add: proven_conflict_def effective_verify_def conflict_input_def blocked_input_def)
qed

text \<open>The veto is on the lifecycle axis: a failed run whose model asked for input passes the gate
  once an operator accepts the risk of its block.\<close>

definition failed_asking_input :: gate_input where
  "failed_asking_input =
     blocked_input\<lparr>gi_state := Some ''failed'',
       gi_decision := Some (example_decision\<lparr>dr_facts :=
         (dr_facts example_decision)\<lparr>of_review := ReviewBlocked, of_lifecycle := LifeFailed\<rparr>\<rparr>),
       gi_workState := Some (\<lparr>ws_state = WorkNeedsInput, ws_source = SourceConstrained,
         ws_required_inputs = None, ws_unverified_reason = None\<rparr>)\<rparr>"

lemma failed_run_asking_input_passes:
  "reported_unfinished failed_asking_input \<and>
   validateApplyGate (\<lambda>_. ''h'') Some ''/'' failed_asking_input = None"
  by (simp add: gate_eval reported_unfinished_def example_input_def blocked_input_def
      failed_asking_input_def)

text \<open>A change that its decision does not allow passes only by an operator's acceptance of the
  risk of a run that was blocked or failed its checks, and that acceptance names the digest of the
  very result that is applied: the manifest of a directory, else the object digest or the hash of the
  patch.\<close>

theorem override_is_bound_to_result:
  assumes "validateApplyGate sha256 realpath cwd inp = None"
    and "gi_decision inp = Some d" and "\<not> decision_applyable d"
  shows "\<exists>od. gi_operatorDecision inp = Some od \<and>
    od_action od \<in> {''accept_risk'', ''override_needs_human''} \<and>
    (of_review (dr_facts d) = ReviewBlocked \<or> of_checks (dr_facts d) = ChecksFailed) \<and>
    (if is_files inp
     then od_manifest_sha256 od \<noteq> None \<and> od_manifest_sha256 od = gi_manifestSha256 inp
     else od_patch_sha256 od =
       Some (case gi_gitResult inp of Some g \<Rightarrow> go_digest g | None \<Rightarrow> sha256 (gi_patch inp)))"
proof -
  have "hasValidRiskOverride sha256 inp"
    using assms(1) by (rule gate_stages) (use assms in auto)
  then obtain od where od: "gi_operatorDecision inp = Some od"
      "od_action od \<in> {''accept_risk'', ''override_needs_human''}"
      "isNeedsDecision (Some d)"
      "if is_files inp
       then od_manifest_sha256 od \<noteq> None \<and> od_manifest_sha256 od = gi_manifestSha256 inp
       else od_patch_sha256 od = Some (resultIdentity sha256 inp)"
    using assms(2) by (simp add: hasValidRiskOverride_def split: option.splits) blast
  have identity: "resultIdentity sha256 inp =
      (case gi_gitResult inp of Some g \<Rightarrow> go_digest g | None \<Rightarrow> sha256 (gi_patch inp))"
    by (simp add: resultIdentity_def split: option.splits)
  have blocked: "of_review (dr_facts d) = ReviewBlocked \<or> of_checks (dr_facts d) = ChecksFailed"
    using od(3) by (simp add: isNeedsDecision_def)
  show ?thesis using od(1,2,4) blocked unfolding identity by blast
qed

theorem override_is_bound_to_result_witness:
  "\<exists>od. gi_operatorDecision blocked_input = Some od \<and> od_patch_sha256 od = Some ''h''"
proof -
  obtain d where "gi_decision blocked_input = Some d" "\<not> decision_applyable d"
    by (simp add: blocked_input_def decision_applyable_def reviewAllowsApply_def example_decision_def)
  from override_is_bound_to_result [OF blocked_passes this]
  show ?thesis by (auto simp: blocked_input_def example_input_def is_files_def)
qed

section \<open>The verdict\<close>

lemma terminal_verdict_cases:
  "(\<exists>v. terminal_verdict s = Some v \<and> \<not> ae_eligible v \<and> ae_reason v \<noteq> None \<and>
      s \<in> {Some Discarded, Some Applied, Some AppliedReviewBlocked, Some Reverted}) \<or>
   (terminal_verdict s = None \<and> s \<in> {None, Some NotApplied})"
proof (cases s)
  case (Some a)
  then show ?thesis by (cases a) (simp_all add: terminal_verdict_def Let_def)
qed (simp add: terminal_verdict_def Let_def)

text \<open>The verdict surfaces show is the gate's own: a change is eligible exactly when the gate
  passes and the change was neither applied nor reverted before, a verdict carries a reason exactly
  when it is not eligible, and an eligible change that still awaits its fresh final check says so.\<close>

theorem verdict_is_the_gates:
  "ae_eligible (deriveApplyEligibility sha256 realpath cwd inp) =
     (validateApplyGate sha256 realpath cwd inp = None \<and>
      gi_applyState inp \<notin> {Some Applied, Some AppliedReviewBlocked, Some Reverted}) \<and>
   (ae_reason (deriveApplyEligibility sha256 realpath cwd inp) = None) =
     ae_eligible (deriveApplyEligibility sha256 realpath cwd inp) \<and>
   (ae_eligible (deriveApplyEligibility sha256 realpath cwd inp) \<and>
      isOverrideVerifyPending sha256 inp) =
     (ae_eligible (deriveApplyEligibility sha256 realpath cwd inp) \<and>
      isOverrideVerifyPending sha256 inp \<and>
      ae_state (deriveApplyEligibility sha256 realpath cwd inp) = Some ''verify_pending'')"
proof -
  have disc: "gi_applyState inp = Some Discarded \<Longrightarrow> validateApplyGate sha256 realpath cwd inp \<noteq> None"
    by (simp add: validateApplyGate_def Let_def)
  from terminal_verdict_cases [of "gi_applyState inp"] show ?thesis
  proof
    assume "\<exists>v. terminal_verdict (gi_applyState inp) = Some v \<and> \<not> ae_eligible v \<and>
        ae_reason v \<noteq> None \<and>
        gi_applyState inp \<in> {Some Discarded, Some Applied, Some AppliedReviewBlocked, Some Reverted}"
    then show ?thesis using disc by (auto simp: deriveApplyEligibility_def)
  next
    assume "terminal_verdict (gi_applyState inp) = None \<and> gi_applyState inp \<in> {None, Some NotApplied}"
    then show ?thesis
      by (auto simp: deriveApplyEligibility_def split: option.splits)
  qed
qed

end
