(* ===== verification/Review.thy ===== *)
theory Review
  imports Settlements Candidate_Evidence Policy
begin

text \<open>
  The review component (\<open>packages/review/src\<close>): convergence of a repair loop
  (\<open>convergence.ts\<close>), the ledger that detects a stalled loop (\<open>readiness.ts\<close>), route
  proofs (\<open>route.ts\<close>), the deterministic revalidation of findings (\<open>revalidate.ts\<close>),
  the working directory, environment and outcome of a gate (\<open>gates.ts\<close>), and the accounting of
  a review panel (\<open>reviewerSpendAccumulator.ts\<close>, \<open>reviewRuntimeTypes.ts\<close>).
\<close>

section \<open>Convergence\<close>

record convergence_predicate =
  cp_require_tests_pass :: bool
  cp_require_no_accepted_block_open :: bool
  cp_require_no_accepted_fix_first_open :: bool
  cp_require_final_cross_family_clean_review :: bool
  cp_require_final_diff_stable_after_review :: bool
  cp_require_no_accepted_needs_human_open :: bool

record convergence_input =
  ci_predicate :: convergence_predicate
  ci_gates :: "gate_result list"
  ci_findings :: "review_finding list"
  ci_finalReviewClean :: bool
  ci_diffStableAfterReview :: bool

record convergence_result =
  cn_converged :: bool
  cn_reasons :: "string list"
  cn_openBlockers :: "review_finding list"

definition open_with :: "review_finding list \<Rightarrow> severity \<Rightarrow> bool" where
  "open_with blockers s = list_ex (\<lambda>f. rf_severity f = s) blockers"

definition evaluateConvergence :: "convergence_input \<Rightarrow> convergence_result" where
  "evaluateConvergence inp =
     (let p = ci_predicate inp;
          openBlockers = filter isBlocking (ci_findings inp);
          reasons =
            (if cp_require_tests_pass p \<and> \<not> gatesPassed (ci_gates inp)
             then [''required gates are not all passing''] else []) @
            (if cp_require_no_accepted_block_open p \<and> open_with openBlockers SevBlock
             then [''an accepted BLOCK finding is open''] else []) @
            (if cp_require_no_accepted_fix_first_open p \<and> open_with openBlockers SevFixFirst
             then [''an accepted FIX_FIRST finding is open''] else []) @
            (if cp_require_no_accepted_needs_human_open p \<and> open_with openBlockers SevNeedsHuman
             then [''an accepted NEEDS_HUMAN escalation is open''] else []) @
            (if cp_require_final_cross_family_clean_review p \<and> \<not> ci_finalReviewClean inp
             then [''no final cross-family clean review''] else []) @
            (if cp_require_final_diff_stable_after_review p \<and> \<not> ci_diffStableAfterReview inp
             then [''diff changed after final review (review is stale)''] else [])
      in \<lparr>cn_converged = reasons = [], cn_reasons = reasons, cn_openBlockers = openBlockers\<rparr>)"

section \<open>Stalled loops\<close>

record readiness_debt =
  rd_signature :: string
  rd_count :: nat
  rd_lastReason :: string

type_synonym readiness_ledger = "(string, readiness_debt) jsmap"

definition recordRound :: "readiness_ledger \<Rightarrow> string \<Rightarrow> string \<Rightarrow> readiness_ledger" where
  "recordRound ledger signature reason =
     (case jget ledger signature of
        Some debt \<Rightarrow>
          jset signature (debt\<lparr>rd_count := rd_count debt + 1, rd_lastReason := reason\<rparr>) ledger
      | None \<Rightarrow>
          jset signature \<lparr>rd_signature = signature, rd_count = 1, rd_lastReason = reason\<rparr> ledger)"

definition isStalled :: "readiness_ledger \<Rightarrow> string \<Rightarrow> nat option \<Rightarrow> bool" where
  "isStalled ledger signature threshold \<longleftrightarrow>
     nullish threshold 2 \<le> (case jget ledger signature of None \<Rightarrow> 0 | Some d \<Rightarrow> rd_count d)"

definition failureSignature :: "string list \<Rightarrow> string" where
  "failureSignature reasons = join '' | '' (sort (map to_lower reasons))"

section \<open>Route proofs\<close>

datatype provider_family =
  FamOpenai | FamAnthropic | FamGoogle | FamCursor | FamOpencode | FamXai | FamLocal | FamUnknown

datatype evidence_source =
  SrcStreamEvent | SrcMetadata | SrcModelCatalog | SrcTranscript | SrcUnavailable

text \<open>A profile id may be absent, null or a string.\<close>

record route_requested =
  rq_harness_id :: string
  rq_provider_family :: provider_family
  rq_model_hint :: "string option"
  rq_credential_profile_id :: "string option option"

record route_observed =
  ro_provider :: "string option"
  ro_model_id :: "string option"
  ro_credential_profile_id :: "string option option"
  ro_evidence_source :: evidence_source

record route_proof =
  rp_requested :: route_requested
  rp_observed :: route_observed
  rp_diversity_against :: "string list"
  rp_status :: route_proof_status

text \<open>The observation as the caller passes it: its evidence source may be missing. \<open>RouteProof.parse\<close>
  fails on empty identifiers.\<close>

definition valid_route_proof :: "route_proof \<Rightarrow> bool" where
  "valid_route_proof p \<longleftrightarrow>
     valid_id (rq_harness_id (rp_requested p)) \<and> list_all valid_id (rp_diversity_against p)"

definition profile_matches :: "string option option \<Rightarrow> string option option \<Rightarrow> bool" where
  "profile_matches requested observed =
     (case requested of Some (Some p) \<Rightarrow> observed = Some (Some p) | _ \<Rightarrow> True)"

definition buildRouteProof ::
    "route_requested \<Rightarrow> route_observed \<Rightarrow> evidence_source option \<Rightarrow> string list \<Rightarrow> route_proof option" where
  "buildRouteProof requested observed source diversityAgainst =
     (let evidenceSource = nullish source SrcUnavailable;
          hasObserved = (truthy (ro_model_id observed) \<noteq> None \<and> evidenceSource \<noteq> SrcUnavailable);
          profileMatches = profile_matches (rq_credential_profile_id requested)
            (ro_credential_profile_id observed);
          status = (if \<not> hasObserved \<or> \<not> profileMatches then ProofUnverified
                    else if evidenceSource = SrcMetadata then ProofAcceptedModelArg
                    else ProofVerified);
          proof = \<lparr>rp_requested = requested,
                   rp_observed = observed\<lparr>ro_evidence_source := evidenceSource\<rparr>,
                   rp_diversity_against = diversityAgainst, rp_status = status\<rparr>
      in if valid_route_proof proof then Some proof else None)"

text \<open>The two maps of \<open>classifyDiversity\<close>: the families and the hints seen with an observed
  model, as sets in insertion order.\<close>

definition observed_model :: "route_proof \<Rightarrow> string option" where
  "observed_model p = truthy (ro_model_id (rp_observed p))"

definition note_key :: "(string, 'a list) jsmap \<Rightarrow> string \<Rightarrow> 'a \<Rightarrow> (string, 'a list) jsmap" where
  "note_key m k x = jset k (sadd x (nullish (jget m k) [])) m"

definition diversity_step ::
    "(string, provider_family list) jsmap \<times> (string, string list) jsmap \<Rightarrow> route_proof \<Rightarrow>
     (string, provider_family list) jsmap \<times> (string, string list) jsmap" where
  "diversity_step acc p =
     (case observed_model p of
        None \<Rightarrow> acc
      | Some model \<Rightarrow>
          if rp_status p = ProofVerified then
            (note_key (fst acc) model (rq_provider_family (rp_requested p)),
             note_key (snd acc) model (nullish (rq_model_hint (rp_requested p)) []))
          else acc)"

definition classifyDiversity :: "route_proof list \<Rightarrow> route_proof list" where
  "classifyDiversity proofs =
     (let acc = foldl diversity_step ([], []) proofs in
      map (\<lambda>p. case observed_model p of
             None \<Rightarrow> p
           | Some model \<Rightarrow>
               if rp_status p = ProofVerified \<and>
                  (1 < length (nullish (jget (fst acc) model) []) \<or>
                   1 < length (nullish (jget (snd acc) model) []))
               then p\<lparr>rp_status := ProofSameModelFallback\<rparr> else p) proofs)"

section \<open>Revalidation\<close>

record revalidate_options =
  ro_candidateRoot :: "string option"
  ro_evidenceDir :: "string option"

record revalidate_decision =
  vd_status :: finding_status
  vd_note :: "string option"

definition hasEvidence :: "finding_evidence \<Rightarrow> bool" where
  "hasEvidence e \<longleftrightarrow>
     fi_files e \<noteq> [] \<or> fi_diff_hunks e \<noteq> [] \<or> fi_commands e \<noteq> [] \<or> fi_logs e \<noteq> []"

definition hasTraversalSegment :: "string \<Rightarrow> bool" where
  "hasTraversalSegment v =
     list_ex (\<lambda>p. p = ''..'') (split_on slash (map (\<lambda>c. if c = CHR 0x5C then slash else c) v))"

definition evidence_roots :: "revalidate_options \<Rightarrow> string list" where
  "evidence_roots opts =
     concat (map (\<lambda>r. case truthy r of None \<Rightarrow> [] | Some s \<Rightarrow> [s])
       [ro_candidateRoot opts, ro_evidenceDir opts])"

definition isSafeRelativeEvidencePath :: "string \<Rightarrow> string \<Rightarrow> revalidate_options \<Rightarrow> bool" where
  "isSafeRelativeEvidencePath cwd v opts =
     (if v = [] \<or> hasTraversalSegment v then False
      else if isAbsolute v then False
      else let roots = evidence_roots opts in
        if roots = [] then True
        else list_ex (\<lambda>root. isSameOrInside cwd root (resolve cwd [root, v])) roots)"

definition validateEvidence ::
    "string \<Rightarrow> finding_evidence \<Rightarrow> revalidate_options \<Rightarrow> finding_evidence \<times> nat" where
  "validateEvidence cwd e opts =
     (let ok = (\<lambda>p. isSafeRelativeEvidencePath cwd p opts) in
      (e\<lparr>fi_files := filter (\<lambda>f. ok (fe_path f)) (fi_files e), fi_logs := filter ok (fi_logs e)\<rparr>,
       length (filter (\<lambda>f. \<not> ok (fe_path f)) (fi_files e)) +
       length (filter (\<lambda>l. \<not> ok l) (fi_logs e))))"

definition deterministicDecision ::
    "string \<Rightarrow> review_finding \<Rightarrow> revalidate_options \<Rightarrow> revalidate_decision" where
  "deterministicDecision cwd f opts =
     (let plain = (\<lambda>s. \<lparr>vd_status = s, vd_note = None\<rparr>) in
      if rf_status f \<in> {FsFixed, FsRebutted, FsAcceptedRisk, FsDuplicate} then plain (rf_status f)
      else if rf_severity f = SevOutOfScope then plain FsOutOfScope
      else if rf_severity f = SevInsufficientEvidence then plain FsInsufficientEvidence
      else if rf_severity f = SevNeedsHuman then
        \<lparr>vd_status = FsAccepted, vd_note = Some ''human decision required''\<rparr>
      else if rf_severity f = SevBlock \<or> rf_severity f = SevFixFirst then
        (case validateEvidence cwd (rf_evidence f) opts of (e, invalid) \<Rightarrow>
           if \<not> hasEvidence e then
             \<lparr>vd_status = FsInsufficientEvidence,
              vd_note = Some (if 0 < invalid then ''invalid evidence paths -> cannot block''
                              else ''no evidence -> cannot block'')\<rparr>
           else plain FsAccepted)
      else plain FsAccepted)"

definition revalidate_one :: "string \<Rightarrow> revalidate_options \<Rightarrow> review_finding \<Rightarrow> review_finding" where
  "revalidate_one cwd opts f =
     (let d = deterministicDecision cwd f opts in
      f\<lparr>rf_evidence := fst (validateEvidence cwd (rf_evidence f) opts),
        rf_status := vd_status d, rf_revalidation_note := vd_note d\<rparr>)"

definition revalidateFindings ::
    "string \<Rightarrow> review_finding list \<Rightarrow> revalidate_options \<Rightarrow> review_finding list" where
  "revalidateFindings cwd findings opts = map (revalidate_one cwd opts) findings"

section \<open>The accounting of a review panel\<close>

text \<open>The part of a reviewer's output, and of a partial result, that the panel accounts for.\<close>

record reviewer_output =
  ou_costUsd :: rat
  ou_costEstimated :: bool
  ou_cashUsd :: rat
  ou_cashKnowledge :: cost_knowledge
  ou_valuationUsd :: rat
  ou_valuationKnowledge :: cost_knowledge
  ou_unknownUsd :: rat
  ou_allowanceDebitUnobserved :: "bool option"
  ou_observedAmounts :: "observed_amounts option"

record partial_reviewer_spend =
  pa_costUsd :: "rat option"
  pa_costEstimated :: "bool option"
  pa_cashUsd :: "rat option"
  pa_cashKnowledge :: "cost_knowledge option"
  pa_valuationUsd :: "rat option"
  pa_valuationKnowledge :: "cost_knowledge option"
  pa_unknownUsd :: "rat option"
  pa_allowanceDebitUnobserved :: "bool option"
  pa_observedAmounts :: "observed_amounts option"

text \<open>The nine parallel arrays, one slot per reviewer, as one list of slots; every index the panel
  uses is below its size.\<close>

record spend_slot =
  sl_spend :: rat
  sl_estimated :: bool
  sl_cash :: rat
  sl_cashKnowledge :: cost_knowledge
  sl_valuation :: rat
  sl_valuationKnowledge :: cost_knowledge
  sl_unknown :: rat
  sl_allowanceDebitUnobserved :: bool
  sl_observedAmounts :: "observed_amounts option"

definition empty_slot :: spend_slot where
  "empty_slot =
     \<lparr>sl_spend = 0, sl_estimated = False, sl_cash = 0, sl_cashKnowledge = UnknownCost,
      sl_valuation = 0, sl_valuationKnowledge = UnknownCost, sl_unknown = 0,
      sl_allowanceDebitUnobserved = False, sl_observedAmounts = None\<rparr>"

definition new_accumulator :: "nat \<Rightarrow> spend_slot list" where
  "new_accumulator n = replicate n empty_slot"

definition output_slot :: "reviewer_output \<Rightarrow> spend_slot" where
  "output_slot out =
     \<lparr>sl_spend = ou_costUsd out, sl_estimated = ou_costEstimated out, sl_cash = ou_cashUsd out,
      sl_cashKnowledge = ou_cashKnowledge out, sl_valuation = ou_valuationUsd out,
      sl_valuationKnowledge = ou_valuationKnowledge out, sl_unknown = ou_unknownUsd out,
      sl_allowanceDebitUnobserved = (ou_allowanceDebitUnobserved out = Some True),
      sl_observedAmounts = ou_observedAmounts out\<rparr>"

definition record_output :: "nat \<Rightarrow> reviewer_output \<Rightarrow> spend_slot list \<Rightarrow> spend_slot list" where
  "record_output index out slots = slots[index := output_slot out]"

definition recordPartial ::
    "nat \<Rightarrow> partial_reviewer_spend \<Rightarrow> spend_slot list \<Rightarrow> spend_slot list" where
  "recordPartial index out slots =
     (let hasCost = (case pa_costUsd out of None \<Rightarrow> False | Some c \<Rightarrow> 0 \<le> c);
          hasComponentKnowledge = (pa_cashKnowledge out \<noteq> None \<or> pa_valuationKnowledge out \<noteq> None)
      in if \<not> hasCost \<and> \<not> hasComponentKnowledge then slots
         else slots[index :=
           \<lparr>sl_spend = (if hasCost then nullish (pa_costUsd out) 0 else 0),
            sl_estimated = (pa_costEstimated out = Some True),
            sl_cash = nullish (pa_cashUsd out) 0,
            sl_cashKnowledge = nullish (pa_cashKnowledge out) UnknownCost,
            sl_valuation = nullish (pa_valuationUsd out) 0,
            sl_valuationKnowledge = nullish (pa_valuationKnowledge out) UnknownCost,
            sl_unknown = nullish (pa_unknownUsd out) 0,
            sl_allowanceDebitUnobserved = (pa_allowanceDebitUnobserved out = Some True),
            sl_observedAmounts = pa_observedAmounts out\<rparr>])"

record review_spend_summary =
  re_spendUsd :: rat
  re_spendEstimated :: bool
  re_cashUsd :: rat
  re_cashKnowledge :: cost_knowledge
  re_valuationUsd :: rat
  re_valuationKnowledge :: cost_knowledge
  re_unknownUsd :: rat
  re_allowanceDebitUnobserved :: bool
  re_observedAmounts :: observed_amounts

definition mergeKnowledge :: "cost_knowledge list \<Rightarrow> cost_knowledge" where
  "mergeKnowledge ks =
     (if ks = [] \<or> UnknownCost \<in> set ks then UnknownCost
      else if Estimated \<in> set ks then Estimated else Exact)"

definition slot_observed :: "(observed_amounts \<Rightarrow> bool) \<Rightarrow> spend_slot \<Rightarrow> bool" where
  "slot_observed f s = (case sl_observedAmounts s of None \<Rightarrow> False | Some seen \<Rightarrow> f seen)"

definition summarizeReviewerSpend :: "spend_slot list \<Rightarrow> review_spend_summary" where
  "summarizeReviewerSpend slots =
     \<lparr>re_spendUsd = sum_list (map sl_spend slots),
      re_spendEstimated = list_ex sl_estimated slots,
      re_cashUsd = sum_list (map sl_cash slots),
      re_cashKnowledge = mergeKnowledge (map sl_cashKnowledge slots),
      re_valuationUsd = sum_list (map sl_valuation slots),
      re_valuationKnowledge = mergeKnowledge (map sl_valuationKnowledge
        (filter (\<lambda>s. 0 < sl_valuation s \<or> 0 < sl_unknown s \<or>
           slot_observed oa_valuation s \<or> slot_observed oa_unknown s) slots)),
      re_unknownUsd = sum_list (map sl_unknown slots),
      re_allowanceDebitUnobserved = list_ex sl_allowanceDebitUnobserved slots,
      re_observedAmounts =
        \<lparr>oa_cash = list_ex (slot_observed oa_cash) slots,
         oa_valuation = list_ex (slot_observed oa_valuation) slots,
         oa_unknown = list_ex (slot_observed oa_unknown) slots\<rparr>\<rparr>"

end
