(* ===== verification/Gates.thy ===== *)
theory Gates
  imports Review_Schema Candidate_Evidence Paths
begin

text \<open>
  Deterministic gates (\<open>packages/review/src/gates.ts\<close>): where a gate runs, with which
  environment, under which external grant, and how the exit of its process becomes a result. The
  file system, the hashes, the project configuration and the environment of the process are the
  fields of \<open>gate_host\<close>; the captured process is the argument \<open>run\<close>. Output is
  counted in bytes where the code counts UTF-16 units, so the tail is exact for ASCII output.
\<close>

definition GATE_OUTPUT_TAIL_CHARS :: nat where "GATE_OUTPUT_TAIL_CHARS = 12000"

datatype access_profile = AccReadonly | AccWorkspaceWrite | AccFull | AccInheritNative

record test_command_grant =
  tg_projectDigest :: string
  tg_configDigest :: string
  tg_commandDigest :: string
  tg_executablePath :: string
  tg_executableDigest :: string
  tg_scriptPath :: "string option"
  tg_scriptDigest :: "string option"
  tg_accessProfile :: access_profile

record gate_invocation =
  gv_program :: string
  gv_args :: "string list"
  gv_cwd :: "string option"
  gv_envAllowlist :: "string list"

record gate_spec =
  gs_id :: string
  gs_program :: string
  gs_args :: "string list"
  gs_cwd :: "string option"
  gs_envAllowlist :: "string list option"
  gs_env :: "(string, string) jsmap option"
  gs_trustRequired :: "bool option"
  gs_trustGrant :: "test_command_grant option"
  gs_projectRoot :: "string option"
  gs_accessProfile :: "access_profile option"
  gs_required :: "bool option"

record gate_host =
  gh_cwd :: string  \<comment> \<open>working directory of the engine\<close>
  gh_processEnv :: "string \<Rightarrow> string option"
  gh_isFile :: "string \<Rightarrow> bool"
  gh_realpath :: "string \<Rightarrow> string"
  gh_fileDigest :: "string \<Rightarrow> string"
  gh_projectDigest :: "string \<Rightarrow> string"  \<comment> \<open>sha256 of the canonical project root\<close>
  gh_configDigest :: "string \<Rightarrow> string"  \<comment> \<open>hashJson of the loaded project configuration\<close>
  gh_commandDigest :: "gate_invocation \<Rightarrow> string"  \<comment> \<open>hashJson of the invocation\<close>

section \<open>Where and with what a gate runs\<close>

definition commandCwd :: "string \<Rightarrow> string \<Rightarrow> string option \<Rightarrow> string + string" where
  "commandCwd here rootdir requested =
     (case truthy requested of
        None \<Rightarrow> Inr rootdir
      | Some r \<Rightarrow>
          if isAbsolute r then Inl ''gate cwd must be project-relative''
          else
            let resolved = resolve here [rootdir, r]; rel = relative here rootdir resolved in
            if rel = ''..'' \<or> starts_with rel ''../'' then Inl ''gate cwd escapes the project root''
            else Inr resolved)"

definition SENSITIVE_ENV_PARTS :: "string list" where
  "SENSITIVE_ENV_PARTS =
     [''token'', ''key'', ''secret'', ''password'', ''auth'', ''cookie'', ''credential'']"

definition sensitive_env_name :: "string \<Rightarrow> bool" where
  "sensitive_env_name name = list_ex (\<lambda>p. str_includes (to_lower name) p) SENSITIVE_ENV_PARTS"

fun commandEnv ::
    "(string \<Rightarrow> string option) \<Rightarrow> string list \<Rightarrow> (string, string) jsmap \<Rightarrow>
     string + (string, string) jsmap" where
  "commandEnv penv [] env = Inr env"
| "commandEnv penv (name # names) env =
     (if sensitive_env_name name then Inl (''gate env allowlist refuses sensitive name '' @ name)
      else commandEnv penv names
        (case penv name of None \<Rightarrow> env | Some v \<Rightarrow> jset name v env))"

definition resolveExecutable ::
    "gate_host \<Rightarrow> string \<Rightarrow> string \<Rightarrow> string option \<Rightarrow> string + string" where
  "resolveExecutable host program cwd pathValue =
     (let candidates =
            (if str_includes program ''/'' then
               [if isAbsolute program then program else resolve (gh_cwd host) [cwd, program]]
             else map (\<lambda>e. resolve (gh_cwd host) [e, program])
               (filter (\<lambda>e. e \<noteq> []) (split_on CHR '':'' (nullish pathValue [])))) in
      case find (gh_isFile host) candidates of
        None \<Rightarrow> Inl (''cannot resolve gate executable '' @ program)
      | Some p \<Rightarrow> Inr (gh_realpath host p))"

definition base_name :: "string \<Rightarrow> string" where
  "base_name p = last (split_on slash (map (\<lambda>c. if c = CHR 0x5C then slash else c) p))"

definition resolveScript :: "gate_host \<Rightarrow> string \<Rightarrow> string list \<Rightarrow> string \<Rightarrow> string option" where
  "resolveScript host program args cwd =
     (let packageJson = resolve (gh_cwd host) [cwd, ''package.json''] in
      if base_name program \<in> {''pnpm'', ''npm'', ''yarn'', ''bun''} \<and> gh_isFile host packageJson
      then Some (gh_realpath host packageJson)
      else case truthy (find (\<lambda>a. \<not> starts_with a ''-'') args) of
        None \<Rightarrow> None
      | Some candidate \<Rightarrow>
          let path = (if isAbsolute candidate then candidate
                      else resolve (gh_cwd host) [cwd, candidate]) in
          if gh_isFile host path then Some (gh_realpath host path) else None)"

definition invocation_of :: "gate_spec \<Rightarrow> gate_invocation" where
  "invocation_of spec =
     \<lparr>gv_program = gs_program spec, gv_args = gs_args spec, gv_cwd = gs_cwd spec,
      gv_envAllowlist = nullish (gs_envAllowlist spec) []\<rparr>"

text \<open>\<open>None\<close> when the grant covers the gate, else the error.\<close>

definition verifyExternalGrant ::
    "gate_host \<Rightarrow> gate_spec \<Rightarrow> string \<Rightarrow> (string, string) jsmap \<Rightarrow> string option" where
  "verifyExternalGrant host spec cwd env =
     (case gs_trustGrant spec of
        None \<Rightarrow> Some ''versioned project gate has no external trust grant''
      | Some grant \<Rightarrow>
          (case (truthy (gs_projectRoot spec), gs_accessProfile spec) of
             (Some projectRoot, Some profile) \<Rightarrow>
               if tg_projectDigest grant \<noteq> gh_projectDigest host projectRoot \<or>
                  tg_configDigest grant \<noteq> gh_configDigest host projectRoot \<or>
                  tg_commandDigest grant \<noteq> gh_commandDigest host (invocation_of spec) \<or>
                  tg_accessProfile grant \<noteq> profile
               then Some ''versioned project gate trust grant does not match its current context''
               else
                 (case resolveExecutable host (gs_program spec) cwd
                         (or_else (jget env ''PATH'') (gh_processEnv host ''PATH'')) of
                    Inl e \<Rightarrow> Some e
                  | Inr exe \<Rightarrow>
                      if exe \<noteq> tg_executablePath grant \<or> gh_fileDigest host exe \<noteq> tg_executableDigest grant
                      then Some ''versioned project gate executable changed since it was granted''
                      else
                        let scriptPath = resolveScript host (gs_program spec) (gs_args spec) cwd;
                            scriptDigest = (case truthy scriptPath of
                              None \<Rightarrow> None | Some p \<Rightarrow> Some (gh_fileDigest host p)) in
                        if (scriptPath = None) \<noteq> (tg_scriptPath grant = None) \<or>
                           scriptDigest \<noteq> tg_scriptDigest grant
                        then Some ''versioned project gate script changed since it was granted''
                        else None)
           | _ \<Rightarrow> Some ''versioned project gate is missing its current project context''))"

section \<open>Running a gate\<close>

record gate_capture =
  gc_code :: "int option"
  gc_stdout :: string
  gc_stderr :: string
  gc_signal_kill :: bool
  gc_drain_truncated :: bool

definition trim_end :: "string \<Rightarrow> string" where
  "trim_end s = rev (dropWhile js_space (rev s))"

definition outputTail :: "string \<Rightarrow> string option \<times> bool" where
  "outputTail text =
     (let trimmed = trim_end text in
      if trimmed = [] then (None, False)
      else (Some (drop (length trimmed - GATE_OUTPUT_TAIL_CHARS) trimmed),
            GATE_OUTPUT_TAIL_CHARS < length trimmed))"

text \<open>Everything before the process starts: directory, environment and, for a versioned project
  command, the grant.\<close>

definition prepare_gate ::
    "gate_host \<Rightarrow> gate_spec \<Rightarrow> string \<Rightarrow> (string, string) jsmap option \<Rightarrow>
     string + (string \<times> (string, string) jsmap)" where
  "prepare_gate host spec rootdir optEnv =
     (case commandCwd (gh_cwd host) rootdir (gs_cwd spec) of
        Inl e \<Rightarrow> Inl e
      | Inr cwd \<Rightarrow>
          (case commandEnv (gh_processEnv host) (nullish (gs_envAllowlist spec) [])
                  (fold (\<lambda>p env. jset (fst p) (snd p) env)
                    (nullish optEnv [] @ nullish (gs_env spec) []) []) of
             Inl e \<Rightarrow> Inl e
           | Inr env \<Rightarrow>
               (if gs_trustRequired spec = Some True then
                  (case verifyExternalGrant host spec cwd env of
                     Some e \<Rightarrow> Inl e
                   | None \<Rightarrow> Inr (cwd, env))
                else Inr (cwd, env))))"

definition runGate ::
    "gate_host \<Rightarrow> (string \<Rightarrow> string list \<Rightarrow> string \<Rightarrow> (string, string) jsmap \<Rightarrow> string + gate_capture) \<Rightarrow>
     nat \<Rightarrow> gate_spec \<Rightarrow> string \<Rightarrow> (string, string) jsmap option \<Rightarrow> gate_result" where
  "runGate host run duration spec rootdir optEnv =
     (let captured =
            (case prepare_gate host spec rootdir optEnv of
               Inl e \<Rightarrow> Inl e
             | Inr (cwd, env) \<Rightarrow> run (gs_program spec) (gs_args spec) cwd env);
          c = (case captured of
                 Inl e \<Rightarrow> \<lparr>gc_code = None, gc_stdout = [], gc_stderr = ''gate spawn failed: '' @ e,
                          gc_signal_kill = False, gc_drain_truncated = False\<rparr>
               | Inr c \<Rightarrow> c);
          status = (if gc_signal_kill c then GateTimedOut
                    else if gc_code c = Some 0 then GatePassed else GateFailed);
          includeOutput = (status \<noteq> GatePassed);
          out = (if includeOutput then outputTail (gc_stdout c) else (None, False));
          err = (if includeOutput then outputTail (gc_stderr c) else (None, False)) in
      \<lparr>gr_id = gs_id spec,
       gr_command = json_stringify (\<lambda>_. []) (JArr (map JStr (gs_program spec # gs_args spec))),
       gr_exit_code = gc_code c, gr_status = status, gr_duration_ms = duration,
       gr_required = nullish (gs_required spec) True,
       gr_stdout_tail = fst out, gr_stderr_tail = fst err,
       gr_output_truncated = (snd out \<or> snd err \<or> (includeOutput \<and> gc_drain_truncated c))\<rparr>)"

text \<open>The loop over the gates: the abort signal is read before each of them.\<close>

fun runGates :: "(gate_spec \<Rightarrow> gate_result) \<Rightarrow> (nat \<Rightarrow> bool) \<Rightarrow> nat \<Rightarrow> gate_spec list \<Rightarrow> gate_result list" where
  "runGates run aborted i [] = []"
| "runGates run aborted i (spec # specs) =
     (if aborted i then [] else run spec # runGates run aborted (Suc i) specs)"

text \<open>The record a user-level trust surface persists.\<close>

definition buildTestCommandGrant ::
    "gate_host \<Rightarrow> gate_spec \<Rightarrow> string \<Rightarrow> access_profile \<Rightarrow> string + test_command_grant" where
  "buildTestCommandGrant host spec projectRoot profile =
     (case commandCwd (gh_cwd host) projectRoot (gs_cwd spec) of
        Inl e \<Rightarrow> Inl e
      | Inr cwd \<Rightarrow>
          (case resolveExecutable host (gs_program spec) cwd (gh_processEnv host ''PATH'') of
             Inl e \<Rightarrow> Inl e
           | Inr exe \<Rightarrow>
               let scriptPath = resolveScript host (gs_program spec) (gs_args spec) cwd in
               Inr \<lparr>tg_projectDigest = gh_projectDigest host projectRoot,
                    tg_configDigest = gh_configDigest host projectRoot,
                    tg_commandDigest = gh_commandDigest host (invocation_of spec),
                    tg_executablePath = exe, tg_executableDigest = gh_fileDigest host exe,
                    tg_scriptPath = scriptPath,
                    tg_scriptDigest = (case truthy scriptPath of
                      None \<Rightarrow> None | Some p \<Rightarrow> Some (gh_fileDigest host p)),
                    tg_accessProfile = profile\<rparr>))"

end
