(* ===== verification/Synthesis.thy ===== *)
theory Synthesis
  imports Arbitration Text_Ops
begin

text \<open>
  The synthesis decision of a race (\<open>packages/synthesis/src/index.ts\<close>): whether a further
  candidate is made from the ones at hand, and the plan it is made by. The prompt text of the
  deep-scan reducer is not modelled.
\<close>

datatype synthesis_mode = SynAuto | SynAlways | SynNever

record synthesis_decision =
  sy_synthesize :: bool
  sy_reason :: string
  sy_sources :: "string list"

definition fixable :: "review_finding \<Rightarrow> bool" where
  "fixable f \<longleftrightarrow> rf_status f = FsAccepted \<or> rf_status f = FsAcceptedRisk"

definition AUTO_SYNTHESIS_MIN_CANDIDATES :: nat where "AUTO_SYNTHESIS_MIN_CANDIDATES = 3"

definition clear_winner :: "candidate_evidence \<Rightarrow> candidate_evidence \<Rightarrow> bool" where
  "clear_winner best second \<longleftrightarrow>
     (let ts = candidateSummary best in
      cs_gatesPassed ts \<and> cs_clean ts \<and> cs_blockers ts = 0 \<and> compareCandidates best second < 0)"

definition complementary :: "candidate_evidence \<Rightarrow> candidate_evidence \<Rightarrow> bool" where
  "complementary best second \<longleftrightarrow>
     (let ts = candidateSummary best; ss = candidateSummary second in
      cs_gatesPassed ss \<and>
      (cs_testFraction ts < cs_testFraction ss \<or> cs_acceptance ts < cs_acceptance ss \<or>
       cs_blockers ss < cs_blockers ts \<or>
       nullish (cv_diffSize second) 0 < nullish (cv_diffSize best) 0))"

definition decideSynthesis :: "candidate_evidence list \<Rightarrow> synthesis_mode \<Rightarrow> synthesis_decision" where
  "decideSynthesis candidates mode =
     (let ids = map cv_attemptId candidates; n = length candidates in
      if mode = SynNever then
        \<lparr>sy_synthesize = False, sy_reason = ''synthesis disabled'', sy_sources = []\<rparr>
      else if n < 2 then
        \<lparr>sy_synthesize = False, sy_reason = ''need >= 2 candidates to synthesize'', sy_sources = ids\<rparr>
      else if mode = SynAlways then
        \<lparr>sy_synthesize = True, sy_reason = ''synthesis forced (always)'', sy_sources = ids\<rparr>
      else if n < AUTO_SYNTHESIS_MIN_CANDIDATES then
        \<lparr>sy_synthesize = False,
         sy_reason = ''auto synthesis needs >= '' @ show_nat AUTO_SYNTHESIS_MIN_CANDIDATES @
           '' candidates (best-of-'' @ show_nat n @ '' picks the winner)'',
         sy_sources = ids\<rparr>
      else
        let ranked = js_sort compareCandidates candidates; best = ranked ! 0; second = ranked ! 1;
            clearWinner = clear_winner best second;
            topFixable = list_ex fixable (cv_findings best);
            compl = complementary best second in
        if clearWinner \<and> \<not> topFixable \<and> \<not> compl then
          \<lparr>sy_synthesize = False,
           sy_reason = ''a single candidate clearly passes all gates and review'',
           sy_sources = [cv_attemptId best]\<rparr>
        else
          \<lparr>sy_synthesize = True,
           sy_reason = join ''; ''
             ((if clearWinner then [] else [''no clear winner'']) @
              (if topFixable then [''best candidate has fixable accepted findings''] else []) @
              (if compl then [''candidates have complementary strengths''] else [])),
           sy_sources = map cv_attemptId (take (min 3 (length ranked)) ranked)\<rparr>)"

record synthesis_plan =
  sp_baseFrom :: string
  sp_borrowTestsFrom :: "string option"
  sp_fixFindings :: "string list"
  sp_instructions :: string

text \<open>\<open>None\<close> where the code dereferences the first element of an empty list.\<close>

definition buildSynthesisPlan :: "candidate_evidence list \<Rightarrow> synthesis_plan option" where
  "buildSynthesisPlan candidates =
     (case (js_sort compareCandidates candidates,
            js_sort (\<lambda>a b. cs_testFraction (candidateSummary b) - cs_testFraction (candidateSummary a))
              candidates) of
        (base # _, bestTests # _) \<Rightarrow>
          (let fixFindings = unique (concat (map (\<lambda>c. map rf_claim (filter fixable (cv_findings c))) candidates));
               borrow = (if cv_attemptId bestTests \<noteq> cv_attemptId base
                         then Some (cv_attemptId bestTests) else None);
               parts =
                 [''Start from '' @ cv_label base @ ''.'',
                  (if truthy borrow \<noteq> None then
                     ''Use the stronger gate/test results from '' @ cv_label bestTests @
                     '' as evidence, but do not edit protected tests or gate configuration unless the user explicitly asked for test changes.''
                   else []),
                  (if fixFindings \<noteq> [] then
                     ''Fix the accepted findings ('' @ show_nat (length fixFindings) @ '').'' else []),
                  ''Produce a single coherent patch; do not blindly concatenate diffs. The result will be re-reviewed.'']
           in Some \<lparr>sp_baseFrom = cv_attemptId base, sp_borrowTestsFrom = borrow,
                sp_fixFindings = fixFindings,
                sp_instructions = join '' '' (filter (\<lambda>p. p \<noteq> []) parts)\<rparr>)
      | _ \<Rightarrow> None)"

end
