(* ===== verification/Review_Props.thy ===== *)
theory Review_Props
  imports Review Gates Synthesis Policy_Props
begin

text \<open>
  What the review component promises: a finding that blocks carries evidence inside the candidate, a
  human escalation stops convergence, routes that collapse onto one model are marked, a loop is
  stalled exactly when its failure recurred, the panel's accounting does not depend on who finished
  first, a versioned gate passes only under its grant, and synthesis is skipped only for a clear
  winner.
\<close>

section \<open>Findings\<close>

definition contained_path :: "string \<Rightarrow> revalidate_options \<Rightarrow> string \<Rightarrow> bool" where
  "contained_path cwd opts p \<longleftrightarrow>
     p \<noteq> [] \<and> \<not> isAbsolute p \<and>
     (evidence_roots opts = [] \<or>
      (\<exists>rt \<in> set (evidence_roots opts). below (resolve_segs cwd [rt]) (resolve_segs cwd [rt, p])))"

lemma safe_path_contained:
  assumes "isSafeRelativeEvidencePath cwd p opts"
  shows "contained_path cwd opts p"
proof -
  have p: "p \<noteq> []" "\<not> isAbsolute p"
    "evidence_roots opts = [] \<or>
     (\<exists>rt \<in> set (evidence_roots opts). isSameOrInside cwd rt (resolve cwd [rt, p]))"
    using assms by (auto simp: isSafeRelativeEvidencePath_def list_ex_iff Let_def split: if_splits)
  have "below (resolve_segs cwd [rt]) (resolve_segs cwd [rt, p])"
    if "isSameOrInside cwd rt (resolve cwd [rt, p])" for rt
    using same_or_insideD [OF that] by (simp add: below_def resolve_resolved)
  then show ?thesis using p unfolding contained_path_def by blast
qed

lemma blocking_revalidated:
  assumes "isBlocking (revalidate_one cwd opts f)" and "rf_severity f \<noteq> SevNeedsHuman"
  shows "hasEvidence (fst (validateEvidence cwd (rf_evidence f) opts))"
  using assms by (auto simp: isBlocking_def revalidate_one_def hasEvidence_def Let_def split: if_splits)

text \<open>After revalidation a finding blocks only when it escalates to a human or still carries
  evidence, and every file and log it cites is a relative path that stays below the candidate or the
  evidence directory.\<close>

theorem blocking_findings_carry_contained_evidence:
  assumes "g \<in> set (revalidateFindings cwd findings opts)" and "isBlocking g"
  shows "(rf_severity g = SevNeedsHuman \<or> hasEvidence (rf_evidence g)) \<and>
    list_all (\<lambda>e. contained_path cwd opts (fe_path e)) (fi_files (rf_evidence g)) \<and>
    list_all (contained_path cwd opts) (fi_logs (rf_evidence g))"
proof -
  obtain f where g: "g = revalidate_one cwd opts f"
    using assms(1) by (auto simp: revalidateFindings_def)
  have ev: "rf_evidence g = fst (validateEvidence cwd (rf_evidence f) opts)"
    "rf_severity g = rf_severity f"
    by (simp_all add: g revalidate_one_def Let_def)
  show ?thesis
    using blocking_revalidated [of cwd opts f] assms(2) g ev
    by (auto simp: validateEvidence_def list_all_iff Let_def intro: safe_path_contained)
qed

definition example_finding :: "severity \<Rightarrow> string list \<Rightarrow> review_finding" where
  "example_finding sev paths =
     \<lparr>rf_id = ''f1'', rf_severity = sev, rf_category = CatCorrectness, rf_claim = ''claim'',
      rf_linked_acceptance_criteria = [],
      rf_evidence = \<lparr>fi_files = map (\<lambda>p. \<lparr>fe_path = p, fe_lines = None\<rparr>) paths,
        fi_diff_hunks = [], fi_commands = [], fi_logs = []\<rparr>,
      rf_proposed_fix = None,
      rf_reviewer = \<lparr>fr_harness_id = ''h'', fr_requested_model = None, fr_requested_effort = None,
        fr_credential_profile_id = None, fr_observed_credential_profile_id = None,
        fr_observed_model = None, fr_route_proof_status = ProofVerified\<rparr>,
      rf_status = FsProposed, rf_revalidation_note = None\<rparr>"

definition example_options :: revalidate_options where
  "example_options = \<lparr>ro_candidateRoot = Some ''/c'', ro_evidenceDir = None\<rparr>"

lemma example_evidence:
  "isSafeRelativeEvidencePath ''/'' ''src/a.ts'' example_options"
  "\<not> isSafeRelativeEvidencePath ''/'' ''../../etc/passwd'' example_options"
  by code_simp+

lemma example_blocks:
  "isBlocking (revalidate_one ''/'' example_options
     (example_finding SevBlock [''src/a.ts'', ''../../etc/passwd'']))"
  using example_evidence
  by (simp add: revalidate_one_def deterministicDecision_def validateEvidence_def hasEvidence_def
      isBlocking_def example_finding_def Let_def)

theorem blocking_findings_carry_contained_evidence_witness:
  "hasEvidence (rf_evidence (revalidate_one ''/'' example_options
     (example_finding SevBlock [''src/a.ts'', ''../../etc/passwd''])))"
proof -
  let ?f = "example_finding SevBlock [''src/a.ts'', ''../../etc/passwd'']"
  let ?g = "revalidate_one ''/'' example_options ?f"
  have "?g \<in> set (revalidateFindings ''/'' [?f] example_options)"
    by (simp add: revalidateFindings_def)
  from blocking_findings_carry_contained_evidence [OF this example_blocks]
  have "rf_severity ?g = SevNeedsHuman \<or> hasEvidence (rf_evidence ?g)" by simp
  moreover have "rf_severity ?g = SevBlock"
    by (simp add: revalidate_one_def example_finding_def Let_def)
  ultimately show ?thesis by simp
qed

text \<open>A human escalation that nobody resolved survives revalidation as a blocker and stops
  convergence, with its reason, whatever the gates and the other reviews say.\<close>

theorem human_escalation_stops_convergence:
  assumes "f \<in> set findings" and "rf_severity f = SevNeedsHuman"
    and "rf_status f \<notin> {FsFixed, FsRebutted, FsAcceptedRisk, FsDuplicate}"
    and "cp_require_no_accepted_needs_human_open (ci_predicate inp)"
    and "ci_findings inp = revalidateFindings cwd findings opts"
  shows "\<not> cn_converged (evaluateConvergence inp) \<and>
    ''an accepted NEEDS_HUMAN escalation is open'' \<in> set (cn_reasons (evaluateConvergence inp)) \<and>
    revalidate_one cwd opts f \<in> set (cn_openBlockers (evaluateConvergence inp))"
proof -
  let ?g = "revalidate_one cwd opts f"
  have g: "rf_severity ?g = SevNeedsHuman" "isBlocking ?g"
    using assms(2,3) by (auto simp: revalidate_one_def deterministicDecision_def isBlocking_def Let_def)
  have mem: "?g \<in> set (filter isBlocking (ci_findings inp))"
    using g assms(1,5) by (simp add: revalidateFindings_def)
  then have "open_with (filter isBlocking (ci_findings inp)) SevNeedsHuman"
    using g by (auto simp: open_with_def list_ex_iff)
  then show ?thesis
    using mem assms(4) by (simp add: evaluateConvergence_def Let_def)
qed

definition example_convergence :: "review_finding list \<Rightarrow> convergence_input" where
  "example_convergence fs =
     \<lparr>ci_predicate = \<lparr>cp_require_tests_pass = True, cp_require_no_accepted_block_open = True,
        cp_require_no_accepted_fix_first_open = True,
        cp_require_final_cross_family_clean_review = False,
        cp_require_final_diff_stable_after_review = False,
        cp_require_no_accepted_needs_human_open = True\<rparr>,
      ci_gates = [], ci_findings = fs, ci_finalReviewClean = True, ci_diffStableAfterReview = True\<rparr>"

theorem human_escalation_stops_convergence_witness:
  "cn_converged (evaluateConvergence (example_convergence [])) \<and>
   \<not> cn_converged (evaluateConvergence (example_convergence
      (revalidateFindings ''/'' [example_finding SevNeedsHuman []] example_options)))"
proof
  show "cn_converged (evaluateConvergence (example_convergence []))"
    by (simp add: evaluateConvergence_def example_convergence_def gatesPassed_def open_with_def Let_def)
  show "\<not> cn_converged (evaluateConvergence (example_convergence
      (revalidateFindings ''/'' [example_finding SevNeedsHuman []] example_options)))"
    using human_escalation_stops_convergence [of "example_finding SevNeedsHuman []"
        "[example_finding SevNeedsHuman []]"
        "example_convergence (revalidateFindings ''/'' [example_finding SevNeedsHuman []] example_options)"
        "''/''" example_options]
    by (simp add: example_finding_def example_convergence_def)
qed

text \<open>Revalidating a second time changes no status and no evidence.\<close>

lemma revalidate_idempotent:
  "rf_status (revalidate_one cwd opts (revalidate_one cwd opts f)) = rf_status (revalidate_one cwd opts f) \<and>
   rf_evidence (revalidate_one cwd opts (revalidate_one cwd opts f)) =
     rf_evidence (revalidate_one cwd opts f)"
  by (simp add: revalidate_one_def deterministicDecision_def validateEvidence_def hasEvidence_def Let_def)

section \<open>Convergence loops that stall\<close>

definition after_rounds :: "(string \<times> string) list \<Rightarrow> readiness_ledger" where
  "after_rounds rounds = fold (\<lambda>r ledger. recordRound ledger (fst r) (snd r)) rounds []"

lemma recordRound_count:
  "(case jget (recordRound ledger s r) sig of None \<Rightarrow> 0 | Some d \<Rightarrow> rd_count d) =
   (case jget ledger sig of None \<Rightarrow> 0 | Some d \<Rightarrow> rd_count d) + (if s = sig then 1 else 0)"
  by (auto simp: recordRound_def split: option.splits)

lemma rounds_count:
  "(case jget (fold (\<lambda>r ledger. recordRound ledger (fst r) (snd r)) rounds ledger) sig of
      None \<Rightarrow> 0 | Some d \<Rightarrow> rd_count d) =
   (case jget ledger sig of None \<Rightarrow> 0 | Some d \<Rightarrow> rd_count d) +
   length (filter (\<lambda>r. fst r = sig) rounds)"
  by (induction rounds arbitrary: ledger) (simp_all add: recordRound_count)

text \<open>The repair loop counts as stalled on a failure exactly when that failure was recorded at
  least the threshold number of times, two unless another is given, in whatever order and between
  whatever other failures.\<close>

theorem stalled_iff_recurred:
  "isStalled (after_rounds rounds) sig threshold \<longleftrightarrow>
     nullish threshold 2 \<le> length (filter (\<lambda>r. fst r = sig) rounds)"
  using rounds_count [of rounds "[]" sig] by (simp add: isStalled_def after_rounds_def)

text \<open>The signature depends neither on the order of the reasons nor on their case.\<close>

lemma failureSignature_cong:
  assumes "mset (map to_lower a) = mset (map to_lower b)"
  shows "failureSignature a = failureSignature b"
proof -
  have "sort (map to_lower a) = sort (map to_lower b)"
    using assms by (intro properties_for_sort) simp_all
  then show ?thesis by (simp add: failureSignature_def)
qed

section \<open>Route diversity\<close>

lemma note_key_get:
  "nullish (jget (note_key m k x) j) [] = (if j = k then sadd x (nullish (jget m k) []) else nullish (jget m j) [])"
  by (simp add: note_key_def)

definition seen_as :: "route_proof list \<Rightarrow> string \<Rightarrow> (route_proof \<Rightarrow> 'a) \<Rightarrow> 'a set" where
  "seen_as proofs model f =
     f ` {p \<in> set proofs. rp_status p = ProofVerified \<and> observed_model p = Some model}"

abbreviation hint_of :: "route_proof \<Rightarrow> string" where
  "hint_of p \<equiv> nullish (rq_model_hint (rp_requested p)) []"

abbreviation family_of :: "route_proof \<Rightarrow> provider_family" where
  "family_of p \<equiv> rq_provider_family (rp_requested p)"

lemma diversity_fold:
  "set (nullish (jget (fst (foldl diversity_step acc proofs)) model) []) =
     set (nullish (jget (fst acc) model) []) \<union> seen_as proofs model family_of \<and>
   set (nullish (jget (snd (foldl diversity_step acc proofs)) model) []) =
     set (nullish (jget (snd acc) model) []) \<union> seen_as proofs model hint_of"
  by (induction proofs arbitrary: acc)
    (auto simp: seen_as_def diversity_step_def note_key_get split: option.splits if_splits)

lemma diversity_fold_distinct:
  "distinct (nullish (jget (fst acc) model) []) \<Longrightarrow> distinct (nullish (jget (snd acc) model) []) \<Longrightarrow>
   distinct (nullish (jget (fst (foldl diversity_step acc proofs)) model) []) \<and>
   distinct (nullish (jget (snd (foldl diversity_step acc proofs)) model) [])"
  by (induction proofs arbitrary: acc)
    (simp_all add: diversity_step_def note_key_get split: option.splits)

lemma short_list_eq: "distinct xs \<Longrightarrow> length xs \<le> 1 \<Longrightarrow> a \<in> set xs \<Longrightarrow> b \<in> set xs \<Longrightarrow> a = b"
  by (cases xs; cases "tl xs") auto

text \<open>After the diversity check two routes that are still verified and observed on the same
  model were requested from the same family with the same model hint, so distinct requests that
  collapsed onto one model are never both counted as verified; and the check changes nothing but
  that status.\<close>

theorem verified_routes_are_diverse:
  assumes "p \<in> set (classifyDiversity proofs)" and "q \<in> set (classifyDiversity proofs)"
    and "rp_status p = ProofVerified" and "rp_status q = ProofVerified"
    and "observed_model p = Some model" and "observed_model q = Some model"
  shows "family_of p = family_of q \<and> hint_of p = hint_of q \<and> p \<in> set proofs \<and>
    list_all2 (\<lambda>a b. b = a \<or> b = a\<lparr>rp_status := ProofSameModelFallback\<rparr>)
      proofs (classifyDiversity proofs)"
proof -
  let ?acc = "foldl diversity_step ([], []) proofs"
  let ?fams = "nullish (jget (fst ?acc) model) []" and ?hints = "nullish (jget (snd ?acc) model) []"
  have kept: "x \<in> set proofs \<and> length ?fams \<le> 1 \<and> length ?hints \<le> 1"
    if "x \<in> set (classifyDiversity proofs)" "rp_status x = ProofVerified" "observed_model x = Some model"
    for x
    using that
    by (auto simp: classifyDiversity_def observed_model_def Let_def split: option.splits if_splits)
  note p = kept [OF assms(1,3,5)] and q = kept [OF assms(2,4,6)]
  have d: "distinct ?fams" "distinct ?hints"
    using diversity_fold_distinct [of "([], [])" model proofs] by simp_all
  have seen: "set ?fams = seen_as proofs model family_of" "set ?hints = seen_as proofs model hint_of"
    using diversity_fold [of "([], [])" proofs model] by simp_all
  have "family_of p \<in> set ?fams" "family_of q \<in> set ?fams" "hint_of p \<in> set ?hints" "hint_of q \<in> set ?hints"
    using p q assms(3-6) unfolding seen seen_as_def by auto
  then have "family_of p = family_of q" "hint_of p = hint_of q"
    using short_list_eq [OF d(1)] short_list_eq [OF d(2)] p by blast+
  moreover have "list_all2 (\<lambda>a b. b = a \<or> b = a\<lparr>rp_status := ProofSameModelFallback\<rparr>)
      proofs (classifyDiversity proofs)"
    by (simp add: classifyDiversity_def Let_def list.rel_map list_all2_same split: option.splits)
  ultimately show ?thesis using p by blast
qed

definition example_proof :: "provider_family \<Rightarrow> string \<Rightarrow> route_proof" where
  "example_proof fam model =
     \<lparr>rp_requested = \<lparr>rq_harness_id = ''h'', rq_provider_family = fam, rq_model_hint = None,
        rq_credential_profile_id = None\<rparr>,
      rp_observed = \<lparr>ro_provider = None, ro_model_id = Some model, ro_credential_profile_id = None,
        ro_evidence_source = SrcStreamEvent\<rparr>,
      rp_diversity_against = [], rp_status = ProofVerified\<rparr>"

theorem verified_routes_are_diverse_witness:
  "map rp_status (classifyDiversity [example_proof FamOpenai ''m'', example_proof FamXai ''m'',
      example_proof FamXai ''k'']) = [ProofSameModelFallback, ProofSameModelFallback, ProofVerified] \<and>
   family_of (example_proof FamXai ''k'') = family_of (example_proof FamXai ''k'')"
proof
  show "map rp_status (classifyDiversity [example_proof FamOpenai ''m'', example_proof FamXai ''m'',
      example_proof FamXai ''k'']) = [ProofSameModelFallback, ProofSameModelFallback, ProofVerified]"
    by (simp add: classifyDiversity_def diversity_step_def observed_model_def note_key_def sadd_def
        example_proof_def Let_def)
  have "example_proof FamXai ''k'' \<in> set (classifyDiversity [example_proof FamXai ''k''])"
    by (simp add: classifyDiversity_def diversity_step_def observed_model_def note_key_def sadd_def
        example_proof_def Let_def)
  from verified_routes_are_diverse [OF this this, of "''k''"]
  show "family_of (example_proof FamXai ''k'') = family_of (example_proof FamXai ''k'')"
    by (simp add: example_proof_def observed_model_def)
qed

section \<open>The panel's accounting\<close>

lemma fold_record_length [simp]:
  "length (fold (\<lambda>r slots. record_output (fst r) (snd r) slots) rs slots) = length slots"
  by (induction rs arbitrary: slots) (simp_all add: record_output_def)

lemma fold_record_nth:
  "distinct (map fst rs) \<Longrightarrow> i < length slots \<Longrightarrow>
   fold (\<lambda>r slots. record_output (fst r) (snd r) slots) rs slots ! i =
     (case map_of rs i of None \<Rightarrow> slots ! i | Some out \<Rightarrow> output_slot out)"
proof (induction rs arbitrary: slots)
  case Nil
  then show ?case by simp
next
  case (Cons r rs)
  obtain a out where r: "r = (a, out)" by (cases r)
  have ih: "fold (\<lambda>r slots. record_output (fst r) (snd r) slots) (r # rs) slots ! i =
      (case map_of rs i of None \<Rightarrow> slots[a := output_slot out] ! i | Some out' \<Rightarrow> output_slot out')"
    using Cons.IH [of "slots[a := output_slot out]"] Cons.prems by (simp add: r record_output_def)
  show ?case
  proof (cases "i = a")
    case True
    then have "map_of rs i = None" using Cons.prems(1) by (simp add: r map_of_eq_None_iff)
    then show ?thesis using ih True Cons.prems(2) by (simp add: r)
  next
    case False
    then show ?thesis using ih by (simp add: r split: option.splits)
  qed
qed

text \<open>The accounting of a review panel does not depend on which reviewer finishes first: the
  same outputs, one per reviewer, recorded in any order give the same summary, and a reviewer who
  never reported leaves the panel's cash unknown.\<close>

theorem panel_accounting_ignores_order:
  assumes "distinct (map fst rs)" and "distinct (map fst rs')" and "set rs = set rs'"
  shows "summarizeReviewerSpend (fold (\<lambda>r slots. record_output (fst r) (snd r) slots) rs (new_accumulator n)) =
      summarizeReviewerSpend (fold (\<lambda>r slots. record_output (fst r) (snd r) slots) rs' (new_accumulator n)) \<and>
    (list_all (\<lambda>i. i \<in> fst ` set rs) [0..<n] \<or>
     re_cashKnowledge (summarizeReviewerSpend
       (fold (\<lambda>r slots. record_output (fst r) (snd r) slots) rs (new_accumulator n))) = UnknownCost)"
proof
  let ?S = "\<lambda>rs. fold (\<lambda>r slots. record_output (fst r) (snd r) slots) rs (new_accumulator n)"
  have same: "map_of rs = map_of rs'"
    using assms by (intro ext) (metis map_of_eq_Some_iff option.exhaust)
  have "?S rs = ?S rs'"
    by (rule nth_equalityI) (simp_all add: fold_record_nth assms(1,2) same)
  then show "summarizeReviewerSpend (?S rs) = summarizeReviewerSpend (?S rs')" by simp
  show "list_all (\<lambda>i. i \<in> fst ` set rs) [0..<n] \<or>
      re_cashKnowledge (summarizeReviewerSpend (?S rs)) = UnknownCost"
  proof (cases "list_all (\<lambda>i. i \<in> fst ` set rs) [0..<n]")
    case False
    then obtain i where i: "i < n" "i \<notin> fst ` set rs" by (auto simp: list_all_iff)
    then have "map_of rs i = None" by (simp add: map_of_eq_None_iff)
    then have "?S rs ! i = empty_slot"
      using i(1) by (simp add: fold_record_nth [OF assms(1)] new_accumulator_def)
    moreover have "?S rs ! i \<in> set (?S rs)" using i(1) by (intro nth_mem) (simp add: new_accumulator_def)
    ultimately have "UnknownCost \<in> sl_cashKnowledge ` set (?S rs)"
      by (force simp: empty_slot_def)
    then show ?thesis by (simp add: summarizeReviewerSpend_def mergeKnowledge_def)
  qed simp
qed

definition example_output :: "rat \<Rightarrow> reviewer_output" where
  "example_output c =
     \<lparr>ou_costUsd = c, ou_costEstimated = False, ou_cashUsd = c, ou_cashKnowledge = Exact,
      ou_valuationUsd = 0, ou_valuationKnowledge = Exact, ou_unknownUsd = 0,
      ou_allowanceDebitUnobserved = None, ou_observedAmounts = None\<rparr>"

theorem panel_accounting_ignores_order_witness:
  "re_spendUsd (summarizeReviewerSpend (fold (\<lambda>r slots. record_output (fst r) (snd r) slots)
     [(0, example_output 1), (1, example_output 2)] (new_accumulator 2))) =
   re_spendUsd (summarizeReviewerSpend (fold (\<lambda>r slots. record_output (fst r) (snd r) slots)
     [(1, example_output 2), (0, example_output 1)] (new_accumulator 2)))"
proof -
  let ?a = "[(0, example_output 1), (1, example_output 2)]"
    and ?b = "[(1, example_output 2), (0, example_output 1)]"
  have "summarizeReviewerSpend (fold (\<lambda>r slots. record_output (fst r) (snd r) slots) ?a (new_accumulator 2)) =
      summarizeReviewerSpend (fold (\<lambda>r slots. record_output (fst r) (snd r) slots) ?b (new_accumulator 2))"
    by (rule conjunct1 [OF panel_accounting_ignores_order]) (auto simp: insert_commute)
  then show ?thesis by (rule arg_cong)
qed

section \<open>Gates\<close>

lemma commandCwd_below:
  assumes "commandCwd here rt requested = Inr cwd"
  shows "below (resolve_segs here [rt]) (resolve_segs here [cwd])"
proof (cases "truthy requested")
  case None
  then show ?thesis using assms by (simp add: commandCwd_def below_def)
next
  case (Some r)
  let ?P = "resolve_segs here [rt]" and ?T = "resolve_segs here [rt, r]"
  have ok: "\<not> (join ''/'' (rel_segs ?P ?T) = ''..'' \<or> starts_with (join ''/'' (rel_segs ?P ?T)) ''../'')"
    and cwd: "cwd = resolve here [rt, r]"
    using assms Some
    by (auto simp: commandCwd_def Let_def relative_def resolve_resolved split: if_splits)
  have "below ?P ?T"
    using resolve_segs_clean [of here "[rt, r]"]
  proof (cases rule: rel_segs_cases [of ?T ?P])
    case (outside q)
    then show ?thesis using ok by (cases q) auto
  qed (simp_all add: below_def)
  then show ?thesis by (simp add: cwd resolve_resolved)
qed

lemma commandEnv_names: "commandEnv penv names env = Inr env' \<Longrightarrow> list_all (\<lambda>n. \<not> sensitive_env_name n) names"
  by (induction names arbitrary: env) (auto split: if_splits)

definition grant_covers ::
    "gate_host \<Rightarrow> gate_spec \<Rightarrow> string \<Rightarrow> (string, string) jsmap \<Rightarrow> test_command_grant \<Rightarrow> bool" where
  "grant_covers host spec cwd env grant \<longleftrightarrow>
     (\<exists>projectRoot profile exe.
        gs_projectRoot spec = Some projectRoot \<and> gs_accessProfile spec = Some profile \<and>
        tg_projectDigest grant = gh_projectDigest host projectRoot \<and>
        tg_configDigest grant = gh_configDigest host projectRoot \<and>
        tg_commandDigest grant = gh_commandDigest host (invocation_of spec) \<and>
        tg_accessProfile grant = profile \<and>
        resolveExecutable host (gs_program spec) cwd
          (or_else (jget env ''PATH'') (gh_processEnv host ''PATH'')) = Inr exe \<and>
        tg_executablePath grant = exe \<and> tg_executableDigest grant = gh_fileDigest host exe \<and>
        tg_scriptDigest grant = map_option (gh_fileDigest host)
          (truthy (resolveScript host (gs_program spec) (gs_args spec) cwd)))"

lemma case_map_option: "(case x of None \<Rightarrow> None | Some p \<Rightarrow> Some (f p)) = map_option f x"
  by (cases x) simp_all

lemma verified_grant:
  "verifyExternalGrant host spec cwd env = None \<Longrightarrow>
   \<exists>grant. gs_trustGrant spec = Some grant \<and> grant_covers host spec cwd env grant"
  by (auto simp: verifyExternalGrant_def grant_covers_def truthy_Some_iff case_map_option Let_def
      split: option.splits if_splits sum.splits)

text \<open>A gate that needs external trust passes only when its process really ran and exited with
  zero under a grant that covers the current project, configuration, command line, access profile,
  executable and script; it ran inside the project and no allow-listed variable had a
  credential-like name.\<close>

theorem versioned_gate_passes_only_under_its_grant:
  assumes "gs_trustRequired spec = Some True"
    and "gr_status (runGate host run duration spec rootdir optEnv) = GatePassed"
  shows "\<exists>cwd env grant c. gs_trustGrant spec = Some grant \<and> grant_covers host spec cwd env grant \<and>
    run (gs_program spec) (gs_args spec) cwd env = Inr c \<and> gc_code c = Some 0 \<and>
    below (resolve_segs (gh_cwd host) [rootdir]) (resolve_segs (gh_cwd host) [cwd]) \<and>
    list_all (\<lambda>n. \<not> sensitive_env_name n) (nullish (gs_envAllowlist spec) [])"
proof -
  obtain cwd env c where prep: "prepare_gate host spec rootdir optEnv = Inr (cwd, env)"
    and run: "run (gs_program spec) (gs_args spec) cwd env = Inr c" "gc_code c = Some 0"
    using assms(2) by (auto simp: runGate_def Let_def split: sum.splits if_splits prod.splits)
  have cwd: "commandCwd (gh_cwd host) rootdir (gs_cwd spec) = Inr cwd"
    and env: "\<exists>e0. commandEnv (gh_processEnv host) (nullish (gs_envAllowlist spec) []) e0 = Inr env"
    and grant: "verifyExternalGrant host spec cwd env = None"
    using prep assms(1) by (auto simp: prepare_gate_def split: sum.splits option.splits)
  show ?thesis
    using verified_grant [OF grant] run commandCwd_below [OF cwd] env commandEnv_names by blast
qed

text \<open>The grant that a user-level trust surface builds for a command is accepted for that command
  as long as nothing changed and the executable is looked up on the same path.\<close>

theorem built_grant_is_accepted:
  assumes "buildTestCommandGrant host spec projectRoot profile = Inr grant" and "projectRoot \<noteq> []"
    and "commandCwd (gh_cwd host) projectRoot (gs_cwd spec) = Inr cwd"
    and "or_else (jget env ''PATH'') (gh_processEnv host ''PATH'') = gh_processEnv host ''PATH''"
  shows "verifyExternalGrant host
    (spec\<lparr>gs_trustGrant := Some grant, gs_projectRoot := Some projectRoot,
          gs_accessProfile := Some profile\<rparr>) cwd env = None"
  using assms
  by (auto simp: buildTestCommandGrant_def verifyExternalGrant_def invocation_of_def Let_def
      split: sum.splits)

definition example_host :: gate_host where
  "example_host =
     \<lparr>gh_cwd = ''/'', gh_processEnv = (\<lambda>_. None), gh_isFile = (\<lambda>_. True), gh_realpath = (\<lambda>p. p),
      gh_fileDigest = (\<lambda>p. p), gh_projectDigest = (\<lambda>p. p), gh_configDigest = (\<lambda>p. p),
      gh_commandDigest = gv_program\<rparr>"

definition example_gate :: gate_spec where
  "example_gate =
     \<lparr>gs_id = ''test'', gs_program = ''/bin/t'', gs_args = [], gs_cwd = None, gs_envAllowlist = None,
      gs_env = None, gs_trustRequired = Some True, gs_trustGrant = None,
      gs_projectRoot = Some ''/r'', gs_accessProfile = Some AccFull, gs_required = None\<rparr>"

definition example_grant :: test_command_grant where
  "example_grant =
     \<lparr>tg_projectDigest = ''/r'', tg_configDigest = ''/r'', tg_commandDigest = ''/bin/t'',
      tg_executablePath = ''/bin/t'', tg_executableDigest = ''/bin/t'', tg_scriptPath = None,
      tg_scriptDigest = None, tg_accessProfile = AccFull\<rparr>"

lemmas gate_host_eval =
  buildTestCommandGrant_def commandCwd_def resolveExecutable_def resolveScript_def base_name_def
  invocation_of_def example_host_def example_gate_def example_grant_def isAbsolute_def

lemma example_grant_built: "buildTestCommandGrant example_host example_gate ''/r'' AccFull = Inr example_grant"
  by (simp add: gate_host_eval)

theorem built_grant_is_accepted_witness:
  "verifyExternalGrant example_host (example_gate\<lparr>gs_trustGrant := Some example_grant\<rparr>) ''/r'' [] = None \<and>
   verifyExternalGrant example_host example_gate ''/r'' [] \<noteq> None"
proof
  have "verifyExternalGrant example_host
      (example_gate\<lparr>gs_trustGrant := Some example_grant, gs_projectRoot := Some ''/r'',
         gs_accessProfile := Some AccFull\<rparr>) ''/r'' [] = None"
    by (rule built_grant_is_accepted [OF example_grant_built]) (simp_all add: gate_host_eval)
  then show "verifyExternalGrant example_host (example_gate\<lparr>gs_trustGrant := Some example_grant\<rparr>) ''/r'' [] = None"
    by (simp add: example_gate_def)
  show "verifyExternalGrant example_host example_gate ''/r'' [] \<noteq> None"
    by (simp add: verifyExternalGrant_def example_gate_def)
qed

definition exit_zero :: gate_capture where
  "exit_zero = \<lparr>gc_code = Some 0, gc_stdout = [], gc_stderr = [], gc_signal_kill = False,
     gc_drain_truncated = False\<rparr>"

lemma example_gate_passes:
  "gr_status (runGate example_host (\<lambda>_ _ _ _. Inr exit_zero) 0
     (example_gate\<lparr>gs_trustGrant := Some example_grant\<rparr>) ''/r'' None) = GatePassed"
  by (simp add: runGate_def prepare_gate_def verifyExternalGrant_def gate_host_eval exit_zero_def)

theorem versioned_gate_passes_only_under_its_grant_witness:
  "gr_status (runGate example_host (\<lambda>_ _ _ _. Inr exit_zero) 0 example_gate ''/r'' None) = GateFailed \<and>
   (\<exists>cwd env. grant_covers example_host (example_gate\<lparr>gs_trustGrant := Some example_grant\<rparr>) cwd env example_grant)"
proof
  show "gr_status (runGate example_host (\<lambda>_ _ _ _. Inr exit_zero) 0 example_gate ''/r'' None) = GateFailed"
    by (simp add: runGate_def prepare_gate_def verifyExternalGrant_def commandCwd_def example_gate_def Let_def)
  show "\<exists>cwd env. grant_covers example_host (example_gate\<lparr>gs_trustGrant := Some example_grant\<rparr>) cwd env example_grant"
    using versioned_gate_passes_only_under_its_grant [OF _ example_gate_passes]
    by (auto simp: example_gate_def)
qed

section \<open>Synthesis\<close>

lemma synthesis_auto:
  assumes "3 \<le> length cs" and "ranked = js_sort compareCandidates cs"
  shows "decideSynthesis cs SynAuto =
    (if clear_winner (ranked ! 0) (ranked ! 1) \<and> \<not> list_ex fixable (cv_findings (ranked ! 0)) \<and>
        \<not> complementary (ranked ! 0) (ranked ! 1)
     then \<lparr>sy_synthesize = False,
            sy_reason = ''a single candidate clearly passes all gates and review'',
            sy_sources = [cv_attemptId (ranked ! 0)]\<rparr>
     else \<lparr>sy_synthesize = True, sy_reason = sy_reason (decideSynthesis cs SynAuto),
            sy_sources = map cv_attemptId (take 3 ranked)\<rparr>)"
proof -
  have "min 3 (length ranked) = 3" using assms by simp
  then show ?thesis
    using assms by (simp add: decideSynthesis_def AUTO_SYNTHESIS_MIN_CANDIDATES_def Let_def)
qed

text \<open>In automatic mode a race of three or more candidates goes without synthesis only when its
  best candidate passes every required gate, is reviewed clean, has no open blocker and no fixable
  finding, and beats the runner-up outright, while the runner-up offers nothing better; a race that is
  synthesized names at most three sources, the best first.\<close>

theorem synthesis_skipped_only_for_clear_winner:
  "(if sy_synthesize (decideSynthesis (a # b # c # rest) SynAuto)
     then sy_sources (decideSynthesis (a # b # c # rest) SynAuto) =
            map cv_attemptId (take 3 (js_sort compareCandidates (a # b # c # rest)))
     else let best = js_sort compareCandidates (a # b # c # rest) ! 0;
              second = js_sort compareCandidates (a # b # c # rest) ! 1 in
          sy_sources (decideSynthesis (a # b # c # rest) SynAuto) = [cv_attemptId best] \<and>
          requiredGatesPassed best \<and> cv_finalReviewClean best \<and> openBlockerCount best = 0 \<and>
          compareCandidates best second < 0 \<and> list_all (\<lambda>f. \<not> fixable f) (cv_findings best) \<and>
          \<not> complementary best second)"
proof -
  let ?cs = "a # b # c # rest"
  define ranked where "ranked = js_sort compareCandidates ?cs"
  have three: "3 \<le> length ?cs" by simp
  note eq = synthesis_auto [OF three ranked_def]
  show ?thesis
  proof (cases "clear_winner (ranked ! 0) (ranked ! 1) \<and>
      \<not> list_ex fixable (cv_findings (ranked ! 0)) \<and> \<not> complementary (ranked ! 0) (ranked ! 1)")
    case True
    then have "decideSynthesis ?cs SynAuto =
        \<lparr>sy_synthesize = False,
         sy_reason = ''a single candidate clearly passes all gates and review'',
         sy_sources = [cv_attemptId (ranked ! 0)]\<rparr>" by (subst eq) simp
    then show ?thesis
      using True unfolding ranked_def [symmetric]
      by (auto simp: clear_winner_def candidateSummary_def list_ex_iff list_all_iff Let_def)
  next
    case False
    then have "sy_synthesize (decideSynthesis ?cs SynAuto) \<and>
        sy_sources (decideSynthesis ?cs SynAuto) = map cv_attemptId (take 3 ranked)"
      using eq by (metis (no_types, lifting) synthesis_decision.select_convs(1,3))
    then show ?thesis unfolding ranked_def [symmetric] by simp
  qed
qed

end
