(* ===== verification/Poll_Pacer.thy ===== *)
theory Poll_Pacer
  imports Quota Machine
begin

text \<open>
  The pacing of the quota pollers (\<open>packages/daemon/src/quota-poll-pacer.ts\<close>): one vendor
  lane's retry ladder, the floors that a rate limit sets for a subject and the accounts that share
  its credential, and the persisted floors. A subject is keyed by its harness, route and id, the
  triple the code renders as JSON. The persisted store is an argument \<open>ld\<close> (the floor it
  returns for a key, zero when it has none or fails) and its writes are recorded as attempts, since
  a failing write is ignored. Instants are milliseconds.
\<close>

definition POLL_BACKOFF_MS :: int where "POLL_BACKOFF_MS = 60000"
definition MAX_POLL_BACKOFF_MS :: int where "MAX_POLL_BACKOFF_MS = 15 * 60000"
definition MAX_RATE_LIMIT_FLOOR_MS :: int where "MAX_RATE_LIMIT_FLOOR_MS = 7 * 24 * 60 * 60000"

type_synonym skey = "string \<times> credential_route \<times> string option"

definition subjectKey :: "quota_subject \<Rightarrow> skey" where
  "subjectKey s = (qs_harness s, qs_credential_route s, qs_subject_id s)"

record poll_floor =
  fl_until :: int
  fl_observed :: int

record subject_failure =
  fa_observedAt :: int
  fa_count :: nat

record pacer =
  pp_subjectFloors :: "(skey, poll_floor) jsmap"
  pp_credentialAliases :: "(skey, quota_subject list) jsmap"
  pp_subjectFailures :: "(skey, subject_failure) jsmap"
  pp_failures :: nat
  pp_notBefore :: int
  pp_armedAt :: int
  pp_rateLimitedNotBefore :: int
  pp_rateLimitedSince :: int
  pp_saves :: "(skey \<times> int) list"

text \<open>The constructor; the argument is the legacy floor the store has for the vendor.\<close>

definition new_pacer :: "int \<Rightarrow> pacer" where
  "new_pacer vendorFloor =
     \<lparr>pp_subjectFloors = [], pp_credentialAliases = [], pp_subjectFailures = [], pp_failures = 0,
      pp_notBefore = 0, pp_armedAt = 0, pp_rateLimitedNotBefore = vendorFloor,
      pp_rateLimitedSince = 0, pp_saves = []\<rparr>"

definition noteCredentialChange :: "pacer \<Rightarrow> pacer" where
  "noteCredentialChange p =
     p\<lparr>pp_failures := 0, pp_notBefore := 0, pp_armedAt := 0, pp_subjectFailures := []\<rparr>"

definition pollEligible :: "pacer \<Rightarrow> int \<Rightarrow> int option \<Rightarrow> bool" where
  "pollEligible p now renewalDueObservedAt =
     (if now < pp_rateLimitedNotBefore p then False
      else if pp_notBefore p \<le> now then True
      else case renewalDueObservedAt of None \<Rightarrow> False | Some t \<Rightarrow> pp_armedAt p < t)"

section \<open>Floors\<close>

text \<open>The first reading of a floor loads it from the store and keeps it.\<close>

definition subjectFloor :: "(skey \<Rightarrow> int) \<Rightarrow> quota_subject \<Rightarrow> pacer \<Rightarrow> poll_floor \<times> pacer" where
  "subjectFloor ld s p =
     (case jget (pp_subjectFloors p) (subjectKey s) of
        Some f \<Rightarrow> (f, p)
      | None \<Rightarrow>
          let f = \<lparr>fl_until = ld (subjectKey s), fl_observed = 0\<rparr> in
          (f, p\<lparr>pp_subjectFloors := jset (subjectKey s) f (pp_subjectFloors p)\<rparr>))"

definition saveSubjectFloor :: "(skey \<Rightarrow> int) \<Rightarrow> quota_subject \<Rightarrow> int \<Rightarrow> int \<Rightarrow> pacer \<Rightarrow> pacer" where
  "saveSubjectFloor ld s until observed p =
     (case subjectFloor ld s p of (f, p1) \<Rightarrow>
        if until \<le> fl_until f then p1
        else p1\<lparr>pp_subjectFloors := jset (subjectKey s) \<lparr>fl_until = until, fl_observed = observed\<rparr>
                  (pp_subjectFloors p1),
                pp_saves := pp_saves p1 @ [(subjectKey s, until)]\<rparr>)"

definition rateLimitCooldownUntil ::
    "(skey \<Rightarrow> int) \<Rightarrow> int \<Rightarrow> quota_subject option \<Rightarrow> pacer \<Rightarrow> int option \<times> pacer" where
  "rateLimitCooldownUntil ld now subject p =
     (case (case subject of None \<Rightarrow> (0, p)
            | Some s \<Rightarrow> (case subjectFloor ld s p of (f, p1) \<Rightarrow> (fl_until f, p1))) of
        (f, p1) \<Rightarrow>
          let until = max (pp_rateLimitedNotBefore p1) f in
          (if now < until then Some until else None, p1))"

definition rateLimitObservedAt ::
    "(skey \<Rightarrow> int) \<Rightarrow> int \<Rightarrow> quota_subject option \<Rightarrow> pacer \<Rightarrow> int \<times> pacer" where
  "rateLimitObservedAt ld now subject p =
     (let lane = (\<lambda>q. if pp_rateLimitedSince q = 0 then (now, q\<lparr>pp_rateLimitedSince := now\<rparr>)
                      else (pp_rateLimitedSince q, q)) in
      case subject of
        None \<Rightarrow> lane p
      | Some s \<Rightarrow>
          (case subjectFloor ld s p of (f, p1) \<Rightarrow>
             if pp_rateLimitedNotBefore p1 < fl_until f then
               (if fl_observed f = 0 then
                  (now, p1\<lparr>pp_subjectFloors :=
                     jset (subjectKey s) (f\<lparr>fl_observed := now\<rparr>) (pp_subjectFloors p1)\<rparr>)
                else (fl_observed f, p1))
             else lane p1))"

section \<open>Accounts that share a credential\<close>

text \<open>The groups of rows with the same harness, route and credential hash, in order of first
  appearance.\<close>

type_synonym group_key = "string \<times> credential_route \<times> string"

fun group_bindings ::
    "(quota_subject \<times> string) list \<Rightarrow> (group_key, quota_subject list) jsmap \<Rightarrow>
     (group_key, quota_subject list) jsmap" where
  "group_bindings [] groups = groups"
| "group_bindings ((s, hash) # bs) groups =
     (let identity = (qs_harness s, qs_credential_route s, hash) in
      group_bindings bs (jset identity (nullish (jget groups identity) [] @ [s]) groups))"

text \<open>The latest floor of a group, then every member is aliased to the grp and raised to it.\<close>

fun group_floor :: "(skey \<Rightarrow> int) \<Rightarrow> quota_subject list \<Rightarrow> poll_floor \<Rightarrow> pacer \<Rightarrow> poll_floor \<times> pacer" where
  "group_floor ld [] cur p = (cur, p)"
| "group_floor ld (s # ss) cur p =
     (case subjectFloor ld s p of (cand, p1) \<Rightarrow>
        group_floor ld ss (if fl_until cur < fl_until cand then cand else cur) p1)"

fun raise_group ::
    "(skey \<Rightarrow> int) \<Rightarrow> quota_subject list \<Rightarrow> quota_subject list \<Rightarrow> poll_floor \<Rightarrow> pacer \<Rightarrow> pacer" where
  "raise_group ld grp [] f p = p"
| "raise_group ld grp (s # ss) f p =
     raise_group ld grp ss f
       (saveSubjectFloor ld s (fl_until f) (fl_observed f)
          (p\<lparr>pp_credentialAliases := jset (subjectKey s) grp (pp_credentialAliases p)\<rparr>))"

definition bind_group :: "(skey \<Rightarrow> int) \<Rightarrow> quota_subject list \<Rightarrow> pacer \<Rightarrow> pacer" where
  "bind_group ld grp p =
     (case group_floor ld grp \<lparr>fl_until = 0, fl_observed = 0\<rparr> p of
        (f, p1) \<Rightarrow> raise_group ld grp grp f p1)"

definition bindCredentials ::
    "(skey \<Rightarrow> int) \<Rightarrow> (quota_subject \<times> string) list \<Rightarrow> pacer \<Rightarrow> pacer" where
  "bindCredentials ld bindings p =
     foldl (\<lambda>q g. bind_group ld g q) (p\<lparr>pp_credentialAliases := []\<rparr>)
       (jvalues (group_bindings bindings []))"

definition aliases :: "pacer \<Rightarrow> quota_subject \<Rightarrow> quota_subject list" where
  "aliases p s = nullish (jget (pp_credentialAliases p) (subjectKey s)) [s]"

section \<open>Outcomes\<close>

definition ladder_delay :: "nat \<Rightarrow> int" where
  "ladder_delay failures = min (POLL_BACKOFF_MS * 2 ^ (failures - 1)) MAX_POLL_BACKOFF_MS"

definition armBackoff :: "int \<Rightarrow> int option \<Rightarrow> pacer \<Rightarrow> pacer" where
  "armBackoff completedAt renewalNotBefore p =
     (let failures = Suc (pp_failures p); ladder = completedAt + ladder_delay failures in
      p\<lparr>pp_failures := failures, pp_armedAt := completedAt,
        pp_notBefore := (case renewalNotBefore of None \<Rightarrow> ladder | Some r \<Rightarrow> min ladder r)\<rparr>)"

definition notePollSuccess :: "int \<Rightarrow> bool \<Rightarrow> int option \<Rightarrow> pacer \<Rightarrow> pacer" where
  "notePollSuccess completedAt demandRemains renewalNotBefore p =
     (if \<not> demandRemains then p\<lparr>pp_failures := 0, pp_notBefore := 0, pp_armedAt := 0\<rparr>
      else armBackoff completedAt renewalNotBefore p)"

definition notePollFailure :: "int \<Rightarrow> int option \<Rightarrow> pacer \<Rightarrow> pacer" where
  "notePollFailure completedAt renewalNotBefore p = armBackoff completedAt renewalNotBefore p"

definition noteSubjectSuccess :: "quota_subject \<Rightarrow> pacer \<Rightarrow> pacer" where
  "noteSubjectSuccess s p =
     p\<lparr>pp_subjectFailures :=
        foldl (\<lambda>m a. jdelete (subjectKey a) m) (pp_subjectFailures p) (aliases p s)\<rparr>"

definition refusal_count :: "pacer \<Rightarrow> int \<Rightarrow> quota_subject \<Rightarrow> nat" where
  "refusal_count p observedAt s =
     (case jget (pp_subjectFailures p) (subjectKey s) of
        None \<Rightarrow> 1
      | Some f \<Rightarrow> if fa_observedAt f = observedAt then fa_count f else fa_count f + 1)"

definition refusal_floor :: "nat \<Rightarrow> int option \<Rightarrow> int" where
  "refusal_floor n retryAfterMs =
     max (ladder_delay n) (min (nullish retryAfterMs 0) MAX_RATE_LIMIT_FLOOR_MS)"

fun pace_aliases ::
    "(skey \<Rightarrow> int) \<Rightarrow> int \<Rightarrow> nat \<Rightarrow> int \<Rightarrow> quota_subject list \<Rightarrow> pacer \<Rightarrow> pacer" where
  "pace_aliases ld observedAt n until [] p = p"
| "pace_aliases ld observedAt n until (a # as) p =
     pace_aliases ld observedAt n until as
       (saveSubjectFloor ld a until observedAt
          (p\<lparr>pp_subjectFailures := jset (subjectKey a) \<lparr>fa_observedAt = observedAt, fa_count = n\<rparr>
               (pp_subjectFailures p)\<rparr>))"

definition noteRateLimited ::
    "(skey \<Rightarrow> int) \<Rightarrow> int \<Rightarrow> int option \<Rightarrow> quota_subject \<Rightarrow> pacer \<Rightarrow> pacer" where
  "noteRateLimited ld observedAt retryAfterMs s p =
     (let n = refusal_count p observedAt s; until = observedAt + refusal_floor n retryAfterMs in
      pace_aliases ld observedAt n until (aliases p s) p)"

section \<open>Steps\<close>

text \<open>The calls of the poll loop, in any order, that report nothing observed later than \<open>T\<close>.\<close>

inductive pacer_step :: "(skey \<Rightarrow> int) \<Rightarrow> int \<Rightarrow> pacer \<Rightarrow> pacer \<Rightarrow> bool"
  for ld :: "skey \<Rightarrow> int" and T :: int where
  credential_change: "pacer_step ld T p (noteCredentialChange p)"
| cooldown_read: "pacer_step ld T p (snd (rateLimitCooldownUntil ld now subject p))"
| observed_read: "pacer_step ld T p (snd (rateLimitObservedAt ld now subject p))"
| bind: "pacer_step ld T p (bindCredentials ld bindings p)"
| success: "t \<le> T \<Longrightarrow> pacer_step ld T p (notePollSuccess t demand renewal p)"
| failure: "t \<le> T \<Longrightarrow> pacer_step ld T p (notePollFailure t renewal p)"
| subject_success: "pacer_step ld T p (noteSubjectSuccess s p)"
| rate_limited: "t \<le> T \<Longrightarrow> pacer_step ld T p (noteRateLimited ld t retry s p)"

definition pacer_start :: "int \<Rightarrow> pacer \<Rightarrow> bool" where
  "pacer_start vendorFloor p \<longleftrightarrow> p = new_pacer vendorFloor"

end
