(* ===== verification/Pacer_Props.thy ===== *)
theory Pacer_Props
  imports Poll_Pacer
begin

text \<open>
  What the poll pacer promises: a rate limit is honoured by everything that happens later, it
  stops nobody but the accounts that share the refused credential, and no sequence of failures
  silences a lane for good.
\<close>

text \<open>Quantifiers over keys stay whole.\<close>

declare split_paired_All [simp del] split_paired_Ex [simp del]

definition floor_of :: "(skey \<Rightarrow> int) \<Rightarrow> pacer \<Rightarrow> skey \<Rightarrow> int" where
  "floor_of ld p k = (case jget (pp_subjectFloors p) k of Some f \<Rightarrow> fl_until f | None \<Rightarrow> ld k)"

section \<open>What one call does to the floors\<close>

named_theorems pacer_floor

lemma floor_of_other_fields [pacer_floor, simp]:
  "floor_of ld (p\<lparr>pp_credentialAliases := a\<rparr>) = floor_of ld p"
  "floor_of ld (p\<lparr>pp_subjectFailures := b\<rparr>) = floor_of ld p"
  "floor_of ld (p\<lparr>pp_rateLimitedSince := t\<rparr>) = floor_of ld p"
  "floor_of ld (p\<lparr>pp_failures := n, pp_notBefore := t, pp_armedAt := u\<rparr>) = floor_of ld p"
  "floor_of ld (p\<lparr>pp_failures := n, pp_notBefore := t, pp_armedAt := u, pp_subjectFailures := b\<rparr>) =
     floor_of ld p"
  "floor_of ld (p\<lparr>pp_failures := n, pp_armedAt := u, pp_notBefore := t\<rparr>) = floor_of ld p"
  by (simp_all add: floor_of_def fun_eq_iff)

lemma floor_of_set [simp]:
  "floor_of ld (p\<lparr>pp_subjectFloors := jset k f (pp_subjectFloors p)\<rparr>) = (floor_of ld p)(k := fl_until f)"
  "floor_of ld (p\<lparr>pp_subjectFloors := jset k f (pp_subjectFloors p), pp_saves := x\<rparr>) =
     (floor_of ld p)(k := fl_until f)"
  by (auto simp: floor_of_def fun_eq_iff)

text \<open>The fields that the floors do not touch.\<close>

definition lane :: "pacer \<Rightarrow> nat \<times> int \<times> int \<times> int" where
  "lane p = (pp_failures p, pp_notBefore p, pp_armedAt p, pp_rateLimitedNotBefore p)"

lemma lane_other_fields [simp]:
  "lane (p\<lparr>pp_credentialAliases := a\<rparr>) = lane p"
  "lane (p\<lparr>pp_subjectFailures := b\<rparr>) = lane p"
  by (simp_all add: lane_def)

lemma subjectFloor_props:
  "fl_until (fst (subjectFloor ld s p)) = floor_of ld p (subjectKey s)"
  "floor_of ld (snd (subjectFloor ld s p)) = floor_of ld p"
  "lane (snd (subjectFloor ld s p)) = lane p"
  "pp_credentialAliases (snd (subjectFloor ld s p)) = pp_credentialAliases p"
  "pp_subjectFailures (snd (subjectFloor ld s p)) = pp_subjectFailures p"
  by (auto simp: subjectFloor_def floor_of_def lane_def Let_def fun_eq_iff split: option.splits)

lemma saveSubjectFloor_floor:
  "floor_of ld (saveSubjectFloor ld s u ob p) k =
     (if k = subjectKey s then max (floor_of ld p k) u else floor_of ld p k)"
proof -
  obtain f p1 where sf: "subjectFloor ld s p = (f, p1)" by (metis surj_pair)
  have "fl_until f = floor_of ld p (subjectKey s)" "floor_of ld p1 = floor_of ld p"
    using subjectFloor_props(1,2) [of ld s p] sf by simp_all
  then show ?thesis by (auto simp: saveSubjectFloor_def sf)
qed

lemma saveSubjectFloor_rest [simp]:
  "lane (saveSubjectFloor ld s u ob p) = lane p"
  "pp_credentialAliases (saveSubjectFloor ld s u ob p) = pp_credentialAliases p"
  "pp_subjectFailures (saveSubjectFloor ld s u ob p) = pp_subjectFailures p"
  using subjectFloor_props(3-5) [of ld s p]
  by (auto simp: saveSubjectFloor_def lane_def split: prod.splits)

lemma cooldown_read_props:
  "floor_of ld (snd (rateLimitCooldownUntil ld now sub p)) = floor_of ld p"
  "lane (snd (rateLimitCooldownUntil ld now sub p)) = lane p"
  "pp_credentialAliases (snd (rateLimitCooldownUntil ld now sub p)) = pp_credentialAliases p"
  using subjectFloor_props [of ld _ p]
  by (auto simp: rateLimitCooldownUntil_def Let_def split: option.splits prod.splits)
    (metis fst_conv snd_conv)+

lemma cooldown_value:
  "fst (rateLimitCooldownUntil ld now (Some s) p) =
     (let u = max (pp_rateLimitedNotBefore p) (floor_of ld p (subjectKey s)) in
      if now < u then Some u else None)"
  using subjectFloor_props [of ld s p]
  by (auto simp: rateLimitCooldownUntil_def lane_def Let_def split: prod.splits)

lemma observed_read_props:
  "floor_of ld (snd (rateLimitObservedAt ld now sub p)) = floor_of ld p"
  "lane (snd (rateLimitObservedAt ld now sub p)) = lane p"
  "pp_credentialAliases (snd (rateLimitObservedAt ld now sub p)) = pp_credentialAliases p"
proof -
  have "floor_of ld (snd (rateLimitObservedAt ld now sub p)) = floor_of ld p \<and>
    lane (snd (rateLimitObservedAt ld now sub p)) = lane p \<and>
    pp_credentialAliases (snd (rateLimitObservedAt ld now sub p)) = pp_credentialAliases p"
  proof (cases sub)
    case None
    then show ?thesis by (auto simp: rateLimitObservedAt_def lane_def Let_def)
  next
    case (Some s)
    obtain f p1 where sf: "subjectFloor ld s p = (f, p1)" by (metis surj_pair)
    have "fl_until f = floor_of ld p (subjectKey s)" "floor_of ld p1 = floor_of ld p"
      "lane p1 = lane p" "pp_credentialAliases p1 = pp_credentialAliases p"
      using subjectFloor_props [of ld s p] sf by simp_all
    then show ?thesis
      by (auto simp: rateLimitObservedAt_def Some sf lane_def Let_def fun_eq_iff)
  qed
  then show
    "floor_of ld (snd (rateLimitObservedAt ld now sub p)) = floor_of ld p"
    "lane (snd (rateLimitObservedAt ld now sub p)) = lane p"
    "pp_credentialAliases (snd (rateLimitObservedAt ld now sub p)) = pp_credentialAliases p"
    by blast+
qed

section \<open>Groups of accounts\<close>

lemma group_floor_props:
  "floor_of ld (snd (group_floor ld ss f p)) = floor_of ld p \<and>
   lane (snd (group_floor ld ss f p)) = lane p \<and>
   fl_until (fst (group_floor ld ss f p)) =
     Max (insert (fl_until f) ((\<lambda>s. floor_of ld p (subjectKey s)) ` set ss))"
proof (induction ss arbitrary: f p)
  case (Cons s ss)
  obtain c p1 where sf: "subjectFloor ld s p = (c, p1)" by (metis surj_pair)
  have c: "fl_until c = floor_of ld p (subjectKey s)" "floor_of ld p1 = floor_of ld p"
    "lane p1 = lane p"
    using subjectFloor_props [of ld s p] sf by simp_all
  show ?case
    using Cons.IH [of "if fl_until f < fl_until c then c else f" p1]
    by (cases "ss = []") (auto simp: sf c Max_insert)
qed simp_all

lemma raise_group_props:
  "floor_of ld (raise_group ld grp ss f p) k =
     (if k \<in> subjectKey ` set ss then max (floor_of ld p k) (fl_until f) else floor_of ld p k)"
  "lane (raise_group ld grp ss f p) = lane p"
  by (induction ss arbitrary: p) (auto simp: saveSubjectFloor_floor)
lemma bind_group_props:
  "floor_of ld (bind_group ld grp p) k =
     (if k \<in> subjectKey ` set grp
      then max (floor_of ld p k) (Max (insert 0 ((\<lambda>s. floor_of ld p (subjectKey s)) ` set grp)))
      else floor_of ld p k)"
  "lane (bind_group ld grp p) = lane p"
proof -
  obtain f p1 where g: "group_floor ld grp \<lparr>fl_until = 0, fl_observed = 0\<rparr> p = (f, p1)"
    by (metis surj_pair)
  show "floor_of ld (bind_group ld grp p) k =
     (if k \<in> subjectKey ` set grp
      then max (floor_of ld p k) (Max (insert 0 ((\<lambda>s. floor_of ld p (subjectKey s)) ` set grp)))
      else floor_of ld p k)"
    "lane (bind_group ld grp p) = lane p"
    using group_floor_props [of ld grp "\<lparr>fl_until = 0, fl_observed = 0\<rparr>" p]
    by (simp_all add: bind_group_def g raise_group_props)
qed

lemma bind_group_member:
  "s \<in> set grp \<Longrightarrow> s' \<in> set grp \<Longrightarrow>
   floor_of ld p (subjectKey s) \<le> floor_of ld (bind_group ld grp p) (subjectKey s')"
  by (auto simp: bind_group_props intro: max.coboundedI2)

lemma bind_groups_props:
  "floor_of ld p k \<le> floor_of ld (foldl (\<lambda>q g. bind_group ld g q) p gs) k"
  "lane (foldl (\<lambda>q g. bind_group ld g q) p gs) = lane p"
proof (induction gs arbitrary: p)
  case (Cons g gs)
  { case 1
    have "floor_of ld p k \<le> floor_of ld (bind_group ld g p) k" by (simp add: bind_group_props)
    also have "\<dots> \<le> floor_of ld (foldl (\<lambda>q g. bind_group ld g q) (bind_group ld g p) gs) k"
      by (rule Cons.IH)
    finally show ?case by simp }
  { case 2 show ?case by (simp add: Cons.IH bind_group_props) }
qed simp_all

lemma bind_groups_bound:
  "\<forall>k. floor_of ld p k \<le> B \<Longrightarrow> 0 \<le> B \<Longrightarrow>
   floor_of ld (foldl (\<lambda>q g. bind_group ld g q) p gs) k \<le> B"
proof (induction gs arbitrary: p)
  case (Cons g gs)
  have "\<forall>k. floor_of ld (bind_group ld g p) k \<le> B"
    using Cons.prems by (auto simp: bind_group_props)
  then show ?case using Cons.IH Cons.prems(2) by simp
qed simp

lemma bind_groups_member:
  "grp \<in> set gs \<Longrightarrow> s \<in> set grp \<Longrightarrow> s' \<in> set grp \<Longrightarrow>
   floor_of ld p (subjectKey s) \<le>
   floor_of ld (foldl (\<lambda>q g. bind_group ld g q) p gs) (subjectKey s')"
proof (induction gs arbitrary: p)
  case (Cons g gs)
  show ?case
  proof (cases "grp = g")
    case True
    then show ?thesis
      using bind_group_member [OF Cons.prems(2,3), of ld p]
        bind_groups_props(1) [of ld "bind_group ld g p" "subjectKey s'" gs]
      by simp
  next
    case False
    then have "floor_of ld (bind_group ld g p) (subjectKey s) \<le>
      floor_of ld (foldl (\<lambda>q g. bind_group ld g q) p (g # gs)) (subjectKey s')"
      using Cons by simp
    moreover have "floor_of ld p (subjectKey s) \<le> floor_of ld (bind_group ld g p) (subjectKey s)"
      by (simp add: bind_group_props)
    ultimately show ?thesis by linarith
  qed
qed simp

text \<open>Rows with one harness, route and hash end in one group.\<close>

definition identity_of :: "quota_subject \<times> string \<Rightarrow> group_key" where
  "identity_of b = (qs_harness (fst b), qs_credential_route (fst b), snd b)"

lemma group_bindings_members:
  "set (nullish (jget (group_bindings bs gs) i) []) =
     set (nullish (jget gs i) []) \<union> fst ` {b \<in> set bs. identity_of b = i}"
proof (induction bs gs rule: group_bindings.induct)
  case (2 s hash bs groups)
  have "{b \<in> set ((s, hash) # bs). identity_of b = i} =
    (if identity_of (s, hash) = i then {(s, hash)} else {}) \<union> {b \<in> set bs. identity_of b = i}"
    by auto
  with 2 show ?case by (simp add: Let_def identity_of_def Un_assoc)
qed simp

lemma bound_together:
  assumes "b \<in> set bs" "b' \<in> set bs" "identity_of b = identity_of b'"
  shows "\<exists>grp \<in> set (jvalues (group_bindings bs [])). fst b \<in> set grp \<and> fst b' \<in> set grp"
proof -
  let ?g = "jget (group_bindings bs []) (identity_of b)"
  have m: "{fst b, fst b'} \<subseteq> set (nullish ?g [])"
    using assms by (auto simp: group_bindings_members)
  then obtain grp where "?g = Some grp" by (cases ?g) auto
  with m show ?thesis by (force dest: map_of_SomeD)
qed

lemma bindCredentials_props:
  "floor_of ld p k \<le> floor_of ld (bindCredentials ld bs p) k"
  "lane (bindCredentials ld bs p) = lane p"
  using bind_groups_props [of ld "p\<lparr>pp_credentialAliases := []\<rparr>"]
  by (simp_all add: bindCredentials_def)

section \<open>Refusals\<close>

lemma pace_aliases_props:
  "floor_of ld (pace_aliases ld t n u as p) k =
     (if k \<in> subjectKey ` set as then max (floor_of ld p k) u else floor_of ld p k)"
  "lane (pace_aliases ld t n u as p) = lane p"
  "jget (pp_subjectFailures (pace_aliases ld t n u as p)) k =
     (if k \<in> subjectKey ` set as then Some \<lparr>fa_observedAt = t, fa_count = n\<rparr>
      else jget (pp_subjectFailures p) k)"
  "pp_credentialAliases (pace_aliases ld t n u as p) = pp_credentialAliases p"
  by (induction as arbitrary: p) (auto simp: saveSubjectFloor_floor)

lemma ladder_delay_bounds: "ladder_delay n \<le> MAX_POLL_BACKOFF_MS"
  by (simp add: ladder_delay_def)

lemma refusal_floor_bounds:
  "refusal_floor n r \<le> MAX_RATE_LIMIT_FLOOR_MS"
  "min x MAX_RATE_LIMIT_FLOOR_MS \<le> refusal_floor n (Some x)"
  using ladder_delay_bounds [of n]
  by (auto simp: refusal_floor_def MAX_POLL_BACKOFF_MS_def MAX_RATE_LIMIT_FLOOR_MS_def)

section \<open>Invariants of every run\<close>

text \<open>An account is a member of the group it is aliased to.\<close>

definition aliases_own :: "pacer \<Rightarrow> bool" where
  "aliases_own p \<longleftrightarrow>
     (\<forall>k g. jget (pp_credentialAliases p) k = Some g \<longrightarrow> k \<in> subjectKey ` set g)"

lemma group_floor_aliases [simp]:
  "pp_credentialAliases (snd (group_floor ld ss f p)) = pp_credentialAliases p"
proof (induction ss arbitrary: f p)
  case (Cons s ss)
  obtain c p1 where sf: "subjectFloor ld s p = (c, p1)" by (metis surj_pair)
  have "pp_credentialAliases p1 = pp_credentialAliases p"
    using subjectFloor_props(4) [of ld s p] sf by simp
  then show ?case using Cons.IH by (simp add: sf)
qed simp

lemma raise_group_own:
  "set ss \<subseteq> set grp \<Longrightarrow> aliases_own p \<Longrightarrow> aliases_own (raise_group ld grp ss f p)"
proof (induction ss arbitrary: p)
  case (Cons s ss)
  have "aliases_own (saveSubjectFloor ld s (fl_until f) (fl_observed f)
      (p\<lparr>pp_credentialAliases := jset (subjectKey s) grp (pp_credentialAliases p)\<rparr>))"
    using Cons.prems by (auto simp: aliases_own_def)
  then show ?case using Cons by simp
qed simp

lemma bind_group_own: "aliases_own p \<Longrightarrow> aliases_own (bind_group ld grp p)"
proof -
  assume own: "aliases_own p"
  obtain f p1 where g: "group_floor ld grp \<lparr>fl_until = 0, fl_observed = 0\<rparr> p = (f, p1)"
    by (metis surj_pair)
  have "pp_credentialAliases p1 = pp_credentialAliases p"
    using group_floor_aliases [of ld grp "\<lparr>fl_until = 0, fl_observed = 0\<rparr>" p] g by simp
  then have "aliases_own p1" using own by (simp add: aliases_own_def)
  then show ?thesis by (simp add: bind_group_def g raise_group_own)
qed

lemma bindCredentials_own: "aliases_own (bindCredentials ld bs p)"
proof -
  have "aliases_own q \<Longrightarrow> aliases_own (foldl (\<lambda>q g. bind_group ld g q) q gs)" for q gs
    by (induction gs arbitrary: q) (auto intro: bind_group_own)
  moreover have "aliases_own (p\<lparr>pp_credentialAliases := []\<rparr>)" by (simp add: aliases_own_def)
  ultimately show ?thesis by (simp add: bindCredentials_def)
qed

text \<open>
  No later than \<open>T\<close> plus the longest pause, given that the loaded floors are not later: the
  lane's ladder, and the floor of every account.
\<close>

definition horizon :: "(skey \<Rightarrow> int) \<Rightarrow> int \<Rightarrow> int \<Rightarrow> bool" where
  "horizon ld T B \<longleftrightarrow> 0 \<le> B \<and> T + MAX_RATE_LIMIT_FLOOR_MS \<le> B \<and> (\<forall>k. ld k \<le> B)"

definition pacer_inv :: "int \<Rightarrow> (skey \<Rightarrow> int) \<Rightarrow> int \<Rightarrow> pacer \<Rightarrow> bool" where
  "pacer_inv v ld T p \<longleftrightarrow>
     aliases_own p \<and> pp_rateLimitedNotBefore p = v \<and>
     pp_notBefore p \<le> max 0 (T + MAX_POLL_BACKOFF_MS) \<and>
     (\<forall>B. horizon ld T B \<longrightarrow> (\<forall>k. floor_of ld p k \<le> B))"

lemma pacer_inv_frame:
  "pacer_inv v ld T p \<Longrightarrow> aliases_own q \<Longrightarrow> lane q = lane p \<Longrightarrow>
   (\<And>B k. horizon ld T B \<Longrightarrow> \<forall>k. floor_of ld p k \<le> B \<Longrightarrow> floor_of ld q k \<le> B) \<Longrightarrow>
   pacer_inv v ld T q"
  by (simp add: pacer_inv_def lane_def)

lemma aliases_own_cong: "pp_credentialAliases q = pp_credentialAliases p \<Longrightarrow> aliases_own q = aliases_own p"
  by (simp add: aliases_own_def)

lemma arm_inv: "pacer_inv v ld T p \<Longrightarrow> t \<le> T \<Longrightarrow> pacer_inv v ld T (armBackoff t r p)"
  using ladder_delay_bounds [of "Suc (pp_failures p)"]
  by (auto simp: pacer_inv_def armBackoff_def Let_def aliases_own_def
      split: option.splits)

lemma reset_inv:
  "pacer_inv v ld T p \<Longrightarrow> pacer_inv v ld T (noteCredentialChange p)"
  "pacer_inv v ld T p \<Longrightarrow>
   pacer_inv v ld T (p\<lparr>pp_failures := 0, pp_notBefore := 0, pp_armedAt := 0\<rparr>)"
  by (simp_all add: pacer_inv_def noteCredentialChange_def aliases_own_def)

lemma rate_limited_inv:
  assumes "pacer_inv v ld T p" "t \<le> T"
  shows "pacer_inv v ld T (noteRateLimited ld t r s p)"
proof (rule pacer_inv_frame [OF assms(1)])
  let ?n = "refusal_count p t s"
  note props = pace_aliases_props [of ld t ?n "t + refusal_floor ?n r" "aliases p s" p]
  show "aliases_own (noteRateLimited ld t r s p)"
    using assms(1) by (simp add: noteRateLimited_def Let_def pacer_inv_def aliases_own_def props)
  show "lane (noteRateLimited ld t r s p) = lane p"
    by (simp add: noteRateLimited_def Let_def props)
  fix B k assume B: "horizon ld T B" and "\<forall>k. floor_of ld p k \<le> B"
  moreover have "t + refusal_floor ?n r \<le> B"
    using B assms(2) refusal_floor_bounds(1) [of ?n r] by (simp add: horizon_def)
  ultimately show "floor_of ld (noteRateLimited ld t r s p) k \<le> B"
    by (simp add: noteRateLimited_def Let_def props)
qed

lemma pacer_start_inv: "pacer_start v p \<Longrightarrow> pacer_inv v ld T p"
  by (simp add: pacer_start_def pacer_inv_def new_pacer_def aliases_own_def floor_of_def horizon_def)

lemma pacer_step_inv:
  assumes inv: "pacer_inv v ld T p" and step: "pacer_step ld T p q"
  shows "pacer_inv v ld T q"
proof -
  have own: "aliases_own p" using inv by (simp add: pacer_inv_def)
  show ?thesis using step
  proof (cases rule: pacer_step.cases)
    case credential_change
    then show ?thesis using inv by (simp add: reset_inv)
  next
    case (cooldown_read now subject)
    show ?thesis unfolding cooldown_read
      by (rule pacer_inv_frame [OF inv])
        (simp_all add: cooldown_read_props own cong: aliases_own_cong)
  next
    case (observed_read now subject)
    show ?thesis unfolding observed_read
      by (rule pacer_inv_frame [OF inv])
        (simp_all add: observed_read_props own cong: aliases_own_cong)
  next
    case (bind bs)
    show ?thesis unfolding bind
    proof (rule pacer_inv_frame [OF inv bindCredentials_own bindCredentials_props(2)])
      fix B k assume "horizon ld T B" "\<forall>k. floor_of ld p k \<le> B"
      then show "floor_of ld (bindCredentials ld bs p) k \<le> B"
        unfolding bindCredentials_def
        by (intro bind_groups_bound) (simp_all add: horizon_def)
    qed
  next
    case (success t demand renewal)
    then show ?thesis using inv by (simp add: notePollSuccess_def reset_inv arm_inv)
  next
    case (failure t renewal)
    then show ?thesis using inv by (simp add: notePollFailure_def arm_inv)
  next
    case (subject_success s)
    then show ?thesis using inv own
      by (intro pacer_inv_frame [OF inv])
        (simp_all add: noteSubjectSuccess_def aliases_own_def)
  next
    case (rate_limited t retry s)
    then show ?thesis using inv by (simp add: rate_limited_inv)
  qed
qed

definition no_earlier :: "(skey \<Rightarrow> int) \<Rightarrow> (skey \<Rightarrow> int) \<Rightarrow> bool" where
  "no_earlier f g \<longleftrightarrow> (\<forall>k. f k \<le> g k)"

lemma pacer_step_floors:
  assumes "pacer_step ld T p q"
  shows "no_earlier (floor_of ld p) (floor_of ld q)"
  using assms
  by (cases rule: pacer_step.cases; hypsubst)
    (simp_all add: no_earlier_def noteCredentialChange_def cooldown_read_props observed_read_props
      bindCredentials_props notePollSuccess_def notePollFailure_def armBackoff_def Let_def
      noteSubjectSuccess_def noteRateLimited_def pace_aliases_props)

interpretation pacer: monotone_machine "pacer_start v" "pacer_step ld T" "pacer_inv v ld T"
  no_earlier "floor_of ld"
proof
  show "no_earlier f f" for f by (simp add: no_earlier_def)
  show "no_earlier f g \<Longrightarrow> no_earlier g h \<Longrightarrow> no_earlier f h" for f g h
    by (auto simp: no_earlier_def intro: order_trans)
qed (auto intro: pacer_start_inv pacer_step_inv pacer_step_floors)

lemma own_alias:
  "aliases_own p \<Longrightarrow> subjectKey s \<in> subjectKey ` set (aliases p s)"
  by (cases "jget (pp_credentialAliases p) (subjectKey s)") (auto simp: aliases_def aliases_own_def)

section \<open>Properties\<close>

lemma rate_limit_lasts:
  assumes p: "pacer_inv v ld T p" and a: "a = s \<or> a \<in> set (aliases p s)"
    and q: "steps (pacer_step ld T) (noteRateLimited ld t r s p) q" and t: "t \<le> T"
  shows "t + refusal_floor (refusal_count p t s) r \<le> floor_of ld q (subjectKey a)"
proof -
  let ?p = "noteRateLimited ld t r s p"
  have "subjectKey a \<in> subjectKey ` set (aliases p s)"
    using a own_alias [of p s] p by (auto simp: pacer_inv_def)
  then have "t + refusal_floor (refusal_count p t s) r \<le> floor_of ld ?p (subjectKey a)"
    by (simp add: noteRateLimited_def Let_def pace_aliases_props)
  moreover have "no_earlier (floor_of ld ?p) (floor_of ld q)"
    using pacer.steps_rel [OF q rate_limited_inv [OF p t]] .
  ultimately show ?thesis by (auto simp: no_earlier_def intro: order_trans)
qed

text \<open>C39: A Retry-After header is honoured, in full up to seven days, by everything that happens
  afterwards: in every state that the poll loop reaches after a 429 (successes, credential changes,
  rebindings and further refusals included) the refused account and every account bound to the
  same credential is still cooling at each instant before the announced one.\<close>

theorem retry_after_is_honoured:
  assumes "reachable (pacer_start v) (pacer_step ld T) p" "t \<le> T"
    and "a = s \<or> a \<in> set (aliases p s)"
    and "steps (pacer_step ld T) (noteRateLimited ld t (Some retry) s p) q"
    and "now < t + min retry MAX_RATE_LIMIT_FLOOR_MS"
  shows "\<exists>until. fst (rateLimitCooldownUntil ld now (Some a) q) = Some until \<and>
           t + min retry MAX_RATE_LIMIT_FLOOR_MS \<le> until"
proof -
  have "t + refusal_floor (refusal_count p t s) (Some retry) \<le> floor_of ld q (subjectKey a)"
    using rate_limit_lasts [OF pacer.reachable_inv [OF assms(1)] assms(3,4,2)] .
  then have "t + min retry MAX_RATE_LIMIT_FLOOR_MS \<le> floor_of ld q (subjectKey a)"
    using refusal_floor_bounds(2) [of retry] by (meson add_left_mono order_trans)
  then show ?thesis
    using assms(5) by (auto simp: cooldown_value Let_def less_max_iff_disj le_max_iff_disj)
qed

text \<open>Two profiles that log in with one token, in a daemon that starts without stored floors.\<close>

definition two_profiles :: "(quota_subject \<times> string) list" where
  "two_profiles =
     [(\<lparr>qs_harness = ''claude'', qs_credential_route = VendorNative, qs_plan_label = None,
        qs_subject_id = Some ''a''\<rparr>, ''hash''),
      (\<lparr>qs_harness = ''claude'', qs_credential_route = VendorNative, qs_plan_label = None,
        qs_subject_id = Some ''b''\<rparr>, ''hash'')]"

definition paced_pair :: pacer where
  "paced_pair = bindCredentials (\<lambda>_. 0) two_profiles (new_pacer 0)"

lemma paced_pair_reachable: "reachable (pacer_start 0) (pacer_step (\<lambda>_. 0) T) paced_pair"
  unfolding paced_pair_def
  by (rule reachable.further, rule reachable.initial [where s = "new_pacer 0"])
    (simp_all add: pacer_start_def pacer_step.bind)

lemma paced_pair_aliases: "aliases paced_pair (fst (hd two_profiles)) = map fst two_profiles"
  by code_simp

theorem retry_after_is_honoured_witness:
  "\<exists>until. fst (rateLimitCooldownUntil (\<lambda>_. 0) 1000 (Some (fst (two_profiles ! 1)))
        (notePollSuccess 2000 False None
          (noteRateLimited (\<lambda>_. 0) 500 (Some 3600000) (fst (hd two_profiles)) paced_pair))) =
      Some until \<and> 3600500 \<le> until"
proof -
  let ?p = "noteRateLimited (\<lambda>_. 0) 500 (Some 3600000) (fst (hd two_profiles)) paced_pair"
  have "steps (pacer_step (\<lambda>_. 0) 2000) ?p (notePollSuccess 2000 False None ?p)"
    by (rule steps.more, rule steps.none) (simp add: pacer_step.success)
  moreover have "fst (two_profiles ! 1) \<in> set (aliases paced_pair (fst (hd two_profiles)))"
    unfolding paced_pair_aliases by (simp add: two_profiles_def)
  ultimately show ?thesis
    using retry_after_is_honoured [OF paced_pair_reachable, of 500 2000 "fst (two_profiles ! 1)"
        "fst (hd two_profiles)" 3600000 "notePollSuccess 2000 False None ?p" 1000]
    by (simp add: MAX_RATE_LIMIT_FLOOR_MS_def)
qed

text \<open>C40: Polling always resumes. Whatever the pollers reported up to an instant \<open>T\<close> (any
  number of failures and refusals, with any Retry-After), once seven days have passed and the
  floors that were loaded from disk are over, the lane is eligible again and no account is
  cooling.\<close>

theorem polling_resumes:
  assumes "reachable (pacer_start v) (pacer_step ld T) p" "0 \<le> now"
    and "T + MAX_RATE_LIMIT_FLOOR_MS \<le> now" "v \<le> now" "\<forall>k. ld k \<le> now"
  shows "pollEligible p now renewal \<and> fst (rateLimitCooldownUntil ld now subject p) = None"
proof -
  have inv: "pacer_inv v ld T p" by (rule pacer.reachable_inv [OF assms(1)])
  have floors: "floor_of ld p k \<le> now" for k
    using inv assms by (simp add: pacer_inv_def horizon_def)
  have lane_due: "pp_rateLimitedNotBefore p \<le> now" "pp_notBefore p \<le> now"
    using inv assms(2-4)
    by (auto simp: pacer_inv_def MAX_POLL_BACKOFF_MS_def MAX_RATE_LIMIT_FLOOR_MS_def)
  have "fst (rateLimitCooldownUntil ld now subject p) = None"
  proof (cases subject)
    case None
    then show ?thesis using lane_due assms(2) by (simp add: rateLimitCooldownUntil_def Let_def)
  next
    case (Some s)
    then show ?thesis
      using lane_due floors [of "subjectKey s"] by (auto simp: cooldown_value Let_def)
  qed
  then show ?thesis using lane_due by (simp add: pollEligible_def)
qed

theorem polling_resumes_witness:
  "pollEligible (noteRateLimited (\<lambda>_. 0) 500 None (fst (hd two_profiles)) paced_pair) 604800500 None \<and>
   fst (rateLimitCooldownUntil (\<lambda>_. 0) 604800500 (Some (fst (hd two_profiles)))
     (noteRateLimited (\<lambda>_. 0) 500 None (fst (hd two_profiles)) paced_pair)) = None"
proof -
  have "reachable (pacer_start 0) (pacer_step (\<lambda>_. 0) 500)
    (noteRateLimited (\<lambda>_. 0) 500 None (fst (hd two_profiles)) paced_pair)"
    by (rule reachable.further, rule paced_pair_reachable) (simp add: pacer_step.rate_limited)
  from polling_resumes [OF this, of 604800500] show ?thesis
    by (simp add: MAX_RATE_LIMIT_FLOOR_MS_def)
qed

text \<open>A 429 paces nobody else: the poll floor and the retry ladder of every account outside
  the refused account's credential group, and the lane's own ladder, are what they were.\<close>

theorem rate_limit_is_isolated:
  assumes "k \<notin> subjectKey ` set (aliases p s)"
  shows "floor_of ld (noteRateLimited ld t r s p) k = floor_of ld p k \<and>
    jget (pp_subjectFailures (noteRateLimited ld t r s p)) k = jget (pp_subjectFailures p) k \<and>
    pollEligible (noteRateLimited ld t r s p) now renewal = pollEligible p now renewal"
proof -
  have "lane (noteRateLimited ld t r s p) = lane p"
    by (simp add: noteRateLimited_def Let_def pace_aliases_props)
  then show ?thesis
    using assms
    by (simp add: noteRateLimited_def Let_def pace_aliases_props pollEligible_def lane_def
        split: option.splits)
qed

theorem rate_limit_is_isolated_witness:
  "floor_of (\<lambda>_. 0) (noteRateLimited (\<lambda>_. 0) 500 None (fst (hd two_profiles)) (new_pacer 0))
     (subjectKey (fst (two_profiles ! 1))) =
   floor_of (\<lambda>_. 0) (new_pacer 0) (subjectKey (fst (two_profiles ! 1)))"
  using rate_limit_is_isolated [of "subjectKey (fst (two_profiles ! 1))" "new_pacer 0"
      "fst (hd two_profiles)" "\<lambda>_. 0" 500 None]
  by (simp add: two_profiles_def subjectKey_def aliases_def new_pacer_def)

text \<open>Binding a read's accounts makes their order irrelevant: of two rows with the same
  credential, each inherits whatever floor the other had, wherever they stand in the list.\<close>

theorem shared_credentials_share_floors:
  assumes "b \<in> set bs" "b' \<in> set bs" "identity_of b = identity_of b'"
  shows "floor_of ld p (subjectKey (fst b)) \<le> floor_of ld (bindCredentials ld bs p) (subjectKey (fst b'))"
proof -
  obtain grp where "grp \<in> set (jvalues (group_bindings bs []))" "fst b \<in> set grp" "fst b' \<in> set grp"
    using bound_together [OF assms] by blast
  then show ?thesis
    using bind_groups_member [of grp _ "fst b" "fst b'" ld "p\<lparr>pp_credentialAliases := []\<rparr>"]
    by (simp add: bindCredentials_def)
qed

theorem shared_credentials_share_floors_witness:
  "floor_of (\<lambda>_. 5) (new_pacer 0) (subjectKey (fst (hd two_profiles))) \<le>
   floor_of (\<lambda>_. 5) (bindCredentials (\<lambda>_. 5) two_profiles (new_pacer 0))
     (subjectKey (fst (two_profiles ! 1)))"
  by (rule shared_credentials_share_floors) (simp_all add: two_profiles_def identity_of_def)

declare split_paired_All [simp] split_paired_Ex [simp]

end
