(* ===== verification/Journal_Fold_Inv.thy ===== *)
theory Journal_Fold_Inv
  imports Journal_Fold Machine
begin

text \<open>
  The fold engine keeps its three maps consistent, so its index maps are exactly the names of the
  records it holds, and one verdict removes exactly the records it names.
\<close>

definition slots_ok :: "'r fold_state \<Rightarrow> bool" where
  "slots_ok st \<longleftrightarrow>
     (\<forall>s i. jget (fs_slots st) s = Some i \<longleftrightarrow>
        (\<exists>e. jget (fs_held st) i = Some e \<and> he_slot e = Some s))"

definition group_members :: "'r fold_state \<Rightarrow> string \<Rightarrow> nat set" where
  "group_members st g = {i. \<exists>e. jget (fs_held st) i = Some e \<and> he_group e = Some g}"

definition groups_ok :: "'r fold_state \<Rightarrow> bool" where
  "groups_ok st \<longleftrightarrow>
     (\<forall>g. case jget (fs_groups st) g of
        None \<Rightarrow> group_members st g = {}
      | Some ms \<Rightarrow> ms \<noteq> [] \<and> distinct ms \<and> set ms = group_members st g)"

definition fold_inv :: "'r fold_state \<Rightarrow> bool" where
  "fold_inv st \<longleftrightarrow>
     keyed (fs_held st) \<and> keyed (fs_slots st) \<and> keyed (fs_groups st) \<and>
     (\<forall>i e. jget (fs_held st) i = Some e \<longrightarrow> i < fs_nextId st) \<and> slots_ok st \<and> groups_ok st"

lemma fold_inv_start: "fold_inv foldStream"
  by (simp add: fold_inv_def foldStream_def slots_ok_def groups_ok_def group_members_def)

lemma slots_okD:
  "slots_ok st \<Longrightarrow> jget (fs_slots st) s = Some i \<Longrightarrow>
     \<exists>e. jget (fs_held st) i = Some e \<and> he_slot e = Some s"
  "slots_ok st \<Longrightarrow> jget (fs_held st) i = Some e \<Longrightarrow> he_slot e = Some s \<Longrightarrow>
     jget (fs_slots st) s = Some i"
  unfolding slots_ok_def by blast+

lemma slot_holder_unique:
  "slots_ok st \<Longrightarrow> jget (fs_held st) i = Some e \<Longrightarrow> he_slot e = Some s \<Longrightarrow>
     jget (fs_held st) j = Some d \<Longrightarrow> he_slot d = Some s \<Longrightarrow> j = i"
proof -
  assume ok: "slots_ok st" and i: "jget (fs_held st) i = Some e" "he_slot e = Some s"
    and j: "jget (fs_held st) j = Some d" "he_slot d = Some s"
  show "j = i" using slots_okD(2) [OF ok i] slots_okD(2) [OF ok j] by simp
qed

section \<open>Dropping entries\<close>

lemma drop_entry_held:
  "jget (fs_held (drop_entry i st)) j = (if j = i then None else jget (fs_held st) j)"
  by (simp add: drop_entry_def split: option.splits)

lemma drop_entry_list:
  "fs_held (drop_entry i st) = filter (\<lambda>p. fst p \<noteq> i) (fs_held st)"
proof (cases "jget (fs_held st) i")
  case None
  then have "\<forall>p \<in> set (fs_held st). fst p \<noteq> i" by (auto simp: map_of_eq_None_iff)
  with None show ?thesis by (simp add: drop_entry_def)
next
  case (Some e)
  then show ?thesis
    by (auto simp: drop_entry_def AList.delete_eq intro!: filter_cong)
qed

lemma drop_entry_rest [simp]:
  "fs_nextId (drop_entry i st) = fs_nextId st"
  "fs_finished (drop_entry i st) = fs_finished st"
  by (simp_all add: drop_entry_def split: option.splits)

lemma drop_member_get:
  "jget (drop_member i g gs) g' =
     (if g' = g then (case jget gs g of None \<Rightarrow> None
        | Some ms \<Rightarrow> if sdelete i ms = [] then None else Some (sdelete i ms))
      else jget gs g')"
  by (auto simp: drop_member_def Let_def split: option.splits)

lemma drop_member_keyed: "keyed gs \<Longrightarrow> keyed (drop_member i g gs)"
  by (simp add: drop_member_def Let_def split: option.splits)

lemma drop_entry_slots:
  assumes "fold_inv st" shows "slots_ok (drop_entry i st)"
proof (cases "jget (fs_held st) i")
  case None
  then show ?thesis using assms by (simp add: drop_entry_def fold_inv_def)
next
  case (Some e)
  have ok: "slots_ok st" using assms by (simp add: fold_inv_def)
  have slot: "jget (fs_slots (drop_entry i st)) s =
    (if jget (fs_slots st) s = Some i then None else jget (fs_slots st) s)" for s
    using ok Some slots_okD(1) [OF ok, of s i]
    by (auto simp: drop_entry_def split: option.splits)
  show ?thesis unfolding slots_ok_def
  proof (intro allI)
    fix s j
    show "jget (fs_slots (drop_entry i st)) s = Some j \<longleftrightarrow>
      (\<exists>e. jget (fs_held (drop_entry i st)) j = Some e \<and> he_slot e = Some s)"
      unfolding slot drop_entry_held
      using slots_okD [OF ok] slot_holder_unique [OF ok] by (metis option.distinct(1) option.inject)
  qed
qed

lemma drop_entry_groups:
  assumes "fold_inv st" shows "groups_ok (drop_entry i st)"
proof (cases "jget (fs_held st) i")
  case None
  then show ?thesis using assms by (simp add: drop_entry_def fold_inv_def)
next
  case (Some e)
  have ok: "groups_ok st" using assms by (simp add: fold_inv_def)
  have members: "group_members (drop_entry i st) g = group_members st g - {i}" for g
    by (auto simp: group_members_def drop_entry_held)
  show ?thesis unfolding groups_ok_def
  proof
    fix g
    have g: "case jget (fs_groups st) g of None \<Rightarrow> group_members st g = {}
      | Some ms \<Rightarrow> ms \<noteq> [] \<and> distinct ms \<and> set ms = group_members st g"
      using ok by (simp add: groups_ok_def)
    have out: "he_group e \<noteq> Some g \<Longrightarrow> i \<notin> group_members st g"
      using Some by (auto simp: group_members_def)
    have sd: "sdelete i ms = [] \<longleftrightarrow> set ms - {i} = {}" for ms
      by (metis set_empty set_sdelete)
    show "case jget (fs_groups (drop_entry i st)) g of
        None \<Rightarrow> group_members (drop_entry i st) g = {}
      | Some ms \<Rightarrow> ms \<noteq> [] \<and> distinct ms \<and> set ms = group_members (drop_entry i st) g"
    proof (cases "he_group e = Some g")
      case True
      have get: "jget (fs_groups (drop_entry i st)) g =
        (case jget (fs_groups st) g of None \<Rightarrow> None
         | Some ms \<Rightarrow> if sdelete i ms = [] then None else Some (sdelete i ms))"
        using Some True by (simp add: drop_entry_def drop_member_get)
      show ?thesis
      proof (cases "jget (fs_groups st) g")
        case None
        then show ?thesis using g get members by simp
      next
        case (Some ms)
        then have "distinct ms" "set ms = group_members st g" using g by simp_all
        then show ?thesis
          using Some get members [of g] sd [of ms] distinct_sdelete [of ms i] set_sdelete [of i ms]
          by (cases "sdelete i ms = []") (simp_all del: distinct_sdelete set_sdelete)
      qed
    next
      case False
      then have "jget (fs_groups (drop_entry i st)) g = jget (fs_groups st) g"
        using Some by (auto simp: drop_entry_def drop_member_get split: option.splits)
      moreover have "group_members (drop_entry i st) g = group_members st g"
        using out [OF False] by (simp add: members)
      ultimately show ?thesis using g by (cases "jget (fs_groups st) g") simp_all
    qed
  qed
qed

lemma drop_entry_inv: "fold_inv st \<Longrightarrow> fold_inv (drop_entry i st)"
proof -
  assume inv: "fold_inv st"
  then have "slots_ok (drop_entry i st)" "groups_ok (drop_entry i st)"
    by (simp_all add: drop_entry_slots drop_entry_groups)
  moreover have "keyed (fs_held (drop_entry i st))" "keyed (fs_slots (drop_entry i st))"
    "keyed (fs_groups (drop_entry i st))"
    using inv by (simp_all add: fold_inv_def drop_entry_def drop_member_keyed split: option.splits)
  ultimately show ?thesis using inv by (simp add: fold_inv_def drop_entry_held)
qed

text \<open>Dropping a list of entries.\<close>

lemma drop_entries:
  "fold_inv st \<Longrightarrow> fold_inv (foldl (\<lambda>s i. drop_entry i s) st is)"
  "fs_held (foldl (\<lambda>s i. drop_entry i s) st is) =
     filter (\<lambda>p. fst p \<notin> set is) (fs_held st)"
  "fs_nextId (foldl (\<lambda>s i. drop_entry i s) st is) = fs_nextId st"
  by (induction "is" arbitrary: st) (auto simp: drop_entry_inv drop_entry_list)

lemma held_entry: "fold_inv st \<Longrightarrow> p \<in> set (fs_held st) \<longleftrightarrow> jget (fs_held st) (fst p) = Some (snd p)"
  by (cases p) (simp add: keyed_in_set_iff fold_inv_def)

lemma drop_holder_inv: "fold_inv st \<Longrightarrow> fold_inv (drop_holder n st)"
  by (simp add: drop_holder_def drop_entry_inv split: option.splits)

lemma drop_holder_held:
  assumes "fold_inv st"
  shows "fs_held (drop_holder n st) = filter (\<lambda>p. he_slot (snd p) \<noteq> Some n) (fs_held st)"
proof -
  have ok: "slots_ok st" using assms by (simp add: fold_inv_def)
  show ?thesis
  proof (cases "jget (fs_slots st) n")
    case None
    then show ?thesis
      using slots_okD(2) [OF ok]
      by (auto simp: drop_holder_def held_entry [OF assms] intro!: filter_True [symmetric])
  next
    case (Some i)
    then show ?thesis
      using slots_okD [OF ok] 
      by (auto simp: drop_holder_def drop_entry_list held_entry [OF assms] intro!: filter_cong) force
  qed
qed

lemma retire_name_props:
  assumes "fold_inv st"
  shows "fold_inv (retire_name n st) \<and>
    fs_held (retire_name n st) =
      filter (\<lambda>p. \<not> named n (he_slot (snd p)) (he_group (snd p))) (fs_held st) \<and>
    fs_nextId (retire_name n st) = fs_nextId st"
proof -
  let ?st = "drop_holder n st"
  have inv: "fold_inv ?st" by (rule drop_holder_inv [OF assms])
  have nx: "fs_nextId ?st = fs_nextId st" by (simp add: drop_holder_def split: option.splits)
  have grp: "case jget (fs_groups ?st) n of None \<Rightarrow> group_members ?st n = {}
      | Some ms \<Rightarrow> ms \<noteq> [] \<and> distinct ms \<and> set ms = group_members ?st n"
    using inv by (simp add: fold_inv_def groups_ok_def)
  have mem: "p \<in> set (fs_held ?st) \<Longrightarrow> fst p \<in> group_members ?st n \<longleftrightarrow> he_group (snd p) = Some n" for p
    using held_entry [OF inv, of p] by (auto simp: group_members_def)
  have "fs_held (retire_name n st) = filter (\<lambda>p. he_group (snd p) \<noteq> Some n) (fs_held ?st)"
  proof (cases "jget (fs_groups ?st) n")
    case None
    then show ?thesis using grp mem
      by (auto simp: retire_name_def Let_def intro!: filter_True [symmetric])
  next
    case (Some ms)
    then show ?thesis using grp mem
      by (auto simp: retire_name_def Let_def drop_entries intro!: filter_cong)
  qed
  moreover have "fold_inv (retire_name n st)" "fs_nextId (retire_name n st) = fs_nextId st"
    using inv nx by (simp_all add: retire_name_def Let_def drop_entries split: option.splits)
  ultimately show ?thesis
    by (simp add: drop_holder_held [OF assms] named_def filter_filter conj_commute)
qed

lemma retire_all_props:
  "fold_inv st \<Longrightarrow>
    fold_inv (retire_all ns st) \<and>
    fs_held (retire_all ns st) =
      filter (\<lambda>p. \<not> (\<exists>n \<in> set ns. named n (he_slot (snd p)) (he_group (snd p)))) (fs_held st) \<and>
    fs_nextId (retire_all ns st) = fs_nextId st"
proof (induction ns arbitrary: st)
  case (Cons n ns)
  then show ?case
    using retire_name_props [OF Cons.prems, of n]
    by (auto simp: retire_all_def intro!: filter_cong)
qed (simp add: retire_all_def)

section \<open>Registering a record\<close>

lemma register_held:
  assumes "fold_inv st"
  shows "fs_held (register r b v st) =
    fs_held st @ [(fs_nextId st, \<lparr>he_record = r, he_bytes = b, he_slot = ve_slot v, he_group = ve_group v\<rparr>)]"
proof -
  have "jget (fs_held st) (fs_nextId st) = None"
    using assms by (auto simp: fold_inv_def intro: ccontr)
  then show ?thesis
    by (simp add: register_def Let_def jset_new map_of_eq_None_iff)
qed

text \<open>A fresh entry whose slot nobody holds extends the maps consistently.\<close>

lemma register_inv:
  assumes inv: "fold_inv st"
    and free: "\<forall>p \<in> set (fs_held st). ve_slot v = None \<or> he_slot (snd p) \<noteq> ve_slot v"
  shows "fold_inv (register r b v st)"
proof -
  let ?i = "fs_nextId st" and ?st = "register r b v st"
  let ?e = "\<lparr>he_record = r, he_bytes = b, he_slot = ve_slot v, he_group = ve_group v\<rparr>"
  have held: "jget (fs_held ?st) j = (if j = ?i then Some ?e else jget (fs_held st) j)" for j
    by (simp add: register_def Let_def)
  have new: "jget (fs_held st) ?i = None" using inv by (auto simp: fold_inv_def intro: ccontr)
  have "slots_ok ?st" unfolding slots_ok_def
  proof (intro allI)
    fix s j
    have ok: "jget (fs_slots st) s = Some j \<longleftrightarrow>
      (\<exists>e. jget (fs_held st) j = Some e \<and> he_slot e = Some s)"
      using inv by (simp add: fold_inv_def slots_ok_def)
    have slot: "jget (fs_slots ?st) s = (if ve_slot v = Some s then Some ?i else jget (fs_slots st) s)"
      by (auto simp: register_def Let_def split: option.splits)
    have "ve_slot v = Some s \<Longrightarrow> jget (fs_held st) j = Some e \<Longrightarrow> he_slot e \<noteq> Some s" for e
      using free held_entry [OF inv, of "(j, e)"] by fastforce
    then show "jget (fs_slots ?st) s = Some j \<longleftrightarrow>
      (\<exists>e. jget (fs_held ?st) j = Some e \<and> he_slot e = Some s)"
      using ok new unfolding slot held by auto
  qed
  moreover have "groups_ok ?st" unfolding groups_ok_def
  proof
    fix g
    have ok: "case jget (fs_groups st) g of None \<Rightarrow> group_members st g = {}
      | Some ms \<Rightarrow> ms \<noteq> [] \<and> distinct ms \<and> set ms = group_members st g"
      using inv by (simp add: fold_inv_def groups_ok_def)
    have members: "group_members ?st g =
      (if ve_group v = Some g then insert ?i (group_members st g) else group_members st g)"
      using new by (auto simp: group_members_def held)
    have get: "jget (fs_groups ?st) g = (if ve_group v = Some g
      then Some (sadd ?i (nullish (jget (fs_groups st) g) [])) else jget (fs_groups st) g)"
      by (auto simp: register_def Let_def split: option.splits)
    have "sadd ?i ms \<noteq> []" for ms by (metis insert_not_empty set_empty set_sadd)
    then show "case jget (fs_groups ?st) g of None \<Rightarrow> group_members ?st g = {}
      | Some ms \<Rightarrow> ms \<noteq> [] \<and> distinct ms \<and> set ms = group_members ?st g"
      using ok by (cases "jget (fs_groups st) g") (simp_all add: get members)
  qed
  moreover have "keyed (fs_held ?st)" "keyed (fs_slots ?st)" "keyed (fs_groups ?st)"
    using inv by (simp_all add: register_def Let_def fold_inv_def split: option.splits)
  moreover have "\<forall>j e. jget (fs_held ?st) j = Some e \<longrightarrow> j < fs_nextId ?st"
  proof (intro allI impI)
    fix j e assume "jget (fs_held ?st) j = Some e"
    then have "j = ?i \<or> j < ?i" using inv by (auto simp: held fold_inv_def split: if_splits)
    then show "j < fs_nextId ?st" by (auto simp: register_def Let_def)
  qed
  ultimately show ?thesis by (simp add: fold_inv_def)
qed

lemma receipt_inv [simp]:
  "fold_inv (st\<lparr>fs_retiredCount := c, fs_retiredBytes := d\<rparr>) = fold_inv st"
proof -
  have "group_members (st\<lparr>fs_retiredCount := c, fs_retiredBytes := d\<rparr>) = group_members st"
    by (simp add: group_members_def fun_eq_iff)
  then show ?thesis
    by (simp add: fold_inv_def slots_ok_def groups_ok_def cong: option.case_cong)
qed

lemma apply_verdict_props:
  assumes "fold_inv st"
  shows "fold_inv (apply_verdict r b v st) \<and>
    fs_held (apply_verdict r b v st) =
      filter (\<lambda>p. \<not> removes v (he_slot (snd p)) (he_group (snd p))) (fs_held st) @
      (if ve_drop v then []
       else [(fs_nextId st, \<lparr>he_record = r, he_bytes = b, he_slot = ve_slot v, he_group = ve_group v\<rparr>)])"
proof -
  let ?st1 = "retire_all (ve_retire v) st"
  let ?st2 = "case ve_slot v of None \<Rightarrow> ?st1 | Some s \<Rightarrow> drop_holder s ?st1"
  note r = retire_all_props [OF assms, of "ve_retire v"]
  have inv: "fold_inv ?st2" using r by (simp add: drop_holder_inv split: option.split)
  have held: "fs_held ?st2 =
    filter (\<lambda>p. \<not> removes v (he_slot (snd p)) (he_group (snd p))) (fs_held st)"
    using r by (cases "ve_slot v")
      (auto simp: drop_holder_held removes_def intro!: filter_cong)
  have nx: "fs_nextId ?st2 = fs_nextId st"
    using r by (simp add: drop_holder_def split: option.split)
  have free: "\<forall>p \<in> set (fs_held ?st2). ve_slot v = None \<or> he_slot (snd p) \<noteq> ve_slot v"
    by (auto simp: held removes_def)
  have eq: "apply_verdict r b v st = (if ve_drop v
    then ?st2\<lparr>fs_retiredCount := fs_retiredCount ?st2 + 1, fs_retiredBytes := fs_retiredBytes ?st2 + b\<rparr>
    else register r b v ?st2)"
    by (simp add: apply_verdict_def Let_def)
  show ?thesis
    using inv register_inv [OF inv free, of r b] register_held [OF inv, of r b v]
    by (simp add: eq held nx)
qed

section \<open>The engine computes the survivors\<close>

definition held_view :: "'r fold_state \<Rightarrow> ('r \<times> string option \<times> string option) list" where
  "held_view st = map (\<lambda>p. (he_record (snd p), he_slot (snd p), he_group (snd p))) (fs_held st)"

definition keep_after :: "fold_verdict \<Rightarrow> ('r \<times> string option \<times> string option) list \<Rightarrow>
    ('r \<times> string option \<times> string option) list" where
  "keep_after v = filter (\<lambda>(r, s, g). \<not> removes v s g)"

lemma apply_verdict_view:
  assumes "fold_inv st"
  shows "held_view (apply_verdict r b v st) =
    keep_after v (held_view st) @ (if ve_drop v then [] else [(r, ve_slot v, ve_group v)])"
  using apply_verdict_props [OF assms, of r b v]
  by (auto simp: held_view_def keep_after_def filter_map comp_def split_def)

lemma apply_verdict_finished [simp]: "fs_finished (apply_verdict r b v st) = fs_finished st"
proof -
  have entries: "fs_finished (foldl (\<lambda>s i. drop_entry i s) st is) = fs_finished st"
    for "is" and st :: "'a fold_state"
    by (induction "is" arbitrary: st) simp_all
  have name: "fs_finished (retire_name n st) = fs_finished st" for n and st :: "'a fold_state"
    by (simp add: retire_name_def Let_def entries drop_holder_def split: option.split)
  have "fs_finished (retire_all ns st) = fs_finished st" for ns and st :: "'a fold_state"
    by (induction ns arbitrary: st) (simp_all add: retire_all_def name)
  then show ?thesis
    by (simp add: apply_verdict_def Let_def register_def drop_holder_def split: option.split)
qed

definition survivor_view :: "('r \<times> fold_verdict) list \<Rightarrow> ('r \<times> string option \<times> string option) list" where
  "survivor_view rs = map (\<lambda>(r, v). (r, ve_slot v, ve_group v)) (survivors rs)"

lemma keep_after_all:
  "foldl (\<lambda>xs v. keep_after v xs) xs vs = filter (\<lambda>(r, s, g). \<forall>v \<in> set vs. \<not> removes v s g) xs"
  by (induction vs arbitrary: xs) (auto simp: keep_after_def intro: filter_cong)

lemma survivors_snoc:
  "survivors (rs @ [(r, v)]) =
     filter (\<lambda>(r', v'). \<not> removes v (ve_slot v') (ve_group v')) (survivors rs) @
     (if ve_drop v then [] else [(r, v)])"
  by (induction rs) auto

definition judged :: "(fold_record \<Rightarrow> fold_verdict) \<Rightarrow> ('r \<times> fold_record) list \<Rightarrow>
    ('r \<times> fold_verdict) list" where
  "judged policy rs = map (\<lambda>(r, view). (r, policy view)) rs"

lemma push_all_snoc:
  "push_all policy (rs @ [(r, view)]) st =
     (case push_all policy rs st of Inl e \<Rightarrow> Inl e | Inr st' \<Rightarrow> fold_push policy r view st')"
  by (induction policy rs st rule: push_all.induct) (auto split: sum.split)

text \<open>A quantity every state has after pushing a journal.\<close>

definition receipt_total :: "'r fold_state \<Rightarrow> nat \<times> nat" where
  "receipt_total st =
     (length (fs_held st) + fs_retiredCount st,
      sum_list (map (he_bytes \<circ> snd) (fs_held st)) + fs_retiredBytes st)"

lemma push_all_props:
  "\<exists>st. push_all policy rs foldStream = Inr st \<and> fold_inv st \<and> \<not> fs_finished st \<and>
     held_view st = survivor_view (judged policy rs)"
proof (induction rs rule: rev_induct)
  case Nil
  show ?case using fold_inv_start
    by (simp add: held_view_def survivor_view_def judged_def) (simp add: foldStream_def)
next
  case (snoc x rs)
  obtain r view where x: "x = (r, view)" by (cases x)
  obtain st where st: "push_all policy rs foldStream = Inr st" "fold_inv st" "\<not> fs_finished st"
    "held_view st = survivor_view (judged policy rs)"
    using snoc by blast
  let ?st = "apply_verdict r (fr_byteLength view) (policy view) st"
  have "push_all policy (rs @ [x]) foldStream = Inr ?st"
    using st by (simp add: x push_all_snoc fold_push_def)
  moreover have "held_view ?st = survivor_view (judged policy (rs @ [x]))"
    by (simp add: apply_verdict_view [OF st(2)] st(4) x judged_def survivor_view_def survivors_snoc
        keep_after_def filter_map comp_def split_def)
  ultimately show ?case using st apply_verdict_props [OF st(2)] by auto
qed

section \<open>The receipt\<close>

lemma filter_out_key:
  "keyed m \<Longrightarrow> jget m i = Some e \<Longrightarrow>
     sum_list (map f m) = f (i, e) + sum_list (map f (filter (\<lambda>p. fst p \<noteq> i) m))"
  for f :: "'a \<times> 'b \<Rightarrow> nat"
proof (induction m)
  case (Cons p m)
  show ?case
  proof (cases "fst p = i")
    case True
    then have "\<forall>q \<in> set m. fst q \<noteq> i" using Cons.prems(1) by (auto simp: keyed_def image_iff)
    then show ?thesis using True Cons.prems(2) by (cases p) simp
  next
    case False
    then show ?thesis using Cons by (cases p) (simp add: keyed_def)
  qed
qed simp

lemma length_as_sum: "length xs = sum_list (map (\<lambda>x. 1) xs)"
  by (induction xs) simp_all

lemma drop_entry_receipt:
  assumes "fold_inv st" shows "receipt_total (drop_entry i st) = receipt_total st"
proof (cases "jget (fs_held st) i")
  case None
  then show ?thesis by (simp add: drop_entry_def)
next
  case (Some e)
  have k: "keyed (fs_held st)" using assms by (simp add: fold_inv_def)
  have counts: "fs_retiredCount (drop_entry i st) = fs_retiredCount st + 1"
    "fs_retiredBytes (drop_entry i st) = fs_retiredBytes st + he_bytes e"
    using Some by (simp_all add: drop_entry_def)
  show ?thesis
    using filter_out_key [OF k Some, of "\<lambda>p. 1"] filter_out_key [OF k Some, of "he_bytes \<circ> snd"]
    by (simp add: receipt_total_def drop_entry_list counts length_as_sum [of "fs_held st"]
        length_as_sum [of "filter (\<lambda>p. fst p \<noteq> i) (fs_held st)"])
qed

lemma drop_entries_receipt:
  "fold_inv st \<Longrightarrow> receipt_total (foldl (\<lambda>s i. drop_entry i s) st is) = receipt_total st"
  by (induction "is" arbitrary: st) (simp_all add: drop_entry_inv drop_entry_receipt)

lemma drop_holder_receipt: "fold_inv st \<Longrightarrow> receipt_total (drop_holder n st) = receipt_total st"
  by (simp add: drop_holder_def drop_entry_receipt split: option.split)

lemma retire_name_receipt: "fold_inv st \<Longrightarrow> receipt_total (retire_name n st) = receipt_total st"
  by (simp add: retire_name_def Let_def drop_entries_receipt drop_holder_receipt drop_holder_inv
      split: option.split)

lemma retire_all_receipt: "fold_inv st \<Longrightarrow> receipt_total (retire_all ns st) = receipt_total st"
  by (induction ns arbitrary: st)
    (simp_all add: retire_all_def retire_name_receipt retire_name_props)

lemma apply_verdict_receipt:
  assumes "fold_inv st"
  shows "receipt_total (apply_verdict r b v st) =
    (fst (receipt_total st) + 1, snd (receipt_total st) + b)"
proof -
  let ?st1 = "retire_all (ve_retire v) st"
  let ?st2 = "case ve_slot v of None \<Rightarrow> ?st1 | Some s \<Rightarrow> drop_holder s ?st1"
  have inv: "fold_inv ?st2" and tot: "receipt_total ?st2 = receipt_total st"
    using retire_all_props [OF assms, of "ve_retire v"] retire_all_receipt [OF assms, of "ve_retire v"]
    by (simp_all add: drop_holder_inv drop_holder_receipt split: option.split)
  have eq: "apply_verdict r b v st = (if ve_drop v
    then ?st2\<lparr>fs_retiredCount := fs_retiredCount ?st2 + 1, fs_retiredBytes := fs_retiredBytes ?st2 + b\<rparr>
    else register r b v ?st2)"
    by (simp add: apply_verdict_def Let_def)
  have kept: "fs_retiredCount (register r b v ?st2) = fs_retiredCount ?st2"
    "fs_retiredBytes (register r b v ?st2) = fs_retiredBytes ?st2"
    by (simp_all add: register_def Let_def)
  show ?thesis
    unfolding eq tot [symmetric]
    by (simp add: receipt_total_def kept register_held [OF inv])
qed

lemma push_all_receipt:
  "push_all policy rs foldStream = Inr st \<Longrightarrow>
     receipt_total st = (length rs, sum_list (map (fr_byteLength \<circ> snd) rs))"
proof (induction rs arbitrary: st rule: rev_induct)
  case (snoc x rs)
  obtain r view where x: "x = (r, view)" by (cases x)
  obtain st' where st': "push_all policy rs foldStream = Inr st'" "fold_inv st'" "\<not> fs_finished st'"
    using push_all_props [of policy rs] by blast
  then show ?case
    using snoc.prems snoc.IH [OF st'(1)]
    by (auto simp: x push_all_snoc fold_push_def apply_verdict_receipt)
qed (simp add: receipt_total_def foldStream_def)

text \<open>The two index maps never hold more names than there are records held.\<close>

lemma index_bound:
  assumes "keyed idx" and "\<And>n x. jget idx n = Some x \<Longrightarrow> \<exists>i \<in> fst ` set m. nm i = Some n"
  shows "length idx \<le> length m"
proof -
  have "length idx = card (Some ` fst ` set idx)"
    using assms(1) distinct_card [of "map fst idx"]
    by (simp add: keyed_def card_image image_comp [symmetric])
  also have "\<dots> \<le> card (nm ` fst ` set m)"
  proof (rule card_mono)
    show "Some ` fst ` set idx \<subseteq> nm ` fst ` set m"
    proof
      fix y assume "y \<in> Some ` fst ` set idx"
      then obtain n x where "(n, x) \<in> set idx" "y = Some n" by auto
      then have "jget idx n = Some x" "y = Some n" using assms(1) by (simp_all add: keyed_in_set_iff)
      then show "y \<in> nm ` fst ` set m" using assms(2) by (metis imageI)
    qed
  qed simp
  also have "\<dots> \<le> length m"
    by (metis card_image_le card_length finite_imageI List.finite_set length_map list.set_map order_trans)
  finally show ?thesis .
qed

lemma index_names_bound:
  assumes "fold_inv st"
  shows "length (fs_slots st) \<le> length (fs_held st) \<and> length (fs_groups st) \<le> length (fs_held st)"
proof
  have ok: "slots_ok st" "groups_ok st" "keyed (fs_slots st)" "keyed (fs_groups st)"
    using assms by (simp_all add: fold_inv_def)
  have key: "jget (fs_held st) i = Some e \<Longrightarrow> i \<in> fst ` set (fs_held st)" for i e
    by (force dest: map_of_SomeD)
  show "length (fs_slots st) \<le> length (fs_held st)"
  proof (rule index_bound [OF ok(3), where nm = "\<lambda>i. Option.bind (jget (fs_held st) i) he_slot"])
    fix n i assume "jget (fs_slots st) n = Some i"
    then obtain e where "jget (fs_held st) i = Some e" "he_slot e = Some n"
      using slots_okD(1) [OF ok(1)] by blast
    then show "\<exists>i \<in> fst ` set (fs_held st). Option.bind (jget (fs_held st) i) he_slot = Some n"
      using key by force
  qed
  show "length (fs_groups st) \<le> length (fs_held st)"
  proof (rule index_bound [OF ok(4), where nm = "\<lambda>i. Option.bind (jget (fs_held st) i) he_group"])
    fix n ms assume n: "jget (fs_groups st) n = Some ms"
    have "case jget (fs_groups st) n of None \<Rightarrow> group_members st n = {}
      | Some ms \<Rightarrow> ms \<noteq> [] \<and> distinct ms \<and> set ms = group_members st n"
      using ok(2) unfolding groups_ok_def by blast
    then have "ms \<noteq> []" "set ms = group_members st n" using n by simp_all
    then obtain i where "i \<in> group_members st n" by (metis list.set_intros(1) neq_Nil_conv)
    then obtain e where "jget (fs_held st) i = Some e" "he_group e = Some n"
      by (auto simp: group_members_def)
    then show "\<exists>i \<in> fst ` set (fs_held st). Option.bind (jget (fs_held st) i) he_group = Some n"
      using key by force
  qed
qed

end
