(* ===== verification/Journal_Policy.thy ===== *)
theory Journal_Policy
  imports Journal_Fold Quota
begin

text \<open>
  The daemon's fold policy (\<open>packages/daemon/src/journal-fold-policy.ts\<close>) and the verdicts of the
  SQL store on top of it (\<open>store/retention.ts\<close>). A payload is a JSON value. The validation of quota
  payloads against their schemas is done by a library, so its results are the argument \<open>z\<close>; \<open>num\<close>
  prints numbers. A property that is absent is \<open>None\<close>; a schema whose key cannot be formed throws,
  which the policy answers by keeping the record.
\<close>

section \<open>Payloads\<close>

definition jprop :: "json \<Rightarrow> string \<Rightarrow> json option" where
  "jprop v k = (case v of JObj kvs \<Rightarrow> map_of kvs k | _ \<Rightarrow> None)"

definition object_of :: "json option \<Rightarrow> json option" where
  "object_of v = (case v of Some (JObj kvs) \<Rightarrow> Some (JObj kvs) | _ \<Rightarrow> None)"

definition prop_of :: "json option \<Rightarrow> string \<Rightarrow> json option" where
  "prop_of v k = (case v of None \<Rightarrow> None | Some j \<Rightarrow> jprop j k)"

definition non_empty_string :: "json option \<Rightarrow> string option" where
  "non_empty_string v = (case v of Some (JStr s) \<Rightarrow> if s = [] then None else Some s | _ \<Rightarrow> None)"

definition stringField :: "json option \<Rightarrow> string \<Rightarrow> string option" where
  "stringField v k = non_empty_string (prop_of (object_of v) k)"

fun all_strings :: "json list \<Rightarrow> string list option" where
  "all_strings [] = Some []"
| "all_strings (j # js) =
     (case (non_empty_string (Some j), all_strings js) of
        (Some s, Some ss) \<Rightarrow> Some (s # ss) | _ \<Rightarrow> None)"

definition stringList :: "json option \<Rightarrow> string list option" where
  "stringList v =
     (case v of Some (JArr js) \<Rightarrow> if js = [] then None else all_strings js | _ \<Rightarrow> None)"

definition commandId :: "json \<Rightarrow> string option" where
  "commandId payload = stringField (prop_of (object_of (Some payload)) ''record'') ''id''"

section \<open>Verdicts by key\<close>

definition slotOrKeep :: "string option \<Rightarrow> (string \<Rightarrow> string) \<Rightarrow> fold_verdict" where
  "slotOrKeep key name =
     (case key of None \<Rightarrow> keep_verdict | Some k \<Rightarrow> keep_verdict\<lparr>ve_slot := Some (name k)\<rparr>)"

definition groupOrKeep :: "string option \<Rightarrow> (string \<Rightarrow> string) \<Rightarrow> fold_verdict" where
  "groupOrKeep key name =
     (case key of None \<Rightarrow> keep_verdict | Some k \<Rightarrow> keep_verdict\<lparr>ve_group := Some (name k)\<rparr>)"

definition TERMINAL_RUN_EVENTS :: "string list" where
  "TERMINAL_RUN_EVENTS = [''run.completed'', ''run.failed'', ''run.blocked'']"

definition TERMINAL_SETUP_STATES :: "string list" where
  "TERMINAL_SETUP_STATES =
     [''succeeded'', ''failed'', ''cancelled'', ''timed_out'', ''interrupted_unknown'', ''not_supported'']"

definition accepted_name :: "string \<Rightarrow> string" where "accepted_name i = ''c:'' @ i @ '':a''"
definition updated_name :: "string \<Rightarrow> string" where "updated_name i = ''c:'' @ i @ '':u''"

definition runEventNames :: "string \<Rightarrow> string list" where
  "runEventNames r = [''r:'' @ r @ '':t'', ''r:'' @ r @ '':live'', ''r:'' @ r @ '':c'']"

definition prunedVerdict :: "json \<Rightarrow> fold_verdict" where
  "prunedVerdict payload =
     (let v = object_of (Some payload) in
      case stringList (prop_of v ''ids'') of
        None \<Rightarrow> keep_verdict
      | Some ids \<Rightarrow>
          let roots = nullish (stringList (prop_of v ''roots'')) [];
              runIds = nullish (stringList (prop_of v ''run_ids'')) [] in
          keep_verdict\<lparr>ve_slot := Some (''c:pruned:'' @ join nul_sep (sort roots)),
            ve_retire := concat (map (\<lambda>i. [accepted_name i, updated_name i]) ids) @
              concat (map runEventNames runIds)\<rparr>)"

definition runEventVerdict :: "json \<Rightarrow> fold_verdict" where
  "runEventVerdict payload =
     (case (stringField (Some payload) ''run_id'', stringField (Some payload) ''type'') of
        (Some r, Some t) \<Rightarrow>
          if t \<in> set TERMINAL_RUN_EVENTS then
            keep_verdict\<lparr>ve_group := Some (''r:'' @ r @ '':t''),
              ve_retire := [''r:'' @ r @ '':live'', ''r:'' @ r @ '':c'']\<rparr>
          else if t = ''run.created'' then keep_verdict\<lparr>ve_slot := Some (''r:'' @ r @ '':c'')\<rparr>
          else keep_verdict\<lparr>ve_group := Some (''r:'' @ r @ '':live'')\<rparr>
      | _ \<Rightarrow> keep_verdict)"

definition interaction_name :: "string \<Rightarrow> string \<Rightarrow> string" where
  "interaction_name r i = ''i:'' @ r @ '':'' @ i"

definition interactionRequestedVerdict :: "json \<Rightarrow> fold_verdict" where
  "interactionRequestedVerdict payload =
     (case (stringField (Some payload) ''runId'', stringField (Some payload) ''interactionId'') of
        (Some r, Some i) \<Rightarrow> keep_verdict\<lparr>ve_group := Some (interaction_name r i)\<rparr>
      | _ \<Rightarrow> keep_verdict)"

definition interactionResolvedVerdict :: "json \<Rightarrow> fold_verdict" where
  "interactionResolvedVerdict payload =
     (case (stringField (Some payload) ''runId'',
            stringList (prop_of (object_of (Some payload)) ''interactionIds'')) of
        (Some r, Some ids) \<Rightarrow>
          keep_verdict\<lparr>ve_drop := True, ve_retire := map (interaction_name r) ids\<rparr>
      | _ \<Rightarrow> keep_verdict)"

definition setupSavedVerdict :: "json \<Rightarrow> fold_verdict" where
  "setupSavedVerdict payload =
     (let job = object_of (prop_of (object_of (Some payload)) ''job'') in
      case (stringField job ''jobId'', stringField job ''state'') of
        (Some i, Some s) \<Rightarrow>
          if s \<in> set TERMINAL_SETUP_STATES then keep_verdict\<lparr>ve_retire := [''s:'' @ i @ '':log'']\<rparr>
          else keep_verdict
      | _ \<Rightarrow> keep_verdict)"

section \<open>Quota records\<close>

text \<open>What the schemas make of a payload: a snapshot, the target (harness and profile) of account
  resources, the snapshot of a window observation, the subject and snapshot id of a supersession.\<close>

record quota_parsers =
  pz_snapshot :: "json option \<Rightarrow> quota_snapshot option"
  pz_resources_invalidated :: "json \<Rightarrow> (string \<times> json) option"
  pz_resources_observed :: "json \<Rightarrow> (string \<times> json) option"
  pz_window_observed :: "json \<Rightarrow> quota_snapshot option"
  pz_window_superseded :: "json \<Rightarrow> (quota_subject \<times> string) option"

text \<open>The constraint and the snapshot that the strict schema of version 3.2.0 accepts.\<close>

definition legacy_constraint :: "quota_constraint \<Rightarrow> quota_constraint" where
  "legacy_constraint c =
     \<lparr>qc_id = qc_id c, qc_label = qc_label c, qc_applies_to_models = None,
      qc_applies_to_model_prefixes = None, qc_applies_to_unspecified_model = None,
      qc_applies_to_request_kinds = None, qc_used_ratio = qc_used_ratio c,
      qc_window_seconds = qc_window_seconds c, qc_resets_at = qc_resets_at c,
      qc_cooldown_until = qc_cooldown_until c\<rparr>"

definition legacyV320Snapshot :: "quota_snapshot \<Rightarrow> quota_snapshot" where
  "legacyV320Snapshot s =
     s\<lparr>qn_constraints := map legacy_constraint
         (filter (\<lambda>c. case qc_applies_to_request_kinds c of
                    None \<Rightarrow> True | Some ks \<Rightarrow> TextRequest \<in> set ks) (qn_constraints s)),
       qn_source := legacyV320QuotaSource (qn_source s)\<rparr>"

definition snapshotKey :: "(rat \<Rightarrow> string) \<Rightarrow> quota_snapshot \<Rightarrow> string option" where
  "snapshotKey num s = quotaSnapshotIdentity num s"

definition json_pair :: "(rat \<Rightarrow> string) \<Rightarrow> string \<Rightarrow> json \<Rightarrow> string" where
  "json_pair num h p = json_stringify num (JArr [JStr h, p])"

definition subject_json :: "string option \<Rightarrow> json" where
  "subject_json s = (case s of None \<Rightarrow> JNull | Some t \<Rightarrow> JStr t)"

definition quotaWindowGroup :: "(rat \<Rightarrow> string) \<Rightarrow> string \<Rightarrow> string option \<Rightarrow> string" where
  "quotaWindowGroup num h s = ''q:windows:'' @ json_pair num h (subject_json s)"

definition scopedPreparedKey :: "(rat \<Rightarrow> string) \<Rightarrow> quota_parsers \<Rightarrow> json \<Rightarrow> string option" where
  "scopedPreparedKey num z payload =
     (case pz_snapshot z (prop_of (object_of (Some payload)) ''snapshot'') of
        None \<Rightarrow> None | Some s \<Rightarrow> snapshotKey num (legacyV320Snapshot s))"

definition upsertedKey :: "(rat \<Rightarrow> string) \<Rightarrow> quota_parsers \<Rightarrow> json \<Rightarrow> string option" where
  "upsertedKey num z payload =
     (case pz_snapshot z (Some payload) of None \<Rightarrow> None | Some s \<Rightarrow> snapshotKey num s)"

definition resources_verdict ::
    "(rat \<Rightarrow> string) \<Rightarrow> string \<Rightarrow> (string \<times> json) option \<Rightarrow> fold_verdict" where
  "resources_verdict num prefix target =
     (case target of None \<Rightarrow> keep_verdict
      | Some (h, p) \<Rightarrow> keep_verdict\<lparr>ve_slot := Some (prefix @ json_pair num h p)\<rparr>)"

definition windowObservedVerdict :: "(rat \<Rightarrow> string) \<Rightarrow> quota_parsers \<Rightarrow> json \<Rightarrow> fold_verdict" where
  "windowObservedVerdict num z payload =
     (case pz_window_observed z payload of
        None \<Rightarrow> keep_verdict
      | Some s \<Rightarrow>
          (case snapshotKey num s of
             None \<Rightarrow> keep_verdict
           | Some k \<Rightarrow> keep_verdict\<lparr>ve_slot := Some (''q:window:'' @ k),
               ve_group := Some (quotaWindowGroup num (qs_harness (qn_subject s))
                 (qs_subject_id (qn_subject s)))\<rparr>))"

definition windowSupersededVerdict :: "(rat \<Rightarrow> string) \<Rightarrow> quota_parsers \<Rightarrow> json \<Rightarrow> fold_verdict" where
  "windowSupersededVerdict num z payload =
     (case pz_window_superseded z payload of
        None \<Rightarrow> keep_verdict
      | Some (subject, snapshot_id) \<Rightarrow>
          keep_verdict\<lparr>ve_slot := Some (''q:window:superseded:'' @ snapshot_id),
            ve_group := Some (quotaWindowGroup num (qs_harness subject) (qs_subject_id subject)),
            ve_retire := [''q:window:'' @ snapshot_id]\<rparr>)"

definition all_credential_routes :: "credential_route list" where
  "all_credential_routes = [VendorNative, ManagedApiKey, LocalRoute]"

definition snapshot_names :: "string \<Rightarrow> string \<Rightarrow> string list" where
  "snapshot_names h s =
     concat (map (\<lambda>r. concat (map (\<lambda>q.
        let key = join nul_sep [h, credential_route_name r, s, quota_source_name q] in
        [''q:'' @ key @ '':p'', ''q:'' @ key @ '':u'']) all_quota_sources)) all_credential_routes)"

definition removed_subject :: "(rat \<Rightarrow> string) \<Rightarrow> string \<Rightarrow> string option \<Rightarrow> bool \<Rightarrow> fold_verdict" where
  "removed_subject num h s preserve =
     keep_verdict\<lparr>ve_slot := Some (''q:'' @ h @ nul_sep @ nullish s [] @ '':removed''),
       ve_retire := [quotaWindowGroup num h s] @
         (if s = None \<or> preserve then []
          else [''q:resources:'' @ json_pair num h (subject_json s),
                ''q:resources:cutoff:'' @ json_pair num h (subject_json s)]) @
         snapshot_names h (nullish s [])\<rparr>"

definition removedSubjectVerdict :: "(rat \<Rightarrow> string) \<Rightarrow> json \<Rightarrow> fold_verdict" where
  "removedSubjectVerdict num payload =
     (let v = object_of (Some payload);
          preserve = (prop_of v ''preserve_resources'' = Some (JBool True)) in
      case (prop_of v ''harness'', prop_of v ''subject_id'') of
        (Some (JStr h), Some (JStr s)) \<Rightarrow> removed_subject num h (Some s) preserve
      | (Some (JStr h), Some JNull) \<Rightarrow> removed_subject num h None preserve
      | _ \<Rightarrow> keep_verdict)"

section \<open>The policy\<close>

definition journalFoldVerdict :: "(rat \<Rightarrow> string) \<Rightarrow> quota_parsers \<Rightarrow> fold_record \<Rightarrow> fold_verdict" where
  "journalFoldVerdict num z r =
     (let t = fr_type r; p = fr_payload r in
      if t = ''command.accepted'' then groupOrKeep (commandId p) accepted_name
      else if t = ''command.updated'' then slotOrKeep (commandId p) updated_name
      else if t = ''command.pruned'' then prunedVerdict p
      else if t = ''run.event'' then runEventVerdict p
      else if t = ''interaction.requested'' then interactionRequestedVerdict p
      else if t = ''interaction.resolved'' then interactionResolvedVerdict p
      else if t = ''quota.projection.updated'' then keep_verdict\<lparr>ve_slot := Some ''q:marker''\<rparr>
      else if t = ''quota.snapshot.scoped_prepared'' then
        slotOrKeep (scopedPreparedKey num z p) (\<lambda>k. ''q:'' @ k @ '':p'')
      else if t = ''quota.snapshot.upserted'' then
        slotOrKeep (upsertedKey num z p) (\<lambda>k. ''q:'' @ k @ '':u'')
      else if t = ''quota.resources.invalidated'' then
        resources_verdict num ''q:resources:cutoff:'' (pz_resources_invalidated z p)
      else if t = ''quota.resources.observed'' then
        resources_verdict num ''q:resources:'' (pz_resources_observed z p)
      else if t = ''quota.window.observed'' then windowObservedVerdict num z p
      else if t = ''quota.window.superseded'' then windowSupersededVerdict num z p
      else if t = ''quota.subject.removed'' then removedSubjectVerdict num p
      else if t = ''thread.head.updated'' then
        slotOrKeep (stringField (Some p) ''thread_id'') (\<lambda>i. ''t:'' @ i)
      else if t = ''setup.job.saved'' then setupSavedVerdict p
      else if t = ''setup.job.log'' then
        groupOrKeep (stringField (Some p) ''jobId'') (\<lambda>i. ''s:'' @ i @ '':log'')
      else keep_verdict)"

text \<open>The verdicts of the SQL event table.\<close>

definition decision_run :: "json \<Rightarrow> json option" where
  "decision_run p =
     (case prop_of (jprop p ''decision'') ''runId'' of
        None \<Rightarrow> jprop p ''runId'' | Some JNull \<Rightarrow> jprop p ''runId'' | Some j \<Rightarrow> Some j)"

definition sqlEventVerdict :: "(rat \<Rightarrow> string) \<Rightarrow> quota_parsers \<Rightarrow> fold_record \<Rightarrow> fold_verdict" where
  "sqlEventVerdict num z r =
     (let t = fr_type r; p = fr_payload r; verdict = journalFoldVerdict num z r in
      case (if t = ''deferred_message.changed'' then jprop p ''draftId'' else None) of
        Some (JStr i) \<Rightarrow> keep_verdict\<lparr>ve_slot := Some (''draft:'' @ i)\<rparr>
      | _ \<Rightarrow>
          if t = ''thread.entities_upserted'' then keep_verdict\<lparr>ve_drop := True\<rparr>
          else if t = ''operator.decision_recorded'' then
            (case non_empty_string (decision_run p) of
               Some i \<Rightarrow> verdict\<lparr>ve_group := Some (''d:'' @ i)\<rparr> | None \<Rightarrow> verdict)
          else if t = ''setup.job.saved'' then
            (case non_empty_string (prop_of (jprop p ''job'') ''jobId'') of
               Some i \<Rightarrow> verdict\<lparr>ve_group := Some (''s:'' @ i @ '':saved'')\<rparr> | None \<Rightarrow> verdict)
          else verdict)"

end
