(* ===== verification/Journal_Props.thy ===== *)
theory Journal_Props
  imports Journal_Fold_Inv Journal_Policy
begin

text \<open>
  The fold of the journal: the engine keeps exactly the records that no later record removes, a
  compacted journal reads like the one it replaced, and under the daemon's policy the state that
  is rebuilt from a folded journal (pending questions, current commands, run terminals) is the state
  of the whole journal.
\<close>

section \<open>Survivors\<close>

lemma fold_journal_eq:
  "\<exists>res. fold_journal policy rs = Inr res \<and>
     fo_retained res = map fst (survivors (judged policy rs)) \<and>
     fo_retiredCount res + length (fo_retained res) = length rs"
proof -
  obtain st where st: "push_all policy rs foldStream = Inr st" "fold_inv st"
    "held_view st = survivor_view (judged policy rs)"
    using push_all_props [of policy rs] by blast
  have "map he_record (jvalues (fs_held st)) = map fst (held_view st)"
    by (simp add: held_view_def)
  also have "\<dots> = map fst (survivors (judged policy rs))"
    unfolding st(3) survivor_view_def by (simp add: split_def)
  finally have held: "map he_record (jvalues (fs_held st)) = map fst (survivors (judged policy rs))" .
  then have "length (fs_held st) = length (survivors (judged policy rs))"
    by (metis length_map)
  then show ?thesis
    using st(1) push_all_receipt [OF st(1)] held
    by (simp add: fold_journal_def fold_finish_def receipt_total_def)
qed

definition fold_records ::
    "(fold_record \<Rightarrow> fold_verdict) \<Rightarrow> fold_record list \<Rightarrow> string + fold_record list" where
  "fold_records policy rs = map_sum id fo_retained (fold_journal policy (map (\<lambda>r. (r, r)) rs))"

definition judged_self :: "(fold_record \<Rightarrow> fold_verdict) \<Rightarrow> fold_record list \<Rightarrow>
    (fold_record \<times> fold_verdict) list" where
  "judged_self policy rs = map (\<lambda>r. (r, policy r)) rs"

lemma fold_records_eq:
  "fold_records policy rs = Inr (map fst (survivors (judged_self policy rs)))"
  using fold_journal_eq [of policy "map (\<lambda>r. (r, r)) rs"]
  by (auto simp: fold_records_def judged_def judged_self_def comp_def)

lemma survivors_subset: "set (survivors rs) \<subseteq> set rs"
proof (induction rs)
  case (Cons x rs)
  then show ?case by (cases x) auto
qed simp

lemma survivors_append:
  "survivors (xs @ ys) =
     filter (\<lambda>(r, v). \<not> (\<exists>(r', v') \<in> set ys. removes v' (ve_slot v) (ve_group v))) (survivors xs) @
     survivors ys"
  by (induction xs) auto

lemma survivors_idem: "survivors (survivors rs) = survivors rs"
proof (induction rs)
  case (Cons x rs)
  obtain r v where x: "x = (r, v)" by (cases x)
  show ?case
  proof (cases "ve_drop v \<or> (\<exists>(r', v') \<in> set rs. removes v' (ve_slot v) (ve_group v))")
    case True
    then show ?thesis using Cons by (auto simp: x)
  next
    case False
    then have "\<not> (\<exists>(r', v') \<in> set (survivors rs). removes v' (ve_slot v) (ve_group v))"
      using survivors_subset [of rs] by fast
    then show ?thesis using Cons False by (auto simp: x)
  qed
qed simp

lemma judged_self_survivors:
  "judged_self policy (map fst (survivors (judged_self policy rs))) = survivors (judged_self policy rs)"
proof -
  have "\<forall>p \<in> set (survivors (judged_self policy rs)). snd p = policy (fst p)"
    using survivors_subset [of "judged_self policy rs"] by (auto simp: judged_self_def)
  then show ?thesis
    by (simp add: judged_self_def [of policy "map fst _"]) (auto intro!: map_idI)
qed

text \<open>C7: The engine implements the fold: whatever the verdicts are, it returns, in order, exactly
  the records that are not dropped themselves and whose slot no later record takes and whose slot
  or group no later record retires; and it counts every other record as retired.\<close>

theorem fold_engine_keeps_the_survivors:
  "\<exists>res. fold_journal policy rs = Inr res \<and>
     fo_retained res = map fst (survivors (judged policy rs)) \<and>
     fo_retiredCount res + length (fo_retained res) = length rs"
  by (rule fold_journal_eq)

text \<open>C24: Compaction is invisible: when a prefix of a journal is replaced by what its fold retains,
  the fold of the journal, whatever is appended later, retains the same records.\<close>

theorem compaction_is_invisible:
  assumes "fold_records policy xs = Inr kept"
  shows "fold_records policy (kept @ ys) = fold_records policy (xs @ ys)"
proof -
  have kept: "kept = map fst (survivors (judged_self policy xs))"
    using assms by (simp add: fold_records_eq)
  have app: "judged_self policy (as @ bs) = judged_self policy as @ judged_self policy bs" for as bs
    by (simp add: judged_self_def)
  show ?thesis
    by (simp add: fold_records_eq app survivors_append kept judged_self_survivors survivors_idem)
qed

text \<open>The engine's memory is bounded by what it holds: at any point of a journal, neither index
  has more names than there are retained records, and every record seen is either retained or
  counted, with its bytes, as retired.\<close>

theorem fold_memory_is_bounded:
  assumes "push_all policy rs foldStream = Inr st"
  shows "length (fs_slots st) \<le> length (fs_held st) \<and> length (fs_groups st) \<le> length (fs_held st) \<and>
    length (fs_held st) + fs_retiredCount st = length rs \<and>
    sum_list (map (he_bytes \<circ> snd) (fs_held st)) + fs_retiredBytes st =
      sum_list (map (fr_byteLength \<circ> snd) rs)"
proof -
  have "fold_inv st" using push_all_props [of policy rs] assms by auto
  then show ?thesis
    using index_names_bound push_all_receipt [OF assms] by (auto simp: receipt_total_def)
qed

section \<open>State that a folded journal still shows\<close>

text \<open>The records of a kind that no later record ends.\<close>

fun current ::
    "(fold_record \<Rightarrow> bool) \<Rightarrow> (fold_record \<Rightarrow> fold_record \<Rightarrow> bool) \<Rightarrow> fold_record list \<Rightarrow>
     fold_record list" where
  "current kind ends [] = []"
| "current kind ends (r # rs) =
     (if kind r \<and> (\<forall>r' \<in> set rs. \<not> ends r' r) then [r] else []) @ current kind ends rs"

text \<open>A policy respects a kind of record when it keeps each of them until a record ends it.\<close>

locale respected_kind =
  fixes policy :: "fold_record \<Rightarrow> fold_verdict"
    and kind :: "fold_record \<Rightarrow> bool"
    and ends :: "fold_record \<Rightarrow> fold_record \<Rightarrow> bool"
    and named_well :: "fold_record \<Rightarrow> bool"
  assumes kept: "kind r \<Longrightarrow> \<not> ve_drop (policy r)"
    and ended: "kind r \<Longrightarrow> named_well r \<Longrightarrow> named_well r' \<Longrightarrow>
      removes (policy r') (ve_slot (policy r)) (ve_group (policy r)) \<longleftrightarrow> ends r' r"
begin

lemma survivors_current:
  "\<forall>r \<in> set rs. named_well r \<Longrightarrow>
     filter kind (map fst (survivors (judged_self policy rs))) = current kind ends rs"
proof (induction rs)
  case (Cons r rs)
  have "(\<exists>(r', v') \<in> set (judged_self policy rs). removes v' (ve_slot (policy r)) (ve_group (policy r)))
    \<longleftrightarrow> (\<exists>r' \<in> set rs. ends r' r)" if "kind r"
    using ended [OF that] Cons.prems by (auto simp: judged_self_def)
  then show ?case
    using Cons kept [of r] by (cases "kind r") (auto simp: judged_self_def)
qed (simp add: judged_self_def)

lemma folded_shows_current:
  "\<forall>r \<in> set rs. named_well r \<Longrightarrow> fold_records policy rs = Inr folded \<Longrightarrow>
     filter kind folded = current kind ends rs"
  using survivors_current by (auto simp: fold_records_eq)

end

section \<open>The kinds of record\<close>

text \<open>Which names a verdict can retire, and which slot it can take, by their first letter.\<close>

named_theorems retire_heads

lemma snapshot_names_head: "n \<in> set (snapshot_names h s) \<Longrightarrow> take 2 n = ''q:''"
  by (auto simp: snapshot_names_def Let_def)

lemma pruned_heads [retire_heads]:
  "n \<in> set (ve_retire (prunedVerdict p)) \<Longrightarrow> take 2 n \<in> {''c:'', ''r:''}"
  by (auto simp: prunedVerdict_def Let_def accepted_name_def updated_name_def runEventNames_def
      split: option.splits)

lemma run_event_heads [retire_heads]:
  "n \<in> set (ve_retire (runEventVerdict p)) \<Longrightarrow> take 2 n \<in> {''r:''}"
  by (auto simp: runEventVerdict_def split: option.splits if_splits)

lemma window_heads [retire_heads]:
  "n \<in> set (ve_retire (windowSupersededVerdict num z p)) \<Longrightarrow> take 2 n \<in> {''q:''}"
  "n \<in> set (ve_retire (removedSubjectVerdict num p)) \<Longrightarrow> take 2 n \<in> {''q:''}"
proof -
  assume "n \<in> set (ve_retire (windowSupersededVerdict num z p))"
  then show "take 2 n \<in> {''q:''}"
    by (auto simp: windowSupersededVerdict_def split: option.splits)
next
  have subject: "n \<in> set (ve_retire (removed_subject num h s b)) \<Longrightarrow> take 2 n = ''q:''" for h s b
    by (auto simp: removed_subject_def quotaWindowGroup_def dest: snapshot_names_head split: if_splits)
  assume "n \<in> set (ve_retire (removedSubjectVerdict num p))"
  then show "take 2 n \<in> {''q:''}"
    using subject by (auto simp: removedSubjectVerdict_def Let_def split: option.splits json.splits)
qed

lemma setup_heads [retire_heads]:
  "n \<in> set (ve_retire (setupSavedVerdict p)) \<Longrightarrow> take 2 n \<in> {''s:''}"
  by (auto simp: setupSavedVerdict_def Let_def split: option.splits if_splits)

lemma no_retire [simp]:
  "ve_retire (slotOrKeep k f) = []" "ve_retire (groupOrKeep k f) = []"
  "ve_retire (interactionRequestedVerdict p) = []" "ve_retire (resources_verdict num x t) = []"
  "ve_retire (windowObservedVerdict num z p) = []"
  by (simp_all add: slotOrKeep_def groupOrKeep_def interactionRequestedVerdict_def
      resources_verdict_def windowObservedVerdict_def split: option.split prod.split)

lemma retire_by_type:
  "n \<in> set (ve_retire (journalFoldVerdict num z r)) \<Longrightarrow>
     (fr_type r = ''command.pruned'' \<and> n \<in> set (ve_retire (prunedVerdict (fr_payload r)))) \<or>
     (fr_type r = ''run.event'' \<and> n \<in> set (ve_retire (runEventVerdict (fr_payload r)))) \<or>
     (fr_type r = ''interaction.resolved'' \<and>
        n \<in> set (ve_retire (interactionResolvedVerdict (fr_payload r)))) \<or>
     take 2 n \<in> {''q:'', ''s:''}"
  using window_heads(1) [of n num z "fr_payload r"] window_heads(2) [of n num "fr_payload r"] setup_heads [of n "fr_payload r"]
  by (simp add: journalFoldVerdict_def Let_def split: if_split_asm)

text \<open>A pending question, and the resolutions that settle it.\<close>

definition question_of :: "fold_record \<Rightarrow> (string \<times> string) option" where
  "question_of r =
     (if fr_type r = ''interaction.requested'' then
        case (stringField (Some (fr_payload r)) ''runId'',
              stringField (Some (fr_payload r)) ''interactionId'') of
          (Some run, Some i) \<Rightarrow> Some (run, i) | _ \<Rightarrow> None
      else None)"

definition settled_by :: "fold_record \<Rightarrow> (string \<times> string list) option" where
  "settled_by r =
     (if fr_type r = ''interaction.resolved'' then
        case (stringField (Some (fr_payload r)) ''runId'',
              stringList (prop_of (object_of (Some (fr_payload r))) ''interactionIds'')) of
          (Some run, Some ids) \<Rightarrow> Some (run, ids) | _ \<Rightarrow> None
      else None)"

definition is_question :: "fold_record \<Rightarrow> bool" where
  "is_question r \<longleftrightarrow> question_of r \<noteq> None"

definition settles :: "fold_record \<Rightarrow> fold_record \<Rightarrow> bool" where
  "settles r' r \<longleftrightarrow>
     (case (settled_by r', question_of r) of
        (Some (run', ids), Some (run, i)) \<Rightarrow> run' = run \<and> i \<in> set ids | _ \<Rightarrow> False)"

definition colon_free_run :: "fold_record \<Rightarrow> bool" where
  "colon_free_run r \<longleftrightarrow>
     (case stringField (Some (fr_payload r)) ''runId'' of None \<Rightarrow> True | Some run \<Rightarrow> CHR '':'' \<notin> set run)"

lemma split_at_colon:
  "CHR '':'' \<notin> set a \<Longrightarrow> CHR '':'' \<notin> set b \<Longrightarrow> a @ CHR '':'' # x = b @ CHR '':'' # y \<longleftrightarrow> a = b \<and> x = y"
proof (induction a arbitrary: b)
  case Nil
  then show ?case by (cases b) auto
next
  case (Cons c a)
  then show ?case by (cases b) auto
qed

lemma interaction_name_inj:
  "CHR '':'' \<notin> set r \<Longrightarrow> CHR '':'' \<notin> set r' \<Longrightarrow>
     interaction_name r i = interaction_name r' i' \<longleftrightarrow> r = r' \<and> i = i'"
  by (simp add: interaction_name_def split_at_colon)

lemma question_names_retired:
  assumes "take 2 n = ''i:''"
  shows "n \<in> set (ve_retire (journalFoldVerdict num z r)) \<longleftrightarrow>
     (case settled_by r of Some (run, ids) \<Rightarrow> n \<in> interaction_name run ` set ids | None \<Rightarrow> False)"
proof (cases "fr_type r = ''interaction.resolved''")
  case True
  then show ?thesis
    by (auto simp: journalFoldVerdict_def Let_def interactionResolvedVerdict_def settled_by_def
        split: option.split)
next
  case False
  then have "n \<notin> set (ve_retire (journalFoldVerdict num z r))"
    using retire_by_type [of n num z r] pruned_heads [of n "fr_payload r"]
      run_event_heads [of n "fr_payload r"] assms
    by auto
  then show ?thesis using False by (simp add: settled_by_def)
qed

lemma question_ends:
  assumes "is_question r" "colon_free_run r" "colon_free_run r'"
  shows "removes (journalFoldVerdict num z r') (ve_slot (journalFoldVerdict num z r))
      (ve_group (journalFoldVerdict num z r)) \<longleftrightarrow> settles r' r"
proof -
  obtain run i where q: "fr_type r = ''interaction.requested''"
    "stringField (Some (fr_payload r)) ''runId'' = Some run"
    "stringField (Some (fr_payload r)) ''interactionId'' = Some i" "question_of r = Some (run, i)"
    using assms(1) by (auto simp: is_question_def question_of_def split: if_splits option.splits)
  have v: "ve_slot (journalFoldVerdict num z r) = None"
    "ve_group (journalFoldVerdict num z r) = Some (interaction_name run i)"
    by (simp_all add: journalFoldVerdict_def Let_def q interactionRequestedVerdict_def)
  have run: "CHR '':'' \<notin> set run" using assms(2) q by (simp add: colon_free_run_def)
  have run': "settled_by r' = Some (run', ids) \<Longrightarrow> CHR '':'' \<notin> set run'" for run' ids
    using assms(3) by (auto simp: settled_by_def colon_free_run_def split: if_splits option.splits)
  have "removes (journalFoldVerdict num z r') None (Some (interaction_name run i)) \<longleftrightarrow>
    interaction_name run i \<in> set (ve_retire (journalFoldVerdict num z r'))"
    by (auto simp: removes_def named_def)
  also have "\<dots> \<longleftrightarrow> settles r' r"
    using run run'
    by (subst question_names_retired)
      (auto simp: interaction_name_def settles_def q(4) split_at_colon split: option.split)
  finally show ?thesis by (simp add: v)
qed

interpretation questions: respected_kind "journalFoldVerdict num z" is_question settles colon_free_run
proof
  fix r assume "is_question r"
  then show "\<not> ve_drop (journalFoldVerdict num z r)"
    by (auto simp: is_question_def question_of_def journalFoldVerdict_def Let_def
        interactionRequestedVerdict_def split: if_splits option.splits)
qed (rule question_ends)

text \<open>The latest record of a command.\<close>

definition update_of :: "fold_record \<Rightarrow> string option" where
  "update_of r = (if fr_type r = ''command.updated'' then commandId (fr_payload r) else None)"

definition pruned_ids :: "fold_record \<Rightarrow> string list" where
  "pruned_ids r =
     (if fr_type r = ''command.pruned'' then
        nullish (stringList (prop_of (object_of (Some (fr_payload r))) ''ids'')) [] else [])"

definition pruned_runs :: "fold_record \<Rightarrow> string list" where
  "pruned_runs r =
     (if pruned_ids r = [] then []
      else nullish (stringList (prop_of (object_of (Some (fr_payload r))) ''run_ids'')) [])"

definition is_update :: "fold_record \<Rightarrow> bool" where
  "is_update r \<longleftrightarrow> update_of r \<noteq> None"

definition replaces_update :: "fold_record \<Rightarrow> fold_record \<Rightarrow> bool" where
  "replaces_update r' r \<longleftrightarrow>
     (case update_of r of None \<Rightarrow> False | Some i \<Rightarrow> update_of r' = Some i \<or> i \<in> set (pruned_ids r'))"

definition proper_command :: "fold_record \<Rightarrow> bool" where
  "proper_command r \<longleftrightarrow>
     (case update_of r of None \<Rightarrow> True | Some i \<Rightarrow> \<not> starts_with (updated_name i) ''c:pruned:'')"

lemma stringList_nonempty: "stringList v = Some ids \<Longrightarrow> ids \<noteq> []"
proof -
  have len: "all_strings js = Some ss \<Longrightarrow> length ss = length js" for js ss
    by (induction js arbitrary: ss) (auto split: option.splits)
  show "stringList v = Some ids \<Longrightarrow> ids \<noteq> []"
    by (auto simp: stringList_def dest: len split: option.splits json.splits if_splits)
qed

lemma pruned_retires:
  assumes "fr_type r = ''command.pruned''"
  shows "set (ve_retire (journalFoldVerdict num z r)) =
    accepted_name ` set (pruned_ids r) \<union> updated_name ` set (pruned_ids r) \<union>
    (\<Union>x \<in> set (pruned_runs r). set (runEventNames x))"
proof (cases "stringList (prop_of (object_of (Some (fr_payload r))) ''ids'')")
  case None
  then show ?thesis
    by (simp add: assms journalFoldVerdict_def Let_def prunedVerdict_def pruned_ids_def pruned_runs_def)
next
  case (Some ids)
  then have "ids \<noteq> []" by (rule stringList_nonempty)
  with Some show ?thesis
    by (auto simp: assms journalFoldVerdict_def Let_def prunedVerdict_def pruned_ids_def pruned_runs_def)
qed

lemma command_name_inj [simp]:
  "updated_name i = updated_name j \<longleftrightarrow> i = j" "accepted_name i \<noteq> updated_name j"
  "updated_name j \<noteq> accepted_name i"
  by (simp_all add: updated_name_def accepted_name_def)

lemma updated_name_retired:
  "updated_name i \<in> set (ve_retire (journalFoldVerdict num z r)) \<longleftrightarrow> i \<in> set (pruned_ids r)"
proof (cases "fr_type r = ''command.pruned''")
  case True
  have "updated_name i \<noteq> n" if "n \<in> set (runEventNames x)" for n x
    using that by (auto simp: runEventNames_def updated_name_def)
  then show ?thesis unfolding pruned_retires [OF True] by auto
next
  case False
  have head: "take 2 (updated_name i) = ''c:''" by (simp add: updated_name_def)
  have "\<not> (fr_type r = ''interaction.resolved'' \<and>
    updated_name i \<in> set (ve_retire (interactionResolvedVerdict (fr_payload r))))"
    by (auto simp: interactionResolvedVerdict_def interaction_name_def updated_name_def split: option.splits)
  then have "updated_name i \<notin> set (ve_retire (journalFoldVerdict num z r))"
    using retire_by_type [of "updated_name i" num z r] False head
      run_event_heads [of "updated_name i" "fr_payload r"] by auto
  then show ?thesis using False by (simp add: pruned_ids_def)
qed

lemma command_slot:
  assumes "proper_command r" "update_of r = Some i"
  shows "ve_slot (journalFoldVerdict num z r') = Some (updated_name i) \<longleftrightarrow> update_of r' = Some i"
proof -
  have other: "take 2 (updated_name i) = ''c:''" "\<not> starts_with (updated_name i) ''c:pruned:''"
    using assms by (simp_all add: updated_name_def proper_command_def)
  have up: "ve_slot (slotOrKeep k updated_name) = Some (updated_name i) \<longleftrightarrow> k = Some i" for k
    by (auto simp: slotOrKeep_def split: option.split)
  have "ve_slot (prunedVerdict p) \<noteq> Some (updated_name i)" for p
  proof -
    have "ve_slot (prunedVerdict p) = None \<or> (\<exists>x. ve_slot (prunedVerdict p) = Some (''c:pruned:'' @ x))"
      by (simp add: prunedVerdict_def Let_def split: option.split)
    then show ?thesis using other(2) by (metis option.distinct(1) option.inject starts_with_append)
  qed
  moreover have "ve_slot (runEventVerdict p) \<noteq> Some (updated_name i)" for p
    by (auto simp: runEventVerdict_def updated_name_def split: option.splits)
  moreover have "ve_slot (removedSubjectVerdict num p) \<noteq> Some (updated_name i)" for p
    by (auto simp: removedSubjectVerdict_def removed_subject_def updated_name_def Let_def
        split: option.splits json.splits)
  moreover have "ve_slot (slotOrKeep k (\<lambda>x. CHR ''q'' # f x)) \<noteq> Some (updated_name i)"
    "ve_slot (slotOrKeep k ((@) ''t:'')) \<noteq> Some (updated_name i)"
    "ve_slot (groupOrKeep k f) \<noteq> Some (updated_name i)" for k f
    by (simp_all add: slotOrKeep_def groupOrKeep_def updated_name_def split: option.split)
  moreover have "ve_slot (resources_verdict num (CHR ''q'' # x) t) \<noteq> Some (updated_name i)"
    "ve_slot (windowObservedVerdict num z p) \<noteq> Some (updated_name i)"
    "ve_slot (windowSupersededVerdict num z p) \<noteq> Some (updated_name i)"
    "ve_slot (setupSavedVerdict p) = None" "ve_slot (interactionRequestedVerdict p) = None"
    "ve_slot (interactionResolvedVerdict p) = None" for x t p
    by (auto simp: resources_verdict_def windowObservedVerdict_def windowSupersededVerdict_def
        setupSavedVerdict_def interactionRequestedVerdict_def interactionResolvedVerdict_def
        updated_name_def Let_def split: option.splits)
  ultimately show ?thesis
    using up [of "commandId (fr_payload r')"]
    by (simp add: journalFoldVerdict_def Let_def update_of_def) (simp add: updated_name_def)
qed

lemma update_ends:
  assumes "is_update r" "proper_command r"
  shows "removes (journalFoldVerdict num z r') (ve_slot (journalFoldVerdict num z r))
      (ve_group (journalFoldVerdict num z r)) \<longleftrightarrow> replaces_update r' r"
proof -
  obtain i where i: "update_of r = Some i" using assms(1) by (auto simp: is_update_def)
  then have t: "fr_type r = ''command.updated''" "commandId (fr_payload r) = Some i"
    by (auto simp: update_of_def split: if_splits)
  have v: "ve_slot (journalFoldVerdict num z r) = Some (updated_name i)"
    "ve_group (journalFoldVerdict num z r) = None"
    by (simp_all add: journalFoldVerdict_def Let_def t slotOrKeep_def)
  have "removes (journalFoldVerdict num z r') (Some (updated_name i)) None \<longleftrightarrow>
    updated_name i \<in> set (ve_retire (journalFoldVerdict num z r')) \<or>
    ve_slot (journalFoldVerdict num z r') = Some (updated_name i)"
    by (auto simp: removes_def named_def)
  also have "\<dots> \<longleftrightarrow> replaces_update r' r"
    unfolding updated_name_retired command_slot [OF assms(2) i] by (auto simp: replaces_update_def i)
  finally show ?thesis by (simp add: v)
qed

interpretation updates: respected_kind "journalFoldVerdict num z" is_update replaces_update proper_command
proof
  fix r assume "is_update r"
  then show "\<not> ve_drop (journalFoldVerdict num z r)"
    by (auto simp: is_update_def update_of_def journalFoldVerdict_def Let_def slotOrKeep_def
        split: if_splits option.split)
qed (rule update_ends)

text \<open>The terminal events of a run.\<close>

definition terminal_of :: "fold_record \<Rightarrow> string option" where
  "terminal_of r =
     (if fr_type r = ''run.event'' then
        case (stringField (Some (fr_payload r)) ''run_id'', stringField (Some (fr_payload r)) ''type'') of
          (Some run, Some t) \<Rightarrow> if t \<in> set TERMINAL_RUN_EVENTS then Some run else None
        | _ \<Rightarrow> None
      else None)"

definition is_terminal_event :: "fold_record \<Rightarrow> bool" where
  "is_terminal_event r \<longleftrightarrow> terminal_of r \<noteq> None"

definition prunes_run :: "fold_record \<Rightarrow> fold_record \<Rightarrow> bool" where
  "prunes_run r' r \<longleftrightarrow> (case terminal_of r of None \<Rightarrow> False | Some run \<Rightarrow> run \<in> set (pruned_runs r'))"

lemma terminal_name_retired:
  "''r:'' @ run @ '':t'' \<in> set (ve_retire (journalFoldVerdict num z r)) \<longleftrightarrow> run \<in> set (pruned_runs r)"
proof (cases "fr_type r = ''command.pruned''")
  case True
  have last: "x @ '':t'' \<noteq> y @ '':live''" "x @ '':t'' \<noteq> y @ '':c''" for x y :: string
    by (auto dest: arg_cong [where f = last])
  have "''r:'' @ run @ '':t'' \<in> set (runEventNames x) \<longleftrightarrow> x = run" for x
    using last by (auto simp: runEventNames_def)
  then show ?thesis
    unfolding pruned_retires [OF True] by (auto simp: accepted_name_def updated_name_def)
next
  case False
  have last: "x @ '':t'' \<noteq> y @ '':live''" "x @ '':t'' \<noteq> y @ '':c''" for x y :: string
    by (auto dest: arg_cong [where f = last])
  have "''r:'' @ run @ '':t'' \<notin> set (ve_retire (runEventVerdict (fr_payload r)))"
    using last by (auto simp: runEventVerdict_def split: option.splits)
  moreover have "''r:'' @ run @ '':t'' \<notin> set (ve_retire (interactionResolvedVerdict (fr_payload r)))"
    by (auto simp: interactionResolvedVerdict_def interaction_name_def split: option.splits)
  ultimately have "''r:'' @ run @ '':t'' \<notin> set (ve_retire (journalFoldVerdict num z r))"
    using retire_by_type [of "''r:'' @ run @ '':t''" num z r] False by auto
  then show ?thesis using False by (simp add: pruned_runs_def pruned_ids_def)
qed

lemma terminal_ends:
  assumes "is_terminal_event r"
  shows "removes (journalFoldVerdict num z r') (ve_slot (journalFoldVerdict num z r))
      (ve_group (journalFoldVerdict num z r)) \<longleftrightarrow> prunes_run r' r"
proof -
  obtain run t where q: "fr_type r = ''run.event''"
    "stringField (Some (fr_payload r)) ''run_id'' = Some run"
    "stringField (Some (fr_payload r)) ''type'' = Some t" "t \<in> set TERMINAL_RUN_EVENTS"
    "terminal_of r = Some run"
    using assms by (auto simp: is_terminal_event_def terminal_of_def split: if_splits option.splits)
  have v: "ve_slot (journalFoldVerdict num z r) = None"
    "ve_group (journalFoldVerdict num z r) = Some (''r:'' @ run @ '':t'')"
    by (simp_all add: journalFoldVerdict_def Let_def q runEventVerdict_def)
  have "removes (journalFoldVerdict num z r') None (Some (''r:'' @ run @ '':t'')) \<longleftrightarrow>
    ''r:'' @ run @ '':t'' \<in> set (ve_retire (journalFoldVerdict num z r'))"
    by (auto simp: removes_def named_def)
  then show ?thesis unfolding v terminal_name_retired by (simp add: prunes_run_def q(5))
qed

interpretation terminals: respected_kind "journalFoldVerdict num z" is_terminal_event prunes_run "\<lambda>r. True"
proof
  fix r assume "is_terminal_event r"
  then show "\<not> ve_drop (journalFoldVerdict num z r)"
    by (auto simp: is_terminal_event_def terminal_of_def journalFoldVerdict_def Let_def
        runEventVerdict_def split: if_splits option.splits)
qed (rule terminal_ends)

section \<open>What a folded journal shows\<close>

text \<open>A journal of two questions, a command and a run, with no quota records.\<close>

definition no_quota :: quota_parsers where
  "no_quota = \<lparr>pz_snapshot = \<lambda>_. None, pz_resources_invalidated = \<lambda>_. None,
     pz_resources_observed = \<lambda>_. None, pz_window_observed = \<lambda>_. None,
     pz_window_superseded = \<lambda>_. None\<rparr>"

abbreviation sample_policy :: "fold_record \<Rightarrow> fold_verdict" where
  "sample_policy \<equiv> journalFoldVerdict (\<lambda>_. []) no_quota"

definition sample_record :: "int \<Rightarrow> string \<Rightarrow> (string \<times> json) list \<Rightarrow> fold_record" where
  "sample_record n t kvs =
     \<lparr>fr_seq = n, fr_type = t, fr_time = ''t'', fr_payload = JObj kvs, fr_byteLength = 10\<rparr>"

definition asks :: "int \<Rightarrow> string \<Rightarrow> string \<Rightarrow> fold_record" where
  "asks n run i = sample_record n ''interaction.requested''
     [(''interactionId'', JStr i), (''runId'', JStr run)]"

definition settling :: "int \<Rightarrow> string \<Rightarrow> string \<Rightarrow> fold_record" where
  "settling n run i = sample_record n ''interaction.resolved''
     [(''runId'', JStr run), (''interactionIds'', JArr [JStr i])]"

definition updating :: "int \<Rightarrow> string \<Rightarrow> fold_record" where
  "updating n i = sample_record n ''command.updated'' [(''record'', JObj [(''id'', JStr i)])]"

definition ending :: "int \<Rightarrow> string \<Rightarrow> fold_record" where
  "ending n run = sample_record n ''run.event''
     [(''run_id'', JStr run), (''type'', JStr ''run.completed'')]"

definition sample_journal :: "fold_record list" where
  "sample_journal =
     [asks 1 ''run'' ''q1'', asks 2 ''run'' ''q2'', updating 3 ''c1'', settling 4 ''run'' ''q1'',
      ending 5 ''run'', ending 6 ''run'', updating 7 ''c1'']"

lemma sample_records [simp]:
  "fr_type (sample_record n t kvs) = t" "fr_payload (sample_record n t kvs) = JObj kvs"
  by (simp_all add: sample_record_def)

lemmas sample_fields = asks_def settling_def updating_def ending_def stringField_def stringList_def
  non_empty_string_def prop_of_def object_of_def jprop_def commandId_def

lemma sample_facts:
  "question_of (asks n run i) = (if run = [] \<or> i = [] then None else Some (run, i))"
  "question_of (settling n run i) = None" "question_of (updating n i) = None"
  "question_of (ending n run) = None" "settled_by (asks n run i) = None"
  "settled_by (settling n run i) = (if run = [] \<or> i = [] then None else Some (run, [i]))"
  "settled_by (updating n i) = None" "settled_by (ending n run) = None"
  "update_of (asks n run i) = None" "update_of (settling n run i) = None"
  "update_of (updating n i) = (if i = [] then None else Some i)" "update_of (ending n run) = None"
  "pruned_ids (asks n run i) = []" "pruned_ids (settling n run i) = []"
  "pruned_ids (updating n i) = []" "pruned_ids (ending n run) = []"
  "terminal_of (asks n run i) = None" "terminal_of (settling n run i) = None"
  "terminal_of (updating n i) = None" "terminal_of (ending n run) = (if run = [] then None else Some run)"
  by (simp_all add: sample_fields question_of_def settled_by_def update_of_def pruned_ids_def
      terminal_of_def TERMINAL_RUN_EVENTS_def)

lemmas sample_kinds = is_question_def settles_def is_update_def replaces_update_def
  is_terminal_event_def prunes_run_def pruned_runs_def sample_facts

lemma sample_updates:
  "fold_records sample_policy [updating 3 ''c1'', updating 7 ''c1''] = Inr [updating 7 ''c1'']"
proof -
  have "sample_policy (updating n ''c1'') = keep_verdict\<lparr>ve_slot := Some (updated_name ''c1'')\<rparr>" for n
    by (simp add: journalFoldVerdict_def Let_def sample_fields slotOrKeep_def)
  then show ?thesis by (simp add: fold_records_eq judged_self_def removes_def)
qed

theorem compaction_is_invisible_witness:
  "fold_records sample_policy ([updating 7 ''c1''] @ [ending 8 ''run'']) =
   fold_records sample_policy ([updating 3 ''c1'', updating 7 ''c1''] @ [ending 8 ''run''])"
  by (rule compaction_is_invisible [OF sample_updates])

theorem fold_memory_is_bounded_witness:
  "\<exists>st. push_all sample_policy (map (\<lambda>r. (r, r)) sample_journal) foldStream = Inr st \<and>
     length (fs_slots st) \<le> length (fs_held st) \<and> length (fs_held st) + fs_retiredCount st = 7"
proof -
  obtain st where st: "push_all sample_policy (map (\<lambda>r. (r, r)) sample_journal) foldStream = Inr st"
    using push_all_props [of sample_policy "map (\<lambda>r. (r, r)) sample_journal"] by blast
  with fold_memory_is_bounded [OF st] show ?thesis by (simp add: sample_journal_def)
qed

text \<open>C25: Pending questions survive the fold and settled ones do not: when no run id contains a
  colon, the requests in the folded journal are, in order, exactly the requests of the whole
  journal that no later resolution settles.\<close>

theorem fold_shows_pending_questions:
  assumes "\<forall>r \<in> set rs. colon_free_run r"
    and "fold_records (journalFoldVerdict num z) rs = Inr folded"
  shows "filter is_question folded = current is_question settles rs"
  by (rule questions.folded_shows_current [OF assms])

theorem fold_shows_pending_questions_witness:
  "\<exists>folded. fold_records sample_policy sample_journal = Inr folded \<and>
     filter is_question folded = [asks 2 ''run'' ''q2'']"
proof -
  obtain folded where f: "fold_records sample_policy sample_journal = Inr folded"
    by (simp add: fold_records_eq)
  have "\<forall>r \<in> set sample_journal. colon_free_run r"
    by (simp add: sample_journal_def colon_free_run_def sample_fields)
  from fold_shows_pending_questions [OF this f] f show ?thesis
    by (simp add: sample_journal_def sample_kinds)
qed

text \<open>Without the condition on run ids the names of two questions can be one, and resolving the one
  forgets the other.\<close>

lemma colliding_question_is_forgotten:
  "question_of (asks 1 ''a'' ''b:c'') = Some (''a'', ''b:c'') \<and>
   \<not> settles (settling 2 ''a:b'' ''c'') (asks 1 ''a'' ''b:c'') \<and>
   fold_records sample_policy [asks 1 ''a'' ''b:c'', settling 2 ''a:b'' ''c''] = Inr []"
proof -
  have "sample_policy (asks 1 ''a'' ''b:c'') = keep_verdict\<lparr>ve_group := Some ''i:a:b:c''\<rparr>"
    "sample_policy (settling 2 ''a:b'' ''c'') = keep_verdict\<lparr>ve_drop := True, ve_retire := [''i:a:b:c'']\<rparr>"
    by (simp_all add: journalFoldVerdict_def Let_def sample_fields interactionRequestedVerdict_def
        interactionResolvedVerdict_def interaction_name_def)
  then show ?thesis
    by (simp add: sample_facts settles_def fold_records_eq judged_self_def removes_def named_def)
qed

text \<open>The folded journal holds, for every command, exactly its latest update, unless a later
  tombstone prunes the command; this for command ids that do not begin like a tombstone's
  slot.\<close>

theorem fold_shows_latest_updates:
  assumes "\<forall>r \<in> set rs. proper_command r"
    and "fold_records (journalFoldVerdict num z) rs = Inr folded"
  shows "filter is_update folded = current is_update replaces_update rs"
  by (rule updates.folded_shows_current [OF assms])

theorem fold_shows_latest_updates_witness:
  "\<exists>folded. fold_records sample_policy sample_journal = Inr folded \<and>
     filter is_update folded = [updating 7 ''c1'']"
proof -
  obtain folded where f: "fold_records sample_policy sample_journal = Inr folded"
    by (simp add: fold_records_eq)
  have "\<forall>r \<in> set sample_journal. proper_command r"
    by (simp add: sample_journal_def proper_command_def sample_facts updated_name_def starts_with_def)
  from fold_shows_latest_updates [OF this f] f show ?thesis
    by (simp add: sample_journal_def sample_kinds)
qed

text \<open>No terminal event of a run is lost before its prune tombstone, and a second terminal of
  the same run, which is corruption, stays as visible as in the whole journal.\<close>

theorem fold_shows_run_terminals:
  assumes "fold_records (journalFoldVerdict num z) rs = Inr folded"
  shows "filter is_terminal_event folded = current is_terminal_event prunes_run rs"
  by (rule terminals.folded_shows_current [OF _ assms]) simp

theorem fold_shows_run_terminals_witness:
  "\<exists>folded. fold_records sample_policy sample_journal = Inr folded \<and>
     filter is_terminal_event folded = [ending 5 ''run'', ending 6 ''run'']"
proof -
  obtain folded where f: "fold_records sample_policy sample_journal = Inr folded"
    by (simp add: fold_records_eq)
  from fold_shows_run_terminals [OF f] f show ?thesis
    by (simp add: sample_journal_def sample_kinds)
qed

end
