(* ===== verification/Event_Store.thy ===== *)
theory Event_Store
  imports Journal_Policy Text_Ops
begin

text \<open>
  The event table of the engine store and the retention of commands
  (\<open>packages/daemon/src/store/retention.ts\<close>). A table is the list of its rows and a statement is
  what it does to them: a delete returns what it removed, an insert with a primary key that exists
  is refused. Every failure aborts the transaction, which the error value stands for.
\<close>

section \<open>Event rows\<close>

record event_row =
  er_pid :: nat
  er_seq :: int
  er_time :: string
  er_type :: string
  er_payload :: string
  er_payload_sha :: "string option"
  er_slot_key :: "string option"
  er_group_key :: "string option"

record event_input =
  ei_type :: string
  ei_payload :: json
  ei_time :: "string option"
  ei_payloadSha :: "string option"
  ei_encodedPayload :: "string option"

record event_store =
  sq_inTransaction :: bool
  sq_events :: "event_row list"
  sq_next_seq :: "(nat, int) jsmap"

record appended_event =
  ae_seq :: int
  ae_verdict :: fold_verdict
  ae_stored :: bool
  ae_releasedDigests :: "string list"

definition releasedPayloadDigests :: "event_row list \<Rightarrow> string list" where
  "releasedPayloadDigests rows = List.map_filter er_payload_sha rows"

definition in_slot :: "nat \<Rightarrow> string \<Rightarrow> event_row \<Rightarrow> bool" where
  "in_slot pid k e \<longleftrightarrow> er_pid e = pid \<and> er_slot_key e = Some k"

definition in_group :: "nat \<Rightarrow> string \<Rightarrow> event_row \<Rightarrow> bool" where
  "in_group pid k e \<longleftrightarrow> er_pid e = pid \<and> er_group_key e = Some k"

text \<open>\<open>DELETE ... RETURNING payload_sha\<close>.\<close>

definition delete_rows :: "(event_row \<Rightarrow> bool) \<Rightarrow> event_row list \<Rightarrow> event_row list \<times> string list" where
  "delete_rows P es = (filter (\<lambda>e. \<not> P e) es, releasedPayloadDigests (filter P es))"

fun delete_keys :: "nat \<Rightarrow> string list \<Rightarrow> event_row list \<Rightarrow> event_row list \<times> string list" where
  "delete_keys pid [] es = (es, [])"
| "delete_keys pid (k # ks) es =
     (case delete_rows (in_slot pid k) es of (es1, r1) \<Rightarrow>
      case delete_rows (in_group pid k) es1 of (es2, r2) \<Rightarrow>
      case delete_keys pid ks es2 of (es3, r3) \<Rightarrow> (es3, r1 @ r2 @ r3))"

definition deleteEventKeysInTx ::
    "nat \<Rightarrow> string list \<Rightarrow> event_store \<Rightarrow> string + (string list \<times> event_store)" where
  "deleteEventKeysInTx pid keys s =
     (if \<not> sq_inTransaction s then Inl ''row writes require the owner's transaction''
      else case delete_keys pid (unique keys) (sq_events s) of
             (es, released) \<Rightarrow> Inr (released, s\<lparr>sq_events := es\<rparr>))"

definition seq_taken :: "nat \<Rightarrow> int \<Rightarrow> event_row list \<Rightarrow> bool" where
  "seq_taken pid seq es \<longleftrightarrow> (\<exists>e \<in> set es. er_pid e = pid \<and> er_seq e = seq)"

definition insertEventInTx ::
    "(rat \<Rightarrow> string) \<Rightarrow> (fold_record \<Rightarrow> fold_verdict) \<Rightarrow> nat \<Rightarrow> int \<Rightarrow> string \<Rightarrow> event_input \<Rightarrow>
     event_store \<Rightarrow> string + (appended_event \<times> event_store)" where
  "insertEventInTx num verdictOf pid seq time inp s =
     (let bytes = nullish (ei_encodedPayload inp) (json_stringify num (ei_payload inp));
          verdict = verdictOf \<lparr>fr_seq = seq, fr_type = ei_type inp, fr_time = time,
            fr_payload = ei_payload inp, fr_byteLength = length bytes\<rparr> in
      case deleteEventKeysInTx pid (ve_retire verdict) s of
        Inl e \<Rightarrow> Inl e
      | Inr (released, s1) \<Rightarrow>
          let (es, taken) = (case ve_slot verdict of
                None \<Rightarrow> (sq_events s1, [])
              | Some k \<Rightarrow> delete_rows (in_slot pid k) (sq_events s1));
              row = \<lparr>er_pid = pid, er_seq = seq, er_time = time, er_type = ei_type inp,
                er_payload = (if ei_payloadSha inp = None then bytes else ''null''),
                er_payload_sha = ei_payloadSha inp,
                er_slot_key = ve_slot verdict, er_group_key = ve_group verdict\<rparr>;
              answer = \<lparr>ae_seq = seq, ae_verdict = verdict, ae_stored = (\<not> ve_drop verdict),
                ae_releasedDigests = released @ taken\<rparr> in
          if ve_drop verdict then Inr (answer, s1\<lparr>sq_events := es\<rparr>)
          else if seq_taken pid seq es then
            Inl ''UNIQUE constraint failed: event.pid, event.seq''
          else Inr (answer, s1\<lparr>sq_events := es @ [row]\<rparr>))"

definition restoreEventSequenceInTx :: "nat \<Rightarrow> int \<Rightarrow> event_store \<Rightarrow> string + event_store" where
  "restoreEventSequenceInTx pid nextSeq s =
     (if \<not> sq_inTransaction s then Inl ''row writes require the owner's transaction''
      else Inr (if jget (sq_next_seq s) pid = None then s
                else s\<lparr>sq_next_seq := jset pid nextSeq (sq_next_seq s)\<rparr>))"

definition appendEvent ::
    "(rat \<Rightarrow> string) \<Rightarrow> (fold_record \<Rightarrow> fold_verdict) \<Rightarrow> string \<Rightarrow> nat \<Rightarrow> event_input \<Rightarrow>
     event_store \<Rightarrow> string + (appended_event \<times> event_store)" where
  "appendEvent num verdictOf now pid inp s =
     (if \<not> sq_inTransaction s then Inl ''events are appended inside the owner's transaction''
      else case jget (sq_next_seq s) pid of
        None \<Rightarrow> Inl (''no partition generation '' @ show_nat pid)
      | Some seq \<Rightarrow>
          (case insertEventInTx num verdictOf pid seq (nullish (ei_time inp) now) inp s of
             Inl e \<Rightarrow> Inl e
           | Inr (answer, s1) \<Rightarrow>
               Inr (answer, s1\<lparr>sq_next_seq := jset pid (seq + 1) (sq_next_seq s1)\<rparr>)))"

text \<open>
  An event is prepared before its transaction: the bytes are printed once, and a body above the
  limit goes to a file that the row names by its digest. The rows of those files are not part of
  this table.
\<close>

definition INLINE_BODY_MAX_BYTES :: nat where "INLINE_BODY_MAX_BYTES = 65536"

record prepared_event =
  pe_type :: string
  pe_time :: string
  pe_payload :: json
  pe_encodedPayload :: string
  pe_body :: "string option"

definition prepareEvent ::
    "(rat \<Rightarrow> string) \<Rightarrow> (string \<Rightarrow> string) \<Rightarrow> string \<Rightarrow> string \<Rightarrow> json \<Rightarrow> prepared_event" where
  "prepareEvent num sha256 type time payload =
     (let bytes = json_stringify num payload in
      \<lparr>pe_type = type, pe_time = time, pe_payload = payload, pe_encodedPayload = bytes,
       pe_body = (if length bytes > INLINE_BODY_MAX_BYTES then Some (sha256 bytes) else None)\<rparr>)"

definition prepared_input :: "prepared_event \<Rightarrow> event_input" where
  "prepared_input e =
     \<lparr>ei_type = pe_type e, ei_payload = pe_payload e, ei_time = Some (pe_time e),
      ei_payloadSha = pe_body e, ei_encodedPayload = Some (pe_encodedPayload e)\<rparr>"

definition appendPreparedEventInTx ::
    "(rat \<Rightarrow> string) \<Rightarrow> (fold_record \<Rightarrow> fold_verdict) \<Rightarrow> string \<Rightarrow> nat \<Rightarrow> prepared_event \<Rightarrow>
     event_store \<Rightarrow> string + (appended_event \<times> event_store)" where
  "appendPreparedEventInTx num verdictOf now pid e s =
     appendEvent num verdictOf now pid (prepared_input e) s"

text \<open>A run of appends to one partition, each with the clock's reading.\<close>

fun append_events ::
    "(rat \<Rightarrow> string) \<Rightarrow> (fold_record \<Rightarrow> fold_verdict) \<Rightarrow> nat \<Rightarrow> (string \<times> event_input) list \<Rightarrow>
     event_store \<Rightarrow> string + event_store" where
  "append_events num verdictOf pid [] s = Inr s"
| "append_events num verdictOf pid ((now, inp) # rest) s =
     (case appendEvent num verdictOf now pid inp s of
        Inl e \<Rightarrow> Inl e | Inr (answer, s') \<Rightarrow> append_events num verdictOf pid rest s')"

section \<open>Retention of commands\<close>

datatype command_kind =
  ProductKind | DeliveryKind | MaintenanceKind | ModelKind | AccountResetKind

definition isModelOperation :: "json \<Rightarrow> bool" where
  "isModelOperation params \<longleftrightarrow> jprop params ''kind'' = Some (JStr ''model'')"

definition isHarnessMaintenanceOperation :: "json \<Rightarrow> bool" where
  "isHarnessMaintenanceOperation params \<longleftrightarrow>
     jprop params ''kind'' = Some (JStr ''harness_maintenance'')"

definition commandKind :: "string \<Rightarrow> json \<Rightarrow> command_kind" where
  "commandKind i params =
     (if starts_with i ''account-reset-'' then AccountResetKind
      else if starts_with i ''delivery-'' then DeliveryKind
      else if isModelOperation params then ModelKind
      else if isHarnessMaintenanceOperation params then MaintenanceKind
      else ProductKind)"

record command_entry =
  co_id :: string
  co_run_id :: "string option"
  co_run_dir :: "string option"
  co_continue_from :: "string option"
  co_created_at :: string
  co_finished_at :: "string option"
  co_kind :: command_kind
  co_live :: bool
  co_needs_decision :: bool

definition COMMAND_RETENTION_CAP :: nat where "COMMAND_RETENTION_CAP = 500"
definition COMMAND_RETENTION_BATCH :: nat where "COMMAND_RETENTION_BATCH = 100"

definition terminal_command :: "command_entry \<Rightarrow> bool" where
  "terminal_command c \<longleftrightarrow>
     co_live c \<and> co_kind c \<in> {ProductKind, DeliveryKind, MaintenanceKind} \<and> co_finished_at c \<noteq> None"

definition prunable :: "string \<Rightarrow> command_entry \<Rightarrow> bool" where
  "prunable cutoff c \<longleftrightarrow>
     terminal_command c \<and> \<not> co_needs_decision c \<and>
     (case co_finished_at c of None \<Rightarrow> False | Some t \<Rightarrow> t \<le> cutoff)"

definition command_key :: "command_entry \<Rightarrow> string list" where
  "command_key c = [co_created_at c, co_id c]"

definition terminalCommandCount :: "command_entry list \<Rightarrow> nat \<Rightarrow> nat \<Rightarrow> nat" where
  "terminalCommandCount commands cap batch =
     min (length (filter terminal_command commands)) (cap + batch)"

definition retained_predecessor :: "command_entry list \<Rightarrow> string \<Rightarrow> bool" where
  "retained_predecessor commands x \<longleftrightarrow>
     (\<exists>c \<in> set commands. co_live c \<and> (co_id c = x \<or> co_run_id c = Some x))"

text \<open>One keyset page: the prunable rows behind the key, in key order.\<close>

definition prunable_page ::
    "command_entry list \<Rightarrow> string \<Rightarrow> string list \<Rightarrow> nat \<Rightarrow> command_entry list" where
  "prunable_page commands cutoff aft batch =
     take batch (sort_key command_key (filter (\<lambda>c. prunable cutoff c \<and> aft < command_key c) commands))"

record retention_selection =
  rs_victims :: "command_entry list"
  rs_excess :: nat
  rs_visited :: nat
  rs_pages :: nat

definition exempted :: "command_entry list \<Rightarrow> (command_entry \<Rightarrow> bool) \<Rightarrow> command_entry \<Rightarrow> bool" where
  "exempted commands exempt c \<longleftrightarrow>
     (case co_continue_from c of None \<Rightarrow> False | Some x \<Rightarrow> retained_predecessor commands x) \<or> exempt c"

fun visit_page ::
    "(command_entry \<Rightarrow> bool) \<Rightarrow> nat \<Rightarrow> command_entry list \<Rightarrow> retention_selection \<Rightarrow> retention_selection" where
  "visit_page skip target [] sel = sel"
| "visit_page skip target (c # rows) sel =
     (let sel1 = sel\<lparr>rs_visited := rs_visited sel + 1\<rparr> in
      if skip c then visit_page skip target rows sel1
      else let sel2 = sel1\<lparr>rs_victims := rs_victims sel1 @ [c]\<rparr> in
           if target \<le> length (rs_victims sel2) then sel2 else visit_page skip target rows sel2)"

definition behind :: "command_entry list \<Rightarrow> string list \<Rightarrow> nat" where
  "behind commands aft = length (filter (\<lambda>c. aft < command_key c) commands)"

lemma behind_decreases:
  assumes "prunable_page commands cutoff aft batch \<noteq> []"
  shows "behind commands (command_key (last (prunable_page commands cutoff aft batch))) <
    behind commands aft"
proof -
  let ?page = "prunable_page commands cutoff aft batch"
  have l: "last ?page \<in> set commands" "aft < command_key (last ?page)"
    using last_in_set [OF assms] set_take_subset [of batch]
    by (auto simp: prunable_page_def dest!: in_set_takeD)
  have "behind commands (command_key (last ?page)) =
    length (filter (\<lambda>c. command_key (last ?page) < command_key c) (filter (\<lambda>c. aft < command_key c) commands))"
    using l(2) by (auto simp: behind_def intro!: arg_cong [where f = length] filter_cong)
  also have "\<dots> < length (filter (\<lambda>c. aft < command_key c) commands)"
    by (rule length_filter_less [of "last ?page"]) (use l in auto)
  finally show ?thesis by (simp add: behind_def)
qed

text \<open>The paging loop; each page starts behind the last row of the page before it.\<close>

function retention_pages ::
    "command_entry list \<Rightarrow> string \<Rightarrow> (command_entry \<Rightarrow> bool) \<Rightarrow> nat \<Rightarrow> nat \<Rightarrow> string list \<Rightarrow>
     retention_selection \<Rightarrow> retention_selection" where
  "retention_pages commands cutoff skip batch target aft sel =
     (if target \<le> length (rs_victims sel) then sel
      else let rows = prunable_page commands cutoff aft batch in
           if rows = [] then sel
           else retention_pages commands cutoff skip batch target (command_key (last rows))
             (visit_page skip target rows (sel\<lparr>rs_pages := rs_pages sel + 1\<rparr>)))"
  by pat_completeness auto

termination
  by (relation "measure (\<lambda>(commands, cutoff, skip, batch, target, aft, sel). behind commands aft)")
    (auto simp: behind_decreases)

declare retention_pages.simps [simp del]

definition commandRetentionCandidates ::
    "command_entry list \<Rightarrow> string \<Rightarrow> nat \<Rightarrow> nat \<Rightarrow> (command_entry \<Rightarrow> bool) \<Rightarrow> retention_selection" where
  "commandRetentionCandidates commands cutoff cap batch exempt =
     (let excess = terminalCommandCount commands cap batch - cap;
          selection = \<lparr>rs_victims = [], rs_excess = excess, rs_visited = 0, rs_pages = 0\<rparr> in
      if excess = 0 then selection
      else retention_pages commands cutoff (exempted commands exempt) batch (min excess batch)
             ['''', ''''] selection)"

end
