(* ===== verification/Interactions.thy ===== *)
theory Interactions
  imports Event_Store
begin

text \<open>
  The durable questions of a run: \<open>packages/daemon/src/store/interactions.ts\<close> (the rows and the
  store) with the request and resolution records of \<open>packages/daemon/src/interactions.ts\<close>. Each
  mutation is one transaction that changes a row and appends the matching event; an error undoes
  both. The live waiters of the registry are promises in memory and are not modelled.
\<close>

section \<open>Requests and resolutions\<close>

record interaction_context =
  ix_runId :: string
  ix_attemptId :: string
  ix_harnessId :: string
  ix_interaction_id :: string
  ix_source_tool :: "string option"
  ix_questions :: "json list"
  ix_requestedAt :: string
  ix_timeoutAt :: "string option"

record pending_view =
  pi_interactionId :: string
  pi_runId :: string
  pi_attemptId :: "string option"
  pi_harnessId :: "string option"
  pi_sourceTool :: "string option"
  pi_questions :: "json list"
  pi_requestedAt :: string
  pi_timeoutAt :: "string option"

datatype interaction_terminal = Answered | TimedOut | RunTerminal | InterruptedTerminal

fun terminal_name :: "interaction_terminal \<Rightarrow> string" where
  "terminal_name Answered = ''answered''"
| "terminal_name TimedOut = ''timeout''"
| "terminal_name RunTerminal = ''run_terminal''"
| "terminal_name InterruptedTerminal = ''interrupted''"

record interaction_resolution =
  rz_runId :: string
  rz_interactionIds :: "string list"
  rz_terminal :: interaction_terminal

definition interactionKey :: "string \<Rightarrow> string \<Rightarrow> string" where
  "interactionKey runId interactionId = runId @ nul_sep @ interactionId"

definition pendingInteraction :: "interaction_context \<Rightarrow> string + pending_view" where
  "pendingInteraction ctx =
     (if valid_id (ix_interaction_id ctx) \<and> valid_id (ix_runId ctx) then
        Inr \<lparr>pi_interactionId = ix_interaction_id ctx, pi_runId = ix_runId ctx,
          pi_attemptId = Some (ix_attemptId ctx), pi_harnessId = Some (ix_harnessId ctx),
          pi_sourceTool = ix_source_tool ctx, pi_questions = ix_questions ctx,
          pi_requestedAt = ix_requestedAt ctx, pi_timeoutAt = ix_timeoutAt ctx\<rparr>
      else Inl ''ZodError'')"

definition parseInteractionResolution ::
    "string \<Rightarrow> string list \<Rightarrow> interaction_terminal \<Rightarrow> string + interaction_resolution" where
  "parseInteractionResolution runId ids terminal =
     (if ids = [] \<or> (\<exists>i \<in> set ids. i = []) then Inl ''invalid interaction resolution''
      else Inr \<lparr>rz_runId = runId, rz_interactionIds = ids, rz_terminal = terminal\<rparr>)"

definition pending_json :: "pending_view \<Rightarrow> json" where
  "pending_json v =
     JObj [(''interactionId'', JStr (pi_interactionId v)), (''runId'', JStr (pi_runId v)),
       (''attemptId'', subject_json (pi_attemptId v)), (''harnessId'', subject_json (pi_harnessId v)),
       (''sourceTool'', subject_json (pi_sourceTool v)), (''questions'', JArr (pi_questions v)),
       (''requestedAt'', JStr (pi_requestedAt v)), (''timeoutAt'', subject_json (pi_timeoutAt v))]"

definition resolution_json :: "interaction_resolution \<Rightarrow> json" where
  "resolution_json z =
     JObj [(''runId'', JStr (rz_runId z)),
       (''interactionIds'', JArr (map JStr (rz_interactionIds z))),
       (''terminal'', JStr (terminal_name (rz_terminal z)))]"

section \<open>Rows\<close>

datatype interaction_state = PendingRow | ResolvedRow | InterruptedRow

record interaction_row =
  it_id :: string
  it_pid :: nat
  it_run_id :: string
  it_state :: interaction_state
  it_request :: pending_view
  it_resolution :: "interaction_resolution option"

record engine_tables =
  tb_events :: event_store
  tb_interactions :: "interaction_row list"

definition apply_request :: "nat \<Rightarrow> pending_view \<Rightarrow> interaction_row list \<Rightarrow> string + interaction_row list" where
  "apply_request pid v rows =
     (let key = interactionKey (pi_runId v) (pi_interactionId v) in
      if \<exists>r \<in> set rows. it_id r = key then Inl ''UNIQUE constraint failed: interaction.id''
      else Inr (rows @ [\<lparr>it_id = key, it_pid = pid, it_run_id = pi_runId v, it_state = PendingRow,
        it_request = v, it_resolution = None\<rparr>]))"

definition resolvable :: "nat \<Rightarrow> string \<Rightarrow> interaction_row \<Rightarrow> bool" where
  "resolvable pid key r \<longleftrightarrow> it_id r = key \<and> it_pid r = pid \<and> it_state r = PendingRow"

definition close_row :: "interaction_resolution \<Rightarrow> interaction_row \<Rightarrow> interaction_row" where
  "close_row z r =
     r\<lparr>it_state := (if rz_terminal z = InterruptedTerminal then InterruptedRow else ResolvedRow),
       it_resolution := Some z\<rparr>"

fun close_rows ::
    "nat \<Rightarrow> interaction_resolution \<Rightarrow> string list \<Rightarrow> interaction_row list \<Rightarrow>
     string + interaction_row list" where
  "close_rows pid z [] rows = Inr rows"
| "close_rows pid z (i # ids) rows =
     (let key = interactionKey (rz_runId z) i in
      if length (filter (resolvable pid key) rows) \<noteq> 1 then
        Inl ''interaction resolution precedes request''
      else close_rows pid z ids (map (\<lambda>r. if resolvable pid key r then close_row z r else r) rows))"

definition apply_resolution ::
    "nat \<Rightarrow> interaction_resolution \<Rightarrow> interaction_row list \<Rightarrow> string + interaction_row list" where
  "apply_resolution pid z rows = close_rows pid z (rz_interactionIds z) rows"

section \<open>The store\<close>

text \<open>What an operation has at hand: the verdicts, the partition and the clock.\<close>

record store_env =
  se_num :: "rat \<Rightarrow> string"
  se_sha256 :: "string \<Rightarrow> string"
  se_verdict :: "fold_record \<Rightarrow> fold_verdict"
  se_pid :: nat
  se_now :: string

definition append_in_tx ::
    "store_env \<Rightarrow> string \<Rightarrow> json \<Rightarrow> engine_tables \<Rightarrow> string + engine_tables" where
  "append_in_tx env type payload t =
     (case appendPreparedEventInTx (se_num env) (se_verdict env) (se_now env) (se_pid env)
             (prepareEvent (se_num env) (se_sha256 env) type (se_now env) payload)
             ((tb_events t)\<lparr>sq_inTransaction := True\<rparr>) of
        Inl e \<Rightarrow> Inl e
      | Inr (_, s) \<Rightarrow> Inr (t\<lparr>tb_events := s\<lparr>sq_inTransaction := False\<rparr>\<rparr>))"

datatype interaction_status = PendingStatus | ResolvedStatus | MissingStatus

definition interaction_status_of ::
    "store_env \<Rightarrow> string \<Rightarrow> string \<Rightarrow> engine_tables \<Rightarrow> interaction_status" where
  "interaction_status_of env runId i t =
     (case find (\<lambda>r. it_id r = interactionKey runId i \<and> it_pid r = se_pid env) (tb_interactions t) of
        None \<Rightarrow> MissingStatus
      | Some r \<Rightarrow> if it_state r = PendingRow then PendingStatus else ResolvedStatus)"

definition pendingForRun :: "store_env \<Rightarrow> string \<Rightarrow> engine_tables \<Rightarrow> pending_view list" where
  "pendingForRun env runId t =
     map it_request (filter (\<lambda>r. it_run_id r = runId \<and> it_pid r = se_pid env \<and> it_state r = PendingRow)
       (tb_interactions t))"

definition request ::
    "store_env \<Rightarrow> interaction_context \<Rightarrow> engine_tables \<Rightarrow> string + (pending_view \<times> engine_tables)" where
  "request env ctx t =
     (case pendingInteraction ctx of
        Inl e \<Rightarrow> Inl e
      | Inr v \<Rightarrow>
          if interaction_status_of env (pi_runId v) (pi_interactionId v) t \<noteq> MissingStatus then
            Inl (''duplicate interaction '' @ [CHR 0x27] @ pi_interactionId v @ [CHR 0x27] @
              '' for run '' @ [CHR 0x27] @ pi_runId v @ [CHR 0x27])
          else case apply_request (se_pid env) v (tb_interactions t) of
            Inl e \<Rightarrow> Inl e
          | Inr rows \<Rightarrow>
              (case append_in_tx env ''interaction.requested'' (pending_json v)
                      (t\<lparr>tb_interactions := rows\<rparr>) of
                 Inl e \<Rightarrow> Inl e | Inr t' \<Rightarrow> Inr (v, t')))"

definition commitResolution ::
    "store_env \<Rightarrow> string \<Rightarrow> string list \<Rightarrow> interaction_terminal \<Rightarrow> engine_tables \<Rightarrow>
     string + engine_tables" where
  "commitResolution env runId ids terminal t =
     (case parseInteractionResolution runId ids terminal of
        Inl e \<Rightarrow> Inl e
      | Inr z \<Rightarrow>
          (case apply_resolution (se_pid env) z (tb_interactions t) of
             Inl e \<Rightarrow> Inl e
           | Inr rows \<Rightarrow>
               append_in_tx env ''interaction.resolved'' (resolution_json z) (t\<lparr>tb_interactions := rows\<rparr>)))"

datatype resolve_answer = ResolvedAnswer | NotFoundAnswer | AlreadyResolvedAnswer

definition resolve_one ::
    "store_env \<Rightarrow> string \<Rightarrow> string \<Rightarrow> interaction_terminal \<Rightarrow> engine_tables \<Rightarrow>
     string + (resolve_answer \<times> engine_tables)" where
  "resolve_one env runId i terminal t =
     (case interaction_status_of env runId i t of
        MissingStatus \<Rightarrow> Inr (NotFoundAnswer, t)
      | ResolvedStatus \<Rightarrow> Inr (AlreadyResolvedAnswer, t)
      | PendingStatus \<Rightarrow>
          (case commitResolution env runId [i] terminal t of
             Inl e \<Rightarrow> Inl e | Inr t' \<Rightarrow> Inr (ResolvedAnswer, t')))"

definition resolveRun ::
    "store_env \<Rightarrow> string \<Rightarrow> interaction_terminal \<Rightarrow> engine_tables \<Rightarrow> string + (string list \<times> engine_tables)" where
  "resolveRun env runId terminal t =
     (let ids = map pi_interactionId (pendingForRun env runId t) in
      if ids = [] then Inr ([], t)
      else case commitResolution env runId ids terminal t of
             Inl e \<Rightarrow> Inl e | Inr t' \<Rightarrow> Inr (ids, t'))"

fun recover_runs :: "store_env \<Rightarrow> string list \<Rightarrow> engine_tables \<Rightarrow> string + engine_tables" where
  "recover_runs env [] t = Inr t"
| "recover_runs env (r # rs) t =
     (case resolveRun env r InterruptedTerminal t of
        Inl e \<Rightarrow> Inl e | Inr (_, t') \<Rightarrow> recover_runs env rs t')"

definition recoverAfterStartup :: "store_env \<Rightarrow> engine_tables \<Rightarrow> string + engine_tables" where
  "recoverAfterStartup env t =
     recover_runs env
       (unique (map it_run_id (filter (\<lambda>r. it_pid r = se_pid env \<and> it_state r = PendingRow)
         (tb_interactions t)))) t"

text \<open>
  The operations of the store and the appends of other owners, in any order. An operation that
  fails leaves the tables alone. The runs that ask and are answered are those of the set \<open>runs\<close>; the
  schema admits any non-empty string as a run id.
\<close>

text \<open>A run id without the two characters that separate the run from the question in a name.\<close>

definition plain_run :: "string \<Rightarrow> bool" where
  "plain_run run \<longleftrightarrow> CHR '':'' \<notin> set run \<and> CHR 0x00 \<notin> set run"

definition sql_env ::
    "(rat \<Rightarrow> string) \<Rightarrow> (string \<Rightarrow> string) \<Rightarrow> quota_parsers \<Rightarrow> nat \<Rightarrow> string \<Rightarrow> store_env" where
  "sql_env num sha z pid now =
     \<lparr>se_num = num, se_sha256 = sha, se_verdict = sqlEventVerdict num z, se_pid = pid, se_now = now\<rparr>"

inductive store_step ::
    "(rat \<Rightarrow> string) \<Rightarrow> (string \<Rightarrow> string) \<Rightarrow> quota_parsers \<Rightarrow> nat \<Rightarrow> string set \<Rightarrow>
     engine_tables \<Rightarrow> engine_tables \<Rightarrow> bool"
  for num :: "rat \<Rightarrow> string" and sha :: "string \<Rightarrow> string" and z :: quota_parsers and pid :: nat
    and runs :: "string set" where
  asked: "ix_runId ctx \<in> runs \<Longrightarrow> request (sql_env num sha z pid now) ctx t = Inr (v, t') \<Longrightarrow>
            store_step num sha z pid runs t t'"
| answered: "runId \<in> runs \<Longrightarrow>
            resolve_one (sql_env num sha z pid now) runId i terminal t = Inr (answer, t') \<Longrightarrow>
            store_step num sha z pid runs t t'"
| run_ended: "resolveRun (sql_env num sha z pid now) runId terminal t = Inr (ids, t') \<Longrightarrow>
            store_step num sha z pid runs t t'"
| restarted: "recoverAfterStartup (sql_env num sha z pid now) t = Inr t' \<Longrightarrow> store_step num sha z pid runs t t'"
| other_event: "type \<noteq> ''interaction.requested'' \<Longrightarrow> type \<noteq> ''interaction.resolved'' \<Longrightarrow>
            append_in_tx (sql_env num sha z pid now) type payload t = Inr t' \<Longrightarrow> store_step num sha z pid runs t t'"

definition store_start :: "nat \<Rightarrow> engine_tables \<Rightarrow> bool" where
  "store_start pid t \<longleftrightarrow>
     (\<forall>e \<in> set (sq_events (tb_events t)). er_pid e \<noteq> pid) \<and>
     (\<forall>r \<in> set (tb_interactions t). it_pid r \<noteq> pid)"

end
