(* ===== verification/Store_Props.thy ===== *)
theory Store_Props
  imports Journal_Props Interactions
begin

text \<open>
  The SQL store: its event table is the fold of what was appended, its rows of pending questions
  and its retained request events stay the same questions, and retention pages through exactly the
  oldest commands it may prune.
\<close>

section \<open>One append\<close>

definition part :: "nat \<Rightarrow> event_row list \<Rightarrow> event_row list" where
  "part pid es = filter (\<lambda>e. er_pid e = pid) es"

definition other_parts :: "nat \<Rightarrow> event_row list \<Rightarrow> event_row list" where
  "other_parts pid es = filter (\<lambda>e. er_pid e \<noteq> pid) es"

lemma delete_keys_rows:
  "fst (delete_keys pid ks es) =
     filter (\<lambda>e. \<not> (er_pid e = pid \<and> (\<exists>k \<in> set ks. named k (er_slot_key e) (er_group_key e)))) es"
  by (induction pid ks es rule: delete_keys.induct)
    (auto simp: delete_rows_def in_slot_def in_group_def named_def split: prod.splits
      intro!: filter_cong)

definition row_of ::
    "(rat \<Rightarrow> string) \<Rightarrow> fold_verdict \<Rightarrow> nat \<Rightarrow> int \<Rightarrow> string \<Rightarrow> event_input \<Rightarrow> event_row" where
  "row_of num v pid seq time inp =
     \<lparr>er_pid = pid, er_seq = seq, er_time = time, er_type = ei_type inp,
      er_payload = (if ei_payloadSha inp = None
        then nullish (ei_encodedPayload inp) (json_stringify num (ei_payload inp)) else ''null''),
      er_payload_sha = ei_payloadSha inp, er_slot_key = ve_slot v, er_group_key = ve_group v\<rparr>"

definition view_of ::
    "(rat \<Rightarrow> string) \<Rightarrow> int \<Rightarrow> string \<Rightarrow> event_input \<Rightarrow> fold_record" where
  "view_of num seq time inp =
     \<lparr>fr_seq = seq, fr_type = ei_type inp, fr_time = time, fr_payload = ei_payload inp,
      fr_byteLength = length (nullish (ei_encodedPayload inp) (json_stringify num (ei_payload inp)))\<rparr>"

definition removed_by :: "fold_verdict \<Rightarrow> event_row \<Rightarrow> bool" where
  "removed_by v e \<longleftrightarrow> removes v (er_slot_key e) (er_group_key e)"

definition taken_rows :: "nat \<Rightarrow> fold_verdict \<Rightarrow> event_row list \<Rightarrow> event_row list" where
  "taken_rows pid v es = filter (\<lambda>e. \<not> (er_pid e = pid \<and> removed_by v e)) es"

lemma insertEventInTx_eq:
  assumes "sq_inTransaction s"
  shows "map_sum id snd (insertEventInTx num verdictOf pid seq time inp s) =
    (let v = verdictOf (view_of num seq time inp); es = taken_rows pid v (sq_events s) in
     if ve_drop v then Inr (s\<lparr>sq_events := es\<rparr>)
     else if seq_taken pid seq es then
       Inl ''UNIQUE constraint failed: event.pid, event.seq''
     else Inr (s\<lparr>sq_events := es @ [row_of num v pid seq time inp]\<rparr>))"
proof -
  let ?v = "verdictOf (view_of num seq time inp)"
  obtain es1 r1 where d: "delete_keys pid (unique (ve_retire ?v)) (sq_events s) = (es1, r1)"
    by (metis surj_pair)
  have es1: "es1 = filter (\<lambda>e. \<not> (er_pid e = pid \<and>
      (\<exists>k \<in> set (ve_retire ?v). named k (er_slot_key e) (er_group_key e)))) (sq_events s)"
    using delete_keys_rows [of pid "unique (ve_retire ?v)" "sq_events s"] d by simp
  have taken: "(case ve_slot ?v of None \<Rightarrow> es1 | Some k \<Rightarrow> filter (\<lambda>e. \<not> in_slot pid k e) es1) =
    taken_rows pid ?v (sq_events s)"
    by (auto simp: es1 taken_rows_def removed_by_def removes_def in_slot_def split: option.split
        intro!: filter_cong)
  show ?thesis
    using assms d taken
    by (cases "ve_slot ?v")
      (simp_all add: insertEventInTx_def deleteEventKeysInTx_def view_of_def [symmetric] Let_def
        delete_rows_def row_of_def)
qed

lemma taken_rows_parts:
  "part pid (taken_rows pid v es) = filter (\<lambda>e. \<not> removed_by v e) (part pid es)"
  "other_parts pid (taken_rows pid v es) = other_parts pid es"
  by (auto simp: part_def other_parts_def taken_rows_def intro: filter_cong)

lemma part_append [simp]:
  "part pid [] = []" "other_parts pid [] = []"
  "part pid (xs @ ys) = part pid xs @ part pid ys"
  "other_parts pid (xs @ ys) = other_parts pid xs @ other_parts pid ys"
  by (simp_all add: part_def other_parts_def)

lemma part_row [simp]:
  "part pid [row_of num v pid seq time inp] = [row_of num v pid seq time inp]"
  "other_parts pid [row_of num v pid seq time inp] = []"
  by (simp_all add: part_def other_parts_def row_of_def)

definition ready :: "nat \<Rightarrow> int \<Rightarrow> event_store \<Rightarrow> bool" where
  "ready pid n s \<longleftrightarrow>
     sq_inTransaction s \<and> jget (sq_next_seq s) pid = Some n \<and>
     (\<forall>e \<in> set (part pid (sq_events s)). er_seq e < n)"

lemma appendEvent_ready:
  assumes "ready pid n s"
  shows "\<exists>a s'. appendEvent num verdictOf now pid inp s = Inr (a, s') \<and> ready pid (n + 1) s' \<and>
    other_parts pid (sq_events s') = other_parts pid (sq_events s) \<and>
    (let time = nullish (ei_time inp) now; v = verdictOf (view_of num n time inp) in
     part pid (sq_events s') = filter (\<lambda>e. \<not> removed_by v e) (part pid (sq_events s)) @
       (if ve_drop v then [] else [row_of num v pid n time inp]))"
proof -
  define time where "time = nullish (ei_time inp) now"
  define v where "v = verdictOf (view_of num n time inp)"
  let ?es = "taken_rows pid v (sq_events s)"
  have tx: "sq_inTransaction s" and seq: "jget (sq_next_seq s) pid = Some n"
    using assms by (simp_all add: ready_def)
  have new: "\<not> seq_taken pid n ?es"
    using assms by (fastforce simp: ready_def taken_rows_def part_def seq_taken_def)
  have ins: "map_sum id snd (insertEventInTx num verdictOf pid n time inp s) =
    Inr (s\<lparr>sq_events := ?es @ (if ve_drop v then [] else [row_of num v pid n time inp])\<rparr>)"
    using new by (simp add: insertEventInTx_eq [OF tx] Let_def v_def [symmetric])
  then obtain a where a: "insertEventInTx num verdictOf pid n time inp s =
    Inr (a, s\<lparr>sq_events := ?es @ (if ve_drop v then [] else [row_of num v pid n time inp])\<rparr>)"
    by (cases "insertEventInTx num verdictOf pid n time inp s") auto
  let ?s = "s\<lparr>sq_events := ?es @ (if ve_drop v then [] else [row_of num v pid n time inp]),
    sq_next_seq := jset pid (n + 1) (sq_next_seq s)\<rparr>"
  have "appendEvent num verdictOf now pid inp s = Inr (a, ?s)"
    by (simp add: appendEvent_def tx seq time_def [symmetric] a)
  moreover have parts: "part pid (sq_events ?s) = filter (\<lambda>e. \<not> removed_by v e) (part pid (sq_events s)) @
       (if ve_drop v then [] else [row_of num v pid n time inp])"
    "other_parts pid (sq_events ?s) = other_parts pid (sq_events s)"
    by (simp_all add: taken_rows_parts)
  moreover have "ready pid (n + 1) ?s"
    using assms unfolding ready_def parts(1) by (auto simp: row_of_def)
  ultimately show ?thesis by (simp add: Let_def time_def v_def)
qed

section \<open>A run of appends is the fold\<close>

fun input_rows ::
    "(rat \<Rightarrow> string) \<Rightarrow> (fold_record \<Rightarrow> fold_verdict) \<Rightarrow> nat \<Rightarrow> int \<Rightarrow> (string \<times> event_input) list \<Rightarrow>
     (event_row \<times> fold_record) list" where
  "input_rows num verdictOf pid n [] = []"
| "input_rows num verdictOf pid n ((now, inp) # rest) =
     (let time = nullish (ei_time inp) now; view = view_of num n time inp in
      (row_of num (verdictOf view) pid n time inp, view) # input_rows num verdictOf pid (n + 1) rest)"

definition survive :: "(event_row \<times> fold_verdict) list \<Rightarrow> event_row list \<Rightarrow> event_row list" where
  "survive rs es =
     filter (\<lambda>e. \<not> (\<exists>(r, v) \<in> set rs. removed_by v e)) es @ map fst (survivors rs)"

lemma append_events_survive:
  "ready pid n s \<Longrightarrow>
   \<exists>s'. append_events num verdictOf pid inputs s = Inr s' \<and> ready pid (n + int (length inputs)) s' \<and>
     other_parts pid (sq_events s') = other_parts pid (sq_events s) \<and>
     part pid (sq_events s') =
       survive (judged verdictOf (input_rows num verdictOf pid n inputs)) (part pid (sq_events s))"
proof (induction inputs arbitrary: n s)
  case Nil
  then show ?case by (simp add: survive_def judged_def)
next
  case (Cons x inputs)
  obtain now inp where x: "x = (now, inp)" by (cases x)
  define time where "time = nullish (ei_time inp) now"
  define v where "v = verdictOf (view_of num n time inp)"
  obtain a s1 where s1: "appendEvent num verdictOf now pid inp s = Inr (a, s1)" "ready pid (n + 1) s1"
    "other_parts pid (sq_events s1) = other_parts pid (sq_events s)"
    "part pid (sq_events s1) = filter (\<lambda>e. \<not> removed_by v e) (part pid (sq_events s)) @
       (if ve_drop v then [] else [row_of num v pid n time inp])"
    using appendEvent_ready [OF Cons.prems, of num verdictOf now inp]
    by (auto simp: Let_def time_def v_def)
  obtain s' where s': "append_events num verdictOf pid inputs s1 = Inr s'"
    "ready pid (n + 1 + int (length inputs)) s'"
    "other_parts pid (sq_events s') = other_parts pid (sq_events s1)"
    "part pid (sq_events s') =
      survive (judged verdictOf (input_rows num verdictOf pid (n + 1) inputs)) (part pid (sq_events s1))"
    using Cons.IH [OF s1(2)] by blast
  let ?rest = "judged verdictOf (input_rows num verdictOf pid (n + 1) inputs)"
  have "judged verdictOf (input_rows num verdictOf pid n (x # inputs)) =
    (row_of num v pid n time inp, v) # ?rest"
    by (simp add: x judged_def Let_def time_def v_def)
  moreover have "removed_by w (row_of num v pid n time inp) \<longleftrightarrow> removes w (ve_slot v) (ve_group v)" for w
    by (simp add: removed_by_def row_of_def)
  ultimately have "survive ?rest (part pid (sq_events s1)) =
    survive (judged verdictOf (input_rows num verdictOf pid n (x # inputs))) (part pid (sq_events s))"
    by (auto simp: s1(4) survive_def intro!: filter_cong)
  then show ?case
    using s1 s' by (simp add: x add.assoc)
qed
text \<open>C18: The SQL store and the fold engine are the same fold: after any run of appends to a
  partition that starts empty, under any policy, no append has failed, the partition's rows are
  exactly the records that the in-memory engine retains, in order, the rows of every other
  partition are untouched, and every append, stored or not, has consumed one sequence number.\<close>

theorem sql_store_is_the_fold:
  assumes "sq_inTransaction s" "jget (sq_next_seq s) pid = Some n" "part pid (sq_events s) = []"
  shows "\<exists>s' res. append_events num verdictOf pid inputs s = Inr s' \<and>
    fold_journal verdictOf (input_rows num verdictOf pid n inputs) = Inr res \<and>
    part pid (sq_events s') = fo_retained res \<and>
    other_parts pid (sq_events s') = other_parts pid (sq_events s) \<and>
    jget (sq_next_seq s') pid = Some (n + int (length inputs))"
proof -
  have "ready pid n s" using assms by (simp add: ready_def)
  from append_events_survive [OF this, of num verdictOf inputs] obtain s' where s':
    "append_events num verdictOf pid inputs s = Inr s'" "ready pid (n + int (length inputs)) s'"
    "other_parts pid (sq_events s') = other_parts pid (sq_events s)"
    "part pid (sq_events s') =
      survive (judged verdictOf (input_rows num verdictOf pid n inputs)) (part pid (sq_events s))"
    by blast
  then show ?thesis
    using fold_journal_eq [of verdictOf "input_rows num verdictOf pid n inputs"] assms(3)
    by (auto simp: survive_def ready_def)
qed

theorem sql_store_is_the_fold_witness:
  "\<exists>s'. append_events (\<lambda>_. []) sample_policy 1
      [(''t1'', \<lparr>ei_type = ''note'', ei_payload = JNull, ei_time = None, ei_payloadSha = None,
          ei_encodedPayload = None\<rparr>)]
      \<lparr>sq_inTransaction = True, sq_events = [], sq_next_seq = [(1, 5)]\<rparr> = Inr s' \<and>
     jget (sq_next_seq s') 1 = Some 6"
  using sql_store_is_the_fold [of "\<lparr>sq_inTransaction = True, sq_events = [], sq_next_seq = [(1, 5)]\<rparr>"
      1 5 "\<lambda>_. []" sample_policy "[(''t1'', \<lparr>ei_type = ''note'', ei_payload = JNull,
        ei_time = None, ei_payloadSha = None, ei_encodedPayload = None\<rparr>)]"]
  by (auto simp: part_def)

section \<open>Retention\<close>

text \<open>The commands that may go, oldest first, and what the selection should be.\<close>

definition candidates_after ::
    "command_entry list \<Rightarrow> string \<Rightarrow> string list \<Rightarrow> command_entry list" where
  "candidates_after commands cutoff aft =
     sort_key command_key (filter (\<lambda>c. prunable cutoff c \<and> aft < command_key c) commands)"

lemma visit_page_victims:
  "length (rs_victims sel) < target \<Longrightarrow>
     rs_victims (visit_page skip target rows sel) =
       rs_victims sel @ take (target - length (rs_victims sel)) (filter (\<lambda>c. \<not> skip c) rows)"
proof (induction skip target rows sel rule: visit_page.induct)
  case (2 skip target c rows sel)
  show ?case
  proof (cases "skip c")
    case True
    then show ?thesis using 2 by simp
  next
    case False
    show ?thesis
    proof (cases "target \<le> length (rs_victims sel) + 1")
      case True
      then have "target - length (rs_victims sel) = Suc 0" using 2(3) by simp
      then show ?thesis using False True by simp
    next
      case more: False
      then have "target - length (rs_victims sel) = Suc (target - Suc (length (rs_victims sel)))"
        by simp
      then show ?thesis using 2(2) False more by simp
    qed
  qed
qed simp

lemma visit_page_visited:
  "rs_visited (visit_page skip target rows sel) \<le> rs_visited sel + length rows"
  by (induction skip target rows sel rule: visit_page.induct) (auto simp: Let_def)

lemma command_key_inj:
  "command_key c = command_key d \<Longrightarrow> co_id c = co_id d"
  by (simp add: command_key_def)

lemma candidates_split:
  assumes ids: "distinct (map co_id commands)"
    and page: "prunable_page commands cutoff aft batch \<noteq> []"
  shows "candidates_after commands cutoff aft =
    prunable_page commands cutoff aft batch @
    candidates_after commands cutoff (command_key (last (prunable_page commands cutoff aft batch)))"
proof -
  let ?all = "candidates_after commands cutoff aft" and ?page = "prunable_page commands cutoff aft batch"
  let ?k = "command_key (last ?page)"
  have page_def: "?page = take batch ?all" by (simp add: prunable_page_def candidates_after_def)
  have srt: "sorted (map command_key ?all)" by (simp add: candidates_after_def)
  have "distinct commands" using ids by (simp add: distinct_map)
  then have dist: "distinct ?all" by (simp add: candidates_after_def)
  have inj: "inj_on command_key (set ?all)"
  proof (rule inj_onI)
    fix c d assume "c \<in> set ?all" "d \<in> set ?all" "command_key c = command_key d"
    then show "c = d"
      using ids command_key_inj [of c d]
      by (auto simp: candidates_after_def distinct_map dest: inj_onD)
  qed
  have strict: "sorted_wrt (<) (map command_key ?all)"
    using srt dist inj by (simp add: strict_sorted_iff distinct_map)
  have lst: "last ?page = ?all ! (length ?page - 1)" "length ?page \<le> length ?all" "0 < length ?page"
    using page by (auto simp: page_def last_conv_nth)
  have low: "\<forall>c \<in> set ?page. command_key c \<le> ?k"
  proof
    fix c assume "c \<in> set ?page"
    then obtain i where i: "i < length ?page" "c = ?all ! i"
      by (auto simp: page_def in_set_conv_nth)
    then show "command_key c \<le> ?k"
      using srt lst by (cases "i = length ?page - 1") (auto simp: sorted_iff_nth_mono)
  qed
  have high: "\<forall>c \<in> set (drop batch ?all). ?k < command_key c"
  proof
    fix c assume "c \<in> set (drop batch ?all)"
    then obtain i where i: "i < length ?all - batch" "c = ?all ! (batch + i)"
      by (auto simp: in_set_conv_nth)
    then have j: "batch + i < length ?all" by simp
    then have "length ?page - 1 < batch + i" using lst by (auto simp: page_def)
    then show "?k < command_key c"
      using strict j i(2) lst(1) by (simp add: sorted_wrt_iff_nth_less)
  qed
  have "last ?page \<in> set ?all" using last_in_set [OF page] unfolding page_def by (rule in_set_takeD)
  then have k: "aft < ?k" by (simp add: candidates_after_def)
  have "candidates_after commands cutoff ?k = filter (\<lambda>c. ?k < command_key c) ?all"
    using k unfolding candidates_after_def filter_sort [symmetric]
    by (auto intro!: arg_cong [where f = "sort_key command_key"] filter_cong)
  also have "\<dots> = filter (\<lambda>c. ?k < command_key c) (take batch ?all) @
    filter (\<lambda>c. ?k < command_key c) (drop batch ?all)"
    by (metis append_take_drop_id filter_append)
  also have "\<dots> = drop batch ?all"
    using low high by (auto simp: page_def [symmetric] filter_empty_conv intro!: filter_True)
  finally show ?thesis by (simp add: page_def)
qed

lemma visit_page_pages [simp]:
  "rs_pages (visit_page skip target rows sel) = rs_pages sel"
  by (induction skip target rows sel rule: visit_page.induct) (auto simp: Let_def)

lemma retention_pages_count:
  assumes "distinct (map co_id commands)" "0 < batch"
  shows "rs_pages (retention_pages commands cutoff skip batch target aft sel) \<le>
    rs_pages sel + (length (candidates_after commands cutoff aft) + batch - 1) div batch"
  using assms
proof (induction commands cutoff skip batch target aft sel rule: retention_pages.induct)
  case (1 commands cutoff skip batch target aft sel)
  let ?page = "prunable_page commands cutoff aft batch"
  let ?sel = "visit_page skip target ?page (sel\<lparr>rs_pages := rs_pages sel + 1\<rparr>)"
  let ?rest = "candidates_after commands cutoff (command_key (last ?page))"
  show ?case
  proof (cases "target \<le> length (rs_victims sel) \<or> ?page = []")
    case True
    then show ?thesis by (subst retention_pages.simps) auto
  next
    case False
    have eq: "retention_pages commands cutoff skip batch target aft sel =
      retention_pages commands cutoff skip batch target (command_key (last ?page)) ?sel"
      using False by (subst retention_pages.simps) (simp add: Let_def)
    have split: "candidates_after commands cutoff aft = ?page @ ?rest"
      using candidates_split 1(2) False by blast
    have len: "length ?page = min (length (candidates_after commands cutoff aft)) batch"
      by (simp add: prunable_page_def candidates_after_def)
    have n: "length (candidates_after commands cutoff aft) = length ?page + length ?rest"
      using arg_cong [OF split, of length] by simp
    have "(length ?rest + batch - 1) div batch + 1 \<le>
      (length (candidates_after commands cutoff aft) + batch - 1) div batch"
    proof (cases "?rest = []")
      case True
      have "0 < length ?page" using False by simp
      then have "batch \<le> length (candidates_after commands cutoff aft) + batch - 1"
        using n by linarith
      then have "1 \<le> (length (candidates_after commands cutoff aft) + batch - 1) div batch"
        using \<open>0 < batch\<close> by (simp add: div_greater_zero_iff Suc_le_eq)
      then show ?thesis using True \<open>0 < batch\<close> by simp
    next
      case more: False
      then have "0 < length ?rest" by simp
      then have "length ?page = batch" using len n by linarith
      then have "length (candidates_after commands cutoff aft) + batch - 1 =
        length ?rest + batch - 1 + batch"
        using n \<open>0 < batch\<close> by linarith
      then show ?thesis
        using div_add_self2 [of batch "length ?rest + batch - 1"] \<open>0 < batch\<close>
        by (simp only: le_refl)
    qed
    moreover have "rs_pages ?sel = rs_pages sel + 1" by simp
    moreover have "rs_pages (retention_pages commands cutoff skip batch target (command_key (last ?page)) ?sel)
      \<le> rs_pages ?sel + (length ?rest + batch - 1) div batch"
      using 1(1) [OF _ refl _ 1(2,3)] False by blast
    ultimately show ?thesis unfolding eq by linarith
  qed
qed

lemma retention_pages_spec:
  assumes "distinct (map co_id commands)" "0 < batch"
  shows "length (rs_victims sel) \<le> target \<Longrightarrow>
    rs_victims (retention_pages commands cutoff skip batch target aft sel) =
      rs_victims sel @ take (target - length (rs_victims sel))
        (filter (\<lambda>c. \<not> skip c) (candidates_after commands cutoff aft)) \<and>
    rs_visited (retention_pages commands cutoff skip batch target aft sel) \<le>
      rs_visited sel + length (candidates_after commands cutoff aft)"
  using assms
proof (induction commands cutoff skip batch target aft sel rule: retention_pages.induct)
  case (1 commands cutoff skip batch target aft sel)
  let ?page = "prunable_page commands cutoff aft batch"
  let ?sel = "visit_page skip target ?page (sel\<lparr>rs_pages := rs_pages sel + 1\<rparr>)"
  show ?case
  proof (cases "target \<le> length (rs_victims sel)")
    case True
    then show ?thesis using 1 by (simp add: retention_pages.simps)
  next
    case more: False
    show ?thesis
    proof (cases "?page = []")
      case True
      then have "candidates_after commands cutoff aft = []"
        using \<open>0 < batch\<close> by (simp add: prunable_page_def candidates_after_def)
      then show ?thesis using True more by (subst (1 2) retention_pages.simps) simp
    next
      case False
      have v: "rs_victims ?sel = rs_victims sel @
          take (target - length (rs_victims sel)) (filter (\<lambda>c. \<not> skip c) ?page)"
        using more visit_page_victims [of "sel\<lparr>rs_pages := rs_pages sel + 1\<rparr>" target skip ?page] by simp
      have n: "rs_visited ?sel \<le> rs_visited sel + length ?page"
        using visit_page_visited [of skip target ?page "sel\<lparr>rs_pages := rs_pages sel + 1\<rparr>"] by simp
      have le: "length (rs_victims ?sel) \<le> target" unfolding v using more by simp
      have eq: "retention_pages commands cutoff skip batch target aft sel =
        retention_pages commands cutoff skip batch target (command_key (last ?page)) ?sel"
        using more False by (subst retention_pages.simps) (simp add: Let_def)
      have room: "target - (a + min b (target - a)) = target - (a + b)" for a b :: nat
        by (simp add: min_def)
      note ih = "1.IH" [OF more refl False le "1.prems"(2,3)]
      show ?thesis
        using ih n unfolding eq candidates_split [OF \<open>distinct (map co_id commands)\<close> False] v
        by (simp add: take_append room)
    qed
  qed
qed

text \<open>What is selected without paging: the oldest candidates that nothing exempts.\<close>

definition oldest_prunable ::
    "command_entry list \<Rightarrow> string \<Rightarrow> (command_entry \<Rightarrow> bool) \<Rightarrow> command_entry list" where
  "oldest_prunable commands cutoff exempt =
     filter (\<lambda>c. \<not> exempted commands exempt c) (sort_key command_key (filter (prunable cutoff) commands))"

lemma candidates_after_start:
  assumes "'''' \<notin> co_id ` set commands"
  shows "candidates_after commands cutoff ['''', ''''] = sort_key command_key (filter (prunable cutoff) commands)"
proof -
  have "['''', ''''] < command_key c" if "c \<in> set commands" for c
    using assms that by (cases "co_created_at c"; cases "co_id c") (force simp: command_key_def)+
  then show ?thesis
    by (auto simp: candidates_after_def intro!: arg_cong [where f = "sort_key command_key"] filter_cong)
qed

lemma selection_target:
  "min (terminalCommandCount commands cap batch - cap) batch =
    min batch (length (filter terminal_command commands) - cap)"
  by (auto simp: terminalCommandCount_def)

text \<open>C23: Retention takes exactly the oldest commands: whatever the page size, the victims are the
  first commands, in order of creation, that are terminal, finished before the cutoff, need no
  decision, continue no command that is retained and are not exempted, and there are as many of
  them as the number of terminal commands exceeds the cap, at most one batch.\<close>

theorem retention_selects_oldest:
  assumes "distinct (map co_id commands)" "'''' \<notin> co_id ` set commands" "0 < batch"
  shows "rs_victims (commandRetentionCandidates commands cutoff cap batch exempt) =
    take (min batch (length (filter terminal_command commands) - cap))
      (oldest_prunable commands cutoff exempt)"
  using conjunct1 [OF retention_pages_spec [OF assms(1,3),
      of "\<lparr>rs_victims = [], rs_excess = terminalCommandCount commands cap batch - cap,
        rs_visited = 0, rs_pages = 0\<rparr>" _ cutoff "exempted commands exempt" "['''', '''']"]]
    selection_target [of commands cap batch]
  by (auto simp: commandRetentionCandidates_def Let_def oldest_prunable_def
      candidates_after_start [OF assms(2)])

text \<open>The paging loop ends, and in time: each page starts behind the one before it, so no
  candidate is visited twice and the number of pages read is at most the number of candidates
  divided by the page size, rounded up.\<close>

theorem retention_paging_ends:
  assumes "distinct (map co_id commands)" "'''' \<notin> co_id ` set commands" "0 < batch"
  shows "rs_visited (commandRetentionCandidates commands cutoff cap batch exempt) \<le>
      length (filter (prunable cutoff) commands) \<and>
    rs_pages (commandRetentionCandidates commands cutoff cap batch exempt) \<le>
      (length (filter (prunable cutoff) commands) + batch - 1) div batch"
proof -
  let ?sel = "\<lparr>rs_victims = [], rs_excess = terminalCommandCount commands cap batch - cap,
        rs_visited = 0, rs_pages = 0\<rparr>"
  let ?pages = "\<lambda>t. retention_pages commands cutoff (exempted commands exempt) batch t ['''', ''''] ?sel"
  have "rs_visited (?pages t) \<le> length (filter (prunable cutoff) commands)" for t
    using conjunct2 [OF retention_pages_spec [OF assms(1,3), of ?sel t cutoff "exempted commands exempt" "['''', '''']"]]
    by (simp add: candidates_after_start [OF assms(2)])
  moreover have "rs_pages (?pages t) \<le> (length (filter (prunable cutoff) commands) + batch - 1) div batch" for t
    using retention_pages_count [OF assms(1,3), of cutoff "exempted commands exempt" t "['''', '''']" ?sel]
    by (simp add: candidates_after_start [OF assms(2)])
  ultimately show ?thesis by (simp add: commandRetentionCandidates_def Let_def)
qed

definition sample_command :: "string \<Rightarrow> string \<Rightarrow> command_entry" where
  "sample_command i t =
     \<lparr>co_id = i, co_run_id = None, co_run_dir = None, co_continue_from = None, co_created_at = t,
      co_finished_at = Some t, co_kind = ProductKind, co_live = True, co_needs_decision = False\<rparr>"

definition sample_commands :: "command_entry list" where
  "sample_commands = [sample_command ''b'' ''2'', sample_command ''a'' ''1'', sample_command ''c'' ''3'']"

lemmas sample_command_simps = sample_commands_def sample_command_def oldest_prunable_def exempted_def
  prunable_def terminal_command_def command_key_def

theorem retention_selects_oldest_witness:
  "rs_victims (commandRetentionCandidates sample_commands ''9'' 1 5 (\<lambda>_. False)) =
     [sample_command ''a'' ''1'', sample_command ''b'' ''2'']"
  by (subst retention_selects_oldest) (simp_all add: sample_command_simps)

theorem retention_paging_ends_witness:
  "rs_pages (commandRetentionCandidates sample_commands ''9'' 1 2 (\<lambda>_. False)) \<le> 2"
  using retention_paging_ends [of sample_commands 2 "''9''" 1 "\<lambda>_. False"]
  by (simp add: sample_command_simps)

end
