(* ===== verification/Interaction_Props.thy ===== *)
theory Interaction_Props
  imports Store_Props Machine
begin

text \<open>
  The two places that hold a pending question, its row and its request event, agree in every state
  that the store's operations reach: the invariant, its preservation by each operation, and the
  interpretation of the locale of invariants.
\<close>

section \<open>The invariant\<close>

definition pending_rows :: "nat \<Rightarrow> interaction_row list \<Rightarrow> interaction_row list" where
  "pending_rows pid rows = filter (\<lambda>r. it_pid r = pid \<and> it_state r = PendingRow) rows"

definition request_events :: "nat \<Rightarrow> event_row list \<Rightarrow> event_row list" where
  "request_events pid es = filter (\<lambda>e. er_type e = ''interaction.requested'') (part pid es)"

definition row_name :: "interaction_row \<Rightarrow> string" where
  "row_name r = interaction_name (it_run_id r) (pi_interactionId (it_request r))"

text \<open>What a body is in its row: itself, or a placeholder and the digest of its file.\<close>

definition stored_body ::
    "(rat \<Rightarrow> string) \<Rightarrow> (string \<Rightarrow> string) \<Rightarrow> json \<Rightarrow> string \<times> string option" where
  "stored_body num sha payload =
     (let bytes = json_stringify num payload in
      if length bytes > INLINE_BODY_MAX_BYTES then (''null'', Some (sha bytes)) else (bytes, None))"

type_synonym request_view = "(string \<times> string option) \<times> string option \<times> string option"

definition row_view ::
    "(rat \<Rightarrow> string) \<Rightarrow> (string \<Rightarrow> string) \<Rightarrow> interaction_row \<Rightarrow> request_view" where
  "row_view num sha r = (stored_body num sha (pending_json (it_request r)), None, Some (row_name r))"

definition event_view :: "event_row \<Rightarrow> request_view" where
  "event_view e = ((er_payload e, er_payload_sha e), er_slot_key e, er_group_key e)"

definition proper_row :: "interaction_row \<Rightarrow> bool" where
  "proper_row r \<longleftrightarrow> it_id r = interactionKey (it_run_id r) (pi_interactionId (it_request r)) \<and>
     it_run_id r = pi_runId (it_request r) \<and> it_run_id r \<noteq> [] \<and> plain_run (it_run_id r)"

definition books_agree ::
    "(rat \<Rightarrow> string) \<Rightarrow> (string \<Rightarrow> string) \<Rightarrow> nat \<Rightarrow> engine_tables \<Rightarrow> bool" where
  "books_agree num sha pid t \<longleftrightarrow>
     map event_view (request_events pid (sq_events (tb_events t))) =
       map (row_view num sha) (pending_rows pid (tb_interactions t)) \<and>
     (\<forall>r \<in> set (tb_interactions t). it_pid r = pid \<longrightarrow> proper_row r)"

section \<open>Names\<close>

lemma nul_sep_char: "nul_sep = [CHR 0x00]"
  by (simp add: nul_sep_def char_of_def)

lemma interactionKey_inj:
  "plain_run r \<Longrightarrow> plain_run r' \<Longrightarrow> interactionKey r i = interactionKey r' i' \<longleftrightarrow> r = r' \<and> i = i'"
proof (induction r arbitrary: r')
  case Nil
  then show ?case by (cases r') (auto simp: interactionKey_def nul_sep_char plain_run_def)
next
  case (Cons c r)
  show ?case
  proof (cases r')
    case Nil
    then show ?thesis using Cons.prems by (auto simp: interactionKey_def nul_sep_char plain_run_def)
  next
    case (Cons d r'')
    then show ?thesis
      using Cons.IH [of r''] Cons.prems by (auto simp: interactionKey_def plain_run_def)
  qed
qed

lemma plain_name_inj:
  "plain_run r \<Longrightarrow> plain_run r' \<Longrightarrow>
     interaction_name r i = interaction_name r' i' \<longleftrightarrow> r = r' \<and> i = i'"
  by (simp add: plain_run_def interaction_name_inj)

section \<open>Appends\<close>

lemma append_in_tx_rows:
  assumes "append_in_tx env type payload t = Inr t'"
  shows "tb_interactions t' = tb_interactions t \<and>
    (\<exists>n. let inp = prepared_input (prepareEvent (se_num env) (se_sha256 env) type (se_now env) payload);
          v = se_verdict env (view_of (se_num env) n (se_now env) inp) in
       part (se_pid env) (sq_events (tb_events t')) =
         filter (\<lambda>e. \<not> removed_by v e) (part (se_pid env) (sq_events (tb_events t))) @
         (if ve_drop v then [] else [row_of (se_num env) v (se_pid env) n (se_now env) inp]))"
proof -
  let ?inp = "prepared_input (prepareEvent (se_num env) (se_sha256 env) type (se_now env) payload)"
  let ?s = "(tb_events t)\<lparr>sq_inTransaction := True\<rparr>"
  obtain n a s1 where s1: "insertEventInTx (se_num env) (se_verdict env) (se_pid env) n (se_now env) ?inp ?s =
      Inr (a, s1)"
    and t': "t' = t\<lparr>tb_events := s1\<lparr>sq_next_seq := jset (se_pid env) (n + 1) (sq_next_seq s1),
      sq_inTransaction := False\<rparr>\<rparr>"
    using assms by (auto simp: append_in_tx_def appendPreparedEventInTx_def
        appendEvent_def prepared_input_def prepareEvent_def Let_def split: sum.splits option.splits)
  let ?v = "se_verdict env (view_of (se_num env) n (se_now env) ?inp)"
  let ?es = "taken_rows (se_pid env) ?v (sq_events ?s)"
  have "sq_inTransaction ?s" by simp
  from insertEventInTx_eq [OF this, of "se_num env" "se_verdict env" "se_pid env" n "se_now env" ?inp] s1
  have "sq_events s1 = ?es @ (if ve_drop ?v then []
      else [row_of (se_num env) ?v (se_pid env) n (se_now env) ?inp])"
    by (auto simp: Let_def split: if_splits)
  then show ?thesis
    unfolding t' by (auto simp: Let_def taken_rows_parts intro!: exI [of _ n])
qed

text \<open>What an append does to the request events, by what its verdict removes.\<close>

lemma request_events_append:
  assumes "append_in_tx env type payload t = Inr t'"
  obtains n v where
    "v = se_verdict env \<lparr>fr_seq = n, fr_type = type, fr_time = se_now env, fr_payload = payload,
      fr_byteLength = length (json_stringify (se_num env) payload)\<rparr>"
    "map event_view (request_events (se_pid env) (sq_events (tb_events t'))) =
      filter (\<lambda>(p, slot, grp). \<not> removes v slot grp)
        (map event_view (request_events (se_pid env) (sq_events (tb_events t)))) @
      (if ve_drop v \<or> type \<noteq> ''interaction.requested'' then []
       else [(stored_body (se_num env) (se_sha256 env) payload, ve_slot v, ve_group v)])"
    "tb_interactions t' = tb_interactions t"
proof -
  let ?inp = "prepared_input (prepareEvent (se_num env) (se_sha256 env) type (se_now env) payload)"
  obtain n where n: "let v = se_verdict env (view_of (se_num env) n (se_now env) ?inp) in
       part (se_pid env) (sq_events (tb_events t')) =
         filter (\<lambda>e. \<not> removed_by v e) (part (se_pid env) (sq_events (tb_events t))) @
         (if ve_drop v then [] else [row_of (se_num env) v (se_pid env) n (se_now env) ?inp])"
    and rows: "tb_interactions t' = tb_interactions t"
    using append_in_tx_rows [OF assms] by (auto simp: Let_def)
  have flip: "map event_view (filter (\<lambda>e. \<not> removed_by v e \<and> P e) es) =
    filter (\<lambda>(p, slot, grp). \<not> removes v slot grp) (map event_view (filter P es))" for P v es
    by (induction es) (auto simp: event_view_def removed_by_def)
  show ?thesis
    by (rule that [OF refl _ rows, of n])
      (use n in \<open>auto simp: Let_def request_events_def flip row_of_def event_view_def view_of_def
        prepared_input_def prepareEvent_def stored_body_def\<close>)
qed

lemma other_names_never_retired:
  assumes "type \<noteq> ''interaction.resolved''"
    and "v = sqlEventVerdict num z \<lparr>fr_seq = n, fr_type = type, fr_time = now, fr_payload = p, fr_byteLength = l\<rparr>"
  shows "\<not> removes v None (Some (interaction_name r i))"
proof -
  let ?rec = "\<lparr>fr_seq = n, fr_type = type, fr_time = now, fr_payload = p, fr_byteLength = l\<rparr>"
  have "ve_retire v = [] \<or> ve_retire v = ve_retire (journalFoldVerdict num z ?rec)"
    unfolding assms(2) sqlEventVerdict_def Let_def
    by (auto split: option.split json.split)
  moreover have "interaction_name r i \<notin> set (ve_retire (journalFoldVerdict num z ?rec))"
    using assms(1) by (subst question_names_retired) (simp_all add: interaction_name_def settled_by_def)
  ultimately show ?thesis by (auto simp: removes_def named_def)
qed

section \<open>Closing rows\<close>

lemma close_rows_effect:
  "close_rows pid z ids rows = Inr rows' \<Longrightarrow>
     pending_rows pid rows' =
       filter (\<lambda>r. it_id r \<notin> interactionKey (rz_runId z) ` set ids) (pending_rows pid rows) \<and>
     ((\<forall>r \<in> set rows. it_pid r = pid \<longrightarrow> proper_row r) \<longrightarrow>
       (\<forall>r \<in> set rows'. it_pid r = pid \<longrightarrow> proper_row r))"
proof (induction pid z ids rows rule: close_rows.induct)
  case (1 pid z rows)
  then show ?case by (auto simp: pending_rows_def)
next
  case (2 pid z i ids rows)
  let ?key = "interactionKey (rz_runId z) i"
  let ?close = "\<lambda>r. if resolvable pid ?key r then close_row z r else r"
  have "filter (\<lambda>r. it_pid r = pid \<and> it_state r = PendingRow) (map ?close rows) =
    filter (\<lambda>r. it_id r \<noteq> ?key) (filter (\<lambda>r. it_pid r = pid \<and> it_state r = PendingRow) rows)"
    by (induction rows) (auto simp: resolvable_def close_row_def)
  then have step: "pending_rows pid (map ?close rows) =
    filter (\<lambda>r. it_id r \<noteq> ?key) (pending_rows pid rows)"
    by (simp add: pending_rows_def)
  have proper: "(\<forall>r \<in> set rows. it_pid r = pid \<longrightarrow> proper_row r) \<Longrightarrow>
    \<forall>r \<in> set (map ?close rows). it_pid r = pid \<longrightarrow> proper_row r"
    by (auto simp: close_row_def proper_row_def)
  have "close_rows pid z ids (map ?close rows) = Inr rows'"
    using 2(2) by (auto simp: Let_def split: if_splits)
  then show ?case
    using "2.IH" [OF refl] 2(2) proper step by (auto simp: Let_def split: if_splits intro: filter_cong)
qed

lemma close_rows_first:
  assumes "close_rows pid z ids rows = Inr rows'" "ids \<noteq> []"
  shows "\<exists>r \<in> set (pending_rows pid rows). it_id r = interactionKey (rz_runId z) (hd ids)"
proof -
  obtain i js where ids: "ids = i # js" using assms(2) by (cases ids) auto
  then have "filter (resolvable pid (interactionKey (rz_runId z) i)) rows \<noteq> []"
    using assms(1) by (auto simp: Let_def split: if_splits)
  then show ?thesis by (auto simp: ids pending_rows_def resolvable_def filter_empty_conv)
qed

section \<open>Preservation\<close>

lemma all_strings_map: "\<forall>s \<in> set ss. s \<noteq> [] \<Longrightarrow> all_strings (map JStr ss) = Some ss"
  by (induction ss) (auto simp: non_empty_string_def)

lemma resolved_verdict:
  assumes "rz_runId z \<noteq> []" "rz_interactionIds z \<noteq> []" "\<forall>i \<in> set (rz_interactionIds z). i \<noteq> []"
  shows "sqlEventVerdict num q \<lparr>fr_seq = n, fr_type = ''interaction.resolved'', fr_time = now,
      fr_payload = resolution_json z, fr_byteLength = l\<rparr> =
    keep_verdict\<lparr>ve_drop := True, ve_retire := map (interaction_name (rz_runId z)) (rz_interactionIds z)\<rparr>"
  using assms all_strings_map [OF assms(3)]
  by (simp add: sqlEventVerdict_def journalFoldVerdict_def Let_def interactionResolvedVerdict_def
      resolution_json_def stringField_def stringList_def object_of_def prop_of_def jprop_def
      non_empty_string_def)

lemma requested_verdict:
  assumes "pi_runId v \<noteq> []" "pi_interactionId v \<noteq> []"
  shows "sqlEventVerdict num q \<lparr>fr_seq = n, fr_type = ''interaction.requested'', fr_time = now,
      fr_payload = pending_json v, fr_byteLength = l\<rparr> =
    keep_verdict\<lparr>ve_group := Some (interaction_name (pi_runId v) (pi_interactionId v))\<rparr>"
  using assms
  by (simp add: sqlEventVerdict_def journalFoldVerdict_def Let_def interactionRequestedVerdict_def
      pending_json_def stringField_def object_of_def prop_of_def jprop_def non_empty_string_def)

lemma sql_env_simps [simp]:
  "se_num (sql_env num sha q pid now) = num" "se_verdict (sql_env num sha q pid now) = sqlEventVerdict num q"
  "se_sha256 (sql_env num sha q pid now) = sha" "se_pid (sql_env num sha q pid now) = pid" "se_now (sql_env num sha q pid now) = now"
  by (simp_all add: sql_env_def)

lemma filter_views:
  assumes "\<forall>x \<in> set xs. P (f x) \<longleftrightarrow> Q x"
  shows "filter P (map f xs) = map f (filter Q xs)"
  using assms by (induction xs) auto

lemma commit_agrees:
  assumes inv: "books_agree num sha pid t" and run: "plain_run runId"
    and commit: "commitResolution (sql_env num sha q pid now) runId ids terminal t = Inr t'"
  shows "books_agree num sha pid t'"
proof -
  define z where "z = \<lparr>rz_runId = runId, rz_interactionIds = ids, rz_terminal = terminal\<rparr>"
  obtain rows where ids: "ids \<noteq> []" "\<forall>i \<in> set ids. i \<noteq> []"
    and rows: "close_rows pid z ids (tb_interactions t) = Inr rows"
    and app: "append_in_tx (sql_env num sha q pid now) ''interaction.resolved'' (resolution_json z)
      (t\<lparr>tb_interactions := rows\<rparr>) = Inr t'"
    using commit
    by (auto simp: commitResolution_def parseInteractionResolution_def apply_resolution_def z_def
        split: if_splits sum.splits)
  have proper: "\<forall>r \<in> set (pending_rows pid (tb_interactions t)). proper_row r"
    using inv by (auto simp: books_agree_def pending_rows_def)
  obtain r0 where r0: "r0 \<in> set (pending_rows pid (tb_interactions t))"
    "it_id r0 = interactionKey runId (hd ids)"
    using close_rows_first [OF rows ids(1)] by (auto simp: z_def)
  then have "it_run_id r0 = runId" "it_run_id r0 \<noteq> []"
    using proper run by (auto simp: proper_row_def interactionKey_inj)
  then have verdict: "sqlEventVerdict num q \<lparr>fr_seq = n, fr_type = ''interaction.resolved'',
      fr_time = now, fr_payload = resolution_json z, fr_byteLength = l\<rparr> =
    keep_verdict\<lparr>ve_drop := True, ve_retire := map (interaction_name runId) ids\<rparr>" for n l
    using resolved_verdict [of z num q n now l] ids by (simp add: z_def)
  have effect: "pending_rows pid rows =
      filter (\<lambda>r. it_id r \<notin> interactionKey runId ` set ids) (pending_rows pid (tb_interactions t))"
    "\<forall>r \<in> set rows. it_pid r = pid \<longrightarrow> proper_row r"
    using close_rows_effect [OF rows] inv by (auto simp: z_def books_agree_def)
  have names: "interaction_name (it_run_id r) (pi_interactionId (it_request r)) \<in>
      interaction_name runId ` set ids \<longleftrightarrow> it_id r \<in> interactionKey runId ` set ids"
    if "r \<in> set (pending_rows pid (tb_interactions t))" for r
    using proper that run by (auto simp: proper_row_def image_iff plain_name_inj interactionKey_inj)
  show ?thesis
  proof (rule request_events_append [OF app])
    fix n v
    assume v: "v = se_verdict (sql_env num sha q pid now) \<lparr>fr_seq = n, fr_type = ''interaction.resolved'',
        fr_time = se_now (sql_env num sha q pid now), fr_payload = resolution_json z,
        fr_byteLength = length (json_stringify (se_num (sql_env num sha q pid now)) (resolution_json z))\<rparr>"
      and ev: "map event_view (request_events (se_pid (sql_env num sha q pid now)) (sq_events (tb_events t'))) =
        filter (\<lambda>(p, slot, grp). \<not> removes v slot grp)
          (map event_view (request_events (se_pid (sql_env num sha q pid now))
            (sq_events (tb_events (t\<lparr>tb_interactions := rows\<rparr>))))) @
        (if ve_drop v \<or> ''interaction.resolved'' \<noteq> ''interaction.requested'' then []
         else [(stored_body (se_num (sql_env num sha q pid now)) (se_sha256 (sql_env num sha q pid now))
           (resolution_json z), ve_slot v, ve_group v)])"
      and it: "tb_interactions t' = tb_interactions (t\<lparr>tb_interactions := rows\<rparr>)"
    have "filter (\<lambda>(p, slot, grp). \<not> removes v slot grp)
        (map (row_view num sha) (pending_rows pid (tb_interactions t))) =
      map (row_view num sha) (filter (\<lambda>r. it_id r \<notin> interactionKey runId ` set ids)
        (pending_rows pid (tb_interactions t)))"
      by (rule filter_views)
        (use names in \<open>auto simp: v verdict row_view_def removes_def named_def row_name_def\<close>)
    then show "books_agree num sha pid t'"
      using ev it inv effect by (simp add: books_agree_def)
  qed
qed

lemma unrelated_append:
  assumes inv: "books_agree num sha pid t" and type: "type \<noteq> ''interaction.resolved''"
    and app: "append_in_tx (sql_env num sha q pid now) type payload t2 = Inr t'"
    and events: "tb_events t2 = tb_events t"
  obtains n l where
    "map event_view (request_events pid (sq_events (tb_events t'))) =
      map (row_view num sha) (pending_rows pid (tb_interactions t)) @
      (let v = sqlEventVerdict num q \<lparr>fr_seq = n, fr_type = type, fr_time = now,
          fr_payload = payload, fr_byteLength = l\<rparr> in
       if ve_drop v \<or> type \<noteq> ''interaction.requested'' then []
       else [(stored_body num sha payload, ve_slot v, ve_group v)])"
    "tb_interactions t' = tb_interactions t2"
proof -
  have kept: "filter (\<lambda>(p, slot, grp). \<not> removes (sqlEventVerdict num q \<lparr>fr_seq = n, fr_type = type,
        fr_time = now, fr_payload = payload, fr_byteLength = l\<rparr>) slot grp)
      (map (row_view num sha) rows) = map (row_view num sha) rows" for rows n l
    using other_names_never_retired [OF type refl]
    by (induction rows) (auto simp: row_view_def row_name_def)
  show ?thesis
  proof (rule request_events_append [OF app])
    fix n v
    assume "v = se_verdict (sql_env num sha q pid now) \<lparr>fr_seq = n, fr_type = type,
        fr_time = se_now (sql_env num sha q pid now), fr_payload = payload,
        fr_byteLength = length (json_stringify (se_num (sql_env num sha q pid now)) payload)\<rparr>"
      and "map event_view (request_events (se_pid (sql_env num sha q pid now)) (sq_events (tb_events t'))) =
        filter (\<lambda>(p, slot, grp). \<not> removes v slot grp)
          (map event_view (request_events (se_pid (sql_env num sha q pid now)) (sq_events (tb_events t2)))) @
        (if ve_drop v \<or> type \<noteq> ''interaction.requested'' then []
         else [(stored_body (se_num (sql_env num sha q pid now)) (se_sha256 (sql_env num sha q pid now)) payload,
           ve_slot v, ve_group v)])"
      and "tb_interactions t' = tb_interactions t2"
    then show thesis
      using inv kept
      by (intro that [of n "length (json_stringify num payload)"])
        (cases "type = ''interaction.requested''"; simp add: events books_agree_def Let_def)+
  qed
qed

lemma other_event_agrees:
  assumes "books_agree num sha pid t" "type \<noteq> ''interaction.requested''" "type \<noteq> ''interaction.resolved''"
    and "append_in_tx (sql_env num sha q pid now) type payload t = Inr t'"
  shows "books_agree num sha pid t'"
  by (rule unrelated_append [OF assms(1,3,4) refl])
    (use assms(1,2) in \<open>simp add: books_agree_def Let_def\<close>)

lemma request_agrees:
  assumes inv: "books_agree num sha pid t" and run: "plain_run (ix_runId ctx)"
    and asked: "request (sql_env num sha q pid now) ctx t = Inr (v, t')"
  shows "books_agree num sha pid t'"
proof -
  obtain rows where v: "pendingInteraction ctx = Inr v"
    and rows: "apply_request pid v (tb_interactions t) = Inr rows"
    and app: "append_in_tx (sql_env num sha q pid now) ''interaction.requested'' (pending_json v)
      (t\<lparr>tb_interactions := rows\<rparr>) = Inr t'"
    using asked by (auto simp: request_def split: sum.splits if_splits)
  define row where "row = \<lparr>it_id = interactionKey (pi_runId v) (pi_interactionId v), it_pid = pid,
    it_run_id = pi_runId v, it_state = PendingRow, it_request = v, it_resolution = None\<rparr>"
  have rows_eq: "rows = tb_interactions t @ [row]"
    using rows by (auto simp: apply_request_def Let_def row_def split: if_splits)
  have ids: "pi_runId v \<noteq> []" "pi_interactionId v \<noteq> []" "plain_run (pi_runId v)"
    using v run by (auto simp: pendingInteraction_def valid_id_def split: if_splits)
  show ?thesis
    by (rule unrelated_append [OF inv _ app])
      (use inv ids in \<open>auto simp: books_agree_def rows_eq pending_rows_def requested_verdict
        row_def row_view_def row_name_def proper_row_def\<close>)
qed

lemma resolveRun_agrees:
  assumes inv: "books_agree num sha pid t"
    and res: "resolveRun (sql_env num sha q pid now) runId terminal t = Inr (ids, t')"
  shows "books_agree num sha pid t'"
proof (cases "pendingForRun (sql_env num sha q pid now) runId t = []")
  case True
  then show ?thesis using inv res by (simp add: resolveRun_def)
next
  case False
  then obtain r where "r \<in> set (tb_interactions t)" "it_run_id r = runId" "it_pid r = pid"
    by (auto simp: pendingForRun_def filter_empty_conv)
  then have "plain_run runId" using inv by (auto simp: books_agree_def proper_row_def)
  then show ?thesis
    using inv res False by (auto simp: resolveRun_def Let_def split: sum.splits intro: commit_agrees)
qed

lemma recover_runs_agrees:
  "books_agree num sha pid t \<Longrightarrow> recover_runs (sql_env num sha q pid now) runs t = Inr t' \<Longrightarrow>
     books_agree num sha pid t'"
proof (induction runs arbitrary: t)
  case (Cons r runs)
  then show ?case using resolveRun_agrees by (fastforce split: sum.splits)
qed simp

lemma resolve_one_agrees:
  assumes "books_agree num sha pid t" "plain_run runId"
    and "resolve_one (sql_env num sha q pid now) runId i terminal t = Inr (answer, t')"
  shows "books_agree num sha pid t'"
  using assms commit_agrees [OF assms(1,2), of q now "[i]" terminal]
  by (auto simp: resolve_one_def split: interaction_status.splits sum.splits)

lemma store_step_agrees:
  assumes inv: "books_agree num sha pid t" and step: "store_step num sha q pid (Collect plain_run) t t'"
  shows "books_agree num sha pid t'"
  using step
proof cases
  case (asked ctx now v)
  then show ?thesis using request_agrees [OF inv] by simp
next
  case (answered runId now i terminal answer)
  then show ?thesis using resolve_one_agrees [OF inv] by simp
next
  case (run_ended now runId terminal ids)
  show ?thesis by (rule resolveRun_agrees [OF inv run_ended])
next
  case (restarted now)
  show ?thesis
    by (rule recover_runs_agrees [OF inv restarted [unfolded recoverAfterStartup_def]])
next
  case (other_event type now payload)
  show ?thesis by (rule other_event_agrees [OF inv other_event])
qed

lemma store_step_mono:
  assumes "store_step num sha q pid runs t t'" and "runs \<subseteq> runs'"
  shows "store_step num sha q pid runs' t t'"
  using assms by (induction rule: store_step.induct) (auto intro: store_step.intros)

interpretation questions_kept: machine "store_start pid" "store_step num sha q pid (Collect plain_run)"
  "books_agree num sha pid"
proof
  fix t assume "store_start pid t"
  then have "request_events pid (sq_events (tb_events t)) = []" "pending_rows pid (tb_interactions t) = []"
    "\<forall>r \<in> set (tb_interactions t). it_pid r \<noteq> pid"
    by (auto simp: store_start_def request_events_def part_def pending_rows_def filter_empty_conv)
  then show "books_agree num sha pid t" by (simp add: books_agree_def)
qed (rule store_step_agrees)

text \<open>C17: A question is never lost and never comes back: in every state that requests, answers, ended
  runs, restarts and the appends of other owners reach, the retained request events of the partition
  hold, in order and byte for byte (a large one by its digest), the pending rows, so a reader of
  the stream and a reader of the table see the same open questions. This holds when no run that asks
  or is answered has a colon or the NUL character in its id, as the generated ids have none; the
  schema admits any non-empty string, and with a colon the statement fails, because the fold then
  takes two questions for one (\<open>colliding_question_is_forgotten\<close>).\<close>

theorem pending_rows_are_retained_requests:
  assumes "runs \<subseteq> Collect plain_run"
    and "reachable (store_start pid) (store_step num sha q pid runs) t"
  shows "map (\<lambda>e. (er_payload e, er_payload_sha e)) (request_events pid (sq_events (tb_events t))) =
    map (stored_body num sha \<circ> pending_json \<circ> it_request) (pending_rows pid (tb_interactions t))"
proof -
  have "reachable (store_start pid) (store_step num sha q pid (Collect plain_run)) t"
    by (rule reachable_mono [OF assms(2)]) (rule store_step_mono [OF _ assms(1)])
  then have "books_agree num sha pid t" by (rule questions_kept.reachable_inv)
  then have "map fst (map event_view (request_events pid (sq_events (tb_events t)))) =
    map fst (map (row_view num sha) (pending_rows pid (tb_interactions t)))"
    by (simp add: books_agree_def)
  then show ?thesis by (simp add: event_view_def row_view_def comp_def)
qed

definition sample_context :: interaction_context where
  "sample_context = \<lparr>ix_runId = ''run'', ix_attemptId = ''a1'', ix_harnessId = ''codex'',
     ix_interaction_id = ''q1'', ix_source_tool = None, ix_questions = [], ix_requestedAt = ''t'',
     ix_timeoutAt = None\<rparr>"

definition sample_view :: pending_view where
  "sample_view = \<lparr>pi_interactionId = ''q1'', pi_runId = ''run'', pi_attemptId = Some ''a1'',
     pi_harnessId = Some ''codex'', pi_sourceTool = None, pi_questions = [], pi_requestedAt = ''t'',
     pi_timeoutAt = None\<rparr>"

definition sample_tables :: engine_tables where
  "sample_tables = \<lparr>tb_events = \<lparr>sq_inTransaction = False, sq_events = [], sq_next_seq = [(1, 5)]\<rparr>,
     tb_interactions = []\<rparr>"

lemma sample_request:
  "\<exists>t. request (sql_env (\<lambda>_. []) id no_quota 1 ''t'') sample_context sample_tables = Inr (sample_view, t) \<and>
     map it_request (pending_rows 1 (tb_interactions t)) = [sample_view]"
proof -
  have "pendingInteraction sample_context = Inr sample_view"
    by (simp add: pendingInteraction_def sample_context_def sample_view_def valid_id_def)
  moreover have "deleteEventKeysInTx 1 [] s = Inr ([], s)" if "sq_inTransaction s" for s
    using that by (simp add: deleteEventKeysInTx_def unique_def)
  ultimately show ?thesis
    using requested_verdict [of sample_view "\<lambda>_. []" no_quota 5 "''t''"]
    by (simp add: request_def interaction_status_of_def sample_tables_def apply_request_def Let_def
        append_in_tx_def appendPreparedEventInTx_def prepared_input_def prepareEvent_def
        appendEvent_def insertEventInTx_def seq_taken_def pending_rows_def)
      (simp add: sample_view_def seq_taken_def)
qed

theorem pending_rows_are_retained_requests_witness:
  "\<exists>t :: engine_tables. map it_request (pending_rows 1 (tb_interactions t)) = [sample_view] \<and>
     map (\<lambda>e. (er_payload e, er_payload_sha e)) (request_events 1 (sq_events (tb_events t))) =
       [stored_body (\<lambda>_. []) id (pending_json sample_view)]"
proof -
  obtain t where t: "request (sql_env (\<lambda>_. []) id no_quota 1 ''t'') sample_context sample_tables =
      Inr (sample_view, t)" "map it_request (pending_rows 1 (tb_interactions t)) = [sample_view]"
    using sample_request by (elim exE conjE)
  have plain: "{''run''} \<subseteq> Collect plain_run" by (simp add: plain_run_def)
  have "store_step (\<lambda>_. []) id no_quota 1 {''run''} sample_tables t"
    by (rule asked [OF _ t(1)]) (simp add: sample_context_def)
  then have "reachable (store_start 1) (store_step (\<lambda>_. []) id no_quota 1 {''run''}) t"
    by (rule reachable.further [rotated], intro reachable.initial)
      (simp add: store_start_def sample_tables_def)
  from pending_rows_are_retained_requests [OF plain this]
  have ev: "map (\<lambda>e. (er_payload e, er_payload_sha e)) (request_events 1 (sq_events (tb_events t))) =
    map (\<lambda>v. stored_body (\<lambda>_. []) id (pending_json v)) (map it_request (pending_rows 1 (tb_interactions t)))"
    by (simp only: map_map comp_def)
  show ?thesis
    by (rule exI [of _ t], rule conjI [OF t(2)]) (simp only: ev t(2) list.map)
qed

end
