(* ===== verification/Frame_Codec.thy ===== *)
theory Frame_Codec
  imports Journal_Policy
begin

text \<open>
  The frames of a journal file
  (\<open>packages/daemon/src/store/legacy-journal/frame-codec.ts\<close>): the fixed prefix, the checked body,
  the chain of sequence numbers and hashes, and the records inside a compacted snapshot. A buffer is
  a list of bytes (a byte is a \<open>char\<close>) and a cursor is the rest of the list. The digest, the JSON
  parser and the decompression of base64 data are arguments; JSON is printed by \<open>json_stringify\<close>.
  A thrown error is the text of the error.
\<close>

type_synonym bytes = string

record codec =
  cd_sha256 :: "bytes \<Rightarrow> bytes"
  cd_parse :: "bytes \<Rightarrow> json option"
  cd_gunzip :: "string \<Rightarrow> string + bytes"
  cd_num :: "rat \<Rightarrow> string"

section \<open>Constants\<close>

definition MAGIC :: bytes where "MAGIC = ''CLXJNL2'' @ [CHR 0x00]"
definition VERSION :: nat where "VERSION = 1"
definition PREFIX_CORE_BYTES :: nat where "PREFIX_CORE_BYTES = length MAGIC + 2 + 4 + 4"
definition PREFIX_CHECKSUM_BYTES :: nat where "PREFIX_CHECKSUM_BYTES = 8"
definition PREFIX_BYTES :: nat where "PREFIX_BYTES = PREFIX_CORE_BYTES + PREFIX_CHECKSUM_BYTES"
definition HASH_BYTES :: nat where "HASH_BYTES = 32"
definition MAX_HEADER_BYTES :: nat where "MAX_HEADER_BYTES = 64 * 1024"
definition MAX_PAYLOAD_BYTES :: nat where "MAX_PAYLOAD_BYTES = 16 * 1024 * 1024"
definition ZERO_HASH :: string where "ZERO_HASH = replicate 64 (CHR ''0'')"
definition COMPACTED_SNAPSHOT :: string where "COMPACTED_SNAPSHOT = ''journal.compacted_snapshot''"

text \<open>Slices, big-endian numbers and hexadecimal text.\<close>

definition slice :: "nat \<Rightarrow> nat \<Rightarrow> bytes \<Rightarrow> bytes" where
  "slice a b bs = take (b - a) (drop a bs)"

definition read_be :: "bytes \<Rightarrow> nat" where
  "read_be bs = foldl (\<lambda>n c. n * 256 + of_char c) 0 bs"

fun write_be :: "nat \<Rightarrow> nat \<Rightarrow> bytes" where
  "write_be 0 n = []"
| "write_be (Suc k) n = write_be k (n div 256) @ [char_of (n mod 256)]"

definition hex :: "bytes \<Rightarrow> string" where
  "hex bs = concat (map (\<lambda>c. [hex_digit (of_char c div 16), hex_digit (of_char c mod 16)]) bs)"

section \<open>Step 1: the prefix\<close>

datatype frame_prefix =
  IncompletePrefix | CorruptPrefix string | FramePrefix (header_length: nat) (payload_length: nat) (frame_length: nat)

definition readFramePrefix :: "codec \<Rightarrow> bytes \<Rightarrow> nat \<Rightarrow> frame_prefix" where
  "readFramePrefix cd view remaining =
     (if remaining < PREFIX_BYTES then IncompletePrefix
      else if take (length MAGIC) view \<noteq> MAGIC then CorruptPrefix ''frame magic mismatch''
      else if slice PREFIX_CORE_BYTES PREFIX_BYTES view \<noteq>
          take PREFIX_CHECKSUM_BYTES (cd_sha256 cd (take PREFIX_CORE_BYTES view))
      then CorruptPrefix ''frame prefix checksum mismatch''
      else
        let m = length MAGIC;
            version = read_be (slice m (m + 2) view);
            headerLength = read_be (slice (m + 2) (m + 6) view);
            payloadLength = read_be (slice (m + 6) (m + 10) view);
            frameLength = PREFIX_BYTES + headerLength + payloadLength + HASH_BYTES in
        if version \<noteq> VERSION then CorruptPrefix (''unsupported frame version '' @ show_nat version)
        else if headerLength = 0 \<or> headerLength > MAX_HEADER_BYTES \<or> payloadLength > MAX_PAYLOAD_BYTES
        then CorruptPrefix ''invalid frame lengths''
        else if frameLength > remaining then IncompletePrefix
        else FramePrefix headerLength payloadLength frameLength)"

section \<open>Step 2: the body\<close>

datatype frame_body = CorruptBody string | FrameBody json json string

definition decodeFrameBody :: "codec \<Rightarrow> bytes \<Rightarrow> nat \<Rightarrow> nat \<Rightarrow> frame_body" where
  "decodeFrameBody cd frame headerLength payloadLength =
     (let headerStart = PREFIX_BYTES;
          payloadStart = headerStart + headerLength;
          bodyEnd = payloadStart + payloadLength;
          frameHash = cd_sha256 cd (take bodyEnd frame) in
      if slice bodyEnd (bodyEnd + HASH_BYTES) frame \<noteq> frameHash then
        CorruptBody ''frame checksum mismatch''
      else case (cd_parse cd (slice headerStart payloadStart frame),
                 cd_parse cd (slice payloadStart bodyEnd frame)) of
        (Some header, Some payload) \<Rightarrow> FrameBody header payload (hex frameHash)
      | _ \<Rightarrow> CorruptBody ''frame JSON is malformed'')"

section \<open>Compacted snapshots\<close>

definition json_space :: "char \<Rightarrow> bool" where
  "json_space c \<longleftrightarrow> c \<in> {CHR 0x20, CHR 0x09, CHR 0x0a, CHR 0x0d}"

definition skipJsonWhitespace :: "bytes \<Rightarrow> bytes" where
  "skipJsonWhitespace bs = dropWhile json_space bs"

text \<open>The end of the object that starts here, by matching brackets outside strings.\<close>

fun scan_from :: "char list \<Rightarrow> bool \<Rightarrow> bool \<Rightarrow> bytes \<Rightarrow> nat option" where
  "scan_from stack inString escaped [] = None"
| "scan_from stack inString escaped (c # bs) =
     (if inString then
        map_option Suc
          (scan_from stack (escaped \<or> c \<noteq> CHR 0x22) (\<not> escaped \<and> c = CHR 0x5c) bs)
      else if c = CHR 0x22 then map_option Suc (scan_from stack True escaped bs)
      else if c = CHR 0x7b \<or> c = CHR 0x5b then map_option Suc (scan_from (c # stack) False escaped bs)
      else if c \<noteq> CHR 0x7d \<and> c \<noteq> CHR 0x5d then map_option Suc (scan_from stack False escaped bs)
      else case stack of
        [] \<Rightarrow> None
      | opening # stack' \<Rightarrow>
          if (c = CHR 0x7d \<and> opening \<noteq> CHR 0x7b) \<or> (c = CHR 0x5d \<and> opening \<noteq> CHR 0x5b) then None
          else if stack' = [] then Some 1
          else map_option Suc (scan_from stack' False escaped bs))"

definition scanCompactedRecord :: "bytes \<Rightarrow> nat option" where
  "scanCompactedRecord bs =
     (case bs of [] \<Rightarrow> None
      | c # _ \<Rightarrow> if c \<noteq> CHR 0x7b then None else scan_from [] False False bs)"

record compacted_record =
  cr_seq :: "int option"
  cr_time :: string
  cr_type :: string
  cr_payload :: "json option"
  cr_byteLength :: nat

text \<open>\<open>Number.isSafeInteger\<close>.\<close>

definition safe_integer :: "json option \<Rightarrow> int option" where
  "safe_integer v =
     (case v of
        Some (JNum x) \<Rightarrow>
          if of_int \<lfloor>x\<rfloor> = x \<and> \<bar>\<lfloor>x\<rfloor>\<bar> < 2 ^ 53 then Some \<lfloor>x\<rfloor> else None
      | _ \<Rightarrow> None)"

definition string_prop :: "json \<Rightarrow> string \<Rightarrow> string option" where
  "string_prop v k = (case jprop v k of Some (JStr s) \<Rightarrow> Some s | _ \<Rightarrow> None)"

definition validateCompactedRecord :: "json \<Rightarrow> nat \<Rightarrow> compacted_record option" where
  "validateCompactedRecord v len =
     (case (string_prop v ''time'', string_prop v ''type'') of
        (Some time, Some type) \<Rightarrow>
          if type = [] \<or> type = COMPACTED_SNAPSHOT then None
          else (case jprop v ''seq'' of
             None \<Rightarrow> Some \<lparr>cr_seq = None, cr_time = time, cr_type = type,
               cr_payload = jprop v ''payload'', cr_byteLength = len\<rparr>
           | Some s \<Rightarrow>
               (case safe_integer (Some s) of
                  None \<Rightarrow> None
                | Some n \<Rightarrow> if n < 1 then None
                    else Some \<lparr>cr_seq = Some n, cr_time = time, cr_type = type,
                      cr_payload = jprop v ''payload'', cr_byteLength = len\<rparr>))
      | _ \<Rightarrow> None)"

text \<open>\<open>n\<close> records, each followed by a comma, the last by the closing bracket.\<close>

fun compacted_loop :: "codec \<Rightarrow> nat \<Rightarrow> bytes \<Rightarrow> string + (compacted_record list \<times> bytes)" where
  "compacted_loop cd 0 bs = Inr ([], bs)"
| "compacted_loop cd (Suc n) bs =
     (let b1 = skipJsonWhitespace bs in
      case scanCompactedRecord b1 of
        None \<Rightarrow> Inl ''invalid records''
      | Some len \<Rightarrow>
          (case cd_parse cd (take len b1) of
             None \<Rightarrow> Inl ''invalid records''
           | Some v \<Rightarrow>
               (case validateCompactedRecord v len of
                  None \<Rightarrow> Inl ''invalid logical record''
                | Some r \<Rightarrow>
                    (case skipJsonWhitespace (drop len b1) of
                       [] \<Rightarrow> Inl ''invalid records''
                     | sep # b2 \<Rightarrow>
                         if sep \<noteq> (if n = 0 then CHR 0x5d else CHR 0x2c) then Inl ''invalid records''
                         else (case compacted_loop cd n b2 of
                           Inl e \<Rightarrow> Inl e | Inr (rs, rest) \<Rightarrow> Inr (r # rs, rest))))))"

definition parseCompactedRecords :: "codec \<Rightarrow> bytes \<Rightarrow> nat \<Rightarrow> string + compacted_record list" where
  "parseCompactedRecords cd bs n =
     (case skipJsonWhitespace bs of
        [] \<Rightarrow> Inl ''invalid records''
      | c # b1 \<Rightarrow>
          if c \<noteq> CHR 0x5b then Inl ''invalid records''
          else (case (if n = 0 then
                   (case skipJsonWhitespace b1 of
                      [] \<Rightarrow> Inl ''invalid records''
                    | d # b2 \<Rightarrow> if d \<noteq> CHR 0x5d then Inl ''invalid records'' else Inr ([], b2))
                 else compacted_loop cd n b1) of
              Inl e \<Rightarrow> Inl e
            | Inr (rs, rest) \<Rightarrow> if skipJsonWhitespace rest \<noteq> [] then Inl ''invalid records'' else Inr rs))"

fun number_records ::
    "bool \<Rightarrow> int \<Rightarrow> int \<Rightarrow> compacted_record list \<Rightarrow> string + (int \<times> compacted_record) list" where
  "number_records numbered previous highest [] = Inr []"
| "number_records numbered previous highest (r # rs) =
     (if (cr_seq r \<noteq> None) \<noteq> numbered then Inl ''mixed record sequence''
      else case cr_seq r of
        None \<Rightarrow> map_sum id ((#) (previous + 1, r)) (number_records numbered (previous + 1) highest rs)
      | Some n \<Rightarrow>
          if n \<le> previous \<or> n > highest then Inl ''record sequence is invalid''
          else map_sum id ((#) (n, r)) (number_records numbered n highest rs))"

text \<open>An error is its \<open>String(error)\<close>: the class name and the message; that of \<open>gunzipSync\<close> is the
  codec's.\<close>

definition decodeCompactedSnapshot ::
    "codec \<Rightarrow> json \<Rightarrow> int \<Rightarrow> int \<Rightarrow> string + (int \<times> compacted_record) list" where
  "decodeCompactedSnapshot cd payload covered firstSeq =
     (if jprop payload ''version'' \<noteq> Some (JNum 1) \<or>
         jprop payload ''encoding'' \<noteq> Some (JStr ''gzip-base64'') then Inl ''Error: unsupported payload''
      else case safe_integer (jprop payload ''count'') of
        None \<Rightarrow> Inl ''Error: record count mismatch''
      | Some n \<Rightarrow>
          if n < 0 \<or> n > covered then Inl ''Error: record count mismatch''
          else (case jprop payload ''data'' of
            Some (JStr text) \<Rightarrow>
              (case cd_gunzip cd text of
                 Inl e \<Rightarrow> Inl e
               | Inr decoded \<Rightarrow>
                   (case parseCompactedRecords cd decoded (nat n) of
                      Inl e \<Rightarrow> Inl (''Error: '' @ e)
                    | Inr rs \<Rightarrow>
                        let numbered = (case rs of [] \<Rightarrow> True | r # _ \<Rightarrow> cr_seq r \<noteq> None) in
                        (case number_records numbered (firstSeq - 1) (firstSeq + covered - 1) rs of
                           Inl e \<Rightarrow> Inl (''Error: '' @ e)
                         | Inr ns \<Rightarrow>
                             if \<not> numbered \<and> int (length rs) \<noteq> covered then Inl ''Error: record count mismatch''
                             else Inr ns)))
          | _ \<Rightarrow> Inl ''Error: encoded data is missing''))"

section \<open>Step 3: the chain\<close>

record journal_record =
  jr_partition :: string
  jr_epoch :: string
  jr_seq :: int
  jr_previousFrameHash :: string
  jr_frameHash :: string
  jr_time :: string
  jr_type :: string
  jr_payload :: "json option"
  jr_byteOffset :: nat

record frame_chain =
  fc_partition :: string
  fc_epoch :: "string option"
  fc_expectedSeq :: int
  fc_previous :: string

definition newFrameChain :: "string \<Rightarrow> frame_chain" where
  "newFrameChain p = \<lparr>fc_partition = p, fc_epoch = None, fc_expectedSeq = 1, fc_previous = ZERO_HASH\<rparr>"

text \<open>The reason why a header is refused.\<close>

definition validateHeader :: "json \<Rightarrow> frame_chain \<Rightarrow> string option" where
  "validateHeader h chain =
     (if \<not> (case h of JObj _ \<Rightarrow> True | JArr _ \<Rightarrow> True | _ \<Rightarrow> False) then Some ''frame header is not an object''
      else if jprop h ''partition'' \<noteq> Some (JStr (fc_partition chain)) then Some ''frame partition mismatch''
      else case truthy (string_prop h ''epoch'') of
        None \<Rightarrow> Some ''frame epoch is invalid''
      | Some epoch \<Rightarrow>
          if fc_epoch chain \<noteq> None \<and> fc_epoch chain \<noteq> Some epoch then Some ''frame epoch changed''
          else if jprop h ''seq'' \<noteq> Some (JNum (of_int (fc_expectedSeq chain)))
          then Some ''frame sequence mismatch''
          else if jprop h ''previousFrameHash'' \<noteq> Some (JStr (fc_previous chain))
          then Some ''frame hash-chain mismatch''
          else if truthy (string_prop h ''time'') = None then Some ''frame timestamp is invalid''
          else (case truthy (string_prop h ''type'') of
            None \<Rightarrow> Some ''frame type is invalid''
          | Some type \<Rightarrow>
              if type = COMPACTED_SNAPSHOT then
                (case safe_integer (jprop h ''logicalSpan'') of
                   None \<Rightarrow> Some ''compacted snapshot logical span is invalid''
                 | Some n \<Rightarrow>
                     if n \<le> 0 then Some ''compacted snapshot logical span is invalid'' else None)
              else if jprop h ''logicalSpan'' \<noteq> None then Some ''ordinary frame declares a logical span''
              else None))"

definition compacted_entries ::
    "frame_chain \<Rightarrow> string \<Rightarrow> string \<Rightarrow> string \<Rightarrow> nat \<Rightarrow> (int \<times> compacted_record) list \<Rightarrow>
     (journal_record \<times> nat) list" where
  "compacted_entries chain epoch previous frameHash byteOffset ns =
     map (\<lambda>(i, n, r).
       (\<lparr>jr_partition = fc_partition chain, jr_epoch = epoch, jr_seq = n,
         jr_previousFrameHash = (if i = 0 then previous else frameHash), jr_frameHash = frameHash,
         jr_time = cr_time r, jr_type = cr_type r, jr_payload = cr_payload r,
         jr_byteOffset = byteOffset\<rparr>, cr_byteLength r))
       (List.enumerate 0 ns)"

definition chainFrame ::
    "codec \<Rightarrow> frame_chain \<Rightarrow> json \<Rightarrow> json \<Rightarrow> string \<Rightarrow> nat \<Rightarrow> nat \<Rightarrow>
     string + ((journal_record \<times> nat) list \<times> frame_chain)" where
  "chainFrame cd chain h payload frameHash byteOffset payloadLength =
     (case validateHeader h chain of
        Some reason \<Rightarrow> Inl reason
      | None \<Rightarrow>
          let epoch = nullish (string_prop h ''epoch'') [];
              time = nullish (string_prop h ''time'') [];
              type = nullish (string_prop h ''type'') [];
              covered = nullish (safe_integer (jprop h ''logicalSpan'')) 1;
              next_chain = chain\<lparr>fc_epoch := Some (nullish (fc_epoch chain) epoch),
                fc_expectedSeq := fc_expectedSeq chain + covered, fc_previous := frameHash\<rparr> in
          if type = COMPACTED_SNAPSHOT then
            (case decodeCompactedSnapshot cd payload covered (fc_expectedSeq chain) of
               Inl e \<Rightarrow> Inl (''compacted snapshot is invalid: '' @ e)
             | Inr ns \<Rightarrow>
                 Inr (compacted_entries chain epoch (fc_previous chain) frameHash byteOffset ns, next_chain))
          else
            Inr ([(\<lparr>jr_partition = fc_partition chain, jr_epoch = epoch, jr_seq = fc_expectedSeq chain,
                jr_previousFrameHash = fc_previous chain, jr_frameHash = frameHash, jr_time = time,
                jr_type = type, jr_payload = Some payload, jr_byteOffset = byteOffset\<rparr>,
              28 + length (json_string time) + length (json_string type) + payloadLength)],
              next_chain))"

end
