(* ===== verification/Frame_Reader.thy ===== *)
theory Frame_Reader
  imports Frame_Codec
begin

text \<open>
  Writing and reading journal files: \<open>encodeFrame\<close> and the whole-buffer replay
  (\<open>frame-codec.ts\<close>), and the positional reader with its read-ahead window and its fold
  (\<open>legacy-journal/frame-reader.ts\<close>). A descriptor is the function that reads at a position: it
  may return fewer bytes than asked for, and none at the end of the file.
\<close>

section \<open>Writing a frame\<close>

record frame_header =
  fh_partition :: string
  fh_epoch :: string
  fh_seq :: int
  fh_previousFrameHash :: string
  fh_time :: string
  fh_type :: string
  fh_logicalSpan :: "int option"

definition header_json :: "frame_header \<Rightarrow> json" where
  "header_json h =
     JObj ([(''partition'', JStr (fh_partition h)), (''epoch'', JStr (fh_epoch h)),
       (''seq'', JNum (of_int (fh_seq h))), (''previousFrameHash'', JStr (fh_previousFrameHash h)),
       (''time'', JStr (fh_time h)), (''type'', JStr (fh_type h))] @
      (case fh_logicalSpan h of None \<Rightarrow> [] | Some n \<Rightarrow> [(''logicalSpan'', JNum (of_int n))]))"

definition frame_prefix_core :: "nat \<Rightarrow> nat \<Rightarrow> bytes" where
  "frame_prefix_core headerLength payloadLength =
     MAGIC @ write_be 2 VERSION @ write_be 4 headerLength @ write_be 4 payloadLength"

definition encodeFrame :: "codec \<Rightarrow> frame_header \<Rightarrow> bytes \<Rightarrow> string + bytes" where
  "encodeFrame cd header payload =
     (let headerBytes = json_stringify (cd_num cd) (header_json header) in
      if length headerBytes > MAX_HEADER_BYTES then Inl ''journal header is too large''
      else if length payload \<ge> 2 ^ 32 then Inl ''ERR_OUT_OF_RANGE''
      else
        let core = frame_prefix_core (length headerBytes) (length payload);
            body = core @ take PREFIX_CHECKSUM_BYTES (cd_sha256 cd core) @ headerBytes @ payload in
        Inr (body @ cd_sha256 cd body))"

section \<open>Whole-buffer replay\<close>

record replay_result =
  rr_records :: "journal_record list"
  rr_incompleteOffset :: "nat option"
  rr_error :: "(nat \<times> string) option"

text \<open>Steps 2 and 3 on the bytes of one frame.\<close>

definition frame_records ::
    "codec \<Rightarrow> frame_chain \<Rightarrow> nat \<Rightarrow> bytes \<Rightarrow> nat \<Rightarrow> nat \<Rightarrow>
     string + ((journal_record \<times> nat) list \<times> frame_chain)" where
  "frame_records cd chain offset frame headerLength payloadLength =
     (case decodeFrameBody cd frame headerLength payloadLength of
        CorruptBody reason \<Rightarrow> Inl reason
      | FrameBody h payload frameHash \<Rightarrow> chainFrame cd chain h payload frameHash offset payloadLength)"

lemma readFramePrefix_frame:
  assumes "readFramePrefix cd view remaining = FramePrefix h p n"
  shows "n = PREFIX_BYTES + h + p + HASH_BYTES \<and> n \<le> remaining \<and> 0 < h \<and> h \<le> MAX_HEADER_BYTES \<and>
    p \<le> MAX_PAYLOAD_BYTES \<and> PREFIX_BYTES \<le> remaining"
  using assms unfolding readFramePrefix_def by (auto simp: Let_def split: if_splits)

lemma frame_length_positive:
  "readFramePrefix cd view remaining = FramePrefix h p n \<Longrightarrow> 0 < n"
  by (drule readFramePrefix_frame) simp

text \<open>One turn of the loop: it stops with a result, or reads a frame and goes on behind it.\<close>

definition next_frame ::
    "codec \<Rightarrow> frame_chain \<Rightarrow> nat \<Rightarrow> bytes \<Rightarrow>
     replay_result + ((journal_record \<times> nat) list \<times> frame_chain \<times> nat)" where
  "next_frame cd chain offset bs =
     (if bs = [] then Inl \<lparr>rr_records = [], rr_incompleteOffset = None, rr_error = None\<rparr>
      else case readFramePrefix cd bs (length bs) of
        IncompletePrefix \<Rightarrow> Inl \<lparr>rr_records = [], rr_incompleteOffset = Some offset, rr_error = None\<rparr>
      | CorruptPrefix reason \<Rightarrow>
          Inl \<lparr>rr_records = [], rr_incompleteOffset = None, rr_error = Some (offset, reason)\<rparr>
      | FramePrefix h p n \<Rightarrow>
          (case frame_records cd chain offset (take n bs) h p of
             Inl reason \<Rightarrow>
               Inl \<lparr>rr_records = [], rr_incompleteOffset = None, rr_error = Some (offset, reason)\<rparr>
           | Inr (entries, chain') \<Rightarrow> Inr (entries, chain', n)))"

lemma next_frame_frame:
  assumes "next_frame cd chain offset bs = Inr (es, chain', n)"
  obtains h p where "readFramePrefix cd bs (length bs) = FramePrefix h p n"
    "frame_records cd chain offset (take n bs) h p = Inr (es, chain')" "bs \<noteq> []"
    "26 \<le> n" "n \<le> length bs"
proof -
  obtain h p where f: "bs \<noteq> []" "readFramePrefix cd bs (length bs) = FramePrefix h p n"
    "frame_records cd chain offset (take n bs) h p = Inr (es, chain')"
    using assms by (auto simp: next_frame_def split: if_splits frame_prefix.splits sum.splits)
  then show thesis
    using readFramePrefix_frame [OF f(2)] that
    by (auto simp: PREFIX_BYTES_def PREFIX_CORE_BYTES_def PREFIX_CHECKSUM_BYTES_def MAGIC_def)
qed

function replay_from :: "codec \<Rightarrow> frame_chain \<Rightarrow> nat \<Rightarrow> bytes \<Rightarrow> replay_result" where
  "replay_from cd chain offset bs =
     (case next_frame cd chain offset bs of
        Inl r \<Rightarrow> r
      | Inr (entries, chain', n) \<Rightarrow>
          let later = replay_from cd chain' (offset + n) (drop n bs) in
          later\<lparr>rr_records := map fst entries @ rr_records later\<rparr>)"
  by pat_completeness auto

termination
  by (relation "measure (\<lambda>(cd, chain, offset, bs). length bs)") (auto elim!: next_frame_frame)

declare replay_from.simps [simp del]

definition replayFrames :: "codec \<Rightarrow> bytes \<Rightarrow> string \<Rightarrow> replay_result" where
  "replayFrames cd bs p = replay_from cd (newFrameChain p) 0 bs"

section \<open>The read-ahead window\<close>

definition WINDOW_BYTES :: nat where "WINDOW_BYTES = 4 * 1024 * 1024"

type_synonym descriptor = "nat \<Rightarrow> nat \<Rightarrow> bytes"

record read_window =
  wi_buffer :: bytes
  wi_start :: nat

definition new_window :: read_window where
  "new_window = \<lparr>wi_buffer = [], wi_start = 0\<rparr>"

function fill_window :: "descriptor \<Rightarrow> nat \<Rightarrow> nat \<Rightarrow> bytes \<Rightarrow> string + bytes" where
  "fill_window read offset wanted filled =
     (if wanted \<le> length filled then Inr filled
      else let got = take (wanted - length filled) (read (offset + length filled) (wanted - length filled)) in
           if got = [] then Inl ''journal changed while being read''
           else fill_window read offset wanted (filled @ got))"
  by pat_completeness auto

termination
  by (relation "measure (\<lambda>(read, offset, wanted, filled). wanted - length filled)")
    (auto simp: neq_Nil_conv min_def)

declare fill_window.simps [simp del]

definition window_view ::
    "descriptor \<Rightarrow> nat \<Rightarrow> nat \<Rightarrow> nat \<Rightarrow> read_window \<Rightarrow> string + (bytes \<times> read_window)" where
  "window_view read last_byte offset len w =
     (if wi_start w \<le> offset \<and> offset + len \<le> wi_start w + length (wi_buffer w) then
        Inr (slice (offset - wi_start w) (offset - wi_start w + len) (wi_buffer w), w)
      else
        let wanted = min (max WINDOW_BYTES len) (last_byte - offset) in
        case fill_window read offset wanted [] of
          Inl e \<Rightarrow> Inl e
        | Inr buffer \<Rightarrow> Inr (take len buffer, \<lparr>wi_buffer = buffer, wi_start = offset\<rparr>))"

section \<open>The positional reader\<close>

text \<open>What the fold sees of a record; a payload that is absent is read like \<open>null\<close> by every policy.\<close>

definition fold_view :: "journal_record \<times> nat \<Rightarrow> fold_record" where
  "fold_view e =
     \<lparr>fr_seq = jr_seq (fst e), fr_type = jr_type (fst e), fr_time = jr_time (fst e),
      fr_payload = nullish (jr_payload (fst e)) JNull, fr_byteLength = snd e\<rparr>"

record read_state =
  rs_window :: read_window
  rs_chain :: frame_chain
  rs_sink :: "journal_record fold_state"
  rs_offset :: nat
  rs_incompleteOffset :: "nat option"
  rs_error :: "(nat \<times> string) option"

definition frame_entry :: "journal_record \<times> nat \<Rightarrow> journal_record \<times> fold_record" where
  "frame_entry e = (fst e, fold_view e)"

function read_loop ::
    "codec \<Rightarrow> descriptor \<Rightarrow> (fold_record \<Rightarrow> fold_verdict) \<Rightarrow> nat \<Rightarrow> read_state \<Rightarrow> string + read_state" where
  "read_loop cd read policy last_byte st =
     (let offset = rs_offset st; remaining = last_byte - offset in
      if \<not> offset < last_byte then Inr st
      else case window_view read last_byte offset (min PREFIX_BYTES remaining) (rs_window st) of
        Inl e \<Rightarrow> Inl e
      | Inr (view, w1) \<Rightarrow>
          (case readFramePrefix cd view remaining of
             IncompletePrefix \<Rightarrow> Inr (st\<lparr>rs_window := w1, rs_incompleteOffset := Some offset\<rparr>)
           | CorruptPrefix reason \<Rightarrow> Inr (st\<lparr>rs_window := w1, rs_error := Some (offset, reason)\<rparr>)
           | FramePrefix h p n \<Rightarrow>
               (case window_view read last_byte offset n w1 of
                  Inl e \<Rightarrow> Inl e
                | Inr (frame, w2) \<Rightarrow>
                    (case frame_records cd (rs_chain st) offset frame h p of
                       Inl reason \<Rightarrow> Inr (st\<lparr>rs_window := w2, rs_error := Some (offset, reason)\<rparr>)
                     | Inr (entries, chain') \<Rightarrow>
                         (case push_all policy (map frame_entry entries) (rs_sink st) of
                            Inl e \<Rightarrow> Inl e
                          | Inr sink' \<Rightarrow>
                              read_loop cd read policy last_byte
                                (st\<lparr>rs_window := w2, rs_chain := chain', rs_sink := sink',
                                  rs_offset := offset + n\<rparr>))))))"
  by pat_completeness auto

termination
  by (relation "measure (\<lambda>(cd, read, policy, last_byte, st). last_byte - rs_offset st)")
    (auto dest!: frame_length_positive)

declare read_loop.simps [simp del]

record frame_read_result =
  rd_retained :: "journal_record list"
  rd_epoch :: "string option"
  rd_nextSeq :: int
  rd_previousFrameHash :: string
  rd_knownFileBytes :: nat
  rd_incompleteOffset :: "nat option"
  rd_error :: "(nat \<times> string) option"
  rd_retiredCount :: nat
  rd_retiredBytes :: nat

definition read_start :: "string \<Rightarrow> read_state" where
  "read_start p =
     \<lparr>rs_window = new_window, rs_chain = newFrameChain p, rs_sink = foldStream, rs_offset = 0,
      rs_incompleteOffset = None, rs_error = None\<rparr>"

definition readFrames ::
    "codec \<Rightarrow> descriptor \<Rightarrow> nat \<Rightarrow> nat option \<Rightarrow> (fold_record \<Rightarrow> fold_verdict) \<Rightarrow> string \<Rightarrow>
     string + frame_read_result" where
  "readFrames cd read size_bytes limit policy p =
     (let last_byte = (case limit of None \<Rightarrow> size_bytes | Some l \<Rightarrow> min size_bytes l) in
      case read_loop cd read policy last_byte (read_start p) of
        Inl e \<Rightarrow> Inl e
      | Inr st \<Rightarrow>
          let folded = fst (fold_finish (rs_sink st)) in
          Inr \<lparr>rd_retained = fo_retained folded, rd_epoch = fc_epoch (rs_chain st),
            rd_nextSeq = fc_expectedSeq (rs_chain st),
            rd_previousFrameHash = fc_previous (rs_chain st), rd_knownFileBytes = rs_offset st,
            rd_incompleteOffset = rs_incompleteOffset st, rd_error = rs_error st,
            rd_retiredCount = fo_retiredCount folded, rd_retiredBytes = fo_retiredBytes folded\<rparr>)"

end
