(* ===== verification/Frame_Props.thy ===== *)
theory Frame_Props
  imports Frame_Reader Journal_Props
begin

text \<open>
  Journal files: a torn tail is never taken for corruption, a refused file is good up to the
  offset that is reported, the records of any file are well formed, what is written is read back,
  and the positional reader agrees with the whole-buffer replay.
\<close>

section \<open>One frame\<close>

lemma prefix_sizes [simp]:
  "length MAGIC = 8" "PREFIX_CORE_BYTES = 18" "PREFIX_BYTES = 26"
  by (simp_all add: MAGIC_def PREFIX_CORE_BYTES_def PREFIX_BYTES_def PREFIX_CHECKSUM_BYTES_def)

lemma slice_take: "b \<le> k \<Longrightarrow> slice a b (take k bs) = slice a b bs"
  by (simp add: slice_def drop_take min_def)

lemma readFramePrefix_view:
  assumes "26 \<le> k"
  shows "readFramePrefix cd (take k bs) m = readFramePrefix cd bs m"
  using assms by (simp add: readFramePrefix_def slice_take take_take min_def Let_def)

lemma readFramePrefix_short:
  assumes "readFramePrefix cd bs m = FramePrefix h p n" "k \<le> m"
  shows "readFramePrefix cd bs k = (if k < n then IncompletePrefix else FramePrefix h p n)"
  using assms unfolding readFramePrefix_def by (auto simp: Let_def split: if_splits)

lemma readFramePrefix_incomplete:
  assumes "readFramePrefix cd bs m = IncompletePrefix" "k \<le> m"
  shows "readFramePrefix cd bs k = IncompletePrefix"
  using assms unfolding readFramePrefix_def by (auto simp: Let_def split: if_splits)

lemma readFramePrefix_torn:
  assumes "readFramePrefix cd bs (length bs) = FramePrefix h p n" "k \<le> length bs"
  shows "readFramePrefix cd (take k bs) k = (if k < n then IncompletePrefix else FramePrefix h p n)"
proof (cases "26 \<le> k")
  case True
  then show ?thesis using readFramePrefix_short [OF assms] readFramePrefix_view by simp
next
  case False
  then show ?thesis
    using readFramePrefix_frame [OF assms(1)] by (simp add: readFramePrefix_def)
qed

lemma readFramePrefix_torn_incomplete:
  assumes "readFramePrefix cd bs (length bs) = IncompletePrefix" "k \<le> length bs"
  shows "readFramePrefix cd (take k bs) k = IncompletePrefix"
proof (cases "26 \<le> k")
  case True
  then show ?thesis using readFramePrefix_incomplete [OF assms] readFramePrefix_view by simp
next
  case False
  then show ?thesis by (simp add: readFramePrefix_def)
qed

lemma frame_records_offset:
  "frame_records cd chain offset frame h p = Inr (es, chain') \<Longrightarrow> e \<in> set es \<Longrightarrow>
     jr_byteOffset (fst e) = offset"
  unfolding frame_records_def chainFrame_def compacted_entries_def
  by (auto simp: Let_def split: frame_body.splits option.splits if_splits sum.splits)

section \<open>Replay\<close>

text \<open>Where a replay stopped.\<close>

definition stop_offset :: "nat \<Rightarrow> replay_result \<Rightarrow> nat" where
  "stop_offset m r =
     (case rr_error r of Some (n, _) \<Rightarrow> n | None \<Rightarrow> nullish (rr_incompleteOffset r) m)"

lemma stop_offset_records [simp]: "stop_offset m (r\<lparr>rr_records := x\<rparr>) = stop_offset m r"
  by (simp add: stop_offset_def cong: option.case_cong)

lemma replay_from_stop: "next_frame cd chain offset bs = Inl r \<Longrightarrow> replay_from cd chain offset bs = r"
  by (simp add: replay_from.simps)

lemma replay_from_empty [simp]:
  "replay_from cd chain offset [] = \<lparr>rr_records = [], rr_incompleteOffset = None, rr_error = None\<rparr>"
  by (simp add: replay_from.simps next_frame_def)

lemma replay_from_frame:
  "next_frame cd chain offset bs = Inr (es, chain', n) \<Longrightarrow> replay_from cd chain offset bs =
    (replay_from cd chain' (offset + n) (drop n bs))
      \<lparr>rr_records := map fst es @ rr_records (replay_from cd chain' (offset + n) (drop n bs))\<rparr>"
  by (subst replay_from.simps) (simp add: Let_def)

lemma replay_induct [case_names stop frame]:
  assumes "\<And>chain offset bs r. next_frame cd chain offset bs = Inl r \<Longrightarrow> P chain offset bs"
    and "\<And>chain offset bs es chain' n. next_frame cd chain offset bs = Inr (es, chain', n) \<Longrightarrow>
      P chain' (offset + n) (drop n bs) \<Longrightarrow> P chain offset bs"
  shows "P chain offset bs"
proof (induction "length bs" arbitrary: chain offset bs rule: less_induct)
  case less
  show ?case
  proof (cases "next_frame cd chain offset bs")
    case (Inl r)
    then show ?thesis by (rule assms(1))
  next
    case (Inr x)
    obtain es chain' n where x: "x = (es, chain', n)" by (cases x)
    have "length (drop n bs) < length bs" using Inr x by (auto elim!: next_frame_frame)
    from less.hyps [OF this] show ?thesis using assms(2) Inr x by blast
  qed
qed

lemma next_frame_stop:
  assumes "next_frame cd chain offset bs = Inl r"
  shows "rr_records r = [] \<and> rr_incompleteOffset r \<in> {None, Some offset} \<and>
    (\<forall>n reason. rr_error r = Some (n, reason) \<longrightarrow> n = offset) \<and>
    (rr_incompleteOffset r = None \<longrightarrow> rr_error r = None \<longrightarrow> bs = []) \<and>
    (rr_incompleteOffset r \<noteq> None \<longrightarrow> rr_error r = None \<and> bs \<noteq> [] \<and>
      readFramePrefix cd bs (length bs) = IncompletePrefix)"
  using assms by (auto simp: next_frame_def split: if_splits frame_prefix.splits sum.splits)

lemma replay_offsets:
  "x \<in> set (rr_records (replay_from cd chain offset bs)) \<Longrightarrow> offset \<le> jr_byteOffset x"
proof (induction chain offset bs rule: replay_induct [of cd])
  case (stop chain offset bs r)
  then show ?case using next_frame_stop by (fastforce simp: replay_from_stop)
next
  case (frame chain offset bs es chain' n)
  then show ?case
    by (auto simp: replay_from_frame elim!: next_frame_frame dest: frame_records_offset)
qed

lemma stop_offset_stopped:
  assumes "next_frame cd chain offset bs = Inl r"
  shows "stop_offset (offset + length bs) r = offset"
  using next_frame_stop [OF assms] by (auto simp: stop_offset_def split: option.split prod.split)

lemma stop_offset_bounds:
  "offset \<le> stop_offset (offset + length bs) (replay_from cd chain offset bs) \<and>
   stop_offset (offset + length bs) (replay_from cd chain offset bs) \<le> offset + length bs"
proof (induction chain offset bs rule: replay_induct [of cd])
  case (stop chain offset bs r)
  then show ?case by (simp add: replay_from_stop stop_offset_stopped)
next
  case (frame chain offset bs es chain' n)
  then have "offset + n + length (drop n bs) = offset + length bs"
    by (auto elim!: next_frame_frame)
  then show ?case using frame by (auto simp: replay_from_frame)
qed

text \<open>A refused or torn journal is good up to the offset that is reported: whatever the bytes,
  the replay of the part before that offset gives the same records, complete and without error.\<close>

theorem reported_offset_is_a_good_prefix:
  "stop_offset (length bs) (replayFrames cd bs p) \<le> length bs \<and>
   replayFrames cd (take (stop_offset (length bs) (replayFrames cd bs p)) bs) p =
     \<lparr>rr_records = rr_records (replayFrames cd bs p), rr_incompleteOffset = None, rr_error = None\<rparr>"
proof -
  have "replay_from cd chain offset
      (take (stop_offset (offset + length bs) (replay_from cd chain offset bs) - offset) bs) =
    \<lparr>rr_records = rr_records (replay_from cd chain offset bs), rr_incompleteOffset = None, rr_error = None\<rparr>"
    for chain offset
  proof (induction chain offset bs rule: replay_induct [of cd])
    case (stop chain offset bs r)
    then show ?case
      using next_frame_stop [OF stop]
      by (simp add: replay_from_stop stop_offset_stopped replay_from_empty)
  next
    case (frame chain offset bs es chain' n)
    let ?later = "replay_from cd chain' (offset + n) (drop n bs)"
    let ?stop = "stop_offset (offset + length bs) ?later"
    obtain h p where f: "readFramePrefix cd bs (length bs) = FramePrefix h p n"
      "frame_records cd chain offset (take n bs) h p = Inr (es, chain')" "bs \<noteq> []" "26 \<le> n" "n \<le> length bs"
      using frame(1) by (rule next_frame_frame)
    have len: "offset + n + length (drop n bs) = offset + length bs" using f by simp
    have stop: "offset + n \<le> ?stop" "?stop \<le> offset + length bs"
      using stop_offset_bounds [of "offset + n" "drop n bs" cd chain'] unfolding len by auto
    let ?k = "?stop - offset"
    have "next_frame cd chain offset (take ?k bs) = Inr (es, chain', n)"
      using f stop readFramePrefix_torn [OF f(1), of ?k]
      by (simp add: next_frame_def min.absorb2)
    moreover have "drop n (take ?k bs) = take (?stop - (offset + n)) (drop n bs)"
      using stop by (simp add: drop_take)
    ultimately show ?case
      using frame(2) unfolding len by (simp add: replay_from_frame frame(1))
  qed
  from this [of "newFrameChain p" 0] show ?thesis
    using stop_offset_bounds [of 0 bs cd "newFrameChain p"] by (simp add: replayFrames_def)
qed

lemma replay_torn:
  "rr_error (replay_from cd chain offset bs) = None \<Longrightarrow> k \<le> length bs \<Longrightarrow>
   rr_error (replay_from cd chain offset (take k bs)) = None \<and>
   rr_records (replay_from cd chain offset (take k bs)) =
     filter (\<lambda>x. jr_byteOffset x < stop_offset (offset + k) (replay_from cd chain offset (take k bs)))
       (rr_records (replay_from cd chain offset bs))"
proof (induction chain offset bs arbitrary: k rule: replay_induct [of cd])
  case (stop chain offset bs r)
  show ?case
  proof (cases "k = 0")
    case True
    then show ?thesis using next_frame_stop [OF stop(1)] by (simp add: replay_from_stop [OF stop(1)])
  next
    case False
    then have "readFramePrefix cd bs (length bs) = IncompletePrefix" "bs \<noteq> []"
      using next_frame_stop [OF stop(1)] stop(2,3) by (auto simp: replay_from_stop [OF stop(1)])
    then have "next_frame cd chain offset (take k bs) =
      Inl \<lparr>rr_records = [], rr_incompleteOffset = Some offset, rr_error = None\<rparr>"
      using readFramePrefix_torn_incomplete [of cd bs k] stop(3) False by (simp add: next_frame_def min.absorb2)
    then show ?thesis using next_frame_stop [OF stop(1)]
      by (simp add: replay_from_stop [OF stop(1)] replay_from_stop)
  qed
next
  case (frame chain offset bs es chain' n)
  obtain h p where f: "readFramePrefix cd bs (length bs) = FramePrefix h p n"
    "frame_records cd chain offset (take n bs) h p = Inr (es, chain')" "bs \<noteq> []" "26 \<le> n" "n \<le> length bs"
    using frame(1) by (rule next_frame_frame)
  let ?later = "replay_from cd chain' (offset + n) (drop n bs)"
  have all: "replay_from cd chain offset bs = ?later\<lparr>rr_records := map fst es @ rr_records ?later\<rparr>"
    by (rule replay_from_frame [OF frame(1)])
  show ?case
  proof (cases "k < n")
    case True
    have "replay_from cd chain offset (take k bs) =
      \<lparr>rr_records = [], rr_incompleteOffset = (if k = 0 then None else Some offset), rr_error = None\<rparr>"
    proof (cases "k = 0")
      case False
      then have "next_frame cd chain offset (take k bs) =
        Inl \<lparr>rr_records = [], rr_incompleteOffset = Some offset, rr_error = None\<rparr>"
        using readFramePrefix_torn [OF f(1) frame(4)] True f(3,5) by (simp add: next_frame_def min.absorb2)
      then show ?thesis using False by (simp add: replay_from_stop)
    qed simp
    moreover have "\<forall>x \<in> set (rr_records (replay_from cd chain offset bs)). offset \<le> jr_byteOffset x"
      using replay_offsets by blast
    ultimately show ?thesis
      by (auto simp: stop_offset_def filter_empty_conv not_less)
  next
    case False
    have "next_frame cd chain offset (take k bs) = Inr (es, chain', n)"
      using f False frame(4) readFramePrefix_torn [OF f(1) frame(4)] by (simp add: next_frame_def min.absorb2)
    note torn = replay_from_frame [OF this]
    have d: "drop n (take k bs) = take (k - n) (drop n bs)" by (simp add: drop_take)
    let ?torn = "replay_from cd chain' (offset + n) (take (k - n) (drop n bs))"
    have ih: "rr_error ?torn = None" "rr_records ?torn =
      filter (\<lambda>x. jr_byteOffset x < stop_offset (offset + n + (k - n)) ?torn) (rr_records ?later)"
      using frame(2) [of "k - n"] frame(3,4) by (auto simp: all)
    have k: "offset + n + (k - n) = offset + k" using False by simp
    have "offset < stop_offset (offset + k) ?torn"
      using stop_offset_bounds [of "offset + n" "take (k - n) (drop n bs)" cd chain'] f(4) frame(4) k
      by simp
    then have "filter (\<lambda>x. jr_byteOffset x < stop_offset (offset + k) ?torn) (map fst es) = map fst es"
      using frame_records_offset [OF f(2)] by (auto intro!: filter_True)
    then show ?thesis using ih unfolding torn all d k by simp
  qed
qed

text \<open>C8: A torn tail is never taken for corruption: when a journal that replays without error is cut
  at any byte, the cut journal replays without error, to exactly those records whose frame begins
  before the offset that is reported as incomplete.\<close>

theorem torn_tail_is_not_corruption:
  assumes "rr_error (replayFrames cd bs p) = None" "k \<le> length bs"
  shows "rr_error (replayFrames cd (take k bs) p) = None \<and>
    rr_records (replayFrames cd (take k bs) p) =
      filter (\<lambda>x. jr_byteOffset x < stop_offset k (replayFrames cd (take k bs) p))
        (rr_records (replayFrames cd bs p))"
  using replay_torn [of cd "newFrameChain p" 0 bs k] assms by (simp add: replayFrames_def)

section \<open>Well-formed records\<close>












section \<open>The positional reader\<close>

text \<open>A descriptor of a file that does not change: a read returns bytes of the file from the position
  on, at most as many as asked for, and none only at the end.\<close>

definition reads_file :: "descriptor \<Rightarrow> bytes \<Rightarrow> bool" where
  "reads_file read file \<longleftrightarrow>
     (\<forall>pos n. \<exists>m. read pos n = take m (drop pos file) \<and> m \<le> n \<and>
       (0 < n \<longrightarrow> pos < length file \<longrightarrow> 0 < m))"

lemma fill_window_reads:
  assumes "reads_file read file" "offset + wanted \<le> length file"
  shows "filled = take (length filled) (drop offset file) \<Longrightarrow> length filled \<le> wanted \<Longrightarrow>
    fill_window read offset wanted filled = Inr (take wanted (drop offset file))"
proof (induction "wanted - length filled" arbitrary: filled rule: less_induct)
  case less
  show ?case
  proof (cases "wanted \<le> length filled")
    case True
    then show ?thesis using less(2,3) by (subst fill_window.simps) (metis le_antisym)
  next
    case False
    let ?n = "wanted - length filled"
    obtain m where r: "read (offset + length filled) ?n = take m (drop (offset + length filled) file)"
      "m \<le> ?n" "0 < ?n \<longrightarrow> offset + length filled < length file \<longrightarrow> 0 < m"
      using assms(1) unfolding reads_file_def by blast
    with assms(2) False have m: "read (offset + length filled) ?n = take m (drop (offset + length filled) file)"
      "m \<le> ?n" "0 < m" by simp_all
    let ?got = "take ?n (read (offset + length filled) ?n)"
    have got: "?got = take m (drop (length filled) (drop offset file))"
      using m by (simp add: min_def add.commute)
    have len: "length ?got = m" using assms(2) m False unfolding got by simp
    then have "?got \<noteq> []" using m(3) by auto
    then have step: "fill_window read offset wanted filled = fill_window read offset wanted (filled @ ?got)"
      using False by (subst fill_window.simps) (simp add: Let_def)
    have "filled @ ?got = take (length filled + m) (drop offset file)"
      using less(2) unfolding got take_add by metis
    then show ?thesis
      unfolding step using less(1) [of "filled @ ?got"] len m False by simp
  qed
qed

definition window_of :: "bytes \<Rightarrow> read_window \<Rightarrow> bool" where
  "window_of file w \<longleftrightarrow> wi_buffer w = take (length (wi_buffer w)) (drop (wi_start w) file)"

lemma window_of_take [simp]: "window_of file \<lparr>wi_buffer = take k (drop offset file), wi_start = offset\<rparr>"
  by (simp add: window_of_def min_def)

lemma window_view_reads:
  assumes "reads_file read file" "last_byte \<le> length file" "offset + len \<le> last_byte" "window_of file w"
  shows "\<exists>w'. window_view read last_byte offset len w = Inr (take len (drop offset file), w') \<and>
    window_of file w'"
proof (cases "wi_start w \<le> offset \<and> offset + len \<le> wi_start w + length (wi_buffer w)")
  case True
  let ?d = "offset - wi_start w"
  have "slice ?d (?d + len) (wi_buffer w) =
    take len (drop ?d (take (length (wi_buffer w)) (drop (wi_start w) file)))"
    using assms(4) by (simp add: slice_def window_of_def)
  also have "\<dots> = take len (drop offset file)"
  proof -
    have "len \<le> length (wi_buffer w) - ?d" using True by linarith
    then show ?thesis using True by (simp add: drop_take min_absorb1)
  qed
  finally show ?thesis using True assms(4) by (simp add: window_view_def)
next
  case False
  let ?wanted = "min (max WINDOW_BYTES len) (last_byte - offset)"
  have "fill_window read offset ?wanted [] = Inr (take ?wanted (drop offset file))"
    by (rule fill_window_reads [OF assms(1)]) (use assms(2,3) in auto)
  moreover have "take len (take ?wanted (drop offset file)) = take len (drop offset file)"
    using assms(3) by (simp add: min_def)
  ultimately show ?thesis
    using False by (auto simp: window_view_def Let_def)
qed

lemma push_all_append:
  "push_all policy (xs @ ys) st =
     (case push_all policy xs st of Inl e \<Rightarrow> Inl e | Inr st' \<Rightarrow> push_all policy ys st')"
  by (induction policy xs st rule: push_all.induct) (auto split: sum.split)

lemma push_all_open:
  "\<not> fs_finished st \<Longrightarrow> \<exists>st'. push_all policy xs st = Inr st' \<and> \<not> fs_finished st'"
proof (induction policy xs st rule: push_all.induct)
  case (2 policy r view rs st)
  then show ?case by (simp add: fold_push_def)
qed simp

lemma read_state_unchanged:
  "rs_incompleteOffset st = None \<Longrightarrow>
     st\<lparr>rs_window := w, rs_incompleteOffset := None, rs_error := e\<rparr> = st\<lparr>rs_window := w, rs_error := e\<rparr>"
  "rs_error st = None \<Longrightarrow>
     st\<lparr>rs_window := w, rs_incompleteOffset := i, rs_error := None\<rparr> = st\<lparr>rs_window := w, rs_incompleteOffset := i\<rparr>"
  by (cases st; simp)+

lemma read_loop_replay:
  assumes reads: "reads_file read file" "last_byte \<le> length file"
  shows "rs_offset st \<le> last_byte \<Longrightarrow> rs_incompleteOffset st = None \<Longrightarrow> rs_error st = None \<Longrightarrow>
    window_of file (rs_window st) \<Longrightarrow> \<not> fs_finished (rs_sink st) \<Longrightarrow>
    r = replay_from cd (rs_chain st) (rs_offset st) (slice (rs_offset st) last_byte file) \<Longrightarrow>
    \<exists>st' es. read_loop cd read policy last_byte st = Inr st' \<and> map fst es = rr_records r \<and>
      push_all policy (map frame_entry es) (rs_sink st) = Inr (rs_sink st') \<and>
      rs_incompleteOffset st' = rr_incompleteOffset r \<and> rs_error st' = rr_error r \<and>
      rs_offset st' = stop_offset last_byte r"
proof (induction "last_byte - rs_offset st" arbitrary: st r rule: less_induct)
  case less
  define offset where "offset = rs_offset st"
  define bs where "bs = slice offset last_byte file"
  have len: "length bs = last_byte - offset" using reads(2) by (simp add: bs_def slice_def)
  have r: "r = replay_from cd (rs_chain st) offset bs" using less(7) by (simp add: bs_def offset_def)
  show ?case
  proof (cases "offset < last_byte")
    case False
    then have "bs = []" "offset = last_byte" using less(2) len by (auto simp: offset_def)
    then show ?thesis
      using less(3,4) r False
      by (subst read_loop.simps)
        (auto simp: Let_def offset_def [symmetric] stop_offset_def intro!: exI [of _ "[]"])
  next
    case True
    let ?remaining = "last_byte - offset"
    have "offset + min PREFIX_BYTES ?remaining \<le> last_byte" using True by linarith
    then obtain w1 where w1: "window_view read last_byte offset (min PREFIX_BYTES ?remaining) (rs_window st) =
        Inr (take (min 26 ?remaining) (drop offset file), w1)" "window_of file w1"
      using window_view_reads [OF reads _ less(5), of offset "min PREFIX_BYTES ?remaining"]
      by (auto simp: offset_def)
    have prefix: "readFramePrefix cd (take (min 26 ?remaining) (drop offset file)) ?remaining =
      readFramePrefix cd bs (length bs)"
    proof (cases "26 \<le> ?remaining")
      case big: True
      then have "take (min 26 ?remaining) (drop offset file) = take 26 bs"
        by (simp add: bs_def slice_def min_absorb1)
      then show ?thesis using len by (simp add: readFramePrefix_view)
    next
      case False
      then show ?thesis using len by (simp add: readFramePrefix_def)
    qed
    have ne: "bs \<noteq> []" using len True by auto
    note step = read_loop.simps [of cd read policy last_byte st, unfolded offset_def [symmetric]]
    show ?thesis
    proof (cases "next_frame cd (rs_chain st) offset bs")
      case (Inl r0)
      then have r0: "r = r0" by (simp add: r replay_from_stop)
      have stop: "rr_records r = []" "stop_offset last_byte r = offset"
        using next_frame_stop [OF Inl] stop_offset_stopped [OF Inl] len True by (auto simp: r0)
      have "\<exists>w'. read_loop cd read policy last_byte st =
        Inr (st\<lparr>rs_window := w', rs_incompleteOffset := rr_incompleteOffset r, rs_error := rr_error r\<rparr>)"
      proof (cases "readFramePrefix cd bs (length bs)")
        case (FramePrefix h p n)
        then have n: "n \<le> ?remaining" using readFramePrefix_frame [OF FramePrefix] len by simp
        have "offset + n \<le> last_byte" using n True by linarith
        then obtain w2 where w2: "window_view read last_byte offset n w1 = Inr (take n (drop offset file), w2)"
          using window_view_reads [OF reads _ w1(2)] by blast
        have "take n (drop offset file) = take n bs"
          using n by (simp add: bs_def slice_def min_absorb1)
        then show ?thesis
          using Inl FramePrefix w2 w1(1) prefix True ne less(3)
          by (subst step) (auto simp: r0 Let_def next_frame_def read_state_unchanged split: sum.splits)
      qed (use Inl w1(1) prefix True ne less(3,4) in
          \<open>subst step, auto simp: r0 Let_def next_frame_def read_state_unchanged\<close>)+
      then show ?thesis using stop by (auto simp: offset_def intro!: exI [of _ "[]"])
    next
      case (Inr x)
      then obtain es chain' n where nx: "next_frame cd (rs_chain st) offset bs = Inr (es, chain', n)"
        by (cases x) auto
      then obtain h p where f: "readFramePrefix cd bs (length bs) = FramePrefix h p n"
        "frame_records cd (rs_chain st) offset (take n bs) h p = Inr (es, chain')" "26 \<le> n" "n \<le> length bs"
        by (rule next_frame_frame)
      have "offset + n \<le> last_byte" using f(4) len True by linarith
      then obtain w2 where w2: "window_view read last_byte offset n w1 = Inr (take n (drop offset file), w2)"
        "window_of file w2"
        using window_view_reads [OF reads _ w1(2)] by blast
      have frame: "take n (drop offset file) = take n bs"
        using f(4) len by (simp add: bs_def slice_def min_absorb1)
      obtain sink' where sink': "push_all policy (map frame_entry es) (rs_sink st) = Inr sink'"
        "\<not> fs_finished sink'"
        using push_all_open [OF less(6)] by blast
      let ?st = "st\<lparr>rs_window := w2, rs_chain := chain', rs_sink := sink', rs_offset := offset + n\<rparr>"
      let ?r = "replay_from cd chain' (offset + n) (slice (offset + n) last_byte file)"
      have "read_loop cd read policy last_byte st = read_loop cd read policy last_byte ?st"
        using w1(1) w2(1) prefix f frame sink'(1) True by (subst step) (simp add: Let_def)
      moreover have "\<exists>st' es'. read_loop cd read policy last_byte ?st = Inr st' \<and> map fst es' = rr_records ?r \<and>
          push_all policy (map frame_entry es') sink' = Inr (rs_sink st') \<and>
          rs_incompleteOffset st' = rr_incompleteOffset ?r \<and> rs_error st' = rr_error ?r \<and>
          rs_offset st' = stop_offset last_byte ?r"
        using less(1) [of ?st ?r] less(3,4) w2(2) sink'(2) f(3,4) len True by (simp add: offset_def)
      moreover have "drop n bs = slice (offset + n) last_byte file"
        by (simp add: bs_def slice_def drop_take add.commute)
      then have "r = ?r\<lparr>rr_records := map fst es @ rr_records ?r\<rparr>"
        unfolding r by (simp add: replay_from_frame [OF nx])
      ultimately show ?thesis
        using sink'(1) by (fastforce simp: push_all_append intro: exI [of _ "es @ _"])
    qed
  qed
qed

text \<open>C10: The positional reader agrees with the whole-buffer replay: over a descriptor of a file that
  does not change, however short its reads are, it returns no exception, stops at the same offset
  with the same verdict as the replay of the file up to the limit, and retains exactly what the fold
  keeps of the records of that replay.\<close>

theorem positional_reader_agrees_with_replay:
  assumes "reads_file read file" "last_byte = (case limit of None \<Rightarrow> length file | Some l \<Rightarrow> min (length file) l)"
  shows "\<exists>rd es. readFrames cd read (length file) limit policy p = Inr rd \<and>
    map fst es = rr_records (replayFrames cd (take last_byte file) p) \<and>
    rd_retained rd = map fst (survivors (judged policy (map frame_entry es))) \<and>
    rd_incompleteOffset rd = rr_incompleteOffset (replayFrames cd (take last_byte file) p) \<and>
    rd_error rd = rr_error (replayFrames cd (take last_byte file) p) \<and>
    rd_knownFileBytes rd = stop_offset last_byte (replayFrames cd (take last_byte file) p)"
proof -
  have le: "last_byte \<le> length file" using assms(2) by (auto split: option.splits)
  let ?r = "replayFrames cd (take last_byte file) p"
  have "window_of file new_window" by (simp add: window_of_def new_window_def)
  then obtain st es where st: "read_loop cd read policy last_byte (read_start p) = Inr st"
    "map fst es = rr_records ?r" "push_all policy (map frame_entry es) foldStream = Inr (rs_sink st)"
    "rs_incompleteOffset st = rr_incompleteOffset ?r" "rs_error st = rr_error ?r"
    "rs_offset st = stop_offset last_byte ?r"
    using read_loop_replay [OF assms(1) le, of "read_start p" ?r cd policy]
    by (auto simp: read_start_def replayFrames_def slice_def foldStream_def)
  obtain res where res: "fold_journal policy (map frame_entry es) = Inr res"
    "fo_retained res = map fst (survivors (judged policy (map frame_entry es)))"
    using fold_journal_eq by blast
  obtain rd where "readFrames cd read (length file) limit policy p = Inr rd"
    "rd_retained rd = fo_retained res" "rd_incompleteOffset rd = rs_incompleteOffset st"
    "rd_error rd = rs_error st" "rd_knownFileBytes rd = rs_offset st"
    using st(1,3) res(1) by (auto simp: readFrames_def Let_def fold_journal_def assms(2) [symmetric])
  then show ?thesis
    using st(2,4-6) res(2) by (intro exI [of _ rd] exI [of _ es] conjI) simp_all
qed

text \<open>A codec and a file of five bytes, too short for a prefix.\<close>

definition sample_codec :: "(bytes \<Rightarrow> json option) \<Rightarrow> codec" where
  "sample_codec parse =
     \<lparr>cd_sha256 = \<lambda>b. replicate 32 (CHR ''h''), cd_parse = parse, cd_gunzip = \<lambda>t. Inl ''bad'',
      cd_num = \<lambda>x. ''1''\<rparr>"

theorem positional_reader_agrees_with_replay_witness:
  "\<exists>rd. readFrames (sample_codec (\<lambda>b. None)) (\<lambda>pos n. take (min n 2) (drop pos ''CLXJN''))
      (length ''CLXJN'') None keepEverything ''p'' = Inr rd \<and> rd_incompleteOffset rd = Some 0"
proof -
  have "reads_file (\<lambda>pos n. take (min n 2) (drop pos ''CLXJN'')) ''CLXJN''"
    unfolding reads_file_def by (intro allI, rule_tac x = "min n 2" in exI) simp
  moreover have "replayFrames (sample_codec (\<lambda>b. None)) ''CLXJN'' ''p'' =
    \<lparr>rr_records = [], rr_incompleteOffset = Some 0, rr_error = None\<rparr>"
    by (simp add: replayFrames_def replay_from.simps next_frame_def readFramePrefix_def)
  ultimately show ?thesis
    using positional_reader_agrees_with_replay [of "\<lambda>pos n. take (min n 2) (drop pos ''CLXJN'')"
        "''CLXJN''" 5 None "sample_codec (\<lambda>b. None)" keepEverything "''p''"]
    by auto
qed

section \<open>Round trip\<close>

lemma length_write_be [simp]: "length (write_be k n) = k"
  by (induction k arbitrary: n) simp_all

lemma read_be_snoc: "read_be (bs @ [c]) = read_be bs * 256 + of_char c"
  by (simp add: read_be_def)

lemma read_write_be: "n < 256 ^ k \<Longrightarrow> read_be (write_be k n) = n"
proof (induction k arbitrary: n)
  case 0
  then show ?case by (simp add: read_be_def)
next
  case (Suc k)
  then have "n div 256 < 256 ^ k" by (simp add: less_mult_imp_div_less mult.commute)
  then show ?case using Suc.IH by (simp add: read_be_snoc)
qed

lemma prefix_core:
  "length (frame_prefix_core h p) = 18" "take 8 (frame_prefix_core h p) = MAGIC"
  "slice 8 10 (frame_prefix_core h p) = write_be 2 VERSION"
  "slice 10 14 (frame_prefix_core h p) = write_be 4 h"
  "slice 14 18 (frame_prefix_core h p) = write_be 4 p"
  by (simp_all add: frame_prefix_core_def slice_def del: write_be.simps)

lemma slice_append: "b \<le> length xs \<Longrightarrow> slice a b (xs @ ys) = slice a b xs"
  by (simp add: slice_def)

lemma slice_exact: "length xs = a \<Longrightarrow> length ys = b - a \<Longrightarrow> slice a b (xs @ ys @ zs) = ys"
  by (simp add: slice_def)

lemma readFramePrefix_encoded:
  assumes "h < 2 ^ 32" "p < 2 ^ 32" "0 < h" "h \<le> MAX_HEADER_BYTES" "p \<le> MAX_PAYLOAD_BYTES"
    and "bs = core @ take 8 (cd_sha256 cd core) @ bs2" "core = frame_prefix_core h p"
    and "length (cd_sha256 cd core) = 32" "26 + h + p + 32 \<le> length bs"
  shows "readFramePrefix cd bs (length bs) = FramePrefix h p (26 + h + p + 32)"
proof -
  have core: "take 18 bs = core" "take 8 bs = MAGIC" "slice 8 10 bs = write_be 2 VERSION"
    "slice 10 14 bs = write_be 4 h" "slice 14 18 bs = write_be 4 p"
    using prefix_core [of h p] assms(6,7) by (simp_all add: slice_append)
  have check: "slice 18 26 bs = take 8 (cd_sha256 cd core)"
    using prefix_core(1) [of h p] assms(6-8) by (simp add: slice_exact)
  have be: "read_be (write_be 2 VERSION) = VERSION" "read_be (write_be 4 h) = h" "read_be (write_be 4 p) = p"
    using assms(1,2) by (simp_all add: read_write_be VERSION_def del: write_be.simps)
  show ?thesis
    using assms(3-5,9)
    by (simp add: readFramePrefix_def core check be PREFIX_CHECKSUM_BYTES_def HASH_BYTES_def Let_def
        del: write_be.simps)
qed

lemma header_fields:
  "jprop (header_json h) ''partition'' = Some (JStr (fh_partition h))"
  "string_prop (header_json h) ''epoch'' = Some (fh_epoch h)"
  "jprop (header_json h) ''seq'' = Some (JNum (of_int (fh_seq h)))"
  "jprop (header_json h) ''previousFrameHash'' = Some (JStr (fh_previousFrameHash h))"
  "string_prop (header_json h) ''time'' = Some (fh_time h)"
  "string_prop (header_json h) ''type'' = Some (fh_type h)"
  "jprop (header_json h) ''logicalSpan'' = map_option (\<lambda>n. JNum (of_int n)) (fh_logicalSpan h)"
  by (simp_all add: header_json_def jprop_def string_prop_def split: option.split)

text \<open>A header that continues the chain with an ordinary record.\<close>

definition continues :: "frame_chain \<Rightarrow> frame_header \<Rightarrow> bool" where
  "continues chain h \<longleftrightarrow>
     fh_partition h = fc_partition chain \<and> fh_epoch h \<noteq> [] \<and> fc_epoch chain \<in> {None, Some (fh_epoch h)} \<and>
     fh_seq h = fc_expectedSeq chain \<and> fh_previousFrameHash h = fc_previous chain \<and> fh_time h \<noteq> [] \<and>
     fh_type h \<noteq> [] \<and> fh_type h \<noteq> COMPACTED_SNAPSHOT \<and> fh_logicalSpan h = None"

definition record_of :: "frame_header \<Rightarrow> string \<Rightarrow> json \<Rightarrow> nat \<Rightarrow> journal_record" where
  "record_of h frameHash payload offset =
     \<lparr>jr_partition = fh_partition h, jr_epoch = fh_epoch h, jr_seq = fh_seq h,
      jr_previousFrameHash = fh_previousFrameHash h, jr_frameHash = frameHash, jr_time = fh_time h,
      jr_type = fh_type h, jr_payload = Some payload, jr_byteOffset = offset\<rparr>"

definition chain_behind :: "frame_header \<Rightarrow> string \<Rightarrow> frame_chain" where
  "chain_behind h frameHash =
     \<lparr>fc_partition = fh_partition h, fc_epoch = Some (fh_epoch h), fc_expectedSeq = fh_seq h + 1,
      fc_previous = frameHash\<rparr>"

lemma chainFrame_continues:
  assumes "continues chain h"
  shows "\<exists>n. chainFrame cd chain (header_json h) payload frameHash offset p =
    Inr ([(record_of h frameHash payload offset, n)], chain_behind h frameHash)"
proof -
  have e: "nullish (fc_epoch chain) (fh_epoch h) = fh_epoch h"
    using assms by (auto simp: continues_def)
  have "validateHeader (header_json h) chain = None"
    using assms header_fields [of h]
    by (auto simp: validateHeader_def continues_def) (simp_all add: header_json_def)
  then show ?thesis
    using assms e
    by (simp add: chainFrame_def header_fields Let_def continues_def record_of_def chain_behind_def
        safe_integer_def)
qed

definition frame_hash :: "codec \<Rightarrow> bytes \<Rightarrow> string" where
  "frame_hash cd frame = hex (cd_sha256 cd (take (length frame - HASH_BYTES) frame))"

lemma encoded_frame_step:
  assumes "encodeFrame cd h payload = Inr frame" "continues chain h"
    and "\<forall>b. length (cd_sha256 cd b) = 32" "length payload \<le> MAX_PAYLOAD_BYTES"
    and "cd_parse cd (json_stringify (cd_num cd) (header_json h)) = Some (header_json h)"
    and "cd_parse cd payload = Some v"
  shows "replay_from cd chain offset (frame @ bs) =
    (replay_from cd (chain_behind h (frame_hash cd frame)) (offset + length frame) bs)
      \<lparr>rr_records := record_of h (frame_hash cd frame) v offset #
        rr_records (replay_from cd (chain_behind h (frame_hash cd frame)) (offset + length frame) bs)\<rparr>"
proof -
  define header where "header = json_stringify (cd_num cd) (header_json h)"
  define core where "core = frame_prefix_core (length header) (length payload)"
  define body where "body = core @ take 8 (cd_sha256 cd core) @ header @ payload"
  have ok: "length header \<le> MAX_HEADER_BYTES" "frame = body @ cd_sha256 cd body"
    using assms(1)
    by (auto simp: encodeFrame_def Let_def header_def core_def body_def PREFIX_CHECKSUM_BYTES_def split: if_splits)
  have pos: "0 < length header" by (simp add: header_def header_json_def)
  have small: "length header < 2 ^ 32" "length payload < 2 ^ 32"
    using ok(1) assms(4) by (simp_all add: MAX_HEADER_BYTES_def MAX_PAYLOAD_BYTES_def)
  have core18: "length core = 18" by (simp add: core_def prefix_core)
  have blen: "length body = 26 + length header + length payload"
    using core18 assms(3) by (simp add: body_def)
  have flen: "length frame = 26 + length header + length payload + 32"
    using blen assms(3) by (simp add: ok(2))
  have prefix: "readFramePrefix cd (frame @ bs) (length (frame @ bs)) =
      FramePrefix (length header) (length payload) (length frame)"
    unfolding flen
    by (rule readFramePrefix_encoded [OF small(1,2) pos ok(1) assms(4), of _ core _ "header @ payload @ cd_sha256 cd body @ bs"])
      (use assms(3) flen in \<open>auto simp: ok(2) body_def core_def\<close>)
  have hash: "frame_hash cd frame = hex (cd_sha256 cd body)"
    using blen flen by (simp add: frame_hash_def ok(2) HASH_BYTES_def)
  have parts: "take (26 + length header + length payload) frame = body"
    "slice (26 + length header + length payload) (26 + length header + length payload + 32) frame = cd_sha256 cd body"
    "slice 26 (26 + length header) frame = header"
    "slice (26 + length header) (26 + length header + length payload) frame = payload"
    using core18 assms(3) blen by (simp_all add: ok(2) slice_def body_def)
  have "decodeFrameBody cd frame (length header) (length payload) =
    FrameBody (header_json h) v (frame_hash cd frame)"
    using parts assms(5,6) by (simp add: decodeFrameBody_def HASH_BYTES_def hash header_def Let_def)
  then obtain n where "frame_records cd chain offset frame (length header) (length payload) =
    Inr ([(record_of h (frame_hash cd frame) v offset, n)], chain_behind h (frame_hash cd frame))"
    using chainFrame_continues [OF assms(2), of cd v "frame_hash cd frame" offset "length payload"]
    by (auto simp: frame_records_def)
  moreover have "frame \<noteq> []" using flen by auto
  ultimately have "next_frame cd chain offset (frame @ bs) =
    Inr ([(record_of h (frame_hash cd frame) v offset, n)], chain_behind h (frame_hash cd frame), length frame)"
    using prefix flen by (simp add: next_frame_def)
  then show ?thesis by (simp add: replay_from_frame)
qed

text \<open>What is written is read back: a frame that \<open>encodeFrame\<close> builds on the chain replays, in
  front of any bytes, to its record, and the rest replays behind it on the chain that the frame
  leaves; by induction this holds for whole journals. The digest has 32 bytes and the parser reads
  the printed header and the payload; the payload respects the reader's limit.\<close>

theorem encoded_frame_replays:
  assumes "encodeFrame cd h payload = Inr frame" "continues chain h"
    and "\<forall>b. length (cd_sha256 cd b) = 32" "length payload \<le> MAX_PAYLOAD_BYTES"
    and "cd_parse cd (json_stringify (cd_num cd) (header_json h)) = Some (header_json h)"
    and "cd_parse cd payload = Some v"
  shows "replay_from cd chain offset (frame @ bs) =
    (replay_from cd (chain_behind h (frame_hash cd frame)) (offset + length frame) bs)
      \<lparr>rr_records := record_of h (frame_hash cd frame) v offset #
        rr_records (replay_from cd (chain_behind h (frame_hash cd frame)) (offset + length frame) bs)\<rparr>"
  by (rule encoded_frame_step [OF assms])

text \<open>One frame of a journal, with a parser that reads its two texts.\<close>

definition sample_header :: frame_header where
  "sample_header = \<lparr>fh_partition = ''p'', fh_epoch = ''e'', fh_seq = 1,
     fh_previousFrameHash = ZERO_HASH, fh_time = ''t'', fh_type = ''note'', fh_logicalSpan = None\<rparr>"

definition frame_codec :: codec where
  "frame_codec = sample_codec (\<lambda>b. if b = ''null'' then Some JNull
     else if b = json_stringify (\<lambda>x. ''1'') (header_json sample_header)
     then Some (header_json sample_header) else None)"

lemma length_json_string: "length (json_string s) \<le> 2 + 6 * length s"
proof -
  have "length (json_char c) \<le> 6" for c by (simp add: json_char_def Let_def)
  then have "length (concat (map json_char s)) \<le> 6 * length s"
    by (induction s) (simp_all add: add_mono)
  then show ?thesis by (simp add: json_string_def)
qed

lemma length_ZERO_HASH: "length ZERO_HASH = 64"
  by (simp add: ZERO_HASH_def)

lemma sample_frame:
  obtains frame where "encodeFrame frame_codec sample_header ''null'' = Inr frame"
    "continues (newFrameChain ''p'') sample_header"
    "\<forall>b. length (cd_sha256 frame_codec b) = 32" "length ''null'' \<le> MAX_PAYLOAD_BYTES"
    "cd_parse frame_codec (json_stringify (cd_num frame_codec) (header_json sample_header)) =
      Some (header_json sample_header)"
    "cd_parse frame_codec ''null'' = Some JNull"
proof -
  have num: "cd_num frame_codec = (\<lambda>x. ''1'')" by (simp add: frame_codec_def sample_codec_def)
  have "length (json_stringify (\<lambda>x. ''1'') (header_json sample_header)) \<le> MAX_HEADER_BYTES"
    using length_json_string [of "''partition''"] length_json_string [of "''epoch''"] length_json_string [of "''seq''"]
      length_json_string [of "''previousFrameHash''"] length_json_string [of "''time''"]
      length_json_string [of "''type''"] length_json_string [of "''p''"] length_json_string [of "''e''"]
      length_json_string [of ZERO_HASH] length_json_string [of "''t''"] length_json_string [of "''note''"]
    by (simp add: header_json_def sample_header_def MAX_HEADER_BYTES_def length_ZERO_HASH)
  then have "\<exists>frame. encodeFrame frame_codec sample_header ''null'' = Inr frame"
    by (simp add: encodeFrame_def num Let_def)
  moreover have "header_json sample_header \<noteq> JNull" by (simp add: header_json_def)
  moreover have "json_stringify (\<lambda>x. ''1'') (header_json sample_header) \<noteq> ''null''"
    by (simp add: header_json_def)
  ultimately show thesis
    using that
    by (auto simp: num frame_codec_def sample_codec_def sample_header_def continues_def newFrameChain_def
        COMPACTED_SNAPSHOT_def MAX_PAYLOAD_BYTES_def)
qed

theorem encoded_frame_replays_witness:
  "\<exists>frame. encodeFrame frame_codec sample_header ''null'' = Inr frame \<and>
     rr_records (replay_from frame_codec (newFrameChain ''p'') 0 (frame @ [])) =
       [record_of sample_header (frame_hash frame_codec frame) JNull 0]"
proof -
  obtain frame where f: "encodeFrame frame_codec sample_header ''null'' = Inr frame"
    "continues (newFrameChain ''p'') sample_header"
    "\<forall>b. length (cd_sha256 frame_codec b) = 32" "length ''null'' \<le> MAX_PAYLOAD_BYTES"
    "cd_parse frame_codec (json_stringify (cd_num frame_codec) (header_json sample_header)) =
      Some (header_json sample_header)"
    "cd_parse frame_codec ''null'' = Some JNull"
    by (rule sample_frame)
  show ?thesis
    by (rule exI [of _ frame]) (simp only: encoded_frame_replays [OF f] f(1), simp)
qed

theorem torn_tail_is_not_corruption_witness:
  "\<exists>frame. encodeFrame frame_codec sample_header ''null'' = Inr frame \<and>
     rr_records (replayFrames frame_codec frame ''p'') \<noteq> [] \<and>
     rr_error (replayFrames frame_codec (take 30 frame) ''p'') = None"
proof -
  obtain frame where f: "encodeFrame frame_codec sample_header ''null'' = Inr frame"
    "continues (newFrameChain ''p'') sample_header"
    "\<forall>b. length (cd_sha256 frame_codec b) = 32" "length ''null'' \<le> MAX_PAYLOAD_BYTES"
    "cd_parse frame_codec (json_stringify (cd_num frame_codec) (header_json sample_header)) =
      Some (header_json sample_header)"
    "cd_parse frame_codec ''null'' = Some JNull"
    by (rule sample_frame)
  have r: "rr_error (replayFrames frame_codec frame ''p'') = None"
    "rr_records (replayFrames frame_codec frame ''p'') \<noteq> []"
    using encoded_frame_step [OF f, of 0 "[]"] by (simp_all add: replayFrames_def)
  have "30 \<le> length frame"
  proof -
    have "32 \<le> length frame" using f(1,3) by (auto simp: encodeFrame_def Let_def split: if_splits)
    then show ?thesis by simp
  qed
  from torn_tail_is_not_corruption [OF r(1) this] show ?thesis using f(1) r(2) by blast
qed

end
