(* ===== verification/Snapshot_Props.thy ===== *)
theory Snapshot_Props
  imports Frame_Props
begin

text \<open>
  Compacted snapshots: the bracket scanner finds the end of every printed object, so a printed array
  of logical records is read back record by record.
\<close>

section \<open>Scanning printed JSON\<close>

definition structural :: "char \<Rightarrow> bool" where
  "structural c \<longleftrightarrow> c \<in> {CHR 0x22, CHR 0x7b, CHR 0x7d, CHR 0x5b, CHR 0x5d}"

definition shift :: "nat \<Rightarrow> nat option \<Rightarrow> nat option" where
  "shift n = map_option (\<lambda>x. n + x)"

lemma shift_simps [simp]:
  "shift n None = None" "shift n (Some x) = Some (n + x)" "shift 0 v = v" "shift m (shift n v) = shift (m + n) v"
  by (cases v; simp add: shift_def)+

lemma map_option_Suc: "map_option Suc v = shift 1 v"
  by (cases v) simp_all

text \<open>Text that the scanner passes over inside a bracket.\<close>

definition neutral :: "bytes \<Rightarrow> bool" where
  "neutral s \<longleftrightarrow>
     (\<forall>stack bs. stack \<noteq> [] \<longrightarrow>
       scan_from stack False False (s @ bs) = shift (length s) (scan_from stack False False bs))"

lemma neutral_append: "neutral s \<Longrightarrow> neutral t \<Longrightarrow> neutral (s @ t)"
  by (simp add: neutral_def)

lemma neutral_nil [simp]: "neutral []"
  by (simp add: neutral_def)

lemma neutral_char: "\<not> structural c \<Longrightarrow> neutral [c]"
  by (simp add: neutral_def structural_def map_option_Suc)

lemma neutral_Cons: "\<not> structural c \<Longrightarrow> neutral s \<Longrightarrow> neutral (c # s)"
  using neutral_append [of "[c]" s] neutral_char by simp

lemma neutral_plain: "\<forall>c \<in> set s. \<not> structural c \<Longrightarrow> neutral s"
proof (induction s)
  case (Cons c s)
  then show ?case by (simp add: neutral_Cons)
qed simp

lemma scan_plain_char:
  "c \<noteq> CHR 0x22 \<Longrightarrow> c \<noteq> CHR 0x5c \<Longrightarrow>
     scan_from stack True False (c # bs) = shift 1 (scan_from stack True False bs)"
  by (simp add: map_option_Suc)

lemma scan_backslash:
  "scan_from stack True False (CHR 0x5c # c # bs) = shift 2 (scan_from stack True False bs)"
  by (simp add: map_option_Suc numeral_2_eq_2)

lemma quote_chars: "char_of (92 :: nat) = CHR 0x5c" "char_of (34 :: nat) = CHR 0x22"
  by (simp_all add: char_of_def bit_Suc_0_iff)

lemma json_char_forms:
  "(json_char c = [c] \<and> c \<noteq> CHR 0x22 \<and> c \<noteq> CHR 0x5c) \<or> (\<exists>d. json_char c = [CHR 0x5c, d]) \<or>
   (\<exists>d h. json_char c = [CHR 0x5c, d, CHR ''0'', CHR ''0'', hex_digit h, hex_digit (of_char c mod 16)] \<and> h < 2)"
proof -
  have "c \<noteq> CHR 0x22" if "of_char c \<noteq> (34 :: nat)" using that by auto
  moreover have "c \<noteq> CHR 0x5c" if "of_char c \<noteq> (92 :: nat)" using that by auto
  ultimately show ?thesis by (auto simp: json_char_def Let_def quote_chars)
qed

lemma hex_digit_plain:
  assumes "n < 16"
  shows "hex_digit n \<noteq> CHR 0x22 \<and> hex_digit n \<noteq> CHR 0x5c"
proof -
  have "of_char (hex_digit n) = (if n < 10 then 48 + n else 87 + n)"
    using assms by (simp add: hex_digit_def)
  then show ?thesis using assms by (auto split: if_splits)
qed

lemma scan_json_char:
  "scan_from stack True False (json_char c @ bs) = shift (length (json_char c)) (scan_from stack True False bs)"
proof -
  consider "json_char c = [c]" "c \<noteq> CHR 0x22" "c \<noteq> CHR 0x5c" | d where "json_char c = [CHR 0x5c, d]"
    | d h where "json_char c = [CHR 0x5c, d, CHR ''0'', CHR ''0'', hex_digit h, hex_digit (of_char c mod 16)]"
      "h < 2"
    using json_char_forms [of c] by (elim disjE exE conjE) assumption
  then show ?thesis
  proof cases
    case 3
    have "hex_digit h \<noteq> CHR 0x22 \<and> hex_digit h \<noteq> CHR 0x5c" by (rule hex_digit_plain) (use 3(2) in simp)
    moreover have "hex_digit (of_char c mod 16) \<noteq> CHR 0x22 \<and> hex_digit (of_char c mod 16) \<noteq> CHR 0x5c"
      by (rule hex_digit_plain) simp
    ultimately show ?thesis
      by (simp add: 3(1) scan_backslash scan_plain_char del: scan_from.simps)
        (rule arg_cong2 [where f = shift], simp, rule refl)
  next
    case 2
    show ?thesis
      by (simp add: 2 scan_backslash del: scan_from.simps)
        (rule arg_cong2 [where f = shift], simp, rule refl)
  qed (simp add: scan_plain_char del: scan_from.simps)
qed

lemma scan_json_chars:
  "scan_from stack True False (concat (map json_char s) @ bs) =
     shift (length (concat (map json_char s))) (scan_from stack True False bs)"
  by (induction s) (simp_all add: scan_json_char del: scan_from.simps)

lemma neutral_string: "neutral (json_string s)"
proof -
  have "scan_from stack False False (json_string s @ bs) =
    shift (length (json_string s)) (scan_from stack False False bs)" for stack bs
  proof -
    have "scan_from stack False False (json_string s @ bs) =
      shift 1 (scan_from stack True False (concat (map json_char s) @ CHR 0x22 # bs))"
      by (simp add: json_string_def quote_chars map_option_Suc)
    also have "\<dots> = shift (length (json_string s)) (scan_from stack False False bs)"
      by (subst scan_json_chars) (simp add: json_string_def map_option_Suc)
    finally show ?thesis .
  qed
  then show ?thesis by (simp add: neutral_def)
qed

lemma neutral_join:
  "\<forall>s \<in> set ss. neutral s \<Longrightarrow> neutral (join '','' ss)"
proof (induction "'',''" ss rule: join.induct)
  case (3 s t ss)
  have "\<not> structural (CHR '','')" by (simp add: structural_def)
  then show ?case using 3 by (simp add: neutral_append neutral_Cons)
qed simp_all

text \<open>What stands between matching brackets is skipped with them.\<close>

lemma scan_bracket:
  assumes "neutral s" "(a, b) \<in> {(CHR 0x7b, CHR 0x7d), (CHR 0x5b, CHR 0x5d)}"
  shows "scan_from stack False False ([a] @ s @ [b] @ bs) =
    (if stack = [] then Some (length s + 2)
     else shift (length s + 2) (scan_from stack False False bs))"
proof -
  have "scan_from stack False False ([a] @ s @ [b] @ bs) =
    shift 1 (scan_from (a # stack) False False (s @ [b] @ bs))"
    using assms(2) by (auto simp: map_option_Suc)
  also have "\<dots> = shift (1 + length s) (scan_from (a # stack) False False (b # bs))"
    using assms(1) by (simp add: neutral_def del: scan_from.simps)
  also have "\<dots> = (if stack = [] then Some (length s + 2)
     else shift (length s + 2) (scan_from stack False False bs))"
    using assms(2) by (auto simp: map_option_Suc)
  finally show ?thesis .
qed

lemma neutral_bracket:
  assumes "neutral s" "(a, b) \<in> {(CHR 0x7b, CHR 0x7d), (CHR 0x5b, CHR 0x5d)}"
  shows "neutral ([a] @ s @ [b])"
  using scan_bracket [OF assms] by (simp add: neutral_def del: scan_from.simps)

text \<open>How numbers print: without quotes and brackets.\<close>

definition plain_numbers :: "(rat \<Rightarrow> string) \<Rightarrow> bool" where
  "plain_numbers num \<longleftrightarrow> (\<forall>x. \<forall>c \<in> set (num x). \<not> structural c)"

lemma neutral_json:
  assumes "plain_numbers num"
  shows "neutral (json_stringify num v)"
proof (induction v)
  case (JBool b)
  show ?case by (rule neutral_plain) (cases b; simp add: show_bool_def structural_def)
next
  case (JNum x)
  show ?case by (rule neutral_plain) (use assms in \<open>simp add: plain_numbers_def\<close>)
next
  case (JArr vs)
  then show ?case
    using neutral_bracket [of "join '','' (map (json_stringify num) vs)" "CHR 0x5b" "CHR 0x5d"] neutral_join
    by auto
next
  case (JObj kvs)
  have member: "neutral (json_string (fst p) @ '':'' @ json_stringify num (snd p))" if "p \<in> set kvs" for p
  proof -
    have "neutral (json_stringify num (snd p))" using JObj that by (metis snds.intros)
    then show ?thesis by (simp add: neutral_append neutral_Cons neutral_string structural_def)
  qed
  show ?case
    using member neutral_bracket [of "join '','' (map (\<lambda>p. json_string (fst p) @ '':'' @ json_stringify num (snd p)) kvs)"
        "CHR 0x7b" "CHR 0x7d"] neutral_join
    by auto
qed (auto simp: neutral_string structural_def intro: neutral_plain)

lemma scan_printed_object:
  assumes "plain_numbers num"
  shows "scanCompactedRecord (json_stringify num (JObj kvs) @ bs) =
    Some (length (json_stringify num (JObj kvs)))"
proof -
  let ?s = "join '','' (map (\<lambda>p. json_string (fst p) @ '':'' @ json_stringify num (snd p)) kvs)"
  have "neutral ?s"
    using neutral_json [OF assms]
    by (intro neutral_join) (auto simp: neutral_append neutral_Cons neutral_string structural_def)
  from scan_bracket [OF this, of "CHR 0x7b" "CHR 0x7d" "[]" bs] show ?thesis
    by (simp add: scanCompactedRecord_def del: scan_from.simps)
qed

section \<open>Reading a printed snapshot\<close>

lemma no_space [simp]: "skipJsonWhitespace (c # bs) = (if json_space c then skipJsonWhitespace bs else c # bs)"
  "skipJsonWhitespace [] = []"
  by (simp_all add: skipJsonWhitespace_def)

lemma object_starts: "json_stringify num (JObj kvs) = CHR 0x7b # tl (json_stringify num (JObj kvs))"
  by simp

text \<open>A logical record that is read back: an object that parses and validates.\<close>

definition reads_back :: "codec \<Rightarrow> json \<Rightarrow> compacted_record \<Rightarrow> bool" where
  "reads_back cd v r \<longleftrightarrow>
     cd_parse cd (json_stringify (cd_num cd) v) = Some v \<and>
     validateCompactedRecord v (length (json_stringify (cd_num cd) v)) = Some r"

lemma validated_object: "validateCompactedRecord v n = Some r \<Longrightarrow> \<exists>kvs. v = JObj kvs"
  by (cases v) (simp_all add: validateCompactedRecord_def string_prop_def jprop_def)

lemma skip_object:
  "skipJsonWhitespace (json_stringify num (JObj kvs) @ bs) = json_stringify num (JObj kvs) @ bs"
  by (simp add: json_space_def)

lemma compacted_loop_printed:
  assumes "plain_numbers (cd_num cd)"
  shows "list_all2 (reads_back cd) (v # vs) rs \<Longrightarrow>
    compacted_loop cd (length (v # vs)) (join '','' (map (json_stringify (cd_num cd)) (v # vs)) @ CHR 0x5d # bs) =
      Inr (rs, bs)"
proof (induction vs arbitrary: v rs)
  case Nil
  then obtain r where r: "rs = [r]" "reads_back cd v r" by (auto simp: list_all2_Cons1)
  then obtain kvs where v: "v = JObj kvs" by (auto simp: reads_back_def dest: validated_object)
  show ?case
    using r scan_printed_object [OF assms, of kvs "CHR 0x5d # bs"]
    by (simp add: v reads_back_def skip_object Let_def json_space_def del: json_stringify.simps)
next
  case (Cons v' vs)
  then obtain r rs' where r: "rs = r # rs'" "reads_back cd v r" "list_all2 (reads_back cd) (v' # vs) rs'"
    by (auto simp: list_all2_Cons1)
  then obtain kvs where v: "v = JObj kvs" by (auto simp: reads_back_def dest: validated_object)
  let ?more = "join '','' (map (json_stringify (cd_num cd)) (v' # vs)) @ CHR 0x5d # bs"
  have "compacted_loop cd (Suc (length (v' # vs))) (json_stringify (cd_num cd) (JObj kvs) @ CHR '','' # ?more) =
    Inr (rs, bs)"
    using r Cons.IH [OF r(3)] scan_printed_object [OF assms, of kvs "CHR '','' # ?more"]
    by (simp add: v reads_back_def skip_object Let_def json_space_def del: json_stringify.simps)
  then show ?case by (simp add: v del: json_stringify.simps)
qed

text \<open>C11: A printed snapshot is read back record by record: when every logical record prints to text
  that the parser reads back and that validates, the streaming reader splits the printed array at
  exactly the printed objects, whatever brackets, quotes and escapes their strings contain, and
  returns the records in order with the size of their text.\<close>

theorem printed_snapshot_is_read_back:
  assumes "plain_numbers (cd_num cd)" "list_all2 (reads_back cd) vs rs"
  shows "parseCompactedRecords cd (json_stringify (cd_num cd) (JArr vs)) (length vs) = Inr rs"
proof (cases vs)
  case Nil
  then show ?thesis using assms(2) by (simp add: parseCompactedRecords_def json_space_def)
next
  case (Cons v vs')
  let ?all = "join '','' (map (json_stringify (cd_num cd)) (v # vs'))"
  have "compacted_loop cd (length (v # vs')) (?all @ [CHR 0x5d]) = Inr (rs, [])"
    using compacted_loop_printed [OF assms(1), of v vs' rs "[]"] assms(2) Cons by simp
  moreover have "json_stringify (cd_num cd) (JArr vs) = CHR 0x5b # ?all @ [CHR 0x5d]"
    by (simp add: Cons)
  ultimately show ?thesis
    by (simp add: parseCompactedRecords_def Cons json_space_def del: json_stringify.simps join.simps compacted_loop.simps)
qed

text \<open>A record whose text holds quotes and brackets inside a string.\<close>

definition odd_record :: json where
  "odd_record = JObj [(''time'', JStr ''t''), (''type'', JStr [CHR 0x7d, CHR 0x22, CHR 0x5b]),
     (''payload'', JNull)]"

definition odd_codec :: codec where
  "odd_codec = sample_codec (\<lambda>b. if b = json_stringify (\<lambda>x. ''1'') odd_record then Some odd_record else None)"

theorem printed_snapshot_is_read_back_witness:
  "\<exists>r. parseCompactedRecords odd_codec (json_stringify (cd_num odd_codec) (JArr [odd_record, odd_record])) 2 =
     Inr [r, r] \<and> cr_type r = [CHR 0x7d, CHR 0x22, CHR 0x5b]"
proof -
  have num: "cd_num odd_codec = (\<lambda>x. ''1'')" by (simp add: odd_codec_def sample_codec_def)
  define r where "r = \<lparr>cr_seq = None, cr_time = ''t'', cr_type = [CHR 0x7d, CHR 0x22, CHR 0x5b],
    cr_payload = Some JNull, cr_byteLength = length (json_stringify (\<lambda>x. ''1'') odd_record)\<rparr>"
  have "validateCompactedRecord odd_record n = Some (r\<lparr>cr_byteLength := n\<rparr>)" for n
    by (simp add: validateCompactedRecord_def odd_record_def string_prop_def jprop_def r_def
        COMPACTED_SNAPSHOT_def)
  then have "list_all2 (reads_back odd_codec) [odd_record, odd_record] [r, r]"
    by (simp add: reads_back_def num) (simp add: odd_codec_def sample_codec_def r_def)
  moreover have "plain_numbers (cd_num odd_codec)"
    by (simp add: num plain_numbers_def structural_def)
  ultimately show ?thesis
    using printed_snapshot_is_read_back [of odd_codec "[odd_record, odd_record]" "[r, r]"]
    by (intro exI [of _ r]) (simp add: r_def numeral_2_eq_2 del: json_stringify.simps)
qed

end
