(* ===== verification/Accounts.thy ===== *)
theory Accounts
  imports Quota_Scope
begin

text \<open>
  The accounts of a harness and the evidence about them: \<open>schema/src/credential-profile.ts\<close>,
  \<open>util/src/secret-names.ts\<close>, and of \<open>orchestrator/src\<close> the files
  \<open>credential-cooldown.ts\<close> (live blocks and the terminal of an exhausted pool),
  \<open>quota-refusal-scope.ts\<close> (why an account was refused) and \<open>account-evidence.ts\<close>
  (credentials observed dead). The clock is the argument \<open>now\<close>, \<open>Date.parse\<close> the
  argument \<open>dp\<close>. A model is undefined (\<open>None\<close>), null (\<open>Some None\<close>) or a name.
\<close>

section \<open>Credential profiles\<close>

datatype credential_kind = ConfigDirLogin | OauthToken | ApiKeyCredential

record credential_profile =
  pf_profile_id :: string
  pf_harness_id :: string
  pf_display_name :: string
  pf_credential_kind :: credential_kind
  pf_isolation_locator :: "string option"
  pf_secret_ref :: "string option"
  pf_enabled :: bool
  pf_created_at :: "string option"

definition MANAGED_SECRET_NAMES :: "string list" where
  "MANAGED_SECRET_NAMES =
     [''openai'', ''anthropic'', ''claude_oauth'', ''openrouter'', ''cursor'', ''opencode'',
      ''copilot'', ''raw'']"

definition slug_start :: "char \<Rightarrow> bool" where
  "slug_start c \<longleftrightarrow>
     (let n = of_char c :: nat in (97 \<le> n \<and> n \<le> 122) \<or> (48 \<le> n \<and> n \<le> 57))"

text \<open>The pattern of a profile suffix: a letter or digit and at most 63 more characters.\<close>

definition profile_suffix :: "string \<Rightarrow> bool" where
  "profile_suffix s \<longleftrightarrow>
     (case s of [] \<Rightarrow> False
      | c # cs \<Rightarrow> slug_start c \<and> length cs \<le> 63 \<and>
                  (\<forall>d \<in> set cs. slug_start d \<or> d = CHR ''_'' \<or> d = CHR ''-''))"

definition before_colon :: "string \<Rightarrow> string" where
  "before_colon s = takeWhile (\<lambda>c. c \<noteq> CHR '':'') s"

definition isManagedSecretName :: "string \<Rightarrow> bool" where
  "isManagedSecretName name =
     (if before_colon name \<notin> set MANAGED_SECRET_NAMES then False
      else before_colon name = name \<or> profile_suffix (drop (Suc (length (before_colon name))) name))"

definition namespacedSecretRefBase :: "string option \<Rightarrow> string option" where
  "namespacedSecretRefBase ref =
     (case truthy ref of
        None \<Rightarrow> None
      | Some name \<Rightarrow>
          if \<not> isManagedSecretName name then None
          else if before_colon name = name then None
          else Some (before_colon name))"

text \<open>The rules the schema adds to the shape of a profile.\<close>

definition profile_refined :: "credential_profile \<Rightarrow> bool" where
  "profile_refined p =
     (if pf_credential_kind p = ConfigDirLogin
      then truthy (pf_isolation_locator p) \<noteq> None \<and> truthy (pf_secret_ref p) = None
      else truthy (pf_secret_ref p) \<noteq> None \<and> namespacedSecretRefBase (pf_secret_ref p) \<noteq> None \<and>
           truthy (pf_isolation_locator p) = None)"

definition resolveCredentialProfile ::
  "credential_profile list \<Rightarrow> string \<Rightarrow> string \<Rightarrow> string + credential_profile" where
  "resolveCredentialProfile registry wanted harnessId =
     (case find (\<lambda>p. pf_profile_id p = wanted \<and> pf_harness_id p = harnessId) registry of
        None \<Rightarrow> Inl (''credential profile \"'' @ wanted @ ''\" is not registered for harness \"'' @
                     harnessId @ ''\"'')
      | Some p \<Rightarrow>
          if \<not> pf_enabled p
          then Inl (''credential profile \"'' @ wanted @ ''\" ('' @ harnessId @ '') is disabled'')
          else Inr p)"

section \<open>The subject of a limit decision\<close>

definition limitSubjectRoute :: "credential_kind option \<Rightarrow> auth_mode option \<Rightarrow> auth_mode option" where
  "limitSubjectRoute kind defaultRoute =
     (case kind of
        None \<Rightarrow> defaultRoute
      | Some k \<Rightarrow> Some (if k = ApiKeyCredential then ApiKey else LocalSession))"

datatype limit_action = LimitAuto | LimitFail | LimitAsk | LimitRotate

record profile_policy =
  po_limit_action :: limit_action
  po_rotation_eligible :: "string list"
  po_headroom_threshold :: rat

definition effectiveLimitAction :: "limit_action \<Rightarrow> auth_mode option \<Rightarrow> limit_action" where
  "effectiveLimitAction a route =
     (if a \<noteq> LimitAuto then a else if route = Some LocalSession then LimitRotate else LimitFail)"

section \<open>Headroom\<close>

record headroom_breach =
  hb_constraint_id :: string
  hb_used_ratio :: rat
  hb_threshold :: rat
  hb_resets_at :: "string option"

definition subject_is :: "string \<Rightarrow> string option \<Rightarrow> quota_snapshot \<Rightarrow> bool" where
  "subject_is harnessId profileId s \<longleftrightarrow>
     qs_harness (qn_subject s) = harnessId \<and> qs_subject_id (qn_subject s) = profileId"

text \<open>The windows both headroom loops visit, in their order.\<close>

definition subject_windows ::
  "quota_snapshot list \<Rightarrow> string \<Rightarrow> string option \<Rightarrow> (quota_snapshot \<times> quota_constraint) list" where
  "subject_windows snapshots harnessId profileId =
     concat (map (\<lambda>s. map (Pair s) (qn_constraints s)) (filter (subject_is harnessId profileId) snapshots))"

text \<open>The fresh and applicable usage of one window.\<close>

definition fresh_usage ::
  "(string \<Rightarrow> int option) \<Rightarrow> int \<Rightarrow> string option option \<Rightarrow> quota_request_kind option \<Rightarrow>
   quota_snapshot \<times> quota_constraint \<Rightarrow> rat option" where
  "fresh_usage dp now model requestKind w =
     (let s = fst w; c = snd w in
      if quotaWindowFreshness dp (qn_freshness s) (qn_observed_at s) (qc_resets_at c) now \<noteq> FreshQ then None
      else if \<not> quotaConstraintAppliesToRequestKind (qc_applies_to_request_kinds c)
                  (nullish requestKind TextRequest) then None
      else if \<not> quotaConstraintAppliesToModel (flat (qc_applies_to_models c))
                  (qc_applies_to_model_prefixes c) (qc_applies_to_unspecified_model c) model then None
      else qc_used_ratio c)"

fun breach_scan ::
  "(quota_snapshot \<times> quota_constraint \<Rightarrow> rat option) \<Rightarrow> rat \<Rightarrow> headroom_breach option \<Rightarrow>
   (quota_snapshot \<times> quota_constraint) list \<Rightarrow> headroom_breach option" where
  "breach_scan usage threshold breach [] = breach"
| "breach_scan usage threshold breach (w # ws) =
     (case usage w of
        None \<Rightarrow> breach_scan usage threshold breach ws
      | Some u \<Rightarrow>
          if u < threshold then breach_scan usage threshold breach ws
          else if breach \<noteq> None \<and> u < 1 then breach_scan usage threshold breach ws
          else
            let b = Some \<lparr>hb_constraint_id = qc_id (snd w), hb_used_ratio = u,
                          hb_threshold = threshold, hb_resets_at = qc_resets_at (snd w)\<rparr>
            in if 1 \<le> u then b else breach_scan usage threshold b ws)"

definition profileHeadroomBreach ::
  "(string \<Rightarrow> int option) \<Rightarrow> quota_snapshot list \<Rightarrow> string \<Rightarrow> string option \<Rightarrow> rat \<Rightarrow>
   string option option \<Rightarrow> quota_request_kind option \<Rightarrow> int \<Rightarrow> headroom_breach option" where
  "profileHeadroomBreach dp snapshots harnessId profileId threshold model requestKind now =
     breach_scan (fresh_usage dp now model requestKind) threshold None
       (subject_windows snapshots harnessId profileId)"

section \<open>Live blocks\<close>

definition REOPENING_UNKNOWN_COOLDOWN_ID :: string where
  "REOPENING_UNKNOWN_COOLDOWN_ID = ''cooldown:reopening_unknown''"

datatype block_kind = BlockExhausted | BlockCooldown

record quota_block =
  qb_constraint_id :: "string option"
  qb_resets_at :: "string option"
  qb_reopening_unknown :: bool
  qb_recheck_at :: "string option"
  qb_kind :: block_kind

text \<open>The kind of a verdict that is not \<open>available\<close>.\<close>

definition state_kind :: "quota_availability_state \<Rightarrow> block_kind" where
  "state_kind s = (if s = Exhausted then BlockExhausted else BlockCooldown)"

definition wanted_route :: "auth_mode option \<Rightarrow> credential_route option" where
  "wanted_route subjectRoute =
     (case subjectRoute of
        Some LocalSession \<Rightarrow> Some VendorNative
      | Some ApiKey \<Rightarrow> Some ManagedApiKey
      | None \<Rightarrow> None)"

definition block_subject ::
  "string \<Rightarrow> string option \<Rightarrow> auth_mode option \<Rightarrow> quota_snapshot \<Rightarrow> bool" where
  "block_subject harnessId profileId subjectRoute s \<longleftrightarrow>
     subject_is harnessId profileId s \<and>
     (wanted_route subjectRoute = None \<or>
      Some (qs_credential_route (qn_subject s)) = wanted_route subjectRoute)"

text \<open>The projection of the schema under the options of one block query.\<close>

type_synonym availability_reader = "quota_constraint list \<Rightarrow> quota_availability"

definition block_reader ::
  "(string \<Rightarrow> int option) \<Rightarrow> int \<Rightarrow> string option option \<Rightarrow> quota_request_kind option \<Rightarrow>
   availability_reader" where
  "block_reader dp now model requestKind =
     quotaSnapshotAvailability dp now (flat model) (nullish requestKind TextRequest)"

definition refusal_window ::
  "availability_reader \<Rightarrow> quota_constraint list \<Rightarrow> quota_constraint option" where
  "refusal_window read cs =
     find (\<lambda>c. qc_id c = REOPENING_UNKNOWN_COOLDOWN_ID \<and>
               qc_id c \<in> set (qa_blocking_constraints (read cs))) cs"

definition refusal_block :: "availability_reader \<Rightarrow> quota_constraint \<Rightarrow> quota_block" where
  "refusal_block read c =
     \<lparr>qb_constraint_id = Some (qc_id c), qb_resets_at = None, qb_reopening_unknown = True,
      qb_recheck_at = truthy (qa_resets_at (read [c])), qb_kind = BlockCooldown\<rparr>"

definition controlling_window ::
  "availability_reader \<Rightarrow> quota_constraint list \<Rightarrow> quota_constraint option" where
  "controlling_window read cs =
     find (\<lambda>c. qa_resets_at (read [c]) = qa_resets_at (read cs))
       (filter (\<lambda>c. qc_id c \<in> set (qa_blocking_constraints (read cs))) cs)"

definition dated_block :: "availability_reader \<Rightarrow> quota_constraint list \<Rightarrow> quota_block" where
  "dated_block read cs =
     (let a = read cs in
      \<lparr>qb_constraint_id =
         (case controlling_window read cs of
            Some c \<Rightarrow> Some (qc_id c)
          | None \<Rightarrow> (case qa_blocking_constraints a of [] \<Rightarrow> None | i # _ \<Rightarrow> Some i)),
       qb_resets_at = qa_resets_at a, qb_reopening_unknown = False, qb_recheck_at = None,
       qb_kind =
         (case controlling_window read cs of
            Some c \<Rightarrow> if qa_state (read [c]) \<noteq> Available then state_kind (qa_state (read [c]))
                      else state_kind (qa_state a)
          | None \<Rightarrow> state_kind (qa_state a))\<rparr>)"

fun block_scan ::
  "availability_reader \<Rightarrow> (quota_snapshot \<Rightarrow> bool) \<Rightarrow> quota_block option \<Rightarrow> quota_snapshot list \<Rightarrow>
   quota_block option" where
  "block_scan read subject dated [] = dated"
| "block_scan read subject dated (s # ss) =
     (if \<not> subject s then block_scan read subject dated ss
      else if qa_state (read (qn_constraints s)) = Available then block_scan read subject dated ss
      else case refusal_window read (qn_constraints s) of
        Some c \<Rightarrow> Some (refusal_block read c)
      | None \<Rightarrow>
          if dated \<noteq> None then block_scan read subject dated ss
          else block_scan read subject (Some (dated_block read (qn_constraints s))) ss)"

definition profileQuotaBlock ::
  "(string \<Rightarrow> int option) \<Rightarrow> quota_snapshot list \<Rightarrow> string \<Rightarrow> string option \<Rightarrow> auth_mode option \<Rightarrow>
   string option option \<Rightarrow> int \<Rightarrow> quota_request_kind option \<Rightarrow> quota_block option" where
  "profileQuotaBlock dp snapshots harnessId profileId subjectRoute model now requestKind =
     block_scan (block_reader dp now model requestKind) (block_subject harnessId profileId subjectRoute)
       None snapshots"

section \<open>Why an account was refused\<close>

datatype refusal_basis = OwnerReserve | ProviderWindow | ProviderCooldown

record quota_refusal =
  qf_basis :: refusal_basis
  qf_constraintId :: "string option"
  qf_usedRatio :: "rat option"
  qf_threshold :: "rat option"

definition quotaRefusalBasis ::
  "headroom_breach option \<Rightarrow> quota_block option \<Rightarrow> quota_refusal option" where
  "quotaRefusalBasis breach block =
     (case block of
        Some k \<Rightarrow>
          Some \<lparr>qf_basis = (if qb_kind k = BlockCooldown then ProviderCooldown else ProviderWindow),
                qf_constraintId = qb_constraint_id k,
                qf_usedRatio =
                  (case breach of
                     None \<Rightarrow> None
                   | Some b \<Rightarrow> if Some (hb_constraint_id b) = qb_constraint_id k
                               then Some (hb_used_ratio b) else None),
                qf_threshold = map_option hb_threshold breach\<rparr>
      | None \<Rightarrow>
          map_option (\<lambda>b.
            \<lparr>qf_basis = (if 1 \<le> hb_used_ratio b then ProviderWindow else OwnerReserve),
             qf_constraintId = Some (hb_constraint_id b), qf_usedRatio = Some (hb_used_ratio b),
             qf_threshold = Some (hb_threshold b)\<rparr>) breach)"

definition quotaRefusalResetsAt :: "headroom_breach option \<Rightarrow> quota_block option \<Rightarrow> string option" where
  "quotaRefusalResetsAt breach block =
     (case block of
        Some k \<Rightarrow> qb_resets_at k
      | None \<Rightarrow> (case breach of None \<Rightarrow> None | Some b \<Rightarrow> hb_resets_at b))"

text \<open>An error of a refused account: what the run terminal reads of it.\<close>

record refusal_error =
  rer_message :: string
  rer_code :: string
  rer_category :: string
  rer_resetsAt :: "string option"
  rer_quotaRefusal :: "quota_refusal option"

definition REOPENING_UNKNOWN_REFUSAL_CODE :: string where
  "REOPENING_UNKNOWN_REFUSAL_CODE = ''vendor_limit_rejected''"

definition pinnedUsageRefusal :: "string \<Rightarrow> quota_refusal option \<Rightarrow> refusal_error" where
  "pinnedUsageRefusal message refusal =
     \<lparr>rer_message = message, rer_code = REOPENING_UNKNOWN_REFUSAL_CODE,
      rer_category = ''harness_unavailable'', rer_resetsAt = None, rer_quotaRefusal = refusal\<rparr>"

definition percent :: "rat \<Rightarrow> string" where
  "percent ratio = show_int \<lfloor>ratio * 100 + 1 / 2\<rfloor> @ ''%''"

definition subject_text :: "string \<Rightarrow> string \<Rightarrow> string" where
  "subject_text profileId harnessId =
     ''credential profile \"'' @ profileId @ ''\" ('' @ harnessId @ '')''"

text \<open>The prefix and the instant of an optional reset in a message; an empty text is dropped.\<close>

definition reset_text :: "string \<Rightarrow> string option \<Rightarrow> string" where
  "reset_text prefix resetsAt =
     (case truthy resetsAt of None \<Rightarrow> [] | Some r \<Rightarrow> prefix @ r)"

record pinned_limit =
  pl_retryDelayMs :: "rat option"
  pl_resetsAt :: "string option"
  pl_constraintId :: "string option"
  pl_reopening_unknown :: bool

definition provider_refusal :: "pinned_limit option \<Rightarrow> quota_refusal" where
  "provider_refusal vendorLimit =
     \<lparr>qf_basis = ProviderCooldown,
      qf_constraintId = (case vendorLimit of None \<Rightarrow> None | Some l \<Rightarrow> pl_constraintId l),
      qf_usedRatio = None, qf_threshold = None\<rparr>"

definition pinnedTypedLimit :: "string \<Rightarrow> string \<Rightarrow> pinned_limit option \<Rightarrow> bool \<Rightarrow> refusal_error" where
  "pinnedTypedLimit profileId harnessId vendorLimit afterProgress =
     (let after = (if afterProgress then '' after progress'' else []);
          resetsAt = (case vendorLimit of None \<Rightarrow> None | Some l \<Rightarrow> pl_resetsAt l)
      in if (case vendorLimit of None \<Rightarrow> False | Some l \<Rightarrow> pl_reopening_unknown l)
         then pinnedUsageRefusal
           (subject_text profileId harnessId @ '' was refused further usage by the vendor'' @ after @
            '', with no reopening time named; a pinned account never rotates'')
           (Some (provider_refusal vendorLimit))
         else
           \<lparr>rer_message = subject_text profileId harnessId @ '' hit a typed vendor limit'' @ after @
              '' and a pinned account never rotates'' @ reset_text ''; resets '' resetsAt,
            rer_code = ''subscription_window_exhausted'', rer_category = ''harness_unavailable'',
            rer_resetsAt = resetsAt, rer_quotaRefusal = Some (provider_refusal vendorLimit)\<rparr>)"

definition subscriptionWindowExhausted :: "string \<Rightarrow> string \<Rightarrow> headroom_breach \<Rightarrow> refusal_error" where
  "subscriptionWindowExhausted profileId harnessId breach =
     (let refusal = quotaRefusalBasis (Some breach) None;
          evidence =
            (if map_option qf_basis refusal = Some OwnerReserve
             then ''has reached its saved quota reserve ('' @ hb_constraint_id breach @ '' at '' @
                  percent (hb_used_ratio breach) @ '' used, headroom_threshold '' @
                  percent (hb_threshold breach) @ ''); the provider still reports quota left''
             else ''is over a provider-reported spent window ('' @ hb_constraint_id breach @ '' at '' @
                  percent (hb_used_ratio breach) @ '')'')
      in \<lparr>rer_message = subject_text profileId harnessId @ '' '' @ evidence @
            ''; a pinned account never rotates'' @ reset_text ''; resets '' (hb_resets_at breach),
          rer_code = ''subscription_window_exhausted'', rer_category = ''harness_unavailable'',
          rer_resetsAt = hb_resets_at breach, rer_quotaRefusal = refusal\<rparr>)"

definition pinnedWindowBlocked ::
  "string \<Rightarrow> string \<Rightarrow> quota_block \<Rightarrow> headroom_breach option \<Rightarrow> refusal_error" where
  "pinnedWindowBlocked profileId harnessId block breach =
     (let window = nullish (qb_constraint_id block) ''cooldown'';
          refusal = quotaRefusalBasis breach (Some block)
      in if qb_reopening_unknown block
         then pinnedUsageRefusal
           (subject_text profileId harnessId @ '' was refused further usage by the vendor, '' @
            ''with no reopening time named ('' @ window @ ''; a pinned account never rotates'' @
            reset_text ''; not retried before '' (qb_recheck_at block) @ '')'') refusal
         else
           \<lparr>rer_message = subject_text profileId harnessId @ '' is '' @
              (if qb_kind block = BlockExhausted then ''over an observed vendor window''
               else ''in a vendor rate-limit cooldown'') @
              '' ('' @ window @ ''; a pinned account never rotates'' @
              reset_text ''; resets '' (qb_resets_at block) @ '')'',
            rer_code = ''subscription_window_exhausted'', rer_category = ''harness_unavailable'',
            rer_resetsAt = qb_resets_at block, rer_quotaRefusal = refusal\<rparr>)"

end
