(* ===== verification/Account_Evidence.thy ===== *)
theory Account_Evidence
  imports Accounts Ordering
begin

text \<open>
  What is known of a credential beside its quota: \<open>orchestrator/src/account-evidence.ts\<close>
  (observations that a credential is dead, and what revokes them) and the readiness half of
  \<open>orchestrator/src/credential-profiles.ts\<close> (the vendor's verdict laid over the local probe,
  the admission predicate). \<open>redactSecrets\<close> is the argument \<open>redact\<close>; the probe of an
  adapter is given by its outcome. An instant that does not parse makes every comparison false.
\<close>

section \<open>Observations\<close>

datatype unusable_code = AuthRevoked | CapabilityRefused | VerificationFailed

datatype unusable_source = VendorPoller | AttemptStream | LocalProbe

record unusable_observation =
  uo_harness_id :: string
  uo_credential_route :: "credential_route option"
  uo_profile_id :: "string option"
  uo_model :: "string option"
  uo_code :: unusable_code
  uo_source :: unusable_source
  uo_detail :: "string option"
  uo_observed_at :: string
  uo_expires_at :: string

fun unusable_code_name :: "unusable_code \<Rightarrow> string" where
  "unusable_code_name AuthRevoked = ''auth_revoked''"
| "unusable_code_name CapabilityRefused = ''capability_refused''"
| "unusable_code_name VerificationFailed = ''verification_failed''"

record honored_observation =
  ho_harness_id :: string
  ho_profile_id :: "string option"
  ho_credential_route :: "credential_route option"
  ho_model :: "string option"
  ho_observed_at :: string

datatype absence_reason =
  NotLoggedIn | TransportUnavailable | PlatformUnsupported | RefreshFailed | NoSource
| AbsenceAuthRevoked | RateLimitedPoll | ProbeSkippedRateLimited | PollPaced | ProfileAmbiguous

record quota_absence =
  qx_subject :: quota_subject
  qx_reason :: absence_reason
  qx_detail :: "string option"
  qx_observed_at :: string

record vendor_observations =
  vq_snapshots :: "quota_snapshot list"
  vq_absences :: "quota_absence list"
  vq_honored :: "honored_observation list option"

text \<open>The route of the evidence is undefined (\<open>None\<close>), null (\<open>Some None\<close>) or a route.\<close>

record profile_evidence =
  ev_quota :: "vendor_observations option"
  ev_unusable :: "unusable_observation list"
  ev_model :: "string option option"
  ev_route :: "credential_route option option"

definition later :: "(string \<Rightarrow> int option) \<Rightarrow> string \<Rightarrow> string \<Rightarrow> bool" where
  "later dp a b = (case (dp a, dp b) of (Some x, Some y) \<Rightarrow> y < x | _ \<Rightarrow> False)"

section \<open>Dead credentials\<close>

definition unusable_applies ::
  "(string \<Rightarrow> int option) \<Rightarrow> int \<Rightarrow> string \<Rightarrow> string \<Rightarrow> profile_evidence \<Rightarrow> unusable_observation \<Rightarrow> bool" where
  "unusable_applies dp now harnessId profileId ev ob \<longleftrightarrow>
     uo_harness_id ob = harnessId \<and> uo_profile_id ob = Some profileId \<and>
     (uo_model ob = None \<or> uo_model ob = flat (ev_model ev)) \<and>
     (uo_credential_route ob = None \<or> ev_route ev = Some (uo_credential_route ob)) \<and>
     \<not> (case dp (uo_expires_at ob) of None \<Rightarrow> False | Some t \<Rightarrow> t \<le> now)"

definition honored_again ::
  "(string \<Rightarrow> int option) \<Rightarrow> string \<Rightarrow> string \<Rightarrow> profile_evidence \<Rightarrow> unusable_observation \<Rightarrow> bool" where
  "honored_again dp harnessId profileId ev ob \<longleftrightarrow>
     uo_code ob = AuthRevoked \<and>
     (case ev_quota ev of
        None \<Rightarrow> False
      | Some q \<Rightarrow>
          (\<exists>h \<in> set (nullish (vq_honored q) []).
             ho_harness_id h = harnessId \<and> ho_profile_id h = Some profileId \<and> ho_model h = None \<and>
             Some (ho_credential_route h) =
               (if uo_credential_route ob \<noteq> None then Some (uo_credential_route ob) else ev_route ev) \<and>
             later dp (ho_observed_at h) (uo_observed_at ob)) \<or>
          (\<exists>s \<in> set (vq_snapshots q).
             qs_harness (qn_subject s) = harnessId \<and> qs_subject_id (qn_subject s) = Some profileId \<and>
             (uo_credential_route ob = None \<or>
              Some (qs_credential_route (qn_subject s)) = uo_credential_route ob) \<and>
             qst_vendorAuthenticated (quotaSourceTraits (qn_source s)) \<and>
             later dp (qn_observed_at s) (uo_observed_at ob)))"

definition applicableCredentialUnusable ::
  "(string \<Rightarrow> int option) \<Rightarrow> int \<Rightarrow> string \<Rightarrow> string \<Rightarrow> profile_evidence \<Rightarrow> unusable_observation option" where
  "applicableCredentialUnusable dp now harnessId profileId ev =
     find (\<lambda>ob. unusable_applies dp now harnessId profileId ev ob \<and>
                \<not> honored_again dp harnessId profileId ev ob) (ev_unusable ev)"

definition modelScopedCredentialUnusable ::
  "(string \<Rightarrow> int option) \<Rightarrow> int \<Rightarrow> string \<Rightarrow> string \<Rightarrow> profile_evidence \<Rightarrow> unusable_observation list" where
  "modelScopedCredentialUnusable dp now harnessId profileId ev =
     filter (\<lambda>ob. uo_model ob \<noteq> None \<and>
       applicableCredentialUnusable dp now harnessId profileId
         (ev\<lparr>ev_unusable := [ob], ev_model := Some (uo_model ob)\<rparr>) \<noteq> None) (ev_unusable ev)"

section \<open>Readiness\<close>

datatype auth_availability = AuthAvailable | AuthUnavailable | AuthUnknown

datatype verification_source = LocalStore | VendorSource

datatype stale_basis = LastPositiveAfterTimeout

record profile_status =
  cps_profile_id :: string
  cps_harness_id :: string
  cps_availability :: auth_availability
  cps_verification :: auth_verification
  cps_verification_source :: verification_source
  cps_stale :: "bool option"
  cps_stale_age_ms :: "int option"
  cps_stale_basis :: "stale_basis option"
  cps_detail :: "string option"
  cps_last_verified_at :: "string option"

datatype vendor_verdict = VendorHonored string | VendorRevoked string string

definition absence_revokes :: "string \<Rightarrow> string option \<Rightarrow> quota_absence \<Rightarrow> bool" where
  "absence_revokes harnessId profileId a \<longleftrightarrow>
     qs_harness (qx_subject a) = harnessId \<and> qs_subject_id (qx_subject a) = profileId \<and>
     qx_reason a = AbsenceAuthRevoked"

text \<open>Contact that outweighs the rejection found: on its route and later.\<close>

definition outweighs ::
  "(string \<Rightarrow> int option) \<Rightarrow> quota_absence option \<Rightarrow> credential_route option \<Rightarrow> string \<Rightarrow> bool" where
  "outweighs dp revoked route observed_at \<longleftrightarrow>
     (case revoked of
        None \<Rightarrow> True
      | Some a \<Rightarrow> route = Some (qs_credential_route (qx_subject a)) \<and>
                  later dp observed_at (qx_observed_at a))"

definition newest_first ::
  "(string \<Rightarrow> int option) \<Rightarrow> honored_observation \<Rightarrow> honored_observation \<Rightarrow> int" where
  "newest_first dp a b =
     (case (dp (ho_observed_at b), dp (ho_observed_at a)) of (Some x, Some y) \<Rightarrow> x - y | _ \<Rightarrow> 0)"

definition vendorCredentialObservation ::
  "(string \<Rightarrow> int option) \<Rightarrow> vendor_observations \<Rightarrow> string \<Rightarrow> string option \<Rightarrow> vendor_verdict option" where
  "vendorCredentialObservation dp q harnessId profileId =
     (let revoked = find (absence_revokes harnessId profileId) (vq_absences q);
          honored = js_sort (newest_first dp)
            (filter (\<lambda>h. ho_harness_id h = harnessId \<and> ho_profile_id h = profileId \<and> ho_model h = None \<and>
                         outweighs dp revoked (ho_credential_route h) (ho_observed_at h))
              (nullish (vq_honored q) []));
          snapshot = find (\<lambda>s. subject_is harnessId profileId s \<and>
                               qst_vendorAuthenticated (quotaSourceTraits (qn_source s)) \<and>
                               outweighs dp revoked (Some (qs_credential_route (qn_subject s))) (qn_observed_at s))
                       (vq_snapshots q)
      in case (revoked, honored, snapshot) of
           (Some a, [], None) \<Rightarrow>
             Some (VendorRevoked (qx_observed_at a)
                     (nullish (qx_detail a) (''the vendor rejected this profile'' @ [CHR 0x27] @ ''s credential'')))
         | (_, h # _, _) \<Rightarrow> Some (VendorHonored (ho_observed_at h))
         | (_, [], Some s) \<Rightarrow> Some (VendorHonored (qn_observed_at s))
         | (None, [], None) \<Rightarrow> None)"

definition withVendorCredentialObservation ::
  "(string \<Rightarrow> string) \<Rightarrow> profile_status \<Rightarrow> vendor_verdict option \<Rightarrow> profile_status" where
  "withVendorCredentialObservation redact st verdict =
     (case verdict of
        None \<Rightarrow> st
      | Some (VendorRevoked stamp detail) \<Rightarrow>
          st\<lparr>cps_verification := VerFailed, cps_verification_source := VendorSource,
             cps_detail := Some (redact detail), cps_last_verified_at := Some stamp\<rparr>
      | Some (VendorHonored stamp) \<Rightarrow>
          if cps_verification st \<noteq> VerPassed then st
          else st\<lparr>cps_verification_source := VendorSource, cps_last_verified_at := Some stamp\<rparr>)"

definition vendorVerifiedProfileStatus ::
  "(string \<Rightarrow> int option) \<Rightarrow> (string \<Rightarrow> string) \<Rightarrow> profile_status \<Rightarrow> vendor_observations option \<Rightarrow>
   profile_status" where
  "vendorVerifiedProfileStatus dp redact st quota =
     (case quota of
        None \<Rightarrow> st
      | Some q \<Rightarrow> withVendorCredentialObservation redact st
                    (vendorCredentialObservation dp q (cps_harness_id st) (Some (cps_profile_id st))))"

text \<open>The quota evidence of one route; without a route the evidence stays whole.\<close>

definition evidence_of_route :: "profile_evidence \<Rightarrow> vendor_observations option" where
  "evidence_of_route ev =
     (case (ev_quota ev, flat (ev_route ev)) of
        (Some q, Some r) \<Rightarrow>
          Some \<lparr>vq_snapshots = filter (\<lambda>s. qs_credential_route (qn_subject s) = r) (vq_snapshots q),
                vq_absences = filter (\<lambda>a. qs_credential_route (qx_subject a) = r) (vq_absences q),
                vq_honored = map_option (filter (\<lambda>h. ho_credential_route h = Some r)) (vq_honored q)\<rparr>
      | (q, _) \<Rightarrow> q)"

definition composeCredentialProfileEvidence ::
  "(string \<Rightarrow> int option) \<Rightarrow> (string \<Rightarrow> string) \<Rightarrow> int \<Rightarrow> profile_status \<Rightarrow> profile_evidence \<Rightarrow>
   profile_status" where
  "composeCredentialProfileEvidence dp redact now st ev =
     (let composed = vendorVerifiedProfileStatus dp redact st (evidence_of_route ev)
      in case applicableCredentialUnusable dp now (cps_harness_id st) (cps_profile_id st) ev of
           None \<Rightarrow> composed
         | Some ob \<Rightarrow>
             composed\<lparr>cps_verification := VerFailed,
                      cps_verification_source := (if uo_source ob = LocalProbe then LocalStore else VendorSource),
                      cps_detail := Some (nullish (uo_detail ob)
                        (''credential is unusable ('' @ unusable_code_name (uo_code ob) @ '')'')),
                      cps_last_verified_at := Some (uo_observed_at ob)\<rparr>)"

definition profileStatusAdmits ::
  "credential_kind \<Rightarrow> profile_status \<Rightarrow> bool \<Rightarrow> bool \<Rightarrow> bool" where
  "profileStatusAdmits kind st allowStale unpinned =
     (let verificationAdmits = (cps_verification st = VerPassed \<or>
            (kind = ApiKeyCredential \<and> cps_verification st = VerNotRun));
          staleConfigDir = (kind = ConfigDirLogin \<and> cps_stale st = Some True \<and>
            cps_availability st = AuthUnknown \<and> cps_verification st = VerNotRun);
          staleAdmits = (staleConfigDir \<and>
            (if cps_stale_basis st = Some LastPositiveAfterTimeout then unpinned else allowStale))
      in (cps_availability st = AuthAvailable \<and> verificationAdmits) \<or> staleAdmits)"

text \<open>
  A probe answers with a status that passes its schema or raises with a message (\<open>Inl\<close>).
\<close>

definition unknown_status :: "credential_profile \<Rightarrow> string \<Rightarrow> profile_status" where
  "unknown_status p detail =
     \<lparr>cps_profile_id = pf_profile_id p, cps_harness_id = pf_harness_id p,
      cps_availability = AuthUnknown, cps_verification = VerNotRun,
      cps_verification_source = LocalStore, cps_stale = None, cps_stale_age_ms = None,
      cps_stale_basis = None, cps_detail = Some detail, cps_last_verified_at = None\<rparr>"

definition probeCredentialProfileStatus ::
  "(string \<Rightarrow> string) \<Rightarrow> credential_profile \<Rightarrow>
   (credential_profile \<Rightarrow> string + profile_status) option \<Rightarrow> profile_status" where
  "probeCredentialProfileStatus redact p probe =
     (case probe of
        None \<Rightarrow> unknown_status p (''harness \"'' @ pf_harness_id p @ ''\" has no profile probe'')
      | Some pr \<Rightarrow>
          (case pr p of
             Inl message \<Rightarrow> unknown_status p (''profile readiness probe failed: '' @ redact message)
           | Inr st \<Rightarrow>
               if cps_profile_id st \<noteq> pf_profile_id p \<or> cps_harness_id st \<noteq> pf_harness_id p
               then unknown_status p (''profile readiness probe failed: '' @
                      redact ''profile readiness probe returned status for a different profile'')
               else st\<lparr>cps_detail := map_option redact (cps_detail st)\<rparr>))"

fun availability_name :: "auth_availability \<Rightarrow> string" where
  "availability_name AuthAvailable = ''available''"
| "availability_name AuthUnavailable = ''unavailable''"
| "availability_name AuthUnknown = ''unknown''"

fun verification_name :: "auth_verification \<Rightarrow> string" where
  "verification_name VerPassed = ''passed''"
| "verification_name VerFailed = ''failed''"
| "verification_name VerNotRun = ''not_run''"

text \<open>\<open>None\<close>: no profile was asked for.\<close>

definition selectedProfileAvailability ::
  "(string \<Rightarrow> int option) \<Rightarrow> (string \<Rightarrow> string) \<Rightarrow> int \<Rightarrow> credential_profile list \<Rightarrow> string option \<Rightarrow> string \<Rightarrow>
   (credential_profile \<Rightarrow> string + profile_status) option \<Rightarrow> vendor_observations option \<Rightarrow>
   unusable_observation list \<Rightarrow> string option option \<Rightarrow> bool \<Rightarrow> bool \<Rightarrow> string option" where
  "selectedProfileAvailability dp redact now registry profileId harnessId probe quota unusable model
     allowStale unpinned =
     (case truthy profileId of
        None \<Rightarrow> None
      | Some wanted \<Rightarrow>
          (case resolveCredentialProfile registry wanted harnessId of
             Inl message \<Rightarrow> Some message
           | Inr p \<Rightarrow>
               let ev = \<lparr>ev_quota = quota, ev_unusable = unusable, ev_model = model,
                         ev_route = Some (Some (if pf_credential_kind p = ApiKeyCredential
                                                then ManagedApiKey else VendorNative))\<rparr>
               in case applicableCredentialUnusable dp now harnessId (pf_profile_id p) ev of
                    Some ob \<Rightarrow> Some (''credential profile \"'' @ pf_profile_id p @
                                 ''\" credential is unusable ('' @ unusable_code_name (uo_code ob) @ '')'')
                  | None \<Rightarrow>
                      if probe = None
                      then Some (''harness \"'' @ harnessId @ ''\" has no profile probe'')
                      else
                        let st = composeCredentialProfileEvidence dp redact now
                                   (probeCredentialProfileStatus redact p probe) ev
                        in Some (if profileStatusAdmits (pf_credential_kind p) st allowStale unpinned
                                 then ''available''
                                 else nullish (cps_detail st)
                                        (availability_name (cps_availability st) @ ''/'' @
                                         verification_name (cps_verification st)))))"

definition resumeSessionForProfile ::
  "(string \<times> string option) option \<Rightarrow> string option \<Rightarrow> string option" where
  "resumeSessionForProfile cached profileId =
     (case cached of
        None \<Rightarrow> None
      | Some (sessionId, recorded) \<Rightarrow> if recorded = profileId then Some sessionId else None)"

datatype auth_preference = PreferSubscription | PreferApiKey | PreferAuto

text \<open>Settings from the most specific on; an unset value is \<open>None\<close>.\<close>

definition effectiveAuthPreference :: "auth_preference option list \<Rightarrow> auth_preference" where
  "effectiveAuthPreference values =
     (case find (\<lambda>v. v \<noteq> None \<and> v \<noteq> Some PreferAuto) values of
        Some (Some p) \<Rightarrow> p
      | _ \<Rightarrow> PreferAuto)"

end
