(* ===== verification/Rotation.thy ===== *)
theory Rotation
  imports Account_Evidence Usage_Evidence
begin

text \<open>
  The move from one account to another: of \<open>orchestrator/src\<close> the files
  \<open>rotation-predicate.ts\<close>, \<open>attemptOutputMarkers.ts\<close>, \<open>credential-profile-rotation.ts\<close>,
  \<open>credential-preflight.ts\<close>, the terminal of \<open>credential-cooldown.ts\<close>, and the answer
  assembly of \<open>core/src/answer-assembly.ts\<close> they read. A probe is given by its answer, and an
  emitted event is returned. Quota snapshots are read once per decision, as the code does.
\<close>

section \<open>What an attempt produced\<close>

text \<open>An event of an attempt as far as rotation reads it, beside what the usage tracker reads.\<close>

record attempt_event = harness_event +
  at_text :: "string option"
  at_final :: bool
  at_delta :: bool
  at_buffered :: bool
  at_envelope :: "string option"
  at_compaction_completed :: bool
  at_api_error_status :: "rat option"

record answer_assembly =
  an_parts :: "string list"
  an_finalText :: "string option"
  an_machineFinalText :: "string option"

record output_markers =
  om_sawAgentProgress :: bool
  om_fileChanges :: nat
  om_sawSessionStart :: bool

definition newAttemptOutputMarkers :: output_markers where
  "newAttemptOutputMarkers =
     \<lparr>om_sawAgentProgress = False, om_fileChanges = 0, om_sawSessionStart = False\<rparr>"

fun marksAgentProgress :: "attempt_event \<Rightarrow> bool" where
  "marksAgentProgress e =
     (case he_type e of
        EvThinking \<Rightarrow> trim (nullish (at_text e) []) \<noteq> []
      | EvToolCall \<Rightarrow> True
      | EvToolResult \<Rightarrow> True
      | EvFileChange \<Rightarrow> True
      | EvPatchProduced \<Rightarrow> True
      | EvContext \<Rightarrow> at_compaction_completed e
      | _ \<Rightarrow> False)"

definition observeAttemptOutputMarkers :: "output_markers \<Rightarrow> attempt_event \<Rightarrow> output_markers" where
  "observeAttemptOutputMarkers m e =
     (let m1 = (if he_type e = EvFileChange then m\<lparr>om_fileChanges := om_fileChanges m + 1\<rparr> else m);
          m2 = (if he_type e = EvStarted then m1\<lparr>om_sawSessionStart := True\<rparr> else m1)
      in if \<not> om_sawAgentProgress m2 \<and> marksAgentProgress e
         then m2\<lparr>om_sawAgentProgress := True\<rparr> else m2)"

text \<open>A later event that retires a pending typed limit as the explanation of a try's end.\<close>

definition endsPendingLimit :: "attempt_event \<Rightarrow> bool" where
  "endsPendingLimit e =
     (if he_type e \<noteq> EvError \<or> he_rate_limit e \<noteq> None then False
      else case at_api_error_status e of
        None \<Rightarrow> False
      | Some status \<Rightarrow> of_int \<lfloor>status\<rfloor> = status \<and> status \<noteq> 429)"

section \<open>Answer assembly\<close>

definition newAnswerAssembly :: answer_assembly where
  "newAnswerAssembly = \<lparr>an_parts = [], an_finalText = None, an_machineFinalText = None\<rparr>"

definition pushUniqueText :: "string list \<Rightarrow> string \<Rightarrow> string list" where
  "pushUniqueText parts text =
     (let normalized = trim text
      in if normalized = [] then parts
         else if parts \<noteq> [] \<and> trim (last parts) = normalized then parts
         else parts @ [normalized])"

definition answer_observe :: "answer_assembly \<Rightarrow> attempt_event \<Rightarrow> answer_assembly" where
  "answer_observe a e =
     (if he_type e \<noteq> EvMessage then a
      else if he_auth_switched e then a
      else if at_delta e \<or> at_buffered e then a
      else if at_final e then
        (let display = nullish (at_text e) []
         in if trim display = [] \<and> at_envelope e = None then a
            else a\<lparr>an_finalText := Some display, an_machineFinalText := at_envelope e\<rparr>)
      else case truthy (at_text e) of
        None \<Rightarrow> a
      | Some t \<Rightarrow> a\<lparr>an_parts := pushUniqueText (an_parts a) t\<rparr>)"

definition hasFinal :: "answer_assembly \<Rightarrow> bool" where
  "hasFinal a = (an_finalText a \<noteq> None)"

definition answer_text :: "answer_assembly \<Rightarrow> string" where
  "answer_text a = nullish (an_finalText a) (trim (join [CHR 0x0a] (an_parts a)))"

definition machineText :: "answer_assembly \<Rightarrow> string" where
  "machineText a = nullish (an_machineFinalText a) (answer_text a)"

definition acceptedTryOutput :: "answer_assembly \<Rightarrow> bool \<Rightarrow> string" where
  "acceptedTryOutput a attemptErrored =
     (if attemptErrored \<and> \<not> hasFinal a then [] else machineText a)"

section \<open>The predicate\<close>

record rotation_evidence =
  rv_requestRefused :: bool
  rv_sawTypedLimit :: bool
  rv_deliverableEmpty :: bool
  rv_mutationObserved :: bool
  rv_terminalNonTransientDeath :: bool
  rv_sawAgentProgress :: bool

definition rotationRetryEligible :: "rotation_evidence \<Rightarrow> bool" where
  "rotationRetryEligible v =
     (if rv_requestRefused v then False
      else if \<not> rv_deliverableEmpty v \<or> rv_mutationObserved v then False
      else if rv_sawTypedLimit v then True
      else rv_terminalNonTransientDeath v \<and> \<not> rv_sawAgentProgress v)"

record reactive_args =
  ra_requestRefused :: bool
  ra_markers :: output_markers
  ra_sawTypedLimit :: bool
  ra_sawRetryable :: bool
  ra_attemptErrored :: bool
  ra_deliverableEmpty :: bool
  ra_workspaceDiffNonEmpty :: "bool option"

definition reactiveRotationEvidence :: "reactive_args \<Rightarrow> rotation_evidence" where
  "reactiveRotationEvidence a =
     \<lparr>rv_requestRefused = ra_requestRefused a, rv_sawTypedLimit = ra_sawTypedLimit a,
      rv_deliverableEmpty = ra_deliverableEmpty a,
      rv_mutationObserved =
        (nullish (ra_workspaceDiffNonEmpty a) False \<or> 0 < om_fileChanges (ra_markers a)),
      rv_terminalNonTransientDeath = (ra_attemptErrored a \<and> \<not> ra_sawRetryable a),
      rv_sawAgentProgress = om_sawAgentProgress (ra_markers a)\<rparr>"

record try_facts =
  tf_harnessErrored :: bool
  tf_requestRefused :: bool
  tf_sawTypedLimit :: bool
  tf_sawRetryable :: bool
  tf_answer :: answer_assembly
  tf_workspaceDiffNonEmpty :: "bool option"
  tf_markers :: output_markers

definition inRunRotationArgs :: "try_facts \<Rightarrow> bool \<Rightarrow> reactive_args" where
  "inRunRotationArgs f forceEligible =
     \<lparr>ra_requestRefused = tf_requestRefused f,
      ra_markers =
        (if forceEligible
         then \<lparr>om_sawAgentProgress = False, om_fileChanges = 0,
               om_sawSessionStart = om_sawSessionStart (tf_markers f)\<rparr>
         else tf_markers f),
      ra_sawTypedLimit = tf_sawTypedLimit f, ra_sawRetryable = tf_sawRetryable f,
      ra_attemptErrored = tf_harnessErrored f,
      ra_deliverableEmpty =
        (if forceEligible then True
         else tf_workspaceDiffNonEmpty f \<noteq> Some True \<and>
              acceptedTryOutput (tf_answer f) (tf_harnessErrored f) = []),
      ra_workspaceDiffNonEmpty =
        (if forceEligible then Some False else tf_workspaceDiffNonEmpty f)\<rparr>"

text \<open>A started session that ended in the structural branch's own evidence.\<close>

definition refusedBeforeProgress :: "rotation_evidence \<Rightarrow> output_markers \<Rightarrow> bool" where
  "refusedBeforeProgress v m \<longleftrightarrow>
     \<not> rv_sawTypedLimit v \<and> om_sawSessionStart m \<and> rotationRetryEligible v"

text \<open>Whether a settled try leaves a mark: never for a pin or without an account.\<close>

definition noteRefusedBeforeProgress :: "reactive_args \<Rightarrow> bool \<Rightarrow> bool \<Rightarrow> bool" where
  "noteRefusedBeforeProgress a pinned hasProfile =
     (if pinned \<or> \<not> hasProfile then False
      else refusedBeforeProgress (reactiveRotationEvidence a) (ra_markers a))"

section \<open>Candidates\<close>

type_synonym current_subject = "(string \<times> credential_kind) option"

definition harness_pool :: "credential_profile list \<Rightarrow> string \<Rightarrow> credential_profile list" where
  "harness_pool registry harnessId =
     filter (\<lambda>p. pf_harness_id p = harnessId \<and> pf_enabled p) registry"

definition rotation_order ::
  "credential_profile list \<Rightarrow> string \<Rightarrow> profile_policy \<Rightarrow> credential_profile list" where
  "rotation_order registry harnessId policy =
     (let pool = harness_pool registry harnessId
      in if po_rotation_eligible policy \<noteq> []
         then List.map_filter (\<lambda>i. find (\<lambda>p. pf_profile_id p = i) pool) (po_rotation_eligible policy)
         else pool)"

definition may_take_over :: "current_subject \<Rightarrow> string set \<Rightarrow> credential_profile \<Rightarrow> bool" where
  "may_take_over current excluded p \<longleftrightarrow>
     Some (pf_profile_id p) \<noteq> map_option fst current \<and> pf_profile_id p \<notin> excluded \<and>
     (case current of
        Some (_, kind) \<Rightarrow> pf_credential_kind p = kind
      | None \<Rightarrow> pf_credential_kind p \<noteq> ApiKeyCredential)"

definition staticRotationCandidates ::
  "credential_profile list \<Rightarrow> string \<Rightarrow> profile_policy \<Rightarrow> current_subject \<Rightarrow> string set \<Rightarrow>
   credential_profile list" where
  "staticRotationCandidates registry harnessId policy current excluded =
     filter (may_take_over current excluded) (rotation_order registry harnessId policy)"

text \<open>One account's own quota evidence, as every rotation decision reads it.\<close>

definition rotation_breach ::
  "(string \<Rightarrow> int option) \<Rightarrow> quota_snapshot list \<Rightarrow> string \<Rightarrow> profile_policy \<Rightarrow>
   string option option \<Rightarrow> int \<Rightarrow> string option \<Rightarrow> headroom_breach option" where
  "rotation_breach dp snapshots harnessId policy model now profileId =
     profileHeadroomBreach dp snapshots harnessId profileId (po_headroom_threshold policy) model None now"

definition rotation_block ::
  "(string \<Rightarrow> int option) \<Rightarrow> quota_snapshot list \<Rightarrow> string \<Rightarrow> string option option \<Rightarrow> int \<Rightarrow>
   credential_profile \<Rightarrow> quota_block option" where
  "rotation_block dp snapshots harnessId model now p =
     profileQuotaBlock dp snapshots harnessId (Some (pf_profile_id p))
       (limitSubjectRoute (Some (pf_credential_kind p)) None) model now None"

definition nextEligibleProfile ::
  "(string \<Rightarrow> int option) \<Rightarrow> credential_profile list \<Rightarrow> string \<Rightarrow> profile_policy \<Rightarrow> current_subject \<Rightarrow>
   quota_snapshot list \<Rightarrow> string set \<Rightarrow> string set \<Rightarrow> string option option \<Rightarrow> int \<Rightarrow>
   credential_profile option" where
  "nextEligibleProfile dp registry harnessId policy current snapshots ready excluded model now =
     find (\<lambda>p. pf_profile_id p \<in> ready \<and>
               rotation_breach dp snapshots harnessId policy model now (Some (pf_profile_id p)) = None \<and>
               rotation_block dp snapshots harnessId model now p = None)
       (staticRotationCandidates registry harnessId policy current excluded)"

section \<open>The terminal of an exhausted pool\<close>

datatype rejection =
  RejCurrent | RejNotInPolicy | RejAlreadyTried | RejKindMismatch | RejUnusable | RejNotReady
| RejHeadroom | RejCooldown | RejNotSelected | RejDisabled | RejModelIncompatible

record exhaustion_row =
  xr_profile_id :: string
  xr_rejected :: rejection
  xr_headroom :: "headroom_breach option"
  xr_cooldown :: "quota_block option"
  xr_unusable :: "unusable_code option"

definition POOL_MEMBER_REJECTIONS :: "rejection list" where
  "POOL_MEMBER_REJECTIONS = [RejCurrent, RejAlreadyTried, RejHeadroom, RejCooldown, RejNotSelected]"

definition poolMemberEvidence :: "exhaustion_row \<Rightarrow> bool" where
  "poolMemberEvidence r =
     (if xr_rejected r \<notin> set POOL_MEMBER_REJECTIONS \<and> xr_rejected r \<noteq> RejUnusable then False
      else xr_headroom r \<noteq> None \<or> xr_cooldown r \<noteq> None \<or> xr_unusable r \<noteq> None)"

definition fold_member :: "exhaustion_row \<Rightarrow> bool" where
  "fold_member r \<longleftrightarrow>
     xr_rejected r \<in> set POOL_MEMBER_REJECTIONS \<and> xr_unusable r = None \<and>
     (xr_headroom r \<noteq> None \<or> xr_cooldown r \<noteq> None)"

definition cooldown_reset :: "quota_block option \<Rightarrow> string option" where
  "cooldown_reset block = (case block of None \<Rightarrow> None | Some k \<Rightarrow> qb_resets_at k)"

definition reopening_unknown :: "quota_block option \<Rightarrow> bool" where
  "reopening_unknown block = (case block of None \<Rightarrow> False | Some k \<Rightarrow> qb_reopening_unknown k)"

definition breach_reset :: "headroom_breach option \<Rightarrow> string option" where
  "breach_reset breach = (case breach of None \<Rightarrow> None | Some b \<Rightarrow> hb_resets_at b)"

definition member_limit :: "exhaustion_row \<Rightarrow> string option" where
  "member_limit r =
     (if reopening_unknown (xr_cooldown r) then None
      else or_else (breach_reset (xr_headroom r)) (cooldown_reset (xr_cooldown r)))"

definition pool_limits ::
  "exhaustion_row list \<Rightarrow> string option \<Rightarrow> string option option \<Rightarrow> unusable_code option \<Rightarrow>
   string option list" where
  "pool_limits rows profileId subjectLimit subjectUnusable =
     (let members = filter fold_member rows
      in map member_limit members @
         (case subjectLimit of
            None \<Rightarrow> []
          | Some lim' \<Rightarrow>
              if subjectUnusable = None \<and> (\<forall>r \<in> set members. Some (xr_profile_id r) \<noteq> profileId)
              then [lim'] else []))"

definition earlier_of :: "(string \<Rightarrow> int option) \<Rightarrow> string \<Rightarrow> string \<Rightarrow> string" where
  "earlier_of dp earliest s = (if later dp earliest s then s else earliest)"

text \<open>The earliest limit, when there is one and every one is known.\<close>

definition pool_reset :: "(string \<Rightarrow> int option) \<Rightarrow> string option list \<Rightarrow> string option" where
  "pool_reset dp limits =
     (case those limits of
        None \<Rightarrow> None
      | Some [] \<Rightarrow> None
      | Some (s # ss) \<Rightarrow> Some (fold (\<lambda>a e. earlier_of dp e a) ss s))"

datatype pool_cause = CauseAuth | CauseQuota | CauseUnavailable

definition row_cause :: "exhaustion_row \<Rightarrow> pool_cause" where
  "row_cause r =
     (if xr_unusable r = Some AuthRevoked then CauseAuth
      else if xr_unusable r = None \<and> xr_rejected r \<in> set POOL_MEMBER_REJECTIONS \<and>
              (xr_headroom r \<noteq> None \<or> xr_cooldown r \<noteq> None) \<and> \<not> reopening_unknown (xr_cooldown r)
      then CauseQuota else CauseUnavailable)"

definition pool_causes :: "exhaustion_row list \<Rightarrow> unusable_code option \<Rightarrow> pool_cause list" where
  "pool_causes rows subjectUnusable =
     (let causes = fold sadd
            (map row_cause (filter (\<lambda>r. xr_rejected r \<notin>
               {RejDisabled, RejModelIncompatible, RejNotInPolicy, RejKindMismatch}) rows)) []
      in if subjectUnusable = Some AuthRevoked \<and> CauseAuth \<notin> set causes
         then causes @ [CauseAuth] else causes)"

definition cause_text :: "pool_cause list \<Rightarrow> string" where
  "cause_text causes =
     (if causes = [CauseAuth] then ''the available credentials were rejected''
      else if causes = [CauseQuota] then ''the available accounts have an active quota limit''
      else ''the available accounts cannot serve this request'')"

record pool_exhausted =
  px_message :: string
  px_code :: string
  px_category :: string
  px_resetsAt :: "string option"
  px_poolCauses :: "pool_cause list"
  px_model :: "string option"
  px_requestKind :: quota_request_kind
  px_harness :: string
  px_profile_id :: "string option"

definition credentialPoolExhausted ::
  "(string \<Rightarrow> int option) \<Rightarrow> string \<Rightarrow> string option option \<Rightarrow> quota_request_kind option \<Rightarrow>
   string option \<Rightarrow> exhaustion_row list \<Rightarrow> string option option \<Rightarrow> unusable_code option \<Rightarrow>
   pool_exhausted" where
  "credentialPoolExhausted dp harnessId model requestKind profileId rows subjectLimit subjectUnusable =
     (let resetsAt = pool_reset dp (pool_limits rows profileId subjectLimit subjectUnusable);
          causes = pool_causes rows subjectUnusable;
          subject = (case truthy profileId of
                       None \<Rightarrow> ''the default credentials''
                     | Some p \<Rightarrow> ''profile \"'' @ p @ ''\"'')
      in \<lparr>px_message =
            ''credential pool exhausted for \"'' @ harnessId @ ''\": '' @ cause_text causes @ ''; '' @
            subject @ '' has no eligible replacement'' @
            (case subjectUnusable of
               None \<Rightarrow> []
             | Some code \<Rightarrow> ''; the subject'' @ [CHR 0x27] @
                 ''s credential itself was observed unusable ('' @ unusable_code_name code @ '')'') @
            reset_text ''; earliest pool reset '' resetsAt,
          px_code = ''credential_pool_exhausted'', px_category = ''harness_unavailable'',
          px_resetsAt = resetsAt, px_poolCauses = causes, px_model = flat model,
          px_requestKind = nullish requestKind TextRequest, px_harness = harnessId,
          px_profile_id = profileId\<rparr>)"

section \<open>One rotation decision\<close>

text \<open>Everything a decision reads beside the subject: one value for selection and evidence.\<close>

record rotation_context =
  rk_harnessId :: string
  rk_policy :: profile_policy
  rk_registry :: "credential_profile list"
  rk_snapshots :: "quota_snapshot list"
  rk_ready :: "string set"
  rk_unusable :: "unusable_observation list"
  rk_model :: "string option option"
  rk_now :: int

record decision_row =
  dw_row :: exhaustion_row
  dw_credential_kind :: credential_kind
  dw_source :: "unusable_source option"
  dw_resets_at :: "string option"

definition rejection_of ::
  "rotation_context \<Rightarrow> current_subject \<Rightarrow> string set \<Rightarrow> credential_profile \<Rightarrow>
   headroom_breach option \<Rightarrow> quota_block option \<Rightarrow> unusable_observation option \<Rightarrow> rejection" where
  "rejection_of cx current excluded p breach block dead =
     (if Some (pf_profile_id p) = map_option fst current then RejCurrent
      else if po_rotation_eligible (rk_policy cx) \<noteq> [] \<and>
              pf_profile_id p \<notin> set (po_rotation_eligible (rk_policy cx)) then RejNotInPolicy
      else if pf_profile_id p \<in> excluded then RejAlreadyTried
      else if current \<noteq> None \<and> Some (pf_credential_kind p) \<noteq> map_option snd current then RejKindMismatch
      else if current = None \<and> pf_credential_kind p = ApiKeyCredential then RejKindMismatch
      else if dead \<noteq> None then RejUnusable
      else if pf_profile_id p \<notin> rk_ready cx then RejNotReady
      else if breach \<noteq> None then RejHeadroom
      else if block \<noteq> None then RejCooldown
      else RejNotSelected)"

definition exhaustion_row_of ::
  "(string \<Rightarrow> int option) \<Rightarrow> rotation_context \<Rightarrow> current_subject \<Rightarrow> string set \<Rightarrow>
   credential_profile \<Rightarrow> decision_row" where
  "exhaustion_row_of dp cx current excluded p =
     (let breach = rotation_breach dp (rk_snapshots cx) (rk_harnessId cx) (rk_policy cx) (rk_model cx)
                     (rk_now cx) (Some (pf_profile_id p));
          block = rotation_block dp (rk_snapshots cx) (rk_harnessId cx) (rk_model cx) (rk_now cx) p;
          dead = applicableCredentialUnusable dp (rk_now cx) (rk_harnessId cx) (pf_profile_id p)
            \<lparr>ev_quota = Some \<lparr>vq_snapshots = rk_snapshots cx, vq_absences = [], vq_honored = None\<rparr>,
             ev_unusable = rk_unusable cx, ev_model = rk_model cx,
             ev_route = Some (Some (if pf_credential_kind p = ApiKeyCredential
                                    then ManagedApiKey else VendorNative))\<rparr>
      in \<lparr>dw_row =
            \<lparr>xr_profile_id = pf_profile_id p,
             xr_rejected = rejection_of cx current excluded p breach block dead,
             xr_headroom = breach, xr_cooldown = block, xr_unusable = map_option uo_code dead\<rparr>,
          dw_credential_kind = pf_credential_kind p, dw_source = map_option uo_source dead,
          dw_resets_at =
            (if reopening_unknown block then None
             else or_else (breach_reset breach) (cooldown_reset block))\<rparr>)"

definition rotationExhaustionCandidates ::
  "(string \<Rightarrow> int option) \<Rightarrow> rotation_context \<Rightarrow> current_subject \<Rightarrow> string set \<Rightarrow> decision_row list" where
  "rotationExhaustionCandidates dp cx current excluded =
     map (exhaustion_row_of dp cx current excluded) (harness_pool (rk_registry cx) (rk_harnessId cx))"

datatype rotation_reason = ProfileHeadroomPreflight | VendorLimitRejected | StructuralPreProgressFailure

text \<open>Emitted events; the harness and the attempt, the same in all of them, are left out.\<close>

datatype rotation_event =
  HeadroomExceeded "quota_refusal option" rat "string option"
| Rotated "string option" string rotation_reason "rat option" "string option"
| PreflightRotated string "string option" "rat option" "string option"
| RotationExhausted "string option" rotation_reason rat "decision_row list"
| CredentialUnusable unusable_observation

definition next_of ::
  "(string \<Rightarrow> int option) \<Rightarrow> rotation_context \<Rightarrow> current_subject \<Rightarrow> string set \<Rightarrow> credential_profile option" where
  "next_of dp cx current excluded =
     nextEligibleProfile dp (rk_registry cx) (rk_harnessId cx) (rk_policy cx) current
       (rk_snapshots cx) (rk_ready cx) excluded (rk_model cx) (rk_now cx)"

definition emitRotationExhausted ::
  "(string \<Rightarrow> int option) \<Rightarrow> rotation_context \<Rightarrow> current_subject \<Rightarrow> string set \<Rightarrow> rotation_reason \<Rightarrow>
   rotation_event" where
  "emitRotationExhausted dp cx current excluded reason =
     RotationExhausted (map_option fst current) reason (po_headroom_threshold (rk_policy cx))
       (rotationExhaustionCandidates dp cx current excluded)"

definition subject_of :: "credential_profile option \<Rightarrow> current_subject" where
  "subject_of p = map_option (\<lambda>q. (pf_profile_id q, pf_credential_kind q)) p"

definition decision_route :: "credential_profile option \<Rightarrow> bool \<Rightarrow> auth_mode option" where
  "decision_route current defaultRouteWasVendorNative =
     limitSubjectRoute (map_option pf_credential_kind current)
       (if defaultRouteWasVendorNative then Some LocalSession else None)"

text \<open>The next account, the accounts now tried, and what was emitted.\<close>

definition planReactiveRotation ::
  "(string \<Rightarrow> int option) \<Rightarrow> rotation_context \<Rightarrow> credential_profile option \<Rightarrow> bool \<Rightarrow> string set \<Rightarrow>
   rotation_evidence \<Rightarrow> pinned_limit option \<Rightarrow>
   credential_profile option \<times> string set \<times> rotation_event list" where
  "planReactiveRotation dp cx current defaultNative tried evidence lastLimit =
     (if \<not> rotationRetryEligible evidence then (None, tried, [])
      else if effectiveLimitAction (po_limit_action (rk_policy cx)) (decision_route current defaultNative)
              \<noteq> LimitRotate then (None, tried, [])
      else if current = None \<and> \<not> defaultNative then (None, tried, [])
      else
        let tried' = (case current of None \<Rightarrow> tried | Some p \<Rightarrow> insert (pf_profile_id p) tried);
            reason = (if rv_sawTypedLimit evidence then VendorLimitRejected
                      else StructuralPreProgressFailure)
        in case next_of dp cx (subject_of current) tried' of
             None \<Rightarrow> (None, tried', [emitRotationExhausted dp cx (subject_of current) tried' reason])
           | Some p \<Rightarrow>
               (Some p, tried',
                [Rotated (map_option pf_profile_id current) (pf_profile_id p) reason
                   (case lastLimit of None \<Rightarrow> None | Some l \<Rightarrow> pl_retryDelayMs l)
                   (case lastLimit of None \<Rightarrow> None | Some l \<Rightarrow> pl_resetsAt l)]))"

record run_spec =
  rn_session_id :: string
  rn_model_hint :: "string option"
  rn_credential_profile :: "credential_profile option"
  rn_resume_session_id :: "string option"
  rn_pinned_stamp :: "string option"
  rn_unpinned_stamp :: "string option"

text \<open>An identifier is not empty, so a profile always stamps.\<close>

definition stampCredentialProfileSelection :: "run_spec \<Rightarrow> bool \<Rightarrow> run_spec" where
  "stampCredentialProfileSelection spec pinned =
     (let profileId = truthy (map_option pf_profile_id (rn_credential_profile spec))
      in spec\<lparr>rn_pinned_stamp := (if pinned then profileId else None),
              rn_unpinned_stamp := (if pinned then None else profileId)\<rparr>)"

record rotation_try =
  rt_spec :: run_spec
  rt_facts :: reactive_args
  rt_lastLimit :: "pinned_limit option"
  rt_defaultRouteWasVendorNative :: bool
  rt_pinned :: bool

datatype rotation_outcome =
  NotRotated | PinnedExhausted refusal_error | PoolExhausted pool_exhausted | RotatedSpec run_spec

text \<open>
  The step both lanes share. The context holds the snapshots read after the probes and the ready
  set the probe answered; \<open>subjectUnusable\<close> is the answer of the probe of the current
  subject and \<open>newSession\<close> the fresh session id. The components of the result are the outcome,
  the accounts tried, the events, and whether the try is noted as refused before progress.
\<close>

definition rotateSpecOnTypedLimit ::
  "(string \<Rightarrow> int option) \<Rightarrow> rotation_context \<Rightarrow> string \<Rightarrow> unusable_observation option \<Rightarrow> rotation_try \<Rightarrow>
   string set \<Rightarrow> rotation_outcome \<times> string set \<times> rotation_event list \<times> bool" where
  "rotateSpecOnTypedLimit dp cx0 newSession subjectUnusable t tried =
     (let current = rn_credential_profile (rt_spec t);
          evidence = reactiveRotationEvidence (rt_facts t);
          cx = cx0\<lparr>rk_model := Some (rn_model_hint (rt_spec t))\<rparr>
      in if rt_pinned t then
           (case current of
              Some p \<Rightarrow>
                if rv_sawTypedLimit evidence \<and> rotationRetryEligible evidence
                then (PinnedExhausted
                        (pinnedTypedLimit (pf_profile_id p) (rk_harnessId cx) (rt_lastLimit t) False),
                      tried, [], False)
                else (NotRotated, tried, [], False)
            | None \<Rightarrow> (NotRotated, tried, [], False))
         else
           let noted = noteRefusedBeforeProgress (rt_facts t) False (current \<noteq> None);
               eligible =
                 (effectiveLimitAction (po_limit_action (rk_policy cx))
                    (decision_route current (rt_defaultRouteWasVendorNative t)) = LimitRotate \<and>
                  rotationRetryEligible evidence \<and>
                  (current \<noteq> None \<or> rt_defaultRouteWasVendorNative t))
           in if \<not> eligible then (NotRotated, tried, [], noted)
              else
                let probed = (case subjectUnusable of None \<Rightarrow> [] | Some ob \<Rightarrow> [CredentialUnusable ob])
                in case planReactiveRotation dp cx current (rt_defaultRouteWasVendorNative t) tried
                          evidence (rt_lastLimit t) of
                     (Some p, tried', evs) \<Rightarrow>
                       (RotatedSpec (stampCredentialProfileSelection
                          ((rt_spec t)\<lparr>rn_session_id := newSession, rn_credential_profile := Some p,
                                       rn_resume_session_id := None\<rparr>) False),
                        tried', probed @ evs, noted)
                   | (None, tried', evs) \<Rightarrow>
                       let rows = map dw_row (rotationExhaustionCandidates dp cx (subject_of current) tried');
                           subjectBlock =
                             (if current = None
                              then profileQuotaBlock dp (rk_snapshots cx) (rk_harnessId cx) None
                                     (Some LocalSession) (rk_model cx) (rk_now cx) None
                              else None);
                           subjectLimit =
                             (case subjectBlock of
                                Some k \<Rightarrow> Some (qb_resets_at k)
                              | None \<Rightarrow>
                                  if rv_sawTypedLimit evidence
                                  then Some (case rt_lastLimit t of None \<Rightarrow> None | Some l \<Rightarrow> pl_resetsAt l)
                                  else None);
                           subjectEvidence = (subjectLimit \<noteq> None \<or> subjectUnusable \<noteq> None);
                           poolEvidence =
                             (\<exists>r \<in> set rows. Some (xr_profile_id r) = map_option pf_profile_id current \<and>
                                             poolMemberEvidence r)
                       in if \<not> subjectEvidence \<and> \<not> poolEvidence
                          then (NotRotated, tried', probed @ evs, noted)
                          else (PoolExhausted
                                  (credentialPoolExhausted dp (rk_harnessId cx) (rk_model cx) (Some TextRequest)
                                     (map_option pf_profile_id current) rows subjectLimit
                                     (map_option uo_code subjectUnusable)),
                                tried', probed @ evs, noted))"

section \<open>The check before the first spawn of a default subject\<close>

definition preflightDefaultSubject ::
  "(string \<Rightarrow> int option) \<Rightarrow> rotation_context \<Rightarrow> auth_mode option \<Rightarrow>
   (pool_exhausted + credential_profile option) \<times> rotation_event list" where
  "preflightDefaultSubject dp cx defaultRoute =
     (if effectiveLimitAction (po_limit_action (rk_policy cx)) defaultRoute \<noteq> LimitRotate \<or>
         defaultRoute \<noteq> Some LocalSession then (Inr None, [])
      else
        let breach = rotation_breach dp (rk_snapshots cx) (rk_harnessId cx) (rk_policy cx) (rk_model cx)
                       (rk_now cx) None;
            block = profileQuotaBlock dp (rk_snapshots cx) (rk_harnessId cx) None defaultRoute
                      (rk_model cx) (rk_now cx) None
        in if breach = None \<and> block = None then (Inr None, [])
           else
             let exceeded = HeadroomExceeded (quotaRefusalBasis breach block)
                   (po_headroom_threshold (rk_policy cx)) (quotaRefusalResetsAt breach block)
             in case next_of dp cx None {} of
                  None \<Rightarrow>
                    let evs = [exceeded, emitRotationExhausted dp cx None {} ProfileHeadroomPreflight];
                        rows = map dw_row (rotationExhaustionCandidates dp cx None {})
                    in (case block of
                          Some k \<Rightarrow>
                            (Inl (credentialPoolExhausted dp (rk_harnessId cx) (rk_model cx) None None rows
                                    (Some (qb_resets_at k)) None), evs)
                        | None \<Rightarrow> (Inr None, evs))
                | Some p \<Rightarrow>
                    (Inr (Some p),
                     [exceeded, PreflightRotated (pf_profile_id p)
                        (or_else (map_option hb_constraint_id breach)
                           (case block of None \<Rightarrow> None | Some k \<Rightarrow> qb_constraint_id k))
                        (map_option hb_used_ratio breach)
                        (if reopening_unknown block then None
                         else or_else (breach_reset breach) (cooldown_reset block))]))"

end
