(* ===== verification/Account_Pool.thy ===== *)
theory Account_Pool
  imports Rotation
begin

text \<open>
  The account pool of an unpinned run: \<open>orchestrator/src/account-pool.ts\<close> and
  \<open>orchestrator/src/pre-progress-refusal.ts\<close>. The last-served facts are the argument
  \<open>orders\<close>; the memory a try writes to is a record of its marks, its service facts and the
  credential generations.
\<close>

section \<open>Marks\<close>

record refusal_mark =
  mk_harness_id :: string
  mk_profile_id :: string
  mk_requested_model :: "string option"
  mk_observed_at :: string
  mk_expires_at :: string

record substitution_mark =
  sb_harness_id :: string
  sb_profile_id :: string
  sb_requested_model :: string
  sb_observed_at :: string
  sb_expires_at :: string

text \<open>One live observation enters the map with the newest instant of its account.\<close>

definition add_mark ::
  "(string \<Rightarrow> int option) \<Rightarrow> int \<Rightarrow> string \<Rightarrow> string \<Rightarrow> string \<Rightarrow> (string, int) jsmap \<Rightarrow> (string, int) jsmap" where
  "add_mark dp now profileId observed_at expires_at marks =
     (case (dp observed_at, dp expires_at) of
        (Some observed, Some expires) \<Rightarrow>
          if expires \<le> now then marks
          else jset profileId (max observed (nullish (jget marks profileId) observed)) marks
      | _ \<Rightarrow> marks)"

fun liveRefusalMarks_from ::
  "(string \<Rightarrow> int option) \<Rightarrow> refusal_mark list \<Rightarrow> string \<Rightarrow> string option option \<Rightarrow> int \<Rightarrow>
   (string, int) jsmap \<Rightarrow> (string, int) jsmap" where
  "liveRefusalMarks_from dp [] harnessId model now marks = marks"
| "liveRefusalMarks_from dp (m # ms) harnessId model now marks =
     liveRefusalMarks_from dp ms harnessId model now
       (if mk_harness_id m \<noteq> harnessId \<or> mk_requested_model m \<noteq> flat model then marks
        else add_mark dp now (mk_profile_id m) (mk_observed_at m) (mk_expires_at m) marks)"

definition liveRefusalMarks ::
  "(string \<Rightarrow> int option) \<Rightarrow> refusal_mark list \<Rightarrow> string \<Rightarrow> string option option \<Rightarrow> int \<Rightarrow> (string, int) jsmap" where
  "liveRefusalMarks dp refusals harnessId model now =
     liveRefusalMarks_from dp refusals harnessId model now []"

fun substitution_marks ::
  "(string \<Rightarrow> int option) \<Rightarrow> substitution_mark list \<Rightarrow> string \<Rightarrow> string option option \<Rightarrow> int \<Rightarrow>
   (string, int) jsmap \<Rightarrow> (string, int) jsmap" where
  "substitution_marks dp [] harnessId model now marks = marks"
| "substitution_marks dp (m # ms) harnessId model now marks =
     substitution_marks dp ms harnessId model now
       (if sb_harness_id m \<noteq> harnessId \<or> Some (Some (sb_requested_model m)) \<noteq> model then marks
        else add_mark dp now (sb_profile_id m) (sb_observed_at m) (sb_expires_at m) marks)"

section \<open>The verdict on one account\<close>

datatype pool_verdict =
  FreshHeadroom rat
| UnknownHeadroom
| ExhaustedAccount "string option" refusal_basis bool

record pool_candidate =
  pk_profile :: credential_profile
  pk_verdict :: pool_verdict

definition accountPoolRows :: "credential_profile list \<Rightarrow> string \<Rightarrow> credential_profile list" where
  "accountPoolRows registry harnessId =
     filter (\<lambda>p. pf_harness_id p = harnessId \<and> pf_enabled p \<and> pf_credential_kind p \<noteq> ApiKeyCredential)
       registry"

fun worst_headroom ::
  "(quota_snapshot \<times> quota_constraint \<Rightarrow> rat option) \<Rightarrow> rat option \<Rightarrow>
   (quota_snapshot \<times> quota_constraint) list \<Rightarrow> rat option" where
  "worst_headroom usage worst [] = worst"
| "worst_headroom usage worst (w # ws) =
     (case usage w of
        None \<Rightarrow> worst_headroom usage worst ws
      | Some u \<Rightarrow>
          let headroom = 1 - u
          in worst_headroom usage
               (case worst of None \<Rightarrow> Some headroom
                | Some v \<Rightarrow> if headroom < v then Some headroom else Some v) ws)"

definition freshModelHeadroom ::
  "(string \<Rightarrow> int option) \<Rightarrow> quota_snapshot list \<Rightarrow> string \<Rightarrow> string \<Rightarrow> string option option \<Rightarrow>
   quota_request_kind option \<Rightarrow> int \<Rightarrow> rat option" where
  "freshModelHeadroom dp snapshots harnessId profileId model requestKind now =
     worst_headroom (fresh_usage dp now model requestKind) None
       (subject_windows snapshots harnessId (Some profileId))"

record pool_args =
  pg_registry :: "credential_profile list"
  pg_harnessId :: string
  pg_snapshots :: "quota_snapshot list"
  pg_ready :: "string set"
  pg_excluded :: "string set"
  pg_headroomThreshold :: rat
  pg_model :: "string option option"
  pg_requestKind :: "quota_request_kind option"
  pg_substitutions :: "substitution_mark list"
  pg_refusals :: "refusal_mark list"
  pg_lastService :: "(string \<Rightarrow> string option \<Rightarrow> credential_profile list \<Rightarrow> (string, int) jsmap) option"

definition pool_breach ::
  "(string \<Rightarrow> int option) \<Rightarrow> int \<Rightarrow> pool_args \<Rightarrow> credential_profile \<Rightarrow> headroom_breach option" where
  "pool_breach dp now a p =
     profileHeadroomBreach dp (pg_snapshots a) (pg_harnessId a) (Some (pf_profile_id p))
       (pg_headroomThreshold a) (pg_model a) (pg_requestKind a) now"

definition pool_block ::
  "(string \<Rightarrow> int option) \<Rightarrow> int \<Rightarrow> pool_args \<Rightarrow> credential_profile \<Rightarrow> quota_block option" where
  "pool_block dp now a p =
     profileQuotaBlock dp (pg_snapshots a) (pg_harnessId a) (Some (pf_profile_id p))
       (limitSubjectRoute (Some (pf_credential_kind p)) None) (pg_model a) now (pg_requestKind a)"

definition pool_verdict_of ::
  "(string \<Rightarrow> int option) \<Rightarrow> int \<Rightarrow> pool_args \<Rightarrow> credential_profile \<Rightarrow> pool_verdict" where
  "pool_verdict_of dp now a p =
     (let breach = pool_breach dp now a p; block = pool_block dp now a p
      in case quotaRefusalBasis breach block of
           Some refusal \<Rightarrow>
             ExhaustedAccount (quotaRefusalResetsAt breach block) (qf_basis refusal) (reopening_unknown block)
         | None \<Rightarrow>
             (case freshModelHeadroom dp (pg_snapshots a) (pg_harnessId a) (pf_profile_id p) (pg_model a)
                     (pg_requestKind a) now of
                None \<Rightarrow> UnknownHeadroom | Some h \<Rightarrow> FreshHeadroom h))"

section \<open>Ranking\<close>

definition pool_marks :: "(string \<Rightarrow> int option) \<Rightarrow> int \<Rightarrow> pool_args \<Rightarrow> (string, int) jsmap" where
  "pool_marks dp now a =
     substitution_marks dp (pg_substitutions a) (pg_harnessId a) (pg_model a) now
       (liveRefusalMarks dp (pg_refusals a) (pg_harnessId a) (pg_model a) now)"

definition pool_candidates ::
  "(string \<Rightarrow> int option) \<Rightarrow> int \<Rightarrow> pool_args \<Rightarrow> pool_candidate list" where
  "pool_candidates dp now a =
     map (\<lambda>p. \<lparr>pk_profile = p, pk_verdict = pool_verdict_of dp now a p\<rparr>)
       (filter (\<lambda>p. pf_profile_id p \<notin> pg_excluded a \<and> pf_profile_id p \<in> pg_ready a)
         (accountPoolRows (pg_registry a) (pg_harnessId a)))"

definition pool_served ::
  "pool_args \<Rightarrow> pool_candidate list \<Rightarrow> (string, int) jsmap" where
  "pool_served a cs =
     (let unknown = filter (\<lambda>c. pk_verdict c = UnknownHeadroom) cs
      in case pg_lastService a of
           None \<Rightarrow> []
         | Some orders \<Rightarrow>
             if 1 < length unknown
             then orders (pg_harnessId a) (flat (pg_model a)) (map pk_profile unknown) else [])"

fun rankOf :: "pool_verdict \<Rightarrow> rat" where
  "rankOf (FreshHeadroom h) = 0"
| "rankOf UnknownHeadroom = 1"
| "rankOf (ExhaustedAccount r b u) = 2"

abbreviation pk_id :: "pool_candidate \<Rightarrow> string" where
  "pk_id c \<equiv> pf_profile_id (pk_profile c)"

fun is_exhausted :: "pool_verdict \<Rightarrow> bool" where
  "is_exhausted (ExhaustedAccount r b u) = True"
| "is_exhausted v = False"

definition orderOf :: "(string, int) jsmap \<Rightarrow> pool_candidate \<Rightarrow> rat" where
  "orderOf marks c =
     (if is_exhausted (pk_verdict c) then 2 else if jget marks (pk_id c) \<noteq> None then 1 else 0)"

definition id_order :: "string \<Rightarrow> string \<Rightarrow> rat" where
  "id_order a b = (if a < b then - 1 else if b < a then 1 else 0)"

definition mark_age :: "(string, int) jsmap \<Rightarrow> pool_candidate \<Rightarrow> rat" where
  "mark_age marks c = of_int (nullish (jget marks (pk_id c)) 0)"

definition service_of :: "(string, int) jsmap \<Rightarrow> pool_candidate \<Rightarrow> rat" where
  "service_of served c = of_int (nullish (jget served (pk_id c)) 0)"

definition comparePool ::
  "(string, int) jsmap \<Rightarrow> (string, int) jsmap \<Rightarrow> pool_candidate \<Rightarrow> pool_candidate \<Rightarrow> rat" where
  "comparePool marks served a b =
     (let byOrder = orderOf marks a - orderOf marks b;
          byAge = (if orderOf marks a = 1 then mark_age marks a - mark_age marks b else 0);
          byRank = rankOf (pk_verdict a) - rankOf (pk_verdict b);
          byHeadroom = (case (pk_verdict a, pk_verdict b) of
                          (FreshHeadroom x, FreshHeadroom y) \<Rightarrow> y - x | _ \<Rightarrow> 0);
          byService = (if pk_verdict a = UnknownHeadroom \<and> pk_verdict b = UnknownHeadroom
                       then service_of served b - service_of served a else 0)
      in if byOrder \<noteq> 0 then byOrder
         else if byAge \<noteq> 0 then byAge
         else if byRank \<noteq> 0 then byRank
         else if byHeadroom \<noteq> 0 then byHeadroom
         else if byService \<noteq> 0 then byService
         else id_order (pk_id a) (pk_id b))"

definition rankAccountPool ::
  "(string \<Rightarrow> int option) \<Rightarrow> int \<Rightarrow> pool_args \<Rightarrow> pool_candidate list" where
  "rankAccountPool dp now a =
     (let cs = pool_candidates dp now a
      in js_sort (comparePool (pool_marks dp now a) (pool_served a cs)) cs)"

section \<open>Selection\<close>

datatype pool_selection =
  PoolSelected pool_candidate
| PoolEmpty
| PoolSpent "string option" bool bool

record spent_fold =
  sx_resetsAt :: "string option"
  sx_reserveOnly :: bool
  sx_reopeningUnknown :: bool

definition spent_step :: "spent_fold \<Rightarrow> pool_candidate \<Rightarrow> spent_fold" where
  "spent_step f c =
     (case pk_verdict c of
        ExhaustedAccount resets basis unknown \<Rightarrow>
          \<lparr>sx_resetsAt =
             (case resets of
                None \<Rightarrow> sx_resetsAt f
              | Some r \<Rightarrow> (case sx_resetsAt f of None \<Rightarrow> Some r | Some e \<Rightarrow> if r < e then Some r else Some e)),
           sx_reserveOnly = (sx_reserveOnly f \<and> basis = OwnerReserve),
           sx_reopeningUnknown = (sx_reopeningUnknown f \<or> unknown)\<rparr>
      | _ \<Rightarrow> f)"

definition selectFromAccountPool ::
  "(string \<Rightarrow> int option) \<Rightarrow> int \<Rightarrow> pool_args \<Rightarrow> pool_selection" where
  "selectFromAccountPool dp now a =
     (let ranked = rankAccountPool dp now a
      in case find (\<lambda>c. \<not> is_exhausted (pk_verdict c)) ranked of
           Some c \<Rightarrow> PoolSelected c
         | None \<Rightarrow>
             if ranked = [] then PoolEmpty
             else
               let f = foldl spent_step
                     \<lparr>sx_resetsAt = None, sx_reserveOnly = True, sx_reopeningUnknown = False\<rparr> ranked
               in if sx_reopeningUnknown f then PoolSpent None (sx_reserveOnly f) True
                  else PoolSpent (sx_resetsAt f) (sx_reserveOnly f) False)"

end
