(* ===== verification/Evidence_Ledgers.thy ===== *)
theory Evidence_Ledgers
  imports Account_Pool
begin

text \<open>
  The daemon's memory about accounts: \<open>credential-generation.ts\<close>,
  \<open>pre-progress-refusal-ledger.ts\<close>, \<open>model-substitution-ledger.ts\<close> and
  \<open>store/account-service.ts\<close> of \<open>daemon/src\<close>. The clock is the argument \<open>now\<close>,
  \<open>toISOString\<close> the argument \<open>to_iso\<close>, and whether a login may be rewriting the credentials of a
  harness the argument \<open>mutating\<close>. Parts of a key are joined by the NUL character, as in the code.
\<close>

section \<open>Credential generations\<close>

record generation_state =
  gx_changes :: nat
  gx_everyAccountChangedAt :: nat
  gx_defaultChangedAt :: nat
  gx_accountChangedAt :: "(string, nat) jsmap"
  gx_dispatchOrder :: nat
  gx_retired :: bool

definition newCredentialGeneration :: generation_state where
  "newCredentialGeneration =
     \<lparr>gx_changes = 0, gx_everyAccountChangedAt = 0, gx_defaultChangedAt = 0, gx_accountChangedAt = [],
      gx_dispatchOrder = 0, gx_retired = False\<rparr>"

definition null_mark :: string where
  "null_mark = [char_of (1 :: nat)]"

definition generation_key :: "string \<Rightarrow> string option \<Rightarrow> string" where
  "generation_key harnessId profileId = harnessId @ nul_sep @ nullish profileId null_mark"

text \<open>\<open>None\<close> is the value that is no number and equal to nothing.\<close>

definition generation_of ::
  "(string \<Rightarrow> bool) \<Rightarrow> generation_state \<Rightarrow> string \<Rightarrow> string option \<Rightarrow> nat option" where
  "generation_of mutating s harnessId profileId =
     (if gx_retired s \<or> mutating harnessId then None
      else Some (max (gx_everyAccountChangedAt s)
                  (max (if profileId = None then gx_defaultChangedAt s else 0)
                       (nullish (jget (gx_accountChangedAt s) (generation_key harnessId profileId)) 0))))"

record execution_subject =
  es_harnessId :: string
  es_profileId :: "string option"
  es_route :: "credential_route option"
  es_requestedModel :: "string option"

record execution_binding =
  eb_subject :: execution_subject
  eb_generation :: "nat option"
  eb_order :: nat
  eb_startedAt :: string

definition bind ::
  "(string \<Rightarrow> bool) \<Rightarrow> generation_state \<Rightarrow> execution_subject \<Rightarrow> string \<Rightarrow> execution_binding \<times> generation_state" where
  "bind mutating s subject startedAt =
     (\<lparr>eb_subject = subject,
       eb_generation = generation_of mutating s (es_harnessId subject) (es_profileId subject),
       eb_order = gx_dispatchOrder s + 1, eb_startedAt = startedAt\<rparr>,
      s\<lparr>gx_dispatchOrder := gx_dispatchOrder s + 1\<rparr>)"

definition current :: "(string \<Rightarrow> bool) \<Rightarrow> generation_state \<Rightarrow> execution_binding \<Rightarrow> bool" where
  "current mutating s b \<longleftrightarrow>
     (let g = generation_of mutating s (es_harnessId (eb_subject b)) (es_profileId (eb_subject b))
      in g \<noteq> None \<and> g = eb_generation b)"

definition retire :: "generation_state \<Rightarrow> generation_state" where
  "retire s = s\<lparr>gx_retired := True\<rparr>"

text \<open>Which durable facts a change voids: \<open>None\<close> for all rows. A retired generation reports none.\<close>

datatype invalidation = EveryRow | OneRow string string

definition invalidated :: "generation_state \<Rightarrow> invalidation \<Rightarrow> invalidation list" where
  "invalidated s scope = (if gx_retired s then [] else [scope])"

definition gen_noteCredentialChange :: "generation_state \<Rightarrow> generation_state \<times> invalidation list" where
  "gen_noteCredentialChange s =
     (s\<lparr>gx_accountChangedAt := [], gx_changes := gx_changes s + 1,
        gx_everyAccountChangedAt := gx_changes s + 1\<rparr>,
      invalidated s EveryRow)"

definition gen_clearSubject ::
  "generation_state \<Rightarrow> string \<Rightarrow> string option \<Rightarrow> bool \<Rightarrow> generation_state \<times> invalidation list" where
  "gen_clearSubject s harnessId profileId keepsBinding =
     (s\<lparr>gx_changes := gx_changes s + 1,
        gx_accountChangedAt :=
          jset (generation_key harnessId profileId) (gx_changes s + 1) (gx_accountChangedAt s)\<rparr>,
      case profileId of
        Some p \<Rightarrow> if keepsBinding then [] else invalidated s (OneRow harnessId p)
      | None \<Rightarrow> [])"

definition gen_clearDefaultSubjects :: "generation_state \<Rightarrow> generation_state" where
  "gen_clearDefaultSubjects s =
     s\<lparr>gx_changes := gx_changes s + 1, gx_defaultChangedAt := gx_changes s + 1\<rparr>"

section \<open>Bounded rows\<close>

text \<open>Both ledgers of marks keep at most this many rows, each stamped with its expiry.\<close>

definition MAX_ROWS :: nat where
  "MAX_ROWS = 64"

definition expired :: "(string \<Rightarrow> int option) \<Rightarrow> int \<Rightarrow> string \<Rightarrow> bool" where
  "expired dp now stamp = (case dp stamp of None \<Rightarrow> False | Some t \<Rightarrow> t \<le> now)"

definition prune_rows ::
  "(string \<Rightarrow> int option) \<Rightarrow> ('m \<Rightarrow> string) \<Rightarrow> int \<Rightarrow> (string, 'm) jsmap \<Rightarrow> (string, 'm) jsmap" where
  "prune_rows dp expiry now rows = filter (\<lambda>r. \<not> expired dp now (expiry (snd r))) rows"

text \<open>The reduction keeps the first of two rows when its expiry is not later.\<close>

definition sooner ::
  "(string \<Rightarrow> int option) \<Rightarrow> ('m \<Rightarrow> string) \<Rightarrow> string \<times> 'm \<Rightarrow> string \<times> 'm \<Rightarrow> string \<times> 'm" where
  "sooner dp expiry a b =
     (case (dp (expiry (snd a)), dp (expiry (snd b))) of
        (Some x, Some y) \<Rightarrow> if x \<le> y then a else b
      | _ \<Rightarrow> b)"

definition earliest_key ::
  "(string \<Rightarrow> int option) \<Rightarrow> ('m \<Rightarrow> string) \<Rightarrow> (string, 'm) jsmap \<Rightarrow> string option" where
  "earliest_key dp expiry rows =
     (case rows of [] \<Rightarrow> None | r # rs \<Rightarrow> Some (fst (foldl (sooner dp expiry) r rs)))"

definition bounded_put ::
  "(string \<Rightarrow> int option) \<Rightarrow> ('m \<Rightarrow> string) \<Rightarrow> int \<Rightarrow> string \<Rightarrow> 'm \<Rightarrow> (string, 'm) jsmap \<Rightarrow> (string, 'm) jsmap" where
  "bounded_put dp expiry now k m rows =
     (let rows1 = prune_rows dp expiry now rows;
          rows2 = (if MAX_ROWS \<le> length rows1 \<and> jget rows1 k = None
                   then (case earliest_key dp expiry rows1 of None \<Rightarrow> rows1 | Some e \<Rightarrow> jdelete e rows1)
                   else rows1)
      in jset k m rows2)"

section \<open>Refusals before progress\<close>

definition REFUSAL_TTL_MS :: int where
  "REFUSAL_TTL_MS = 60 * 60000"

record refusal_ledger =
  rl_rows :: "(string, refusal_mark) jsmap"
  rl_credentials :: generation_state

definition refusal_key :: "string \<Rightarrow> string \<Rightarrow> string option \<Rightarrow> string" where
  "refusal_key harnessId profileId model = join nul_sep [harnessId, profileId, nullish model null_mark]"

definition refusal_record ::
  "(string \<Rightarrow> int option) \<Rightarrow> (int \<Rightarrow> string) \<Rightarrow> (string \<Rightarrow> bool) \<Rightarrow> int \<Rightarrow> refusal_ledger \<Rightarrow>
   string \<Rightarrow> string \<Rightarrow> string option \<Rightarrow> refusal_ledger" where
  "refusal_record dp to_iso mutating now l harnessId profileId model =
     (if mutating harnessId then l
      else l\<lparr>rl_rows := bounded_put dp mk_expires_at now (refusal_key harnessId profileId model)
               \<lparr>mk_harness_id = harnessId, mk_profile_id = profileId, mk_requested_model = model,
                mk_observed_at = to_iso now, mk_expires_at = to_iso (now + REFUSAL_TTL_MS)\<rparr> (rl_rows l)\<rparr>)"

definition refusal_live ::
  "(string \<Rightarrow> int option) \<Rightarrow> int \<Rightarrow> refusal_ledger \<Rightarrow> refusal_mark list \<times> refusal_ledger" where
  "refusal_live dp now l =
     (let rows = prune_rows dp mk_expires_at now (rl_rows l) in (jvalues rows, l\<lparr>rl_rows := rows\<rparr>))"

definition refusal_clear :: "refusal_ledger \<Rightarrow> string \<Rightarrow> string \<Rightarrow> string option \<Rightarrow> refusal_ledger" where
  "refusal_clear l harnessId profileId model =
     l\<lparr>rl_rows := jdelete (refusal_key harnessId profileId model) (rl_rows l)\<rparr>"

definition refusal_generation ::
  "(string \<Rightarrow> bool) \<Rightarrow> refusal_ledger \<Rightarrow> string \<Rightarrow> string \<Rightarrow> nat option" where
  "refusal_generation mutating l harnessId profileId =
     generation_of mutating (rl_credentials l) harnessId (Some profileId)"

definition refusal_noteCredentialChange :: "refusal_ledger \<Rightarrow> refusal_ledger \<times> invalidation list" where
  "refusal_noteCredentialChange l =
     (let (g, evs) = gen_noteCredentialChange (rl_credentials l)
      in (\<lparr>rl_rows = [], rl_credentials = g\<rparr>, evs))"

definition refusal_clearSubject ::
  "refusal_ledger \<Rightarrow> string \<Rightarrow> string \<Rightarrow> bool \<Rightarrow> refusal_ledger \<times> invalidation list" where
  "refusal_clearSubject l harnessId profileId keepsBinding =
     (let (g, evs) = gen_clearSubject (rl_credentials l) harnessId (Some profileId) keepsBinding
      in (\<lparr>rl_rows = filter (\<lambda>r. \<not> (mk_harness_id (snd r) = harnessId \<and> mk_profile_id (snd r) = profileId))
                      (rl_rows l),
           rl_credentials = g\<rparr>, evs))"

section \<open>Model substitutions\<close>

definition SUBSTITUTION_TTL_MS :: int where
  "SUBSTITUTION_TTL_MS = 30 * 60000"

type_synonym substitution_ledger = "(string, substitution_mark) jsmap"

definition substitution_key :: "string \<Rightarrow> string \<Rightarrow> string \<Rightarrow> string" where
  "substitution_key harnessId profileId model = join nul_sep [harnessId, profileId, model]"

definition substitution_record ::
  "(string \<Rightarrow> int option) \<Rightarrow> (int \<Rightarrow> string) \<Rightarrow> (string \<Rightarrow> bool) \<Rightarrow> int \<Rightarrow> substitution_ledger \<Rightarrow>
   string \<Rightarrow> string \<Rightarrow> string \<Rightarrow> substitution_ledger" where
  "substitution_record dp to_iso mutating now rows harnessId profileId model =
     (if mutating harnessId then rows
      else bounded_put dp sb_expires_at now (substitution_key harnessId profileId model)
             \<lparr>sb_harness_id = harnessId, sb_profile_id = profileId, sb_requested_model = model,
              sb_observed_at = to_iso now, sb_expires_at = to_iso (now + SUBSTITUTION_TTL_MS)\<rparr> rows)"

definition substitution_live ::
  "(string \<Rightarrow> int option) \<Rightarrow> int \<Rightarrow> substitution_ledger \<Rightarrow> substitution_mark list \<times> substitution_ledger" where
  "substitution_live dp now rows =
     (let rows1 = prune_rows dp sb_expires_at now rows in (jvalues rows1, rows1))"

definition substitution_noteCredentialChange :: "substitution_ledger \<Rightarrow> substitution_ledger" where
  "substitution_noteCredentialChange rows = []"

definition substitution_clearSubject ::
  "substitution_ledger \<Rightarrow> string \<Rightarrow> string \<Rightarrow> substitution_ledger" where
  "substitution_clearSubject rows harnessId profileId =
     filter (\<lambda>r. \<not> (sb_harness_id (snd r) = harnessId \<and> sb_profile_id (snd r) = profileId)) rows"

end
