(* ===== verification/Unusable_Ledger.thy ===== *)
theory Unusable_Ledger
  imports Evidence_Ledgers Account_Evidence Text_Ops
begin

text \<open>
  The daemon's memory of dead credentials: \<open>daemon/src/credential-unusable-ledger.ts\<close>. The clock
  is one value per operation. A refusal is a row of the ledger, with the dispatch order it was bound
  to; a success is a point under the key of its subject and model. Two points of a reachable ledger
  are different values, so the object identity of the code is equality here. An operation that
  raises (the schema refuses the observation) is \<open>Inl\<close>; it has then changed nothing but the
  dispatch counter.
\<close>

definition MAX_TTL_MS :: int where
  "MAX_TTL_MS = 24 * 60 * 60000"

record success =
  su_binding :: execution_binding
  su_observation :: honored_observation
  su_order :: nat
  su_expires :: int

record unusable_ledger =
  ul_rows :: "(string, unusable_observation) jsmap"
  ul_orders :: "(string, nat) jsmap"
  ul_successes :: "(string, success list) jsmap"
  ul_credentials :: generation_state

section \<open>Keys and comparisons\<close>

fun route_text :: "credential_route option \<Rightarrow> string" where
  "route_text None = []"
| "route_text (Some r) = credential_route_name r"

definition unusable_key ::
  "string \<Rightarrow> string option \<Rightarrow> credential_route option \<Rightarrow> string option \<Rightarrow> string" where
  "unusable_key h p r m = join nul_sep [h, nullish p [], route_text r, nullish m []]"

definition observation_key :: "unusable_observation \<Rightarrow> string" where
  "observation_key v =
     unusable_key (uo_harness_id v) (uo_profile_id v) (uo_credential_route v) (uo_model v)"

definition refusal_matches :: "unusable_observation \<Rightarrow> execution_subject \<Rightarrow> string option \<Rightarrow> bool" where
  "refusal_matches v subject model \<longleftrightarrow>
     uo_harness_id v = es_harnessId subject \<and> uo_profile_id v = es_profileId subject \<and>
     (uo_credential_route v = None \<or> uo_credential_route v = es_route subject) \<and>
     (uo_model v = None \<or> uo_model v = model)"

text \<open>A comparison of two instants is false when one of them is no date.\<close>

definition not_after :: "(string \<Rightarrow> int option) \<Rightarrow> string \<Rightarrow> string \<Rightarrow> bool" where
  "not_after dp a b = (case (dp a, dp b) of (Some x, Some y) \<Rightarrow> x \<le> y | _ \<Rightarrow> False)"

definition dominates :: "(string \<Rightarrow> int option) \<Rightarrow> success \<Rightarrow> success \<Rightarrow> bool" where
  "dominates dp left right \<longleftrightarrow>
     su_order right \<le> su_order left \<and>
     not_after dp (ho_observed_at (su_observation right)) (ho_observed_at (su_observation left))"

definition order_at_most :: "unusable_ledger \<Rightarrow> string \<Rightarrow> nat \<Rightarrow> bool" where
  "order_at_most l k n = (case jget (ul_orders l) k of None \<Rightarrow> False | Some o' \<Rightarrow> o' \<le> n)"

definition covers ::
  "(string \<Rightarrow> int option) \<Rightarrow> unusable_ledger \<Rightarrow> string \<Rightarrow> unusable_observation \<Rightarrow> success \<Rightarrow> bool" where
  "covers dp l k v point \<longleftrightarrow>
     refusal_matches v (eb_subject (su_binding point)) (ho_model (su_observation point)) \<and>
     order_at_most l k (su_order point) \<and>
     not_after dp (uo_observed_at v) (ho_observed_at (su_observation point))"

definition positivePoints :: "unusable_ledger \<Rightarrow> success list" where
  "positivePoints l = concat (jvalues (ul_successes l))"

section \<open>Expiry\<close>

definition drop_rows ::
  "(string \<times> unusable_observation \<Rightarrow> bool) \<Rightarrow> unusable_ledger \<Rightarrow> unusable_ledger" where
  "drop_rows P l =
     l\<lparr>ul_rows := filter (\<lambda>r. \<not> P r) (ul_rows l),
       ul_orders := filter (\<lambda>o'. fst o' \<notin> fst ` set (filter P (ul_rows l))) (ul_orders l)\<rparr>"

definition point_lives :: "(string \<Rightarrow> bool) \<Rightarrow> int \<Rightarrow> generation_state \<Rightarrow> success \<Rightarrow> bool" where
  "point_lives mutating now g point \<longleftrightarrow> now < su_expires point \<and> current mutating g (su_binding point)"

definition retain_points ::
  "(string \<Rightarrow> success \<Rightarrow> bool) \<Rightarrow> (string, success list) jsmap \<Rightarrow> (string, success list) jsmap" where
  "retain_points P m =
     concat (map (\<lambda>e. let ps = filter (P (fst e)) (snd e) in if ps = [] then [] else [(fst e, ps)]) m)"

definition row_expired :: "(string \<Rightarrow> int option) \<Rightarrow> int \<Rightarrow> unusable_observation \<Rightarrow> bool" where
  "row_expired dp now v = (case dp (uo_expires_at v) of None \<Rightarrow> True | Some t \<Rightarrow> t \<le> now)"

definition prune_ledger ::
  "(string \<Rightarrow> int option) \<Rightarrow> (string \<Rightarrow> bool) \<Rightarrow> int \<Rightarrow> unusable_ledger \<Rightarrow> unusable_ledger" where
  "prune_ledger dp mutating now l =
     drop_rows (\<lambda>r. row_expired dp now (snd r))
       (l\<lparr>ul_successes := retain_points (\<lambda>_. point_lives mutating now (ul_credentials l)) (ul_successes l)\<rparr>)"

section \<open>Refusals\<close>

datatype ledger_error = InvalidObservation

definition observation_valid :: "unusable_observation \<Rightarrow> bool" where
  "observation_valid v \<longleftrightarrow>
     uo_harness_id v \<noteq> [] \<and> uo_profile_id v \<noteq> Some [] \<and> uo_observed_at v \<noteq> [] \<and> uo_expires_at v \<noteq> []"

definition capped_expiry :: "(string \<Rightarrow> int option) \<Rightarrow> int \<Rightarrow> unusable_observation \<Rightarrow> int option" where
  "capped_expiry dp now v =
     map_option (\<lambda>t. min t (nullish (dp (uo_observed_at v)) now + MAX_TTL_MS)) (dp (uo_expires_at v))"

definition make_room :: "(string \<Rightarrow> int option) \<Rightarrow> string \<Rightarrow> unusable_ledger \<Rightarrow> unusable_ledger" where
  "make_room dp k l =
     (if MAX_ROWS \<le> length (ul_rows l) \<and> jget (ul_rows l) k = None
      then (case earliest_key dp uo_expires_at (ul_rows l) of
              None \<Rightarrow> l
            | Some e \<Rightarrow> l\<lparr>ul_rows := jdelete e (ul_rows l), ul_orders := jdelete e (ul_orders l)\<rparr>)
      else l)"

text \<open>The newer of two observations of a key, by time and then by dispatch.\<close>

definition supersedes ::
  "(string \<Rightarrow> int option) \<Rightarrow> unusable_observation \<Rightarrow> nat \<Rightarrow> unusable_observation option \<Rightarrow> nat \<Rightarrow> bool" where
  "supersedes dp v order previous previousOrder =
     (case dp (uo_observed_at v) of
        None \<Rightarrow> False
      | Some t \<Rightarrow>
          (case previous of
             None \<Rightarrow> True
           | Some w \<Rightarrow>
               (case dp (uo_observed_at w) of
                  None \<Rightarrow> False
                | Some u \<Rightarrow> u < t \<or> u = t \<and> previousOrder \<le> order)))"

definition put_refusal ::
  "(string \<Rightarrow> int option) \<Rightarrow> (int \<Rightarrow> string) \<Rightarrow> unusable_observation \<Rightarrow> nat \<Rightarrow> int \<Rightarrow> unusable_ledger \<Rightarrow>
   unusable_ledger" where
  "put_refusal dp to_iso v order expires l =
     (let k = observation_key v;
          previousOrder = nullish (jget (ul_orders l) k) order
      in l\<lparr>ul_rows :=
             (if supersedes dp v order (jget (ul_rows l) k) previousOrder
              then jset k (v\<lparr>uo_expires_at := to_iso expires\<rparr>) (ul_rows l) else ul_rows l),
           ul_orders := jset k (max previousOrder order) (ul_orders l)\<rparr>)"

definition store_refusal ::
  "(string \<Rightarrow> int option) \<Rightarrow> (int \<Rightarrow> string) \<Rightarrow> (string \<Rightarrow> bool) \<Rightarrow> int \<Rightarrow> unusable_ledger \<Rightarrow>
   unusable_observation \<Rightarrow> nat \<Rightarrow> ledger_error + unusable_ledger" where
  "store_refusal dp to_iso mutating now l v order =
     (if \<not> observation_valid v then Inl InvalidObservation
      else if uo_source v = VendorPoller \<or> mutating (uo_harness_id v) then Inr l
      else
        let l1 = prune_ledger dp mutating now l
        in case capped_expiry dp now v of
             None \<Rightarrow> Inr l1
           | Some expires \<Rightarrow>
               if expires \<le> now then Inr l1
               else Inr (put_refusal dp to_iso v order expires (make_room dp (observation_key v) l1)))"

definition ledger_bind ::
  "(int \<Rightarrow> string) \<Rightarrow> (string \<Rightarrow> bool) \<Rightarrow> int \<Rightarrow> unusable_ledger \<Rightarrow> execution_subject \<Rightarrow>
   execution_binding \<times> unusable_ledger" where
  "ledger_bind to_iso mutating now l subject =
     (let (b, g) = bind mutating (ul_credentials l) subject (to_iso now) in (b, l\<lparr>ul_credentials := g\<rparr>))"

definition recordBound ::
  "(string \<Rightarrow> int option) \<Rightarrow> (int \<Rightarrow> string) \<Rightarrow> (string \<Rightarrow> bool) \<Rightarrow> int \<Rightarrow> unusable_ledger \<Rightarrow>
   execution_binding \<Rightarrow> unusable_observation \<Rightarrow> ledger_error + unusable_ledger" where
  "recordBound dp to_iso mutating now l b v =
     (if \<not> current mutating (ul_credentials l) b then Inr l
      else if uo_harness_id v \<noteq> es_harnessId (eb_subject b) \<or> uo_profile_id v \<noteq> es_profileId (eb_subject b)
      then Inr l
      else if uo_credential_route v \<noteq> None \<and> es_route (eb_subject b) \<noteq> None \<and>
              uo_credential_route v \<noteq> es_route (eb_subject b) then Inr l
      else store_refusal dp to_iso mutating now l v (eb_order b))"

definition record_unbound ::
  "(string \<Rightarrow> int option) \<Rightarrow> (int \<Rightarrow> string) \<Rightarrow> (string \<Rightarrow> bool) \<Rightarrow> int \<Rightarrow> unusable_ledger \<Rightarrow>
   unusable_observation \<Rightarrow> ledger_error + unusable_ledger" where
  "record_unbound dp to_iso mutating now l v =
     (let (b, l1) = ledger_bind to_iso mutating now l
            \<lparr>es_harnessId = uo_harness_id v, es_profileId = uo_profile_id v,
             es_route = uo_credential_route v, es_requestedModel = uo_model v\<rparr>
      in recordBound dp to_iso mutating now l1 b v)"

section \<open>Successes\<close>

definition new_point :: "execution_binding \<Rightarrow> string \<Rightarrow> int \<Rightarrow> string option \<Rightarrow> success" where
  "new_point b observedAt now model =
     \<lparr>su_binding = b,
      su_observation =
        \<lparr>ho_harness_id = es_harnessId (eb_subject b), ho_profile_id = es_profileId (eb_subject b),
         ho_credential_route = es_route (eb_subject b), ho_model = model, ho_observed_at = observedAt\<rparr>,
      su_order = eb_order b, su_expires = now + MAX_TTL_MS\<rparr>"

definition point_key :: "success \<Rightarrow> string" where
  "point_key q =
     unusable_key (es_harnessId (eb_subject (su_binding q))) (es_profileId (eb_subject (su_binding q)))
       (es_route (eb_subject (su_binding q))) (ho_model (su_observation q))"

definition add_point ::
  "(string \<Rightarrow> int option) \<Rightarrow> success \<Rightarrow> (string, success list) jsmap \<Rightarrow> (string, success list) jsmap" where
  "add_point dp q m =
     (let previous = nullish (jget m (point_key q)) []
      in if \<exists>item \<in> set previous. dominates dp item q then m
         else jset (point_key q) (filter (\<lambda>item. \<not> dominates dp q item) previous @ [q]) m)"

definition tagged_points :: "(string, success list) jsmap \<Rightarrow> (string \<times> success) list" where
  "tagged_points m = concat (map (\<lambda>e. map (Pair (fst e)) (snd e)) m)"

definition older :: "string \<times> success \<Rightarrow> string \<times> success \<Rightarrow> string \<times> success" where
  "older a b = (if su_expires (snd a) \<le> su_expires (snd b) then a else b)"

text \<open>Dropping the oldest point, with the refusals that no other point answers.\<close>

definition forget_point ::
  "(string \<Rightarrow> int option) \<Rightarrow> string \<times> success \<Rightarrow> unusable_ledger \<Rightarrow> unusable_ledger" where
  "forget_point dp oldest l =
     (let remaining = filter (\<lambda>q. q \<noteq> snd oldest) (positivePoints l);
          l1 = drop_rows (\<lambda>r. covers dp l (fst r) (snd r) (snd oldest) \<and>
                 \<not> (\<exists>q \<in> set remaining. covers dp l (fst r) (snd r) q)) l
      in l1\<lparr>ul_successes := retain_points (\<lambda>k q. \<not> (k = fst oldest \<and> q = snd oldest)) (ul_successes l)\<rparr>)"

lemma map_snd_tagged_points: "map snd (tagged_points m) = concat (jvalues m)"
  by (simp add: tagged_points_def map_concat comp_def)

lemma tagged_points_retain:
  "tagged_points (retain_points P m) = filter (\<lambda>t. P (fst t) (snd t)) (tagged_points m)"
  by (induction m)
    (auto simp: tagged_points_def retain_points_def Let_def filter_map comp_def filter_empty_conv)

lemma foldl_older_in: "foldl older r rs \<in> set (r # rs)"
proof (induction rs arbitrary: r)
  case Nil
  show ?case by simp
next
  case (Cons q rs)
  have "foldl older (older r q) rs \<in> set (older r q # rs)" by (rule Cons.IH)
  moreover have "set (older r q # rs) \<subseteq> set (r # q # rs)" by (auto simp: older_def)
  ultimately show ?case by auto
qed

function forget_excess :: "(string \<Rightarrow> int option) \<Rightarrow> unusable_ledger \<Rightarrow> unusable_ledger" where
  "forget_excess dp l =
     (if length (positivePoints l) \<le> MAX_ROWS then l
      else (case tagged_points (ul_successes l) of
              [] \<Rightarrow> l
            | r # rs \<Rightarrow> forget_excess dp (forget_point dp (foldl older r rs) l)))"
  by pat_completeness auto

lemma forget_point_fewer:
  assumes "t \<in> set (tagged_points (ul_successes l))"
  shows "length (positivePoints (forget_point dp t l)) < length (positivePoints l)"
proof -
  have n: "length (positivePoints l) = length (tagged_points (ul_successes l))" for l
    using arg_cong [OF map_snd_tagged_points, of length] by (simp add: positivePoints_def)
  have "tagged_points (ul_successes (forget_point dp t l)) =
      filter (\<lambda>x. \<not> (fst x = fst t \<and> snd x = snd t)) (tagged_points (ul_successes l))"
    by (simp add: forget_point_def Let_def tagged_points_retain)
  then show ?thesis
    unfolding n using length_filter_less [OF assms, of "\<lambda>x. \<not> (fst x = fst t \<and> snd x = snd t)"] by simp
qed

termination forget_excess
proof (relation "measure (\<lambda>(dp, l). length (positivePoints l))")
  fix dp :: "string \<Rightarrow> int option" and l :: unusable_ledger and r rs
  assume "tagged_points (ul_successes l) = r # rs"
  then have "foldl older r rs \<in> set (tagged_points (ul_successes l))" by (simp only: foldl_older_in)
  then show "((dp, forget_point dp (foldl older r rs) l), dp, l)
      \<in> measure (\<lambda>(dp, l). length (positivePoints l))"
    by (simp add: forget_point_fewer)
qed simp

declare forget_excess.simps [simp del]

definition honorBound ::
  "(string \<Rightarrow> int option) \<Rightarrow> (string \<Rightarrow> bool) \<Rightarrow> int \<Rightarrow> unusable_ledger \<Rightarrow> execution_binding \<Rightarrow>
   string option \<Rightarrow> string \<Rightarrow> unusable_ledger" where
  "honorBound dp mutating now l b observedModel observedAt =
     (if \<not> current mutating (ul_credentials l) b then l
      else case dp observedAt of
        None \<Rightarrow> l
      | Some t \<Rightarrow>
          if (case dp (eb_startedAt b) of None \<Rightarrow> False | Some s \<Rightarrow> t < s) then l
          else
            let l1 = prune_ledger dp mutating now l;
                models = (case observedModel of None \<Rightarrow> [None] | Some m \<Rightarrow> [None, Some m])
            in forget_excess dp
                 (l1\<lparr>ul_successes :=
                      foldl (\<lambda>m model. add_point dp (new_point b observedAt now model) m)
                        (ul_successes l1) models\<rparr>))"

section \<open>Reads\<close>

definition unhealed ::
  "(string \<Rightarrow> int option) \<Rightarrow> unusable_ledger \<Rightarrow> (string, unusable_observation) jsmap" where
  "unhealed dp l =
     filter (\<lambda>r. \<not> (\<exists>q \<in> set (positivePoints l). covers dp l (fst r) (snd r) q)) (ul_rows l)"

definition live_refusals ::
  "(string \<Rightarrow> int option) \<Rightarrow> (string \<Rightarrow> bool) \<Rightarrow> int \<Rightarrow> unusable_ledger \<Rightarrow>
   unusable_observation list \<times> unusable_ledger" where
  "live_refusals dp mutating now l =
     (let l1 = prune_ledger dp mutating now l in (jvalues (unhealed dp l1), l1))"

definition refusesPositive ::
  "(string \<Rightarrow> int option) \<Rightarrow> unusable_ledger \<Rightarrow> execution_binding \<Rightarrow> string option \<Rightarrow> string \<Rightarrow> bool" where
  "refusesPositive dp l b model observedAt \<longleftrightarrow>
     (\<exists>r \<in> set (ul_rows l). refusal_matches (snd r) (eb_subject b) model \<and>
        (\<not> order_at_most l (fst r) (eb_order b) \<or> later dp (uo_observed_at (snd r)) observedAt))"

definition honored ::
  "(string \<Rightarrow> int option) \<Rightarrow> (string \<Rightarrow> bool) \<Rightarrow> int \<Rightarrow> unusable_ledger \<Rightarrow>
   honored_observation list \<times> unusable_ledger" where
  "honored dp mutating now l =
     (let l1 = prune_ledger dp mutating now l
      in (map su_observation
            (filter (\<lambda>q. current mutating (ul_credentials l1) (su_binding q) \<and>
                       \<not> refusesPositive dp l1 (su_binding q) (ho_model (su_observation q))
                           (ho_observed_at (su_observation q))) (positivePoints l1)), l1))"

section \<open>Credential changes\<close>

definition unusable_noteCredentialChange :: "unusable_ledger \<Rightarrow> unusable_ledger \<times> invalidation list" where
  "unusable_noteCredentialChange l =
     (let (g, evs) = gen_noteCredentialChange (ul_credentials l)
      in (\<lparr>ul_rows = [], ul_orders = [], ul_successes = [], ul_credentials = g\<rparr>, evs))"

definition unusable_clearSubject ::
  "unusable_ledger \<Rightarrow> string \<Rightarrow> string option \<Rightarrow> bool \<Rightarrow> unusable_ledger \<times> invalidation list" where
  "unusable_clearSubject l h p keepsBinding =
     (let l1 = l\<lparr>ul_successes :=
                  filter (\<lambda>e. \<not> starts_with (fst e) (join nul_sep [h, nullish p [], []])) (ul_successes l)\<rparr>;
          l2 = drop_rows (\<lambda>r. uo_harness_id (snd r) = h \<and> uo_profile_id (snd r) = p) l1;
          (g, evs) = gen_clearSubject (ul_credentials l2) h p keepsBinding
      in (l2\<lparr>ul_credentials := g\<rparr>, evs))"

definition second_part_empty :: "string \<Rightarrow> bool" where
  "second_part_empty k = (case split_on (char_of (0 :: nat)) k of _ # s # _ \<Rightarrow> s = [] | _ \<Rightarrow> False)"

definition unusable_clearDefaultSubjects :: "unusable_ledger \<Rightarrow> unusable_ledger" where
  "unusable_clearDefaultSubjects l =
     drop_rows (\<lambda>r. uo_profile_id (snd r) = None)
       (l\<lparr>ul_credentials := gen_clearDefaultSubjects (ul_credentials l),
          ul_successes := filter (\<lambda>e. \<not> second_part_empty (fst e)) (ul_successes l)\<rparr>)"

end
