(* ===== verification/Account_Service.thy ===== *)
theory Account_Service
  imports Evidence_Ledgers Json
begin

text \<open>
  Which account served a requested model last: the table \<open>account_last_service\<close> of
  \<open>daemon/src/store/account-service.ts\<close> and its owner \<open>daemon/src/account-evidence.ts\<close>. The
  table is a map from its primary key. The digest of a text is the argument \<open>sha\<close>, and
  \<open>JSON.parse\<close> of a key the argument \<open>parse\<close>. Every statement of an operation runs in one
  transaction, so an operation either happens or fails as a whole.
\<close>

record service_producer =
  sp_runId :: string
  sp_attemptId :: string
  sp_tryIndex :: nat

record service_fact =
  sf_seq :: int
  sf_observed_at :: string
  sf_producer :: service_producer

type_synonym service_table = "(string \<times> string \<times> string \<times> string, service_fact) jsmap"

fun credential_kind_name :: "credential_kind \<Rightarrow> string" where
  "credential_kind_name ConfigDirLogin = ''config_dir_login''"
| "credential_kind_name OauthToken = ''oauth_token''"
| "credential_kind_name ApiKeyCredential = ''api_key''"

fun json_nullable :: "string option \<Rightarrow> json" where
  "json_nullable None = JNull"
| "json_nullable (Some s) = JStr s"

definition json_text :: "json \<Rightarrow> string" where
  "json_text j = json_stringify (\<lambda>_. []) j"

definition accountBindingDigest :: "(string \<Rightarrow> string) \<Rightarrow> credential_profile \<Rightarrow> string" where
  "accountBindingDigest sha p =
     sha (json_text (JArr [JStr (credential_kind_name (pf_credential_kind p)),
                           json_nullable (pf_secret_ref p), json_nullable (pf_isolation_locator p),
                           json_nullable (pf_created_at p)]))"

definition modelKey :: "string option \<Rightarrow> string" where
  "modelKey model = json_text (json_nullable model)"

definition fact_key ::
  "(string \<Rightarrow> string) \<Rightarrow> credential_profile \<Rightarrow> string option \<Rightarrow> string \<times> string \<times> string \<times> string" where
  "fact_key sha p model =
     (pf_harness_id p, pf_profile_id p, modelKey model, accountBindingDigest sha p)"

definition next_seq :: "service_table \<Rightarrow> int" where
  "next_seq t = (case map (\<lambda>r. sf_seq (snd r)) t of [] \<Rightarrow> 0 | n # ns \<Rightarrow> foldl max n ns) + 1"

definition serve ::
  "(string \<Rightarrow> string) \<Rightarrow> string \<Rightarrow> service_table \<Rightarrow> credential_profile \<Rightarrow> string option \<Rightarrow>
   service_producer \<Rightarrow> service_table" where
  "serve sha now t p model producer =
     (if map_option sf_producer (jget t (fact_key sha p model)) = Some producer then t
      else jset (fact_key sha p model)
             \<lparr>sf_seq = next_seq t, sf_observed_at = now, sf_producer = producer\<rparr> t)"

definition retract ::
  "(string \<Rightarrow> string) \<Rightarrow> service_table \<Rightarrow> credential_profile \<Rightarrow> string option \<Rightarrow> service_producer \<Rightarrow>
   service_table" where
  "retract sha t p model producer =
     filter (\<lambda>r. \<not> (fst r = fact_key sha p model \<and> sf_producer (snd r) = producer)) t"

fun clear_services :: "service_table \<Rightarrow> invalidation \<Rightarrow> service_table" where
  "clear_services t EveryRow = []"
| "clear_services t (OneRow h p) = filter (\<lambda>r. \<not> (fst (fst r) = h \<and> fst (snd (fst r)) = p)) t"

fun profile_digests ::
  "(string \<Rightarrow> string) \<Rightarrow> string \<Rightarrow> credential_profile list \<Rightarrow> (string, string) jsmap \<Rightarrow> (string, string) jsmap" where
  "profile_digests sha h [] m = m"
| "profile_digests sha h (p # ps) m =
     profile_digests sha h ps
       (if pf_harness_id p = h then jset (pf_profile_id p) (accountBindingDigest sha p) m else m)"

fun collect_orders ::
  "(string, string) jsmap \<Rightarrow> string \<Rightarrow> string \<Rightarrow> service_table \<Rightarrow> (string, int) jsmap \<Rightarrow> (string, int) jsmap" where
  "collect_orders digests h mk [] out = out"
| "collect_orders digests h mk (((h', p, mk', digest), f) # rows) out =
     collect_orders digests h mk rows
       (if h' = h \<and> mk' = mk \<and> jget digests p = Some digest then jset p (sf_seq f) out else out)"

definition orders ::
  "(string \<Rightarrow> string) \<Rightarrow> service_table \<Rightarrow> string \<Rightarrow> string option \<Rightarrow> credential_profile list \<Rightarrow>
   (string, int) jsmap" where
  "orders sha t h model profiles =
     (let digests = profile_digests sha h profiles []
      in if digests = [] then [] else collect_orders digests h (modelKey model) t [])"

record account_last_service =
  al_harness_id :: string
  al_profile_id :: string
  al_requested_model :: "string option"
  al_observed_at :: string

fun subject_digests ::
  "(string \<Rightarrow> string) \<Rightarrow> credential_profile list \<Rightarrow> (string, string) jsmap \<Rightarrow> (string, string) jsmap" where
  "subject_digests sha [] m = m"
| "subject_digests sha (p # ps) m =
     subject_digests sha ps
       (jset (pf_harness_id p @ nul_sep @ pf_profile_id p) (accountBindingDigest sha p) m)"

definition latest ::
  "(string \<Rightarrow> string) \<Rightarrow> (string \<Rightarrow> string option) \<Rightarrow> service_table \<Rightarrow> credential_profile list \<Rightarrow>
   account_last_service list" where
  "latest sha parse t profiles =
     (let digests = subject_digests sha profiles []
      in map (\<lambda>((h, p, mk, digest), f).
                \<lparr>al_harness_id = h, al_profile_id = p, al_requested_model = parse mk,
                 al_observed_at = sf_observed_at f\<rparr>)
           (filter (\<lambda>((h, p, mk, digest), f). jget digests (h @ nul_sep @ p) = Some digest)
             (rev (sort_key (\<lambda>r. sf_seq (snd r)) t))))"

section \<open>The account evidence of one store\<close>

text \<open>
  A guarded operation that fails (\<open>fails\<close>) leaves the table as it is; a failed read yields no
  facts. The generation has moved before the table is told.
\<close>

record account_evidence =
  ae_credentials :: generation_state
  ae_services :: service_table

definition evidence_invalidated ::
  "bool \<Rightarrow> account_evidence \<Rightarrow> generation_state \<times> invalidation list \<Rightarrow> account_evidence" where
  "evidence_invalidated fails e r =
     \<lparr>ae_credentials = fst r,
      ae_services = (if fails then ae_services e else foldl clear_services (ae_services e) (snd r))\<rparr>"

definition evidence_noteCredentialChange :: "bool \<Rightarrow> account_evidence \<Rightarrow> account_evidence" where
  "evidence_noteCredentialChange fails e =
     evidence_invalidated fails e (gen_noteCredentialChange (ae_credentials e))"

definition evidence_clearSubject ::
  "bool \<Rightarrow> account_evidence \<Rightarrow> string \<Rightarrow> string option \<Rightarrow> bool \<Rightarrow> account_evidence" where
  "evidence_clearSubject fails e h p keepsBinding =
     evidence_invalidated fails e (gen_clearSubject (ae_credentials e) h p keepsBinding)"

definition evidence_serve ::
  "bool \<Rightarrow> (string \<Rightarrow> string) \<Rightarrow> string \<Rightarrow> account_evidence \<Rightarrow> credential_profile \<Rightarrow> string option \<Rightarrow>
   service_producer \<Rightarrow> account_evidence" where
  "evidence_serve fails sha now e p model producer =
     (if fails then e else e\<lparr>ae_services := serve sha now (ae_services e) p model producer\<rparr>)"

definition evidence_retract ::
  "bool \<Rightarrow> (string \<Rightarrow> string) \<Rightarrow> account_evidence \<Rightarrow> credential_profile \<Rightarrow> string option \<Rightarrow>
   service_producer \<Rightarrow> account_evidence" where
  "evidence_retract fails sha e p model producer =
     (if fails then e else e\<lparr>ae_services := retract sha (ae_services e) p model producer\<rparr>)"

definition evidence_orders ::
  "bool \<Rightarrow> (string \<Rightarrow> string) \<Rightarrow> account_evidence \<Rightarrow> string \<Rightarrow> string option \<Rightarrow> credential_profile list \<Rightarrow>
   (string, int) jsmap" where
  "evidence_orders fails sha e h model profiles =
     (if fails then [] else orders sha (ae_services e) h model profiles)"

definition evidence_retire :: "account_evidence \<Rightarrow> account_evidence" where
  "evidence_retire e = e\<lparr>ae_credentials := retire (ae_credentials e)\<rparr>"

end
