(* ===== verification/Refusal_Memory.thy ===== *)
theory Refusal_Memory
  imports Rotation Machine
begin

text \<open>
  What one try writes to the memory that later runs read: \<open>preProgressRefusalSubject\<close> of
  \<open>orchestrator/src/pre-progress-refusal.ts\<close>. The subject is a record of what the try bound
  and of its two flags; a write is a value, in the order the code makes it. The generation that
  the memory reports at a call is an argument of that call; it is no number (\<open>None\<close>), and so equal to
  nothing, while a login may be rewriting the credential. A write that raises is swallowed by
  the code and leaves the flags as they are, so it needs no case of its own.
\<close>

datatype memory_write =
  RecordMark string string "string option"
| ClearMark string string "string option"
| ServeFact string "string option"
| RetractFact string "string option"

record refusal_subject =
  ru_harnessId :: string
  ru_profileId :: string
  ru_model :: "string option"
  ru_generation :: "nat option"
  ru_services :: bool
  ru_served :: bool
  ru_foreign :: bool

text \<open>\<open>None\<close>: no memory, no account, or a metered account.\<close>

definition preProgressRefusalSubject ::
  "bool \<Rightarrow> string \<Rightarrow> run_spec \<Rightarrow> nat option \<Rightarrow> bool \<Rightarrow> refusal_subject option" where
  "preProgressRefusalSubject memory harnessId spec generation services =
     (case rn_credential_profile spec of
        None \<Rightarrow> None
      | Some p \<Rightarrow>
          if \<not> memory \<or> pf_credential_kind p = ApiKeyCredential then None
          else Some \<lparr>ru_harnessId = harnessId, ru_profileId = pf_profile_id p,
                     ru_model = rn_model_hint spec, ru_generation = generation,
                     ru_services = services, ru_served = False, ru_foreign = False\<rparr>)"

definition subject_unchanged :: "refusal_subject \<Rightarrow> nat option \<Rightarrow> bool" where
  "subject_unchanged u generation \<longleftrightarrow> generation \<noteq> None \<and> generation = ru_generation u"

definition subject_write :: "refusal_subject \<Rightarrow> memory_write \<Rightarrow> memory_write list" where
  "subject_write u w = (if ru_services u then [w] else [])"

definition subject_serve :: "refusal_subject \<Rightarrow> nat option \<Rightarrow> refusal_subject \<times> memory_write list" where
  "subject_serve u generation =
     (if ru_served u \<or> ru_foreign u \<or> \<not> ru_services u \<or> \<not> subject_unchanged u generation then (u, [])
      else (u\<lparr>ru_served := True\<rparr>, subject_write u (ServeFact (ru_profileId u) (ru_model u))))"

definition names_another :: "refusal_subject \<Rightarrow> attempt_event \<Rightarrow> bool" where
  "names_another u e \<longleftrightarrow>
     (he_credential_profile_id e \<noteq> None \<and> he_credential_profile_id e \<noteq> Some (ru_profileId u)) \<or>
     (he_credential_route e \<noteq> None \<and> he_credential_route e \<noteq> Some VendorNative)"

definition subject_observe ::
  "refusal_subject \<Rightarrow> nat option \<Rightarrow> attempt_event \<Rightarrow> output_markers \<Rightarrow> refusal_subject \<times> memory_write list" where
  "subject_observe u generation e m =
     (if names_another u e
      then (u\<lparr>ru_foreign := True\<rparr>,
            if ru_served u \<and> \<not> ru_foreign u
            then subject_write u (RetractFact (ru_profileId u) (ru_model u)) else [])
      else if om_sawAgentProgress m then subject_serve u generation
      else (u, []))"

definition subject_note :: "refusal_subject \<Rightarrow> nat option \<Rightarrow> refusal_subject \<times> memory_write list" where
  "subject_note u generation =
     (if \<not> subject_unchanged u generation then (u, [])
      else (u, [RecordMark (ru_harnessId u) (ru_profileId u) (ru_model u)]))"

definition subject_noteServed ::
  "refusal_subject \<Rightarrow> nat option \<Rightarrow> output_markers \<Rightarrow> bool \<Rightarrow> refusal_subject \<times> memory_write list" where
  "subject_noteServed u generation m delivered =
     (if ru_foreign u \<or> \<not> subject_unchanged u generation \<or> \<not> (om_sawAgentProgress m \<or> delivered)
      then (u, [])
      else
        let (u', ws) = subject_serve u generation
        in (u', ClearMark (ru_harnessId u) (ru_profileId u) (ru_model u) # ws))"

section \<open>The calls of one try\<close>

datatype subject_call =
  CallObserve attempt_event output_markers
| CallNote
| CallNoteServed output_markers bool

fun subject_perform ::
  "refusal_subject \<Rightarrow> nat option \<Rightarrow> subject_call \<Rightarrow> refusal_subject \<times> memory_write list" where
  "subject_perform u g (CallObserve e m) = subject_observe u g e m"
| "subject_perform u g CallNote = subject_note u g"
| "subject_perform u g (CallNoteServed m d) = subject_noteServed u g m d"

text \<open>Each call comes with the generation that the memory reports at that moment.\<close>

fun subject_run ::
  "refusal_subject \<Rightarrow> (nat option \<times> subject_call) list \<Rightarrow> refusal_subject \<times> memory_write list" where
  "subject_run u [] = (u, [])"
| "subject_run u ((g, c) # cs) =
     (let (u1, ws1) = subject_perform u g c; (u2, ws2) = subject_run u1 cs in (u2, ws1 @ ws2))"

section \<open>What a try leaves behind\<close>

definition service_writes :: "memory_write list \<Rightarrow> memory_write list" where
  "service_writes ws = filter (\<lambda>w. case w of ServeFact _ _ \<Rightarrow> True | RetractFact _ _ \<Rightarrow> True | _ \<Rightarrow> False) ws"

lemma service_writes_append [simp]: "service_writes (xs @ ys) = service_writes xs @ service_writes ys"
  by (simp add: service_writes_def)

abbreviation serve_of :: "refusal_subject \<Rightarrow> memory_write" where
  "serve_of u \<equiv> ServeFact (ru_profileId u) (ru_model u)"

abbreviation retract_of :: "refusal_subject \<Rightarrow> memory_write" where
  "retract_of u \<equiv> RetractFact (ru_profileId u) (ru_model u)"

text \<open>The service facts a subject in a given state has written so far.\<close>

definition service_log :: "refusal_subject \<Rightarrow> memory_write list \<Rightarrow> bool" where
  "service_log u ws \<longleftrightarrow>
     service_writes ws =
       (if \<not> ru_served u then [] else if ru_foreign u then [serve_of u, retract_of u] else [serve_of u])
     \<and> (ru_served u \<longrightarrow> ru_services u)"

definition same_binding :: "refusal_subject \<Rightarrow> refusal_subject \<Rightarrow> bool" where
  "same_binding u v \<longleftrightarrow>
     ru_harnessId v = ru_harnessId u \<and> ru_profileId v = ru_profileId u \<and> ru_model v = ru_model u \<and>
     ru_generation v = ru_generation u \<and> ru_services v = ru_services u"

lemma subject_perform_log:
  assumes "subject_perform u g c = (v, ws)" and "service_log u ws0"
  shows "service_log v (ws0 @ ws) \<and> same_binding u v \<and> (ru_foreign u \<longrightarrow> ru_foreign v)"
proof (cases c)
  case (CallObserve e m)
  then show ?thesis
    using assms
    by (auto simp: subject_observe_def subject_serve_def subject_write_def service_log_def
        same_binding_def service_writes_def split: if_splits)
next
  case CallNote
  then show ?thesis
    using assms
    by (auto simp: subject_note_def service_log_def same_binding_def service_writes_def split: if_splits)
next
  case (CallNoteServed m d)
  then show ?thesis
    using assms
    by (auto simp: subject_noteServed_def subject_serve_def subject_write_def service_log_def
        same_binding_def service_writes_def split: if_splits)
qed

lemma same_binding_trans: "same_binding u v \<Longrightarrow> same_binding v w \<Longrightarrow> same_binding u w"
  by (simp add: same_binding_def)

lemma subject_run_log:
  "subject_run u cs = (v, ws) \<Longrightarrow> service_log u ws0 \<Longrightarrow>
     service_log v (ws0 @ ws) \<and> same_binding u v \<and> (ru_foreign u \<longrightarrow> ru_foreign v)"
proof (induction cs arbitrary: u v ws ws0)
  case Nil
  then show ?case by (simp add: same_binding_def)
next
  case (Cons gc cs)
  obtain g c where gc: "gc = (g, c)" by (cases gc)
  obtain u1 ws1 where c1: "subject_perform u g c = (u1, ws1)" by (cases "subject_perform u g c")
  obtain u2 ws2 where c2: "subject_run u1 cs = (u2, ws2)" by (cases "subject_run u1 cs")
  have v: "v = u2" "ws = ws1 @ ws2" using Cons.prems(1) gc c1 c2 by simp_all
  have l1: "service_log u1 (ws0 @ ws1) \<and> same_binding u u1 \<and> (ru_foreign u \<longrightarrow> ru_foreign u1)"
    by (rule subject_perform_log [OF c1 Cons.prems(2)])
  then have "service_log u2 ((ws0 @ ws1) @ ws2) \<and> same_binding u1 u2 \<and> (ru_foreign u1 \<longrightarrow> ru_foreign u2)"
    using Cons.IH [OF c2] by blast
  with l1 v show ?case by (auto intro: same_binding_trans)
qed

text \<open>A write about the credential needs the generation the try bound.\<close>

lemma subject_perform_stale:
  "g = None \<or> g \<noteq> ru_generation u \<Longrightarrow> subject_perform u g c = (v, ws) \<Longrightarrow> set ws \<subseteq> {retract_of u}"
  by (cases c)
    (auto simp: subject_observe_def subject_serve_def subject_write_def subject_note_def
      subject_noteServed_def subject_unchanged_def split: if_splits)

lemma subject_run_stale:
  "(\<forall>(g, c) \<in> set cs. g = None \<or> g \<noteq> ru_generation u) \<Longrightarrow> subject_run u cs = (v, ws) \<Longrightarrow> set ws \<subseteq> {retract_of u}"
proof (induction cs arbitrary: u v ws)
  case Nil
  then show ?case by simp
next
  case (Cons gc cs)
  obtain g c where gc: "gc = (g, c)" by (cases gc)
  obtain u1 ws1 where c1: "subject_perform u g c = (u1, ws1)" by (cases "subject_perform u g c")
  obtain u2 ws2 where c2: "subject_run u1 cs = (u2, ws2)" by (cases "subject_run u1 cs")
  have b: "ru_generation u1 = ru_generation u" "retract_of u1 = retract_of u"
    using c1 by (cases c; auto simp: subject_observe_def subject_serve_def subject_note_def
        subject_noteServed_def split: if_splits)+
  have "set ws1 \<subseteq> {retract_of u}"
    using Cons.prems(1) gc by (intro subject_perform_stale [OF _ c1]) auto
  moreover have "set ws2 \<subseteq> {retract_of u1}"
    using Cons.prems(1) b by (intro Cons.IH [OF _ c2]) auto
  ultimately show ?case using Cons.prems(2) gc c1 c2 b by auto
qed

end
