(* ===== verification/Account_Props.thy ===== *)
theory Account_Props
  imports Account_Pool
begin

text \<open>
  What holds of the account pool: the evidence that refuses an account, the ranking, and the
  account that an unpinned run gets.
\<close>

section \<open>Headroom\<close>

definition over :: "('w \<Rightarrow> rat option) \<Rightarrow> rat \<Rightarrow> 'w \<Rightarrow> bool" where
  "over usage threshold w \<longleftrightarrow> (case usage w of None \<Rightarrow> False | Some u \<Rightarrow> threshold \<le> u)"

lemma breach_scan_None:
  "breach_scan usage threshold b ws = None \<longleftrightarrow> b = None \<and> (\<forall>w \<in> set ws. \<not> over usage threshold w)"
  by (induction ws arbitrary: b) (auto simp: over_def Let_def split: option.splits)

definition spent_breach :: "headroom_breach option \<Rightarrow> bool" where
  "spent_breach b \<longleftrightarrow> (case b of None \<Rightarrow> False | Some r \<Rightarrow> 1 \<le> hb_used_ratio r)"

lemma spent_breach_simps [simp]:
  "\<not> spent_breach None" "spent_breach (Some r) \<longleftrightarrow> 1 \<le> hb_used_ratio r"
  by (simp_all add: spent_breach_def)

lemma breach_scan_spent:
  "spent_breach b \<or> (\<exists>w \<in> set ws. over usage threshold w \<and> over usage 1 w) \<Longrightarrow>
     spent_breach (breach_scan usage threshold b ws)"
proof (induction ws arbitrary: b)
  case Nil
  then show ?case by simp
next
  case (Cons w ws)
  show ?case
  proof (cases "usage w")
    case None
    then have "\<not> over usage threshold w" by (simp add: over_def)
    then show ?thesis using Cons.IH [of b] Cons.prems None by auto
  next
    case (Some u)
    consider "u < threshold" | "threshold \<le> u" "1 \<le> u" | "threshold \<le> u" "u < 1" by linarith
    then show ?thesis
    proof cases
      case 1
      then have "\<not> over usage threshold w" using Some by (simp add: over_def)
      then show ?thesis using Cons.IH [of b] Cons.prems Some 1 by auto
    next
      case 2
      then show ?thesis using Some by (simp add: Let_def)
    next
      case 3
      then have "\<not> over usage 1 w" using Some by (simp add: over_def)
      then have p: "spent_breach b \<or> (\<exists>w \<in> set ws. over usage threshold w \<and> over usage 1 w)"
        using Cons.prems by auto
      show ?thesis
      proof (cases b)
        case None
        then show ?thesis using Cons.IH p Some 3 by (simp add: Let_def)
      next
        case (Some b')
        then show ?thesis using Cons.IH [OF p] \<open>usage w = Some u\<close> 3 by simp
      qed
    qed
  qed
qed

lemma breach_scan_origin:
  "breach_scan usage threshold b ws = Some r \<Longrightarrow> b = Some r \<or>
     (\<exists>w \<in> set ws. over usage threshold w \<and> usage w = Some (hb_used_ratio r) \<and>
        hb_constraint_id r = qc_id (snd w) \<and> hb_resets_at r = qc_resets_at (snd w) \<and>
        hb_threshold r = threshold)"
proof (induction ws arbitrary: b)
  case Nil
  then show ?case by simp
next
  case (Cons w ws)
  show ?case
  proof (cases "usage w")
    case None
    then show ?thesis using Cons.IH [of b] Cons.prems by auto
  next
    case (Some u)
    let ?n = "Some \<lparr>hb_constraint_id = qc_id (snd w), hb_used_ratio = u,
      hb_threshold = threshold, hb_resets_at = qc_resets_at (snd w)\<rparr>"
    consider "breach_scan usage threshold b ws = Some r"
      | "threshold \<le> u" "breach_scan usage threshold ?n ws = Some r"
      | "threshold \<le> u" "?n = Some r"
      using Cons.prems Some by (auto simp: Let_def not_less split: if_splits)
    then show ?thesis
    proof cases
      case 1
      then show ?thesis using Cons.IH by (meson list.set_intros(2))
    next
      case 2
      from Cons.IH [OF 2(2)] show ?thesis using Some 2(1) by (auto simp: over_def)
    next
      case 3
      then show ?thesis using Some by (auto simp: over_def)
    qed
  qed
qed

section \<open>Blocks\<close>

text \<open>A snapshot of the subject that blocks now, and one that reports a refusal without a date.\<close>

definition blocks_now :: "availability_reader \<Rightarrow> quota_snapshot \<Rightarrow> bool" where
  "blocks_now read s \<longleftrightarrow> qa_state (read (qn_constraints s)) \<noteq> Available"

definition refuses_undated :: "availability_reader \<Rightarrow> quota_snapshot \<Rightarrow> bool" where
  "refuses_undated read s \<longleftrightarrow> blocks_now read s \<and> refusal_window read (qn_constraints s) \<noteq> None"

lemma block_scan_None:
  "block_scan read subject d ss = None \<longleftrightarrow>
     d = None \<and> (\<forall>s \<in> set ss. subject s \<longrightarrow> \<not> blocks_now read s)"
  by (induction ss arbitrary: d) (auto simp: blocks_now_def split: option.splits)

lemma block_scan_result:
  "block_scan read subject d ss = Some k \<Longrightarrow>
     (case find (\<lambda>s. subject s \<and> refuses_undated read s) ss of
        Some s \<Rightarrow> k = refusal_block read (the (refusal_window read (qn_constraints s)))
      | None \<Rightarrow>
          (case d of
             Some k' \<Rightarrow> k = k'
           | None \<Rightarrow>
               (\<exists>s. find (\<lambda>s. subject s \<and> blocks_now read s) ss = Some s \<and>
                    k = dated_block read (qn_constraints s))))"
proof (induction ss arbitrary: d)
  case Nil
  then show ?case by simp
next
  case (Cons s ss)
  consider "\<not> subject s \<or> \<not> blocks_now read s"
    | "subject s" "blocks_now read s" "refusal_window read (qn_constraints s) \<noteq> None"
    | "subject s" "blocks_now read s" "refusal_window read (qn_constraints s) = None"
    by blast
  then show ?case
  proof cases
    case 1
    then have "block_scan read subject d ss = Some k"
      using Cons.prems by (auto simp: blocks_now_def split: if_splits)
    from Cons.IH [OF this] 1 show ?thesis by (auto simp: refuses_undated_def split: option.splits)
  next
    case 2
    then show ?thesis using Cons.prems by (auto simp: blocks_now_def refuses_undated_def)
  next
    case 3
    show ?thesis
    proof (cases d)
      case None
      then have "block_scan read subject (Some (dated_block read (qn_constraints s))) ss = Some k"
        using 3 Cons.prems by (simp add: blocks_now_def)
      from Cons.IH [OF this] show ?thesis
        using 3 None by (auto simp: refuses_undated_def split: option.splits)
    next
      case (Some k')
      then have "block_scan read subject (Some k') ss = Some k"
        using 3 Cons.prems by (simp add: blocks_now_def)
      from Cons.IH [OF this] show ?thesis
        using 3 Some by (auto simp: refuses_undated_def split: option.splits)
    qed
  qed
qed

lemma find_Some_in: "find P xs = Some x \<Longrightarrow> x \<in> set xs \<and> P x"
  by (induction xs) (auto split: if_splits)

lemma find_None_all: "find P xs = None \<longleftrightarrow> (\<forall>x \<in> set xs. \<not> P x)"
  by (induction xs) auto

text \<open>The projection of a single window.\<close>

lemma single_window:
  "qa_state (quotaSnapshotAvailability dp now m rk [c]) \<noteq> Available \<longleftrightarrow> window_blocks dp now m rk c"
  "qa_resets_at (quotaSnapshotAvailability dp now m rk [c]) =
     (if window_blocks dp now m rk c then map_option fst (block_release dp now c) else None)"
  by (auto simp: availability_available_iff quotaSnapshotAvailability_def availability_scan_def Let_def
      availability_window_earliest availability_window_blocking empty_avail_def
      split: option.splits dest: block_release_Some)

lemma projection_reset:
  assumes "qa_state (quotaSnapshotAvailability dp now m rk cs) \<noteq> Available"
  shows "\<exists>c r. c \<in> set cs \<and> window_blocks dp now m rk c \<and> block_release dp now c = Some r \<and>
           qa_resets_at (quotaSnapshotAvailability dp now m rk cs) = Some (fst r)"
proof -
  obtain c where c: "c \<in> set cs" "window_blocks dp now m rk c"
    using assms by (auto simp: availability_available_iff)
  note e = availability_fold_earliest [of cs dp now m rk empty_avail]
  obtain u v where uv: "aa_earliest (fold (availability_window dp now m rk) cs empty_avail) = Some (u, v)"
    using e c by blast
  then have "\<exists>c \<in> set cs. window_blocks dp now m rk c \<and> block_release dp now c = Some (u, v)"
    using e by (auto simp: empty_avail_def)
  then show ?thesis
    using uv by (auto simp: quotaSnapshotAvailability_def availability_scan_def Let_def)
qed

lemma single_window_state:
  "window_blocks dp now m rk c \<Longrightarrow>
     qa_state (quotaSnapshotAvailability dp now m rk [c]) =
       (if window_exhausted dp now c then Exhausted else Cooldown)"
  by (simp add: quotaSnapshotAvailability_def availability_scan_def Let_def
      availability_window_blocking availability_window_saw empty_avail_def)

text \<open>The window that the reported block describes.\<close>

definition describes ::
  "(string \<Rightarrow> int option) \<Rightarrow> int \<Rightarrow> string option \<Rightarrow> quota_request_kind \<Rightarrow> quota_block \<Rightarrow>
   quota_constraint \<Rightarrow> bool" where
  "describes dp now m rk k c \<longleftrightarrow>
     window_blocks dp now m rk c \<and> qb_constraint_id k = Some (qc_id c) \<and>
     qb_resets_at k = map_option fst (block_release dp now c) \<and>
     qb_kind k = (if window_exhausted dp now c then BlockExhausted else BlockCooldown)"

lemma dated_block_describes:
  assumes "qa_state (quotaSnapshotAvailability dp now m rk cs) \<noteq> Available"
  shows "\<exists>c \<in> set cs. describes dp now m rk (dated_block (quotaSnapshotAvailability dp now m rk) cs) c \<and>
           \<not> qb_reopening_unknown (dated_block (quotaSnapshotAvailability dp now m rk) cs)"
proof -
  let ?read = "quotaSnapshotAvailability dp now m rk"
  obtain c0 r0 where c0: "c0 \<in> set cs" "window_blocks dp now m rk c0" "block_release dp now c0 = Some r0"
      "qa_resets_at (?read cs) = Some (fst r0)"
    using projection_reset [OF assms] by blast
  have "qa_resets_at (?read [c0]) = qa_resets_at (?read cs)" using c0 by (simp add: single_window)
  moreover have "qc_id c0 \<in> set (qa_blocking_constraints (?read cs))"
    using c0 by (auto simp: availability_blocking)
  ultimately have "controlling_window ?read cs \<noteq> None"
    using c0(1) by (auto simp: controlling_window_def find_None_all)
  then obtain c where cw: "controlling_window ?read cs = Some c" by blast
  then have c: "c \<in> set cs" "qa_resets_at (?read [c]) = Some (fst r0)"
    using c0(4) by (auto simp: controlling_window_def dest: find_Some_in)
  then have b: "window_blocks dp now m rk c"
    by (simp add: single_window split: if_splits)
  then have "qa_state (?read [c]) \<noteq> Available" by (simp add: single_window)
  then show ?thesis
    using c b c0(4) cw single_window_state [OF b]
    by (intro bexI [of _ c])
      (auto simp: describes_def dated_block_def Let_def state_kind_def single_window)
qed

lemma refusal_block_shape:
  "refusal_window read cs = Some c \<Longrightarrow>
     c \<in> set cs \<and> qc_id c = REOPENING_UNKNOWN_COOLDOWN_ID \<and>
     REOPENING_UNKNOWN_COOLDOWN_ID \<in> set (qa_blocking_constraints (read cs))"
  by (auto simp: refusal_window_def dest: find_Some_in)

text \<open>C16: The live block of an account, \<open>profileQuotaBlock\<close>, is the verdict of the availability
  projection. There is none exactly when no snapshot of the account is unavailable. If an active
  usage refusal without a reopening time is among them, it decides whatever else blocks and in
  whatever order, and no reset is promised. Otherwise the id, the kind and the reset of the block
  all describe one and the same blocking window, the one that releases first in its snapshot.
\<close>

theorem block_is_the_projection:
  "let subject = block_subject harnessId profileId route;
       m = flat model; rk = nullish requestKind TextRequest;
       read = quotaSnapshotAvailability dp now m rk;
       unavailable = {s \<in> set snapshots. subject s \<and> qa_state (read (qn_constraints s)) \<noteq> Available}
   in case profileQuotaBlock dp snapshots harnessId profileId route model now requestKind of
        None \<Rightarrow> unavailable = {}
      | Some k \<Rightarrow>
          if \<exists>s \<in> unavailable. REOPENING_UNKNOWN_COOLDOWN_ID \<in> set (qa_blocking_constraints (read (qn_constraints s)))
          then qb_reopening_unknown k \<and> qb_resets_at k = None \<and> qb_kind k = BlockCooldown \<and>
               qb_constraint_id k = Some REOPENING_UNKNOWN_COOLDOWN_ID
          else \<not> qb_reopening_unknown k \<and>
               (\<exists>s \<in> unavailable. qb_resets_at k = qa_resets_at (read (qn_constraints s)) \<and>
                  (\<exists>c \<in> set (qn_constraints s). describes dp now m rk k c))"
proof -
  let ?subject = "block_subject harnessId profileId route"
  let ?read = "quotaSnapshotAvailability dp now (flat model) (nullish requestKind TextRequest)"
  let ?block = "profileQuotaBlock dp snapshots harnessId profileId route model now requestKind"
  have undated: "refuses_undated ?read s \<longleftrightarrow>
      blocks_now ?read s \<and> REOPENING_UNKNOWN_COOLDOWN_ID \<in> set (qa_blocking_constraints (?read (qn_constraints s)))"
    for s
    by (auto simp: refuses_undated_def refusal_window_def find_None_all availability_blocking) metis
  have eq: "?block = block_scan ?read ?subject None snapshots"
    by (simp add: profileQuotaBlock_def block_reader_def)
  show ?thesis
  proof (cases ?block)
    case None
    then have "\<forall>s \<in> set snapshots. ?subject s \<longrightarrow> \<not> blocks_now ?read s"
      using block_scan_None eq by metis
    then show ?thesis using None by (auto simp: Let_def blocks_now_def)
  next
    case (Some k)
    then have scan: "block_scan ?read ?subject None snapshots = Some k" using eq by simp
    note res = block_scan_result [OF scan]
    show ?thesis
    proof (cases "find (\<lambda>s. ?subject s \<and> refuses_undated ?read s) snapshots")
      case None
      then have nu: "\<forall>s \<in> set snapshots. ?subject s \<longrightarrow> \<not> refuses_undated ?read s"
        by (auto simp: find_None_all)
      obtain s where s: "find (\<lambda>s. ?subject s \<and> blocks_now ?read s) snapshots = Some s"
          "k = dated_block ?read (qn_constraints s)"
        using res None by auto
      then have sin: "s \<in> set snapshots" "?subject s" "blocks_now ?read s"
        by (auto dest: find_Some_in)
      obtain c where "c \<in> set (qn_constraints s)"
          "describes dp now (flat model) (nullish requestKind TextRequest) k c" "\<not> qb_reopening_unknown k"
        using dated_block_describes sin(3) s(2) unfolding blocks_now_def by blast
      moreover have "qb_resets_at k = qa_resets_at (?read (qn_constraints s))"
        using s(2) by (simp add: dated_block_def Let_def)
      ultimately show ?thesis
        using Some sin nu undated unfolding Let_def blocks_now_def by auto
    next
      case (Some s)
      then have sin: "s \<in> set snapshots" "?subject s" "refuses_undated ?read s"
        by (auto dest: find_Some_in)
      then obtain c where c: "refusal_window ?read (qn_constraints s) = Some c"
        by (auto simp: refuses_undated_def)
      have "k = refusal_block ?read c" using res Some c by simp
      then show ?thesis
        using \<open>?block = Some k\<close> sin undated refusal_block_shape [OF c]
        unfolding Let_def blocks_now_def by (auto simp: refusal_block_def)
    qed
  qed
qed

section \<open>Ranking\<close>

definition age_key :: "(string, int) jsmap \<Rightarrow> pool_candidate \<Rightarrow> rat" where
  "age_key marks c = (if orderOf marks c = 1 then mark_age marks c else 0)"

definition headroom_key :: "pool_candidate \<Rightarrow> rat" where
  "headroom_key c = (case pk_verdict c of FreshHeadroom h \<Rightarrow> - h | _ \<Rightarrow> 0)"

definition service_key :: "(string, int) jsmap \<Rightarrow> pool_candidate \<Rightarrow> rat" where
  "service_key served c = (if pk_verdict c = UnknownHeadroom then - service_of served c else 0)"

lemma comparator_id_order: "comparator (\<lambda>a b. id_order (f a) (f b))"
  by unfold_locales (auto simp: id_order_def sgn_if split: if_splits)

lemma comparePool_keys:
  "comparePool marks served =
     then_cmp (key_cmp (orderOf marks)) (then_cmp (key_cmp (age_key marks))
       (then_cmp (key_cmp (\<lambda>c. rankOf (pk_verdict c))) (then_cmp (key_cmp headroom_key)
         (then_cmp (key_cmp (service_key served)) (\<lambda>a b. id_order (pk_id a) (pk_id b))))))"
proof (intro ext)
  fix a b
  show "comparePool marks served a b =
     then_cmp (key_cmp (orderOf marks)) (then_cmp (key_cmp (age_key marks))
       (then_cmp (key_cmp (\<lambda>c. rankOf (pk_verdict c))) (then_cmp (key_cmp headroom_key)
         (then_cmp (key_cmp (service_key served)) (\<lambda>a b. id_order (pk_id a) (pk_id b)))))) a b"
    by (cases "pk_verdict a"; cases "pk_verdict b")
      (simp_all add: comparePool_def then_cmp_def key_cmp_def age_key_def headroom_key_def
        service_key_def Let_def)
qed

interpretation pool_order: comparator "comparePool marks served"
  unfolding comparePool_keys
  by (intro comparator_then comparator_key comparator_id_order)

lemma comparePool_tie: "comparePool marks served a b = 0 \<Longrightarrow> pk_id a = pk_id b"
  by (auto simp: comparePool_keys then_cmp_def id_order_def split: if_splits)

section \<open>Verdicts\<close>

lemma refusal_basis_None: "quotaRefusalBasis breach block = None \<longleftrightarrow> breach = None \<and> block = None"
  by (simp add: quotaRefusalBasis_def split: option.splits)

lemma exhausted_verdict_iff:
  "is_exhausted (pool_verdict_of dp now a p) \<longleftrightarrow> pool_breach dp now a p \<noteq> None \<or> pool_block dp now a p \<noteq> None"
  using refusal_basis_None [of "pool_breach dp now a p" "pool_block dp now a p"]
  by (auto simp: pool_verdict_of_def Let_def split: option.splits)

definition pool_row :: "pool_args \<Rightarrow> credential_profile \<Rightarrow> bool" where
  "pool_row a p \<longleftrightarrow>
     p \<in> set (pg_registry a) \<and> pf_harness_id p = pg_harnessId a \<and> pf_enabled p \<and>
     pf_credential_kind p \<noteq> ApiKeyCredential \<and> pf_profile_id p \<in> pg_ready a \<and>
     pf_profile_id p \<notin> pg_excluded a"

definition spendable :: "(string \<Rightarrow> int option) \<Rightarrow> int \<Rightarrow> pool_args \<Rightarrow> credential_profile \<Rightarrow> bool" where
  "spendable dp now a p \<longleftrightarrow> pool_breach dp now a p = None \<and> pool_block dp now a p = None"

definition candidate_of ::
  "(string \<Rightarrow> int option) \<Rightarrow> int \<Rightarrow> pool_args \<Rightarrow> credential_profile \<Rightarrow> pool_candidate" where
  "candidate_of dp now a p = \<lparr>pk_profile = p, pk_verdict = pool_verdict_of dp now a p\<rparr>"

lemma candidate_of_simps [simp]:
  "pk_profile (candidate_of dp now a p) = p"
  "is_exhausted (pk_verdict (candidate_of dp now a p)) \<longleftrightarrow> \<not> spendable dp now a p"
  by (auto simp: candidate_of_def exhausted_verdict_iff spendable_def)

lemma set_pool_candidates:
  "set (pool_candidates dp now a) = candidate_of dp now a ` {p. pool_row a p}"
  by (auto simp: pool_candidates_def accountPoolRows_def pool_row_def candidate_of_def)

lemma set_rankAccountPool:
  "set (rankAccountPool dp now a) = candidate_of dp now a ` {p. pool_row a p}"
  by (simp add: rankAccountPool_def Let_def set_pool_candidates)

definition pool_before ::
  "(string \<Rightarrow> int option) \<Rightarrow> int \<Rightarrow> pool_args \<Rightarrow> pool_candidate \<Rightarrow> pool_candidate \<Rightarrow> bool" where
  "pool_before dp now a c d \<longleftrightarrow>
     comparePool (pool_marks dp now a) (pool_served a (pool_candidates dp now a)) c d \<le> 0"

lemma sorted_rank: "sorted_wrt (pool_before dp now a) (rankAccountPool dp now a)"
  using pool_order.sorted_js_sort
  by (simp add: rankAccountPool_def Let_def pool_before_def [abs_def])

lemma find_sorted:
  assumes "sorted_wrt R xs" and "find P xs = Some x" and "\<And>y. R y y"
  shows "\<forall>y \<in> set xs. P y \<longrightarrow> R x y"
  using assms by (induction xs) (auto split: if_splits)

lemma selection_cases:
  "(\<exists>c. selectFromAccountPool dp now a = PoolSelected c \<and>
      find (\<lambda>c. \<not> is_exhausted (pk_verdict c)) (rankAccountPool dp now a) = Some c) \<or>
   (selectFromAccountPool dp now a = PoolEmpty \<and> rankAccountPool dp now a = []) \<or>
   (\<exists>r o' u. selectFromAccountPool dp now a = PoolSpent r o' u \<and> rankAccountPool dp now a \<noteq> [] \<and>
      (\<forall>c \<in> set (rankAccountPool dp now a). is_exhausted (pk_verdict c)))"
  by (auto simp: selectFromAccountPool_def Let_def find_None_all split: option.splits)

lemma selected_row:
  assumes "selectFromAccountPool dp now a = PoolSelected c"
  shows "\<exists>p. c = candidate_of dp now a p \<and> pool_row a p \<and> spendable dp now a p \<and>
    (\<forall>q. pool_row a q \<and> spendable dp now a q \<longrightarrow> pool_before dp now a c (candidate_of dp now a q))"
proof -
  have f: "find (\<lambda>c. \<not> is_exhausted (pk_verdict c)) (rankAccountPool dp now a) = Some c"
    using assms selection_cases [of dp now a] by auto
  then have "c \<in> set (rankAccountPool dp now a)" and ne: "\<not> is_exhausted (pk_verdict c)"
    using find_Some_in [OF f] by simp_all
  then obtain p where p: "c = candidate_of dp now a p" "pool_row a p"
    by (auto simp: set_rankAccountPool)
  have "pool_before dp now a y y" for y by (simp add: pool_before_def)
  from find_sorted [OF sorted_rank f this]
  have "\<forall>y \<in> set (rankAccountPool dp now a). \<not> is_exhausted (pk_verdict y) \<longrightarrow> pool_before dp now a c y"
    by blast
  then show ?thesis using p ne by (auto simp: set_rankAccountPool)
qed

text \<open>C12: The account of an unpinned run. The pool selects exactly when some enabled subscription row of
  the harness that is ready and not excluded is neither over the headroom bound nor blocked; it is
  empty exactly when no such row is ready at all, and otherwise it is spent. The selected account is
  always one of those spendable rows, never a metered one.
\<close>

theorem pool_selects_a_spendable_account:
  "case selectFromAccountPool dp now a of
     PoolSelected c \<Rightarrow> pool_row a (pk_profile c) \<and> spendable dp now a (pk_profile c)
   | PoolEmpty \<Rightarrow> {p. pool_row a p} = {}
   | PoolSpent resets_at reserveOnly reopeningUnknown \<Rightarrow>
       {p. pool_row a p} \<noteq> {} \<and> {p. pool_row a p \<and> spendable dp now a p} = {}"
proof (cases "selectFromAccountPool dp now a")
  case (PoolSelected c)
  then show ?thesis using selected_row [OF PoolSelected] by auto
next
  case PoolEmpty
  then have "set (rankAccountPool dp now a) = {}" using selection_cases [of dp now a] by auto
  then show ?thesis using PoolEmpty by (simp add: set_rankAccountPool)
next
  case (PoolSpent r o' u)
  then have "rankAccountPool dp now a \<noteq> []"
      "\<forall>c \<in> set (rankAccountPool dp now a). is_exhausted (pk_verdict c)"
    using selection_cases [of dp now a] by auto
  then have "set (rankAccountPool dp now a) \<noteq> {}"
      "\<forall>c \<in> set (rankAccountPool dp now a). is_exhausted (pk_verdict c)" by simp_all
  then show ?thesis using PoolSpent by (auto simp: set_rankAccountPool)
qed

section \<open>Preference\<close>

definition marked :: "(string \<Rightarrow> int option) \<Rightarrow> int \<Rightarrow> pool_args \<Rightarrow> credential_profile \<Rightarrow> int option" where
  "marked dp now a p = jget (pool_marks dp now a) (pf_profile_id p)"

definition last_served :: "(string \<Rightarrow> int option) \<Rightarrow> int \<Rightarrow> pool_args \<Rightarrow> credential_profile \<Rightarrow> int" where
  "last_served dp now a p =
     nullish (jget (pool_served a (pool_candidates dp now a)) (pf_profile_id p)) 0"

text \<open>The promise of the ranking, said of two spendable accounts.\<close>

definition preferred ::
  "(string \<Rightarrow> int option) \<Rightarrow> int \<Rightarrow> pool_args \<Rightarrow> credential_profile \<Rightarrow> credential_profile \<Rightarrow> bool" where
  "preferred dp now a p q =
     (case (marked dp now a p, marked dp now a q) of
        (None, Some _) \<Rightarrow> True
      | (Some _, None) \<Rightarrow> False
      | (Some s, Some t) \<Rightarrow> s \<le> t
      | (None, None) \<Rightarrow>
          (case (pool_verdict_of dp now a p, pool_verdict_of dp now a q) of
             (FreshHeadroom h, FreshHeadroom k) \<Rightarrow> k \<le> h
           | (FreshHeadroom h, _) \<Rightarrow> True
           | (_, FreshHeadroom k) \<Rightarrow> False
           | _ \<Rightarrow> last_served dp now a q \<le> last_served dp now a p))"

lemma before_preferred:
  assumes "spendable dp now a p" and "spendable dp now a q"
    and "pool_before dp now a (candidate_of dp now a p) (candidate_of dp now a q)"
  shows "preferred dp now a p q"
proof -
  have np: "\<not> is_exhausted (pool_verdict_of dp now a p)" "\<not> is_exhausted (pool_verdict_of dp now a q)"
    using assms(1,2) by (auto simp: exhausted_verdict_iff spendable_def)
  have "pk_verdict (candidate_of dp now a r) = pool_verdict_of dp now a r" for r
    by (simp add: candidate_of_def)
  note v = this
  show ?thesis
    using assms(3) np
    unfolding pool_before_def preferred_def comparePool_def Let_def orderOf_def mark_age_def service_of_def
      v candidate_of_simps marked_def last_served_def
    by (cases "jget (pool_marks dp now a) (pf_profile_id p)";
        cases "jget (pool_marks dp now a) (pf_profile_id q)";
        cases "pool_verdict_of dp now a p"; cases "pool_verdict_of dp now a q")
      (auto split: if_splits)
qed

text \<open>C13: Which account the pool prefers. The selected account is marked (it recently refused or
  substituted the requested model) only if every spendable account is, and then its newest mark is
  the oldest. Among unmarked accounts one with known fresh headroom comes before one without, the
  greatest headroom first; when no headroom is known, the account that served the model last.
\<close>

theorem selection_is_preferred:
  assumes "selectFromAccountPool dp now a = PoolSelected c"
    and "pool_row a q" and "spendable dp now a q"
  shows "preferred dp now a (pk_profile c) q"
proof -
  obtain p where p: "c = candidate_of dp now a p" "spendable dp now a p"
      "\<forall>q. pool_row a q \<and> spendable dp now a q \<longrightarrow> pool_before dp now a c (candidate_of dp now a q)"
    using selected_row [OF assms(1)] by blast
  then have "pool_before dp now a (candidate_of dp now a p) (candidate_of dp now a q)"
    using assms(2,3) by blast
  from before_preferred [OF p(2) assms(3) this] show ?thesis using p(1) by simp
qed

section \<open>The order of the registry\<close>

lemma comparePool_served:
  "(\<And>i. jget served i = jget served' i) \<Longrightarrow> comparePool marks served = comparePool marks served'"
  by (intro ext) (simp add: comparePool_def service_of_def)

text \<open>
  What the pool expects of the last-served facts: for profiles with different ids, which number an
  account gets does not depend on the order in which the profiles are listed.
\<close>

locale last_service =
  fixes orders :: "string \<Rightarrow> string option \<Rightarrow> credential_profile list \<Rightarrow> (string, int) jsmap"
  assumes order_free:
    "mset ps = mset qs \<Longrightarrow> inj_on pf_profile_id (set qs) \<Longrightarrow> jget (orders h m ps) i = jget (orders h m qs) i"

definition order_free :: "pool_args \<Rightarrow> bool" where
  "order_free a \<longleftrightarrow> (case pg_lastService a of None \<Rightarrow> True | Some orders \<Rightarrow> last_service orders)"


lemma mset_pool_candidates:
  assumes "mset r = mset (pg_registry a)"
  shows "mset (pool_candidates dp now (a\<lparr>pg_registry := r\<rparr>)) = mset (pool_candidates dp now a)"
proof -
  have "pool_verdict_of dp now (a\<lparr>pg_registry := r\<rparr>) = pool_verdict_of dp now a"
    by (intro ext) (simp add: pool_verdict_of_def pool_breach_def pool_block_def Let_def cong: option.case_cong)
  then show ?thesis using assms by (simp add: pool_candidates_def accountPoolRows_def)
qed

text \<open>C28: The ranking does not depend on the order in which accounts are registered, provided that the
  rows of the harness have distinct ids and the last-served facts are a matter of which accounts
  are asked about and not of their order.
\<close>

theorem ranking_ignores_registry_order:
  assumes perm: "mset r = mset (pg_registry a)"
    and ids: "\<And>p q. pool_row a p \<Longrightarrow> pool_row a q \<Longrightarrow> pf_profile_id p = pf_profile_id q \<Longrightarrow> p = q"
    and free: "order_free a"
  shows "rankAccountPool dp now (a\<lparr>pg_registry := r\<rparr>) = rankAccountPool dp now a"
proof -
  let ?b = "a\<lparr>pg_registry := r\<rparr>"
  let ?cs = "pool_candidates dp now a" and ?ds = "pool_candidates dp now ?b"
  let ?unknown = "filter (\<lambda>c. pk_verdict c = UnknownHeadroom)"
  have m: "mset ?ds = mset ?cs" by (rule mset_pool_candidates [OF perm])
  then have mu: "mset (map pk_profile (?unknown ?ds)) = mset (map pk_profile (?unknown ?cs))" by simp
  have len: "length (?unknown ?ds) = length (?unknown ?cs)" using mu by (metis length_map size_mset)
  have inj: "inj_on pf_profile_id (set (map pk_profile (?unknown ?cs)))"
    using ids by (auto simp: inj_on_def set_pool_candidates)
  have served: "jget (pool_served ?b ?ds) i = jget (pool_served a ?cs) i" for i
    using free last_service.order_free [OF _ mu inj] len
    by (auto simp: pool_served_def order_free_def Let_def split: option.splits)
  have marks: "pool_marks dp now ?b = pool_marks dp now a" by (simp add: pool_marks_def)
  have tie: "x = y" if "x \<in> set ?cs" "y \<in> set ?cs"
      "comparePool (pool_marks dp now a) (pool_served a ?cs) x y = 0" for x y
    using that ids comparePool_tie by (fastforce simp: set_pool_candidates)
  have "js_sort (comparePool (pool_marks dp now a) (pool_served a ?cs)) ?ds =
      js_sort (comparePool (pool_marks dp now a) (pool_served a ?cs)) ?cs"
    by (rule pool_order.js_sort_permutation [symmetric, OF tie m [symmetric]])
  then show ?thesis
    using comparePool_served [of "pool_served ?b ?ds" "pool_served a ?cs", OF served]
    by (simp add: rankAccountPool_def Let_def marks)
qed

section \<open>A spent pool\<close>

lemma spent_foldl_both:
  "\<forall>c \<in> set cs. is_exhausted (pk_verdict c) \<Longrightarrow>
     (sx_reserveOnly (foldl spent_step f cs) \<longleftrightarrow>
        sx_reserveOnly f \<and> (\<forall>c \<in> set cs. \<exists>r u. pk_verdict c = ExhaustedAccount r OwnerReserve u)) \<and>
     (sx_reopeningUnknown (foldl spent_step f cs) \<longleftrightarrow>
        sx_reopeningUnknown f \<or> (\<exists>c \<in> set cs. \<exists>r b. pk_verdict c = ExhaustedAccount r b True))"
proof (induction cs arbitrary: f)
  case Nil
  show ?case by simp
next
  case (Cons c cs)
  then obtain r b u where v: "pk_verdict c = ExhaustedAccount r b u"
    by (cases "pk_verdict c") auto
  show ?case using Cons.IH [of "spent_step f c"] Cons.prems v by (auto simp: spent_step_def)
qed

lemmas spent_foldl = spent_foldl_both [THEN conjunct1] spent_foldl_both [THEN conjunct2]

lemma reserve_verdict_iff:
  "(\<exists>r u. pool_verdict_of dp now a p = ExhaustedAccount r OwnerReserve u) \<longleftrightarrow>
     pool_block dp now a p = None \<and> (\<exists>b. pool_breach dp now a p = Some b \<and> hb_used_ratio b < 1)"
  by (auto simp: pool_verdict_of_def quotaRefusalBasis_def Let_def not_le split: option.splits)

lemma unknown_verdict_iff:
  "(\<exists>r b. pool_verdict_of dp now a p = ExhaustedAccount r b True) \<longleftrightarrow>
     reopening_unknown (pool_block dp now a p)"
  by (auto simp: pool_verdict_of_def quotaRefusalBasis_def reopening_unknown_def Let_def split: option.splits)

lemma spent_result:
  assumes "selectFromAccountPool dp now a = PoolSpent r only unknown"
  shows "(only \<longleftrightarrow> (\<forall>p. pool_row a p \<longrightarrow>
            pool_block dp now a p = None \<and> (\<exists>b. pool_breach dp now a p = Some b \<and> hb_used_ratio b < 1))) \<and>
         (unknown \<longleftrightarrow> (\<exists>p. pool_row a p \<and> reopening_unknown (pool_block dp now a p))) \<and>
         (unknown \<longrightarrow> r = None)"
proof -
  let ?ranked = "rankAccountPool dp now a"
  let ?f = "foldl spent_step
    \<lparr>sx_resetsAt = None, sx_reserveOnly = True, sx_reopeningUnknown = False\<rparr> ?ranked"
  have ex: "\<forall>c \<in> set ?ranked. is_exhausted (pk_verdict c)"
    using assms selection_cases [of dp now a] by auto
  have sel: "only = sx_reserveOnly ?f" "unknown = sx_reopeningUnknown ?f" "unknown \<longrightarrow> r = None"
    using assms by (auto simp: selectFromAccountPool_def Let_def split: option.splits if_splits)
  have v: "pk_verdict (candidate_of dp now a p) = pool_verdict_of dp now a p" for p
    by (simp add: candidate_of_def)
  show ?thesis
    unfolding sel(1,2) spent_foldl [OF ex]
    using sel reserve_verdict_iff [of dp now a] unknown_verdict_iff [of dp now a]
    by (auto simp: set_rankAccountPool v spent_foldl [OF ex])
qed

text \<open>
  What a spent pool reports. It says that only the owner's reserve stopped it exactly when no
  account is blocked by its provider and each one is over the bound below full usage; it says that
  the reopening is unknown exactly when some account has an undated refusal, and then it names no
  reset.
\<close>

theorem spent_pool_reports_its_cause:
  assumes "selectFromAccountPool dp now a = PoolSpent r only unknown"
  shows "(only \<longleftrightarrow> (\<forall>p. pool_row a p \<longrightarrow>
            pool_block dp now a p = None \<and> (\<exists>b. pool_breach dp now a p = Some b \<and> hb_used_ratio b < 1))) \<and>
         (unknown \<longleftrightarrow> (\<exists>p. pool_row a p \<and> reopening_unknown (pool_block dp now a p))) \<and>
         (unknown \<longrightarrow> r = None)"
  by (rule spent_result [OF assms])

section \<open>Concrete pools\<close>

definition ex_profile :: "string \<Rightarrow> credential_profile" where
  "ex_profile i =
     \<lparr>pf_profile_id = i, pf_harness_id = ''codex'', pf_display_name = i,
      pf_credential_kind = ConfigDirLogin, pf_isolation_locator = Some ''/c'', pf_secret_ref = None,
      pf_enabled = True, pf_created_at = None\<rparr>"

definition ex_snapshot :: "string \<Rightarrow> rat \<Rightarrow> quota_snapshot" where
  "ex_snapshot i u =
     \<lparr>qn_subject = \<lparr>qs_harness = ''codex'', qs_credential_route = VendorNative, qs_plan_label = None,
                    qs_subject_id = Some i\<rparr>,
      qn_constraints =
        [\<lparr>qc_id = ''week'', qc_label = ''Week'', qc_applies_to_models = None,
          qc_applies_to_model_prefixes = None, qc_applies_to_unspecified_model = None,
          qc_applies_to_request_kinds = None, qc_used_ratio = Some u, qc_window_seconds = None,
          qc_resets_at = None, qc_cooldown_until = None\<rparr>],
      qn_source = CodexAppServer, qn_observed_at = ''now'', qn_freshness = FreshQ\<rparr>"

definition ex_pool :: "credential_profile list \<Rightarrow> rat \<Rightarrow> pool_args" where
  "ex_pool ps u =
     \<lparr>pg_registry = ps, pg_harnessId = ''codex'', pg_snapshots = [ex_snapshot ''a'' u],
      pg_ready = {''a'', ''b''}, pg_excluded = {}, pg_headroomThreshold = 9 / 10, pg_model = None,
      pg_requestKind = None, pg_substitutions = [], pg_refusals = [], pg_lastService = None\<rparr>"

lemmas ex_pool_defs =
  ex_profile_def ex_snapshot_def ex_pool_def pool_breach_def pool_block_def profileHeadroomBreach_def
  profileQuotaBlock_def subject_windows_def subject_is_def fresh_usage_def quotaWindowFreshness_def
  quotaConstraintAppliesToRequestKind_def quotaConstraintAppliesToModel_def block_reader_def
  block_subject_def limitSubjectRoute_def wanted_route_def quotaSnapshotAvailability_def
  availability_scan_def availability_window_def empty_avail_def window_exhausted_def futureMs_def
  spent_unknown_reset_def quota_freshness_ttl_ms_def Let_def

abbreviation ex_dp :: "string \<Rightarrow> int option" where
  "ex_dp \<equiv> (\<lambda>s. Some 0)"

lemma ex_verdicts:
  "pool_verdict_of ex_dp 0 (ex_pool ps (1 / 2)) (ex_profile ''a'') = FreshHeadroom (1 / 2)"
  "pool_verdict_of ex_dp 0 (ex_pool ps (1 / 2)) (ex_profile ''b'') = UnknownHeadroom"
  "pool_verdict_of ex_dp 0 (ex_pool ps (19 / 20)) (ex_profile ''a'') = ExhaustedAccount None OwnerReserve False"
  by (simp_all add: pool_verdict_of_def ex_pool_defs freshModelHeadroom_def quotaRefusalBasis_def
      quotaRefusalResetsAt_def reopening_unknown_def)

lemma ex_spendable:
  "spendable ex_dp 0 (ex_pool ps (1 / 2)) (ex_profile i)"
  by (simp add: spendable_def ex_pool_defs)

lemma ex_rank:
  "rankAccountPool ex_dp 0 (ex_pool [ex_profile ''a'', ex_profile ''b''] (1 / 2)) =
     [\<lparr>pk_profile = ex_profile ''a'', pk_verdict = FreshHeadroom (1 / 2)\<rparr>,
      \<lparr>pk_profile = ex_profile ''b'', pk_verdict = UnknownHeadroom\<rparr>]"
  "rankAccountPool ex_dp 0 (ex_pool [ex_profile ''a''] (19 / 20)) =
     [\<lparr>pk_profile = ex_profile ''a'', pk_verdict = ExhaustedAccount None OwnerReserve False\<rparr>]"
  using ex_verdicts
  by (simp_all add: rankAccountPool_def pool_candidates_def accountPoolRows_def ex_pool_def ex_profile_def
      pool_marks_def liveRefusalMarks_def pool_served_def comparePool_def orderOf_def Let_def)

lemma ex_selected:
  "selectFromAccountPool ex_dp 0 (ex_pool [ex_profile ''a'', ex_profile ''b''] (1 / 2)) =
     PoolSelected \<lparr>pk_profile = ex_profile ''a'', pk_verdict = FreshHeadroom (1 / 2)\<rparr>"
  "selectFromAccountPool ex_dp 0 (ex_pool [ex_profile ''a''] (19 / 20)) = PoolSpent None True False"
  by (simp_all add: selectFromAccountPool_def ex_rank spent_step_def)

theorem selection_is_preferred_witness:
  "preferred ex_dp 0 (ex_pool [ex_profile ''a'', ex_profile ''b''] (1 / 2)) (ex_profile ''a'') (ex_profile ''b'')"
proof -
  have "pool_row (ex_pool [ex_profile ''a'', ex_profile ''b''] (1 / 2)) (ex_profile ''b'')"
    by (simp add: pool_row_def ex_pool_def ex_profile_def)
  from selection_is_preferred [OF ex_selected(1) this ex_spendable] show ?thesis by simp
qed

theorem ranking_ignores_registry_order_witness:
  "rankAccountPool ex_dp 0 (ex_pool [ex_profile ''b'', ex_profile ''a''] (1 / 2)) =
     rankAccountPool ex_dp 0 (ex_pool [ex_profile ''a'', ex_profile ''b''] (1 / 2))"
proof -
  let ?a = "ex_pool [ex_profile ''a'', ex_profile ''b''] (1 / 2)"
  let ?r = "[ex_profile ''b'', ex_profile ''a'']"
  have perm: "mset ?r = mset (pg_registry ?a)" by (simp add: ex_pool_def)
  have ids: "p = q" if "pool_row ?a p" "pool_row ?a q" "pf_profile_id p = pf_profile_id q" for p q
    using that by (auto simp: pool_row_def ex_pool_def ex_profile_def)
  have free: "order_free ?a" by (simp add: order_free_def ex_pool_def)
  have "rankAccountPool ex_dp 0 (?a\<lparr>pg_registry := ?r\<rparr>) = rankAccountPool ex_dp 0 ?a"
    by (rule ranking_ignores_registry_order [OF perm ids free])
  then show ?thesis by (simp add: ex_pool_def)
qed

theorem spent_pool_reports_its_cause_witness:
  "pool_block ex_dp 0 (ex_pool [ex_profile ''a''] (19 / 20)) (ex_profile ''a'') = None"
proof -
  have "pool_row (ex_pool [ex_profile ''a''] (19 / 20)) (ex_profile ''a'')"
    by (simp add: pool_row_def ex_pool_def ex_profile_def)
  then show ?thesis using spent_pool_reports_its_cause [OF ex_selected(2)] by blast
qed

section \<open>Text order of resets\<close>

text \<open>
  The reset of a spent pool is the least text. Two instants written with different offsets are in
  text order but not in time order: the pool then reports the later one.
\<close>

lemma text_order_is_not_time_order:
  assumes "dp ''2026-01-01T10:00:00+09:00'' = Some 3600000" and "dp ''2026-01-01T05:00:00Z'' = Some 18000000"
    and "cs = [\<lparr>pk_profile = ex_profile ''a'',
                 pk_verdict = ExhaustedAccount (Some ''2026-01-01T10:00:00+09:00'') ProviderWindow False\<rparr>,
               \<lparr>pk_profile = ex_profile ''b'',
                 pk_verdict = ExhaustedAccount (Some ''2026-01-01T05:00:00Z'') ProviderWindow False\<rparr>]"
  shows "sx_resetsAt (foldl spent_step
      \<lparr>sx_resetsAt = None, sx_reserveOnly = True, sx_reopeningUnknown = False\<rparr> cs) =
      Some ''2026-01-01T05:00:00Z'' \<and>
    later dp ''2026-01-01T05:00:00Z'' ''2026-01-01T10:00:00+09:00''"
  using assms by (simp add: spent_step_def later_def)

end
