(* ===== verification/Rotation_Props.thy ===== *)
theory Rotation_Props
  imports Account_Props Refusal_Memory
begin

text \<open>
  What holds of the rotation between accounts: when it may happen and to which account, that it
  ends, what its refusals say, and what a try leaves in the memory of later runs.
\<close>

section \<open>The target\<close>

lemma in_map_filter: "p \<in> set (List.map_filter f xs) \<longleftrightarrow> (\<exists>x \<in> set xs. f x = Some p)"
  by (induction xs) (auto split: option.splits)

lemma map_filter_find_in:
  "p \<in> set (List.map_filter (\<lambda>i. find (P i) xs) is) \<Longrightarrow> p \<in> set xs"
  by (auto simp: in_map_filter dest: find_Some_in)

lemma rotation_order_in: "p \<in> set (rotation_order registry harnessId policy) \<Longrightarrow> p \<in> set (harness_pool registry harnessId)"
  by (auto simp: rotation_order_def Let_def dest: map_filter_find_in split: if_splits)

lemma harness_pool_iff:
  "p \<in> set (harness_pool registry harnessId) \<longleftrightarrow>
     p \<in> set registry \<and> pf_harness_id p = harnessId \<and> pf_enabled p"
  by (auto simp: harness_pool_def)

text \<open>The rows that a decision may move to, apart from the order of the policy.\<close>

definition eligible_target ::
  "(string \<Rightarrow> int option) \<Rightarrow> rotation_context \<Rightarrow> current_subject \<Rightarrow> string set \<Rightarrow> credential_profile \<Rightarrow> bool" where
  "eligible_target dp cx current excluded p \<longleftrightarrow>
     p \<in> set (rk_registry cx) \<and> pf_harness_id p = rk_harnessId cx \<and> pf_enabled p \<and>
     may_take_over current excluded p \<and> pf_profile_id p \<in> rk_ready cx \<and>
     rotation_breach dp (rk_snapshots cx) (rk_harnessId cx) (rk_policy cx) (rk_model cx) (rk_now cx)
       (Some (pf_profile_id p)) = None \<and>
     rotation_block dp (rk_snapshots cx) (rk_harnessId cx) (rk_model cx) (rk_now cx) p = None"

lemma next_of_eligible:
  "next_of dp cx current excluded = Some p \<Longrightarrow> eligible_target dp cx current excluded p"
  by (auto simp: next_of_def nextEligibleProfile_def staticRotationCandidates_def eligible_target_def
      harness_pool_iff dest!: find_Some_in rotation_order_in)

section \<open>Refusals\<close>

definition distinct_ids :: "credential_profile list \<Rightarrow> bool" where
  "distinct_ids ps \<longleftrightarrow> distinct (map pf_profile_id ps)"

lemma find_by_id:
  "distinct_ids ps \<Longrightarrow> p \<in> set ps \<Longrightarrow> find (\<lambda>q. pf_profile_id q = pf_profile_id p) ps = Some p"
  by (induction ps) (auto simp: distinct_ids_def)

lemma rotation_order_covers:
  assumes "distinct_ids (harness_pool registry harnessId)" and "p \<in> set (harness_pool registry harnessId)"
    and "po_rotation_eligible policy = [] \<or> pf_profile_id p \<in> set (po_rotation_eligible policy)"
  shows "p \<in> set (rotation_order registry harnessId policy)"
proof (cases "po_rotation_eligible policy = []")
  case True
  then show ?thesis using assms(2) by (simp add: rotation_order_def)
next
  case False
  then have "pf_profile_id p \<in> set (po_rotation_eligible policy)" using assms(3) by blast
  moreover have "find (\<lambda>q. pf_profile_id q = pf_profile_id p) (harness_pool registry harnessId) = Some p"
    by (rule find_by_id [OF assms(1,2)])
  ultimately show ?thesis using False by (force simp: rotation_order_def Let_def in_map_filter)
qed

lemma rejection_cases:
  "rejection_of cx current excluded p breach block dead = RejNotSelected \<longleftrightarrow>
     (po_rotation_eligible (rk_policy cx) = [] \<or>
      pf_profile_id p \<in> set (po_rotation_eligible (rk_policy cx))) \<and>
     may_take_over current excluded p \<and> dead = None \<and> pf_profile_id p \<in> rk_ready cx \<and>
     breach = None \<and> block = None"
  by (cases current) (auto simp: rejection_of_def may_take_over_def split: if_splits)

lemma rejection_evidence:
  "rejection_of cx current excluded p breach block dead = RejHeadroom \<Longrightarrow> breach \<noteq> None"
  "rejection_of cx current excluded p breach block dead = RejCooldown \<Longrightarrow> block \<noteq> None"
  "rejection_of cx current excluded p breach block dead = RejUnusable \<Longrightarrow> dead \<noteq> None"
  "rejection_of cx current excluded p breach block dead = RejAlreadyTried \<Longrightarrow> pf_profile_id p \<in> excluded"
  by (auto simp: rejection_of_def split: if_splits)

text \<open>
  A refused rotation is explained. When no account can take over, every enabled account of the
  harness has a row, no row claims that its account could have been selected, and each row that names
  a quota, cooldown or credential reason carries the evidence for it.
\<close>

theorem rotation_refusals_are_explained:
  assumes ids: "distinct_ids (harness_pool (rk_registry cx) (rk_harnessId cx))"
    and none: "next_of dp cx current excluded = None"
    and row: "w \<in> set (rotationExhaustionCandidates dp cx current excluded)"
  shows "xr_rejected (dw_row w) \<noteq> RejNotSelected \<and>
    (xr_rejected (dw_row w) = RejHeadroom \<longrightarrow> xr_headroom (dw_row w) \<noteq> None) \<and>
    (xr_rejected (dw_row w) = RejCooldown \<longrightarrow> xr_cooldown (dw_row w) \<noteq> None) \<and>
    (xr_rejected (dw_row w) = RejUnusable \<longrightarrow> xr_unusable (dw_row w) \<noteq> None) \<and>
    (xr_rejected (dw_row w) = RejAlreadyTried \<longrightarrow> xr_profile_id (dw_row w) \<in> excluded)"
proof -
  obtain p where p: "p \<in> set (harness_pool (rk_registry cx) (rk_harnessId cx))"
      "w = exhaustion_row_of dp cx current excluded p"
    using row by (auto simp: rotationExhaustionCandidates_def)
  have "xr_rejected (dw_row w) \<noteq> RejNotSelected"
  proof
    assume "xr_rejected (dw_row w) = RejNotSelected"
    then have c: "may_take_over current excluded p" "pf_profile_id p \<in> rk_ready cx"
        "rotation_breach dp (rk_snapshots cx) (rk_harnessId cx) (rk_policy cx) (rk_model cx) (rk_now cx)
           (Some (pf_profile_id p)) = None"
        "rotation_block dp (rk_snapshots cx) (rk_harnessId cx) (rk_model cx) (rk_now cx) p = None"
      and o: "po_rotation_eligible (rk_policy cx) = [] \<or>
        pf_profile_id p \<in> set (po_rotation_eligible (rk_policy cx))"
      by (auto simp: p(2) exhaustion_row_of_def Let_def rejection_cases)
    have "p \<in> set (rotation_order (rk_registry cx) (rk_harnessId cx) (rk_policy cx))"
      by (rule rotation_order_covers [OF ids p(1) o])
    then show False
      using none c by (auto simp: next_of_def nextEligibleProfile_def staticRotationCandidates_def find_None_all)
  qed
  then show ?thesis
    using rejection_evidence by (auto simp: p(2) exhaustion_row_of_def Let_def)
qed

section \<open>A chain of rotations\<close>

text \<open>
  The decisions of one attempt: each brings its own evidence, snapshots, readiness and policy; the
  registry and the harness are those of the attempt. \<open>None\<close>: some decision did not rotate.
\<close>

record decision =
  dn_context :: rotation_context
  dn_evidence :: rotation_evidence
  dn_limit :: "pinned_limit option"

fun rotations ::
  "(string \<Rightarrow> int option) \<Rightarrow> credential_profile list \<Rightarrow> string \<Rightarrow> bool \<Rightarrow> decision list \<Rightarrow>
   credential_profile option \<Rightarrow> string set \<Rightarrow> credential_profile list option" where
  "rotations dp registry harnessId native [] current tried = Some []"
| "rotations dp registry harnessId native (d # ds) current tried =
     (case planReactiveRotation dp
             ((dn_context d)\<lparr>rk_registry := registry, rk_harnessId := harnessId\<rparr>) current native tried
             (dn_evidence d) (dn_limit d) of
        (None, _, _) \<Rightarrow> None
      | (Some p, tried', _) \<Rightarrow>
          map_option ((#) p) (rotations dp registry harnessId native ds (Some p) tried'))"

lemma plan_target:
  assumes "planReactiveRotation dp cx current native tried ev lim' = (Some p, tried', evs)"
  shows "tried' = tried \<union> (case current of None \<Rightarrow> {} | Some q \<Rightarrow> {pf_profile_id q}) \<and>
    eligible_target dp cx (subject_of current) tried' p \<and> rotationRetryEligible ev"
  using assms next_of_eligible
  by (auto simp: planReactiveRotation_def Let_def split: if_splits option.splits)

definition payment_kind :: "credential_profile option \<Rightarrow> credential_kind \<Rightarrow> bool" where
  "payment_kind current k \<longleftrightarrow>
     (case current of None \<Rightarrow> k \<noteq> ApiKeyCredential | Some q \<Rightarrow> k = pf_credential_kind q)"

lemma rotations_distinct:
  "rotations dp registry harnessId native ds current tried = Some ps \<Longrightarrow>
     length ps = length ds \<and> distinct (map pf_profile_id ps) \<and>
     set (map pf_profile_id ps) \<inter>
       (tried \<union> (case current of None \<Rightarrow> {} | Some q \<Rightarrow> {pf_profile_id q})) = {} \<and>
     set ps \<subseteq> set (harness_pool registry harnessId) \<and>
     (\<forall>p \<in> set ps. (pf_credential_kind p = ApiKeyCredential) =
        (\<exists>q. current = Some q \<and> pf_credential_kind q = ApiKeyCredential))"
proof (induction ds arbitrary: current tried ps)
  case Nil
  then show ?case by simp
next
  case (Cons d ds)
  let ?cx = "(dn_context d)\<lparr>rk_registry := registry, rk_harnessId := harnessId\<rparr>"
  obtain q tried' evs where plan: "planReactiveRotation dp ?cx current native tried (dn_evidence d) (dn_limit d) = (q, tried', evs)"
    by (metis prod_cases3)
  then obtain p qs where q: "q = Some p" "ps = p # qs"
      "rotations dp registry harnessId native ds (Some p) tried' = Some qs"
    using Cons.prems by (cases q) auto
  have t: "tried' = tried \<union> (case current of None \<Rightarrow> {} | Some q \<Rightarrow> {pf_profile_id q})"
    and e: "eligible_target dp ?cx (subject_of current) tried' p"
    using plan_target [OF plan [unfolded q(1)]] by blast+
  note ih = Cons.IH [OF q(3)]
  have "p \<in> set (harness_pool registry harnessId)" "pf_profile_id p \<notin> tried'"
    using e by (auto simp: eligible_target_def harness_pool_iff may_take_over_def)
  moreover have "(pf_credential_kind p = ApiKeyCredential) =
      (\<exists>q. current = Some q \<and> pf_credential_kind q = ApiKeyCredential)"
    using e by (cases current) (auto simp: eligible_target_def may_take_over_def subject_of_def)
  ultimately show ?case using ih q(2) t by auto
qed

text \<open>C15: Rotation ends and keeps the means of payment. However the evidence, the readiness and the
  policy change between the decisions of one attempt, the accounts it moves to are distinct, differ
  from every account tried before, belong to the enabled accounts of the harness, and pay the way
  the first account did; so there are at most as many rotations as such accounts.
\<close>

theorem rotation_ends_and_keeps_payment:
  assumes "rotations dp registry harnessId native ds current tried = Some ps"
  shows "length ds \<le> length (harness_pool registry harnessId) \<and> distinct (map pf_profile_id ps) \<and>
    set (map pf_profile_id ps) \<inter> tried = {} \<and> set ps \<subseteq> set (harness_pool registry harnessId) \<and>
    {p \<in> set ps. (pf_credential_kind p = ApiKeyCredential) \<noteq>
       (map_option pf_credential_kind current = Some ApiKeyCredential)} = {}"
proof -
  note r = rotations_distinct [OF assms]
  have "card (set ps) \<le> card (set (harness_pool registry harnessId))"
    using r by (intro card_mono) auto
  moreover have "card (set ps) = length ps"
    using r by (metis distinct_card distinct_map)
  ultimately have "length ds \<le> length (harness_pool registry harnessId)"
    using r card_length [of "harness_pool registry harnessId"] by linarith
  then show ?thesis using r by auto
qed

section \<open>Concrete rotations\<close>

definition ex_context :: "credential_profile list \<Rightarrow> rotation_context" where
  "ex_context ps =
     \<lparr>rk_harnessId = ''codex'',
      rk_policy = \<lparr>po_limit_action = LimitAuto, po_rotation_eligible = [], po_headroom_threshold = 9 / 10\<rparr>,
      rk_registry = ps, rk_snapshots = [], rk_ready = {''a'', ''b''}, rk_unusable = [],
      rk_model = Some None, rk_now = 0\<rparr>"

definition ex_limit_evidence :: rotation_evidence where
  "ex_limit_evidence =
     \<lparr>rv_requestRefused = False, rv_sawTypedLimit = True, rv_deliverableEmpty = True,
      rv_mutationObserved = False, rv_terminalNonTransientDeath = True, rv_sawAgentProgress = False\<rparr>"

lemma ex_next:
  "next_of dp (ex_context [ex_profile ''a'', ex_profile ''b'']) (Some (''a'', ConfigDirLogin)) {''a''} =
     Some (ex_profile ''b'')"
  "next_of dp (ex_context [ex_profile ''a'']) (Some (''a'', ConfigDirLogin)) {''a''} = None"
  by (simp_all add: next_of_def nextEligibleProfile_def staticRotationCandidates_def rotation_order_def
      harness_pool_def ex_context_def ex_profile_def may_take_over_def rotation_breach_def
      rotation_block_def profileHeadroomBreach_def subject_windows_def profileQuotaBlock_def Let_def)

lemma ex_rotations:
  "rotations dp [ex_profile ''a'', ex_profile ''b''] ''codex'' False
     [\<lparr>dn_context = ex_context [], dn_evidence = ex_limit_evidence, dn_limit = None\<rparr>]
     (Some (ex_profile ''a'')) {} = Some [ex_profile ''b'']"
proof -
  have cx: "(ex_context [])\<lparr>rk_registry := ps, rk_harnessId := ''codex''\<rparr> = ex_context ps" for ps
    by (simp add: ex_context_def)
  have "planReactiveRotation dp (ex_context [ex_profile ''a'', ex_profile ''b'']) (Some (ex_profile ''a''))
      False {} ex_limit_evidence None =
    (Some (ex_profile ''b''), {''a''}, [Rotated (Some ''a'') ''b'' VendorLimitRejected None None])"
    using ex_next(1) [of dp]
    by (simp add: planReactiveRotation_def ex_limit_evidence_def rotationRetryEligible_def
        effectiveLimitAction_def decision_route_def limitSubjectRoute_def subject_of_def Let_def
        ex_profile_def) (simp add: ex_context_def)
  then show ?thesis by (simp add: cx)
qed

theorem rotation_refusals_are_explained_witness:
  "xr_rejected (dw_row (exhaustion_row_of (\<lambda>s. None) (ex_context [ex_profile ''a''])
     (Some (''a'', ConfigDirLogin)) {''a''} (ex_profile ''a''))) \<noteq> RejNotSelected"
proof -
  let ?cx = "ex_context [ex_profile ''a'']"
  have ids: "distinct_ids (harness_pool (rk_registry ?cx) (rk_harnessId ?cx))"
    by (simp add: distinct_ids_def harness_pool_def ex_context_def ex_profile_def)
  have row: "exhaustion_row_of (\<lambda>s. None) ?cx (Some (''a'', ConfigDirLogin)) {''a''} (ex_profile ''a'')
      \<in> set (rotationExhaustionCandidates (\<lambda>s. None) ?cx (Some (''a'', ConfigDirLogin)) {''a''})"
    unfolding rotationExhaustionCandidates_def
    by (rule ssubst [OF set_map], rule imageI) (simp add: harness_pool_def ex_context_def ex_profile_def)
  from rotation_refusals_are_explained [OF ids ex_next(2) row] show ?thesis by blast
qed

theorem rotation_ends_and_keeps_payment_witness:
  "length [ex_profile ''b''] \<le> length (harness_pool [ex_profile ''a'', ex_profile ''b''] ''codex'')"
  using rotation_ends_and_keeps_payment [OF ex_rotations [of "\<lambda>s. None"]] by simp

section \<open>The step of an attempt\<close>

lemma rotated_step:
  assumes "rotateSpecOnTypedLimit dp cx newSession dead t tried = (RotatedSpec spec, tried', evs, noted)"
  shows "\<exists>p. rn_credential_profile spec = Some p \<and> rn_session_id spec = newSession \<and>
      rn_resume_session_id spec = None \<and> rn_pinned_stamp spec = None \<and>
      eligible_target dp (cx\<lparr>rk_model := Some (rn_model_hint (rt_spec t))\<rparr>)
        (subject_of (rn_credential_profile (rt_spec t))) tried' p \<and>
      rotationRetryEligible (reactiveRotationEvidence (rt_facts t)) \<and> \<not> rt_pinned t"
  using assms plan_target
  by (auto simp: rotateSpecOnTypedLimit_def stampCredentialProfileSelection_def Let_def
      split: if_splits option.splits prod.splits)

text \<open>C14: When an attempt is rerun under another account. The run is not pinned and was not refused as a
  request; nothing was delivered, no file was changed; the vendor named a typed limit, or the try died
  for a reason that a retry does not cure before the agent made progress. The new account is enabled,
  ready, untried, under its headroom bound, unblocked and of the same means of payment, and the rerun
  starts a session of its own.
\<close>

theorem rotation_is_safe:
  assumes "rotateSpecOnTypedLimit dp cx newSession dead t tried = (RotatedSpec spec, tried', evs, noted)"
  shows "\<not> rt_pinned t \<and> \<not> ra_requestRefused (rt_facts t) \<and> ra_deliverableEmpty (rt_facts t) \<and>
    ra_workspaceDiffNonEmpty (rt_facts t) \<noteq> Some True \<and> om_fileChanges (ra_markers (rt_facts t)) = 0 \<and>
    (ra_sawTypedLimit (rt_facts t) \<or>
     ra_attemptErrored (rt_facts t) \<and> \<not> ra_sawRetryable (rt_facts t) \<and>
     \<not> om_sawAgentProgress (ra_markers (rt_facts t))) \<and>
    rn_session_id spec = newSession \<and> rn_resume_session_id spec = None \<and> rn_pinned_stamp spec = None \<and>
    (\<exists>p. rn_credential_profile spec = Some p \<and>
       eligible_target dp (cx\<lparr>rk_model := Some (rn_model_hint (rt_spec t))\<rparr>)
         (subject_of (rn_credential_profile (rt_spec t))) tried' p)"
  using rotated_step [OF assms]
  by (auto simp: rotationRetryEligible_def reactiveRotationEvidence_def nullish_def
      split: if_splits option.splits)

definition ex_try :: rotation_try where
  "ex_try =
     \<lparr>rt_spec = \<lparr>rn_session_id = ''s1'', rn_model_hint = None,
                 rn_credential_profile = Some (ex_profile ''a''), rn_resume_session_id = Some ''v'',
                 rn_pinned_stamp = None, rn_unpinned_stamp = Some ''a''\<rparr>,
      rt_facts = \<lparr>ra_requestRefused = False, ra_markers = newAttemptOutputMarkers,
                  ra_sawTypedLimit = True, ra_sawRetryable = False, ra_attemptErrored = True,
                  ra_deliverableEmpty = True, ra_workspaceDiffNonEmpty = None\<rparr>,
      rt_lastLimit = None, rt_defaultRouteWasVendorNative = False, rt_pinned = False\<rparr>"

lemma ex_plan:
  "planReactiveRotation dp (ex_context [ex_profile ''a'', ex_profile ''b'']) (Some (ex_profile ''a''))
      False {} ex_limit_evidence None =
    (Some (ex_profile ''b''), {''a''}, [Rotated (Some ''a'') ''b'' VendorLimitRejected None None])"
  using ex_next(1) [of dp]
  by (simp add: planReactiveRotation_def ex_limit_evidence_def rotationRetryEligible_def
      effectiveLimitAction_def decision_route_def limitSubjectRoute_def subject_of_def Let_def
      ex_profile_def) (simp add: ex_context_def)

lemma ex_rotated:
  "\<exists>spec evs noted.
     rotateSpecOnTypedLimit dp (ex_context [ex_profile ''a'', ex_profile ''b'']) ''s2'' None ex_try {} =
       (RotatedSpec spec, {''a''}, evs, noted)"
proof -
  have cx: "(ex_context ps)\<lparr>rk_model := Some None\<rparr> = ex_context ps" for ps
    by (simp add: ex_context_def)
  have ev: "reactiveRotationEvidence (rt_facts ex_try) = ex_limit_evidence"
    by (simp add: reactiveRotationEvidence_def ex_try_def ex_limit_evidence_def newAttemptOutputMarkers_def)
  have auto_policy: "po_limit_action (rk_policy (ex_context ps)) = LimitAuto" for ps
    by (simp add: ex_context_def)
  have el: "rotationRetryEligible ex_limit_evidence"
    by (simp add: rotationRetryEligible_def ex_limit_evidence_def)
  have route: "decision_route (Some (ex_profile ''a'')) False = Some LocalSession"
    by (simp add: decision_route_def limitSubjectRoute_def ex_profile_def)
  have fields: "rn_credential_profile (rt_spec ex_try) = Some (ex_profile ''a'')"
      "rn_model_hint (rt_spec ex_try) = None" "\<not> rt_pinned ex_try" "\<not> rt_defaultRouteWasVendorNative ex_try"
      "rt_lastLimit ex_try = None"
    by (simp_all add: ex_try_def)
  show ?thesis
    unfolding rotateSpecOnTypedLimit_def Let_def fields ev cx
    by (simp add: fields auto_policy el route effectiveLimitAction_def ex_plan)
qed

theorem rotation_is_safe_witness:
  "\<exists>spec evs noted.
     rotateSpecOnTypedLimit (\<lambda>s. None) (ex_context [ex_profile ''a'', ex_profile ''b'']) ''s2'' None ex_try {} =
       (RotatedSpec spec, {''a''}, evs, noted) \<and> rn_session_id spec = ''s2''"
proof -
  obtain spec evs noted where r:
    "rotateSpecOnTypedLimit (\<lambda>s. None) (ex_context [ex_profile ''a'', ex_profile ''b'']) ''s2'' None ex_try {} =
       (RotatedSpec spec, {''a''}, evs, noted)"
    using ex_rotated by blast
  from rotation_is_safe [OF r] r show ?thesis by blast
qed

section \<open>The reset of an exhausted pool\<close>

lemma those_Some: "those xs = Some ys \<longleftrightarrow> xs = map Some ys"
  by (induction xs arbitrary: ys) (auto split: option.splits)

lemma earlier_fold:
  assumes "dp s \<noteq> None" and "\<forall>t \<in> set ss. dp t \<noteq> None"
  shows "let r = fold (\<lambda>a e. earlier_of dp e a) ss s
         in r \<in> set (s # ss) \<and> (\<forall>t \<in> set (s # ss). \<not> later dp r t)"
  using assms
proof (induction ss arbitrary: s)
  case Nil
  then show ?case by (simp add: later_def split: option.splits)
next
  case (Cons a ss)
  have known: "dp (earlier_of dp s a) \<noteq> None" using Cons.prems by (simp add: earlier_of_def)
  have le: "\<not> later dp r s \<and> \<not> later dp r a" if "\<not> later dp r (earlier_of dp s a)" "dp r \<noteq> None" for r
    using that Cons.prems by (auto simp: earlier_of_def later_def split: option.splits if_splits)
  let ?r = "fold (\<lambda>a e. earlier_of dp e a) ss (earlier_of dp s a)"
  have ih: "?r \<in> set (earlier_of dp s a # ss) \<and> (\<forall>t \<in> set (earlier_of dp s a # ss). \<not> later dp ?r t)"
    using Cons.IH [OF known] Cons.prems by (simp add: Let_def)
  then have "dp ?r \<noteq> None" using known Cons.prems by auto
  then have "\<not> later dp ?r s \<and> \<not> later dp ?r a" using le ih by simp
  then show ?case using ih by (auto simp: Let_def earlier_of_def split: if_splits)
qed

lemma pool_limits_members:
  "l \<in> set (pool_limits rows profileId subjectLimit subjectUnusable) \<Longrightarrow>
     (\<exists>r \<in> set rows. fold_member r \<and> l = member_limit r) \<or>
     (subjectLimit = Some l \<and> subjectUnusable = None)"
  by (auto simp: pool_limits_def Let_def split: option.splits if_splits)

definition datable :: "(string \<Rightarrow> int option) \<Rightarrow> string option list \<Rightarrow> bool" where
  "datable dp limits \<longleftrightarrow> (\<forall>s. Some s \<in> set limits \<longrightarrow> dp s \<noteq> None)"

lemma pool_reset_cases:
  assumes "limits = pool_limits rows profileId subjectLimit subjectUnusable" and "datable dp limits"
  shows "case px_resetsAt (credentialPoolExhausted dp harnessId model rk profileId rows subjectLimit subjectUnusable) of
      Some r \<Rightarrow> None \<notin> set limits \<and> Some r \<in> set limits \<and>
        {s. Some s \<in> set limits \<and> later dp r s} = {} \<and>
        {w \<in> set rows. fold_member w \<and> reopening_unknown (xr_cooldown w)} = {} \<and>
        ((\<exists>w \<in> set rows. fold_member w \<and> xr_unusable w = None \<and> member_limit w = Some r) \<or>
         subjectLimit = Some (Some r) \<and> subjectUnusable = None)
    | None \<Rightarrow> limits = [] \<or> None \<in> set limits"
proof (cases "px_resetsAt (credentialPoolExhausted dp harnessId model rk profileId rows subjectLimit subjectUnusable)")
  case None
  then have "pool_reset dp limits = None" using assms(1) by (simp add: credentialPoolExhausted_def Let_def)
  moreover have "None \<in> set limits" if "those limits = None"
    using that by (induction limits) (auto split: option.splits)
  moreover have "limits = []" if "those limits = Some []" using that by (simp add: those_Some)
  ultimately have "limits = [] \<or> None \<in> set limits"
    by (auto simp: pool_reset_def split: option.splits list.splits)
  then show ?thesis using None by simp
next
  case (Some r)
  then have pr: "pool_reset dp limits = Some r"
    using assms(1) by (simp add: credentialPoolExhausted_def Let_def)
  then obtain s ss where l: "limits = map Some (s # ss)" "r = fold (\<lambda>a e. earlier_of dp e a) ss s"
    by (auto simp: pool_reset_def those_Some split: option.splits list.splits)
  have "dp s \<noteq> None" "\<forall>t \<in> set ss. dp t \<noteq> None" using assms(2) l(1) unfolding datable_def by auto
  from earlier_fold [OF this] have r: "r \<in> set (s # ss)" "\<forall>t \<in> set (s # ss). \<not> later dp r t"
    using l(2) by (simp_all add: Let_def)
  have nn: "None \<notin> set limits" using l(1) by auto
  have rin: "Some r \<in> set limits" using r(1) l(1) by auto
  have early: "{s. Some s \<in> set limits \<and> later dp r s} = {}" using r(2) l(1) by auto
  have undated: "{w \<in> set rows. fold_member w \<and> reopening_unknown (xr_cooldown w)} = {}"
  proof (rule ccontr)
    assume "\<not> ?thesis"
    then obtain w where "w \<in> set rows" "fold_member w" "reopening_unknown (xr_cooldown w)" by blast
    then have "None \<in> set limits"
      by (force simp: assms(1) pool_limits_def Let_def member_limit_def)
    then show False using nn by simp
  qed
  have origin: "(\<exists>w \<in> set rows. fold_member w \<and> xr_unusable w = None \<and> member_limit w = Some r) \<or>
      subjectLimit = Some (Some r) \<and> subjectUnusable = None"
    using pool_limits_members [OF rin [unfolded assms(1)]] by (auto simp: fold_member_def)
  from nn rin early undated origin Some show ?thesis by simp
qed

text \<open>C27: The reopening that an exhausted pool promises. A reset is named only when every limit that
  counts is known; it is then the earliest of them, and it belongs to an account that rotation could
  use and whose credential is not dead, or to the subject itself while its credential is not dead.
  One member refused without a date leaves the reset unknown.
\<close>

theorem pool_reset_is_honest:
  assumes "datable dp (pool_limits rows profileId subjectLimit subjectUnusable)"
  shows "let limits = pool_limits rows profileId subjectLimit subjectUnusable
    in case px_resetsAt (credentialPoolExhausted dp harnessId model rk profileId rows subjectLimit subjectUnusable) of
      Some r \<Rightarrow> None \<notin> set limits \<and> Some r \<in> set limits \<and>
        {s. Some s \<in> set limits \<and> later dp r s} = {} \<and>
        {w \<in> set rows. fold_member w \<and> reopening_unknown (xr_cooldown w)} = {} \<and>
        ((\<exists>w \<in> set rows. fold_member w \<and> xr_unusable w = None \<and> member_limit w = Some r) \<or>
         subjectLimit = Some (Some r) \<and> subjectUnusable = None)
    | None \<Rightarrow> limits = [] \<or> None \<in> set limits"
  using pool_reset_cases [OF refl assms] by (simp add: Let_def)

definition ex_row :: "string \<Rightarrow> string option \<Rightarrow> exhaustion_row" where
  "ex_row i reset =
     \<lparr>xr_profile_id = i, xr_rejected = RejCooldown, xr_headroom = None,
      xr_cooldown = Some \<lparr>qb_constraint_id = Some ''week'', qb_resets_at = reset,
        qb_reopening_unknown = False, qb_recheck_at = None, qb_kind = BlockExhausted\<rparr>,
      xr_unusable = None\<rparr>"

lemma ex_limits:
  "pool_limits [ex_row ''a'' (Some ''late''), ex_row ''b'' (Some ''soon!'')] (Some ''a'') None None =
     [Some ''late'', Some ''soon!'']"
  by (simp add: pool_limits_def fold_member_def POOL_MEMBER_REJECTIONS_def ex_row_def member_limit_def
      reopening_unknown_def breach_reset_def cooldown_reset_def)

theorem pool_reset_is_honest_witness:
  "None \<notin> set (pool_limits [ex_row ''a'' (Some ''late''), ex_row ''b'' (Some ''soon!'')] (Some ''a'') None None)"
proof -
  let ?dp = "\<lambda>s. Some (- int (length s))"
  let ?rows = "[ex_row ''a'' (Some ''late''), ex_row ''b'' (Some ''soon!'')]"
  have "datable ?dp (pool_limits ?rows (Some ''a'') None None)" by (simp add: datable_def)
  moreover have "px_resetsAt (credentialPoolExhausted ?dp h m k (Some ''a'') ?rows None None) = Some ''soon!''"
    for h m k
    by (simp add: credentialPoolExhausted_def Let_def ex_limits pool_reset_def earlier_of_def later_def)
  ultimately show ?thesis
    using pool_reset_is_honest [of ?dp ?rows "Some ''a''" None None] by (simp add: Let_def)
qed

section \<open>The answer of an attempt\<close>

text \<open>A message that is accepted as the final answer.\<close>

definition accepts_final :: "attempt_event \<Rightarrow> bool" where
  "accepts_final e \<longleftrightarrow>
     he_type e = EvMessage \<and> \<not> he_auth_switched e \<and> \<not> at_delta e \<and> \<not> at_buffered e \<and> at_final e \<and>
     (trim (nullish (at_text e) []) \<noteq> [] \<or> at_envelope e \<noteq> None)"

lemma answer_observe_final:
  "an_finalText (answer_observe a e) =
     (if accepts_final e then Some (nullish (at_text e) []) else an_finalText a)"
  "an_machineFinalText (answer_observe a e) =
     (if accepts_final e then at_envelope e else an_machineFinalText a)"
  by (auto simp: answer_observe_def accepts_final_def Let_def split: option.splits)

lemma answer_fold_final:
  "an_finalText (foldl answer_observe a es) =
     (case filter accepts_final es of
        [] \<Rightarrow> an_finalText a | fs \<Rightarrow> Some (nullish (at_text (last fs)) [])) \<and>
   an_machineFinalText (foldl answer_observe a es) =
     (case filter accepts_final es of [] \<Rightarrow> an_machineFinalText a | fs \<Rightarrow> at_envelope (last fs))"
  by (induction es arbitrary: a)
    (auto simp: answer_observe_final split: list.splits)

text \<open>
  What counts as the answer of an attempt. If the stream accepted a final message, the answer is
  the last such message verbatim (for the machine its raw envelope, when it carries one), whatever was
  said before, after or in fragments, and whether or not the attempt then failed. If it accepted none,
  a failed attempt has no answer at all.
\<close>

theorem answer_is_the_last_final:
  "let a = foldl answer_observe newAnswerAssembly es
   in case filter accepts_final es of
        [] \<Rightarrow> \<not> hasFinal a \<and> acceptedTryOutput a True = []
      | f # fs \<Rightarrow>
          answer_text a = nullish (at_text (last (f # fs))) [] \<and>
          machineText a = nullish (at_envelope (last (f # fs))) (answer_text a) \<and>
          acceptedTryOutput a errored = machineText a"
  using answer_fold_final [of newAnswerAssembly es]
  by (auto simp: Let_def hasFinal_def acceptedTryOutput_def answer_text_def machineText_def
      newAnswerAssembly_def split: list.splits)

section \<open>What a try leaves behind\<close>

text \<open>
  The two readings of the calls of a try that the property needs, in terms of what the events carry. A
  call disputes the account when its event names another profile, or a route other than the
  vendor's own. A call proves service when the credential is still the bound generation and the
  event shows agent progress, or the settled try made progress or delivered.
\<close>

fun disputes :: "string \<Rightarrow> subject_call \<Rightarrow> bool" where
  "disputes p (CallObserve e m) =
     ((case he_credential_profile_id e of None \<Rightarrow> False | Some q \<Rightarrow> q \<noteq> p) \<or>
      (case he_credential_route e of None \<Rightarrow> False | Some r \<Rightarrow> r \<noteq> VendorNative))"
| "disputes p CallNote = False"
| "disputes p (CallNoteServed m d) = False"

fun proves_service :: "nat option \<Rightarrow> nat option \<times> subject_call \<Rightarrow> bool" where
  "proves_service bound (g, CallObserve e m) = (g \<noteq> None \<and> g = bound \<and> om_sawAgentProgress m)"
| "proves_service bound (g, CallNote) = False"
| "proves_service bound (g, CallNoteServed m d) =
     (g \<noteq> None \<and> g = bound \<and> (om_sawAgentProgress m \<or> d))"

definition undisputed ::
  "string \<Rightarrow> (nat option \<times> subject_call) list \<Rightarrow> (nat option \<times> subject_call) list" where
  "undisputed p calls = takeWhile (\<lambda>gc. \<not> disputes p (snd gc)) calls"

lemma subject_perform_foreign:
  assumes "ru_foreign u" and "subject_perform u g c = (v, ws)"
  shows "service_writes ws = [] \<and> ru_foreign v"
  using assms
  by (cases c)
    (auto simp: subject_observe_def subject_serve_def subject_note_def subject_noteServed_def
      service_writes_def split: if_splits)

lemma subject_run_foreign:
  "ru_foreign u \<Longrightarrow> subject_run u cs = (v, ws) \<Longrightarrow> service_writes ws = []"
proof (induction cs arbitrary: u v ws)
  case Nil
  then show ?case by (simp add: service_writes_def)
next
  case (Cons gc cs)
  obtain g c where gc: "gc = (g, c)" by (cases gc)
  obtain u1 ws1 where c1: "subject_perform u g c = (u1, ws1)" by (cases "subject_perform u g c")
  obtain u2 ws2 where c2: "subject_run u1 cs = (u2, ws2)" by (cases "subject_run u1 cs")
  show ?case
    using subject_perform_foreign [OF Cons.prems(1) c1] Cons.IH [OF _ c2] Cons.prems(2) gc c1 c2
    by auto
qed

lemma subject_perform_disputed:
  assumes "disputes (ru_profileId u) c" and "subject_perform u g c = (v, ws)"
    and "\<not> ru_foreign u" and "ru_served u \<longrightarrow> ru_services u"
  shows "service_writes ws = (if ru_served u then [retract_of u] else []) \<and> ru_foreign v"
  using assms
  by (cases c)
    (auto simp: subject_observe_def names_another_def subject_write_def service_writes_def
      split: if_splits option.splits)

lemma subject_perform_undisputed:
  assumes "\<not> disputes (ru_profileId u) c" and "subject_perform u g c = (v, ws)"
    and "\<not> ru_foreign u" and "ru_served u \<longrightarrow> ru_services u"
  shows "same_binding u v \<and> \<not> ru_foreign v \<and>
    ru_served v = (ru_served u \<or> ru_services u \<and> proves_service (ru_generation u) (g, c)) \<and>
    service_writes ws =
      (if \<not> ru_served u \<and> ru_services u \<and> proves_service (ru_generation u) (g, c)
       then [serve_of u] else [])"
  using assms
  by (cases c)
    (auto simp: subject_observe_def names_another_def subject_serve_def subject_write_def
      subject_note_def subject_noteServed_def subject_unchanged_def service_writes_def
      same_binding_def split: if_splits option.splits)

text \<open>The service facts of a run of calls, from the calls alone.\<close>

lemma subject_run_service:
  "subject_run u cs = (v, ws) \<Longrightarrow> \<not> ru_foreign u \<Longrightarrow> ru_served u \<longrightarrow> ru_services u \<Longrightarrow>
   claimed = (\<not> ru_served u \<and> ru_services u \<and>
     list_ex (proves_service (ru_generation u)) (undisputed (ru_profileId u) cs)) \<Longrightarrow>
   service_writes ws =
     (if claimed then [serve_of u] else []) @
     (if (ru_served u \<or> claimed) \<and> list_ex (\<lambda>gc. disputes (ru_profileId u) (snd gc)) cs
      then [retract_of u] else [])"
proof (induction cs arbitrary: u v ws claimed)
  case Nil
  then show ?case by (simp add: service_writes_def undisputed_def)
next
  case (Cons gc cs)
  obtain g c where gc: "gc = (g, c)" by (cases gc)
  obtain u1 ws1 where c1: "subject_perform u g c = (u1, ws1)" by (cases "subject_perform u g c")
  obtain u2 ws2 where c2: "subject_run u1 cs = (u2, ws2)" by (cases "subject_run u1 cs")
  have ws: "ws = ws1 @ ws2" using Cons.prems(1) gc c1 c2 by simp
  show ?case
  proof (cases "disputes (ru_profileId u) c")
    case True
    from subject_perform_disputed [OF True c1 Cons.prems(2,3)] subject_run_foreign [OF _ c2]
    show ?thesis using Cons.prems(4) True gc ws by (simp add: undisputed_def)
  next
    case False
    from subject_perform_undisputed [OF False c1 Cons.prems(2,3)]
    have s: "same_binding u u1" "\<not> ru_foreign u1"
      "ru_served u1 = (ru_served u \<or> ru_services u \<and> proves_service (ru_generation u) (g, c))"
      "service_writes ws1 = (if \<not> ru_served u \<and> ru_services u \<and> proves_service (ru_generation u) (g, c)
         then [serve_of u] else [])"
      by simp_all
    have b: "ru_profileId u1 = ru_profileId u" "ru_model u1 = ru_model u"
      "ru_generation u1 = ru_generation u" "ru_services u1 = ru_services u"
      using s(1) by (simp_all add: same_binding_def)
    have served: "ru_served u1 \<longrightarrow> ru_services u1" using s(3) b Cons.prems(3) by blast
    note Cons.IH [OF c2 s(2) served refl]
    then show ?thesis using Cons.prems(4) False gc ws s b by (auto simp: undisputed_def)
  qed
qed

text \<open>C29: The service facts of one try, from the events it saw. The try claims that its account served the
  request exactly when a service store is bound and some call proves service, at the credential
  generation the try bound, before any event names another account or a metered route; the claim is
  made once. It is withdrawn, once and after the claim, exactly when a later event does name another
  account or a metered route, and after that nothing more is claimed. If the credential changed
  before the first call, or is being changed at every call, the try writes nothing at all.
\<close>

theorem try_claims_service_once:
  assumes "preProgressRefusalSubject memory harnessId spec generation services = Some u"
    and "rn_credential_profile spec = Some profile"
    and "subject_run u calls = (v, ws)"
    and claimed: "claimed \<longleftrightarrow> services \<and>
      (\<exists>gc \<in> set (undisputed (pf_profile_id profile) calls). proves_service generation gc)"
  shows "service_writes ws =
      (if claimed then [ServeFact (pf_profile_id profile) (rn_model_hint spec)] else []) @
      (if claimed \<and> (\<exists>(g, c) \<in> set calls. disputes (pf_profile_id profile) c)
       then [RetractFact (pf_profile_id profile) (rn_model_hint spec)] else []) \<and>
    (fst ` set calls \<inter> ({generation} - {None}) = {} \<longrightarrow> ws = [])"
proof -
  have u: "\<not> ru_served u" "\<not> ru_foreign u" "ru_generation u = generation" "ru_services u = services"
    "ru_profileId u = pf_profile_id profile" "ru_model u = rn_model_hint spec"
    using assms(1,2) by (auto simp: preProgressRefusalSubject_def split: option.splits if_splits)
  have w: "service_writes ws =
      (if claimed then [serve_of u] else []) @
      (if claimed \<and> list_ex (\<lambda>gc. disputes (ru_profileId u) (snd gc)) calls then [retract_of u] else [])"
    using subject_run_service [OF assms(3) u(2) _ refl] u claimed by (simp add: list_ex_iff)
  moreover have "ws = []" if "fst ` set calls \<inter> ({generation} - {None}) = {}"
  proof -
    have stale: "\<forall>(g, c) \<in> set calls. g = None \<or> g \<noteq> ru_generation u" using that u(3) by force
    have "\<not> proves_service generation gc" if "gc \<in> set calls" for gc
      using bspec [OF stale that] u(3) by (cases gc; cases "snd gc") auto
    then have "\<not> claimed"
      using claimed by (auto simp: undisputed_def dest: set_takeWhileD)
    with w have "service_writes ws = []" by simp
    moreover have "service_writes ws = ws"
      unfolding service_writes_def
      using subject_run_stale [OF stale assms(3)] by (intro filter_True) auto
    ultimately show "ws = []" by simp
  qed
  ultimately show ?thesis using u by (auto simp: list_ex_iff split_beta)
qed

definition ex_subject :: refusal_subject where
  "ex_subject =
     \<lparr>ru_harnessId = ''codex'', ru_profileId = ''a'', ru_model = None, ru_generation = Some 7,
      ru_services = True, ru_served = False, ru_foreign = False\<rparr>"

text \<open>A settled event under another account.\<close>

definition ex_foreign_event :: attempt_event where
  "ex_foreign_event =
     \<lparr>he_type = EvMessage, he_auth_switched = False, he_to_auth_mode = None, he_usage = None,
      he_quota = None, he_rate_limit = None, he_credential_route = Some VendorNative,
      he_credential_profile_id = Some ''b'', he_error = None, he_processing = None,
      he_processing_cost_basis = None, at_text = None, at_final = False, at_delta = False,
      at_buffered = False, at_envelope = None, at_compaction_completed = False,
      at_api_error_status = None\<rparr>"

theorem try_claims_service_once_witness:
  "service_writes [ClearMark ''codex'' ''a'' None, ServeFact ''a'' None, RetractFact ''a'' None] =
     [ServeFact ''a'' None, RetractFact ''a'' None]"
proof -
  let ?calls = "[(Some 7, CallNoteServed newAttemptOutputMarkers True),
    (Some 7, CallObserve ex_foreign_event newAttemptOutputMarkers)]"
  have fields: "rn_credential_profile (rt_spec ex_try) = Some (ex_profile ''a'')"
      "rn_model_hint (rt_spec ex_try) = None"
    by (simp_all add: ex_try_def)
  have bound: "preProgressRefusalSubject True ''codex'' (rt_spec ex_try) (Some 7) True = Some ex_subject"
    by (simp add: preProgressRefusalSubject_def ex_try_def ex_profile_def ex_subject_def)
  have run: "subject_run ex_subject ?calls =
      (ex_subject\<lparr>ru_served := True, ru_foreign := True\<rparr>,
       [ClearMark ''codex'' ''a'' None, ServeFact ''a'' None, RetractFact ''a'' None])"
    by (simp add: subject_noteServed_def subject_serve_def subject_unchanged_def subject_write_def
        subject_observe_def names_another_def ex_subject_def ex_foreign_event_def)
  have id: "pf_profile_id (ex_profile ''a'') = ''a''" by (simp add: ex_profile_def)
  have claimed: "True \<longleftrightarrow> True \<and>
      (\<exists>gc \<in> set (undisputed (pf_profile_id (ex_profile ''a'')) ?calls). proves_service (Some 7) gc)"
    by (simp add: undisputed_def)
  have disputed: "\<exists>(g, c) \<in> set ?calls. disputes ''a'' c" by (simp add: ex_foreign_event_def)
  from try_claims_service_once [OF bound fields(1) run claimed] show ?thesis
    using disputed by (simp add: fields id)
qed

section \<open>Before the first spawn\<close>

text \<open>
  The check of a default subject refuses a run before it is spawned only on evidence of the
  provider: the subject has a live block, rotation is the policy on its subscription route, and no
  account can take over. A saved reserve alone never refuses, and a subject without evidence is left
  alone without an event.
\<close>

theorem preflight_refuses_on_provider_evidence:
  "case preflightDefaultSubject dp cx route of
     (Inl e, evs) \<Rightarrow>
       route = Some LocalSession \<and>
       effectiveLimitAction (po_limit_action (rk_policy cx)) route = LimitRotate \<and>
       next_of dp cx None {} = None \<and>
       profileQuotaBlock dp (rk_snapshots cx) (rk_harnessId cx) None route (rk_model cx) (rk_now cx) None \<noteq> None
   | (Inr (Some p), evs) \<Rightarrow> route = Some LocalSession \<and> eligible_target dp cx None {} p \<and> length evs = 2
   | (Inr None, evs) \<Rightarrow>
       evs = [] \<or>
       next_of dp cx None {} = None \<and>
       profileQuotaBlock dp (rk_snapshots cx) (rk_harnessId cx) None route (rk_model cx) (rk_now cx) None = None"
  using next_of_eligible [of dp cx None "{}"]
  by (auto simp: preflightDefaultSubject_def Let_def split: option.splits)

end
