(* ===== verification/Evidence_Props.thy ===== *)
theory Evidence_Props
  imports Evidence_Ledgers Refusal_Memory Rotation_Props
begin

text \<open>
  What the daemon's memory about accounts guarantees: when a binding of a dispatch is still
  current, what a try bound before a credential change may still write, and the bounds of the
  ledgers of marks.
\<close>

section \<open>Runs of the credential generation\<close>

datatype generation_op =
  OpBind execution_subject string
| OpEveryChange
| OpSubjectChange string "string option" bool
| OpDefaultsChange
| OpRetire

fun generation_step :: "generation_state \<Rightarrow> generation_op \<Rightarrow> generation_state" where
  "generation_step s (OpBind subject startedAt) = snd (bind (\<lambda>_. False) s subject startedAt)"
| "generation_step s OpEveryChange = fst (gen_noteCredentialChange s)"
| "generation_step s (OpSubjectChange h p keeps) = fst (gen_clearSubject s h p keeps)"
| "generation_step s OpDefaultsChange = gen_clearDefaultSubjects s"
| "generation_step s OpRetire = retire s"

definition generation_run :: "generation_state \<Rightarrow> generation_op list \<Rightarrow> generation_state" where
  "generation_run s xs = foldl generation_step s xs"

lemma generation_run_simps [simp]:
  "generation_run s [] = s"
  "generation_run s (x # xs) = generation_run (generation_step s x) xs"
  "generation_run s (xs @ ys) = generation_run (generation_run s xs) ys"
  by (simp_all add: generation_run_def)

text \<open>The operations after which nothing bound to the account before is current.\<close>

fun touches :: "string \<Rightarrow> string option \<Rightarrow> generation_op \<Rightarrow> bool" where
  "touches h p (OpBind subject startedAt) \<longleftrightarrow> False"
| "touches h p OpEveryChange \<longleftrightarrow> True"
| "touches h p (OpSubjectChange h' p' keeps) \<longleftrightarrow> generation_key h' p' = generation_key h p"
| "touches h p OpDefaultsChange \<longleftrightarrow> p = None"
| "touches h p OpRetire \<longleftrightarrow> True"

text \<open>The number of the last change of an account, without the tests that make it no number.\<close>

definition last_change :: "generation_state \<Rightarrow> string \<Rightarrow> string option \<Rightarrow> nat" where
  "last_change s h p =
     max (gx_everyAccountChangedAt s)
       (max (if p = None then gx_defaultChangedAt s else 0)
            (nullish (jget (gx_accountChangedAt s) (generation_key h p)) 0))"

lemma generation_of_last_change:
  "generation_of mutating s h p = (if gx_retired s \<or> mutating h then None else Some (last_change s h p))"
  by (simp add: generation_of_def last_change_def)

definition generation_inv :: "generation_state \<Rightarrow> bool" where
  "generation_inv s \<longleftrightarrow>
     gx_everyAccountChangedAt s \<le> gx_changes s \<and> gx_defaultChangedAt s \<le> gx_changes s \<and>
     (\<forall>k v. jget (gx_accountChangedAt s) k = Some v \<longrightarrow> v \<le> gx_changes s)"

lemma generation_inv_new: "generation_inv newCredentialGeneration"
  by (simp add: generation_inv_def newCredentialGeneration_def)

lemma last_change_le: "generation_inv s \<Longrightarrow> last_change s h p \<le> gx_changes s"
  by (cases "jget (gx_accountChangedAt s) (generation_key h p)") (auto simp: generation_inv_def last_change_def)

lemmas generation_steps =
  bind_def retire_def gen_noteCredentialChange_def gen_clearSubject_def gen_clearDefaultSubjects_def

lemma generation_step_inv: "generation_inv s \<Longrightarrow> generation_inv (generation_step s x)"
  by (cases x) (auto simp: generation_steps generation_inv_def intro: le_SucI)

lemma generation_step_mono:
  "generation_inv s \<Longrightarrow> last_change s h p \<le> last_change (generation_step s x) h p"
proof (cases x)
  case OpEveryChange
  moreover assume "generation_inv s"
  from last_change_le [OF this] have "last_change s h p \<le> gx_changes s" .
  moreover have "gx_changes s < last_change (generation_step s OpEveryChange) h p"
    by (simp add: generation_steps last_change_def less_max_iff_disj)
  ultimately show ?thesis by simp
next
  case (OpSubjectChange h' p' keeps)
  moreover assume i: "generation_inv s"
  have "nullish (jget (gx_accountChangedAt s) (generation_key h p)) 0 \<le> gx_changes s"
    using i by (cases "jget (gx_accountChangedAt s) (generation_key h p)") (auto simp: generation_inv_def)
  ultimately show ?thesis by (auto simp: generation_steps last_change_def)
qed (auto simp: generation_steps last_change_def generation_inv_def)

lemma generation_step_untouched:
  "\<not> touches h p x \<Longrightarrow>
     last_change (generation_step s x) h p = last_change s h p \<and>
     gx_retired (generation_step s x) = gx_retired s"
  by (cases x) (auto simp: generation_steps last_change_def)

lemma generation_step_touched:
  "generation_inv s \<Longrightarrow> touches h p x \<Longrightarrow>
     last_change s h p < last_change (generation_step s x) h p \<or> gx_retired (generation_step s x)"
  using last_change_le [of s h p] by (cases x) (auto simp: generation_steps last_change_def)

lemma generation_step_retired: "gx_retired s \<Longrightarrow> gx_retired (generation_step s x)"
  by (cases x) (auto simp: generation_steps)

lemma generation_run_inv: "generation_inv s \<Longrightarrow> generation_inv (generation_run s xs)"
  by (induction xs arbitrary: s) (auto intro: generation_step_inv)

lemma generation_run_mono:
  "generation_inv s \<Longrightarrow> last_change s h p \<le> last_change (generation_run s xs) h p"
proof (induction xs arbitrary: s)
  case Nil
  show ?case by simp
next
  case (Cons x xs)
  have "last_change s h p \<le> last_change (generation_step s x) h p"
    by (rule generation_step_mono [OF Cons.prems])
  also have "\<dots> \<le> last_change (generation_run (generation_step s x) xs) h p"
    by (rule Cons.IH [OF generation_step_inv [OF Cons.prems]])
  finally show ?case by simp
qed

lemma generation_run_retired: "gx_retired s \<Longrightarrow> gx_retired (generation_run s xs)"
  by (induction xs arbitrary: s) (auto intro: generation_step_retired)

lemma generation_run_untouched:
  "filter (touches h p) xs = [] \<Longrightarrow>
     last_change (generation_run s xs) h p = last_change s h p \<and>
     gx_retired (generation_run s xs) = gx_retired s"
  by (induction xs arbitrary: s) (auto simp: generation_step_untouched split: if_splits)

lemma generation_run_touched:
  "generation_inv s \<Longrightarrow> filter (touches h p) xs \<noteq> [] \<Longrightarrow>
     last_change s h p < last_change (generation_run s xs) h p \<or> gx_retired (generation_run s xs)"
proof (induction xs arbitrary: s)
  case Nil
  then show ?case by simp
next
  case (Cons x xs)
  note i = generation_step_inv [OF Cons.prems(1), of x]
  show ?case
  proof (cases "touches h p x")
    case True
    from generation_step_touched [OF Cons.prems(1) this] show ?thesis
      using generation_run_mono [OF i, of h p xs] generation_run_retired [of "generation_step s x" xs]
      by fastforce
  next
    case False
    then have "filter (touches h p) xs \<noteq> []" using Cons.prems(2) by simp
    from Cons.IH [OF i this] show ?thesis using generation_step_untouched [OF False, of s] by simp
  qed
qed

text \<open>C31: In a daemon that has performed any operations, a binding taken for a subject and read back after any
  further operations is current exactly when the store was open and no login window of the harness
  was open at either moment, and none of the operations between was a login or logout, a change
  of this subject, a change of the default slots for a default subject, or the closing of the
  store.
\<close>

theorem binding_current_iff:
  "current window1
     (generation_run (snd (bind window0 (generation_run newCredentialGeneration before) subject t)) between)
     (fst (bind window0 (generation_run newCredentialGeneration before) subject t)) \<longleftrightarrow>
   \<not> window0 (es_harnessId subject) \<and> \<not> window1 (es_harnessId subject) \<and>
   \<not> gx_retired (generation_run newCredentialGeneration before) \<and>
   filter (touches (es_harnessId subject) (es_profileId subject)) between = []"
proof -
  let ?h = "es_harnessId subject" and ?p = "es_profileId subject"
  let ?s = "generation_run newCredentialGeneration before"
  let ?s1 = "snd (bind window0 ?s subject t)"
  have i: "generation_inv ?s1"
    using generation_run_inv [OF generation_inv_new, of before]
    by (simp add: bind_def generation_inv_def)
  have same: "last_change ?s1 ?h ?p = last_change ?s ?h ?p" "gx_retired ?s1 = gx_retired ?s"
    by (simp_all add: bind_def last_change_def)
  show ?thesis
  proof (cases "filter (touches ?h ?p) between = []")
    case True
    from generation_run_untouched [OF this, of ?s1] show ?thesis
      using True same
      by (auto simp: current_def generation_of_last_change bind_def [of window0] Let_def)
  next
    case False
    from generation_run_touched [OF i this] show ?thesis
      using False same
      by (auto simp: current_def generation_of_last_change bind_def [of window0] Let_def)
  qed
qed

section \<open>A try and the changes of its credential\<close>

text \<open>The calls of one try and the operations of the daemon, in the order they happen.\<close>

datatype script_event = Operation generation_op | TryCall "string \<Rightarrow> bool" subject_call

fun script_run ::
  "refusal_subject \<times> generation_state \<Rightarrow> script_event list \<Rightarrow>
   (refusal_subject \<times> generation_state) \<times> memory_write list" where
  "script_run (u, s) [] = ((u, s), [])"
| "script_run (u, s) (Operation x # es) = script_run (u, generation_step s x) es"
| "script_run (u, s) (TryCall window c # es) =
     (let (u1, ws1) =
            subject_perform u (generation_of window s (ru_harnessId u) (Some (ru_profileId u))) c;
          (r, ws2) = script_run (u1, s) es
      in (r, ws1 @ ws2))"

text \<open>What the try bound is not newer than the last change, and older once a change came after it.\<close>

definition bound_before :: "refusal_subject \<Rightarrow> generation_state \<Rightarrow> bool" where
  "bound_before u s \<longleftrightarrow>
     generation_inv s \<and>
     (\<forall>g. ru_generation u = Some g \<longrightarrow> g \<le> last_change s (ru_harnessId u) (Some (ru_profileId u)))"

definition outdated :: "refusal_subject \<Rightarrow> generation_state \<Rightarrow> bool" where
  "outdated u s \<longleftrightarrow>
     generation_inv s \<and>
     (gx_retired s \<or>
      (\<forall>g. ru_generation u = Some g \<longrightarrow> g < last_change s (ru_harnessId u) (Some (ru_profileId u))))"

lemma subject_perform_binding:
  "subject_perform u g c = (v, ws) \<Longrightarrow> same_binding u v"
  by (cases c)
    (auto simp: subject_observe_def subject_serve_def subject_note_def subject_noteServed_def
      same_binding_def split: if_splits)

lemma bound_before_binding: "same_binding u v \<Longrightarrow> bound_before v s = bound_before u s"
  and outdated_binding: "same_binding u v \<Longrightarrow> outdated v s = outdated u s"
  by (simp_all add: same_binding_def bound_before_def outdated_def)

lemma bound_before_step: "bound_before u s \<Longrightarrow> bound_before u (generation_step s x)"
  by (meson bound_before_def generation_step_inv generation_step_mono order_trans)

lemma outdated_step: "outdated u s \<Longrightarrow> outdated u (generation_step s x)"
  by (meson outdated_def generation_step_inv generation_step_mono generation_step_retired order_less_le_trans)

lemma bound_before_touched:
  "bound_before u s \<Longrightarrow> touches (ru_harnessId u) (Some (ru_profileId u)) x \<Longrightarrow>
     outdated u (generation_step s x)"
  by (meson bound_before_def outdated_def generation_step_inv generation_step_touched order_le_less_trans)

lemma script_run_binding:
  "script_run (u, s) es = ((v, s'), ws) \<Longrightarrow> bound_before u s \<Longrightarrow> same_binding u v \<and> bound_before v s'"
proof (induction "(u, s)" es arbitrary: u s ws rule: script_run.induct)
  case (1 u s)
  then show ?case by (simp add: same_binding_def)
next
  case (2 u s x es)
  then show ?case by (simp add: bound_before_step)
next
  case (3 u s window c es)
  obtain u1 ws1 where p: "subject_perform u (generation_of window s (ru_harnessId u) (Some (ru_profileId u))) c
      = (u1, ws1)" by fastforce
  obtain r ws2 where q: "script_run (u1, s) es = (r, ws2)" by fastforce
  note b = subject_perform_binding [OF p]
  have "r = (v, s')" using 3(2) p q by simp
  with 3(1) [OF p [symmetric] refl] q 3(3) bound_before_binding [OF b]
  have "same_binding u1 v \<and> bound_before v s'" by simp
  with b show ?case by (blast intro: same_binding_trans)
qed

lemma script_run_outdated:
  "script_run (u, s) es = (r, ws) \<Longrightarrow> outdated u s \<Longrightarrow> set ws \<subseteq> {retract_of u}"
proof (induction "(u, s)" es arbitrary: u s r ws rule: script_run.induct)
  case (1 u s)
  then show ?case by simp
next
  case (2 u s x es)
  then show ?case by (simp add: outdated_step)
next
  case (3 u s window c es)
  let ?g = "generation_of window s (ru_harnessId u) (Some (ru_profileId u))"
  obtain u1 ws1 where p: "subject_perform u ?g c = (u1, ws1)" by fastforce
  obtain r' ws2 where q: "script_run (u1, s) es = (r', ws2)" by fastforce
  note b = subject_perform_binding [OF p]
  have "?g = None \<or> ?g \<noteq> ru_generation u"
    using 3(3) by (cases "ru_generation u") (auto simp: generation_of_last_change outdated_def)
  from subject_perform_stale [OF this p] have "set ws1 \<subseteq> {retract_of u}" .
  moreover have "set ws2 \<subseteq> {retract_of u1}"
    using 3(1) [OF p [symmetric] refl q] outdated_binding [OF b] 3(3) by simp
  moreover have "retract_of u1 = retract_of u" using b by (simp add: same_binding_def)
  ultimately show ?case using 3(2) p q by auto
qed

text \<open>C32: A try of an account, bound in a running daemon, is followed by any calls of the try and any
  operations of the daemon; then the credential of the account changes, by a login or logout, by a
  change of the account, or by the closing of the store. Whatever calls of the try come after that,
  in any order with any further operations and login windows, they record no refusal mark, clear
  none and claim no service: at most the try retracts the service it had claimed itself.
\<close>

theorem late_outcome_is_not_recorded:
  assumes "rn_credential_profile spec = Some p"
    and "preProgressRefusalSubject memory harnessId spec
           (generation_of window (generation_run newCredentialGeneration before) harnessId
             (Some (pf_profile_id p))) services = Some u"
    and "touches harnessId (Some (pf_profile_id p)) change"
  shows "set (snd (script_run (fst (script_run (u, generation_run newCredentialGeneration before) early))
                     (Operation change # late)))
           \<subseteq> {RetractFact (pf_profile_id p) (rn_model_hint spec)}"
proof -
  let ?s = "generation_run newCredentialGeneration before"
  have u: "ru_harnessId u = harnessId" "ru_profileId u = pf_profile_id p" "ru_model u = rn_model_hint spec"
    "ru_generation u = generation_of window ?s harnessId (Some (pf_profile_id p))"
    using assms(1,2) by (auto simp: preProgressRefusalSubject_def split: if_splits)
  have "bound_before u ?s"
    using generation_run_inv [OF generation_inv_new, of before] u
    by (auto simp: bound_before_def generation_of_last_change split: if_splits)
  moreover obtain v s' ws where r: "script_run (u, ?s) early = ((v, s'), ws)"
    by (metis prod.exhaust)
  ultimately have b: "same_binding u v" "bound_before v s'" using script_run_binding by blast+
  from b(1) have "ru_harnessId v = harnessId" "ru_profileId v = pf_profile_id p"
    "ru_model v = rn_model_hint spec" using u by (simp_all add: same_binding_def)
  with bound_before_touched [OF b(2), of change] assms(3)
  have "outdated v (generation_step s' change)" by simp
  from script_run_outdated [OF _ this, of late] r \<open>ru_profileId v = _\<close> \<open>ru_model v = _\<close>
  show ?thesis by (metis fst_conv prod.collapse script_run.simps(2))
qed

theorem late_outcome_is_not_recorded_witness:
  "set (snd (script_run (fst (script_run
       (ex_subject\<lparr>ru_generation := Some 0\<rparr>, newCredentialGeneration) []))
       [Operation (OpSubjectChange ''codex'' (Some ''a'') True), TryCall (\<lambda>_. False) CallNote]))
     \<subseteq> {RetractFact ''a'' None}"
proof -
  have 1: "rn_credential_profile (rt_spec ex_try) = Some (ex_profile ''a'')"
    by (simp add: ex_try_def)
  have 2: "preProgressRefusalSubject True ''codex'' (rt_spec ex_try)
      (generation_of (\<lambda>_. False) (generation_run newCredentialGeneration []) ''codex''
         (Some (pf_profile_id (ex_profile ''a'')))) True = Some (ex_subject\<lparr>ru_generation := Some 0\<rparr>)"
    by (simp add: preProgressRefusalSubject_def ex_try_def ex_profile_def ex_subject_def
        generation_of_def newCredentialGeneration_def)
  have 3: "touches ''codex'' (Some (pf_profile_id (ex_profile ''a'')))
      (OpSubjectChange ''codex'' (Some ''a'') True)" by (simp add: ex_profile_def)
  from late_outcome_is_not_recorded [OF 1 2 3, of "[]" "[TryCall (\<lambda>_. False) CallNote]"]
  show ?thesis by (simp add: ex_profile_def ex_try_def)
qed


section \<open>Bounded rows\<close>

lemma length_jdelete_keyed: "keyed m \<Longrightarrow> k \<in> fst ` set m \<Longrightarrow> Suc (length (jdelete k m)) = length m"
  by (induction m) (auto simp: keyed_def AList.delete_eq filter_id_conv rev_image_eqI
      intro!: arg_cong [where f = length] filter_True)

lemma length_jset: "length (jset k v m) = (if k \<in> fst ` set m then length m else Suc (length m))"
  by (induction m) auto

lemma sooner_in: "sooner dp expiry a b \<in> {a, b}"
  by (simp add: sooner_def split: option.splits)

lemma foldl_sooner_in: "foldl (sooner dp expiry) r rs \<in> set (r # rs)"
proof (induction rs arbitrary: r)
  case Nil
  show ?case by simp
next
  case (Cons b rs)
  have "foldl (sooner dp expiry) (sooner dp expiry r b) rs \<in> set (sooner dp expiry r b # rs)"
    by (rule Cons.IH)
  moreover have "set (sooner dp expiry r b # rs) \<subseteq> set (r # b # rs)"
    using sooner_in [of dp expiry r b] by auto
  ultimately show ?case by auto
qed

lemma foldl_sooner_least:
  assumes dated: "\<And>x. x \<in> set (r # rs) \<Longrightarrow> \<exists>t. dp (expiry (snd x)) = Some t"
    and x: "x \<in> set (r # rs)"
  shows "the (dp (expiry (snd (foldl (sooner dp expiry) r rs)))) \<le> the (dp (expiry (snd x)))"
  using assms
proof (induction rs arbitrary: r x)
  case Nil
  then show ?case by simp
next
  case (Cons b rs)
  obtain tr tb where t: "dp (expiry (snd r)) = Some tr" "dp (expiry (snd b)) = Some tb"
    using Cons.prems(1) by (metis list.set_intros(1,2))
  let ?c = "sooner dp expiry r b"
  have c: "?c \<in> {r, b}" by (rule sooner_in)
  have sub: "set (?c # rs) \<subseteq> set (r # b # rs)" using c by auto
  have d: "\<exists>t. dp (expiry (snd y)) = Some t" if "y \<in> set (?c # rs)" for y
    using Cons.prems(1) subsetD [OF sub that] .
  have least: "the (dp (expiry (snd ?c))) \<le> tr" "the (dp (expiry (snd ?c))) \<le> tb"
    using t by (auto simp: sooner_def)
  have ih: "the (dp (expiry (snd (foldl (sooner dp expiry) ?c rs)))) \<le> the (dp (expiry (snd y)))"
    if "y \<in> set (?c # rs)" for y
    by (rule Cons.IH [OF _ that]) (rule d)
  show ?case
  proof (cases "x \<in> set rs")
    case True
    with ih [of x] show ?thesis by simp
  next
    case False
    then have "x = r \<or> x = b" using Cons.prems(2) by auto
    moreover have "the (dp (expiry (snd (foldl (sooner dp expiry) ?c rs)))) \<le> the (dp (expiry (snd ?c)))"
      using ih [of ?c] by simp
    ultimately show ?thesis using t least by auto
  qed
qed

lemma keyed_prune_rows: "keyed rows \<Longrightarrow> keyed (prune_rows dp expiry now rows)"
  by (simp add: keyed_def prune_rows_def distinct_map_filter)

lemma earliest_key_present:
  assumes "earliest_key dp expiry rows = Some e"
  shows "e \<in> fst ` set rows"
proof (cases rows)
  case Nil
  with assms show ?thesis by (simp add: earliest_key_def)
next
  case (Cons r rs)
  have "fst (foldl (sooner dp expiry) r rs) \<in> fst ` set (r # rs)" by (rule imageI [OF foldl_sooner_in])
  with Cons assms show ?thesis by (simp only: earliest_key_def list.case option.inject)
qed

lemma bounded_put_keyed: "keyed rows \<Longrightarrow> keyed (bounded_put dp expiry now k m rows)"
  by (simp add: bounded_put_def Let_def keyed_prune_rows split: option.splits)

lemma bounded_put_bound:
  assumes "keyed rows" and "length rows \<le> MAX_ROWS"
  shows "length (bounded_put dp expiry now k m rows) \<le> MAX_ROWS"
proof -
  let ?r = "prune_rows dp expiry now rows"
  have r: "keyed ?r" "length ?r \<le> MAX_ROWS"
    using keyed_prune_rows [OF assms(1)] order_trans [OF length_filter_le assms(2)]
    by (simp_all add: prune_rows_def)
  show ?thesis
  proof (cases "MAX_ROWS \<le> length ?r \<and> jget ?r k = None")
    case True
    then have "?r \<noteq> []" by (auto simp: MAX_ROWS_def)
    then obtain e where e: "earliest_key dp expiry ?r = Some e"
      by (cases ?r) (auto simp: earliest_key_def)
    have "Suc (length (jdelete e ?r)) = length ?r"
      by (rule length_jdelete_keyed [OF r(1) earliest_key_present [OF e]])
    with True e r(2) show ?thesis by (simp add: bounded_put_def Let_def length_jset)
  next
    case False
    then have eq: "bounded_put dp expiry now k m rows = jset k m ?r"
      by (auto simp: bounded_put_def Let_def)
    from False consider "length ?r < MAX_ROWS" | "k \<in> fst ` set ?r"
      by (auto simp: map_of_eq_None_iff)
    then show ?thesis using r(2) by cases (auto simp: eq length_jset)
  qed
qed

text \<open>What a put keeps: the new row, and every unexpired row except one that expires first.\<close>

lemma bounded_put_keeps:
  assumes "keyed rows" and dated: "\<And>r. r \<in> set rows \<Longrightarrow> \<exists>t. dp (expiry (snd r)) = Some t"
  shows "jget (bounded_put dp expiry now k m rows) k = Some m"
    and "jget (bounded_put dp expiry now k m rows) k' = Some m' \<Longrightarrow> k' \<noteq> k \<Longrightarrow> (k', m') \<in> set rows"
    and "(k', m') \<in> set rows \<Longrightarrow> \<not> expired dp now (expiry m') \<Longrightarrow> k' \<noteq> k \<Longrightarrow>
         jget (bounded_put dp expiry now k m rows) k' \<noteq> Some m' \<Longrightarrow>
         \<forall>r \<in> set rows. \<not> expired dp now (expiry (snd r)) \<longrightarrow>
           the (dp (expiry m')) \<le> the (dp (expiry (snd r)))"
proof -
  let ?r = "prune_rows dp expiry now rows"
  have kr: "keyed ?r" by (rule keyed_prune_rows [OF assms(1)])
  show "jget (bounded_put dp expiry now k m rows) k = Some m"
    by (simp add: bounded_put_def Let_def)
  show "jget (bounded_put dp expiry now k m rows) k' = Some m' \<Longrightarrow> k' \<noteq> k \<Longrightarrow> (k', m') \<in> set rows"
    by (auto simp: bounded_put_def Let_def prune_rows_def split: if_splits option.splits
        dest!: map_of_SomeD)
  assume a: "(k', m') \<in> set rows" "\<not> expired dp now (expiry m')" "k' \<noteq> k"
    "jget (bounded_put dp expiry now k m rows) k' \<noteq> Some m'"
  have "jget ?r k' = Some m'"
    using a(1,2) kr by (simp add: keyed_in_set_iff [symmetric] prune_rows_def)
  with a(3,4) have e: "earliest_key dp expiry ?r = Some k'"
    by (auto simp: bounded_put_def Let_def split: if_splits option.splits)
  then obtain r rs where rs: "?r = r # rs" and f: "k' = fst (foldl (sooner dp expiry) r rs)"
    by (auto simp: earliest_key_def split: list.splits)
  have "foldl (sooner dp expiry) r rs \<in> set ?r" using foldl_sooner_in rs by metis
  then have "foldl (sooner dp expiry) r rs = (k', m')"
    using \<open>jget ?r k' = Some m'\<close> f kr by (metis keyed_in_set_iff option.inject prod.collapse)
  moreover have "\<exists>t. dp (expiry (snd x)) = Some t" if "x \<in> set (r # rs)" for x
    using that dated by (auto simp: rs [symmetric] prune_rows_def)
  ultimately have "the (dp (expiry m')) \<le> the (dp (expiry (snd x)))" if "x \<in> set ?r" for x
    using foldl_sooner_least [of r rs dp expiry x] that rs by (metis snd_conv)
  then show "\<forall>r \<in> set rows. \<not> expired dp now (expiry (snd r)) \<longrightarrow>
      the (dp (expiry m')) \<le> the (dp (expiry (snd r)))"
    by (auto simp: prune_rows_def)
qed

text \<open>
  What a put leaves, exactly: while there is room, or when the key is there already, every unexpired
  row of another key and the new row; else the same without one row, which expires first.
\<close>

lemma set_jset_keyed: "keyed rows \<Longrightarrow> set (jset k m rows) = insert (k, m) {r \<in> set rows. fst r \<noteq> k}"
  by (induction rows) (force simp: keyed_def)+

lemma set_jdelete_keyed: "keyed rows \<Longrightarrow> set (jdelete e rows) = {r \<in> set rows. fst r \<noteq> e}"
  by (induction rows) (force simp: keyed_def)+

lemma bounded_put_exact:
  assumes "keyed rows" and dated: "\<And>r. r \<in> set rows \<Longrightarrow> \<exists>t. dp (expiry (snd r)) = Some t"
    and valid: "valid = prune_rows dp expiry now rows"
  shows "if length valid < MAX_ROWS \<or> k \<in> fst ` set valid
    then set (bounded_put dp expiry now k m rows) = insert (k, m) {r \<in> set valid. fst r \<noteq> k}
    else \<exists>v \<in> set valid. set (bounded_put dp expiry now k m rows) = insert (k, m) (set valid - {v}) \<and>
      (\<forall>r \<in> set valid. the (dp (expiry (snd v))) \<le> the (dp (expiry (snd r))))"
proof (cases "length valid < MAX_ROWS \<or> k \<in> fst ` set valid")
  case True
  have kv: "keyed valid" unfolding valid by (rule keyed_prune_rows [OF assms(1)])
  have "bounded_put dp expiry now k m rows = jset k m valid"
    using True by (auto simp: bounded_put_def Let_def valid map_of_eq_None_iff)
  with True kv show ?thesis by (simp add: set_jset_keyed)
next
  case False
  have kv: "keyed valid" unfolding valid by (rule keyed_prune_rows [OF assms(1)])
  from False obtain v vs where rs: "valid = v # vs" by (cases valid) (auto simp: MAX_ROWS_def)
  define w where "w = foldl (sooner dp expiry) v vs"
  have w: "w \<in> set valid" using foldl_sooner_in rs w_def by metis
  have put: "bounded_put dp expiry now k m rows = jset k m (jdelete (fst w) valid)"
    using False rs by (auto simp: bounded_put_def Let_def valid [symmetric] map_of_eq_None_iff
        earliest_key_def w_def)
  have "set (bounded_put dp expiry now k m rows) = insert (k, m) (set valid - {w})"
  proof -
    have inj: "inj_on fst (set valid)" using kv by (simp add: keyed_def distinct_map)
    have "{r \<in> set valid. fst r \<noteq> fst w} = set valid - {w}"
      using inj_onD [OF inj _ _ w] by auto
    moreover have "r \<in> set valid \<Longrightarrow> fst r \<noteq> k" for r using False by auto
    moreover have "keyed (jdelete (fst w) valid)" using kv by simp
    ultimately show ?thesis using kv by (auto simp: put set_jset_keyed set_jdelete_keyed)
  qed
  moreover have "the (dp (expiry (snd w))) \<le> the (dp (expiry (snd r)))" if "r \<in> set valid" for r
  proof -
    have "\<exists>t. dp (expiry (snd x)) = Some t" if "x \<in> set (v # vs)" for x
      using that dated by (auto simp: rs [symmetric] valid prune_rows_def)
    then show ?thesis
      using foldl_sooner_least [of v vs dp expiry r] that rs unfolding w_def by metis
  qed
  ultimately show ?thesis using False w by auto
qed

section \<open>The ledger of refusals\<close>

datatype refusal_op =
  RecordRefusal "string \<Rightarrow> bool" int string string "string option"
| ReadRefusals int
| ClearRefusal string string "string option"
| RefusalsEveryChange
| RefusalsSubjectChange string string bool

fun refusal_step ::
  "(string \<Rightarrow> int option) \<Rightarrow> (int \<Rightarrow> string) \<Rightarrow> refusal_ledger \<Rightarrow> refusal_op \<Rightarrow> refusal_ledger" where
  "refusal_step dp to_iso l (RecordRefusal window now h p model) =
     refusal_record dp to_iso window now l h p model"
| "refusal_step dp to_iso l (ReadRefusals now) = snd (refusal_live dp now l)"
| "refusal_step dp to_iso l (ClearRefusal h p model) = refusal_clear l h p model"
| "refusal_step dp to_iso l RefusalsEveryChange = fst (refusal_noteCredentialChange l)"
| "refusal_step dp to_iso l (RefusalsSubjectChange h p keeps) = fst (refusal_clearSubject l h p keeps)"

definition newRefusalLedger :: refusal_ledger where
  "newRefusalLedger = \<lparr>rl_rows = [], rl_credentials = newCredentialGeneration\<rparr>"

definition refusal_run ::
  "(string \<Rightarrow> int option) \<Rightarrow> (int \<Rightarrow> string) \<Rightarrow> refusal_op list \<Rightarrow> refusal_ledger" where
  "refusal_run dp to_iso xs = foldl (refusal_step dp to_iso) newRefusalLedger xs"

text \<open>The rows are few, have different keys, and each is the stamped mark of its key.\<close>

definition refusal_row_ok :: "(int \<Rightarrow> string) \<Rightarrow> string \<times> refusal_mark \<Rightarrow> bool" where
  "refusal_row_ok to_iso r \<longleftrightarrow>
     fst r = refusal_key (mk_harness_id (snd r)) (mk_profile_id (snd r)) (mk_requested_model (snd r)) \<and>
     (\<exists>t. mk_observed_at (snd r) = to_iso t \<and> mk_expires_at (snd r) = to_iso (t + REFUSAL_TTL_MS))"

definition refusal_inv :: "(int \<Rightarrow> string) \<Rightarrow> refusal_ledger \<Rightarrow> bool" where
  "refusal_inv to_iso l \<longleftrightarrow>
     keyed (rl_rows l) \<and> length (rl_rows l) \<le> MAX_ROWS \<and> (\<forall>r \<in> set (rl_rows l). refusal_row_ok to_iso r)"

lemma refusal_inv_subset:
  assumes "refusal_inv to_iso l" and "rl_rows l' = filter P (rl_rows l)"
  shows "refusal_inv to_iso l'"
  using assms order_trans [OF length_filter_le]
  by (auto simp: refusal_inv_def keyed_def distinct_map_filter)

lemma set_bounded_put: "set (bounded_put dp expiry now k m rows) \<subseteq> insert (k, m) (set rows)"
proof -
  have j: "set (jset k m xs) \<subseteq> insert (k, m) (set xs)" "set (jdelete e xs) \<subseteq> set xs"
    for e and xs :: "(string \<times> 'a) list"
    by (induction xs) auto
  let ?r = "prune_rows dp expiry now rows"
  define r where "r =
    (if MAX_ROWS \<le> length ?r \<and> jget ?r k = None
     then (case earliest_key dp expiry ?r of None \<Rightarrow> ?r | Some e \<Rightarrow> jdelete e ?r) else ?r)"
  have r: "bounded_put dp expiry now k m rows = jset k m r" "set r \<subseteq> set ?r"
    using j(2) by (auto simp: bounded_put_def Let_def r_def split: option.splits)
  have "set ?r \<subseteq> set rows" by (auto simp: prune_rows_def)
  then have "insert (k, m) (set r) \<subseteq> insert (k, m) (set rows)" using r(2) by auto
  with j(1) [of r] show ?thesis unfolding r(1) by (rule order_trans)
qed

lemma refusal_record_inv:
  assumes "refusal_inv to_iso l"
  shows "refusal_inv to_iso (refusal_record dp to_iso window now l h p model)"
proof (cases "window h")
  case True
  with assms show ?thesis by (simp add: refusal_record_def)
next
  case False
  let ?k = "refusal_key h p model"
  let ?m = "\<lparr>mk_harness_id = h, mk_profile_id = p, mk_requested_model = model,
             mk_observed_at = to_iso now, mk_expires_at = to_iso (now + REFUSAL_TTL_MS)\<rparr>"
  have "refusal_row_ok to_iso (?k, ?m)" by (auto simp: refusal_row_ok_def)
  then have "\<forall>r \<in> set (bounded_put dp mk_expires_at now ?k ?m (rl_rows l)). refusal_row_ok to_iso r"
    using set_bounded_put assms by (fastforce simp: refusal_inv_def)
  with False assms bounded_put_keyed bounded_put_bound show ?thesis
    by (auto simp: refusal_record_def refusal_inv_def)
qed

lemma refusal_step_inv: "refusal_inv to_iso l \<Longrightarrow> refusal_inv to_iso (refusal_step dp to_iso l x)"
proof (cases x)
  case (RecordRefusal window now h p model)
  then show "refusal_inv to_iso l \<Longrightarrow> ?thesis" by (simp add: refusal_record_inv)
next
  case (ReadRefusals now)
  then show "refusal_inv to_iso l \<Longrightarrow> ?thesis"
    by (auto simp: refusal_live_def Let_def prune_rows_def elim: refusal_inv_subset)
next
  case (ClearRefusal h p model)
  then show "refusal_inv to_iso l \<Longrightarrow> ?thesis"
    by (auto simp: refusal_clear_def AList.delete_eq elim: refusal_inv_subset)
next
  case RefusalsEveryChange
  then show "refusal_inv to_iso l \<Longrightarrow> ?thesis"
    by (auto simp: refusal_noteCredentialChange_def refusal_inv_def MAX_ROWS_def split: prod.split)
next
  case (RefusalsSubjectChange h p keeps)
  then show "refusal_inv to_iso l \<Longrightarrow> ?thesis"
    by (auto simp: refusal_clearSubject_def split: prod.split elim: refusal_inv_subset)
qed

lemma refusal_run_inv: "refusal_inv to_iso (refusal_run dp to_iso xs)"
proof -
  have "refusal_inv to_iso l \<Longrightarrow> refusal_inv to_iso (foldl (refusal_step dp to_iso) l xs)" for l
    by (induction xs arbitrary: l) (simp_all add: refusal_step_inv)
  moreover have "refusal_inv to_iso newRefusalLedger"
    by (simp add: newRefusalLedger_def refusal_inv_def)
  ultimately show ?thesis by (simp add: refusal_run_def)
qed

text \<open>C35: The ledger of refusals is bounded and forgets as little as its bound allows. After any
  operations it holds at most 64 rows with different keys. Recording a refusal outside a login
  window keeps that bound and puts the new mark under its key for exactly one hour. Beside it the
  ledger then holds exactly the unexpired rows of the other keys, as long as fewer than 64 rows were
  unexpired or one of them had the key; only when 64 unexpired rows of other keys fill the ledger is one
  of them lost, no more than one, and it is one that expires first. The hypothesis on dates is
  that \<open>Date.parse\<close> inverts \<open>toISOString\<close>.
\<close>

theorem refusal_ledger_is_bounded:
  assumes iso: "\<And>t. dp (to_iso t) = Some t" and closed: "\<not> window h"
    and old_def: "old = refusal_run dp to_iso xs"
    and new_def: "new = refusal_run dp to_iso (xs @ [RecordRefusal window now h p model])"
    and mark_def: "mark = \<lparr>mk_harness_id = h, mk_profile_id = p, mk_requested_model = model,
      mk_observed_at = to_iso now, mk_expires_at = to_iso (now + REFUSAL_TTL_MS)\<rparr>"
    and valid_def: "valid = {r \<in> set (rl_rows old). now < the (dp (mk_expires_at (snd r)))}"
  shows "length (rl_rows old) \<le> 64 \<and> length (rl_rows new) \<le> 64 \<and>
    keyed (rl_rows new) \<and>
    (mark \<in> set (fst (refusal_live dp now' new)) \<longleftrightarrow> now' < now + 60 * 60000) \<and>
    (if card valid < 64 \<or> refusal_key h p model \<in> fst ` valid
     then set (rl_rows new) =
       insert (refusal_key h p model, mark) {r \<in> valid. fst r \<noteq> refusal_key h p model}
     else \<exists>v \<in> valid.
       set (rl_rows new) = insert (refusal_key h p model, mark) (valid - {v}) \<and>
       (\<forall>r \<in> valid. the (dp (mk_expires_at (snd v))) \<le> the (dp (mk_expires_at (snd r)))))"
proof (intro conjI)
  let ?k = "refusal_key h p model"
  let ?v = "prune_rows dp mk_expires_at now (rl_rows old)"
  have inv: "refusal_inv to_iso old" "refusal_inv to_iso new"
    unfolding old_def new_def by (rule refusal_run_inv)+
  show "length (rl_rows old) \<le> 64" "length (rl_rows new) \<le> 64" "keyed (rl_rows new)"
    using inv by (simp_all add: refusal_inv_def MAX_ROWS_def)
  have new: "rl_rows new = bounded_put dp mk_expires_at now ?k mark (rl_rows old)"
    using closed by (simp add: new_def old_def refusal_run_def refusal_record_def mark_def)
  have dated: "\<exists>t. dp (mk_expires_at (snd r)) = Some t" if "r \<in> set (rl_rows old)" for r
    using inv(1) that iso by (fastforce simp: refusal_inv_def refusal_row_ok_def)
  have kold: "keyed (rl_rows old)" using inv(1) by (simp add: refusal_inv_def)
  have valid: "valid = set ?v"
    using dated by (fastforce simp: valid_def prune_rows_def expired_def)
  have card: "card valid = length ?v"
    unfolding valid
    by (rule distinct_card) (use keyed_prune_rows [OF kold] in \<open>simp add: keyed_def distinct_map\<close>)
  note exact = bounded_put_exact [where dp = dp and expiry = mk_expires_at, OF kold dated refl,
      where m = mark and now = now and k = ?k, folded new valid card]
  have put: "(?k, mark) \<in> set (rl_rows new)" using exact by (auto split: if_splits)
  show "mark \<in> set (fst (refusal_live dp now' new)) \<longleftrightarrow> now' < now + 60 * 60000"
    using put iso
    by (force simp: refusal_live_def Let_def prune_rows_def expired_def mark_def REFUSAL_TTL_MS_def)
  show "if card valid < 64 \<or> ?k \<in> fst ` valid
     then set (rl_rows new) = insert (?k, mark) {r \<in> valid. fst r \<noteq> ?k}
     else \<exists>v \<in> valid. set (rl_rows new) = insert (?k, mark) (valid - {v}) \<and>
       (\<forall>r \<in> valid. the (dp (mk_expires_at (snd v))) \<le> the (dp (mk_expires_at (snd r))))"
    using exact by (simp add: MAX_ROWS_def)
qed

definition ex_iso :: "int \<Rightarrow> string" where
  "ex_iso t = (if 0 \<le> t then replicate (nat t) CHR ''x'' else CHR ''-'' # replicate (nat (- t)) CHR ''x'')"

definition ex_parse :: "string \<Rightarrow> int option" where
  "ex_parse s =
     (case s of [] \<Rightarrow> Some 0
      | c # r \<Rightarrow> Some (if c = CHR ''-'' then - int (length r) else int (length s)))"

lemma ex_parse_iso: "ex_parse (ex_iso t) = Some t"
  by (cases "nat t") (auto simp: ex_parse_def ex_iso_def)

theorem refusal_ledger_is_bounded_witness:
  "length (rl_rows (refusal_run ex_parse ex_iso [RecordRefusal (\<lambda>_. False) 0 ''codex'' ''a'' None])) \<le> 64"
proof -
  note b = refusal_ledger_is_bounded [OF ex_parse_iso, where window = "\<lambda>_. False" and h = "''codex''"
      and xs = "[]" and now = 0 and p = "''a''" and model = None, OF _ refl refl refl refl]
  show ?thesis using b by simp
qed


end
