(* ===== verification/Service_Props.thy ===== *)
theory Service_Props
  imports Account_Service Evidence_Props
begin

text \<open>
  What the last-served facts guarantee: numbers of a run of the table, the reading the account pool
  relies on (the interface \<open>last_service\<close>), and what a service means for the next selection.
\<close>

section \<open>Reading the facts\<close>

definition asked :: "string \<Rightarrow> credential_profile list \<Rightarrow> string \<Rightarrow> credential_profile option" where
  "asked h ps i = find (\<lambda>p. pf_harness_id p = h \<and> pf_profile_id p = i) ps"

lemma asked_Some: "asked h ps i = Some p \<Longrightarrow> p \<in> set ps \<and> pf_harness_id p = h \<and> pf_profile_id p = i"
  by (auto simp: asked_def find_Some_iff)

lemma asked_None: "asked h ps i = None \<Longrightarrow> p \<in> set ps \<Longrightarrow> pf_harness_id p = h \<Longrightarrow> pf_profile_id p \<noteq> i"
  by (auto simp: asked_def find_None_iff)

lemma asked_inj:
  "inj_on pf_profile_id (set ps) \<Longrightarrow> p \<in> set ps \<Longrightarrow> asked (pf_harness_id p) ps (pf_profile_id p) = Some p"
proof -
  assume inj: "inj_on pf_profile_id (set ps)" and p: "p \<in> set ps"
  then obtain q where q: "asked (pf_harness_id p) ps (pf_profile_id p) = Some q"
    using asked_None [OF _ p] by fastforce
  from asked_Some [OF q] inj p have "q = p" by (auto dest: inj_onD)
  with q show ?thesis by simp
qed

lemma asked_mset:
  assumes "mset ps = mset qs" and "inj_on pf_profile_id (set qs)"
  shows "asked h ps i = asked h qs i"
proof -
  have eq: "set ps = set qs" using assms(1) by (metis set_mset_mset)
  show ?thesis
  proof (cases "asked h ps i")
    case None
    have "asked h qs i = None"
    proof (rule ccontr)
      assume "asked h qs i \<noteq> None"
      then obtain q where "asked h qs i = Some q" by auto
      from asked_Some [OF this] asked_None [OF None, of q] eq show False by simp
    qed
    with None show ?thesis by simp
  next
    case (Some p)
    from asked_Some [OF this] eq asked_inj [OF assms(2), of p] Some show ?thesis by simp
  qed
qed

lemma profile_digests_get:
  "inj_on pf_profile_id (set ps) \<Longrightarrow>
     jget (profile_digests sha h ps m) i =
       (case asked h ps i of Some p \<Rightarrow> Some (accountBindingDigest sha p) | None \<Rightarrow> jget m i)"
proof (induction ps arbitrary: m)
  case Nil
  show ?case by (simp add: asked_def)
next
  case (Cons p ps)
  then have inj: "inj_on pf_profile_id (set ps)" by (auto simp: inj_on_def)
  have tail: "asked h ps i = None \<or> asked h ps i = Some p" if "pf_profile_id p = i" "pf_harness_id p = h"
  proof (cases "asked h ps i")
    case (Some q)
    from asked_Some [OF this] that have "q \<in> set (p # ps)" "pf_profile_id q = pf_profile_id p" by auto
    with Cons.prems have "q = p" by (meson inj_onD list.set_intros(1))
    with Some show ?thesis by simp
  qed simp
  show ?case
    using Cons.IH [OF inj] tail by (auto simp: asked_def split: option.splits)
qed

lemma profile_digests_Nil: "profile_digests sha h ps m = [] \<Longrightarrow> m = [] \<and> (\<forall>p \<in> set ps. pf_harness_id p \<noteq> h)"
proof (induction ps arbitrary: m)
  case Nil
  then show ?case by simp
next
  case (Cons p ps)
  let ?m = "if pf_harness_id p = h then jset (pf_profile_id p) (accountBindingDigest sha p) m else m"
  have "profile_digests sha h ps ?m = []" using Cons.prems by simp
  from Cons.IH [OF this] have "?m = []" "\<forall>p \<in> set ps. pf_harness_id p \<noteq> h" by blast+
  moreover have "jset k v m \<noteq> []" for k v by (cases m) auto
  ultimately show ?case by (simp split: if_splits)
qed

lemma collect_orders_get:
  "keyed t \<Longrightarrow>
     jget (collect_orders digests h mk t out) i =
       (case jget digests i of None \<Rightarrow> jget out i
        | Some d \<Rightarrow> (case jget t (h, i, mk, d) of None \<Rightarrow> jget out i | Some f \<Rightarrow> Some (sf_seq f)))"
proof (induction digests h mk t out rule: collect_orders.induct)
  case (1 digests h mk out)
  show ?case by (simp split: option.splits)
next
  case (2 digests h mk h' p mk' digest f rows out)
  have k: "keyed rows" "jget rows (h', p, mk', digest) = None"
    using "2.prems" by (auto simp: keyed_def map_of_eq_None_iff)
  show ?case
    using 2(1) [OF k(1)] k(2) by (auto split: option.splits)
qed

lemma orders_get:
  assumes "keyed t" and "inj_on pf_profile_id (set ps)"
  shows "jget (orders sha t h model ps) i =
    (case asked h ps i of None \<Rightarrow> None | Some p \<Rightarrow> map_option sf_seq (jget t (fact_key sha p model)))"
proof (cases "profile_digests sha h ps [] = []")
  case True
  then have "asked h ps i = None"
    using asked_Some profile_digests_Nil [OF True] by (metis not_None_eq)
  with True show ?thesis by (simp add: orders_def)
next
  case False
  then show ?thesis
    using collect_orders_get [OF assms(1)] profile_digests_get [OF assms(2), of sha h "[]" i]
    by (auto simp: orders_def Let_def fact_key_def asked_Some split: option.splits dest!: asked_Some)
qed

section \<open>Runs of the table\<close>

datatype service_op =
  Serve string credential_profile "string option" service_producer
| Retract credential_profile "string option" service_producer
| ClearServices invalidation

fun service_step :: "(string \<Rightarrow> string) \<Rightarrow> service_table \<Rightarrow> service_op \<Rightarrow> service_table" where
  "service_step sha t (Serve now p model producer) = serve sha now t p model producer"
| "service_step sha t (Retract p model producer) = retract sha t p model producer"
| "service_step sha t (ClearServices scope) = clear_services t scope"

definition service_run :: "(string \<Rightarrow> string) \<Rightarrow> service_op list \<Rightarrow> service_table" where
  "service_run sha xs = foldl (service_step sha) [] xs"

definition service_inv :: "service_table \<Rightarrow> bool" where
  "service_inv t \<longleftrightarrow>
     keyed t \<and> distinct (map (\<lambda>r. sf_seq (snd r)) t) \<and> (\<forall>r \<in> set t. 0 < sf_seq (snd r))"

lemma service_inv_filter: "service_inv t \<Longrightarrow> service_inv (filter P t)"
  by (auto simp: service_inv_def keyed_def distinct_map_filter)

lemma foldl_max_upper: "x \<in> set (n # ns) \<Longrightarrow> (x :: int) \<le> foldl max n ns"
proof (induction ns arbitrary: n x)
  case Nil
  then show ?case by simp
next
  case (Cons m ns)
  have "max n m \<le> foldl max (max n m) ns" by (rule Cons.IH) simp
  with Cons.IH [of x "max n m"] Cons.prems show ?case by fastforce
qed

lemma next_seq_above: "r \<in> set t \<Longrightarrow> sf_seq (snd r) < next_seq t"
proof -
  assume "r \<in> set t"
  then have r: "sf_seq (snd r) \<in> set (map (\<lambda>r. sf_seq (snd r)) t)" by simp
  then obtain n ns where "map (\<lambda>r. sf_seq (snd r)) t = n # ns" by (cases "map (\<lambda>r. sf_seq (snd r)) t") auto
  with foldl_max_upper [of "sf_seq (snd r)" n ns] r show ?thesis by (simp add: next_seq_def)
qed

lemma next_seq_positive: "service_inv t \<Longrightarrow> 0 < next_seq t"
  using next_seq_above [of _ t]
  by (cases t) (force simp: service_inv_def next_seq_def)+

lemma distinct_seq_jset:
  assumes "distinct (map (\<lambda>r. sf_seq (snd r)) t)" and "\<forall>r \<in> set t. sf_seq (snd r) \<noteq> sf_seq f"
  shows "distinct (map (\<lambda>r. sf_seq (snd r)) (jset k f t))"
proof -
  have sub: "sf_seq (snd r) = sf_seq f \<or> r \<in> set t" if "r \<in> set (jset k f t)" for r and t
    using that by (induction t) (auto split: if_splits)
  show ?thesis
    using assms
  proof (induction t)
    case Nil
    show ?case by simp
  next
    case (Cons r t)
    obtain k' g where r: "r = (k', g)" by (cases r)
    have "sf_seq g \<notin> (\<lambda>r. sf_seq (snd r)) ` set (jset k f t)"
      using Cons.prems r by (auto dest!: sub)
    moreover have "sf_seq f \<notin> (\<lambda>r. sf_seq (snd r)) ` set t"
      using Cons.prems(2) by auto
    ultimately show ?case using Cons r by simp
  qed
qed

lemma set_jset: "set (jset k v m) \<subseteq> insert (k, v) (set m)"
  by (induction m) auto

lemma service_step_inv: "service_inv t \<Longrightarrow> service_inv (service_step sha t x)"
proof (cases x)
  case (Serve now p model producer)
  assume i: "service_inv t"
  let ?f = "\<lparr>sf_seq = next_seq t, sf_observed_at = now, sf_producer = producer\<rparr>"
  have "distinct (map (\<lambda>r. sf_seq (snd r)) (jset (fact_key sha p model) ?f t))"
    using i next_seq_above by (intro distinct_seq_jset) (force simp: service_inv_def)+
  moreover have "\<forall>r \<in> set (jset (fact_key sha p model) ?f t). 0 < sf_seq (snd r)"
    using set_jset [of "fact_key sha p model" ?f t] i next_seq_positive [OF i]
    by (fastforce simp: service_inv_def)
  ultimately have "service_inv (jset (fact_key sha p model) ?f t)" using i by (simp add: service_inv_def)
  with i Serve show ?thesis by (simp add: serve_def)
next
  case (Retract p model producer)
  then show "service_inv t \<Longrightarrow> ?thesis" by (simp add: retract_def service_inv_filter)
next
  case (ClearServices scope)
  moreover have "service_inv []" by (simp add: service_inv_def)
  ultimately show "service_inv t \<Longrightarrow> ?thesis" by (cases scope) (simp_all add: service_inv_filter)
qed

lemma service_run_inv: "service_inv (service_run sha xs)"
proof -
  have "service_inv t \<Longrightarrow> service_inv (foldl (service_step sha) t xs)" for t
    by (induction xs arbitrary: t) (simp_all add: service_step_inv)
  moreover have "service_inv []" by (simp add: service_inv_def)
  ultimately show ?thesis by (simp add: service_run_def)
qed

interpretation store: last_service "orders sha (service_run sha xs)" for sha xs
proof
  fix ps qs :: "credential_profile list" and h m i
  assume m: "mset ps = mset qs" and inj: "inj_on pf_profile_id (set qs)"
  moreover from m have "set ps = set qs" by (metis set_mset_mset)
  ultimately have "inj_on pf_profile_id (set ps)" by simp
  then show "jget (orders sha (service_run sha xs) h m ps) i = jget (orders sha (service_run sha xs) h m qs) i"
    using service_run_inv [of sha xs] inj asked_mset [OF m inj]
    by (simp add: orders_get service_inv_def)
qed

section \<open>The next selection\<close>

lemma newest_order:
  assumes inj: "inj_on pf_profile_id (set ps)" and p: "p \<in> set ps" "pf_harness_id p = h"
    and q: "q \<in> set ps" "pf_harness_id q = h" "q \<noteq> p"
    and fresh: "map_option sf_producer (jget (service_run sha xs) (fact_key sha p model)) \<noteq> Some producer"
    and t: "t = service_run sha (xs @ [Serve at_time p model producer])"
  shows "nullish (jget (orders sha t h model ps) (pf_profile_id q)) 0
       < nullish (jget (orders sha t h model ps) (pf_profile_id p)) 0"
proof -
  let ?t0 = "service_run sha xs"
  have k: "keyed t" "service_inv ?t0" using service_run_inv [of sha] t by (auto simp: service_inv_def)
  have t': "t = jset (fact_key sha p model)
      \<lparr>sf_seq = next_seq ?t0, sf_observed_at = at_time, sf_producer = producer\<rparr> ?t0"
    using fresh by (simp add: t service_run_def serve_def del: map_option_eq_Some)
  have ap: "asked h ps (pf_profile_id p) = Some p" "asked h ps (pf_profile_id q) = Some q"
    using asked_inj [OF inj p(1)] asked_inj [OF inj q(1)] p(2) q(2) by simp_all
  have "pf_profile_id q \<noteq> pf_profile_id p" using inj p(1) q(1,3) by (auto dest: inj_onD)
  then have "fact_key sha q model \<noteq> fact_key sha p model" by (simp add: fact_key_def)
  then have oq: "jget (orders sha t h model ps) (pf_profile_id q) =
      map_option sf_seq (jget ?t0 (fact_key sha q model))"
    unfolding orders_get [OF k(1) inj] using ap by (simp add: t')
  have op: "jget (orders sha t h model ps) (pf_profile_id p) = Some (next_seq ?t0)"
    unfolding orders_get [OF k(1) inj] using ap by (simp add: t')
  show ?thesis
  proof (cases "jget ?t0 (fact_key sha q model)")
    case None
    with oq op next_seq_positive [OF k(2)] show ?thesis by simp
  next
    case (Some f)
    then have "sf_seq f < next_seq ?t0" using next_seq_above [of "(fact_key sha q model, f)"]
      by (auto dest: map_of_SomeD)
    with Some oq op show ?thesis by simp
  qed
qed

text \<open>C33: The account that served a model last is the one the pool selects for that model again, as long
  as the meter says nothing better. After any history of the table, a try that is recorded anew as
  served by an account is followed by a selection for the same model: if that account is ready and
  unmarked and its headroom is unknown, and every account with known headroom is marked, then
  exactly that account is selected.
\<close>

theorem last_served_account_is_chosen:
  assumes reader: "pg_lastService a = Some (orders sha (service_run sha (xs @ [Serve at_time p model producer])))"
    and anew: "map_option sf_producer (jget (service_run sha xs) (fact_key sha p model)) \<noteq> Some producer"
    and model: "flat (pg_model a) = model"
    and ids: "\<And>q r. pool_row a q \<Longrightarrow> pool_row a r \<Longrightarrow> pf_profile_id q = pf_profile_id r \<Longrightarrow> q = r"
    and row: "pool_row a p" "pool_verdict_of dp now a p = UnknownHeadroom" "marked dp now a p = None"
    and measured: "\<And>q h. pool_row a q \<Longrightarrow> pool_verdict_of dp now a q = FreshHeadroom h \<Longrightarrow>
      marked dp now a q \<noteq> None"
  shows "selectFromAccountPool dp now a = PoolSelected \<lparr>pk_profile = p, pk_verdict = UnknownHeadroom\<rparr>"
proof -
  let ?cs = "pool_candidates dp now a"
  let ?us = "filter (\<lambda>c. pk_verdict c = UnknownHeadroom) ?cs"
  have sp: "spendable dp now a p"
    using row(2) exhausted_verdict_iff [of dp now a p] by (auto simp: spendable_def)
  obtain c where c: "selectFromAccountPool dp now a = PoolSelected c"
    using selection_cases [of dp now a] row(1) sp
    by (fastforce simp: set_rankAccountPool dest: arg_cong [where f = set])
  obtain r where r: "c = candidate_of dp now a r" "pool_row a r" "spendable dp now a r"
      "pool_before dp now a (candidate_of dp now a r) (candidate_of dp now a p)"
    using selected_row [OF c] row(1) sp by blast
  have pref: "preferred dp now a r p" by (rule before_preferred [OF r(3) sp r(4)])
  have "r = p"
  proof (rule ccontr)
    assume ne: "r \<noteq> p"
    have mr: "marked dp now a r = None" using pref row(3) by (auto simp: preferred_def split: option.splits)
    have vr: "pool_verdict_of dp now a r = UnknownHeadroom"
      using measured [OF r(2)] mr r(3) exhausted_verdict_iff [of dp now a r]
      by (cases "pool_verdict_of dp now a r") (auto simp: spendable_def)
    have in_us: "candidate_of dp now a r \<in> set ?us" "candidate_of dp now a p \<in> set ?us"
      using row r(2) vr by (auto simp: set_pool_candidates candidate_of_def)
    then have "card {candidate_of dp now a r, candidate_of dp now a p} \<le> card (set ?us)"
      by (intro card_mono) auto
    also have "\<dots> \<le> length ?us" by (rule card_length)
    finally have two: "1 < length ?us" using ne by (auto simp: candidate_of_def card_insert_if)
    have inj: "inj_on pf_profile_id (set (map pk_profile ?us))"
      using ids by (auto simp: inj_on_def set_pool_candidates)
    have "r \<in> set (map pk_profile ?us)" "p \<in> set (map pk_profile ?us)"
      using imageI [OF in_us(1), of pk_profile] imageI [OF in_us(2), of pk_profile] by simp_all
    moreover have "pf_harness_id r = pg_harnessId a" "pf_harness_id p = pg_harnessId a"
      using r(2) row(1) by (simp_all add: pool_row_def)
    ultimately have "last_served dp now a r < last_served dp now a p"
      using newest_order [OF inj _ _ _ _ ne anew refl, of "pg_harnessId a" at_time] two
      by (simp add: last_served_def pool_served_def Let_def reader model)
    then show False using pref mr row(2,3) vr by (simp add: preferred_def)
  qed
  then show ?thesis using c r(1) row(2) by (simp add: candidate_of_def)
qed


definition ex_served_pool :: pool_args where
  "ex_served_pool =
     ex_pool [ex_profile ''a'', ex_profile ''b''] (1 / 2)
       \<lparr>pg_snapshots := [],
        pg_lastService := Some (orders id (service_run id
          ([] @ [Serve ''t'' (ex_profile ''b'') None
                   \<lparr>sp_runId = ''r'', sp_attemptId = ''1'', sp_tryIndex = 0\<rparr>])))\<rparr>"

theorem last_served_account_is_chosen_witness:
  "selectFromAccountPool ex_dp 0 ex_served_pool =
     PoolSelected \<lparr>pk_profile = ex_profile ''b'', pk_verdict = UnknownHeadroom\<rparr>"
proof (rule last_served_account_is_chosen)
  show "pg_lastService ex_served_pool = Some (orders id (service_run id
          ([] @ [Serve ''t'' (ex_profile ''b'') None
                   \<lparr>sp_runId = ''r'', sp_attemptId = ''1'', sp_tryIndex = 0\<rparr>])))"
    by (simp add: ex_served_pool_def)
  show "map_option sf_producer (jget (service_run id []) (fact_key id (ex_profile ''b'') None)) \<noteq>
      Some \<lparr>sp_runId = ''r'', sp_attemptId = ''1'', sp_tryIndex = 0\<rparr>"
    by (simp add: service_run_def)
  show "flat (pg_model ex_served_pool) = None" by (simp add: ex_served_pool_def ex_pool_def)
  show "q = r" if "pool_row ex_served_pool q" "pool_row ex_served_pool r" "pf_profile_id q = pf_profile_id r" for q r
    using that by (auto simp: pool_row_def ex_served_pool_def ex_pool_def ex_profile_def)
  show "pool_row ex_served_pool (ex_profile ''b'')"
    by (simp add: pool_row_def ex_served_pool_def ex_pool_def ex_profile_def)
  have v: "pool_verdict_of ex_dp 0 ex_served_pool q = UnknownHeadroom" for q
    by (simp add: pool_verdict_of_def pool_breach_def pool_block_def profileHeadroomBreach_def
        profileQuotaBlock_def subject_windows_def ex_served_pool_def ex_pool_def quotaRefusalBasis_def
        freshModelHeadroom_def block_reader_def Let_def)
  show "pool_verdict_of ex_dp 0 ex_served_pool (ex_profile ''b'') = UnknownHeadroom" by (rule v)
  show "marked ex_dp 0 ex_served_pool (ex_profile ''b'') = None"
    by (simp add: marked_def pool_marks_def liveRefusalMarks_def ex_served_pool_def ex_pool_def)
  show "marked ex_dp 0 ex_served_pool q \<noteq> None"
    if "pool_verdict_of ex_dp 0 ex_served_pool q = FreshHeadroom h" for q h
    using that v by simp
qed


section \<open>A credential change and the durable facts\<close>

lemma jget_filter_key:
  "keyed m \<Longrightarrow> jget (filter (\<lambda>r. P (fst r)) m) k = (if P k then jget m k else None)"
  by (induction m) (auto simp: keyed_def map_of_eq_None_iff split: if_splits)

text \<open>C34: A change of one account's credential is never half forgotten. Whether or not the delete of its
  durable facts fails, no binding taken for the account before the change is current after it. The
  facts of the account are gone unless the delete failed, the store is closing or the change keeps the row's
  binding, in which case every order reads as before; the orders of all other accounts always do.
\<close>

theorem credential_change_is_complete:
  assumes "generation_inv (ae_credentials e)" and "service_inv (ae_services e)"
    and "inj_on pf_profile_id (set ps)"
    and "es_harnessId subject = h" and "es_profileId subject = Some p"
  shows "\<not> current window1 (ae_credentials (evidence_clearSubject fails e h (Some p) keeps))
           (fst (bind window0 (ae_credentials e) subject t)) \<and>
         jget (evidence_orders False sha (evidence_clearSubject fails e h (Some p) keeps) h model ps) i =
         (if i = p \<and> \<not> fails \<and> \<not> keeps \<and> \<not> gx_retired (ae_credentials e) then None
          else jget (evidence_orders False sha e h model ps) i)"
proof -
  let ?e = "evidence_clearSubject fails e h (Some p) keeps"
  have g: "ae_credentials ?e = generation_step (ae_credentials e) (OpSubjectChange h (Some p) keeps)"
    by (simp add: evidence_clearSubject_def evidence_invalidated_def)
  have "last_change (ae_credentials e) h (Some p) < last_change (ae_credentials ?e) h (Some p) \<or>
      gx_retired (ae_credentials ?e)"
    unfolding g by (rule generation_step_touched [OF assms(1)]) simp
  then have stale: "\<not> current window1 (ae_credentials ?e) (fst (bind window0 (ae_credentials e) subject t))"
    using assms(4,5)
    by (auto simp: current_def generation_of_last_change bind_def Let_def)
  let ?gone = "\<not> fails \<and> \<not> keeps \<and> \<not> gx_retired (ae_credentials e)"
  have s: "ae_services ?e =
      (if ?gone then filter (\<lambda>r. \<not> (fst (fst r) = h \<and> fst (snd (fst r)) = p)) (ae_services e)
       else ae_services e)"
    by (simp add: evidence_clearSubject_def evidence_invalidated_def gen_clearSubject_def invalidated_def)
  have k: "keyed (ae_services e)" using assms(2) by (simp add: service_inv_def)
  then have k': "keyed (ae_services ?e)" by (auto simp: s keyed_def distinct_map_filter)
  have "jget (ae_services ?e) (fact_key sha q model) =
      (if q' = p \<and> ?gone then None else jget (ae_services e) (fact_key sha q model))"
    if "asked h ps q' = Some q" for q q'
    using asked_Some [OF that] k
      jget_filter_key [OF k, of "\<lambda>x. \<not> (fst x = h \<and> fst (snd x) = p)" "fact_key sha q model"]
    by (auto simp: s fact_key_def)
  then have "jget (evidence_orders False sha ?e h model ps) i =
      (if i = p \<and> ?gone then None else jget (evidence_orders False sha e h model ps) i)"
    unfolding evidence_orders_def
    by (auto simp: orders_get [OF k assms(3)] orders_get [OF k' assms(3)] split: option.splits)
  with stale show ?thesis by simp
qed

theorem credential_change_is_complete_witness:
  "jget (evidence_orders False id
      (evidence_clearSubject False
        \<lparr>ae_credentials = newCredentialGeneration,
         ae_services = service_run id [Serve ''t'' (ex_profile ''b'') None
           \<lparr>sp_runId = ''r'', sp_attemptId = ''1'', sp_tryIndex = 0\<rparr>]\<rparr>
        ''codex'' (Some ''b'') False) ''codex'' None [ex_profile ''b'']) ''b'' = None"
proof -
  have "\<not> gx_retired newCredentialGeneration" by (simp add: newCredentialGeneration_def)
  with credential_change_is_complete [where h = "''codex''" and p = "''b''" and ps = "[ex_profile ''b'']"
      and e = "\<lparr>ae_credentials = newCredentialGeneration,
         ae_services = service_run id [Serve ''t'' (ex_profile ''b'') None
           \<lparr>sp_runId = ''r'', sp_attemptId = ''1'', sp_tryIndex = 0\<rparr>]\<rparr>"
      and subject = "\<lparr>es_harnessId = ''codex'', es_profileId = Some ''b'', es_route = None,
         es_requestedModel = None\<rparr>" and fails = False and keeps = False and sha = id
      and model = None and i = "''b''"]
  show ?thesis by (simp add: service_run_inv generation_inv_new)
qed


end
