(* ===== verification/Unusable_Props.thy ===== *)
theory Unusable_Props
  imports Unusable_Ledger Service_Props
begin

text \<open>
  What the ledger of dead credentials guarantees: a success removes exactly the refusals it answers
  from the live ones, whatever the ledger forgets to stay within its bound, and an account that has
  answered is offered again.
\<close>

section \<open>Keys\<close>

definition plain_text :: "string \<Rightarrow> bool" where
  "plain_text s \<longleftrightarrow> s \<noteq> [] \<and> char_of (0 :: nat) \<notin> set s"

definition plain_subject :: "execution_subject \<Rightarrow> string option \<Rightarrow> bool" where
  "plain_subject s model \<longleftrightarrow>
     plain_text (es_harnessId s) \<and> pred_option plain_text (es_profileId s) \<and> pred_option plain_text model"

lemma route_text_free: "char_of (0 :: nat) \<notin> set (route_text r)"
  by (cases r; simp; cases "the r"; simp add: char_of_def)

lemma route_text_inj: "route_text r = route_text r' \<Longrightarrow> r = r'"
  by (cases r; cases r'; simp; cases "the r"; cases "the r'"; simp)

lemma nullish_plain_inj:
  "pred_option plain_text a \<Longrightarrow> pred_option plain_text b \<Longrightarrow> nullish a [] = nullish b [] \<Longrightarrow> a = b"
  by (cases a; cases b) (auto simp: plain_text_def)

lemma unusable_key_parts:
  assumes "plain_text h" and "pred_option plain_text p" and "pred_option plain_text m"
  shows "split_on (char_of (0 :: nat)) (unusable_key h p r m) = [h, nullish p [], route_text r, nullish m []]"
  unfolding unusable_key_def nul_sep_def
  by (rule split_join)
    (use assms route_text_free [of r] in \<open>auto simp: plain_text_def nullish_def split: option.splits\<close>)

lemma unusable_key_inj:
  assumes "unusable_key h p r m = unusable_key h' p' r' m'"
    and "plain_text h" "pred_option plain_text p" "pred_option plain_text m"
    and "plain_text h'" "pred_option plain_text p'" "pred_option plain_text m'"
  shows "h = h' \<and> p = p' \<and> r = r' \<and> m = m'"
proof -
  have "[h, nullish p [], route_text r, nullish m []] = [h', nullish p' [], route_text r', nullish m' []]"
    unfolding unusable_key_parts [OF assms(2-4), symmetric] unusable_key_parts [OF assms(5-7), symmetric]
      assms(1) ..
  then show ?thesis using route_text_inj nullish_plain_inj assms(3,4,6,7) by simp
qed

definition plain_point :: "success \<Rightarrow> bool" where
  "plain_point q \<longleftrightarrow> plain_subject (eb_subject (su_binding q)) (ho_model (su_observation q))"

lemma point_key_inj:
  assumes "point_key q = point_key x" "plain_point q" "plain_point x"
  shows "es_harnessId (eb_subject (su_binding q)) = es_harnessId (eb_subject (su_binding x)) \<and>
    es_profileId (eb_subject (su_binding q)) = es_profileId (eb_subject (su_binding x)) \<and>
    es_route (eb_subject (su_binding q)) = es_route (eb_subject (su_binding x)) \<and>
    ho_model (su_observation q) = ho_model (su_observation x)"
  using assms unusable_key_inj
  unfolding point_key_def plain_point_def plain_subject_def by blast

lemma not_after_trans: "not_after dp a b \<Longrightarrow> not_after dp b c \<Longrightarrow> not_after dp a c"
  by (auto simp: not_after_def split: option.splits)

lemma order_at_most_mono: "order_at_most l k n \<Longrightarrow> n \<le> n' \<Longrightarrow> order_at_most l k n'"
  by (auto simp: order_at_most_def split: option.splits)

lemma covers_dominates:
  assumes "covers dp l k v x" and "dominates dp q x" and "point_key q = point_key x"
    and "plain_point q" and "plain_point x"
  shows "covers dp l k v q"
proof -
  have "refusal_matches v (eb_subject (su_binding q)) (ho_model (su_observation q))"
    using assms(1) point_key_inj [OF assms(3-5)] by (simp add: covers_def refusal_matches_def)
  moreover have "order_at_most l k (su_order q)"
    using assms(1,2) order_at_most_mono unfolding covers_def dominates_def by blast
  moreover have "not_after dp (uo_observed_at v) (ho_observed_at (su_observation q))"
    using assms(1,2) not_after_trans unfolding covers_def dominates_def by blast
  ultimately show ?thesis by (simp add: covers_def)
qed

section \<open>The points of a ledger\<close>

definition points_of :: "(string, success list) jsmap \<Rightarrow> success set" where
  "points_of m = set (concat (jvalues m))"

lemma set_positivePoints: "set (positivePoints l) = points_of (ul_successes l)"
  by (simp add: positivePoints_def points_of_def)

definition points_ok :: "(string, success list) jsmap \<Rightarrow> bool" where
  "points_ok m \<longleftrightarrow>
     keyed m \<and> (\<forall>k ps q. (k, ps) \<in> set m \<longrightarrow> q \<in> set ps \<longrightarrow> point_key q = k \<and> plain_point q)"

lemma points_of_iff: "q \<in> points_of m \<longleftrightarrow> (\<exists>k ps. (k, ps) \<in> set m \<and> q \<in> set ps)"
  by (force simp: points_of_def)

lemma points_ok_get:
  assumes "points_ok m"
  shows "q \<in> points_of m \<longleftrightarrow> q \<in> set (nullish (jget m (point_key q)) [])"
proof -
  have k: "keyed m" using assms by (simp add: points_ok_def)
  have "q \<in> points_of m \<longleftrightarrow> (\<exists>ps. (point_key q, ps) \<in> set m \<and> q \<in> set ps)"
    using assms by (auto simp: points_of_iff points_ok_def)
  then show ?thesis
    by (cases "jget m (point_key q)") (simp_all add: keyed_in_set_iff [OF k])
qed

lemma points_ok_key:
  assumes "points_ok m" and "q \<in> set (nullish (jget m k) [])"
  shows "point_key q = k \<and> plain_point q"
proof (cases "jget m k")
  case None
  with assms(2) show ?thesis by simp
next
  case (Some ps)
  then have "(k, ps) \<in> set m" by (rule map_of_SomeD)
  with assms Some show ?thesis by (simp add: points_ok_def)
qed

lemma points_okI:
  assumes "keyed m"
    and "\<And>k ps q. jget m k = Some ps \<Longrightarrow> q \<in> set ps \<Longrightarrow> point_key q = k \<and> plain_point q"
  shows "points_ok m"
  using assms unfolding points_ok_def keyed_in_set_iff [OF assms(1)] by blast

lemma points_ok_plain: "points_ok m \<Longrightarrow> q \<in> points_of m \<Longrightarrow> plain_point q"
  by (auto simp: points_of_iff points_ok_def)

lemma in_retain:
  "(k, ps) \<in> set (retain_points P m) \<longleftrightarrow> (\<exists>qs. (k, qs) \<in> set m \<and> ps = filter (P k) qs \<and> ps \<noteq> [])"
  by (induction m) (auto simp: retain_points_def Let_def)

lemma points_of_retain:
  assumes "points_ok m"
  shows "points_of (retain_points P m) = {q \<in> points_of m. P (point_key q) q}"
proof (intro set_eqI)
  fix q
  have "q \<in> points_of (retain_points P m) \<longleftrightarrow> (\<exists>k qs. (k, qs) \<in> set m \<and> q \<in> set (filter (P k) qs))"
    unfolding points_of_iff in_retain by (metis empty_iff empty_set)
  also have "\<dots> \<longleftrightarrow> q \<in> points_of m \<and> P (point_key q) q"
    unfolding points_of_iff using assms by (auto simp: points_ok_def) blast+
  finally show "q \<in> points_of (retain_points P m) \<longleftrightarrow> q \<in> {q \<in> points_of m. P (point_key q) q}" by simp
qed

lemma keys_retain: "map fst (retain_points P m) = map fst (filter (\<lambda>e. filter (P (fst e)) (snd e) \<noteq> []) m)"
  by (induction m) (auto simp: retain_points_def Let_def)

lemma points_ok_retain:
  assumes "points_ok m"
  shows "points_ok (retain_points P m)"
proof -
  have "keyed (retain_points P m)"
    using assms unfolding points_ok_def keyed_def keys_retain by (simp add: distinct_map_filter)
  with assms show ?thesis by (auto simp: points_ok_def in_retain)
qed

lemma points_ok_filter: "points_ok m \<Longrightarrow> points_ok (filter P m)"
  by (auto simp: points_ok_def keyed_def distinct_map_filter)

lemma add_point_ok:
  assumes ok: "points_ok m" and q: "plain_point q"
  shows "points_ok (add_point dp q m)"
proof -
  let ?ps = "filter (\<lambda>item. \<not> dominates dp q item) (nullish (jget m (point_key q)) []) @ [q]"
  have k: "keyed m" "keyed (jset (point_key q) ?ps m)" using ok by (simp_all add: points_ok_def)
  have new: "point_key x = point_key q \<and> plain_point x" if "x \<in> set ?ps" for x
    using that points_ok_key [OF ok, of x "point_key q"] q by auto
  have "points_ok (jset (point_key q) ?ps m)"
  proof (rule points_okI [OF k(2)])
    fix k' ps x
    assume get: "jget (jset (point_key q) ?ps m) k' = Some ps" and x: "x \<in> set ps"
    show "point_key x = k' \<and> plain_point x"
    proof (cases "k' = point_key q")
      case True
      then have "ps = ?ps" using get by simp
      with x new [of x] True show ?thesis by simp
    next
      case False
      then have "x \<in> set (nullish (jget m k') [])" using get x by simp
      then show ?thesis by (rule points_ok_key [OF ok])
    qed
  qed
  then show ?thesis using ok by (simp add: add_point_def Let_def)
qed

text \<open>A new point covers what it replaces, and is covered by what keeps it out.\<close>

lemma add_point_covers:
  assumes ok: "points_ok m" and q: "plain_point q"
  shows "(\<exists>x \<in> points_of (add_point dp q m). covers dp l k v x) \<longleftrightarrow>
    (\<exists>x \<in> points_of m. covers dp l k v x) \<or> covers dp l k v q"
proof (cases "\<exists>item \<in> set (nullish (jget m (point_key q)) []). dominates dp item q")
  case True
  then obtain item where i: "item \<in> set (nullish (jget m (point_key q)) [])" "dominates dp item q" by blast
  have pk: "point_key item = point_key q" "plain_point item" using points_ok_key [OF ok i(1)] by simp_all
  have "covers dp l k v q \<Longrightarrow> covers dp l k v item"
    using covers_dominates [OF _ i(2) pk(1) pk(2) q] by simp
  moreover have "item \<in> points_of m" using i(1) pk(1) by (simp add: points_ok_get [OF ok])
  ultimately show ?thesis using True by (auto simp: add_point_def)
next
  case False
  let ?old = "nullish (jget m (point_key q)) []"
  let ?ps = "filter (\<lambda>item. \<not> dominates dp q item) ?old @ [q]"
  have m': "add_point dp q m = jset (point_key q) ?ps m" using False by (simp add: add_point_def)
  have new: "x \<in> points_of (add_point dp q m) \<longleftrightarrow>
      x = q \<or> x \<in> points_of m \<and> \<not> (point_key x = point_key q \<and> dominates dp q x)" for x
    unfolding points_ok_get [OF add_point_ok [OF ok q]] points_ok_get [OF ok] by (auto simp: m')
  have replaced: "covers dp l k v q"
    if "x \<in> points_of m" "point_key x = point_key q" "dominates dp q x" "covers dp l k v x" for x
    using covers_dominates [OF that(4,3) _ q points_ok_plain [OF ok that(1)]] that(2) by simp
  show ?thesis
  proof
    assume "\<exists>x \<in> points_of (add_point dp q m). covers dp l k v x"
    then obtain x where "x \<in> points_of (add_point dp q m)" "covers dp l k v x" ..
    then show "(\<exists>x \<in> points_of m. covers dp l k v x) \<or> covers dp l k v q" using new [of x] by auto
  next
    assume "(\<exists>x \<in> points_of m. covers dp l k v x) \<or> covers dp l k v q"
    then consider x where "x \<in> points_of m" "covers dp l k v x" | "covers dp l k v q" by auto
    then show "\<exists>x \<in> points_of (add_point dp q m). covers dp l k v x"
    proof cases
      case (1 x)
      with new [of x] new [of q] replaced [of x] show ?thesis by auto
    next
      case 2
      with new [of q] show ?thesis by auto
    qed
  qed
qed

section \<open>Forgetting within the bound\<close>

definition ledger_ok :: "unusable_ledger \<Rightarrow> bool" where
  "ledger_ok l \<longleftrightarrow> keyed (ul_rows l) \<and> points_ok (ul_successes l)"

lemma order_drop_rows:
  assumes "keyed (ul_rows l)" and "r \<in> set (ul_rows (drop_rows P l))"
  shows "order_at_most (drop_rows P l) (fst r) n = order_at_most l (fst r) n"
proof -
  have kept: "fst r \<notin> fst ` set (filter P (ul_rows l))"
  proof
    assume "fst r \<in> fst ` set (filter P (ul_rows l))"
    then obtain x where x: "x \<in> set (ul_rows l)" "P x" "fst x = fst r" by auto
    have "r \<in> set (ul_rows l)" "\<not> P r" using assms(2) by (auto simp: drop_rows_def)
    with x assms(1) have "x = r" by (metis keyed_in_set_iff option.inject prod.collapse)
    with x \<open>\<not> P r\<close> show False by simp
  qed
  have "jget (filter (\<lambda>x. Q (fst x)) m) k = (if Q k then jget m k else None)" for Q k and m :: "(string, nat) jsmap"
    by (induction m) auto
  from this [of "\<lambda>k. k \<notin> fst ` set (filter P (ul_rows l))" "ul_orders l" "fst r"] kept
  show ?thesis by (simp add: order_at_most_def drop_rows_def)
qed

lemma covers_drop_rows:
  "keyed (ul_rows l) \<Longrightarrow> r \<in> set (ul_rows (drop_rows P l)) \<Longrightarrow>
     covers dp (drop_rows P l) (fst r) v q = covers dp l (fst r) v q"
  by (simp add: covers_def order_drop_rows)

lemma covers_successes [simp]: "covers dp (l\<lparr>ul_successes := m\<rparr>) k v q = covers dp l k v q"
  by (simp add: covers_def order_at_most_def)

lemma ledger_ok_drop: "ledger_ok l \<Longrightarrow> ledger_ok (drop_rows P l)"
  by (auto simp: ledger_ok_def drop_rows_def keyed_def distinct_map_filter)

lemma in_tagged: "t \<in> set (tagged_points m) \<longleftrightarrow> (\<exists>ps. (fst t, ps) \<in> set m \<and> snd t \<in> set ps)"
  by (cases t) (force simp: tagged_points_def)

lemma forget_point_ok: "ledger_ok l \<Longrightarrow> ledger_ok (forget_point dp t l)"
  using ledger_ok_drop [of l] by (simp add: ledger_ok_def forget_point_def Let_def points_ok_retain)

lemma in_unhealed:
  "r \<in> set (unhealed dp l) \<longleftrightarrow>
     r \<in> set (ul_rows l) \<and> \<not> (\<exists>q \<in> points_of (ul_successes l). covers dp l (fst r) (snd r) q)"
  by (simp add: unhealed_def set_positivePoints)

lemma forget_point_unhealed:
  assumes ok: "ledger_ok l" and t: "t \<in> set (tagged_points (ul_successes l))"
  shows "set (unhealed dp (forget_point dp t l)) = set (unhealed dp l)"
proof (intro set_eqI)
  fix r
  let ?m = "ul_successes l" and ?remaining = "filter (\<lambda>q. q \<noteq> snd t) (positivePoints l)"
  let ?P = "\<lambda>r. covers dp l (fst r) (snd r) (snd t) \<and>
    \<not> (\<exists>q \<in> set ?remaining. covers dp l (fst r) (snd r) q)"
  have okm: "points_ok ?m" and kr: "keyed (ul_rows l)" using ok by (simp_all add: ledger_ok_def)
  have tk: "fst t = point_key (snd t)" "snd t \<in> points_of ?m"
    using t okm by (auto simp: in_tagged points_ok_def points_of_iff)
  define D where "D = drop_rows ?P l"
  define M where "M = retain_points (\<lambda>k q. \<not> (k = fst t \<and> q = snd t)) ?m"
  have l': "forget_point dp t l = D\<lparr>ul_successes := M\<rparr>"
    unfolding forget_point_def Let_def D_def M_def ..
  have pts: "points_of M = set ?remaining"
    using tk by (auto simp: M_def points_of_retain [OF okm] set_positivePoints)
  have rows: "r \<in> set (ul_rows D) \<longleftrightarrow> r \<in> set (ul_rows l) \<and> \<not> ?P r"
    by (auto simp: D_def drop_rows_def)
  have cov: "r \<in> set (ul_rows D) \<Longrightarrow> covers dp D (fst r) (snd r) q = covers dp l (fst r) (snd r) q" for q
    unfolding D_def by (rule covers_drop_rows [OF kr])
  have "r \<in> set (unhealed dp (forget_point dp t l)) \<longleftrightarrow>
      r \<in> set (ul_rows D) \<and> \<not> (\<exists>q \<in> set ?remaining. covers dp D (fst r) (snd r) q)"
    unfolding in_unhealed l' pts [symmetric] by simp
  also have "\<dots> \<longleftrightarrow> r \<in> set (ul_rows l) \<and> \<not> ?P r \<and>
      \<not> (\<exists>q \<in> set ?remaining. covers dp l (fst r) (snd r) q)"
    using cov rows by blast
  also have "\<dots> \<longleftrightarrow> r \<in> set (ul_rows l) \<and>
      \<not> (\<exists>q \<in> points_of ?m. covers dp l (fst r) (snd r) q)"
    using tk(2) by (auto simp: set_positivePoints)
  also have "\<dots> \<longleftrightarrow> r \<in> set (unhealed dp l)" by (simp add: in_unhealed)
  finally show "r \<in> set (unhealed dp (forget_point dp t l)) \<longleftrightarrow> r \<in> set (unhealed dp l)" .
qed

lemma forget_excess_keeps:
  "ledger_ok l \<Longrightarrow>
     ledger_ok (forget_excess dp l) \<and> set (unhealed dp (forget_excess dp l)) = set (unhealed dp l) \<and>
     length (positivePoints (forget_excess dp l)) \<le> MAX_ROWS \<and>
     set (ul_rows (forget_excess dp l)) \<subseteq> set (ul_rows l) \<and>
     points_of (ul_successes (forget_excess dp l)) \<subseteq> points_of (ul_successes l) \<and>
     ul_credentials (forget_excess dp l) = ul_credentials l"
proof (induction dp l rule: forget_excess.induct)
  case (1 dp l)
  show ?case
  proof (cases "length (positivePoints l) \<le> MAX_ROWS")
    case True
    with 1(2) show ?thesis by (simp add: forget_excess.simps)
  next
    case False
    have "positivePoints l \<noteq> []" using False by auto
    then have "tagged_points (ul_successes l) \<noteq> []"
      unfolding positivePoints_def map_snd_tagged_points [symmetric] by simp
    then obtain r rs where rs: "tagged_points (ul_successes l) = r # rs"
      by (cases "tagged_points (ul_successes l)") auto
    let ?t = "foldl older r rs" and ?l = "forget_point dp (foldl older r rs) l"
    have t: "?t \<in> set (tagged_points (ul_successes l))" unfolding rs by (rule foldl_older_in)
    have eq: "forget_excess dp l = forget_excess dp ?l"
      using False rs by (simp add: forget_excess.simps [of dp l])
    have step: "set (ul_rows ?l) \<subseteq> set (ul_rows l)" "ul_credentials ?l = ul_credentials l"
      by (auto simp: forget_point_def Let_def drop_rows_def)
    have pts: "points_of (ul_successes ?l) \<subseteq> points_of (ul_successes l)"
      using 1(2) by (auto simp: forget_point_def Let_def ledger_ok_def points_of_retain)
    have same: "set (unhealed dp ?l) = set (unhealed dp l)" by (rule forget_point_unhealed [OF 1(2) t])
    show ?thesis
      using 1(1) [OF False rs forget_point_ok [OF 1(2)]] step pts
      unfolding eq same [symmetric] by auto
  qed
qed

section \<open>Expiry\<close>

lemma prune_ledger_ok: "ledger_ok l \<Longrightarrow> ledger_ok (prune_ledger dp mutating now l)"
  unfolding prune_ledger_def
  by (rule ledger_ok_drop) (simp add: ledger_ok_def points_ok_retain)

lemma prune_points:
  "points_ok (ul_successes l) \<Longrightarrow>
     points_of (ul_successes (prune_ledger dp mutating now l)) =
       {q \<in> points_of (ul_successes l). point_lives mutating now (ul_credentials l) q}"
  by (simp add: prune_ledger_def drop_rows_def points_of_retain)

lemma prune_rows_of:
  "r \<in> set (ul_rows (prune_ledger dp mutating now l)) \<longleftrightarrow>
     r \<in> set (ul_rows l) \<and> \<not> row_expired dp now (snd r)"
  by (auto simp: prune_ledger_def drop_rows_def)

lemma prune_credentials [simp]: "ul_credentials (prune_ledger dp mutating now l) = ul_credentials l"
  by (simp add: prune_ledger_def drop_rows_def)

lemma prune_covers:
  assumes "keyed (ul_rows l)" and "r \<in> set (ul_rows (prune_ledger dp mutating now l))"
  shows "covers dp (prune_ledger dp mutating now l) (fst r) (snd r) q = covers dp l (fst r) (snd r) q"
  using assms unfolding prune_ledger_def by (subst covers_drop_rows) simp_all

lemma prune_unhealed_id:
  assumes ok: "ledger_ok l"
    and rows: "\<And>r. r \<in> set (ul_rows l) \<Longrightarrow> \<not> row_expired dp now (snd r)"
    and points: "\<And>q. q \<in> points_of (ul_successes l) \<Longrightarrow> point_lives mutating now (ul_credentials l) q"
  shows "set (unhealed dp (prune_ledger dp mutating now l)) = set (unhealed dp l)"
proof (intro set_eqI)
  fix r
  have "points_of (ul_successes (prune_ledger dp mutating now l)) = points_of (ul_successes l)"
    using ok points by (auto simp: ledger_ok_def prune_points)
  moreover have "r \<in> set (ul_rows (prune_ledger dp mutating now l)) \<longleftrightarrow> r \<in> set (ul_rows l)"
    using rows [of r] by (auto simp: prune_rows_of)
  ultimately show "r \<in> set (unhealed dp (prune_ledger dp mutating now l)) \<longleftrightarrow> r \<in> set (unhealed dp l)"
    using prune_covers [of l r] ok unfolding in_unhealed ledger_ok_def by auto
qed

section \<open>A success\<close>

text \<open>The refusals a contact answers: of its subject, of no newer dispatch and of no later time.\<close>

definition answered ::
  "(string \<Rightarrow> int option) \<Rightarrow> unusable_ledger \<Rightarrow> execution_binding \<Rightarrow> string option \<Rightarrow> string \<Rightarrow>
   string \<times> unusable_observation \<Rightarrow> bool" where
  "answered dp l b model observedAt r \<longleftrightarrow>
     refusal_matches (snd r) (eb_subject b) model \<and> order_at_most l (fst r) (eb_order b) \<and>
     not_after dp (uo_observed_at (snd r)) observedAt"

lemma covers_new_point:
  "covers dp l k v (new_point b observedAt now model) = answered dp l b model observedAt (k, v)"
  by (simp add: covers_def answered_def new_point_def)

lemma answered_wider: "answered dp l b None observedAt r \<Longrightarrow> answered dp l b model observedAt r"
  by (auto simp: answered_def refusal_matches_def)

lemma points_of_add:
  assumes "points_ok m" and "plain_point q"
  shows "points_of (add_point dp q m) \<subseteq> insert q (points_of m)"
proof
  fix x
  assume "x \<in> points_of (add_point dp q m)"
  then have x: "x \<in> set (nullish (jget (add_point dp q m) (point_key x)) [])"
    by (simp add: points_ok_get [OF add_point_ok [OF assms]])
  show "x \<in> insert q (points_of m)"
  proof (cases "point_key x = point_key q")
    case True
    then have "x = q \<or> x \<in> set (nullish (jget m (point_key x)) [])"
      using x by (auto simp: add_point_def Let_def split: if_splits)
    then show ?thesis by (auto simp: points_ok_get [OF assms(1)])
  next
    case False
    then have "x \<in> set (nullish (jget m (point_key x)) [])"
      using x by (auto simp: add_point_def Let_def split: if_splits)
    then show ?thesis by (simp add: points_ok_get [OF assms(1)])
  qed
qed

definition contact_models :: "string option \<Rightarrow> string option list" where
  "contact_models model = (case model of None \<Rightarrow> [None] | Some m \<Rightarrow> [None, Some m])"

definition add_contact ::
  "(string \<Rightarrow> int option) \<Rightarrow> execution_binding \<Rightarrow> string \<Rightarrow> int \<Rightarrow> string option \<Rightarrow>
   (string, success list) jsmap \<Rightarrow> (string, success list) jsmap" where
  "add_contact dp b observedAt now model m =
     foldl (\<lambda>m model. add_point dp (new_point b observedAt now model) m) m (contact_models model)"

lemma add_contact:
  assumes "points_ok m" and "plain_subject (eb_subject b) model"
  shows "points_ok (add_contact dp b observedAt now model m)"
    and "(\<exists>x \<in> points_of (add_contact dp b observedAt now model m). covers dp l k v x) \<longleftrightarrow>
         (\<exists>x \<in> points_of m. covers dp l k v x) \<or> answered dp l b model observedAt (k, v)"
    and "points_of (add_contact dp b observedAt now model m)
         \<subseteq> points_of m \<union> new_point b observedAt now ` {None, model}"
proof -
  let ?np = "new_point b observedAt now"
  have pl: "plain_point (?np None)" "plain_point (?np model)"
    using assms(2) by (simp_all add: plain_point_def new_point_def plain_subject_def)
  let ?m1 = "add_point dp (?np None) m"
  have m1: "points_ok ?m1" by (rule add_point_ok [OF assms(1) pl(1)])
  note c1 = add_point_covers [OF assms(1) pl(1), of dp l k v]
  note c2 = add_point_covers [OF m1 pl(2), of dp l k v]
  note s1 = points_of_add [OF assms(1) pl(1), of dp]
  note s2 = points_of_add [OF m1 pl(2), of dp]
  show "points_ok (add_contact dp b observedAt now model m)"
    using add_point_ok [OF m1 pl(2)] m1
    by (cases model) (simp_all add: add_contact_def contact_models_def)
  show "(\<exists>x \<in> points_of (add_contact dp b observedAt now model m). covers dp l k v x) \<longleftrightarrow>
      (\<exists>x \<in> points_of m. covers dp l k v x) \<or> answered dp l b model observedAt (k, v)"
  proof (cases model)
    case None
    with c1 show ?thesis by (simp add: add_contact_def contact_models_def covers_new_point)
  next
    case (Some n)
    have "answered dp l b None observedAt (k, v) \<Longrightarrow> answered dp l b (Some n) observedAt (k, v)"
      by (rule answered_wider)
    with c1 c2 Some show ?thesis
      by (auto simp add: add_contact_def contact_models_def covers_new_point)
  qed
  show "points_of (add_contact dp b observedAt now model m) \<subseteq> points_of m \<union> ?np ` {None, model}"
    using s1 s2 by (cases model) (auto simp: add_contact_def contact_models_def)
qed

lemma honorBound_accepted:
  assumes "current mutating (ul_credentials l) b" and "dp observedAt = Some t"
    and "\<not> (case dp (eb_startedAt b) of None \<Rightarrow> False | Some s \<Rightarrow> t < s)"
  shows "honorBound dp mutating now l b model observedAt =
    forget_excess dp (prune_ledger dp mutating now l
      \<lparr>ul_successes := add_contact dp b observedAt now model (ul_successes (prune_ledger dp mutating now l))\<rparr>)"
  using assms by (simp add: honorBound_def Let_def add_contact_def contact_models_def)

lemma honorBound_ok:
  assumes ok: "ledger_ok l" and plain: "plain_subject (eb_subject b) model"
  shows "ledger_ok (honorBound dp mutating now l b model observedAt)"
proof -
  let ?l1 = "prune_ledger dp mutating now l"
  have "ledger_ok (?l1\<lparr>ul_successes := add_contact dp b observedAt now model (ul_successes ?l1)\<rparr>)"
    using prune_ledger_ok [OF ok] add_contact(1) [OF _ plain] by (simp add: ledger_ok_def)
  from forget_excess_keeps [OF this] show ?thesis
    using ok honorBound_accepted [of mutating l b dp observedAt _ now model]
    by (auto simp: honorBound_def [of dp mutating now l b model observedAt] add_contact_def contact_models_def
        Let_def split: option.splits)
qed

text \<open>The refusals that are live after a contact, as a statement about the state before it.\<close>

lemma live_after_success:
  assumes ok: "ledger_ok l" and plain: "plain_subject (eb_subject b) model"
    and acc: "current mutating (ul_credentials l) b" "dp observedAt = Some t"
      "\<not> (case dp (eb_startedAt b) of None \<Rightarrow> False | Some s \<Rightarrow> t < s)"
  shows "set (unhealed dp (prune_ledger dp mutating now (honorBound dp mutating now l b model observedAt))) =
    {r \<in> set (unhealed dp (prune_ledger dp mutating now l)). \<not> answered dp l b model observedAt r}"
proof -
  define l1 where "l1 = prune_ledger dp mutating now l"
  define M where "M = add_contact dp b observedAt now model (ul_successes l1)"
  define l2 where "l2 = l1\<lparr>ul_successes := M\<rparr>"
  define l3 where "l3 = forget_excess dp l2"
  have h: "honorBound dp mutating now l b model observedAt = l3"
    by (simp add: honorBound_accepted [OF acc] l3_def l2_def M_def l1_def)
  have ok1: "ledger_ok l1" unfolding l1_def by (rule prune_ledger_ok [OF ok])
  then have p1: "points_ok (ul_successes l1)" by (simp add: ledger_ok_def)
  note c = add_contact [OF p1 plain, of dp observedAt now, folded M_def]
  have ok2: "ledger_ok l2" using ok1 c(1) by (simp add: ledger_ok_def l2_def)
  note f = forget_excess_keeps [OF ok2, of dp, folded l3_def]
  have alive: "point_lives mutating now (ul_credentials l3) q" if "q \<in> points_of (ul_successes l3)" for q
  proof -
    have cr: "ul_credentials l3 = ul_credentials l" using f by (simp add: l2_def l1_def)
    have "q \<in> points_of (ul_successes l1) \<or> q \<in> new_point b observedAt now ` {None, model}"
      using that f c(3) by (auto simp: l2_def)
    then show ?thesis
      using acc(1) ok unfolding l1_def
      by (auto simp: prune_points ledger_ok_def cr point_lives_def new_point_def MAX_TTL_MS_def)
  qed
  have fresh: "\<not> row_expired dp now (snd r)" if "r \<in> set (ul_rows l3)" for r
    using that f by (auto simp: l2_def l1_def prune_rows_of)
  have "set (unhealed dp (prune_ledger dp mutating now l3)) = set (unhealed dp l3)"
    using f by (intro prune_unhealed_id fresh alive) simp_all
  also have "\<dots> = set (unhealed dp l2)" using f by simp
  also have "\<dots> = {r \<in> set (unhealed dp l1). \<not> answered dp l b model observedAt r}"
  proof (intro set_eqI)
    fix r
    have "answered dp l1 b model observedAt r = answered dp l b model observedAt r" if "r \<in> set (ul_rows l1)"
      using prune_covers [of l r dp mutating now "new_point b observedAt now model"] that ok
      by (simp add: l1_def ledger_ok_def covers_new_point)
    moreover have "r \<in> set (unhealed dp l2) \<longleftrightarrow> r \<in> set (ul_rows l1) \<and>
        \<not> ((\<exists>x \<in> points_of (ul_successes l1). covers dp l1 (fst r) (snd r) x) \<or>
           answered dp l1 b model observedAt (fst r, snd r))"
      unfolding in_unhealed l2_def c(2) [symmetric] by simp
    ultimately show "r \<in> set (unhealed dp l2) \<longleftrightarrow>
        r \<in> {r \<in> set (unhealed dp l1). \<not> answered dp l b model observedAt r}"
      by (auto simp: in_unhealed)
  qed
  finally show ?thesis by (simp add: h l1_def)
qed

section \<open>Runs of the ledger\<close>

datatype unusable_op =
  DispatchBound "string \<Rightarrow> bool" int execution_subject
| RefusedBound "string \<Rightarrow> bool" int execution_binding unusable_observation
| RefusedUnbound "string \<Rightarrow> bool" int unusable_observation
| Contact "string \<Rightarrow> bool" int execution_binding "string option" string
| ReadRefused "string \<Rightarrow> bool" int
| ReadHonored "string \<Rightarrow> bool" int
| UnusableEveryChange
| UnusableSubjectChange string "string option" bool
| UnusableDefaultsChange

fun unusable_step ::
  "(string \<Rightarrow> int option) \<Rightarrow> (int \<Rightarrow> string) \<Rightarrow> unusable_ledger \<Rightarrow> unusable_op \<Rightarrow> unusable_ledger" where
  "unusable_step dp to_iso l (DispatchBound w now subject) = snd (ledger_bind to_iso w now l subject)"
| "unusable_step dp to_iso l (RefusedBound w now b v) =
     (case recordBound dp to_iso w now l b v of Inl e \<Rightarrow> l | Inr l' \<Rightarrow> l')"
| "unusable_step dp to_iso l (RefusedUnbound w now v) =
     (case record_unbound dp to_iso w now l v of
        Inl e \<Rightarrow> l\<lparr>ul_credentials := (ul_credentials l)\<lparr>gx_dispatchOrder := gx_dispatchOrder (ul_credentials l) + 1\<rparr>\<rparr>
      | Inr l' \<Rightarrow> l')"
| "unusable_step dp to_iso l (Contact w now b model observedAt) = honorBound dp w now l b model observedAt"
| "unusable_step dp to_iso l (ReadRefused w now) = snd (live_refusals dp w now l)"
| "unusable_step dp to_iso l (ReadHonored w now) = snd (honored dp w now l)"
| "unusable_step dp to_iso l UnusableEveryChange = fst (unusable_noteCredentialChange l)"
| "unusable_step dp to_iso l (UnusableSubjectChange h p keeps) = fst (unusable_clearSubject l h p keeps)"
| "unusable_step dp to_iso l UnusableDefaultsChange = unusable_clearDefaultSubjects l"

fun plain_op :: "unusable_op \<Rightarrow> bool" where
  "plain_op (Contact w now b model observedAt) = plain_subject (eb_subject b) model"
| "plain_op x = True"

definition newUnusableLedger :: unusable_ledger where
  "newUnusableLedger =
     \<lparr>ul_rows = [], ul_orders = [], ul_successes = [], ul_credentials = newCredentialGeneration\<rparr>"

definition unusable_run ::
  "(string \<Rightarrow> int option) \<Rightarrow> (int \<Rightarrow> string) \<Rightarrow> unusable_op list \<Rightarrow> unusable_ledger" where
  "unusable_run dp to_iso xs = foldl (unusable_step dp to_iso) newUnusableLedger xs"

definition unusable_inv :: "unusable_ledger \<Rightarrow> bool" where
  "unusable_inv l \<longleftrightarrow>
     ledger_ok l \<and> length (ul_rows l) \<le> MAX_ROWS \<and> length (positivePoints l) \<le> MAX_ROWS"

lemma length_retain: "length (concat (jvalues (retain_points P m))) \<le> length (concat (jvalues m))"
  unfolding map_snd_tagged_points [symmetric] tagged_points_retain by simp

lemma length_concat_filter: "length (concat (jvalues (filter P m))) \<le> length (concat (jvalues m))"
  by (induction m) auto

lemma unusable_inv_drop: "unusable_inv l \<Longrightarrow> unusable_inv (drop_rows P l)"
  using ledger_ok_drop [of l P] order_trans [OF length_filter_le [of "\<lambda>r. \<not> P r" "ul_rows l"]]
  by (simp add: unusable_inv_def positivePoints_def drop_rows_def)

lemma unusable_inv_credentials [simp]: "unusable_inv (l\<lparr>ul_credentials := g\<rparr>) = unusable_inv l"
  by (simp add: unusable_inv_def ledger_ok_def positivePoints_def)

lemma unusable_inv_filter: "unusable_inv l \<Longrightarrow> unusable_inv (l\<lparr>ul_successes := filter P (ul_successes l)\<rparr>)"
  using length_concat_filter [of P "ul_successes l"]
  by (simp add: unusable_inv_def ledger_ok_def positivePoints_def points_ok_filter)

lemma unusable_inv_prune: "unusable_inv l \<Longrightarrow> unusable_inv (prune_ledger dp mutating now l)"
  unfolding prune_ledger_def
  using length_retain [of "\<lambda>_. point_lives mutating now (ul_credentials l)" "ul_successes l"]
  by (intro unusable_inv_drop) (simp add: unusable_inv_def ledger_ok_def points_ok_retain positivePoints_def)

lemma put_refusal_inv:
  assumes i: "unusable_inv l"
  shows "unusable_inv (put_refusal dp to_iso v order expires (make_room dp (observation_key v) l))"
proof -
  let ?k = "observation_key v"
  define l1 where "l1 = make_room dp ?k l"
  have s: "ul_successes l1 = ul_successes l" by (simp add: l1_def make_room_def split: option.splits)
  have k: "keyed (ul_rows l)" using i by (simp add: unusable_inv_def ledger_ok_def)
  have rows: "keyed (ul_rows l1) \<and> length (jset ?k w (ul_rows l1)) \<le> MAX_ROWS \<and>
      length (ul_rows l1) \<le> MAX_ROWS" for w
  proof (cases "MAX_ROWS \<le> length (ul_rows l) \<and> jget (ul_rows l) ?k = None")
    case True
    then have "ul_rows l \<noteq> []" by (auto simp: MAX_ROWS_def)
    then obtain e where e: "earliest_key dp uo_expires_at (ul_rows l) = Some e"
      by (cases "ul_rows l") (auto simp: earliest_key_def)
    have "Suc (length (jdelete e (ul_rows l))) = length (ul_rows l)"
      by (rule length_jdelete_keyed [OF k earliest_key_present [OF e]])
    with True e i k show ?thesis by (simp add: l1_def make_room_def unusable_inv_def length_jset)
  next
    case False
    then have "ul_rows l1 = ul_rows l" by (auto simp: l1_def make_room_def)
    moreover have "length (ul_rows l) < MAX_ROWS \<or> ?k \<in> fst ` set (ul_rows l)"
      using False by (auto simp: map_of_eq_None_iff)
    ultimately show ?thesis using i k by (auto simp: unusable_inv_def length_jset)
  qed
  show ?thesis
    unfolding l1_def [symmetric]
    using rows i s by (simp add: unusable_inv_def ledger_ok_def positivePoints_def put_refusal_def Let_def)
qed

lemma store_refusal_inv:
  "unusable_inv l \<Longrightarrow> store_refusal dp to_iso mutating now l v order = Inr l' \<Longrightarrow> unusable_inv l'"
  using unusable_inv_prune [of l dp mutating now] put_refusal_inv
  by (auto simp: store_refusal_def Let_def split: if_splits option.splits)

lemma recordBound_inv:
  "unusable_inv l \<Longrightarrow> recordBound dp to_iso mutating now l b v = Inr l' \<Longrightarrow> unusable_inv l'"
  using store_refusal_inv by (auto simp: recordBound_def split: if_splits)

lemma honorBound_inv:
  assumes i: "unusable_inv l" and plain: "plain_subject (eb_subject b) model"
  shows "unusable_inv (honorBound dp mutating now l b model observedAt)"
proof -
  let ?l1 = "prune_ledger dp mutating now l"
  let ?l2 = "?l1\<lparr>ul_successes := add_contact dp b observedAt now model (ul_successes ?l1)\<rparr>"
  have i1: "unusable_inv ?l1" by (rule unusable_inv_prune [OF i])
  then have "ledger_ok ?l2" using add_contact(1) [OF _ plain] by (simp add: unusable_inv_def ledger_ok_def)
  note f = forget_excess_keeps [OF this, of dp]
  have "length (ul_rows (forget_excess dp ?l2)) \<le> MAX_ROWS"
  proof -
    have kd: "distinct (ul_rows (forget_excess dp ?l2))"
      using f by (simp add: ledger_ok_def keyed_def distinct_map)
    have "card (set (ul_rows (forget_excess dp ?l2))) \<le> card (set (ul_rows ?l1))"
      using f by (intro card_mono) auto
    also have "\<dots> \<le> length (ul_rows ?l1)" by (rule card_length)
    finally show ?thesis using i1 distinct_card [OF kd] by (simp add: unusable_inv_def)
  qed
  with f have "unusable_inv (forget_excess dp ?l2)" by (simp add: unusable_inv_def)
  with i show ?thesis
    by (auto simp: honorBound_def add_contact_def contact_models_def Let_def split: option.splits)
qed

lemma unusable_step_inv:
  assumes i: "unusable_inv l" and x: "plain_op x"
  shows "unusable_inv (unusable_step dp to_iso l x)"
proof (cases x)
  case (RefusedUnbound w now v)
  then show ?thesis
    using i recordBound_inv [of "l\<lparr>ul_credentials := _\<rparr>" dp to_iso w now]
    by (auto simp: record_unbound_def ledger_bind_def Let_def split: sum.splits prod.splits)
next
  case (UnusableSubjectChange h p keeps)
  then show ?thesis
    using i unusable_inv_drop unusable_inv_filter
    by (simp add: unusable_clearSubject_def Let_def split: prod.split)
next
  case UnusableDefaultsChange
  have "unusable_inv (l\<lparr>ul_credentials := gen_clearDefaultSubjects (ul_credentials l),
      ul_successes := filter (\<lambda>e. \<not> second_part_empty (fst e)) (ul_successes l)\<rparr>)"
    using unusable_inv_filter [of "l\<lparr>ul_credentials := gen_clearDefaultSubjects (ul_credentials l)\<rparr>"] i by simp
  with UnusableDefaultsChange show ?thesis by (simp add: unusable_clearDefaultSubjects_def unusable_inv_drop)
next
  case UnusableEveryChange
  then show ?thesis
    by (simp add: unusable_noteCredentialChange_def unusable_inv_def ledger_ok_def points_ok_def
        positivePoints_def split: prod.split)
next
  case (DispatchBound w now subject)
  with i show ?thesis by (simp add: ledger_bind_def split: prod.split)
next
  case (RefusedBound w now b v)
  with i show ?thesis using recordBound_inv [OF i] by (auto split: sum.splits)
next
  case (Contact w now b model observedAt)
  with i x show ?thesis by (simp add: honorBound_inv)
qed (use i in \<open>simp_all add: live_refusals_def honored_def Let_def unusable_inv_prune\<close>)

lemma unusable_run_inv: "list_all plain_op xs \<Longrightarrow> unusable_inv (unusable_run dp to_iso xs)"
proof -
  have "unusable_inv l \<Longrightarrow> list_all plain_op xs \<Longrightarrow> unusable_inv (foldl (unusable_step dp to_iso) l xs)" for l
    by (induction xs arbitrary: l) (simp_all add: unusable_step_inv)
  moreover have "unusable_inv newUnusableLedger"
    by (simp add: newUnusableLedger_def unusable_inv_def ledger_ok_def points_ok_def positivePoints_def)
  ultimately show "list_all plain_op xs \<Longrightarrow> ?thesis" by (simp add: unusable_run_def)
qed

text \<open>C30: Recovery proof is never lost to the bound. In a ledger that has seen any operations, a contact
  that is accepted (its binding is current, its instant is a date not before the dispatch) leaves
  live exactly the refusals that were live and that it does not answer, whatever older contacts
  the ledger forgets to stay within 64 points: nothing healed is resurrected, nothing newer is
  healed. Rows and points stay within their bounds. Names in a subject are not empty and contain no NUL.
\<close>

theorem success_heals_exactly:
  assumes "list_all plain_op xs" and l: "l = unusable_run dp to_iso xs"
    and "plain_subject (eb_subject b) model"
    and "current mutating (ul_credentials l) b" and "dp observedAt = Some t"
    and "\<not> (case dp (eb_startedAt b) of None \<Rightarrow> False | Some s \<Rightarrow> t < s)"
  shows "set (fst (live_refusals dp mutating now (honorBound dp mutating now l b model observedAt))) =
      snd ` {r \<in> set (unhealed dp (prune_ledger dp mutating now l)). \<not> answered dp l b model observedAt r} \<and>
    length (ul_rows (honorBound dp mutating now l b model observedAt)) \<le> 64 \<and>
    length (positivePoints (honorBound dp mutating now l b model observedAt)) \<le> 64"
proof -
  have i: "unusable_inv l" unfolding l by (rule unusable_run_inv [OF assms(1)])
  then have "ledger_ok l" by (simp add: unusable_inv_def)
  note live = live_after_success [OF this assms(3-6), of now]
  from honorBound_inv [OF i assms(3), of dp mutating now observedAt] live show ?thesis
    by (simp add: live_refusals_def Let_def unusable_inv_def MAX_ROWS_def)
qed

definition ex_binding :: execution_binding where
  "ex_binding =
     \<lparr>eb_subject = \<lparr>es_harnessId = ''codex'', es_profileId = Some ''a'', es_route = Some VendorNative,
                    es_requestedModel = None\<rparr>,
      eb_generation = Some 0, eb_order = 1, eb_startedAt = []\<rparr>"

lemma ex_binding_current: "current (\<lambda>_. False) (ul_credentials (unusable_run dp to_iso [])) ex_binding"
  by (simp add: current_def ex_binding_def unusable_run_def newUnusableLedger_def
      newCredentialGeneration_def generation_of_def)

lemma ex_binding_plain: "plain_subject (eb_subject ex_binding) None"
  by (simp add: plain_subject_def ex_binding_def plain_text_def char_of_def)

theorem success_heals_exactly_witness:
  "length (positivePoints (honorBound ex_parse (\<lambda>_. False) 0 (unusable_run ex_parse ex_iso []) ex_binding None [])) \<le> 64"
  using success_heals_exactly [of "[]" _ ex_parse ex_iso ex_binding None "\<lambda>_. False" "[]" 0 0,
      OF _ refl ex_binding_plain ex_binding_current]
  by (simp add: ex_parse_def ex_binding_def)

section \<open>Back in rotation\<close>

text \<open>
  An account that answered is offered again. The ledger's live refusals after an accepted contact
  give the run no reason to call the account's credential dead, for the contact's model and route,
  provided every stored refusal that matches was bound to no newer dispatch and observed no later
  than the contact.
\<close>

theorem served_account_is_offered_again:
  assumes "list_all plain_op xs" and l: "l = unusable_run dp to_iso xs"
    and plain: "plain_subject (eb_subject b) model"
    and acc: "current mutating (ul_credentials l) b" "dp observedAt = Some t"
      "\<not> (case dp (eb_startedAt b) of None \<Rightarrow> False | Some s \<Rightarrow> t < s)"
    and subject: "es_harnessId (eb_subject b) = h" "es_profileId (eb_subject b) = Some p"
    and before: "\<And>r. r \<in> set (ul_rows l) \<Longrightarrow> refusal_matches (snd r) (eb_subject b) model \<Longrightarrow>
      order_at_most l (fst r) (eb_order b) \<and> not_after dp (uo_observed_at (snd r)) observedAt"
  shows "applicableCredentialUnusable dp now h p
    \<lparr>ev_quota = q,
     ev_unusable = fst (live_refusals dp mutating now (honorBound dp mutating now l b model observedAt)),
     ev_model = Some model, ev_route = Some (es_route (eb_subject b))\<rparr> = None"
    (is "applicableCredentialUnusable dp now h p ?ev = None")
proof -
  have "ledger_ok l" using unusable_run_inv [OF assms(1)] l by (simp add: unusable_inv_def)
  note live = live_after_success [OF this plain acc, of now]
  have "\<not> unusable_applies dp now h p ?ev ob" if "ob \<in> set (ev_unusable ?ev)" for ob
  proof
    assume a: "unusable_applies dp now h p ?ev ob"
    from that obtain r where r: "ob = snd r" "r \<in> set (unhealed dp (prune_ledger dp mutating now l))"
        "\<not> answered dp l b model observedAt r"
      using live by (auto simp: live_refusals_def Let_def)
    have "refusal_matches (snd r) (eb_subject b) model"
      using a r(1) subject by (auto simp: unusable_applies_def refusal_matches_def)
    moreover have "r \<in> set (ul_rows l)" using r(2) by (simp add: in_unhealed prune_rows_of)
    ultimately show False using before r(3) by (simp add: answered_def)
  qed
  then show ?thesis by (auto simp: applicableCredentialUnusable_def find_None_iff)
qed

theorem served_account_is_offered_again_witness:
  "applicableCredentialUnusable ex_parse 0 ''codex'' ''a''
    \<lparr>ev_quota = None,
     ev_unusable = fst (live_refusals ex_parse (\<lambda>_. False) 0
       (honorBound ex_parse (\<lambda>_. False) 0 (unusable_run ex_parse ex_iso []) ex_binding None [])),
     ev_model = Some None, ev_route = Some (es_route (eb_subject ex_binding))\<rparr> = None"
proof (rule served_account_is_offered_again [of "[]" _ ex_parse ex_iso, OF _ refl ex_binding_plain ex_binding_current])
  show "list_all plain_op []" by simp
  show "ex_parse [] = Some 0" by (simp add: ex_parse_def)
  show "\<not> (case ex_parse (eb_startedAt ex_binding) of None \<Rightarrow> False | Some s \<Rightarrow> 0 < s)"
    by (simp add: ex_parse_def ex_binding_def)
  show "es_harnessId (eb_subject ex_binding) = ''codex''" "es_profileId (eb_subject ex_binding) = Some ''a''"
    by (simp_all add: ex_binding_def)
qed (simp add: unusable_run_def newUnusableLedger_def)

section \<open>A refusal without a date\<close>

text \<open>
  An observation whose instant is no date (the schema asks for a non-empty string) but whose expiry
  is one leaves an order without a row. Expiry visits the rows, so nothing removes that order later.
\<close>

lemma undated_refusal_leaks_its_order:
  assumes "observation_valid v" "uo_source v = LocalProbe" "\<not> mutating (uo_harness_id v)"
    and "dp (uo_observed_at v) = None" "dp (uo_expires_at v) = Some e" "now < e"
  shows "\<exists>l. store_refusal dp to_iso mutating now newUnusableLedger v order = Inr l \<and> ul_rows l = [] \<and>
    jget (ul_orders (prune_ledger dp mutating later_clock l)) (observation_key v) = Some order"
proof -
  have "now < min e (now + MAX_TTL_MS)" using assms(6) by (simp add: MAX_TTL_MS_def)
  then show ?thesis
    using assms
    by (auto simp: store_refusal_def capped_expiry_def prune_ledger_def drop_rows_def retain_points_def
        newUnusableLedger_def put_refusal_def make_room_def supersedes_def MAX_ROWS_def Let_def)
qed

end

