(* ===== verification/Spec2Isabelle.thy ===== *)
theory Spec2Isabelle
  imports Ledger_Props Router_Props Quota_Props Usage_Props Metrics_Props Arbitration_Props
    Policy_Props Diff_Props Delivery_Props Review_Props Pacer_Props Interaction_Props Snapshot_Props
    Unusable_Props
begin

text \<open>
  Claudexor is a local control plane that runs coding agents (harnesses) on a task, pays for them
  out of a budget, and decides which of their results to recommend. This development models the
  parts of it that decide and the parts that remember: the budget, the quota evidence, the choice
  of an account and its rotation, the policy and the gates of a result, the arbitration, and the
  journals and tables that the daemon keeps. The paths below are under \<open>src/packages\<close>.

  \<^bold>\<open>How the parts interact.\<close> A caller asks the router (\<open>budget/src/router.ts\<close>) for an ordered pool
  of routes; the router asks the ledger which routes are cooling and how much quota slack they
  have. Each attempt reserves a lease in the ledger (\<open>budget/src/ledger.ts\<close>), which refuses work the
  cap cannot carry. An attempt without a pinned account takes one from the account pool
  (\<open>orchestrator/src/account-pool.ts\<close>), which reads quota snapshots, marks of recent refusals and the
  last-served facts; when the account meets a limit, \<open>rotateSpecOnTypedLimit\<close> decides whether and
  with which account the attempt is run again. What a try has learned is written to the daemon's
  ledgers, bound to the credential generation it started with. While the attempt runs, its events
  feed a usage tracker (\<open>budget/src/usage-evidence.ts\<close>) and leave quota observations; at the end the
  tracker's totals become a settlement that the ledger books on the finances a run family shares
  (\<open>budget/src/shared-financial-state.ts\<close>). The diff of a result is parsed and every path checked
  against the policy, gates and reviews are evaluated, and the candidates become evidence that
  arbitration (\<open>arbitration/src/arbitration.ts\<close>) turns into a ranking and a decision record; the
  apply gate (\<open>delivery/src\<close>) reads that record again before anything is applied. The daemon
  journals what happens: frames in files, a fold that forgets what later events supersede, and the
  SQL event store that does the same in a table, with the durable questions on top.

  \<^bold>\<open>Theories.\<close>
  \<^item> \<open>Prelude\<close>: optional values, insertion-ordered maps and sets, number printing. \<open>Json\<close>,
    \<open>Text_Ops\<close>: string methods, UTF-8 decoding and JSON text. \<open>Paths\<close>, \<open>Glob\<close>: path normalisation and
    glob matching. \<open>Ordering\<close>: the stable array sort and the locale \<open>comparator\<close>. \<open>Machine\<close>: reachable
    states and runs of a step relation, the locale \<open>machine\<close> for invariants and its extension
    \<open>monotone_machine\<close> for what runs only increase.
  \<^item> \<open>Budget_Schema\<close>, \<open>Review_Schema\<close>, \<open>Delivery_Schema\<close>: the data of \<open>schema/src\<close> and the
    validation rules the code relies on.
  \<^item> \<open>Usage_Evidence\<close>: \<open>UsageCostTracker\<close> as a record with one function per method.
    \<open>Settlements\<close>: settlements and cost evidence, with the locale \<open>certainty_merge\<close> for the rule that
    the worst certainty wins. \<open>Attempt_Usage\<close>: from the event stream to the settlement.
  \<^item> \<open>Shared_Finance\<close>, \<open>Ledger\<close>: the finances and \<open>BudgetLedger\<close>; a view (root or task) and
    the finances are passed explicitly and every exception is a value of \<open>ledger_error\<close>.
    \<open>Ledger_Inv\<close>: the invariant, its preservation by each operation, the step relation.
  \<^item> \<open>Quota\<close>, \<open>Quota_Availability\<close>, \<open>Quota_Scope\<close>, \<open>Ledger_Quota\<close>, \<open>Observe\<close>: quota windows and
    identities, the availability projection, journaled scopes, cooldown and pacing queries, the
    observations of one event. \<open>Poll_Pacer\<close>: the back-off of quota polls.
  \<^item> \<open>Router\<close>: eligibility, the comparators of the goals, ranking and rationale. \<open>Metrics\<close>: rolling
    averages and their file.
  \<^item> \<open>Accounts\<close>, \<open>Account_Evidence\<close>: profiles, headroom breaches and live blocks, dead credentials and
    readiness. \<open>Account_Pool\<close>: verdict, ranking and selection. \<open>Rotation\<close>: the reactive rotation, its
    terminal, the preflight and the assembly of an answer. \<open>Refusal_Memory\<close>: what one try writes.
  \<^item> \<open>Evidence_Ledgers\<close>: \<open>CredentialGeneration\<close> with its bindings, and the ledgers of refusals and
    substitutions. \<open>Account_Service\<close>: the table \<open>account_last_service\<close> and its owner
    \<open>createAccountEvidence\<close>. \<open>Unusable_Ledger\<close>: \<open>CredentialUnusableLedger\<close>.
  \<^item> \<open>Policy\<close>, \<open>Diff\<close>, \<open>Review\<close>, \<open>Gates\<close>, \<open>Synthesis\<close>, \<open>Apply_Gate\<close>: path and risk policy, the unified
    diff parser, review convergence and route proof, gates, the decision to synthesise, the apply gate.
    \<open>Arbitration\<close>, \<open>Candidate_Evidence\<close>: the axes, the comparison, the verdict and the record; how a run
    becomes evidence.
  \<^item> \<open>Journal_Fold\<close>, \<open>Journal_Fold_Inv\<close>, \<open>Journal_Policy\<close>: the fold engine, its invariant, and the
    verdict of each event type. \<open>Event_Store\<close>: the SQL store and command retention. \<open>Interactions\<close>:
    durable questions. \<open>Frame_Codec\<close>, \<open>Frame_Reader\<close>: the journal's file format and its two readers.
  \<^item> The theories ending in \<open>_Props\<close> hold the properties, each with a concrete instance of its
    hypotheses. \<open>Account_Props\<close> states the interface \<open>last_service\<close> that the pool relies on, and
    \<open>Service_Props\<close> interprets it on the table.

  \<^bold>\<open>What is shown.\<close>
  \<^item> Ledger: the invariant of all reachable states under any interleaving of root and task views, when a
    reservation is granted and why it is refused, that granted estimates stay within the cap, what a
    settlement books, that a lease is booked once. Usage: amounts are counted once, doubt about cash
    is permanent. Router: a ranking is the stable sort of the eligible pool. Metrics: what is recorded
    is read back.
  \<^item> Quota: the projection shown to users and the ledger's admission agree for a run without a model; a
    retry-after is honoured under every alias of a subject, and polling resumes.
  \<^item> Accounts: the pool selects exactly when a row is spendable, in a stated order that does not depend on
    the registry; a rotation never repeats an account, never changes the way of payment and ends; a
    reset is reported only when it is known. A binding is current exactly when no change touched its
    account; a late outcome writes nothing; a try claims service, and withdraws the claim, exactly as its
    events say; the ledgers are bounded and lose a live row only when full; a success removes exactly the
    refusals it answers, whatever is forgotten to stay within the bound; the account that served last is
    chosen again; a credential change is never half forgotten.
  \<^item> Results: the parser reads back the patches git prints (\<open>render_diff\<close> of \<open>Diff_Props\<close> follows git's
    patch format, its extended headers, its default quoting of names and its binary parts; the names the
    parser gets wrong are excluded and shown by lemmas), so every changed path of a patch is
    governed by the policy; a passing apply gate is earned by the record, stated on the fields of the
    decision; the recommendation agrees with the evidence.
  \<^item> Journals: the fold engine keeps exactly what its policy says, compaction is invisible, the SQL store
    is the fold, pending questions are retained requests, replayed records are well formed, a torn
    tail is told from corruption, the positional reader agrees with the replay, a printed snapshot is
    read back.
  \<^item> Where the code parts from its comments or from its other half, a lemma shows it (for example
    \<open>text_order_is_not_time_order\<close>, \<open>colliding_question_is_forgotten\<close>, \<open>astral_path_is_garbled\<close>,
    \<open>boundary_in_name_is_misread\<close>, \<open>failed_run_asking_input_passes\<close>,
    \<open>undated_refusal_leaks_its_order\<close>, \<open>advisory_failure_fails_checks\<close>).

  \<^bold>\<open>Conventions and limits.\<close> Amounts, ratios and durations are rationals, so rounding of doubles and
  not-a-number are not modelled there; a credential generation that is not a number is \<open>None\<close>.
  Instants are integers of milliseconds, counters are exact. Strings are byte lists with ASCII case and
  white space. Parameters stand for what the model does not compute: \<open>dp\<close> for \<open>Date.parse\<close>, \<open>num\<close> for the
  printing of a number, \<open>sha\<close> and the fields of \<open>codec\<close> for digests, parsers and gunzip, \<open>clock\<close>, \<open>now\<close>,
  \<open>ts\<close> and \<open>to_iso\<close> for the clock (one value for each operation), fresh identifiers; every
  statement holds for all of them unless a hypothesis says otherwise. A probe of an adapter is given by
  its answer, a login window by the argument \<open>mutating\<close> or \<open>window\<close>. A value that is undefined, null or
  present is an option of an option where the code distinguishes the three. No recursion needs fuel:
  loops over lists are structural, and the others come with a measure (\<open>retention_pages\<close>,
  \<open>replay_from\<close>, \<open>fill_window\<close>, \<open>read_loop\<close>, \<open>forget_excess\<close>).

  \<^bold>\<open>Not modelled.\<close> File, process and network effects (workspaces, the adapters, object delivery,
  control surfaces, the daemon's servers and queues), \<open>orchestrator.ts\<close> itself, the quota registry with
  its poll lanes, the ledger of model capabilities, and the user interface: there the source
  mostly sequences effects of other programs, or the state is spread over promises and processes.
\<close>

end
